(* ===== verification/Prelude.thy ===== *)
theory Prelude
  imports Main "HOL-Library.Word" "HOL-Library.Sublist" "HOL-Library.Char_ord"
    "HOL-Library.List_Lexorder" "HOL-Library.Multiset"
begin

text \<open>
  What the components of the model share: the C++ string and integer types, the searches of
  \<open>std::string\<close> (\<open>find\<close>, \<open>rfind\<close>, \<open>substr\<close>), the character classes of the C locale, and the
  collections of hints the component theories use.

  A \<open>std::string\<close> (and a \<open>std::string_view\<close>) is a list of bytes, HOL's \<open>string\<close>; a position
  in it is a \<open>nat\<close>, and \<open>std::string::npos\<close> is \<open>None\<close>. \<open>std::int64_t\<close> and
  \<open>std::uint64_t\<close> are 64-bit words, read by \<open>sint\<close> and \<open>unat\<close>.
\<close>

type_synonym i64 = "64 word"
type_synonym u64 = "64 word"

named_theorems byte_simps \<open>evaluation of byte comparisons\<close>
named_theorems find_facts \<open>what a successful search says of the text\<close>

section \<open>Searching a string\<close>

text \<open>\<open>text.find(needle)\<close>: the first position at which the needle starts.\<close>

fun find_sub :: "'a list \<Rightarrow> 'a list \<Rightarrow> nat option" where
  "find_sub needle [] = (if needle = [] then Some 0 else None)"
| "find_sub needle (c # cs) =
     (if prefix needle (c # cs) then Some 0 else map_option Suc (find_sub needle cs))"

text \<open>\<open>text.find(needle, from)\<close>: a start past the end finds nothing.\<close>

definition find_sub_from :: "'a list \<Rightarrow> 'a list \<Rightarrow> nat \<Rightarrow> nat option" where
  "find_sub_from needle t from =
     (if length t < from then None else map_option ((+) from) (find_sub needle (drop from t)))"

text \<open>\<open>text.find(c)\<close> and \<open>text.rfind(c)\<close> for a single character.\<close>

fun find_char :: "'a \<Rightarrow> 'a list \<Rightarrow> nat option" where
  "find_char x [] = None"
| "find_char x (c # cs) = (if c = x then Some 0 else map_option Suc (find_char x cs))"

fun rfind_char :: "'a \<Rightarrow> 'a list \<Rightarrow> nat option" where
  "rfind_char x [] = None"
| "rfind_char x (c # cs) =
     (case rfind_char x cs of Some i \<Rightarrow> Some (Suc i) | None \<Rightarrow> if c = x then Some 0 else None)"

text \<open>\<open>text.substr(pos, n)\<close> for a position inside the text.\<close>

definition substr :: "'a list \<Rightarrow> nat \<Rightarrow> nat \<Rightarrow> 'a list" where
  "substr t pos n = take n (drop pos t)"

lemma find_sub_Some:
  "find_sub needle t = Some i \<Longrightarrow>
     i + length needle \<le> length t \<and> t = take i t @ needle @ drop (i + length needle) t"
proof (induction needle t arbitrary: i rule: find_sub.induct)
  case (1 needle)
  then show ?case by (simp split: if_splits)
next
  case (2 needle c cs)
  show ?case
  proof (cases "prefix needle (c # cs)")
    case True
    then have "length needle \<le> length (c # cs)" by (rule prefix_length_le)
    with True 2 show ?thesis by (auto simp: prefix_def)
  next
    case False
    with 2 show ?thesis by auto
  qed
qed

lemma find_sub_Some_bound [find_facts]: "find_sub needle t = Some i \<Longrightarrow> i + length needle \<le> length t"
  using find_sub_Some by blast

lemma find_sub_None_iff: "find_sub needle t = None \<longleftrightarrow> \<not> sublist needle t"
proof (induction needle t rule: find_sub.induct)
  case (1 needle)
  then show ?case by simp
next
  case (2 needle c cs)
  then show ?case by (auto simp: sublist_Cons_right)
qed

lemma find_sub_eq_Some_iff_sublist: "(\<exists>i. find_sub needle t = Some i) \<longleftrightarrow> sublist needle t"
  using find_sub_None_iff [of needle t] by (cases "find_sub needle t") auto

text \<open>The found position is the first one.\<close>

lemma find_sub_least: "find_sub needle t = Some i \<Longrightarrow> j < i \<Longrightarrow> \<not> prefix needle (drop j t)"
proof (induction needle t arbitrary: i j rule: find_sub.induct)
  case (1 needle)
  then show ?case by (simp split: if_splits)
next
  case (2 needle c cs)
  then show ?case by (cases j) (auto split: if_splits)
qed

lemma find_sub_from_Some:
  assumes "find_sub_from needle t from = Some i"
  shows "from \<le> i" and "i + length needle \<le> length t" and "prefix needle (drop i t)"
proof -
  from assms obtain k where le: "from \<le> length t" and k: "find_sub needle (drop from t) = Some k"
    and i: "i = from + k"
    by (auto simp: find_sub_from_def split: if_splits)
  from find_sub_Some [OF k] have kl: "k + length needle \<le> length t - from"
    and eq: "drop from t = take k (drop from t) @ needle @ drop (k + length needle) (drop from t)"
    by simp_all
  show "from \<le> i" using i by simp
  show "i + length needle \<le> length t" using i kl le by simp
  have "drop k (drop from t) = needle @ drop (k + length needle) (drop from t)"
    by (subst eq) (use kl in simp)
  then show "prefix needle (drop i t)" by (auto simp: i add.commute prefix_def)
qed

lemma find_char_Some:
  "find_char x t = Some i \<Longrightarrow> i < length t \<and> t ! i = x \<and> t = take i t @ x # drop (Suc i) t \<and> x \<notin> set (take i t)"
  by (induction t arbitrary: i) (auto split: if_splits)

lemma find_char_None_iff: "find_char x t = None \<longleftrightarrow> x \<notin> set t"
  by (induction t) auto

lemma find_char_append: "x \<notin> set s \<Longrightarrow> find_char x (s @ x # t) = Some (length s)"
  by (induction s) auto

lemma find_char_append_None:
  "x \<notin> set s \<Longrightarrow> find_char x (s @ t) = map_option ((+) (length s)) (find_char x t)"
  by (induction s) (auto simp: map_option_case split: option.splits dest: find_char_Some)

lemma rfind_char_Some:
  "rfind_char x t = Some i \<Longrightarrow> i < length t \<and> t ! i = x \<and> t = take i t @ x # drop (Suc i) t \<and> x \<notin> set (drop (Suc i) t)"
proof (induction t arbitrary: i)
  case Nil
  then show ?case by simp
next
  case (Cons c cs)
  have none: "rfind_char x cs = None \<Longrightarrow> x \<notin> set cs"
    by (induction cs) (auto split: option.splits if_splits)
  from Cons none show ?case by (auto split: option.splits if_splits)
qed

lemma rfind_char_None_iff: "rfind_char x t = None \<longleftrightarrow> x \<notin> set t"
  by (induction t) (auto split: option.splits)

lemma rfind_char_append: "x \<notin> set t \<Longrightarrow> rfind_char x (s @ x # t) = Some (length s)"
  by (induction s) (auto simp: rfind_char_None_iff [symmetric] split: option.splits)

section \<open>Character classes of the C locale\<close>

definition byte :: "char \<Rightarrow> nat" where
  "byte c = of_char c"

lemma byte_Char [simp]:
  "byte (Char b0 b1 b2 b3 b4 b5 b6 b7) = of_char (Char b0 b1 b2 b3 b4 b5 b6 b7)"
  by (simp add: byte_def)

lemma byte_less_256 [simp]: "byte c < 256"
  by (simp add: byte_def nat_of_char_less_256)

lemma byte_inject [simp]: "byte c = byte d \<longleftrightarrow> c = d"
  by (simp add: byte_def)

lemma byte_char_of: "n < 256 \<Longrightarrow> byte (char_of n) = n"
  by (simp add: byte_def)

lemma char_of_byte [simp]: "char_of (byte c) = c"
  by (simp add: byte_def)

text \<open>\<open>std::isspace\<close>, \<open>std::isdigit\<close>, \<open>std::isalpha\<close>, \<open>std::isalnum\<close>, \<open>std::tolower\<close>
  and \<open>std::toupper\<close> on an \<open>unsigned char\<close>.\<close>

definition is_space :: "char \<Rightarrow> bool" where
  "is_space c \<longleftrightarrow> byte c = 32 \<or> 9 \<le> byte c \<and> byte c \<le> 13"

definition is_digit :: "char \<Rightarrow> bool" where
  "is_digit c \<longleftrightarrow> 48 \<le> byte c \<and> byte c \<le> 57"

definition is_upper :: "char \<Rightarrow> bool" where
  "is_upper c \<longleftrightarrow> 65 \<le> byte c \<and> byte c \<le> 90"

definition is_lower :: "char \<Rightarrow> bool" where
  "is_lower c \<longleftrightarrow> 97 \<le> byte c \<and> byte c \<le> 122"

definition is_alpha :: "char \<Rightarrow> bool" where
  "is_alpha c \<longleftrightarrow> is_upper c \<or> is_lower c"

definition is_alnum :: "char \<Rightarrow> bool" where
  "is_alnum c \<longleftrightarrow> is_alpha c \<or> is_digit c"

definition to_lower_char :: "char \<Rightarrow> char" where
  "to_lower_char c = (if is_upper c then char_of (byte c + 32) else c)"

definition to_upper_char :: "char \<Rightarrow> char" where
  "to_upper_char c = (if is_lower c then char_of (byte c - 32) else c)"

lemmas char_class_defs [byte_simps] =
  byte_def is_space_def is_digit_def is_upper_def is_lower_def is_alpha_def is_alnum_def
  to_lower_char_def to_upper_char_def

lemma byte_to_lower_char: "byte (to_lower_char c) = (if is_upper c then byte c + 32 else byte c)"
  by (auto simp: to_lower_char_def byte_char_of is_upper_def)

lemma to_lower_char_idem [simp]: "to_lower_char (to_lower_char c) = to_lower_char c"
  by (auto simp: to_lower_char_def byte_char_of is_upper_def)

lemma to_upper_char_idem [simp]: "to_upper_char (to_upper_char c) = to_upper_char c"
  by (auto simp: to_upper_char_def byte_char_of is_lower_def)

lemma not_upper_to_lower [simp]: "\<not> is_upper (to_lower_char c)"
  by (auto simp: to_lower_char_def byte_char_of is_upper_def)

section \<open>Decimal rendering\<close>

text \<open>\<open>std::to_string\<close> of an unsigned and of a signed integer.\<close>

definition digit_char :: "nat \<Rightarrow> char" where
  "digit_char d = char_of (48 + d)"

fun show_nat :: "nat \<Rightarrow> string" where
  "show_nat n = (if n < 10 then [digit_char n] else show_nat (n div 10) @ [digit_char (n mod 10)])"

declare show_nat.simps [simp del]

definition show_int :: "int \<Rightarrow> string" where
  "show_int i = (if i < 0 then CHR ''-'' # show_nat (nat (- i)) else show_nat (nat i))"

definition digit_val :: "char \<Rightarrow> nat" where
  "digit_val c = byte c - 48"

definition digits_val :: "string \<Rightarrow> nat" where
  "digits_val s = foldl (\<lambda>a c. 10 * a + digit_val c) 0 s"

lemma byte_digit_char [simp]: "d < 10 \<Longrightarrow> byte (digit_char d) = 48 + d"
  by (simp add: digit_char_def byte_char_of)

lemma digit_val_digit_char [simp]: "d < 10 \<Longrightarrow> digit_val (digit_char d) = d"
  by (simp add: digit_val_def)

lemma is_digit_digit_char [simp]: "d < 10 \<Longrightarrow> is_digit (digit_char d)"
  by (simp add: is_digit_def)

lemma show_nat_digits: "\<forall>c \<in> set (show_nat n). is_digit c"
proof (induction n rule: show_nat.induct)
  case (1 n)
  then show ?case by (subst show_nat.simps) auto
qed

lemma show_nat_nonempty [simp]: "show_nat n \<noteq> []"
  by (subst show_nat.simps) simp

lemma digits_val_show_nat [simp]: "digits_val (show_nat n) = n"
proof (induction n rule: show_nat.induct)
  case (1 n)
  then show ?case
    by (cases "n < 10") (subst show_nat.simps, auto simp: digits_val_def)+
qed

lemma show_nat_inject [simp]: "show_nat m = show_nat n \<longleftrightarrow> m = n"
  by (metis digits_val_show_nat)

text \<open>A rendered number has no leading zero, unless it is zero itself.\<close>

lemma show_nat_zero: "show_nat 0 = [CHR ''0'']"
  by (subst show_nat.simps) (simp add: digit_char_def char_of_eq_iff)

lemma hd_show_nat: "0 < n \<Longrightarrow> 49 \<le> byte (hd (show_nat n))"
proof (induction n rule: show_nat.induct)
  case (1 n)
  show ?case
  proof (cases "n < 10")
    case True
    with 1 show ?thesis by (subst show_nat.simps) auto
  next
    case False
    then have "49 \<le> byte (hd (show_nat (n div 10)))" using 1 by simp
    with False show ?thesis by (subst show_nat.simps) (simp add: hd_append)
  qed
qed

section \<open>Association lists keyed in insertion order\<close>

text \<open>
  A \<open>std::vector\<close> of pairs searched from the front: the first entry for a key is the one seen,
  storing a key replaces it in place and appends a new one at the end.
\<close>

fun alist_find :: "'k \<Rightarrow> ('k \<times> 'v) list \<Rightarrow> 'v option" where
  "alist_find k [] = None"
| "alist_find k ((k', v) # xs) = (if k' = k then Some v else alist_find k xs)"

fun alist_set :: "'k \<Rightarrow> 'v \<Rightarrow> ('k \<times> 'v) list \<Rightarrow> ('k \<times> 'v) list" where
  "alist_set k v [] = [(k, v)]"
| "alist_set k v ((k', v') # xs) = (if k' = k then (k', v) # xs else (k', v') # alist_set k v xs)"

lemma alist_find_map_of: "alist_find k xs = map_of xs k"
  by (induction xs) auto

lemma alist_find_set [simp]: "alist_find k (alist_set k' v xs) = (if k = k' then Some v else alist_find k xs)"
  by (induction xs) auto

lemma keys_alist_set:
  "map fst (alist_set k v xs) = (if k \<in> set (map fst xs) then map fst xs else map fst xs @ [k])"
  by (induction k v xs rule: alist_set.induct) auto

lemma distinct_alist_set [intro]: "distinct (map fst xs) \<Longrightarrow> distinct (map fst (alist_set k v xs))"
  by (auto simp: keys_alist_set)

lemma alist_set_fresh: "k \<notin> set (map fst xs) \<Longrightarrow> alist_set k v xs = xs @ [(k, v)]"
  by (induction xs) auto

lemma alist_find_None_iff: "alist_find k xs = None \<longleftrightarrow> k \<notin> fst ` set xs"
  by (simp add: alist_find_map_of map_of_eq_None_iff)

lemma snd_alist_set: "snd ` set (alist_set k v xs) \<subseteq> insert v (snd ` set xs)"
  by (induction k v xs rule: alist_set.induct) (auto split: if_splits)

end
