(* ===== verification/String_Utils.thy ===== *)
theory String_Utils
  imports Prelude
begin

text \<open>
  \<open>src/core/StringUtils.cpp\<close>: trimming, case folding, splitting and joining, replacement,
  truncation, the glob matcher, the redaction of credentials, the XML and HTML escapes, padding,
  hexadecimal, and the strict integer and boolean parsers.

  Each loop of the source is a recursive function over the same indices; the lemmas then relate
  it to a reference on lists (\<open>trim\<close>, \<open>containsIgnoreCase\<close>, \<open>globMatch\<close>), invert it
  (\<open>split\<close> and \<open>join\<close>, the escapes) or bound it (\<open>truncate\<close>, the padding).
\<close>

section \<open>Trimming and case\<close>

function trim_begin :: "string \<Rightarrow> nat \<Rightarrow> nat \<Rightarrow> nat" where
  "trim_begin t b e = (if b < e \<and> is_space (t ! b) then trim_begin t (b + 1) e else b)"
  by pat_completeness auto
termination by (relation "measure (\<lambda>(t, b, e). e - b)") auto

fun trim_end :: "string \<Rightarrow> nat \<Rightarrow> nat \<Rightarrow> nat" where
  "trim_end t b e = (if b < e \<and> is_space (t ! (e - 1)) then trim_end t b (e - 1) else e)"

declare trim_begin.simps [simp del] trim_end.simps [simp del]

definition trim :: "string \<Rightarrow> string" where
  "trim t = (let b = trim_begin t 0 (length t); e = trim_end t b (length t) in substr t b (e - b))"

definition toLower :: "string \<Rightarrow> string" where
  "toLower t = map to_lower_char t"

definition toUpper :: "string \<Rightarrow> string" where
  "toUpper t = map to_upper_char t"

definition startsWith :: "string \<Rightarrow> string \<Rightarrow> bool" where
  "startsWith t p \<longleftrightarrow> length p \<le> length t \<and> take (length p) t = p"

definition endsWith :: "string \<Rightarrow> string \<Rightarrow> bool" where
  "endsWith t s \<longleftrightarrow> length s \<le> length t \<and> drop (length t - length s) t = s"

definition contains :: "string \<Rightarrow> string \<Rightarrow> bool" where
  "contains t needle \<longleftrightarrow> find_sub needle t \<noteq> None"

definition equalsIgnoreCase :: "string \<Rightarrow> string \<Rightarrow> bool" where
  "equalsIgnoreCase a b \<longleftrightarrow>
     length a = length b \<and> list_all (\<lambda>i. to_lower_char (a ! i) = to_lower_char (b ! i)) [0..<length a]"

function contains_ic_loop :: "string \<Rightarrow> string \<Rightarrow> nat \<Rightarrow> nat \<Rightarrow> bool" where
  "contains_ic_loop t needle i limit =
     (if i \<le> limit then
        if equalsIgnoreCase (substr t i (length needle)) needle then True
        else contains_ic_loop t needle (i + 1) limit
      else False)"
  by pat_completeness auto
termination by (relation "measure (\<lambda>(t, n, i, l). Suc l - i)") auto

declare contains_ic_loop.simps [simp del]

definition containsIgnoreCase :: "string \<Rightarrow> string \<Rightarrow> bool" where
  "containsIgnoreCase t needle =
     (if needle = [] then True
      else if length t < length needle then False
      else contains_ic_loop t needle 0 (length t - length needle))"

lemma trim_begin_eq: "b \<le> e \<Longrightarrow> e \<le> length t \<Longrightarrow>
    trim_begin t b e = b + length (takeWhile is_space (take (e - b) (drop b t)))"
proof (induction t b e rule: trim_begin.induct)
  case (1 t b e)
  show ?case
  proof (cases "b < e")
    case True
    then obtain k where k: "e - b = Suc k" by (cases "e - b") auto
    from True 1 have d: "drop b t = t ! b # drop (Suc b) t" by (simp add: Cons_nth_drop_Suc)
    from k have "e - Suc b = k" by simp
    with 1 True d k show ?thesis by (subst trim_begin.simps) simp
  next
    case False
    with 1 show ?thesis by (subst trim_begin.simps) simp
  qed
qed

lemma trim_end_eq: "b \<le> e \<Longrightarrow> e \<le> length t \<Longrightarrow>
    substr t b (trim_end t b e - b) = rev (dropWhile is_space (rev (substr t b (e - b)))) \<and> trim_end t b e \<le> e"
proof (induction t b e rule: trim_end.induct)
  case (1 t b e)
  show ?case
  proof (cases "b < e")
    case True
    then obtain k where k: "e - b = Suc k" by (cases "e - b") auto
    then have e: "e = Suc (b + k)" by simp
    with 1 have s: "substr t b (e - b) = substr t b (e - 1 - b) @ [t ! (e - 1)]"
      by (simp add: substr_def take_Suc_conv_app_nth)
    from True have b': "b \<le> e - 1" and le: "e - 1 \<le> e" by simp_all
    show ?thesis
    proof (cases "is_space (t ! (e - 1))")
      case sp: True
      from "1.IH" [OF _ b'] True sp "1.prems" have IH:
          "substr t b (trim_end t b (e - 1) - b) = rev (dropWhile is_space (rev (substr t b (e - 1 - b))))"
          "trim_end t b (e - 1) \<le> e - 1" by auto
      from True sp have "trim_end t b e = trim_end t b (e - 1)" by (subst trim_end.simps) simp
      with IH le sp s show ?thesis by simp
    next
      case False
      then have "trim_end t b e = e" by (subst trim_end.simps) simp
      with False s show ?thesis by simp
    qed
  next
    case False
    with 1 show ?thesis by (subst trim_end.simps, subst (2) trim_end.simps) (simp add: substr_def)
  qed
qed

text \<open>The two index loops strip the leading and the trailing spaces.\<close>

lemma trim_eq: "trim t = rev (dropWhile is_space (rev (dropWhile is_space t)))"
proof -
  let ?w = "takeWhile is_space t"
  have b: "trim_begin t 0 (length t) = length ?w"
    using trim_begin_eq [of 0 "length t" t] by simp
  have le: "length ?w \<le> length t" by (simp add: length_takeWhile_le)
  have s: "substr t (length ?w) (length t - length ?w) = dropWhile is_space t"
    by (simp add: substr_def dropWhile_eq_drop)
  show ?thesis
    using trim_end_eq [OF le, of t] by (simp add: trim_def b Let_def s)
qed

lemma trim_Nil [simp]: "trim [] = []"
  by (simp add: trim_eq)

lemma trim_ends:
  assumes "trim t \<noteq> []"
  shows "\<not> is_space (hd (trim t))" and "\<not> is_space (last (trim t))"
proof -
  let ?d = "dropWhile is_space t"
  have r: "trim t = rev (dropWhile is_space (rev ?d))" by (rule trim_eq)
  with assms have ne: "dropWhile is_space (rev ?d) \<noteq> []" by simp
  from hd_dropWhile [OF ne] show "\<not> is_space (last (trim t))" by (simp add: r last_rev)
  from ne have d: "?d \<noteq> []" by (metis dropWhile.simps(1) rev.simps(1))
  obtain ws where ws: "rev ?d = ws @ dropWhile is_space (rev ?d)"
    by (metis takeWhile_dropWhile_id)
  then have "?d = trim t @ rev ws" by (metis r rev_append rev_rev_ident)
  with assms have "hd ?d = hd (trim t)" by (metis hd_append2)
  with hd_dropWhile [OF d] show "\<not> is_space (hd (trim t))" by simp
qed

lemma trim_id: "t \<noteq> [] \<Longrightarrow> \<not> is_space (hd t) \<Longrightarrow> \<not> is_space (last t) \<Longrightarrow> trim t = t"
proof -
  assume ne: "t \<noteq> []" and h: "\<not> is_space (hd t)" and l: "\<not> is_space (last t)"
  from ne h have d: "dropWhile is_space t = t" by (cases t) auto
  from ne l have "dropWhile is_space (rev t) = rev t" by (cases t rule: rev_cases) auto
  with d show "trim t = t" by (simp add: trim_eq)
qed

lemma trim_trim [simp]: "trim (trim t) = trim t"
  by (cases "trim t = []") (simp_all add: trim_id trim_ends)

lemma trim_sublist: "sublist (trim t) t"
proof -
  have "suffix (dropWhile is_space t) t" by (rule suffix_dropWhile)
  moreover have "prefix (trim t) (dropWhile is_space t)"
    by (simp add: trim_eq prefix_def) (metis rev_append rev_rev_ident takeWhile_dropWhile_id)
  ultimately show ?thesis by (metis prefix_imp_sublist suffix_imp_sublist sublist_order.order_trans)
qed

lemma toLower_idem [simp]: "toLower (toLower t) = toLower t"
  by (simp add: toLower_def)

lemma toLower_Nil [simp]: "toLower [] = []"
  by (simp add: toLower_def)

lemma length_toLower [simp]: "length (toLower t) = length t"
  by (simp add: toLower_def)

lemma startsWith_prefix: "startsWith t p \<longleftrightarrow> prefix p t"
  by (auto simp: startsWith_def prefix_def) (metis append_take_drop_id)

lemma endsWith_suffix: "endsWith t s \<longleftrightarrow> suffix s t"
  by (auto simp: endsWith_def suffix_def) (metis append_take_drop_id)

lemma contains_sublist: "contains t needle \<longleftrightarrow> sublist needle t"
  by (simp add: contains_def find_sub_None_iff)

lemma equalsIgnoreCase_toLower: "equalsIgnoreCase a b \<longleftrightarrow> toLower a = toLower b"
  unfolding equalsIgnoreCase_def toLower_def list_all_iff list_eq_iff_nth_eq [of "map to_lower_char a"]
  by auto

lemma contains_ic_loop_eq:
  "contains_ic_loop t needle i limit \<longleftrightarrow> (\<exists>j. i \<le> j \<and> j \<le> limit \<and> equalsIgnoreCase (substr t j (length needle)) needle)"
proof (induction t needle i limit rule: contains_ic_loop.induct)
  case (1 t needle i limit)
  show ?case
  proof (cases "i \<le> limit \<and> \<not> equalsIgnoreCase (substr t i (length needle)) needle")
    case True
    with 1 have "contains_ic_loop t needle i limit \<longleftrightarrow>
        (\<exists>j. i + 1 \<le> j \<and> j \<le> limit \<and> equalsIgnoreCase (substr t j (length needle)) needle)"
      by (subst contains_ic_loop.simps) simp
    also have "\<dots> \<longleftrightarrow> (\<exists>j. i \<le> j \<and> j \<le> limit \<and> equalsIgnoreCase (substr t j (length needle)) needle)"
      using True by (metis Suc_eq_plus1 Suc_leD le_antisym not_less_eq_eq)
    finally show ?thesis .
  next
    case False
    then show ?thesis by (subst contains_ic_loop.simps) auto
  qed
qed

text \<open>The case-insensitive search finds exactly the case-folded factors.\<close>

lemma containsIgnoreCase_sublist: "containsIgnoreCase t needle \<longleftrightarrow> sublist (toLower needle) (toLower t)"
proof -
  have drop_low: "toLower (substr t j n) = take n (drop j (toLower t))" for j n
    by (simp add: toLower_def substr_def take_map drop_map)
  have "(\<exists>j. j \<le> length t - length needle \<and> toLower (substr t j (length needle)) = toLower needle)
      \<longleftrightarrow> sublist (toLower needle) (toLower t)" if le: "length needle \<le> length t"
  proof
    assume "\<exists>j. j \<le> length t - length needle \<and> toLower (substr t j (length needle)) = toLower needle"
    then show "sublist (toLower needle) (toLower t)"
      by (metis drop_low sublist_drop sublist_order.order_trans sublist_take)
  next
    assume "sublist (toLower needle) (toLower t)"
    then obtain ps ss where eq: "toLower t = ps @ toLower needle @ ss" by (auto simp: sublist_def)
    then have "length t = length ps + length needle + length ss"
      by (metis add.assoc length_append length_toLower)
    moreover have "toLower (substr t (length ps) (length needle)) = toLower needle"
      by (simp add: drop_low eq)
    ultimately show "\<exists>j. j \<le> length t - length needle \<and> toLower (substr t j (length needle)) = toLower needle"
      by (intro exI [of _ "length ps"]) simp
  qed
  moreover have "\<not> sublist (toLower needle) (toLower t)" if "length t < length needle"
    using that sublist_length_le by fastforce
  ultimately show ?thesis
    by (auto simp: containsIgnoreCase_def contains_ic_loop_eq equalsIgnoreCase_toLower not_less)
qed

section \<open>Splitting and joining\<close>

text \<open>\<open>split\<close>: the argument of the loop is the text from \<open>start\<close> on.\<close>

function split_loop :: "char \<Rightarrow> bool \<Rightarrow> string \<Rightarrow> string list" where
  "split_loop d skipEmpty rest =
     (case find_char d rest of
        None \<Rightarrow> (if \<not> skipEmpty \<or> rest \<noteq> [] then [rest] else [])
      | Some pos \<Rightarrow>
          (if \<not> skipEmpty \<or> take pos rest \<noteq> [] then [take pos rest] else [])
          @ split_loop d skipEmpty (drop (pos + 1) rest))"
  by pat_completeness auto
termination by (relation "measure (\<lambda>(d, s, r). length r)") (auto dest: find_char_Some)

declare split_loop.simps [simp del]

definition split :: "string \<Rightarrow> char \<Rightarrow> bool \<Rightarrow> string list" where
  "split t d skipEmpty = split_loop d skipEmpty t"

definition chomp_cr :: "string \<Rightarrow> string" where
  "chomp_cr line = (if line \<noteq> [] \<and> last line = CHR 0x0D then butlast line else line)"

definition splitLines :: "string \<Rightarrow> string list" where
  "splitLines t =
     (let lines = map chomp_cr (split t CHR 0x0A False)
      in if lines \<noteq> [] \<and> last lines = [] then butlast lines else lines)"

fun join_tail :: "string list \<Rightarrow> string \<Rightarrow> string" where
  "join_tail [] sep = []"
| "join_tail (p # ps) sep = sep @ p @ join_tail ps sep"

fun join :: "string list \<Rightarrow> string \<Rightarrow> string" where
  "join [] sep = []"
| "join (p # ps) sep = p @ join_tail ps sep"

lemma split_loop_nonempty [simp]: "split_loop d False t \<noteq> []"
  by (subst split_loop.simps) (simp split: option.splits)

lemma join_Cons: "ps \<noteq> [] \<Longrightarrow> join (p # ps) sep = p @ sep @ join ps sep"
  by (cases ps) auto

lemma split_loop_None: "find_char d t = None \<Longrightarrow> split_loop d sk t = (if \<not> sk \<or> t \<noteq> [] then [t] else [])"
  by (subst split_loop.simps) simp

lemma split_loop_Some:
  "find_char d t = Some pos \<Longrightarrow>
     split_loop d sk t = (if \<not> sk \<or> take pos t \<noteq> [] then [take pos t] else []) @ split_loop d sk (drop (pos + 1) t)"
  by (subst split_loop.simps) simp

lemma split_loop_unique:
  assumes "\<And>t. find_char d t = None \<Longrightarrow> P t"
    and "\<And>t pos. find_char d t = Some pos \<Longrightarrow> P (drop (pos + 1) t) \<Longrightarrow> P t"
  shows "P t"
proof (induction t rule: length_induct)
  case (1 t)
  show ?case
  proof (cases "find_char d t")
    case (Some pos)
    with 1 find_char_Some [OF Some] show ?thesis by (intro assms(2) [OF Some]) auto
  qed (rule assms(1))
qed

lemma join_split_loop: "join (split_loop d False t) [d] = t"
proof (rule split_loop_unique [of d])
  fix t pos
  assume f: "find_char d t = Some pos" and IH: "join (split_loop d False (drop (pos + 1) t)) [d] = drop (pos + 1) t"
  then show "join (split_loop d False t) [d] = t"
    using find_char_Some [OF f] by (simp add: split_loop_Some join_Cons del: join.simps(2))
qed (simp add: split_loop_None)

lemma split_loop_no_delimiter: "\<forall>p \<in> set (split_loop d sk t). d \<notin> set p"
proof (rule split_loop_unique [of d])
  fix t pos
  assume f: "find_char d t = Some pos" and IH: "\<forall>p \<in> set (split_loop d sk (drop (pos + 1) t)). d \<notin> set p"
  then show "\<forall>p \<in> set (split_loop d sk t). d \<notin> set p"
    using find_char_Some [OF f] by (auto simp: split_loop_Some)
qed (auto simp: split_loop_None find_char_None_iff)

lemma split_loop_skip: "split_loop d True t = filter (\<lambda>p. p \<noteq> []) (split_loop d False t)"
proof (rule split_loop_unique [of d])
  fix t pos
  assume f: "find_char d t = Some pos"
    and IH: "split_loop d True (drop (pos + 1) t) = filter (\<lambda>p. p \<noteq> []) (split_loop d False (drop (pos + 1) t))"
  then show "split_loop d True t = filter (\<lambda>p. p \<noteq> []) (split_loop d False t)"
    by (simp only: split_loop_Some [OF f]) simp
qed (auto simp: split_loop_None)

section \<open>Replacing\<close>

function replace_loop :: "string \<Rightarrow> string \<Rightarrow> string \<Rightarrow> string" where
  "replace_loop from to rest =
     (if from = [] then rest
      else case find_sub from rest of
        None \<Rightarrow> rest
      | Some pos \<Rightarrow> take pos rest @ to @ replace_loop from to (drop (pos + length from) rest))"
  by pat_completeness auto
termination
proof (relation "measure (\<lambda>(f, t, r). length r)", goal_cases)
  case (2 f t r pos)
  then show ?case using find_sub_Some_bound [of f r pos] by (cases f) auto
qed simp

declare replace_loop.simps [simp del]

definition replaceAll :: "string \<Rightarrow> string \<Rightarrow> string \<Rightarrow> string" where
  "replaceAll t from to = (if from = [] then t else replace_loop from to t)"

lemma replace_loop_None: "find_sub from t = None \<Longrightarrow> replace_loop from to t = t"
  by (subst replace_loop.simps) simp

lemma replace_loop_Some:
  "from \<noteq> [] \<Longrightarrow> find_sub from t = Some pos \<Longrightarrow>
     replace_loop from to t = take pos t @ to @ replace_loop from to (drop (pos + length from) t)"
  by (subst replace_loop.simps) simp

lemma replace_loop_unique:
  assumes ne: "from \<noteq> []"
    and "\<And>t. find_sub from t = None \<Longrightarrow> P t"
    and "\<And>t pos. find_sub from t = Some pos \<Longrightarrow> P (drop (pos + length from) t) \<Longrightarrow> P t"
  shows "P t"
proof (induction t rule: length_induct)
  case (1 t)
  show ?case
  proof (cases "find_sub from t")
    case (Some pos)
    with 1 find_sub_Some_bound [OF Some] ne show ?thesis by (intro assms(3) [OF Some]) (cases "from", auto)
  qed (rule assms(2))
qed

lemma replaceAll_absent: "\<not> contains t from \<Longrightarrow> replaceAll t from to = t"
  by (auto simp: replaceAll_def contains_def replace_loop_None)

lemma replaceAll_same: "replaceAll t from from = t"
proof (cases "from = []")
  case False
  have "replace_loop from from t = t"
  proof (rule replace_loop_unique [OF False])
    fix t pos
    assume f: "find_sub from t = Some pos"
      and IH: "replace_loop from from (drop (pos + length from) t) = drop (pos + length from) t"
    then show "replace_loop from from t = t"
      using find_sub_Some [OF f] by (simp add: replace_loop_Some [OF False])
  qed (rule replace_loop_None)
  with False show ?thesis by (simp add: replaceAll_def)
qed (simp add: replaceAll_def)

section \<open>Truncation and padding\<close>

definition truncate_marker :: string where
  "truncate_marker = ''... [truncated]''"

definition truncate :: "string \<Rightarrow> nat \<Rightarrow> string" where
  "truncate t maxLength =
     (if length t \<le> maxLength then t
      else if maxLength \<le> length truncate_marker then take maxLength t
      else take (maxLength - length truncate_marker) t @ truncate_marker)"

lemma length_truncate: "length (truncate t n) = min (length t) n"
  by (auto simp: truncate_def min_def)

definition padRight :: "string \<Rightarrow> nat \<Rightarrow> string" where
  "padRight t width = (if length t < width then t @ replicate (width - length t) CHR '' '' else t)"

definition padLeft :: "string \<Rightarrow> nat \<Rightarrow> string" where
  "padLeft t width = (if length t < width then replicate (width - length t) CHR '' '' @ t else t)"

lemma length_pad [simp]: "length (padRight t w) = max (length t) w" "length (padLeft t w) = max (length t) w"
  by (auto simp: padRight_def padLeft_def)

section \<open>Escapes\<close>

definition escape_xml_char :: "char \<Rightarrow> string" where
  "escape_xml_char c =
     (if c = CHR ''&'' then ''&amp;''
      else if c = CHR ''<'' then ''&lt;''
      else if c = CHR ''>'' then ''&gt;''
      else if c = CHR 0x22 then ''&quot;''
      else if c = CHR 0x27 then ''&apos;''
      else if byte c < 32 \<and> c \<noteq> CHR 0x0A \<and> c \<noteq> CHR 0x0D \<and> c \<noteq> CHR 0x09 then '' ''
      else [c])"

definition escapeXml :: "string \<Rightarrow> string" where
  "escapeXml t = concat (map escape_xml_char t)"

definition escape_html_char :: "char \<Rightarrow> string" where
  "escape_html_char c =
     (if c = CHR ''&'' then ''&amp;''
      else if c = CHR ''<'' then ''&lt;''
      else if c = CHR ''>'' then ''&gt;''
      else if c = CHR 0x22 then ''&quot;''
      else if c = CHR 0x27 then ''&#39;''
      else if c = CHR ''/'' then ''&#47;''
      else [c])"

definition escapeHtml :: "string \<Rightarrow> string" where
  "escapeHtml t = concat (map escape_html_char t)"

text \<open>What a parser reads back: the entities, every other character as it is.\<close>

fun xml_unescape :: "string \<Rightarrow> string" where
  "xml_unescape [] = []"
| "xml_unescape (c # t) =
     (if c = CHR ''&'' then
        if prefix ''amp;'' t then CHR ''&'' # xml_unescape (drop 4 t)
        else if prefix ''lt;'' t then CHR ''<'' # xml_unescape (drop 3 t)
        else if prefix ''gt;'' t then CHR ''>'' # xml_unescape (drop 3 t)
        else if prefix ''quot;'' t then CHR 0x22 # xml_unescape (drop 5 t)
        else if prefix ''apos;'' t then CHR 0x27 # xml_unescape (drop 5 t)
        else if prefix ''#39;'' t then CHR 0x27 # xml_unescape (drop 4 t)
        else if prefix ''#47;'' t then CHR ''/'' # xml_unescape (drop 4 t)
        else c # xml_unescape t
      else c # xml_unescape t)"

definition xml_printable :: "char \<Rightarrow> char" where
  "xml_printable c =
     (if byte c < 32 \<and> c \<noteq> CHR 0x0A \<and> c \<noteq> CHR 0x0D \<and> c \<noteq> CHR 0x09 then CHR '' '' else c)"


lemma xml_unescape_char: "xml_unescape (escape_xml_char c @ t) = xml_printable c # xml_unescape t"
  unfolding escape_xml_char_def xml_printable_def by simp

lemma html_unescape_char: "xml_unescape (escape_html_char c @ t) = c # xml_unescape t"
  unfolding escape_html_char_def by simp

lemma xml_unescape_escapeXml: "xml_unescape (escapeXml t) = map xml_printable t"
  by (induction t) (simp_all add: escapeXml_def xml_unescape_char)

lemma xml_unescape_escapeHtml: "xml_unescape (escapeHtml t) = t"
  by (induction t) (simp_all add: escapeHtml_def html_unescape_char)

lemma escapeXml_safe: "set (escapeXml t) \<inter> {CHR ''<'', CHR ''>'', CHR 0x22, CHR 0x27} = {}"
  by (auto simp: escapeXml_def escape_xml_char_def split: if_splits)

lemma escapeHtml_safe: "set (escapeHtml t) \<inter> {CHR ''<'', CHR ''>'', CHR 0x22, CHR 0x27} = {}"
  by (auto simp: escapeHtml_def escape_html_char_def split: if_splits)

section \<open>Hexadecimal and the strict parsers\<close>

definition hex_digit :: "nat \<Rightarrow> char" where
  "hex_digit d = ''0123456789abcdef'' ! d"

definition toHex :: "string \<Rightarrow> string" where
  "toHex bytes = concat (map (\<lambda>c. [hex_digit (byte c div 16), hex_digit (byte c mod 16)]) bytes)"

text \<open>\<open>std::string::c_str\<close> read as a C string ends at the first zero byte.\<close>

definition c_str :: "string \<Rightarrow> string" where
  "c_str t = takeWhile (\<lambda>c. byte c \<noteq> 0) t"

text \<open>
  \<open>std::strtoll(text, &end, 10)\<close>: whether \<open>errno\<close> is \<open>ERANGE\<close>, the value, and what \<open>end\<close>
  points at. With no digit nothing is consumed.
\<close>

definition strtoll10 :: "string \<Rightarrow> bool \<times> i64 \<times> string" where
  "strtoll10 s =
     (let s1 = dropWhile is_space s;
          neg = (s1 \<noteq> [] \<and> hd s1 = CHR ''-'');
          s2 = (if s1 \<noteq> [] \<and> (hd s1 = CHR ''-'' \<or> hd s1 = CHR ''+'') then tl s1 else s1);
          ds = takeWhile is_digit s2;
          v = (if neg then - int (digits_val ds) else int (digits_val ds))
      in if ds = [] then (False, 0, s)
         else if v < - (2 ^ 63) then (True, word_of_int (- (2 ^ 63)), dropWhile is_digit s2)
         else if 2 ^ 63 \<le> v then (True, word_of_int (2 ^ 63 - 1), dropWhile is_digit s2)
         else (False, word_of_int v, dropWhile is_digit s2))"

definition parseInt :: "string \<Rightarrow> i64 option" where
  "parseInt t =
     (let trimmed = trim t
      in if trimmed = [] then None
         else case strtoll10 (c_str trimmed) of
           (erange, parsed, rest) \<Rightarrow> if erange \<or> rest \<noteq> [] then None else Some parsed)"

definition parseBool :: "string \<Rightarrow> bool option" where
  "parseBool t =
     (let lowered = toLower (trim t)
      in if lowered = ''1'' \<or> lowered = ''true'' \<or> lowered = ''yes'' \<or> lowered = ''on'' then Some True
         else if lowered = ''0'' \<or> lowered = ''false'' \<or> lowered = ''no'' \<or> lowered = ''off'' then Some False
         else None)"

lemma show_int_chars: "c \<in> set (show_int i) \<Longrightarrow> is_digit c \<or> c = CHR ''-''"
  using show_nat_digits by (auto simp: show_int_def split: if_splits)

lemma show_int_nonempty [simp]: "show_int i \<noteq> []"
  by (simp add: show_int_def)

lemma int_char_facts:
  assumes "is_digit c \<or> c = CHR ''-''"
  shows "\<not> is_space c" and "byte c \<noteq> 0" and "c \<noteq> CHR ''+''"
  using assms by (auto simp: is_digit_def is_space_def)

lemma takeWhile_digits_show [simp]: "takeWhile is_digit (show_nat n) = show_nat n"
  "dropWhile is_digit (show_nat n) = []"
  using show_nat_digits [of n] by (simp_all add: takeWhile_eq_all_conv)

lemma hd_show_nat_digit: "is_digit (hd (show_nat n))"
  using show_nat_digits [of n] by (simp add: list.set_sel(1))

lemma strtoll10_show_int:
  assumes lo: "- (2 ^ 63) \<le> i" and hi: "i < 2 ^ 63"
  shows "strtoll10 (show_int i) = (False, word_of_int i, [])"
proof -
  have sp: "dropWhile is_space (show_int i) = show_int i"
  proof (cases "show_int i")
    case (Cons c cs)
    then have "c \<in> set (show_int i)" by simp
    then have "\<not> is_space c" using show_int_chars int_char_facts(1) by blast
    with Cons show ?thesis by simp
  qed simp
  show ?thesis
  proof (cases "i < 0")
    case True
    with lo hi show ?thesis
      by (simp add: strtoll10_def sp) (simp add: show_int_def Let_def)
  next
    case False
    have "hd (show_nat (nat i)) \<noteq> CHR ''-''" "hd (show_nat (nat i)) \<noteq> CHR ''+''"
      using hd_show_nat_digit [of "nat i"] by (auto simp: is_digit_def)
    with False lo hi show ?thesis
      by (simp add: strtoll10_def sp) (simp add: show_int_def Let_def)
  qed
qed

lemma trim_show_int [simp]: "trim (show_int i) = show_int i"
proof (rule trim_id)
  have "\<not> is_space c" if "c \<in> set (show_int i)" for c
    using that show_int_chars int_char_facts(1) by blast
  then show "\<not> is_space (hd (show_int i))" "\<not> is_space (last (show_int i))" by simp_all
qed simp

lemma c_str_show_int [simp]: "c_str (show_int i) = show_int i"
  using show_int_chars int_char_facts(2) by (auto simp: c_str_def takeWhile_eq_all_conv)

text \<open>Every 64-bit integer survives being printed and parsed.\<close>

lemma parseInt_show_int: "parseInt (show_int (sint v)) = Some (v :: i64)"
proof -
  have "- (2 ^ 63) \<le> sint v" "sint v < 2 ^ 63"
    using sint_ge [of v] sint_lt [of v] by simp_all
  then show ?thesis by (simp add: parseInt_def strtoll10_show_int)
qed

lemma parseInt_Some_nonempty: "parseInt t = Some v \<Longrightarrow> trim t \<noteq> []"
  by (auto simp: parseInt_def Let_def split: if_splits)

lemma length_toHex: "length (toHex b) = 2 * length b"
  by (induction b) (simp_all add: toHex_def)

end
