(* ===== verification/Glob.thy ===== *)
theory Glob
  imports String_Utils
begin

text \<open>
  \<open>strings::globMatch\<close> (\<open>src/core/StringUtils.cpp\<close>), the iterative matcher behind \<open>--test\<close> and
  \<open>--suite\<close>: its loop over the four indices with a termination proof, the meaning of a glob
  pattern as a recursive specification, and the proof that the loop decides it on every text
  without a literal \<open>*\<close>.
\<close>

section \<open>The loop\<close>

function glob_tail :: "string \<Rightarrow> nat \<Rightarrow> nat" where
  "glob_tail pat p = (if p < length pat \<and> pat ! p = CHR ''*'' then glob_tail pat (p + 1) else p)"
  by pat_completeness auto
termination by (relation "measure (\<lambda>(pat, p). length pat - p)") auto

declare glob_tail.simps [simp del]

text \<open>
  \<open>starPattern\<close> and \<open>starText\<close> are one optional pair: \<open>starText\<close> is read only when
  \<open>starPattern\<close> is not \<open>npos\<close>, and both are set together.
\<close>

definition star_ok :: "nat \<Rightarrow> nat \<Rightarrow> (nat \<times> nat) option \<Rightarrow> bool" where
  "star_ok p t star = (case star of None \<Rightarrow> True | Some (sp, st) \<Rightarrow> sp < p \<and> st \<le> t)"

function glob_loop :: "string \<Rightarrow> string \<Rightarrow> nat \<Rightarrow> nat \<Rightarrow> (nat \<times> nat) option \<Rightarrow> bool" where
  "glob_loop pat tx p t star =
     (if t < length tx then
        if p < length pat \<and> (pat ! p = CHR ''?'' \<or> pat ! p = tx ! t) then
          glob_loop pat tx (p + 1) (t + 1) star
        else if p < length pat \<and> pat ! p = CHR ''*'' then
          glob_loop pat tx (p + 1) t (Some (p, t))
        else (case star of
          Some (starPattern, starText) \<Rightarrow>
            glob_loop pat tx (starPattern + 1) (starText + 1) (Some (starPattern, starText + 1))
        | None \<Rightarrow> False)
      else glob_tail pat p = length pat)"
  by pat_completeness auto
termination
  by (relation "measures
      [\<lambda>(pat, tx, p, t, star). if star_ok p t star then 0 else 1,
       \<lambda>(pat, tx, p, t, star). case star of None \<Rightarrow> length tx + 1 | Some (sp, st) \<Rightarrow> length tx - st,
       \<lambda>(pat, tx, p, t, star). (length pat - p) + (length tx - t)]")
    (auto simp: star_ok_def split: option.splits if_splits)

declare glob_loop.simps [simp del]

definition globMatch :: "string \<Rightarrow> string \<Rightarrow> bool" where
  "globMatch pat tx = glob_loop pat tx 0 0 None"

section \<open>What a pattern means\<close>

text \<open>
  \<open>*\<close> stands for any run of characters, \<open>?\<close> for any one, every other character for itself.
\<close>

fun glob_spec :: "string \<Rightarrow> string \<Rightarrow> bool" where
  "glob_spec [] t = (t = [])"
| "glob_spec (c # cs) t =
     (if c = CHR ''*'' then \<exists>k \<le> length t. glob_spec cs (drop k t)
      else case t of [] \<Rightarrow> False | d # ds \<Rightarrow> (c = CHR ''?'' \<or> c = d) \<and> glob_spec cs ds)"

lemma glob_spec_literal:
  "CHR ''*'' \<notin> set lits \<Longrightarrow> glob_spec (lits @ cs) t \<Longrightarrow>
     length lits \<le> length t \<and> glob_spec cs (drop (length lits) t)"
  by (induction lits arbitrary: t) (auto split: list.splits)

lemma glob_spec_Nil_iff: "glob_spec cs [] \<longleftrightarrow> set cs \<subseteq> {CHR ''*''}"
  by (induction cs) auto

lemma glob_tail_eq: "p \<le> length pat \<Longrightarrow> glob_tail pat p = length pat \<longleftrightarrow> set (drop p pat) \<subseteq> {CHR ''*''}"
proof (induction pat p rule: glob_tail.induct)
  case (1 pat p)
  show ?case
  proof (cases "p < length pat")
    case True
    then have d: "drop p pat = pat ! p # drop (Suc p) pat" by (simp add: Cons_nth_drop_Suc)
    show ?thesis
    proof (cases "pat ! p = CHR ''*''")
      case star: True
      with True 1 have "glob_tail pat (p + 1) = length pat \<longleftrightarrow> set (drop (p + 1) pat) \<subseteq> {CHR ''*''}"
        by simp
      with True star d show ?thesis by (subst glob_tail.simps) simp
    next
      case False
      with True d show ?thesis by (subst glob_tail.simps) auto
    qed
  next
    case False
    with 1 show ?thesis by (subst glob_tail.simps) auto
  qed
qed

section \<open>The loop decides the specification\<close>

text \<open>
  The alternatives the loop still has: resuming after the last star with the star taking one or
  more characters beyond those it holds now.
\<close>

definition retry_matches :: "string \<Rightarrow> string \<Rightarrow> (nat \<times> nat) option \<Rightarrow> bool" where
  "retry_matches pat tx star =
     (case star of None \<Rightarrow> False
      | Some (sp, st) \<Rightarrow> \<exists>k. st < k \<and> k \<le> length tx \<and> glob_spec (drop (sp + 1) pat) (drop k tx))"

text \<open>
  The invariant of the loop: since the last star, the pattern and the text have advanced over the
  same number of characters, none of them a star.
\<close>

definition glob_inv :: "string \<Rightarrow> string \<Rightarrow> nat \<Rightarrow> nat \<Rightarrow> (nat \<times> nat) option \<Rightarrow> bool" where
  "glob_inv pat tx p t star \<longleftrightarrow>
     p \<le> length pat \<and> t \<le> length tx \<and>
     (case star of None \<Rightarrow> True
      | Some (sp, st) \<Rightarrow> st \<le> t \<and> p = Suc (sp + (t - st)) \<and>
          CHR ''*'' \<notin> set (take (t - st) (drop (Suc sp) pat)))"

lemma drop_nth_Cons: "i < length xs \<Longrightarrow> drop i xs = xs ! i # drop (Suc i) xs"
  by (simp add: Cons_nth_drop_Suc)

lemma ex_le_shift: "t \<le> n \<Longrightarrow> (\<exists>k \<le> n - t. P (t + k)) \<longleftrightarrow> (\<exists>k. t \<le> k \<and> k \<le> n \<and> P k)" for t n :: nat
proof
  assume "t \<le> n" "\<exists>k. t \<le> k \<and> k \<le> n \<and> P k"
  then obtain k where "t \<le> k" "k \<le> n" "P k" by blast
  then have "k - t \<le> n - t" "P (t + (k - t))" by simp_all
  then show "\<exists>k \<le> n - t. P (t + k)" by blast
qed (metis le_add1 le_diff_conv2 add.commute)

lemma glob_inv_advance:
  assumes "glob_inv pat tx p t star" "p < length pat" "t < length tx" "pat ! p \<noteq> CHR ''*''"
  shows "glob_inv pat tx (Suc p) (Suc t) star"
  using assms
  by (auto simp: glob_inv_def Suc_diff_le take_Suc_conv_app_nth split: option.splits)

text \<open>A retry of an older star is a retry of the newer one: the literals in between match or not.\<close>

lemma retry_at_star:
  assumes inv: "glob_inv pat tx p t star" and p: "p < length pat" "pat ! p = CHR ''*''"
    and retry: "retry_matches pat tx star"
  shows "\<exists>k. t < k \<and> k \<le> length tx \<and> glob_spec (drop (Suc p) pat) (drop k tx)"
proof -
  from retry obtain sp st k where star: "star = Some (sp, st)" and k: "st < k" "k \<le> length tx"
    and m: "glob_spec (drop (sp + 1) pat) (drop k tx)"
    by (auto simp: retry_matches_def split: option.splits)
  let ?n = "t - st"
  let ?lits = "take ?n (drop (sp + 1) pat)"
  from inv star have i: "st \<le> t" "p = Suc (sp + ?n)" "CHR ''*'' \<notin> set ?lits"
    by (simp_all add: glob_inv_def)
  have split: "drop (sp + 1) pat = ?lits @ drop p pat"
    using i(2) by (metis Suc_eq_plus1 add.commute add_Suc append_take_drop_id drop_drop)
  have len: "length ?lits = ?n" using p i(2) by simp
  from glob_spec_literal [OF i(3)] m split len
  have le: "?n \<le> length (drop k tx)" and g: "glob_spec (drop p pat) (drop ?n (drop k tx))" by metis+
  from p have "drop p pat = CHR ''*'' # drop (Suc p) pat" by (simp add: drop_nth_Cons)
  with g obtain j where j: "j \<le> length (drop (?n + k) tx)"
      "glob_spec (drop (Suc p) pat) (drop j (drop (?n + k) tx))" by auto
  then have "glob_spec (drop (Suc p) pat) (drop (?n + k + j) tx)" by (simp add: add.commute)
  moreover have "t < ?n + k + j" "?n + k + j \<le> length tx" using i k le j by auto
  ultimately show ?thesis by blast
qed

lemma retry_at_end:
  assumes inv: "glob_inv pat tx p (length tx) star" and retry: "retry_matches pat tx star"
  shows False
proof -
  from retry obtain sp st k where star: "star = Some (sp, st)" and k: "st < k" "k \<le> length tx"
    and m: "glob_spec (drop (sp + 1) pat) (drop k tx)"
    by (auto simp: retry_matches_def split: option.splits)
  let ?n = "length tx - st"
  let ?lits = "take ?n (drop (sp + 1) pat)"
  from inv star have i: "p \<le> length pat" "p = Suc (sp + ?n)" "CHR ''*'' \<notin> set ?lits"
    by (auto simp: glob_inv_def)
  have "drop (sp + 1) pat = ?lits @ drop ?n (drop (sp + 1) pat)" by (simp only: append_take_drop_id)
  with glob_spec_literal [OF i(3)] m have "length ?lits \<le> length (drop k tx)" by metis
  with i k show False by simp
qed

lemma glob_loop_correct:
  assumes "CHR ''*'' \<notin> set tx" and "glob_inv pat tx p t star"
  shows "glob_loop pat tx p t star \<longleftrightarrow>
    glob_spec (drop p pat) (drop t tx) \<or> retry_matches pat tx star"
  using assms
proof (induction pat tx p t star rule: glob_loop.induct)
  case (1 pat tx p t star)
  note inv = \<open>glob_inv pat tx p t star\<close> and nostar = \<open>CHR ''*'' \<notin> set tx\<close>
  consider (fin) "\<not> t < length tx"
    | (eq) "t < length tx" "p < length pat" "pat ! p = CHR ''?'' \<or> pat ! p = tx ! t"
    | (on_star) "t < length tx" "p < length pat" "\<not> (pat ! p = CHR ''?'' \<or> pat ! p = tx ! t)" "pat ! p = CHR ''*''"
    | (backtrack) "t < length tx" "\<not> (p < length pat \<and> (pat ! p = CHR ''?'' \<or> pat ! p = tx ! t))"
        "\<not> (p < length pat \<and> pat ! p = CHR ''*'')" by blast
  then show ?case
  proof cases
    case fin
    with inv have t: "t = length tx" and p: "p \<le> length pat" by (auto simp: glob_inv_def)
    have "\<not> retry_matches pat tx star" using retry_at_end inv t by blast
    with fin t show ?thesis
      by (subst glob_loop.simps) (simp add: glob_tail_eq [OF p] glob_spec_Nil_iff)
  next
    case eq
    have np: "pat ! p \<noteq> CHR ''*''" using eq nostar nth_mem [OF eq(1)] by force
    from "1.IH"(1) [OF eq(1)] eq nostar glob_inv_advance [OF inv eq(2,1) np]
    have IH: "glob_loop pat tx (p + 1) (t + 1) star \<longleftrightarrow>
        glob_spec (drop (p + 1) pat) (drop (t + 1) tx) \<or> retry_matches pat tx star" by simp
    have "glob_spec (drop p pat) (drop t tx) \<longleftrightarrow> glob_spec (drop (p + 1) pat) (drop (t + 1) tx)"
      using eq np by (simp add: drop_nth_Cons)
    with IH eq show ?thesis by (subst glob_loop.simps) auto
  next
    case on_star
    have inv': "glob_inv pat tx (p + 1) t (Some (p, t))" using on_star inv by (simp add: glob_inv_def)
    from "1.IH"(2) [OF on_star(1)] on_star nostar inv'
    have IH: "glob_loop pat tx (p + 1) t (Some (p, t)) \<longleftrightarrow>
        glob_spec (drop (p + 1) pat) (drop t tx) \<or> retry_matches pat tx (Some (p, t))" by simp
    have here: "glob_spec (drop p pat) (drop t tx) \<longleftrightarrow>
        (\<exists>k. t \<le> k \<and> k \<le> length tx \<and> glob_spec (drop (Suc p) pat) (drop k tx))"
    proof -
      have "glob_spec (drop p pat) (drop t tx) \<longleftrightarrow>
          (\<exists>k \<le> length tx - t. glob_spec (drop (Suc p) pat) (drop (t + k) tx))"
        using on_star by (simp add: drop_nth_Cons [OF on_star(2)] add.commute)
      also have "\<dots> \<longleftrightarrow> (\<exists>k. t \<le> k \<and> k \<le> length tx \<and> glob_spec (drop (Suc p) pat) (drop k tx))"
        by (rule ex_le_shift) (use on_star in simp)
      finally show ?thesis .
    qed
    have "retry_matches pat tx star \<Longrightarrow>
        \<exists>k. t < k \<and> k \<le> length tx \<and> glob_spec (drop (Suc p) pat) (drop k tx)"
      by (rule retry_at_star [OF inv on_star(2,4)])
    moreover have "retry_matches pat tx (Some (p, t)) \<longleftrightarrow>
        (\<exists>k. t < k \<and> k \<le> length tx \<and> glob_spec (drop (Suc p) pat) (drop k tx))"
      by (simp add: retry_matches_def)
    ultimately show ?thesis using on_star here IH
      by (subst glob_loop.simps) (simp, metis less_imp_le order_le_less)
  next
    case backtrack
    have nospec: "\<not> glob_spec (drop p pat) (drop t tx)"
    proof (cases "p < length pat")
      case True
      with backtrack show ?thesis by (simp add: drop_nth_Cons)
    next
      case False
      with backtrack show ?thesis by simp
    qed
    show ?thesis
    proof (cases star)
      case None
      have "\<not> glob_loop pat tx p t star"
        by (simp only: glob_loop.simps [of pat tx p t] backtrack None if_True if_False option.case not_False_eq_True)
      with None nospec show ?thesis by (simp add: retry_matches_def)
    next
      case (Some s)
      obtain sp st where s: "s = (sp, st)" by fastforce
      have inv': "glob_inv pat tx (sp + 1) (st + 1) (Some (sp, st + 1))"
        using inv Some s backtrack by (simp add: glob_inv_def)
      from "1.IH"(3) [OF backtrack(1) backtrack(2) backtrack(3) Some s [symmetric]] nostar inv'
      have IH: "glob_loop pat tx (sp + 1) (st + 1) (Some (sp, st + 1)) \<longleftrightarrow>
          glob_spec (drop (sp + 1) pat) (drop (st + 1) tx) \<or> retry_matches pat tx (Some (sp, st + 1))" by simp
      have st: "st + 1 \<le> length tx" using inv Some s backtrack by (simp add: glob_inv_def)
      have "retry_matches pat tx star \<longleftrightarrow>
          glob_spec (drop (sp + 1) pat) (drop (st + 1) tx) \<or> retry_matches pat tx (Some (sp, st + 1))"
        using st by (simp add: retry_matches_def Some s) (metis Suc_leI le_neq_implies_less lessI less_trans)
      moreover have "glob_loop pat tx p t star = glob_loop pat tx (sp + 1) (st + 1) (Some (sp, st + 1))"
        by (simp only: glob_loop.simps [of pat tx p t] backtrack Some s if_True if_False option.case prod.case)
      ultimately show ?thesis using IH nospec by simp
    qed
  qed
qed

lemma globMatch_correct: "CHR ''*'' \<notin> set tx \<Longrightarrow> globMatch pat tx = glob_spec pat tx"
  using glob_loop_correct [of tx pat 0 0 None]
  by (simp add: globMatch_def glob_inv_def retry_matches_def)

text \<open>On a text without an asterisk the matcher, which keeps one point to go back to, accepts exactly
  what the textbook definition of a glob accepts, where a star stands for any run of characters.\<close>

theorem globMatch_language:
  assumes "CHR ''*'' \<notin> set tx"
  shows "globMatch pat tx = glob_spec pat tx"
  using assms by (rule globMatch_correct)

theorem globMatch_language_witness: "globMatch ''a*c?'' ''abbcd'' = glob_spec ''a*c?'' ''abbcd''"
  by (rule globMatch_language) simp

text \<open>An asterisk in the text that meets a star of the pattern is taken for a literal match.\<close>

lemma globMatch_literal_star: "\<not> globMatch ''*'' ''*a''" "glob_spec ''*'' ''*a''"
  by (simp_all add: globMatch_def glob_loop.simps) (intro exI [of _ 2], simp)

end
