(* ===== verification/F64.thy ===== *)
theory F64
  imports String_Utils Complex_Main "HOL-Library.Log_Nat"
begin

text \<open>
  IEEE-754 binary64, the \<open>double\<close> of the source: its bit patterns as 64-bit words, correct
  rounding of an exact fraction, comparison, the conversions from and to \<open>std::int64_t\<close>, and
  the two conversions of the standard library the JSON code uses, \<open>std::strtod\<close> on a decimal
  literal and \<open>std::snprintf\<close> with \<open>%.*g\<close>.

  A non-negative fraction is a pair \<open>n / d\<close> of naturals with \<open>d > 0\<close>; all arithmetic on it is
  exact. Both library conversions round to nearest, ties to even, as the C library does.
\<close>

type_synonym f64 = "64 word"

section \<open>Bit patterns\<close>

definition f64_neg :: "f64 \<Rightarrow> bool" where
  "f64_neg w \<longleftrightarrow> 2 ^ 63 \<le> unat w"

text \<open>The pattern without its sign bit. It orders the magnitudes.\<close>

definition f64_raw :: "f64 \<Rightarrow> nat" where
  "f64_raw w = unat w mod 2 ^ 63"

definition f64_make :: "bool \<Rightarrow> nat \<Rightarrow> f64" where
  "f64_make neg r = word_of_nat (if neg then 2 ^ 63 + r else r)"

definition inf_raw :: nat where
  "inf_raw = 2047 * 2 ^ 52"

definition f64_finite :: "f64 \<Rightarrow> bool" where
  "f64_finite w \<longleftrightarrow> f64_raw w < inf_raw"

definition f64_nan :: "f64 \<Rightarrow> bool" where
  "f64_nan w \<longleftrightarrow> inf_raw < f64_raw w"

definition f64_eq :: "f64 \<Rightarrow> f64 \<Rightarrow> bool" where
  "f64_eq a b \<longleftrightarrow> \<not> f64_nan a \<and> \<not> f64_nan b \<and> (a = b \<or> f64_raw a = 0 \<and> f64_raw b = 0)"

text \<open>Significand and binary exponent of a finite pattern: its magnitude is \<open>m * 2 ^ e\<close>.\<close>

definition raw_mant :: "nat \<Rightarrow> nat" where
  "raw_mant r = (if r < 2 ^ 52 then r else 2 ^ 52 + r mod 2 ^ 52)"

definition raw_expo :: "nat \<Rightarrow> int" where
  "raw_expo r = (if r < 2 ^ 52 then - 1074 else int (r div 2 ^ 52) - 1075)"

text \<open>The magnitude as a fraction.\<close>

definition raw_num :: "nat \<Rightarrow> nat" where
  "raw_num r = raw_mant r * 2 ^ nat (raw_expo r)"

definition raw_den :: "nat \<Rightarrow> nat" where
  "raw_den r = 2 ^ nat (- raw_expo r)"

section \<open>Rounding a fraction\<close>

text \<open>Division rounded to nearest, ties to even.\<close>

definition div_rne :: "nat \<Rightarrow> nat \<Rightarrow> nat" where
  "div_rne a b =
     (let q = a div b; r = a mod b
      in if 2 * r < b \<or> 2 * r = b \<and> even q then q else q + 1)"

text \<open>\<open>a / b * B ^ k\<close> as a fraction, for a possibly negative \<open>k\<close>.\<close>

definition scale_num :: "nat \<Rightarrow> nat \<Rightarrow> int \<Rightarrow> nat" where
  "scale_num B a k = a * B ^ nat k"

definition scale_den :: "nat \<Rightarrow> nat \<Rightarrow> int \<Rightarrow> nat" where
  "scale_den B b k = b * B ^ nat (- k)"

text \<open>The largest \<open>k\<close> with \<open>B ^ k \<le> n / d\<close>, for \<open>n > 0\<close>.\<close>

definition frac_log :: "nat \<Rightarrow> nat \<Rightarrow> nat \<Rightarrow> int" where
  "frac_log B n d =
     (let c = int (floorlog B n) - int (floorlog B d)
      in if scale_num B d c \<le> scale_den B n c then c else c - 1)"

definition raw_of_frac :: "nat \<Rightarrow> nat \<Rightarrow> nat" where
  "raw_of_frac n d =
     (if n = 0 then 0
      else let e = max (- 1074) (frac_log 2 n d - 52);
               q = div_rne (scale_num 2 n (- e)) (scale_den 2 d (- e))
           in min inf_raw (nat (e + 1074) * 2 ^ 52 + q))"

definition f64_of_int :: "int \<Rightarrow> f64" where
  "f64_of_int i = f64_make (i < 0) (raw_of_frac (nat \<bar>i\<bar>) 1)"

text \<open>
  \<open>static_cast<std::int64_t>\<close> of a double truncates towards zero; outside the range of the
  target, and for a NaN, its behaviour is undefined (\<open>None\<close>).
\<close>

definition f64_trunc :: "f64 \<Rightarrow> i64 option" where
  "f64_trunc w =
     (if \<not> f64_finite w then None
      else let m = int (raw_num (f64_raw w) div raw_den (f64_raw w));
               i = (if f64_neg w then - m else m)
           in if - (2 ^ 63) \<le> i \<and> i < 2 ^ 63 then Some (word_of_int i) else None)"

section \<open>strtod on a decimal literal\<close>

text \<open>
  Digits, an optional fraction and an optional exponent, after an optional minus sign: what the
  JSON number grammar leaves for \<open>std::strtod\<close>. Text outside the form stops the conversion, as
  \<open>strtod\<close> stops there.
\<close>

definition dec_frac :: "string \<Rightarrow> string" where
  "dec_frac s = (if s \<noteq> [] \<and> hd s = CHR ''.'' then takeWhile is_digit (tl s) else [])"

definition dec_after_frac :: "string \<Rightarrow> string" where
  "dec_after_frac s = (if s \<noteq> [] \<and> hd s = CHR ''.'' then dropWhile is_digit (tl s) else s)"

definition dec_exp :: "string \<Rightarrow> int" where
  "dec_exp s =
     (if s \<noteq> [] \<and> (hd s = CHR ''e'' \<or> hd s = CHR ''E'') then
        (if tl s \<noteq> [] \<and> hd (tl s) = CHR ''-'' then - int (digits_val (takeWhile is_digit (tl (tl s))))
         else if tl s \<noteq> [] \<and> hd (tl s) = CHR ''+'' then int (digits_val (takeWhile is_digit (tl (tl s))))
         else int (digits_val (takeWhile is_digit (tl s))))
      else 0)"

definition raw_of_dec :: "nat \<Rightarrow> int \<Rightarrow> nat" where
  "raw_of_dec n e = raw_of_frac (scale_num 10 n e) (scale_den 10 1 e)"

definition strtod_mag :: "string \<Rightarrow> nat" where
  "strtod_mag s =
     (let ip = takeWhile is_digit s; r1 = dropWhile is_digit s; fp = dec_frac r1
      in raw_of_dec (digits_val (ip @ fp)) (dec_exp (dec_after_frac r1) - int (length fp)))"

definition strtod :: "string \<Rightarrow> f64" where
  "strtod s =
     (if s \<noteq> [] \<and> hd s = CHR ''-'' then f64_make True (strtod_mag (tl s))
      else f64_make False (strtod_mag s))"

section \<open>snprintf with \<open>%.*g\<close>\<close>

text \<open>
  The decimal significand of \<open>P\<close> digits and the decimal exponent of a positive fraction, after
  rounding: the value is \<open>D * 10 ^ (X - (P - 1))\<close> with \<open>10 ^ (P - 1) \<le> D < 10 ^ P\<close>.
\<close>

definition dec_digits :: "nat \<Rightarrow> nat \<Rightarrow> nat \<Rightarrow> nat \<times> int" where
  "dec_digits P n d =
     (let X = frac_log 10 n d; k = int (P - 1) - X;
          D = div_rne (scale_num 10 n k) (scale_den 10 d k)
      in if D = 10 ^ P then (10 ^ (P - 1), X + 1) else (D, X))"

definition strip_zeros :: "string \<Rightarrow> string" where
  "strip_zeros s = rev (dropWhile (\<lambda>c. c = CHR ''0'') (rev s))"

definition with_frac :: "string \<Rightarrow> string \<Rightarrow> string" where
  "with_frac ip fp = (let f = strip_zeros fp in if f = [] then ip else ip @ CHR ''.'' # f)"

definition show_exp :: "int \<Rightarrow> string" where
  "show_exp X =
     CHR ''e'' # (if X < 0 then CHR ''-'' else CHR ''+'') #
     (let ds = show_nat (nat \<bar>X\<bar>) in if length ds < 2 then CHR ''0'' # ds else ds)"

definition layout_g :: "nat \<Rightarrow> nat \<Rightarrow> int \<Rightarrow> string" where
  "layout_g P D X =
     (let ds = show_nat D
      in if X < - 4 \<or> int P \<le> X then with_frac (take 1 ds) (drop 1 ds) @ show_exp X
         else if 0 \<le> X then with_frac (take (nat X + 1) ds) (drop (nat X + 1) ds)
         else with_frac ''0'' (replicate (nat (- X) - 1) CHR ''0'' @ ds))"

definition print_mag :: "nat \<Rightarrow> nat \<Rightarrow> string" where
  "print_mag P r =
     (if r = 0 then ''0''
      else case dec_digits P (raw_num r) (raw_den r) of (D, X) \<Rightarrow> layout_g P D X)"

definition print_g :: "nat \<Rightarrow> f64 \<Rightarrow> string" where
  "print_g P w = (if f64_neg w then [CHR ''-''] else []) @ print_mag P (f64_raw w)"

end
