(* ===== verification/Json.thy ===== *)
theory Json
  imports F64
begin

text \<open>
  \<open>json::Value\<close> (\<open>include/testforge/core/Json.hpp\<close>, \<open>src/core/Json.cpp\<close>): the variant, the checked
  and the forgiving accessors, member and dotted-path lookup, \<open>set\<close> and \<open>push\<close>, equality, and the
  \<open>...At\<close> readers.

  A \<open>TypeError\<close> is its message. Reading a double as an integer converts it, and C++ leaves that
  conversion undefined outside the range of \<open>std::int64_t\<close>: the model says \<open>UndefinedCast\<close>, or
  \<open>None\<close> for the \<open>noexcept\<close> readers.
\<close>

datatype json =
    JNull
  | JBool bool
  | JInt i64
  | JDouble f64
  | JString string
  | JArray "json list"
  | JObject "(string \<times> json) list"

datatype json_error = TypeError string | UndefinedCast

fun typeName :: "json \<Rightarrow> string" where
  "typeName JNull = ''null''"
| "typeName (JBool _) = ''boolean''"
| "typeName (JInt _) = ''integer''"
| "typeName (JDouble _) = ''double''"
| "typeName (JString _) = ''string''"
| "typeName (JArray _) = ''array''"
| "typeName (JObject _) = ''object''"

fun isNull :: "json \<Rightarrow> bool" where
  "isNull JNull = True" | "isNull _ = False"

fun isBool :: "json \<Rightarrow> bool" where
  "isBool (JBool _) = True" | "isBool _ = False"

fun isInteger :: "json \<Rightarrow> bool" where
  "isInteger (JInt _) = True" | "isInteger _ = False"

fun isDouble :: "json \<Rightarrow> bool" where
  "isDouble (JDouble _) = True" | "isDouble _ = False"

definition isNumber :: "json \<Rightarrow> bool" where
  "isNumber v \<longleftrightarrow> isInteger v \<or> isDouble v"

fun isString :: "json \<Rightarrow> bool" where
  "isString (JString _) = True" | "isString _ = False"

fun isArray :: "json \<Rightarrow> bool" where
  "isArray (JArray _) = True" | "isArray _ = False"

fun isObject :: "json \<Rightarrow> bool" where
  "isObject (JObject _) = True" | "isObject _ = False"

section \<open>Checked accessors\<close>

definition type_mismatch :: "string \<Rightarrow> json \<Rightarrow> json_error + 'a" where
  "type_mismatch wanted v =
     Inl (TypeError (''JSON value is '' @ typeName v @ '', expected '' @ wanted))"

fun asBool :: "json \<Rightarrow> json_error + bool" where
  "asBool (JBool b) = Inr b"
| "asBool v = type_mismatch ''boolean'' v"

fun asInt :: "json \<Rightarrow> json_error + i64" where
  "asInt (JInt i) = Inr i"
| "asInt (JDouble d) = (case f64_trunc d of Some i \<Rightarrow> Inr i | None \<Rightarrow> Inl UndefinedCast)"
| "asInt v = type_mismatch ''integer'' v"

fun asDouble :: "json \<Rightarrow> json_error + f64" where
  "asDouble (JDouble d) = Inr d"
| "asDouble (JInt i) = Inr (f64_of_int (sint i))"
| "asDouble v = type_mismatch ''number'' v"

fun asString :: "json \<Rightarrow> json_error + string" where
  "asString (JString s) = Inr s"
| "asString v = type_mismatch ''string'' v"

fun asArray :: "json \<Rightarrow> json_error + json list" where
  "asArray (JArray xs) = Inr xs"
| "asArray v = type_mismatch ''array'' v"

fun asObject :: "json \<Rightarrow> json_error + (string \<times> json) list" where
  "asObject (JObject ms) = Inr ms"
| "asObject v = type_mismatch ''object'' v"

section \<open>Forgiving accessors\<close>

fun boolOr :: "json \<Rightarrow> bool \<Rightarrow> bool" where
  "boolOr (JBool b) _ = b"
| "boolOr _ fallback = fallback"

fun intOr :: "json \<Rightarrow> i64 \<Rightarrow> i64 option" where
  "intOr (JInt i) _ = Some i"
| "intOr (JDouble d) _ = f64_trunc d"
| "intOr _ fallback = Some fallback"

fun doubleOr :: "json \<Rightarrow> f64 \<Rightarrow> f64" where
  "doubleOr (JDouble d) _ = d"
| "doubleOr (JInt i) _ = f64_of_int (sint i)"
| "doubleOr _ fallback = fallback"

fun stringOr :: "json \<Rightarrow> string \<Rightarrow> string" where
  "stringOr (JString s) _ = s"
| "stringOr _ fallback = fallback"

section \<open>Members\<close>

text \<open>\<open>find\<close>, \<open>at\<close>, and \<open>path\<close>, whose loop is here a recursion over the rest of the dotted path.\<close>

fun json_find :: "json \<Rightarrow> string \<Rightarrow> json option" where
  "json_find (JObject ms) key = alist_find key ms"
| "json_find _ key = None"

definition json_contains :: "json \<Rightarrow> string \<Rightarrow> bool" where
  "json_contains v key \<longleftrightarrow> json_find v key \<noteq> None"

definition json_at :: "json \<Rightarrow> string \<Rightarrow> json_error + json" where
  "json_at v key =
     (case json_find v key of
        None \<Rightarrow> Inl (TypeError (''JSON object has no member '' @ CHR 0x27 # key @ [CHR 0x27]))
      | Some w \<Rightarrow> Inr w)"

function path_loop :: "json \<Rightarrow> string \<Rightarrow> json option" where
  "path_loop current rest =
     (let dot = find_char CHR ''.'' rest;
          segment = (case dot of None \<Rightarrow> rest | Some d \<Rightarrow> take d rest)
      in if segment = [] then None
         else case json_find current segment of
           None \<Rightarrow> None
         | Some next_value \<Rightarrow>
             (case dot of None \<Rightarrow> Some next_value
              | Some d \<Rightarrow> path_loop next_value (drop (d + 1) rest)))"
  by pat_completeness auto
termination by (relation "measure (\<lambda>(v, r). length r)") (auto dest!: find_char_Some [OF sym])

declare path_loop.simps [simp del]

definition json_path :: "json \<Rightarrow> string \<Rightarrow> json option" where
  "json_path v dotted = path_loop v dotted"

fun json_set :: "json \<Rightarrow> string \<Rightarrow> json \<Rightarrow> json_error + json" where
  "json_set JNull key v = Inr (JObject (alist_set key v []))"
| "json_set (JObject ms) key v = Inr (JObject (alist_set key v ms))"
| "json_set w key v = type_mismatch ''object'' w"

fun json_push :: "json \<Rightarrow> json \<Rightarrow> json_error + json" where
  "json_push JNull v = Inr (JArray [v])"
| "json_push (JArray xs) v = Inr (JArray (xs @ [v]))"
| "json_push w v = type_mismatch ''array'' w"

fun json_size :: "json \<Rightarrow> nat" where
  "json_size (JArray xs) = length xs"
| "json_size (JObject ms) = length ms"
| "json_size (JString s) = length s"
| "json_size _ = 0"

definition json_index :: "json \<Rightarrow> nat \<Rightarrow> json_error + json" where
  "json_index v i =
     (case asArray v of
        Inl e \<Rightarrow> Inl e
      | Inr xs \<Rightarrow> if length xs \<le> i then Inl (TypeError ''JSON array index out of range'') else Inr (xs ! i))"

text \<open>Building an object by \<open>set\<close> on a value known to be one.\<close>

definition obj_of :: "(string \<times> json) list \<Rightarrow> json" where
  "obj_of ms = JObject (fold (\<lambda>(k, v). alist_set k v) ms [])"

section \<open>Equality\<close>

text \<open>Numbers compare numerically, objects without regard to order.\<close>

function (sequential) json_eq :: "json \<Rightarrow> json \<Rightarrow> bool"
  and json_list_eq :: "json list \<Rightarrow> json list \<Rightarrow> bool"
  and json_members_eq :: "(string \<times> json) list \<Rightarrow> (string \<times> json) list \<Rightarrow> bool" where
  "json_eq (JInt a) (JInt b) = (a = b)"
| "json_eq (JInt a) (JDouble b) = f64_eq (f64_of_int (sint a)) b"
| "json_eq (JDouble a) (JInt b) = f64_eq a (f64_of_int (sint b))"
| "json_eq (JDouble a) (JDouble b) = f64_eq a b"
| "json_eq JNull JNull = True"
| "json_eq (JBool a) (JBool b) = (a = b)"
| "json_eq (JString a) (JString b) = (a = b)"
| "json_eq (JArray a) (JArray b) = (length a = length b \<and> json_list_eq a b)"
| "json_eq (JObject a) (JObject b) = (length a = length b \<and> json_members_eq a b)"
| "json_eq _ _ = False"
| "json_list_eq (x # xs) (y # ys) = (json_eq x y \<and> json_list_eq xs ys)"
| "json_list_eq _ _ = True"
| "json_members_eq [] b = True"
| "json_members_eq ((k, v) # ms) b =
     (case alist_find k b of None \<Rightarrow> False | Some w \<Rightarrow> json_eq v w \<and> json_members_eq ms b)"
  by pat_completeness auto
termination
  by (relation "measure (\<lambda>x. case x of Inl (a, b) \<Rightarrow> size a
      | Inr (Inl (a, b)) \<Rightarrow> size_list size a
      | Inr (Inr (a, b)) \<Rightarrow> size_list (size_prod (\<lambda>_. 0) size) a)") auto

section \<open>Safe readers\<close>

definition stringAt :: "json \<Rightarrow> string \<Rightarrow> string \<Rightarrow> string" where
  "stringAt v p fallback = (case json_path v p of Some w \<Rightarrow> stringOr w fallback | None \<Rightarrow> fallback)"

definition intAt :: "json \<Rightarrow> string \<Rightarrow> i64 \<Rightarrow> i64 option" where
  "intAt v p fallback = (case json_path v p of Some w \<Rightarrow> intOr w fallback | None \<Rightarrow> Some fallback)"

definition doubleAt :: "json \<Rightarrow> string \<Rightarrow> f64 \<Rightarrow> f64" where
  "doubleAt v p fallback = (case json_path v p of Some w \<Rightarrow> doubleOr w fallback | None \<Rightarrow> fallback)"

definition boolAt :: "json \<Rightarrow> string \<Rightarrow> bool \<Rightarrow> bool" where
  "boolAt v p fallback = (case json_path v p of Some w \<Rightarrow> boolOr w fallback | None \<Rightarrow> fallback)"

definition arrayAt :: "json \<Rightarrow> string \<Rightarrow> json list" where
  "arrayAt v p = (case json_path v p of Some (JArray xs) \<Rightarrow> xs | _ \<Rightarrow> [])"

section \<open>Well-formed documents\<close>

text \<open>
  What the operations keep and what a serialisation can carry: no object holds a key twice, and
  every double is finite.
\<close>

fun json_wf :: "json \<Rightarrow> bool" where
  "json_wf (JArray xs) = list_all json_wf xs"
| "json_wf (JObject ms) = (distinct (map fst ms) \<and> list_all (\<lambda>m. json_wf (snd m)) ms)"
| "json_wf (JDouble d) = f64_finite d"
| "json_wf _ = True"

text \<open>The depth of the deepest value, counting the document itself as depth 0.\<close>

fun json_height :: "json \<Rightarrow> nat" where
  "json_height (JArray xs) = fold max (map (\<lambda>x. Suc (json_height x)) xs) 0"
| "json_height (JObject ms) = fold max (map (\<lambda>m. Suc (json_height (snd m))) ms) 0"
| "json_height _ = 0"

lemma fold_max_le: "fold max xs n \<le> (b::nat) \<longleftrightarrow> n \<le> b \<and> (\<forall>x \<in> set xs. x \<le> b)"
  by (induction xs arbitrary: n) auto

lemma json_height_le [simp]:
  "json_height (JArray xs) \<le> b \<longleftrightarrow> (\<forall>x \<in> set xs. Suc (json_height x) \<le> b)"
  "json_height (JObject ms) \<le> b \<longleftrightarrow> (\<forall>m \<in> set ms. Suc (json_height (snd m)) \<le> b)"
  by (simp_all add: fold_max_le)

declare json_height.simps(1,2) [simp del]

named_theorems json_keeps \<open>operations that keep a document well-formed\<close>

lemma json_find_set: "json_set v k w = Inr v' \<Longrightarrow> json_find v' k' = (if k' = k then Some w else json_find v k')"
  by (cases v) (auto simp: type_mismatch_def)

lemma json_wf_find [json_keeps]: "json_wf v \<Longrightarrow> json_find v k = Some w \<Longrightarrow> json_wf w"
  by (cases v) (auto simp: alist_find_map_of list_all_iff dest: map_of_SomeD)

lemma json_wf_set [json_keeps]:
  assumes "json_wf v" "json_wf w" "json_set v k w = Inr v'"
  shows "json_wf v'"
proof -
  have step: "json_wf (JObject (alist_set k w ms))" if wf: "json_wf (JObject ms)" for ms
  proof -
    have "\<forall>x \<in> snd ` set (alist_set k w ms). json_wf x"
    proof
      fix x
      assume "x \<in> snd ` set (alist_set k w ms)"
      with snd_alist_set [of k w ms] have "x = w \<or> x \<in> snd ` set ms" by blast
      moreover have "\<forall>m \<in> set ms. json_wf (snd m)" using wf by (simp add: list_all_iff)
      ultimately show "json_wf x" using assms(2) by blast
    qed
    moreover have "distinct (map fst (alist_set k w ms))"
      by (rule distinct_alist_set) (use wf in simp)
    ultimately show ?thesis by (simp add: list_all_iff)
  qed
  show ?thesis
  proof (cases v)
    case JNull
    with assms(2,3) step [of "[]"] show ?thesis by simp
  next
    case (JObject ms)
    with assms step [of ms] show ?thesis by (simp del: json_wf.simps)
  qed (use assms(3) in \<open>auto simp: type_mismatch_def\<close>)
qed

lemma json_wf_push [json_keeps]: "json_wf v \<Longrightarrow> json_wf w \<Longrightarrow> json_push v w = Inr v' \<Longrightarrow> json_wf v'"
  by (cases v) (auto simp: type_mismatch_def)

lemma json_set_ok: "v = JNull \<or> isObject v \<Longrightarrow> \<exists>ms. json_set v k w = Inr (JObject ms)"
  by (cases v) auto

lemma path_loop_wf: "json_wf v \<Longrightarrow> path_loop v p = Some w \<Longrightarrow> json_wf w"
proof (induction v p rule: path_loop.induct)
  case (1 current rest)
  from "1.prems"(2) obtain seg nv where seg: "json_find current seg = Some nv"
    and w: "w = nv \<or> (\<exists>d. find_char CHR ''.'' rest = Some d \<and> seg = take d rest \<and> path_loop nv (drop (d + 1) rest) = Some w)"
    by (subst (asm) path_loop.simps) (auto simp: Let_def split: if_splits option.splits)
  have "json_wf nv" using json_wf_find "1.prems"(1) seg .
  moreover have "json_wf w" if d: "find_char CHR ''.'' rest = Some d" "seg = take d rest" and p: "path_loop nv (drop (d + 1) rest) = Some w" for d
  proof -
    have "seg \<noteq> []" using "1.prems"(2) d by (subst (asm) path_loop.simps) (auto split: if_splits)
    with "1.IH" [OF refl refl, of nv d] d p seg \<open>json_wf nv\<close> show ?thesis by simp
  qed
  ultimately show ?case using w by blast
qed

text \<open>A path is a chain of member lookups: joining two paths with a dot composes them.\<close>

lemma path_loop_single: "CHR ''.'' \<notin> set seg \<Longrightarrow> seg \<noteq> [] \<Longrightarrow> path_loop v seg = json_find v seg"
  by (subst path_loop.simps) (simp add: find_char_None_iff [THEN iffD2] Let_def split: option.splits)

lemma path_loop_Cons:
  assumes "CHR ''.'' \<notin> set seg" "seg \<noteq> []"
  shows "path_loop v (seg @ CHR ''.'' # rest) = Option.bind (json_find v seg) (\<lambda>w. path_loop w rest)"
  by (subst path_loop.simps) (simp add: find_char_append [OF assms(1)] assms(2) Let_def split: option.splits)

lemma json_path_segments:
  assumes "segs \<noteq> []" "\<forall>s \<in> set segs. s \<noteq> [] \<and> CHR ''.'' \<notin> set s"
  shows "json_path v (join segs ''.'') = fold (\<lambda>s acc. Option.bind acc (\<lambda>w. json_find w s)) segs (Some v)"
proof -
  have none: "fold (\<lambda>s acc. Option.bind acc (\<lambda>w. json_find w s)) ss None = None" for ss :: "string list"
    by (induction ss) auto
  have "path_loop v (join segs ''.'') = fold (\<lambda>s acc. Option.bind acc (\<lambda>w. json_find w s)) segs (Some v)"
    using assms
  proof (induction segs arbitrary: v)
    case (Cons s segs)
    show ?case
    proof (cases "segs = []")
      case True
      with Cons.prems show ?thesis by (simp add: path_loop_single)
    next
      case False
      with Cons have "path_loop w (join segs ''.'') = fold (\<lambda>s acc. Option.bind acc (\<lambda>w. json_find w s)) segs (Some w)" for w
        by simp
      with False Cons.prems show ?thesis
        by (simp add: join_Cons path_loop_Cons none del: join.simps(2) split: bind_splits)
    qed
  qed simp
  then show ?thesis by (simp add: json_path_def)
qed

end
