(* ===== verification/Json_Text.thy ===== *)
theory Json_Text
  imports Json
begin

text \<open>
  Serialising and parsing (\<open>src/core/Json.cpp\<close>): \<open>appendUtf8\<close>, \<open>escapeInto\<close>, \<open>formatDouble\<close>,
  \<open>dumpInto\<close>, and the recursive-descent \<open>Parser\<close> with its limits and positioned errors.

  The parser's state is the text not yet read: \<open>pos_\<close> is the length of the document less its
  length, \<open>atEnd()\<close> is its emptiness and \<open>peek()\<close> its head. A failure carries the message and the
  text unread at that moment, from which \<open>parse_document\<close> computes offset, line and column.
\<close>

section \<open>Writing\<close>

text \<open>The bit fields joined by \<open>|\<close> in \<open>appendUtf8\<close> do not overlap, so they are sums here.\<close>

definition append_utf8 :: "nat \<Rightarrow> string" where
  "append_utf8 cp0 =
     (let cp = (if 0xD800 \<le> cp0 \<and> cp0 \<le> 0xDFFF then 0xFFFD else cp0)
      in if cp \<le> 0x7F then [char_of cp]
         else if cp \<le> 0x7FF then [char_of (0xC0 + cp div 64), char_of (0x80 + cp mod 64)]
         else if cp \<le> 0xFFFF then
           [char_of (0xE0 + cp div 4096), char_of (0x80 + cp div 64 mod 64), char_of (0x80 + cp mod 64)]
         else
           [char_of (0xF0 + cp div 262144), char_of (0x80 + cp div 4096 mod 64),
            char_of (0x80 + cp div 64 mod 64), char_of (0x80 + cp mod 64)])"

definition escape_char :: "char \<Rightarrow> string" where
  "escape_char c =
     (if c = CHR 0x22 then [CHR 0x5C, CHR 0x22]
      else if c = CHR 0x5C then [CHR 0x5C, CHR 0x5C]
      else if c = CHR 0x08 then [CHR 0x5C, CHR ''b'']
      else if c = CHR 0x0C then [CHR 0x5C, CHR ''f'']
      else if c = CHR 0x0A then [CHR 0x5C, CHR ''n'']
      else if c = CHR 0x0D then [CHR 0x5C, CHR ''r'']
      else if c = CHR 0x09 then [CHR 0x5C, CHR ''t'']
      else if byte c < 0x20 then
        [CHR 0x5C, CHR ''u'', CHR ''0'', CHR ''0'', hex_digit (byte c div 16), hex_digit (byte c mod 16)]
      else [c])"

definition escape_into :: "string \<Rightarrow> string" where
  "escape_into t = CHR 0x22 # concat (map escape_char t) @ [CHR 0x22]"

definition quote :: "string \<Rightarrow> string" where
  "quote t = escape_into t"

text \<open>The search for the shortest precision that reads back as the same number.\<close>

fun shortest_loop :: "f64 \<Rightarrow> nat list \<Rightarrow> string \<Rightarrow> string" where
  "shortest_loop v [] t = t"
| "shortest_loop v (precision # ps) t =
     (let candidate = print_g precision v
      in if f64_eq (strtod candidate) v then candidate else shortest_loop v ps t)"

definition format_double :: "f64 \<Rightarrow> string" where
  "format_double v =
     (if \<not> f64_finite v then ''null''
      else let t = shortest_loop v [1..<17] (print_g 17 v)
           in if list_all (\<lambda>c. c \<notin> set ''.eEn'') t then t @ ''.0'' else t)"

text \<open>\<open>indent < 0\<close> is the compact form, here \<open>None\<close>.\<close>

definition pad_of :: "nat option \<Rightarrow> nat \<Rightarrow> string" where
  "pad_of indent depth = (case indent of None \<Rightarrow> [] | Some n \<Rightarrow> replicate (n * depth) CHR '' '')"

definition newline_of :: "nat option \<Rightarrow> string" where
  "newline_of indent = (if indent = None then [] else [CHR 0x0A])"

definition colon_of :: "nat option \<Rightarrow> string" where
  "colon_of indent = (if indent = None then '':'' else '': '')"

fun dump_into :: "nat option \<Rightarrow> nat \<Rightarrow> json \<Rightarrow> string"
  and dump_items :: "nat option \<Rightarrow> nat \<Rightarrow> json list \<Rightarrow> string"
  and dump_members :: "nat option \<Rightarrow> nat \<Rightarrow> (string \<times> json) list \<Rightarrow> string" where
  "dump_into indent depth JNull = ''null''"
| "dump_into indent depth (JBool b) = (if b then ''true'' else ''false'')"
| "dump_into indent depth (JInt i) = show_int (sint i)"
| "dump_into indent depth (JDouble d) = format_double d"
| "dump_into indent depth (JString s) = escape_into s"
| "dump_into indent depth (JArray items) =
     (if items = [] then ''[]''
      else ''['' @ newline_of indent @ dump_items indent depth items @ pad_of indent depth @ '']'')"
| "dump_into indent depth (JObject members) =
     (if members = [] then ''{}''
      else ''{'' @ newline_of indent @ dump_members indent depth members @ pad_of indent depth @ ''}'')"
| "dump_items indent depth [] = []"
| "dump_items indent depth (v # vs) =
     pad_of indent (depth + 1) @ dump_into indent (depth + 1) v
     @ (if vs = [] then [] else '','') @ newline_of indent @ dump_items indent depth vs"
| "dump_members indent depth [] = []"
| "dump_members indent depth ((k, v) # ms) =
     pad_of indent (depth + 1) @ escape_into k @ colon_of indent @ dump_into indent (depth + 1) v
     @ (if ms = [] then [] else '','') @ newline_of indent @ dump_members indent depth ms"

definition json_dump :: "json \<Rightarrow> string" where
  "json_dump v = dump_into None 0 v"

definition json_dump_indent :: "nat \<Rightarrow> json \<Rightarrow> string" where
  "json_dump_indent n v = dump_into (Some n) 0 v"

section \<open>Reading: the lexical level\<close>

type_synonym failure = "string \<times> string"
type_synonym 'a parsed = "failure + ('a \<times> string)"

definition json_ws :: "char \<Rightarrow> bool" where
  "json_ws c \<longleftrightarrow> c = CHR '' '' \<or> c = CHR 0x09 \<or> c = CHR 0x0A \<or> c = CHR 0x0D"

definition skip_ws :: "string \<Rightarrow> string" where
  "skip_ws s = dropWhile json_ws s"

definition peek_is :: "char \<Rightarrow> string \<Rightarrow> bool" where
  "peek_is c s \<longleftrightarrow> s \<noteq> [] \<and> hd s = c"

definition expect_msg :: "char \<Rightarrow> string" where
  "expect_msg c = ''expected '' @ [CHR 0x27, c, CHR 0x27]"

definition consume_literal :: "string \<Rightarrow> json \<Rightarrow> string \<Rightarrow> json parsed" where
  "consume_literal literal v s =
     (if take (length literal) s \<noteq> literal then Inl (''invalid literal'', s)
      else Inr (v, drop (length literal) s))"

definition hex_val :: "char \<Rightarrow> nat option" where
  "hex_val c =
     (if is_digit c then Some (byte c - 48)
      else if 97 \<le> byte c \<and> byte c \<le> 102 then Some (byte c - 97 + 10)
      else if 65 \<le> byte c \<and> byte c \<le> 70 then Some (byte c - 65 + 10)
      else None)"

fun hex_loop :: "nat \<Rightarrow> nat \<Rightarrow> string \<Rightarrow> nat parsed" where
  "hex_loop n value s =
     (if n = 0 then Inr (value, s)
      else case s of
        [] \<Rightarrow> Inr (value, [])
      | c # r \<Rightarrow>
          (case hex_val c of
             Some d \<Rightarrow> hex_loop (n - 1) (16 * value + d) r
           | None \<Rightarrow> Inl (''invalid hex digit in '' @ [CHR 0x5C] @ ''u escape'', r)))"

declare hex_loop.simps [simp del]

definition parse_hex4 :: "string \<Rightarrow> nat parsed" where
  "parse_hex4 s = (if length s < 4 then Inl (''truncated '' @ [CHR 0x5C] @ ''u escape'', s) else hex_loop 4 0 s)"

lemma hex_loop_length: "hex_loop n v s = Inr (x, s') \<Longrightarrow> length s' \<le> length s"
proof (induction n v s rule: hex_loop.induct)
  case (1 n v s)
  then show ?case
    by (subst (asm) (2) hex_loop.simps) (fastforce split: if_splits list.splits option.splits)
qed

lemma parse_hex4_length: "parse_hex4 s = Inr (x, s') \<Longrightarrow> length s' \<le> length s"
  by (auto simp: parse_hex4_def dest: hex_loop_length split: if_splits)

text \<open>The code point of a \<open>\u\<close> escape, a valid surrogate pair recombined.\<close>

definition parse_u_escape :: "string \<Rightarrow> nat parsed" where
  "parse_u_escape s =
     (case parse_hex4 s of
        Inl e \<Rightarrow> Inl e
      | Inr (cp, r) \<Rightarrow>
          if 0xD800 \<le> cp \<and> cp \<le> 0xDBFF \<and> 1 < length r \<and> r ! 0 = CHR 0x5C \<and> r ! 1 = CHR ''u'' then
            (case parse_hex4 (drop 2 r) of
               Inl e \<Rightarrow> Inl e
             | Inr (low, r') \<Rightarrow>
                 if 0xDC00 \<le> low \<and> low \<le> 0xDFFF
                 then Inr (0x10000 + (cp - 0xD800) * 1024 + (low - 0xDC00), r')
                 else Inr (cp, r))
          else Inr (cp, r))"

lemma parse_u_escape_length: "parse_u_escape s = Inr (x, s') \<Longrightarrow> length s' \<le> length s"
  by (auto simp: parse_u_escape_def dest!: parse_hex4_length split: sum.splits prod.splits if_splits)

definition simple_escape :: "char \<Rightarrow> char option" where
  "simple_escape esc =
     (if esc = CHR 0x22 then Some CHR 0x22
      else if esc = CHR 0x5C then Some CHR 0x5C
      else if esc = CHR ''/'' then Some CHR ''/''
      else if esc = CHR ''b'' then Some CHR 0x08
      else if esc = CHR ''f'' then Some CHR 0x0C
      else if esc = CHR ''n'' then Some CHR 0x0A
      else if esc = CHR ''r'' then Some CHR 0x0D
      else if esc = CHR ''t'' then Some CHR 0x09
      else None)"

function string_loop :: "string \<Rightarrow> string \<Rightarrow> string parsed" where
  "string_loop out s =
     (case s of
        [] \<Rightarrow> Inl (''unterminated string'', s)
      | c # r \<Rightarrow>
          if c = CHR 0x22 then Inr (out, r)
          else if c = CHR 0x5C then
            (case r of
               [] \<Rightarrow> Inl (''unterminated escape sequence'', r)
             | esc # r' \<Rightarrow>
                 if esc = CHR ''u'' then
                   (case parse_u_escape r' of
                      Inl e \<Rightarrow> Inl e
                    | Inr (cp, r'') \<Rightarrow> string_loop (out @ append_utf8 cp) r'')
                 else (case simple_escape esc of
                         Some d \<Rightarrow> string_loop (out @ [d]) r'
                       | None \<Rightarrow> Inl (''invalid escape sequence'', r')))
          else if byte c < 0x20 then Inl (''unescaped control character in string'', s)
          else string_loop (out @ [c]) r)"
  by pat_completeness auto
termination by (relation "measure (\<lambda>(out, s). length s)") (auto dest!: parse_u_escape_length)

declare string_loop.simps [simp del]

definition parse_string :: "string \<Rightarrow> string parsed" where
  "parse_string s =
     (if peek_is CHR 0x22 s then string_loop [] (tl s) else Inl (expect_msg CHR 0x22, s))"

definition digit_next :: "string \<Rightarrow> bool" where
  "digit_next s \<longleftrightarrow> s \<noteq> [] \<and> is_digit (hd s)"

text \<open>The parts of \<open>parseNumber\<close>: integer part, fraction and exponent.\<close>

definition number_int :: "string \<Rightarrow> failure + string" where
  "number_int s0 =
     (let s = (if peek_is CHR ''-'' s0 then tl s0 else s0)
      in if s = [] then Inl (''truncated number'', s)
         else if hd s = CHR ''0'' then Inr (tl s)
         else if digit_next s then Inr (dropWhile is_digit s)
         else Inl (''invalid number'', s))"

definition number_frac :: "string \<Rightarrow> failure + (bool \<times> string)" where
  "number_frac s =
     (if peek_is CHR ''.'' s then
        if digit_next (tl s) then Inr (True, dropWhile is_digit (tl s))
        else Inl (''expected digit after decimal point'', tl s)
      else Inr (False, s))"

definition number_exp :: "string \<Rightarrow> failure + (bool \<times> string)" where
  "number_exp s =
     (if peek_is CHR ''e'' s \<or> peek_is CHR ''E'' s then
        let r = (if peek_is CHR ''+'' (tl s) \<or> peek_is CHR ''-'' (tl s) then tl (tl s) else tl s)
        in if digit_next r then Inr (True, dropWhile is_digit r)
           else Inl (''expected digit in exponent'', r)
      else Inr (False, s))"

definition number_value :: "bool \<Rightarrow> string \<Rightarrow> json" where
  "number_value isDbl literal =
     (if \<not> isDbl then
        (case strtoll10 (c_str literal) of
           (erange, v, end) \<Rightarrow> if \<not> erange \<and> end = [] then JInt v else JDouble (strtod literal))
      else JDouble (strtod literal))"

definition parse_number :: "string \<Rightarrow> json parsed" where
  "parse_number s0 =
     (case number_int s0 of
        Inl e \<Rightarrow> Inl e
      | Inr s1 \<Rightarrow>
          (case number_frac s1 of
             Inl e \<Rightarrow> Inl e
           | Inr (d1, s2) \<Rightarrow>
               (case number_exp s2 of
                  Inl e \<Rightarrow> Inl e
                | Inr (d2, s3) \<Rightarrow>
                    Inr (number_value (d1 \<or> d2) (take (length s0 - length s3) s0), s3))))"

section \<open>Reading: values\<close>

lemma skip_ws_length: "length (skip_ws s) \<le> length s"
  by (simp add: skip_ws_def length_dropWhile_le)

lemma string_loop_length: "string_loop out s = Inr (x, s') \<Longrightarrow> length s' < length s"
proof (induction out s rule: string_loop.induct)
  case (1 out s)
  show ?case
  proof (cases s)
    case Nil
    with 1 show ?thesis by (subst (asm) (3) string_loop.simps) simp
  next
    case (Cons c r)
    from "1.prems" Cons have eq: "(if c = CHR 0x22 then Inr (out, r)
          else if c = CHR 0x5C then
            (case r of
               [] \<Rightarrow> Inl (''unterminated escape sequence'', r)
             | esc # r' \<Rightarrow>
                 if esc = CHR ''u'' then
                   (case parse_u_escape r' of
                      Inl e \<Rightarrow> Inl e
                    | Inr (cp, r'') \<Rightarrow> string_loop (out @ append_utf8 cp) r'')
                 else (case simple_escape esc of
                         Some d \<Rightarrow> string_loop (out @ [d]) r'
                       | None \<Rightarrow> Inl (''invalid escape sequence'', r')))
          else if byte c < 0x20 then Inl (''unescaped control character in string'', s)
          else string_loop (out @ [c]) r) = Inr (x, s')"
      by (subst (asm) string_loop.simps) simp
    show ?thesis
      using eq 1 Cons
      by (auto dest!: parse_u_escape_length split: if_splits list.splits sum.splits option.splits)
        (meson less_SucI order.strict_trans2)+
  qed
qed

lemma parse_string_length: "parse_string s = Inr (x, s') \<Longrightarrow> length s' < length s"
  by (auto simp: parse_string_def peek_is_def neq_Nil_conv dest: string_loop_length split: if_splits)

lemma number_int_length: "number_int s = Inr s' \<Longrightarrow> length s' < length s"
  using length_dropWhile_le [of is_digit "tl s"] length_dropWhile_le [of is_digit "tl (tl s)"]
  by (cases s; cases "tl s")
    (auto simp: number_int_def peek_is_def digit_next_def Let_def split: if_splits)

lemma number_frac_length: "number_frac s = Inr (d, s') \<Longrightarrow> length s' \<le> length s"
  using length_dropWhile_le [of is_digit "tl s"]
  by (auto simp: number_frac_def split: if_splits)

lemma number_exp_length: "number_exp s = Inr (d, s') \<Longrightarrow> length s' \<le> length s"
  using length_dropWhile_le [of is_digit "tl s"] length_dropWhile_le [of is_digit "tl (tl s)"]
  by (auto simp: number_exp_def Let_def split: if_splits)

lemma parse_number_length: "parse_number s = Inr (x, s') \<Longrightarrow> length s' < length s"
  by (auto simp: parse_number_def dest!: number_int_length number_frac_length number_exp_length
      split: sum.splits prod.splits)

lemma consume_literal_length: "consume_literal l v s = Inr (x, s') \<Longrightarrow> length s' \<le> length s"
  by (auto simp: consume_literal_def split: if_splits)

text \<open>
  \<open>parseValue\<close>, and the loops of \<open>parseArray\<close> and \<open>parseObject\<close> entered once the bracket is read
  and the container is known not to be empty.
\<close>

function parse_value :: "nat \<Rightarrow> nat \<Rightarrow> string \<Rightarrow> json parsed"
  and array_loop :: "nat \<Rightarrow> nat \<Rightarrow> json list \<Rightarrow> string \<Rightarrow> json parsed"
  and object_loop :: "nat \<Rightarrow> nat \<Rightarrow> (string \<times> json) list \<Rightarrow> string \<Rightarrow> json parsed" where
  "parse_value maxDepth depth s =
     (if maxDepth < depth then Inl (''maximum nesting depth exceeded'', s)
      else case s of
        [] \<Rightarrow> Inl (''unexpected end of input'', s)
      | c # r \<Rightarrow>
          if c = CHR ''n'' then consume_literal ''null'' JNull s
          else if c = CHR ''t'' then consume_literal ''true'' (JBool True) s
          else if c = CHR ''f'' then consume_literal ''false'' (JBool False) s
          else if c = CHR 0x22 then
            (case parse_string s of Inl e \<Rightarrow> Inl e | Inr (t, s') \<Rightarrow> Inr (JString t, s'))
          else if c = CHR ''['' then
            (if peek_is CHR '']'' (skip_ws r) then Inr (JArray [], tl (skip_ws r))
             else array_loop maxDepth depth [] (skip_ws r))
          else if c = CHR ''{'' then
            (if peek_is CHR ''}'' (skip_ws r) then Inr (JObject [], tl (skip_ws r))
             else object_loop maxDepth depth [] (skip_ws r))
          else parse_number s)"
| "array_loop maxDepth depth items s =
     (case parse_value maxDepth (depth + 1) (skip_ws s) of
        Inl e \<Rightarrow> Inl e
      | Inr (v, s1) \<Rightarrow>
          if peek_is CHR '','' (skip_ws s1) then
            array_loop maxDepth depth (items @ [v]) (tl (skip_ws s1))
          else if peek_is CHR '']'' (skip_ws s1) then Inr (JArray (items @ [v]), tl (skip_ws s1))
          else Inl (''expected '' @ [CHR 0x27, CHR '','', CHR 0x27] @ '' or '' @ [CHR 0x27, CHR '']'', CHR 0x27] @ '' in array'', skip_ws s1))"
| "object_loop maxDepth depth members s =
     (if \<not> peek_is CHR 0x22 (skip_ws s) then Inl (''expected string key in object'', skip_ws s)
      else case parse_string (skip_ws s) of
        Inl e \<Rightarrow> Inl e
      | Inr (key, s1) \<Rightarrow>
          if \<not> peek_is CHR '':'' (skip_ws s1) then Inl (expect_msg CHR '':'', skip_ws s1)
          else (case parse_value maxDepth (depth + 1) (skip_ws (tl (skip_ws s1))) of
            Inl e \<Rightarrow> Inl e
          | Inr (v, s2) \<Rightarrow>
              if peek_is CHR '','' (skip_ws s2) then
                object_loop maxDepth depth (alist_set key v members) (tl (skip_ws s2))
              else if peek_is CHR ''}'' (skip_ws s2) then
                Inr (JObject (alist_set key v members), tl (skip_ws s2))
              else Inl (''expected '' @ [CHR 0x27, CHR '','', CHR 0x27] @ '' or '' @ [CHR 0x27, CHR ''}'', CHR 0x27] @ '' in object'', skip_ws s2)))"
  by pat_completeness auto

lemma parse_dom_length:
  "parse_value_array_loop_object_loop_dom (Inl (m, d, s)) \<Longrightarrow> parse_value m d s = Inr (v, s') \<Longrightarrow> length s' \<le> length s"
  "parse_value_array_loop_object_loop_dom (Inr (Inl (m, d, xs, s))) \<Longrightarrow> array_loop m d xs s = Inr (v, s') \<Longrightarrow> length s' \<le> length s"
  "parse_value_array_loop_object_loop_dom (Inr (Inr (m, d, ms, s))) \<Longrightarrow> object_loop m d ms s = Inr (v, s') \<Longrightarrow> length s' \<le> length s"
proof (induction m d s and m d xs s and m d ms s arbitrary: v s' and v s' and v s'
    rule: parse_value_array_loop_object_loop.pinduct)
  case (1 maxDepth depth s)
  show ?case
  proof (cases s)
    case (Cons c r)
    have ws: "length (skip_ws r) < length s" using skip_ws_length [of r] Cons by simp
    show ?thesis
      using 1 Cons ws skip_ws_length [of r]
      by (auto simp: parse_value.psimps dest!: consume_literal_length parse_string_length parse_number_length
          split: if_splits sum.splits intro: le_trans less_imp_le)
        (meson le_SucI le_trans)+
  qed (use 1 in \<open>auto simp: parse_value.psimps split: if_splits\<close>)
next
  case (2 maxDepth depth items s)
  show ?case
  proof (cases "parse_value maxDepth (depth + 1) (skip_ws s)")
    case (Inl e)
    with 2 show ?thesis by (simp add: array_loop.psimps)
  next
    case (Inr p)
    obtain w s1 where p: "p = (w, s1)" by fastforce
    have "length s1 \<le> length (skip_ws s)" using 2 Inr p by blast
    then have "length (skip_ws s1) \<le> length s" using skip_ws_length [of s] skip_ws_length [of s1] by linarith
    with 2 Inr p show ?thesis
      by (auto simp: array_loop.psimps split: if_splits) (meson diff_le_self le_trans)+
  qed
next
  case (3 maxDepth depth members s)
  show ?case
  proof (cases "peek_is CHR 0x22 (skip_ws s)")
    case False
    with 3 show ?thesis by (simp add: object_loop.psimps)
  next
    case q: True
    show ?thesis
    proof (cases "parse_string (skip_ws s)")
      case (Inl e)
      with 3 q show ?thesis by (simp add: object_loop.psimps)
    next
      case (Inr kp)
      obtain key s1 where kp: "kp = (key, s1)" by fastforce
      have l1: "length s1 \<le> length s"
        using parse_string_length [of "skip_ws s" key s1] Inr kp skip_ws_length [of s] by simp
      show ?thesis
      proof (cases "peek_is CHR '':'' (skip_ws s1)")
        case False
        with 3 q Inr kp show ?thesis by (simp add: object_loop.psimps)
      next
        case c: True
        show ?thesis
        proof (cases "parse_value maxDepth (depth + 1) (skip_ws (tl (skip_ws s1)))")
          case (Inl e)
          with 3 q Inr kp c show ?thesis by (simp add: object_loop.psimps)
        next
          case vp: (Inr vp)
          obtain w s2 where w: "vp = (w, s2)" by fastforce
          have "length s2 \<le> length (skip_ws (tl (skip_ws s1)))" using 3 q Inr kp c vp w by blast
          also have "\<dots> \<le> length s"
            using skip_ws_length [of "tl (skip_ws s1)"] skip_ws_length [of s1] l1 by simp
          finally have "length (skip_ws s2) \<le> length s" using skip_ws_length [of s2] by linarith
          with 3 q Inr kp c vp w show ?thesis
            by (auto simp: object_loop.psimps split: if_splits) (meson diff_le_self le_trans)+
        qed
      qed
    qed
  qed
qed

termination parse_value
proof (relation "measures
    [\<lambda>x. case x of Inl (m, d, s) \<Rightarrow> length s | Inr (Inl (m, d, xs, s)) \<Rightarrow> length s | Inr (Inr (m, d, ms, s)) \<Rightarrow> length s,
     \<lambda>x. case x of Inl _ \<Rightarrow> 0 | Inr _ \<Rightarrow> 1]", goal_cases)
  case (2 m d s c r)
  then show ?case using skip_ws_length [of r] by simp
next
  case (3 m d s c r)
  then show ?case using skip_ws_length [of r] by simp
next
  case (4 m d xs s)
  then show ?case using skip_ws_length [of s] by (simp add: le_less)
next
  case (5 m d xs s p v s1)
  have "length s1 \<le> length (skip_ws s)" using parse_dom_length(1) 5 by blast
  moreover from 5 have "skip_ws s1 \<noteq> []" by (simp add: peek_is_def)
  ultimately show ?case using skip_ws_length [of s] skip_ws_length [of s1]
    by (cases "skip_ws s1") auto
next
  case (6 m d ms s p key s1)
  then have "length s1 < length (skip_ws s)" using parse_string_length by blast
  then show ?case using skip_ws_length [of s] skip_ws_length [of s1] skip_ws_length [of "tl (skip_ws s1)"]
    by (simp, linarith)
next
  case (7 m d ms s p key s1 q v s2)
  then have "length s1 < length (skip_ws s)" using parse_string_length by blast
  moreover have "length s2 \<le> length (skip_ws (tl (skip_ws s1)))" using parse_dom_length(1) 7 by blast
  ultimately show ?case
    using skip_ws_length [of s] skip_ws_length [of s1] skip_ws_length [of s2] skip_ws_length [of "tl (skip_ws s1)"]
    by simp
qed simp

declare parse_value.simps [simp del] array_loop.simps [simp del] object_loop.simps [simp del]

section \<open>Documents\<close>

text \<open>A \<open>ParseError\<close>: its message, and the offset, line and column where parsing stopped.\<close>

datatype parse_error = ParseError string nat nat nat

fun line_col :: "string \<Rightarrow> nat \<Rightarrow> nat \<Rightarrow> nat \<times> nat" where
  "line_col [] line column = (line, column)"
| "line_col (c # cs) line column =
     (if c = CHR 0x0A then line_col cs (line + 1) 1 else line_col cs line (column + 1))"

definition fail_at :: "string \<Rightarrow> failure \<Rightarrow> parse_error" where
  "fail_at t f =
     (case f of (msg, rest) \<Rightarrow>
        let pos = length t - length rest
        in case line_col (take pos t) 1 1 of (line, column) \<Rightarrow> ParseError msg pos line column)"

fun parse_error_what :: "parse_error \<Rightarrow> string" where
  "parse_error_what (ParseError msg offset line column) =
     ''JSON parse error at line '' @ show_nat line @ '', column '' @ show_nat column @ '': '' @ msg"

record parse_limits =
  maxDepth :: nat
  maxLength :: nat

definition default_limits :: parse_limits where
  "default_limits = \<lparr>maxDepth = 64, maxLength = 16 * 1024 * 1024\<rparr>"

definition parse_document :: "nat \<Rightarrow> string \<Rightarrow> parse_error + json" where
  "parse_document md t =
     (case parse_value md 0 (skip_ws t) of
        Inl f \<Rightarrow> Inl (fail_at t f)
      | Inr (v, rest) \<Rightarrow>
          if skip_ws rest \<noteq> []
          then Inl (fail_at t (''trailing characters after top-level value'', skip_ws rest))
          else Inr v)"

definition json_parse :: "parse_limits \<Rightarrow> string \<Rightarrow> parse_error + json" where
  "json_parse limits t =
     (if maxLength limits < length t
      then Inl (ParseError ''document exceeds maximum length'' 0 1 1)
      else parse_document (maxDepth limits) t)"

text \<open>\<open>tryParse\<close>: the value, or the text stored through \<open>error\<close>.\<close>

definition tryParse :: "parse_limits \<Rightarrow> string \<Rightarrow> string + json" where
  "tryParse limits t = (case json_parse limits t of Inl e \<Rightarrow> Inl (parse_error_what e) | Inr v \<Rightarrow> Inr v)"

end
