(* ===== verification/F64_Facts.thy ===== *)
theory F64_Facts
  imports F64
begin

text \<open>
  Facts about the rounding of \<open>F64\<close>: a rounded fraction depends on its value only, a fraction
  near enough to a double rounds to it, and the decimal significand of 17 digits that \<open>%.17g\<close>
  prints is near enough.
\<close>

section \<open>Powers and logarithms\<close>

lemma scale_ratio:
  assumes "0 < B" "0 < d"
  shows "real (scale_num B n k) / real (scale_den B d k) = real n / real d * real B powi k"
proof (cases "0 \<le> k")
  case True
  then show ?thesis using assms by (simp add: scale_num_def scale_den_def power_int_def)
next
  case False
  then show ?thesis using assms by (simp add: scale_num_def scale_den_def power_int_def field_simps)
qed

lemma scale_den_pos [simp]: "0 < B \<Longrightarrow> 0 < d \<Longrightarrow> 0 < scale_den B d k"
  by (simp add: scale_den_def)

lemma scale_num_pos [simp]: "0 < scale_num B n k \<longleftrightarrow> 0 < n \<and> (0 < B \<or> nat k = 0)"
  by (auto simp: scale_num_def)

lemma floorlog_real:
  assumes "2 \<le> B" "0 < n"
  shows "real B powi (int (floorlog B n) - 1) \<le> real n" "real n < real B powi int (floorlog B n)"
proof -
  from floorlog_bounds [of n B] assms have b: "B ^ (floorlog B n - 1) \<le> n" "n < B ^ floorlog B n" by simp_all
  have pos: "0 < floorlog B n" using assms by (simp add: floorlog_def)
  have "real B powi (int (floorlog B n) - 1) = real (B ^ (floorlog B n - 1))"
    using pos by (simp add: power_int_def nat_diff_distrib)
  also have "\<dots> \<le> real n" using b(1) by (simp only: of_nat_le_iff)
  finally show "real B powi (int (floorlog B n) - 1) \<le> real n" .
  have "real n < real (B ^ floorlog B n)" using b(2) by (simp only: of_nat_less_iff)
  then show "real n < real B powi int (floorlog B n)" by (simp add: power_int_def)
qed

lemma frac_log_bounds:
  assumes B: "2 \<le> B" and n: "0 < n" and d: "0 < d"
  shows "real B powi frac_log B n d \<le> real n / real d" "real n / real d < real B powi (frac_log B n d + 1)"
proof -
  define a b where "a = int (floorlog B n)" and "b = int (floorlog B d)"
  have Bp: "0 < real B" using B by simp
  have ln: "real B powi (a - 1) \<le> n" "n < real B powi a" and ld: "real B powi (b - 1) \<le> d" "d < real B powi b"
    using floorlog_real [OF B n] floorlog_real [OF B d] by (simp_all add: a_def b_def)
  have "real n / real d < real B powi a / real B powi (b - 1)"
    by (rule frac_less) (use ln ld n d Bp in auto)
  also have "\<dots> = real B powi (a - b + 1)" using Bp by (simp add: power_int_diff [symmetric] algebra_simps)
  finally have up: "real n / real d < real B powi (a - b + 1)" .
  have "real B powi (a - 1) / real B powi b < real n / real d"
    by (rule frac_less2) (use ln ld n d Bp in auto)
  moreover have "real B powi (a - 1) / real B powi b = real B powi (a - b - 1)"
    using Bp by (simp add: power_int_diff [symmetric] algebra_simps)
  ultimately have lo: "real B powi (a - b - 1) < real n / real d" by simp
  have test: "scale_num B d (a - b) \<le> scale_den B n (a - b) \<longleftrightarrow> real B powi (a - b) \<le> real n / real d"
  proof -
    have "scale_num B d (a - b) \<le> scale_den B n (a - b) \<longleftrightarrow>
        real (scale_num B d (a - b)) / real (scale_den B n (a - b)) \<le> 1"
      using scale_den_pos [of B n "a - b"] B n by (subst divide_le_eq_1_pos) simp_all
    also have "\<dots> \<longleftrightarrow> real d / real n * real B powi (a - b) \<le> 1"
      using scale_ratio [of B n d "a - b"] B n by simp
    also have "\<dots> \<longleftrightarrow> real B powi (a - b) \<le> real n / real d" using n d by (simp add: field_simps)
    finally show ?thesis .
  qed
  show "real B powi frac_log B n d \<le> real n / real d" "real n / real d < real B powi (frac_log B n d + 1)"
    using test up lo by (auto simp: frac_log_def Let_def a_def b_def algebra_simps)
qed

lemma powi_bracket_unique:
  fixes b :: real
  assumes b: "1 < b" and "b powi i \<le> x" "x < b powi (i + 1)" "b powi j \<le> x" "x < b powi (j + 1)"
  shows "i = j"
proof -
  have lt: "b powi i < b powi (j + 1)" "b powi j < b powi (i + 1)" using assms by linarith+
  have "\<not> j + 1 \<le> i" using power_int_increasing [of "j + 1" i b] lt(1) b by auto
  moreover have "\<not> i + 1 \<le> j" using power_int_increasing [of "i + 1" j b] lt(2) b by auto
  ultimately show ?thesis by simp
qed

lemma frac_log_eqI:
  assumes "2 \<le> B" "0 < n" "0 < d" "real B powi k \<le> real n / real d" "real n / real d < real B powi (k + 1)"
  shows "frac_log B n d = k"
  using powi_bracket_unique [of "real B"] frac_log_bounds [of B n d] assms by force

section \<open>Division to nearest even\<close>

lemma div_rne_real:
  assumes "0 < b"
  shows "div_rne a b = (let q = nat \<lfloor>real a / real b\<rfloor>; f = real a / real b - real q
     in if f < 1 / 2 \<or> f = 1 / 2 \<and> even q then q else q + 1)"
proof -
  have q: "nat \<lfloor>real a / real b\<rfloor> = a div b" by (simp add: floor_divide_of_nat_eq)
  have "real a = real (a div b) * real b + real (a mod b)"
    by (metis div_mult_mod_eq of_nat_add of_nat_mult)
  then have f: "real a / real b - real (a div b) = real (a mod b) / real b"
    using assms by (simp add: field_simps)
  have lt: "real (a mod b) / real b < 1 / 2 \<longleftrightarrow> 2 * (a mod b) < b"
  proof -
    have "real (a mod b) / real b < 1 / 2 \<longleftrightarrow> real (2 * (a mod b)) < real b"
      using assms by (auto simp: field_simps)
    then show ?thesis by (simp only: of_nat_less_iff)
  qed
  have eq: "real (a mod b) / real b = 1 / 2 \<longleftrightarrow> 2 * (a mod b) = b"
  proof -
    have "real (a mod b) / real b = 1 / 2 \<longleftrightarrow> real (2 * (a mod b)) = real b"
      using assms by (auto simp: field_simps)
    then show ?thesis by (simp only: of_nat_eq_iff)
  qed
  show ?thesis unfolding div_rne_def Let_def q f lt eq by (rule refl)
qed

lemma div_rne_cong: "0 < b \<Longrightarrow> 0 < b' \<Longrightarrow> real a / real b = real a' / real b' \<Longrightarrow> div_rne a b = div_rne a' b'"
  by (simp add: div_rne_real)

lemma div_rne_near:
  assumes b: "0 < b" and near: "\<bar>real a / real b - real m\<bar> < 1 / 2"
  shows "div_rne a b = m"
proof -
  define x where "x = real a / real b"
  have x0: "0 \<le> x" by (simp add: x_def)
  have near': "x < real m + 1 / 2" "real m - 1 / 2 < x"
    using near unfolding x_def by linarith+
  have rne: "div_rne a b = (let q = nat \<lfloor>x\<rfloor>; f = x - real q
     in if f < 1 / 2 \<or> f = 1 / 2 \<and> even q then q else q + 1)"
    using div_rne_real [OF b, of a] by (simp only: x_def)
  show ?thesis
  proof (cases "real m \<le> x")
    case True
    then have "\<lfloor>x\<rfloor> = int m" using near' by (intro floor_unique) simp_all
    with True near' show ?thesis by (simp add: rne Let_def)
  next
    case False
    then have m0: "0 < m" using x0 by (cases m) auto
    have "\<lfloor>x\<rfloor> = int m - 1" using near' False by (intro floor_unique) simp_all
    then have q: "nat \<lfloor>x\<rfloor> = m - 1" using m0 by simp
    have "real (m - 1) = real m - 1" using m0 by simp
    with near' False q m0 show ?thesis by (simp add: rne Let_def)
  qed
qed

lemma div_rne_error:
  assumes "0 < b"
  shows "\<bar>real (div_rne a b) - real a / real b\<bar> \<le> 1 / 2"
proof -
  define x where "x = real a / real b"
  have rne: "div_rne a b = (let q = nat \<lfloor>x\<rfloor>; f = x - real q
     in if f < 1 / 2 \<or> f = 1 / 2 \<and> even q then q else q + 1)"
    using div_rne_real [OF assms, of a] by (simp only: x_def)
  have "0 \<le> \<lfloor>x\<rfloor>" by (simp add: x_def)
  then have r: "real (nat \<lfloor>x\<rfloor>) = of_int \<lfloor>x\<rfloor>" by simp
  have b: "of_int \<lfloor>x\<rfloor> \<le> x" "x < of_int \<lfloor>x\<rfloor> + 1" by linarith+
  have "real (div_rne a b) = of_int \<lfloor>x\<rfloor> \<and> x - of_int \<lfloor>x\<rfloor> \<le> 1 / 2 \<or>
      real (div_rne a b) = of_int \<lfloor>x\<rfloor> + 1 \<and> 1 / 2 \<le> x - of_int \<lfloor>x\<rfloor>"
    unfolding rne Let_def r by (simp add: r split: if_split)
  with b show ?thesis unfolding x_def [symmetric] abs_le_iff by linarith
qed

section \<open>Rounding depends on the value only\<close>

lemma raw_of_frac_cong:
  assumes d: "0 < d" "0 < d'" and eq: "real n / real d = real n' / real d'"
  shows "raw_of_frac n d = raw_of_frac n' d'"
proof (cases "n = 0")
  case True
  with d eq have "n' = 0" by simp
  with True show ?thesis by (simp add: raw_of_frac_def)
next
  case False
  have n': "n' \<noteq> 0"
  proof
    assume "n' = 0"
    with eq have "real n / real d = 0" by simp
    with False d show False by simp
  qed
  have n'p: "0 < n'" using n' by simp
  have l: "frac_log 2 n d = frac_log 2 n' d'"
    using frac_log_bounds [of 2 n' d'] False n'p d by (intro frac_log_eqI) (simp_all add: eq)
  have "div_rne (scale_num 2 n k) (scale_den 2 d k) = div_rne (scale_num 2 n' k) (scale_den 2 d' k)" for k
    by (rule div_rne_cong) (use d eq scale_ratio [of 2 d n k] scale_ratio [of 2 d' n' k] in auto)
  with False n' l show ?thesis by (simp add: raw_of_frac_def Let_def)
qed

lemma raw_of_dec_cong:
  assumes "real n * 10 powi e = real n' * 10 powi e'"
  shows "raw_of_dec n e = raw_of_dec n' e'"
  unfolding raw_of_dec_def
  by (rule raw_of_frac_cong) (use assms scale_ratio [of 10 1 n e] scale_ratio [of 10 1 n' e'] in simp_all)

section \<open>The magnitude of a pattern\<close>

definition raw_val :: "nat \<Rightarrow> real" where
  "raw_val r = real (raw_mant r) * 2 powi raw_expo r"

lemma raw_den_pos [simp]: "0 < raw_den r"
  by (simp add: raw_den_def)

lemma raw_frac: "real (raw_num r) / real (raw_den r) = raw_val r"
  by (cases "0 \<le> raw_expo r")
    (auto simp: raw_num_def raw_den_def raw_val_def power_int_def field_simps)

lemma raw_mant_bound: "raw_mant r < 2 ^ 53"
  by (auto simp: raw_mant_def)

lemma raw_expo_bound: "- 1074 \<le> raw_expo r"
  by (auto simp: raw_expo_def)

lemma raw_mant_normal: "raw_expo r = - 1074 \<or> 2 ^ 52 \<le> raw_mant r"
  by (auto simp: raw_mant_def raw_expo_def)

lemma raw_split: "r = nat (raw_expo r + 1074) * 2 ^ 52 + raw_mant r"
proof (cases "r < 2 ^ 52")
  case True
  then show ?thesis by (simp add: raw_mant_def raw_expo_def)
next
  case False
  define E where "E = r div 2 ^ 52"
  have E: "1 \<le> E" using False by (simp add: E_def Suc_leI div_greater_zero_iff)
  have r: "r = E * 2 ^ 52 + r mod 2 ^ 52" by (simp add: E_def)
  have "nat (raw_expo r + 1074) = E - 1" using False E by (simp add: raw_expo_def E_def nat_diff_distrib)
  moreover have "(E - 1) * 2 ^ 52 + 2 ^ 52 = E * 2 ^ 52" using E by (cases E) simp_all
  ultimately show ?thesis using False r by (simp add: raw_mant_def)
qed

lemma raw_mant_pos: "0 < r \<Longrightarrow> 0 < raw_mant r"
  by (auto simp: raw_mant_def)

lemma raw_val_pos: "0 < r \<Longrightarrow> 0 < raw_val r"
  by (simp add: raw_val_def raw_mant_pos)

section \<open>A fraction near a double rounds to it\<close>

lemma powi_split: "(2::real) powi (i + j) = 2 powi i * 2 powi j"
  by (simp add: power_int_add)

lemma powi_less_mono: "(b::real) powi i < b powi j \<Longrightarrow> 1 < b \<Longrightarrow> i < j"
  using power_int_increasing [of j i b] by (cases "j \<le> i") auto

lemma powi_le_mono: "(b::real) powi i \<le> b powi j \<Longrightarrow> 1 < b \<Longrightarrow> i \<le> j"
  using power_int_strict_increasing [of j i b] by (cases "j < i") auto

lemma raw_of_frac_exponent:
  assumes n: "0 < n" and d: "0 < d"
    and E: "E = max (- 1074) (frac_log 2 n d - 52)"
    and near: "\<bar>real n / real d * 2 powi (- E) - real q\<bar> < 1 / 2"
  shows "raw_of_frac n d = min inf_raw (nat (E + 1074) * 2 ^ 52 + q)"
proof -
  have "div_rne (scale_num 2 n (- E)) (scale_den 2 d (- E)) = q"
  proof (rule div_rne_near)
    show "\<bar>real (scale_num 2 n (- E)) / real (scale_den 2 d (- E)) - real q\<bar> < 1 / 2"
      using near scale_ratio [of 2 d n "- E"] d by simp
  qed (use d in simp)
  then show ?thesis using n by (simp add: raw_of_frac_def Let_def E)
qed

lemma raw_of_frac_near:
  assumes r: "0 < r" "r < inf_raw" and n: "0 < n" and d: "0 < d"
    and near: "\<bar>real n / real d - raw_val r\<bar> \<le> raw_val r / (2 * 10 ^ 16)"
  shows "raw_of_frac n d = r"
proof -
  define e m where "e = raw_expo r" and "m = raw_mant r"
  define x y where "x = real n / real d" and "y = x * 2 powi (- e)"
  define E where "E = max (- 1074) (frac_log 2 n d - 52)"
  have p: "0 < (2::real) powi e" by simp
  have xy: "x = y * 2 powi e" by (simp add: y_def power_int_minus field_simps)
  have v: "raw_val r = real m * 2 powi e" by (simp add: raw_val_def e_def m_def)
  have m: "m < 2 ^ 53" "e = - 1074 \<or> 2 ^ 52 \<le> m" "- 1074 \<le> e"
    using raw_mant_bound [of r] raw_mant_normal [of r] raw_expo_bound [of r] by (auto simp: e_def m_def)
  have "\<bar>y - real m\<bar> * 2 powi e \<le> (real m / (2 * 10 ^ 16)) * 2 powi e"
    using near by (simp add: x_def [symmetric] xy v left_diff_distrib [symmetric] abs_mult)
  then have ym: "\<bar>y - real m\<bar> \<le> real m / (2 * 10 ^ 16)" using p by (simp only: mult_le_cancel_right_pos)
  have mr: "real m \<le> 2 ^ 53 - 1" using m(1) by simp
  have half: "\<bar>y - real m\<bar> < 1 / 2" using ym mr by simp
  have L: "2 powi frac_log 2 n d \<le> x" "x < 2 powi (frac_log 2 n d + 1)"
    using frac_log_bounds [of 2 n d] n d by (simp_all add: x_def)
  have "y < 2 ^ 53" using half mr by linarith
  then have "x < 2 powi (53 + e)" unfolding xy powi_split using p by simp
  with L have "2 powi frac_log 2 n d < (2::real) powi (53 + e)" by linarith
  from powi_less_mono [OF this] have up: "frac_log 2 n d - 52 \<le> e" by simp
  show ?thesis
  proof (cases "E = e")
    case True
    have "raw_of_frac n d = min inf_raw (nat (e + 1074) * 2 ^ 52 + m)"
      unfolding True [symmetric]
      by (rule raw_of_frac_exponent [OF n d E_def]) (use half in \<open>simp add: True y_def x_def\<close>)
    also have "\<dots> = r" using raw_split [of r] r by (simp add: e_def m_def)
    finally show ?thesis .
  next
    case False
    then have lt: "frac_log 2 n d + 1 \<le> e + 52" "- 1074 < e" using up m(3) by (auto simp: E_def)
    then have m52: "2 ^ 52 \<le> m" using m(2) by simp
    have "2 powi (frac_log 2 n d + 1) \<le> (2::real) powi (e + 52)" using lt by (intro power_int_increasing) simp_all
    then have "x < 2 powi 52 * 2 powi e" using L(2) by (simp add: powi_split)
    then have y52: "y < 2 ^ 52" using p by (simp add: xy)
    have "real m < 2 ^ 52 + 1" using y52 half by linarith
    with m52 have m_eq: "m = 2 ^ 52" by simp
    have "real m - y \<le> real m / (2 * 10 ^ 16)" using ym by linarith
    then have y: "2 ^ 52 - 1 / 4 < y" by (simp add: m_eq)
    then have "2 powi 51 * 2 powi e \<le> x" using p by (simp add: xy)
    then have "2 powi (51 + e) < (2::real) powi (frac_log 2 n d + 1)" unfolding powi_split using L(2) by (simp add: powi_split)
    from powi_less_mono [OF this] have "frac_log 2 n d = e + 51" using lt by simp
    then have E: "E = e - 1" using lt by (simp add: E_def)
    have "x * 2 powi (- E) = 2 * y" by (simp add: y_def E power_int_add power_int_diff power_int_minus field_simps)
    then have "\<bar>x * 2 powi (- E) - real (2 ^ 53 :: nat)\<bar> < 1 / 2" using y y52 by simp
    then have "raw_of_frac n d = min inf_raw (nat (E + 1074) * 2 ^ 52 + 2 ^ 53)"
      by (intro raw_of_frac_exponent [OF n d E_def]) (simp add: x_def)
    also have "nat (E + 1074) * 2 ^ 52 + 2 ^ 53 = nat (e + 1074) * 2 ^ 52 + m"
      using lt by (simp add: E m_eq nat_eq_iff nat_add_distrib nat_diff_distrib)
    also have "\<dots> = r" using raw_split [of r] by (simp add: e_def m_def)
    finally show ?thesis using r by simp
  qed
qed

end
