(* ===== verification/F64_Roundtrip.thy ===== *)
theory F64_Roundtrip
  imports F64_Facts
begin

text \<open>
  Printing a double with \<open>%.*g\<close> and reading it with \<open>strtod\<close>: what \<open>print_g\<close> writes is a decimal
  literal whose value is the rounded one, and 17 significant digits identify a double.
\<close>

section \<open>Digit strings\<close>

lemma digits_val_append: "digits_val (a @ b) = digits_val a * 10 ^ length b + digits_val b"
proof (induction b rule: rev_induct)
  case (snoc c b)
  have "digits_val (a @ b @ [c]) = 10 * digits_val (a @ b) + digit_val c" by (simp add: digits_val_def)
  also have "\<dots> = digits_val a * 10 ^ length (b @ [c]) + digits_val (b @ [c])"
    by (simp only: snoc.IH) (simp add: digits_val_def)
  finally show ?case .
qed (simp add: digits_val_def)

lemma digits_val_Nil [simp]: "digits_val [] = 0"
  by (simp add: digits_val_def)

lemma digits_val_zeros [simp]: "digits_val (replicate n CHR ''0'') = 0"
proof (induction n)
  case (Suc n)
  then show ?case
    using digits_val_append [of "[CHR ''0'']" "replicate n CHR ''0''"]
    by (simp add: digits_val_def digit_val_def byte_def)
qed simp

lemma length_show_nat:
  assumes "10 ^ p \<le> n" "n < 10 ^ Suc p"
  shows "length (show_nat n) = Suc p"
  using assms
proof (induction p arbitrary: n)
  case 0
  then show ?case by (subst show_nat.simps) simp
next
  case (Suc p)
  have p1: "1 \<le> (10::nat) ^ p" by simp
  then have ge: "\<not> n < 10" using Suc.prems(1) unfolding power_Suc by linarith
  have "10 ^ p \<le> n div 10" using Suc.prems(1) by (simp add: less_eq_div_iff_mult_less_eq)
  moreover have "n div 10 < 10 ^ Suc p" using Suc.prems(2) by (simp add: div_less_iff_less_mult)
  ultimately have "length (show_nat (n div 10)) = Suc p" by (rule Suc.IH)
  with ge show ?case by (subst show_nat.simps) simp
qed

lemma strip_zeros_append: "\<exists>j. s = strip_zeros s @ replicate j CHR ''0''"
proof -
  have "rev s = takeWhile (\<lambda>c. c = CHR ''0'') (rev s) @ dropWhile (\<lambda>c. c = CHR ''0'') (rev s)" by simp
  then have "s = strip_zeros s @ rev (takeWhile (\<lambda>c. c = CHR ''0'') (rev s))"
    unfolding strip_zeros_def by (metis rev_append rev_rev_ident)
  moreover have "rev (takeWhile (\<lambda>c. c = CHR ''0'') (rev s)) =
      replicate (length (takeWhile (\<lambda>c. c = CHR ''0'') (rev s))) CHR ''0''"
    by (rule replicate_eqI) (auto dest: set_takeWhileD)
  ultimately show ?thesis by metis
qed

lemma set_strip_zeros: "set (strip_zeros s) \<subseteq> set s"
  unfolding strip_zeros_def using set_dropWhileD by fastforce

section \<open>Decimal literals\<close>

text \<open>Integer part, fraction and exponent of a literal, and what makes it one.\<close>

definition dec_lit :: "string \<Rightarrow> string \<Rightarrow> string \<Rightarrow> string" where
  "dec_lit ip f ex = ip @ (if f = [] then [] else CHR ''.'' # f) @ ex"

definition dec_lit_ok :: "string \<Rightarrow> string \<Rightarrow> string \<Rightarrow> bool" where
  "dec_lit_ok ip f ex \<longleftrightarrow> ip \<noteq> [] \<and> list_all is_digit ip \<and> (ip = ''0'' \<or> hd ip \<noteq> CHR ''0'') \<and>
     list_all is_digit f \<and> (ex = [] \<or> (\<exists>X. ex = show_exp X))"

lemma takeWhile_digits: "list_all is_digit d \<Longrightarrow> r = [] \<or> \<not> is_digit (hd r) \<Longrightarrow> takeWhile is_digit (d @ r) = d"
  by (induction d) (auto simp: takeWhile_eq_Nil_iff)

lemma dropWhile_digits: "list_all is_digit d \<Longrightarrow> r = [] \<or> \<not> is_digit (hd r) \<Longrightarrow> dropWhile is_digit (d @ r) = r"
  by (induction d) (auto simp: dropWhile_eq_self_iff)

lemma show_exp_form:
  obtains sg ds where "show_exp X = CHR ''e'' # sg # ds" "sg = (if X < 0 then CHR ''-'' else CHR ''+'')"
    "ds \<noteq> []" "list_all is_digit ds" "digits_val ds = nat \<bar>X\<bar>"
proof -
  let ?d = "show_nat (nat \<bar>X\<bar>)"
  have "digits_val (CHR ''0'' # ?d) = nat \<bar>X\<bar>"
    using digits_val_append [of "''0''" ?d] digits_val_zeros [of 1] by simp
  moreover have "is_digit CHR ''0''" by (simp add: is_digit_def byte_def)
  ultimately show ?thesis
    using that show_nat_digits [of "nat \<bar>X\<bar>"]
    by (cases "length ?d < 2") (auto simp: show_exp_def Let_def list_all_iff)
qed

lemma dec_exp_show_exp [simp]: "dec_exp (show_exp X) = X"
proof -
  obtain sg ds where f: "show_exp X = CHR ''e'' # sg # ds" "sg = (if X < 0 then CHR ''-'' else CHR ''+'')"
    "ds \<noteq> []" "list_all is_digit ds" "digits_val ds = nat \<bar>X\<bar>" by (rule show_exp_form)
  have "digits_val (takeWhile is_digit ds) = nat \<bar>X\<bar>" using takeWhile_digits [of ds "[]"] f(4,5) by (simp only: append_Nil2 simp_thms)
  with f(1,2,3) show ?thesis by (auto simp: dec_exp_def)
qed

lemma dec_exp_Nil [simp]: "dec_exp [] = 0"
  by (simp add: dec_exp_def)

lemma hd_show_exp: "show_exp X \<noteq> []" "hd (show_exp X) = CHR ''e''"
  by (simp_all add: show_exp_def)

lemma not_digit_chars [simp]: "\<not> is_digit CHR ''.''" "\<not> is_digit CHR ''e''" "\<not> is_digit CHR ''E''"
  "\<not> is_digit CHR ''-''" "\<not> is_digit CHR ''+''"
  by (simp_all add: is_digit_def byte_def)

lemma strtod_mag_dec_lit:
  assumes "dec_lit_ok ip f ex"
  shows "strtod_mag (dec_lit ip f ex) = raw_of_dec (digits_val (ip @ f)) (dec_exp ex - int (length f))"
proof -
  let ?r = "(if f = [] then [] else CHR ''.'' # f) @ ex"
  have ex: "ex = [] \<or> hd ex = CHR ''e''" using assms hd_show_exp by (auto simp: dec_lit_ok_def)
  have "?r = [] \<or> \<not> is_digit (hd ?r)" using ex by auto
  then have ip: "takeWhile is_digit (ip @ ?r) = ip" "dropWhile is_digit (ip @ ?r) = ?r"
    using assms takeWhile_digits dropWhile_digits unfolding dec_lit_ok_def by blast+
  have "ex = [] \<or> \<not> is_digit (hd ex)" using ex by auto
  then have fr: "takeWhile is_digit (f @ ex) = f" "dropWhile is_digit (f @ ex) = ex"
    using assms takeWhile_digits dropWhile_digits unfolding dec_lit_ok_def by blast+
  have "dec_frac ?r = f" "dec_after_frac ?r = ex"
    using ex fr by (auto simp: dec_frac_def dec_after_frac_def)
  then show ?thesis unfolding strtod_mag_def dec_lit_def Let_def ip by simp
qed

text \<open>Zeros at the end of the fraction do not change the value read.\<close>

lemma raw_of_dec_zeros:
  "raw_of_dec (digits_val (a @ strip_zeros b)) (e - int (length (strip_zeros b))) =
   raw_of_dec (digits_val (a @ b)) (e - int (length b))"
proof -
  obtain j where j: "b = strip_zeros b @ replicate j CHR ''0''" using strip_zeros_append by blast
  let ?s = "strip_zeros b"
  have "digits_val (a @ b) = digits_val (a @ ?s) * 10 ^ j"
    by (subst j) (simp only: digits_val_append append_assoc [symmetric] digits_val_zeros length_replicate add_0_right)
  moreover have "(10::real) powi (e - int (length ?s)) = 10 powi (e - int (length b)) * 10 ^ j"
  proof -
    have "int (length b) = int (length ?s) + int j" by (subst j) simp
    then have "(10::real) powi (e - int (length ?s)) = 10 powi (e - int (length b) + int j)" by simp
    also have "\<dots> = 10 powi (e - int (length b)) * 10 ^ j" by (simp add: power_int_add)
    finally show ?thesis .
  qed
  ultimately show ?thesis by (intro raw_of_dec_cong) simp
qed

section \<open>The decimal significand\<close>

lemma dec_digits_near:
  assumes P: "0 < P" and n: "0 < n" and d: "0 < d" and D: "dec_digits P n d = (D, X)"
  shows "10 ^ (P - 1) \<le> D" "D < 10 ^ P"
    "\<bar>real D * 10 powi (X - int (P - 1)) - real n / real d\<bar> \<le> real n / real d / (2 * 10 ^ (P - 1))"
proof -
  define L k where "L = frac_log 10 n d" and "k = int (P - 1) - L"
  define x y where "x = real n / real d" and "y = x * 10 powi k"
  define q where "q = div_rne (scale_num 10 n k) (scale_den 10 d k)"
  have DX: "(D, X) = (if q = 10 ^ P then (10 ^ (P - 1), L + 1) else (q, L))"
    using D unfolding dec_digits_def Let_def L_def k_def q_def by (rule sym)
  have kp: "0 < (10::real) powi k" by simp
  have L: "10 powi L \<le> x" "x < 10 powi (L + 1)"
    using frac_log_bounds [of 10 n d] n d by (simp_all add: x_def L_def)
  have "10 powi L * 10 powi k = (10::real) powi (L + k)" "10 powi (L + 1) * 10 powi k = (10::real) powi (L + 1 + k)"
    by (rule power_int_add [symmetric], simp)+
  moreover have "L + k = int (P - 1)" "L + 1 + k = int P" using P by (simp_all add: k_def)
  ultimately have "10 powi L * 10 powi k = (10::real) ^ (P - 1)" "10 powi (L + 1) * 10 powi k = (10::real) ^ P"
    by (simp_all only: power_int_of_nat)
  with L kp have y: "10 ^ (P - 1) \<le> y" "y < 10 ^ P"
    unfolding y_def by (metis mult_le_cancel_right_pos, metis mult_less_cancel_right_pos)
  have "real (scale_num 10 n k) / real (scale_den 10 d k) = y"
    using scale_ratio [of 10 d n k] d by (simp add: x_def y_def)
  with div_rne_error [of "scale_den 10 d k" "scale_num 10 n k"] d
  have err: "\<bar>real q - y\<bar> \<le> 1 / 2" by (simp add: q_def)
  have "real (10 ^ (P - 1)) < real q + 1" "real q < real (10 ^ P) + 1"
    using err y unfolding of_nat_power of_nat_numeral by linarith+
  then have q: "10 ^ (P - 1) \<le> q" "q \<le> 10 ^ P" by linarith+
  show "10 ^ (P - 1) \<le> D" "D < 10 ^ P" using DX q P by (auto split: if_splits)
  have val: "real D * 10 powi (X - int (P - 1)) = real q * 10 powi (- k)"
  proof (cases "q = 10 ^ P")
    case True
    then have "real D * 10 powi (X - int (P - 1)) = 10 ^ (P - 1) * 10 powi (1 - k)"
      using DX by (simp add: k_def algebra_simps)
    also have "\<dots> = 10 ^ P * 10 powi (- k)"
      using P by (simp add: power_int_diff power_int_minus power_eq_if field_simps)
    finally show ?thesis by (simp add: True)
  qed (use DX in \<open>simp add: k_def\<close>)
  have x: "x = y * 10 powi (- k)" by (simp add: y_def power_int_minus)
  have "\<bar>real q * 10 powi (- k) - x\<bar> = \<bar>real q - y\<bar> * 10 powi (- k)"
    by (simp add: x left_diff_distrib [symmetric] abs_mult)
  also have "\<dots> \<le> y / (2 * 10 ^ (P - 1)) * 10 powi (- k)"
  proof (rule mult_right_mono)
    have "1 / 2 \<le> y / (2 * 10 ^ (P - 1))" using y(1) by (simp add: field_simps)
    with err show "\<bar>real q - y\<bar> \<le> y / (2 * 10 ^ (P - 1))" by linarith
  qed simp
  also have "\<dots> = x / (2 * 10 ^ (P - 1))" by (simp add: x)
  finally show "\<bar>real D * 10 powi (X - int (P - 1)) - real n / real d\<bar> \<le> real n / real d / (2 * 10 ^ (P - 1))"
    by (simp only: val x_def)
qed

lemma dec_digits_exists: "\<exists>D X. dec_digits P n d = (D, X)"
  by fastforce

section \<open>The layout of a literal\<close>

lemma layout_g_form:
  assumes P: "0 < P" and D: "10 ^ (P - 1) \<le> D" "D < 10 ^ P"
  obtains ip fp ex where "layout_g P D X = dec_lit ip (strip_zeros fp) ex" "dec_lit_ok ip (strip_zeros fp) ex"
    "digits_val (ip @ fp) = D" "dec_exp ex - int (length fp) = X - int (P - 1)"
proof -
  define ds where "ds = show_nat D"
  have len: "length ds = P" using length_show_nat [of "P - 1" D] assms by (simp add: ds_def)
  have dig: "\<forall>c \<in> set ds. is_digit c" using show_nat_digits by (simp add: ds_def)
  have "0 < D" using D(1) by (cases D) auto
  then have hd: "hd ds \<noteq> CHR ''0''" using hd_show_nat [of D] by (auto simp: ds_def byte_def)
  have dval: "digits_val ds = D" by (simp add: ds_def)
  have z: "is_digit CHR ''0''" by (simp add: is_digit_def byte_def)
  have strip: "list_all is_digit (strip_zeros s)" if "\<forall>c \<in> set s. is_digit c" for s
    using that set_strip_zeros [of s] by (auto simp: list_all_iff)
  have wf: "with_frac ip fp @ ex = dec_lit ip (strip_zeros fp) ex" for ip fp ex
    by (simp add: with_frac_def dec_lit_def Let_def)
  have tk: "take n ds \<noteq> [] \<and> list_all is_digit (take n ds) \<and> hd (take n ds) \<noteq> CHR ''0''
      \<and> list_all is_digit (strip_zeros (drop n ds))" if "0 < n" for n
  proof -
    have "\<forall>c \<in> set (drop n ds). is_digit c" using dig by (auto dest: in_set_dropD)
    from strip [OF this] show ?thesis
      using dig hd len P that by (cases ds) (auto simp: list_all_iff take_Cons' dest: in_set_takeD)
  qed
  consider (e) "X < - 4 \<or> int P \<le> X" | (f) "0 \<le> X" "X < int P" | (z) "- 4 \<le> X" "X < 0" by linarith
  then show ?thesis
  proof cases
    case e
    show ?thesis
    proof (rule that)
      show "layout_g P D X = dec_lit (take 1 ds) (strip_zeros (drop 1 ds)) (show_exp X)"
        using e by (simp add: layout_g_def Let_def ds_def wf)
      show "dec_lit_ok (take 1 ds) (strip_zeros (drop 1 ds)) (show_exp X)"
        using tk [of 1] by (auto simp: dec_lit_ok_def)
    qed (use P in \<open>simp_all add: len dval of_nat_diff\<close>)
  next
    case f
    show ?thesis
    proof (rule that)
      show "layout_g P D X = dec_lit (take (nat X + 1) ds) (strip_zeros (drop (nat X + 1) ds)) []"
        using f wf [of _ _ "[]"] by (simp add: layout_g_def Let_def ds_def)
      show "dec_lit_ok (take (nat X + 1) ds) (strip_zeros (drop (nat X + 1) ds)) []"
        using tk [of "nat X + 1"] by (auto simp: dec_lit_ok_def)
    qed (use f P in \<open>simp_all add: len dval of_nat_diff\<close>)
  next
    case z
    let ?fp = "replicate (nat (- X) - 1) CHR ''0'' @ ds"
    show ?thesis
    proof (rule that)
      show "layout_g P D X = dec_lit ''0'' (strip_zeros ?fp) []"
        using z wf [of _ _ "[]"] P by (simp add: layout_g_def Let_def ds_def)
      show "dec_lit_ok ''0'' (strip_zeros ?fp) []"
      proof -
        have "\<forall>c \<in> set ?fp. is_digit c" using dig \<open>is_digit CHR ''0''\<close> by auto
        from strip [OF this] show ?thesis using \<open>is_digit CHR ''0''\<close> by (simp add: dec_lit_ok_def)
      qed
      have "''0'' @ ?fp = replicate (Suc (nat (- X) - 1)) CHR ''0'' @ ds" by simp
      then show "digits_val (''0'' @ ?fp) = D" by (simp only: digits_val_append digits_val_zeros dval)
    qed (use z P in \<open>simp_all add: len of_nat_diff\<close>)
  qed
qed

text \<open>Every positive magnitude prints as a literal, whatever the precision.\<close>

lemma raw_num_pos: "0 < r \<Longrightarrow> 0 < raw_num r"
  by (simp add: raw_num_def raw_mant_pos)

lemma print_mag_form:
  assumes "0 < P"
  obtains ip f ex where "print_mag P r = dec_lit ip f ex" "dec_lit_ok ip f ex"
proof (cases "r = 0")
  case True
  then have "print_mag P r = dec_lit ''0'' [] []" "dec_lit_ok ''0'' [] []"
    by (simp_all add: print_mag_def dec_lit_def dec_lit_ok_def is_digit_def byte_def)
  with that show ?thesis .
next
  case False
  obtain D X where DX: "dec_digits P (raw_num r) (raw_den r) = (D, X)" using dec_digits_exists by blast
  with False assms have D: "10 ^ (P - 1) \<le> D" "D < 10 ^ P"
    using dec_digits_near [of P "raw_num r" "raw_den r"] by (simp_all add: raw_num_pos)
  have "print_mag P r = layout_g P D X" using False DX by (simp add: print_mag_def)
  then show ?thesis using that layout_g_form [OF assms D] by metis
qed

text \<open>Seventeen significant digits identify a double.\<close>

lemma strtod_print_mag_17:
  assumes "r < inf_raw"
  shows "strtod_mag (print_mag 17 r) = r"
proof (cases "r = 0")
  case True
  have "strtod_mag (dec_lit ''0'' [] []) = raw_of_dec 0 0"
    by (subst strtod_mag_dec_lit) (simp_all add: dec_lit_ok_def is_digit_def byte_def digits_val_def digit_val_def)
  with True show ?thesis by (simp add: print_mag_def dec_lit_def raw_of_dec_def raw_of_frac_def scale_num_def)
next
  case False
  obtain D X where DX: "dec_digits 17 (raw_num r) (raw_den r) = (D, X)" using dec_digits_exists by blast
  have r: "0 < raw_num r" using False by (simp add: raw_num_pos)
  have D: "10 ^ (17 - 1) \<le> D" "D < 10 ^ 17"
    and near: "\<bar>real D * 10 powi (X - int (17 - 1)) - raw_val r\<bar> \<le> raw_val r / (2 * 10 ^ (17 - 1))"
    using dec_digits_near [OF _ r raw_den_pos DX] raw_frac [of r] by simp_all
  obtain ip fp ex where lay: "layout_g 17 D X = dec_lit ip (strip_zeros fp) ex" and
    ok: "dec_lit_ok ip (strip_zeros fp) ex" and
    v: "digits_val (ip @ fp) = D" "dec_exp ex - int (length fp) = X - int (17 - 1)"
    by (rule layout_g_form [OF _ D]) simp
  have "strtod_mag (print_mag 17 r) = raw_of_dec D (X - 16)"
    using False DX v by (simp add: print_mag_def lay strtod_mag_dec_lit [OF ok] raw_of_dec_zeros)
  also have "\<dots> = r"
    unfolding raw_of_dec_def
  proof (rule raw_of_frac_near)
    have "0 < D" using D(1) by (cases D) auto
    then show "0 < scale_num 10 D (X - 16)" by simp
    show "\<bar>real (scale_num 10 D (X - 16)) / real (scale_den 10 1 (X - 16)) - raw_val r\<bar> \<le> raw_val r / (2 * 10 ^ 16)"
      using near scale_ratio [of 10 1 D "X - 16"] by simp
  qed (use False assms in simp_all)
  finally show ?thesis .
qed

end
