(* ===== verification/Json_Roundtrip.thy ===== *)
theory Json_Roundtrip
  imports Json_Text F64_Roundtrip
begin

text \<open>
  Reading back what was written: strings, numbers and whole documents, in the compact and in
  every indented layout.

  What the writer needs of the rendering of a double is the interface \<open>double_format\<close>: a literal
  the number grammar takes whole, and which \<open>strtod\<close> reads as the double written. The
  interpretation on \<open>format_double\<close> discharges it.
\<close>

section \<open>Strings\<close>

lemma hex_val_hex_digit [simp]:
  assumes "d < 16"
  shows "hex_val (hex_digit d) = Some d"
proof -
  have "list_all (\<lambda>d. hex_val (hex_digit d) = Some d) [0..<16]" by code_simp
  with assms show ?thesis by (simp only: list_all_iff) auto
qed

lemma hex_loop_0 [simp]: "hex_loop 0 v s = Inr (v, s)"
  by (subst hex_loop.simps) simp

lemma hex_loop_Suc: "hex_val c = Some d \<Longrightarrow> hex_loop (Suc n) v (c # r) = hex_loop n (16 * v + d) r"
  by (subst hex_loop.simps) simp

lemma parse_hex4_control:
  assumes "byte c < 0x20"
  shows "parse_hex4 (CHR ''0'' # CHR ''0'' # hex_digit (byte c div 16) # hex_digit (byte c mod 16) # rest) = Inr (byte c, rest)"
proof -
  have z: "hex_val CHR ''0'' = Some 0" by (simp add: hex_val_def is_digit_def byte_def)
  have "byte c div 16 < 16" using assms by simp
  then have h: "hex_val (hex_digit (byte c div 16)) = Some (byte c div 16)" "hex_val (hex_digit (byte c mod 16)) = Some (byte c mod 16)"
    by simp_all
  have four: "(4::nat) = Suc (Suc (Suc (Suc 0)))" by simp
  have "hex_loop 4 0 (CHR ''0'' # CHR ''0'' # hex_digit (byte c div 16) # hex_digit (byte c mod 16) # rest) =
      Inr (16 * (byte c div 16) + byte c mod 16, rest)"
    unfolding four by (simp only: hex_loop_Suc z h hex_loop_0) simp
  then show ?thesis by (simp add: parse_hex4_def)
qed

lemma append_utf8_ascii: "byte c \<le> 0x7F \<Longrightarrow> append_utf8 (byte c) = [c]"
  by (simp add: append_utf8_def byte_def)

lemma string_loop_step: "string_loop out (escape_char c @ rest) = string_loop (out @ [c]) rest"
proof -
  have u: "string_loop out (CHR 0x5C # CHR ''u'' # CHR ''0'' # CHR ''0'' # hex_digit (byte c div 16) # hex_digit (byte c mod 16) # rest)
      = string_loop (out @ [c]) rest" if "byte c < 0x20"
  proof -
    have "parse_u_escape (CHR ''0'' # CHR ''0'' # hex_digit (byte c div 16) # hex_digit (byte c mod 16) # rest) = Inr (byte c, rest)"
      using that by (simp add: parse_u_escape_def parse_hex4_control)
    with that show ?thesis by (subst string_loop.simps) (simp add: append_utf8_ascii)
  qed
  show ?thesis
    by (simp add: escape_char_def u)
      (intro conjI impI; subst string_loop.simps; simp add: simple_escape_def)
qed

lemma parse_string_escape: "parse_string (escape_into t @ rest) = Inr (t, rest)"
proof -
  have "string_loop out (concat (map escape_char t) @ CHR 0x22 # rest) = Inr (out @ t, rest)" for out
  proof (induction t arbitrary: out)
    case Nil
    then show ?case by (subst string_loop.simps) simp
  next
    case (Cons c t)
    then show ?case by (simp add: string_loop_step)
  qed
  from this [of "[]"] show ?thesis by (simp add: parse_string_def escape_into_def peek_is_def)
qed

section \<open>Numbers\<close>

definition sign_str :: "bool \<Rightarrow> string" where
  "sign_str neg = (if neg then [CHR ''-''] else [])"

text \<open>Text that cannot be taken for the rest of a number.\<close>

definition num_end :: "string \<Rightarrow> bool" where
  "num_end s \<longleftrightarrow> s = [] \<or> \<not> is_digit (hd s) \<and> hd s \<noteq> CHR ''.'' \<and> hd s \<noteq> CHR ''e'' \<and> hd s \<noteq> CHR ''E''"

lemma number_exp_end: "num_end rest \<Longrightarrow> number_exp rest = Inr (False, rest)"
  by (auto simp: number_exp_def num_end_def peek_is_def)

lemma number_exp_show:
  assumes "num_end rest"
  shows "number_exp (show_exp X @ rest) = Inr (True, rest)"
proof -
  obtain sg ds where f: "show_exp X = CHR ''e'' # sg # ds" "sg = (if X < 0 then CHR ''-'' else CHR ''+'')"
    "ds \<noteq> []" "list_all is_digit ds" by (rule show_exp_form)
  have "dropWhile is_digit (ds @ rest) = rest"
    using assms f(4) by (intro dropWhile_digits) (auto simp: num_end_def)
  with f show ?thesis by (cases ds) (auto simp: number_exp_def peek_is_def digit_next_def Let_def)
qed

lemma number_exp_dec:
  assumes "num_end rest" "ex = [] \<or> (\<exists>X. ex = show_exp X)"
  shows "number_exp (ex @ rest) = Inr (ex \<noteq> [], rest)"
  using assms number_exp_end number_exp_show hd_show_exp(1) by auto

lemma number_frac_dec:
  assumes "list_all is_digit f" "r = [] \<or> \<not> is_digit (hd r) \<and> hd r \<noteq> CHR ''.''"
  shows "number_frac ((if f = [] then [] else CHR ''.'' # f) @ r) = Inr (f \<noteq> [], r)"
proof (cases f)
  case Nil
  with assms(2) show ?thesis by (auto simp: number_frac_def peek_is_def)
next
  case (Cons c cs)
  have "dropWhile is_digit (f @ r) = r" using assms by (intro dropWhile_digits) auto
  with Cons assms show ?thesis by (auto simp: number_frac_def peek_is_def digit_next_def)
qed

lemma number_int_dec:
  assumes "ip \<noteq> []" "list_all is_digit ip" "ip = ''0'' \<or> hd ip \<noteq> CHR ''0''" "r = [] \<or> \<not> is_digit (hd r)"
  shows "number_int (sign_str neg @ ip @ r) = Inr r"
proof -
  have ne: "hd ip \<noteq> CHR ''-''" using assms by (cases ip) auto
  have "dropWhile is_digit (ip @ r) = r" using assms by (intro dropWhile_digits) auto
  with ne assms show ?thesis
    by (cases ip) (auto simp: number_int_def sign_str_def peek_is_def digit_next_def Let_def)
qed

lemma parse_number_dec_lit:
  assumes ok: "dec_lit_ok ip f ex" and rest: "num_end rest"
  shows "parse_number (sign_str neg @ dec_lit ip f ex @ rest) =
    Inr (number_value (f \<noteq> [] \<or> ex \<noteq> []) (sign_str neg @ dec_lit ip f ex), rest)"
proof -
  let ?r2 = "ex @ rest"
  let ?r1 = "(if f = [] then [] else CHR ''.'' # f) @ ?r2"
  have ex: "ex = [] \<or> (\<exists>X. ex = show_exp X)" using ok by (simp add: dec_lit_ok_def)
  then have r2: "?r2 = [] \<or> \<not> is_digit (hd ?r2) \<and> hd ?r2 \<noteq> CHR ''.''"
    using rest hd_show_exp by (auto simp: num_end_def)
  then have r1: "?r1 = [] \<or> \<not> is_digit (hd ?r1)" by auto
  have "number_int (sign_str neg @ ip @ ?r1) = Inr ?r1"
    using ok r1 by (intro number_int_dec) (simp_all add: dec_lit_ok_def)
  moreover have "number_frac ?r1 = Inr (f \<noteq> [], ?r2)"
    using ok r2 by (intro number_frac_dec) (simp_all add: dec_lit_ok_def)
  moreover have "number_exp ?r2 = Inr (ex \<noteq> [], rest)" using rest ex by (rule number_exp_dec)
  moreover have "sign_str neg @ dec_lit ip f ex @ rest = sign_str neg @ ip @ ?r1" by (simp add: dec_lit_def)
  moreover have "take (length (sign_str neg @ ip @ ?r1) - length rest) (sign_str neg @ ip @ ?r1) =
      sign_str neg @ dec_lit ip f ex"
    by (simp add: dec_lit_def)
  ultimately show ?thesis by (simp add: parse_number_def)
qed

text \<open>Integers.\<close>

lemma show_nat_dec_lit: "dec_lit_ok (show_nat n) [] []"
proof (cases "n = 0")
  case True
  then show ?thesis by (simp add: dec_lit_ok_def show_nat_zero is_digit_def byte_def)
next
  case False
  then have "hd (show_nat n) \<noteq> CHR ''0''" using hd_show_nat [of n] by (auto simp: byte_def)
  then show ?thesis using show_nat_digits [of n] by (simp add: dec_lit_ok_def list_all_iff)
qed

lemma show_int_sign: "show_int i = sign_str (i < 0) @ dec_lit (show_nat (nat \<bar>i\<bar>)) [] []"
  by (simp add: show_int_def sign_str_def dec_lit_def)

lemma parse_number_show_int:
  assumes "num_end rest"
  shows "parse_number (show_int (sint (i :: i64)) @ rest) = Inr (JInt i, rest)"
proof -
  have lo: "- (2 ^ 63) \<le> sint i" "sint i < 2 ^ 63"
    using sint_greater_eq [of i] sint_less [of i] by simp_all
  have "parse_number (show_int (sint i) @ rest) = Inr (number_value False (show_int (sint i)), rest)"
    using parse_number_dec_lit [OF show_nat_dec_lit assms, of "sint i < 0" "nat \<bar>sint i\<bar>"]
    by (simp add: show_int_sign)
  also have "number_value False (show_int (sint i)) = JInt i"
    by (simp add: number_value_def strtoll10_show_int [OF lo])
  finally show ?thesis .
qed

text \<open>Doubles.\<close>

lemma f64_make_parts [simp]: "f64_make (f64_neg v) (f64_raw v) = v"
proof -
  have "unat v < 2 ^ 64" using unsigned_less [of v] by simp
  then have "(if f64_neg v then 2 ^ 63 + f64_raw v else f64_raw v) = unat v"
    by (auto simp: f64_neg_def f64_raw_def le_mod_geq)
  then show ?thesis by (simp add: f64_make_def)
qed

lemma strtod_sign:
  assumes "dec_lit_ok ip f ex"
  shows "strtod (sign_str neg @ dec_lit ip f ex) = f64_make neg (strtod_mag (dec_lit ip f ex))"
proof -
  have "hd (dec_lit ip f ex) \<noteq> CHR ''-''" using assms by (cases ip) (auto simp: dec_lit_def dec_lit_ok_def)
  then show ?thesis by (simp add: strtod_def sign_str_def)
qed

lemma print_g_form:
  assumes "0 < P"
  obtains ip f ex where "print_g P v = sign_str (f64_neg v) @ dec_lit ip f ex" "dec_lit_ok ip f ex"
    "print_mag P (f64_raw v) = dec_lit ip f ex"
  using print_mag_form [OF assms, of "f64_raw v"] by (metis print_g_def sign_str_def)

lemma strtod_print_g_17: "f64_finite v \<Longrightarrow> strtod (print_g 17 v) = v"
  using strtod_print_mag_17 [of "f64_raw v"] print_g_form [of 17 v]
  by (metis f64_finite_def f64_make_parts strtod_sign zero_less_numeral)

lemma print_g_accepted:
  assumes v: "f64_finite v" and P: "0 < P" and eq: "f64_eq (strtod (print_g P v)) v"
  shows "strtod (print_g P v) = v"
proof (cases "f64_raw v = 0")
  case True
  then have "print_g P v = print_g 17 v" by (simp add: print_g_def print_mag_def)
  with v show ?thesis by (simp add: strtod_print_g_17)
qed (use eq in \<open>simp add: f64_eq_def\<close>)

lemma shortest_loop_prints:
  assumes "f64_finite v" "\<forall>p \<in> set ps. 0 < p"
  shows "\<exists>P > 0. shortest_loop v ps (print_g 17 v) = print_g P v \<and> strtod (print_g P v) = v"
  using assms(2)
proof (induction ps)
  case Nil
  show ?case using strtod_print_g_17 [OF assms(1)] by (intro exI [of _ 17]) simp
next
  case (Cons p ps)
  then show ?case using print_g_accepted [OF assms(1), of p]
    by (cases "f64_eq (strtod (print_g p v)) v") (auto simp: Let_def)
qed

lemma dec_lit_plain:
  assumes "dec_lit_ok ip f ex"
  shows "list_all (\<lambda>c. c \<notin> set ''.eEn'') (sign_str neg @ dec_lit ip f ex) \<longleftrightarrow> f = [] \<and> ex = []"
proof -
  have e: "CHR ''e'' \<in> set ex" if "ex \<noteq> []"
    using assms that hd_show_exp by (metis dec_lit_ok_def hd_in_set)
  have ip: "c \<notin> set ''.eEn''" if "c \<in> set ip" for c
    using assms that by (auto simp: dec_lit_ok_def list_all_iff is_digit_def byte_def)
  show ?thesis
  proof (cases "f = [] \<and> ex = []")
    case True
    then show ?thesis using ip by (auto simp: dec_lit_def sign_str_def list_all_iff)
  next
    case False
    then have "CHR ''.'' \<in> set (dec_lit ip f ex) \<or> CHR ''e'' \<in> set (dec_lit ip f ex)"
      using e by (auto simp: dec_lit_def)
    with False show ?thesis by (auto simp: list_all_iff)
  qed
qed

lemma format_double_literal:
  assumes v: "f64_finite v"
  obtains ip f ex where "format_double v = sign_str (f64_neg v) @ dec_lit ip f ex" "dec_lit_ok ip f ex"
    "f \<noteq> [] \<or> ex \<noteq> []" "strtod (format_double v) = v"
proof -
  obtain P where P: "0 < P" and loop: "shortest_loop v [1..<17] (print_g 17 v) = print_g P v"
    and rd: "strtod (print_g P v) = v"
    using shortest_loop_prints [OF v, of "[1..<17]"] by auto
  obtain ip f ex where t: "print_g P v = sign_str (f64_neg v) @ dec_lit ip f ex" and ok: "dec_lit_ok ip f ex"
    by (rule print_g_form [OF P])
  have fmt: "format_double v = (if f = [] \<and> ex = [] then print_g P v @ ''.0'' else print_g P v)"
    using v unfolding format_double_def loop Let_def t dec_lit_plain [OF ok] by simp
  show ?thesis
  proof (cases "f = [] \<and> ex = []")
    case True
    have ok0: "dec_lit_ok ip ''0'' []" using ok by (simp add: dec_lit_ok_def is_digit_def byte_def)
    have f0: "format_double v = sign_str (f64_neg v) @ dec_lit ip ''0'' []" using True fmt t by (simp add: dec_lit_def)
    have "raw_of_dec (digits_val ip) 0 = raw_of_dec (digits_val (ip @ ''0'')) (- 1)"
      by (rule raw_of_dec_cong) (use digits_val_append [of ip "''0''"] digits_val_zeros [of 1] in simp)
    then have "strtod_mag (dec_lit ip ''0'' []) = strtod_mag (dec_lit ip [] [])"
      using True ok ok0 by (simp add: strtod_mag_dec_lit)
    then have "strtod (format_double v) = v" using rd True ok ok0 f0 t by (simp add: strtod_sign)
    with that [OF f0 ok0] show ?thesis by simp
  next
    case False
    with fmt t ok rd that [of ip f ex] show ?thesis by auto
  qed
qed

section \<open>The interface to the rendering of doubles\<close>

locale double_format =
  fixes fmt :: "f64 \<Rightarrow> string"
  assumes literal: "f64_finite v \<Longrightarrow>
      \<exists>ip f ex. fmt v = sign_str (f64_neg v) @ dec_lit ip f ex \<and> dec_lit_ok ip f ex \<and> (f \<noteq> [] \<or> ex \<noteq> [])"
    and reads_back: "f64_finite v \<Longrightarrow> strtod (fmt v) = v"
begin

lemma parse_number_fmt:
  assumes "f64_finite v" "num_end rest"
  shows "parse_number (fmt v @ rest) = Inr (JDouble v, rest)"
proof -
  obtain ip f ex where f: "fmt v = sign_str (f64_neg v) @ dec_lit ip f ex" "dec_lit_ok ip f ex" "f \<noteq> [] \<or> ex \<noteq> []"
    using literal [OF assms(1)] by blast
  have "parse_number (fmt v @ rest) = Inr (number_value True (fmt v), rest)"
    using parse_number_dec_lit [OF f(2) assms(2), of "f64_neg v"] f(1,3) by simp
  with reads_back [OF assms(1)] show ?thesis by (simp add: number_value_def)
qed

lemma fmt_inject: "f64_finite v \<Longrightarrow> f64_finite w \<Longrightarrow> fmt v = fmt w \<Longrightarrow> v = w"
  using reads_back by metis

lemma fmt_start:
  assumes "f64_finite v"
  shows "\<exists>c r. fmt v = c # r \<and> (c = CHR ''-'' \<or> is_digit c)"
proof -
  obtain ip f ex where "fmt v = sign_str (f64_neg v) @ dec_lit ip f ex" "dec_lit_ok ip f ex"
    using literal [OF assms] by blast
  then show ?thesis by (cases ip) (auto simp: sign_str_def dec_lit_def dec_lit_ok_def)
qed

end

interpretation json_double: double_format format_double
proof
  fix v :: f64
  assume "f64_finite v"
  then show "\<exists>ip f ex. format_double v = sign_str (f64_neg v) @ dec_lit ip f ex \<and> dec_lit_ok ip f ex \<and> (f \<noteq> [] \<or> ex \<noteq> [])"
    and "strtod (format_double v) = v"
    by (metis format_double_literal)+
qed

section \<open>Documents\<close>

lemma skip_ws_append: "list_all json_ws w \<Longrightarrow> skip_ws (w @ s) = skip_ws s"
  by (induction w) (auto simp: skip_ws_def)

lemma skip_ws_id [simp]: "\<not> json_ws c \<Longrightarrow> skip_ws (c # s) = c # s"
  by (simp add: skip_ws_def)

lemma skip_ws_idem [simp]: "skip_ws (skip_ws s) = skip_ws s"
  by (simp add: skip_ws_def)

lemma json_ws_punct [simp]: "\<not> json_ws CHR '',''" "\<not> json_ws CHR '']''" "\<not> json_ws CHR ''}''" "\<not> json_ws CHR ''[''"
    "\<not> json_ws CHR ''{''" "\<not> json_ws CHR '':''" "\<not> json_ws CHR 0x22"
  by (simp_all add: json_ws_def)

lemma layout_ws [simp]: "list_all json_ws (pad_of indent n)" "list_all json_ws (newline_of indent)"
  by (auto simp: pad_of_def newline_of_def json_ws_def list_all_iff split: option.splits)

lemma num_end_layout: "num_end (newline_of indent @ pad_of indent n @ CHR '']'' # rest)"
    "num_end (newline_of indent @ pad_of indent n @ CHR ''}'' # rest)" "num_end (CHR '','' # rest)"
  by (cases indent; auto simp: num_end_def newline_of_def pad_of_def is_digit_def byte_def)+

text \<open>The first character of a written value: never white space, nor a closing bracket.\<close>

definition value_start :: "char \<Rightarrow> bool" where
  "value_start c \<longleftrightarrow> \<not> json_ws c \<and> c \<noteq> CHR '']'' \<and> c \<noteq> CHR ''}''"

definition number_start :: "char \<Rightarrow> bool" where
  "number_start c \<longleftrightarrow> c = CHR ''-'' \<or> is_digit c"

lemma number_start_value: "number_start c \<Longrightarrow> value_start c"
  by (auto simp: number_start_def value_start_def is_digit_def byte_def json_ws_def)

lemma show_int_start: "\<exists>c r. show_int i = c # r \<and> number_start c"
  using show_int_chars [of "hd (show_int i)" i]
  by (cases "show_int i") (auto simp: show_int_def number_start_def split: if_splits)

lemma dump_into_start:
  assumes "json_wf v"
  shows "\<exists>c r. dump_into indent depth v = c # r \<and> value_start c"
proof (cases v)
  case (JInt i)
  with show_int_start [of "sint i"] number_start_value show ?thesis by auto
next
  case (JDouble d)
  with json_double.fmt_start [of d] number_start_value assms show ?thesis by (auto simp: number_start_def)
qed (auto simp: value_start_def json_ws_def escape_into_def)

lemma parse_value_number:
  assumes "number_start c" "depth \<le> md"
  shows "parse_value md depth (c # r) = parse_number (c # r)"
proof -
  have "c \<noteq> CHR ''n''" "c \<noteq> CHR ''t''" "c \<noteq> CHR ''f''" "c \<noteq> CHR 0x22" "c \<noteq> CHR ''[''" "c \<noteq> CHR ''{''"
    using assms(1) by (auto simp: number_start_def is_digit_def byte_def)
  with assms(2) show ?thesis by (subst parse_value.simps) simp
qed

lemma skip_ws_value: "list_all json_ws w \<Longrightarrow> t = c # r \<Longrightarrow> value_start c \<Longrightarrow> skip_ws (w @ t @ s) = t @ s"
  by (simp add: skip_ws_append value_start_def)

lemma array_loop_step:
  assumes "list_all json_ws w" "t = c # r" "value_start c" "parse_value md (d + 1) (t @ s) = Inr (v, s)"
  shows "array_loop md d acc (w @ t @ s) =
     (if peek_is CHR '','' (skip_ws s) then array_loop md d (acc @ [v]) (tl (skip_ws s))
      else if peek_is CHR '']'' (skip_ws s) then Inr (JArray (acc @ [v]), tl (skip_ws s))
      else Inl (''expected '' @ [CHR 0x27, CHR '','', CHR 0x27] @ '' or '' @ [CHR 0x27, CHR '']'', CHR 0x27] @ '' in array'', skip_ws s))"
  by (subst array_loop.simps) (simp only: skip_ws_value [OF assms(1,2,3)] assms(4) sum.case prod.case)

lemma object_loop_step:
  assumes "list_all json_ws w" "list_all json_ws w'" "t = c # r" "value_start c"
    "parse_value md (d + 1) (t @ s) = Inr (v, s)"
  shows "object_loop md d acc (w @ escape_into k @ CHR '':'' # w' @ t @ s) =
     (if peek_is CHR '','' (skip_ws s) then object_loop md d (alist_set k v acc) (tl (skip_ws s))
      else if peek_is CHR ''}'' (skip_ws s) then Inr (JObject (alist_set k v acc), tl (skip_ws s))
      else Inl (''expected '' @ [CHR 0x27, CHR '','', CHR 0x27] @ '' or '' @ [CHR 0x27, CHR ''}'', CHR 0x27] @ '' in object'', skip_ws s))"
proof -
  let ?r = "CHR '':'' # w' @ t @ s"
  have "skip_ws (w @ escape_into k @ ?r) = escape_into k @ ?r"
    using assms(1) by (simp add: skip_ws_append escape_into_def)
  moreover have "peek_is CHR 0x22 (escape_into k @ ?r)" by (simp add: peek_is_def escape_into_def)
  moreover have "peek_is CHR '':'' (skip_ws ?r)" "skip_ws (tl (skip_ws ?r)) = t @ s"
    using skip_ws_value [OF assms(2,3,4)] by (simp_all add: peek_is_def)
  ultimately show ?thesis
    by (subst object_loop.simps) (simp only: parse_string_escape assms(5) sum.case prod.case not_True_eq_False if_False)
qed

definition colon_ws :: "nat option \<Rightarrow> string" where
  "colon_ws indent = (if indent = None then [] else '' '')"

lemma colon_of_ws: "colon_of indent = CHR '':'' # colon_ws indent" "list_all json_ws (colon_ws indent)"
  by (simp_all add: colon_of_def colon_ws_def json_ws_def)

lemma dump_items_start:
  assumes "vs \<noteq> []" "list_all json_wf vs"
  shows "\<not> peek_is CHR '']'' (skip_ws (newline_of indent @ dump_items indent depth vs @ s))"
proof -
  obtain v us where vs: "vs = v # us" using assms(1) by (cases vs) auto
  with assms(2) obtain c r where "dump_into indent (depth + 1) v = c # r" "value_start c"
    using dump_into_start [of v indent "depth + 1"] by auto
  with vs show ?thesis by (simp add: skip_ws_append value_start_def peek_is_def)
qed

lemma dump_members_start:
  assumes "ms \<noteq> []"
  shows "\<not> peek_is CHR ''}'' (skip_ws (newline_of indent @ dump_members indent depth ms @ s))"
  using assms by (cases ms rule: list.exhaust) (auto simp: skip_ws_append escape_into_def peek_is_def)

lemma json_height_add:
  assumes "d + json_height v \<le> md"
  shows "v = JArray xs \<Longrightarrow> \<forall>x \<in> set xs. d + Suc (json_height x) \<le> md"
    "v = JObject ms \<Longrightarrow> \<forall>m \<in> set ms. d + Suc (json_height (snd m)) \<le> md"
proof -
  have "d \<le> md" and h: "json_height v \<le> md - d" using assms by simp_all
  then show "v = JArray xs \<Longrightarrow> \<forall>x \<in> set xs. d + Suc (json_height x) \<le> md"
    and "v = JObject ms \<Longrightarrow> \<forall>m \<in> set ms. d + Suc (json_height (snd m)) \<le> md" by fastforce+
qed

lemma array_loop_skip: "array_loop md d xs (skip_ws s) = array_loop md d xs s"
  by (subst (1 2) array_loop.simps) simp

lemma object_loop_skip: "object_loop md d ms (skip_ws s) = object_loop md d ms s"
  by (subst (1 2) object_loop.simps) simp

lemma parse_value_array:
  assumes "d \<le> md" "\<not> peek_is CHR '']'' (skip_ws s)"
  shows "parse_value md d (CHR ''['' # s) = array_loop md d [] s"
  using assms by (subst parse_value.simps) (simp add: array_loop_skip)

lemma parse_value_object:
  assumes "d \<le> md" "\<not> peek_is CHR ''}'' (skip_ws s)"
  shows "parse_value md d (CHR ''{'' # s) = object_loop md d [] s"
  using assms by (subst parse_value.simps) (simp add: object_loop_skip)

lemma skip_layout: "skip_ws (newline_of indent @ pad_of indent n @ c # s) = skip_ws (c # s)"
  by (simp add: skip_ws_append)

lemma parse_dump:
  fixes v :: json and vs :: "json list" and ms :: "(string \<times> json) list"
  shows "json_wf v \<Longrightarrow> d + json_height v \<le> md \<Longrightarrow> num_end rest \<Longrightarrow>
      parse_value md d (dump_into indent depth v @ rest) = Inr (v, rest)"
    "vs \<noteq> [] \<Longrightarrow> list_all json_wf vs \<Longrightarrow> \<forall>x \<in> set vs. d' + Suc (json_height x) \<le> md \<Longrightarrow> list_all json_ws w \<Longrightarrow>
      array_loop md d' xs (w @ dump_items indent' depth' vs @ pad_of indent' depth' @ CHR '']'' # rest') = Inr (JArray (xs @ vs), rest')"
    "ms \<noteq> [] \<Longrightarrow> list_all (\<lambda>m. json_wf (snd m)) ms \<Longrightarrow> distinct (map fst (acc @ ms)) \<Longrightarrow>
      \<forall>m \<in> set ms. d'' + Suc (json_height (snd m)) \<le> md \<Longrightarrow> list_all json_ws w' \<Longrightarrow>
      object_loop md d'' acc (w' @ dump_members indent'' depth'' ms @ pad_of indent'' depth'' @ CHR ''}'' # rest'') = Inr (JObject (acc @ ms), rest'')"
proof (induction indent depth v and indent' depth' vs and indent'' depth'' ms
    arbitrary: d rest and d' xs w rest' and d'' acc w' rest''
    rule: dump_into_dump_items_dump_members.induct)
  case (1 indent depth)
  then show ?case by (subst parse_value.simps) (simp add: consume_literal_def)
next
  case (2 indent depth b)
  then show ?case by (subst parse_value.simps) (simp add: consume_literal_def)
next
  case (3 indent depth i)
  then obtain c r where "show_int (sint i) = c # r" "number_start c" using show_int_start by blast
  with 3 parse_number_show_int [of rest i] show ?case by (simp add: parse_value_number)
next
  case (4 indent depth v)
  then obtain c r where "format_double v = c # r" "number_start c"
    using json_double.fmt_start [of v] by (auto simp: number_start_def)
  with 4 json_double.parse_number_fmt [of v rest] show ?case by (simp add: parse_value_number)
next
  case (5 indent depth s)
  have "parse_string (escape_into s @ rest) = Inr (s, rest)" by (rule parse_string_escape)
  then show ?case using 5 by (subst parse_value.simps) (simp add: escape_into_def)
next
  case (6 indent depth items)
  show ?case
  proof (cases "items = []")
    case True
    with 6 show ?thesis by (subst parse_value.simps) (simp add: peek_is_def)
  next
    case False
    let ?s = "newline_of indent @ dump_items indent depth items @ pad_of indent depth @ CHR '']'' # rest"
    have "list_all json_wf items" "d \<le> md" using 6 by simp_all
    then have "\<not> peek_is CHR '']'' (skip_ws ?s)"
      using dump_items_start [OF False] by simp
    with \<open>d \<le> md\<close> have "parse_value md d (CHR ''['' # ?s) = array_loop md d [] ?s" by (rule parse_value_array)
    also have "\<dots> = Inr (JArray ([] @ items), rest)"
      using 6(1) [OF False False \<open>list_all json_wf items\<close> json_height_add(1) [OF 6(3) refl] layout_ws(2)] .
    finally show ?thesis using False by simp
  qed
next
  case (7 indent depth members)
  show ?case
  proof (cases "members = []")
    case True
    with 7 show ?thesis by (subst parse_value.simps) (simp add: peek_is_def)
  next
    case False
    let ?s = "newline_of indent @ dump_members indent depth members @ pad_of indent depth @ CHR ''}'' # rest"
    have wf: "list_all (\<lambda>m. json_wf (snd m)) members" "distinct (map fst ([] @ members))" "d \<le> md" using 7 by simp_all
    have "\<not> peek_is CHR ''}'' (skip_ws ?s)"
      using dump_members_start [OF False] by simp
    with \<open>d \<le> md\<close> have "parse_value md d (CHR ''{'' # ?s) = object_loop md d [] ?s" by (rule parse_value_object)
    also have "\<dots> = Inr (JObject ([] @ members), rest)"
      using 7(1) [OF False False wf(1,2) json_height_add(2) [OF 7(3) refl] layout_ws(2)] .
    finally show ?thesis using False by simp
  qed
next
  case (9 indent depth v vs)
  let ?tl = "pad_of indent depth @ CHR '']'' # rest'"
  let ?s = "(if vs = [] then [] else '','') @ newline_of indent @ dump_items indent depth vs @ ?tl"
  obtain c r where start: "dump_into indent (depth + 1) v = c # r" "value_start c"
    using dump_into_start [of v indent "depth + 1"] 9 by auto
  have "num_end ?s" using num_end_layout by simp
  then have v: "parse_value md (d' + 1) (dump_into indent (depth + 1) v @ ?s) = Inr (v, ?s)"
    using 9(1) [of "d' + 1" ?s] 9(4,5) by simp
  have "array_loop md d' xs ((w @ pad_of indent (depth + 1)) @ dump_into indent (depth + 1) v @ ?s) =
      Inr (JArray (xs @ v # vs), rest')"
  proof (subst array_loop_step [OF _ start v], goal_cases)
    case 2
    show ?case
    proof (cases "vs = []")
      case True
      then show ?thesis by (simp add: skip_layout peek_is_def)
    next
      case False
      then show ?thesis using 9(2) [of d' "newline_of indent" "xs @ [v]" rest'] 9(4,5) by (simp add: peek_is_def)
    qed
  qed (use 9 in simp)
  then show ?case by simp
next
  case (11 indent depth k v ms)
  let ?tl = "pad_of indent depth @ CHR ''}'' # rest''"
  let ?s = "(if ms = [] then [] else '','') @ newline_of indent @ dump_members indent depth ms @ ?tl"
  obtain c r where start: "dump_into indent (depth + 1) v = c # r" "value_start c"
    using dump_into_start [of v indent "depth + 1"] 11 by auto
  have "num_end ?s" using num_end_layout by simp
  then have v: "parse_value md (d'' + 1) (dump_into indent (depth + 1) v @ ?s) = Inr (v, ?s)"
    using 11(1) [of "d'' + 1" ?s] 11(4,6) by simp
  have set: "alist_set k v acc = acc @ [(k, v)]" using 11(5) by (intro alist_set_fresh) auto
  have "object_loop md d'' acc ((w' @ pad_of indent (depth + 1)) @ escape_into k @ CHR '':'' # colon_ws indent @ dump_into indent (depth + 1) v @ ?s) =
      Inr (JObject (acc @ (k, v) # ms), rest'')"
  proof (subst object_loop_step [OF _ colon_of_ws(2) start v], goal_cases)
    case 2
    show ?case
    proof (cases "ms = []")
      case True
      then show ?thesis by (simp add: skip_layout peek_is_def set)
    next
      case False
      then show ?thesis using 11(2) [of "acc @ [(k, v)]" d'' "newline_of indent" rest''] 11(4,5,6) by (simp add: peek_is_def set)
    qed
  qed (use 11 in simp)
  then show ?case by (simp add: colon_of_ws(1))
qed simp_all

lemma parse_document_dump:
  assumes "json_wf v" "json_height v \<le> md"
  shows "parse_document md (dump_into indent depth v) = Inr v"
proof -
  obtain c r where "dump_into indent depth v = c # r" "value_start c" using dump_into_start assms(1) by blast
  then have "skip_ws (dump_into indent depth v) = dump_into indent depth v" by (simp add: value_start_def)
  moreover have "parse_value md 0 (dump_into indent depth v @ []) = Inr (v, [])"
    by (rule parse_dump(1)) (use assms in \<open>simp_all add: num_end_def\<close>)
  ultimately show ?thesis by (simp add: parse_document_def skip_ws_def)
qed

section \<open>Properties\<close>

text \<open>C24. A well-formed document that is within the limits is read back as it was, from its compact
  text and from every indented text.\<close>

theorem json_parse_dump:
  assumes "json_wf v" "json_height v \<le> maxDepth limits"
    and "length (json_dump v) \<le> maxLength limits" "length (json_dump_indent n v) \<le> maxLength limits"
  shows "json_parse limits (json_dump v) = Inr v \<and> json_parse limits (json_dump_indent n v) = Inr v"
  using assms by (simp add: json_parse_def json_dump_def json_dump_indent_def parse_document_dump not_less)

definition sample_doc :: json where
  "sample_doc = JObject [(''id'', JInt (-42)), (''tags'', JArray [JString [CHR ''a'', CHR 0x0A, CHR 0x22], JNull, JBool True]),
     (''ratio'', JDouble 0x3FF8000000000000), (''empty'', JObject [])]"

text \<open>Limits just large enough for the two texts of the sample.\<close>

definition sample_limits :: parse_limits where
  "sample_limits = \<lparr>maxDepth = 2, maxLength = length (json_dump sample_doc) + length (json_dump_indent 2 sample_doc)\<rparr>"

lemma f64_finite_samples: "f64_finite 0x3FF8000000000000" "f64_finite 0xBFB999999999999A"
  by (simp_all add: f64_finite_def f64_raw_def inf_raw_def)

theorem json_parse_dump_witness:
  "json_parse sample_limits (json_dump sample_doc) = Inr sample_doc
   \<and> json_parse sample_limits (json_dump_indent 2 sample_doc) = Inr sample_doc"
proof (rule json_parse_dump)
  show "json_wf sample_doc" by (simp add: sample_doc_def f64_finite_samples)
  show "json_height sample_doc \<le> maxDepth sample_limits" by (simp add: sample_doc_def sample_limits_def)
qed (simp_all add: sample_limits_def)

text \<open>The text written for a finite double is read back as that double, bit for bit, and cannot be
  mistaken for an integer.\<close>

theorem format_double_exact:
  assumes "f64_finite v"
  shows "strtod (format_double v) = v \<and> parse_number (format_double v) = Inr (JDouble v, [])"
  using json_double.reads_back [OF assms] json_double.parse_number_fmt [OF assms, of "[]"] by (simp add: num_end_def)

theorem format_double_exact_witness:
  "strtod (format_double 0xBFB999999999999A) = 0xBFB999999999999A
   \<and> parse_number (format_double 0xBFB999999999999A) = Inr (JDouble 0xBFB999999999999A, [])"
  by (rule format_double_exact) (rule f64_finite_samples)

end
