(* ===== verification/Json_Safety.thy ===== *)
theory Json_Safety
  imports Json_Roundtrip
begin

text \<open>
  What the parser guarantees whatever it is given: it never reads outside the document (every
  text it leaves unread is an end of the document), a failure points into the document, and a
  document it accepts is no deeper than the limit and holds no key twice.
\<close>

section \<open>Unread text\<close>

text \<open>A result for \<open>s\<close>: the text it leaves is an end of \<open>s\<close>, and a value satisfies \<open>P\<close>.\<close>

definition res_ok :: "('a \<Rightarrow> bool) \<Rightarrow> string \<Rightarrow> 'a parsed \<Rightarrow> bool" where
  "res_ok P s r = (case r of Inl (msg, rest) \<Rightarrow> suffix rest s | Inr (v, rest) \<Rightarrow> P v \<and> suffix rest s)"

lemma res_ok_simps [simp]:
  "res_ok P s (Inl (msg, rest)) \<longleftrightarrow> suffix rest s"
  "res_ok P s (Inr (v, rest)) \<longleftrightarrow> P v \<and> suffix rest s"
  by (simp_all add: res_ok_def)

lemma res_ok_D:
  "res_ok P s r \<Longrightarrow> r = Inl e \<Longrightarrow> suffix (snd e) s"
  "res_ok P s r \<Longrightarrow> r = Inr (v, rest) \<Longrightarrow> P v \<and> suffix rest s"
  by (cases e; simp)+

lemma res_ok_Inl: "res_ok P s (Inl e) \<longleftrightarrow> suffix (snd e) s"
  by (cases e) simp

lemma res_ok_mono: "res_ok P s r \<Longrightarrow> suffix s t \<Longrightarrow> (\<And>v. P v \<Longrightarrow> Q v) \<Longrightarrow> res_ok Q t r"
  by (cases r) (auto simp: res_ok_def intro: suffix_order.trans)

lemma res_ok_if: "(b \<Longrightarrow> res_ok P s x) \<Longrightarrow> (\<not> b \<Longrightarrow> res_ok P s y) \<Longrightarrow> res_ok P s (if b then x else y)"
  by simp

lemma suffix_skip_ws [simp]: "suffix (skip_ws s) s"
  by (simp add: skip_ws_def suffix_dropWhile)

lemma suffix_skip_wsI: "suffix s t \<Longrightarrow> suffix (skip_ws s) t"
  using suffix_skip_ws suffix_order.trans by blast

lemma suffix_tlI: "suffix s t \<Longrightarrow> suffix (tl s) t"
  using suffix_tl suffix_order.trans by blast

lemma suffix_dropWhileI: "suffix s t \<Longrightarrow> suffix (dropWhile P s) t"
  using suffix_dropWhile suffix_order.trans by blast

lemmas suffix_steps = suffix_skip_wsI suffix_tlI suffix_dropWhileI suffix_ConsI

lemma consume_literal_ok: "P v \<Longrightarrow> res_ok P s (consume_literal l v s)"
  by (simp add: consume_literal_def suffix_drop)

lemma hex_loop_ok: "res_ok (\<lambda>_. True) s (hex_loop n v s)"
proof (induction n v s rule: hex_loop.induct)
  case (1 n v s)
  show ?case
  proof (cases "n = 0 \<or> s = []")
    case False
    then obtain c r where s: "n \<noteq> 0" "s = c # r" by (cases s) auto
    show ?thesis
    proof (cases "hex_val c")
      case None
      with s show ?thesis by (subst hex_loop.simps) (simp add: suffix_ConsI)
    next
      case (Some d)
      then have "res_ok (\<lambda>_. True) r (hex_loop (n - 1) (16 * v + d) r)" using 1 s by simp
      then show ?thesis using s Some by (subst hex_loop.simps) (auto elim: res_ok_mono simp: suffix_ConsI)
    qed
  qed (subst hex_loop.simps, auto)
qed

lemma parse_hex4_ok: "res_ok (\<lambda>_. True) s (parse_hex4 s)"
  by (simp add: parse_hex4_def hex_loop_ok)

lemma parse_u_escape_ok: "res_ok (\<lambda>_. True) s (parse_u_escape s)"
proof (cases "parse_hex4 s")
  case (Inl e)
  with res_ok_D(1) [OF parse_hex4_ok Inl] show ?thesis by (simp add: parse_u_escape_def res_ok_Inl)
next
  case (Inr p)
  obtain cp r where p: "p = (cp, r)" by fastforce
  have r: "suffix r s" using res_ok_D(2) [OF parse_hex4_ok] Inr p by blast
  have "res_ok (\<lambda>_. True) (drop 2 r) (parse_hex4 (drop 2 r))" by (rule parse_hex4_ok)
  moreover have "suffix (drop 2 r) s" using r suffix_drop suffix_order.trans by blast
  ultimately have "res_ok (\<lambda>_. True) s (parse_hex4 (drop 2 r))" by (rule res_ok_mono) simp
  then show ?thesis using Inr p r by (auto simp: parse_u_escape_def res_ok_Inl split: sum.splits)
qed

lemma string_loop_ok: "res_ok (\<lambda>_. True) s (string_loop out s)"
proof (induction out s rule: string_loop.induct)
  case (1 out s)
  show ?case
  proof (cases s)
    case Nil
    then show ?thesis by (subst string_loop.simps) simp
  next
    case c: (Cons c r)
    have "res_ok (\<lambda>_. True) r (string_loop (out @ [c]) r)" if "c \<noteq> CHR 0x22" "c \<noteq> CHR 0x5C" "\<not> byte c < 0x20"
      using 1 c that by simp
    moreover have "suffix r s" using c by (simp add: suffix_ConsI)
    ultimately have lit: "res_ok (\<lambda>_. True) s (string_loop (out @ [c]) r)" if "c \<noteq> CHR 0x22" "c \<noteq> CHR 0x5C" "\<not> byte c < 0x20"
      using that by (blast intro: res_ok_mono)
    show ?thesis
    proof (cases "c = CHR 0x5C")
      case False
      then show ?thesis using c lit
        by (subst string_loop.simps) (simp add: suffix_ConsI)
    next
      case True
      show ?thesis
      proof (cases r)
        case Nil
        with True c show ?thesis by (subst string_loop.simps) (simp add: suffix_ConsI)
      next
        case e: (Cons esc r')
        show ?thesis
        proof (cases "esc = CHR ''u''")
          case u: True
          show ?thesis
          proof (cases "parse_u_escape r'")
            case (Inl x)
            then have "suffix (snd x) r'" using res_ok_D(1) [OF parse_u_escape_ok] by blast
            with u True c e Inl show ?thesis by (subst string_loop.simps) (simp add: res_ok_Inl suffix_ConsI)
          next
            case (Inr q)
            obtain cp r'' where q: "q = (cp, r'')" by fastforce
            then have s: "suffix r'' s" using res_ok_D(2) [OF parse_u_escape_ok] Inr c e by (blast intro: suffix_ConsI)
            have "res_ok (\<lambda>_. True) r'' (string_loop (out @ append_utf8 cp) r'')" using 1 c True e u Inr q by simp
            then have "res_ok (\<lambda>_. True) s (string_loop (out @ append_utf8 cp) r'')" using s by (rule res_ok_mono) simp
            with u True c e Inr q show ?thesis by (subst string_loop.simps) simp
          qed
        next
          case nu: False
          have s: "suffix r' s" using c e by (simp add: suffix_ConsI)
          have "res_ok (\<lambda>_. True) r' (string_loop (out @ [d]) r')" if "simple_escape esc = Some d" for d
            using 1 c True e nu that by simp
          then have "res_ok (\<lambda>_. True) s (string_loop (out @ [d]) r')" if "simple_escape esc = Some d" for d
            using s that by (blast intro: res_ok_mono)
          with nu True c e s show ?thesis by (subst string_loop.simps) (auto split: option.splits)
        qed
      qed
    qed
  qed
qed

lemma parse_string_ok: "res_ok (\<lambda>_. True) s (parse_string s)"
  using string_loop_ok [of "tl s" "[]"]
  by (auto simp: parse_string_def elim: res_ok_mono intro: suffix_tl)

text \<open>Numbers.\<close>

lemma number_int_ok: "case number_int s of Inl (msg, r) \<Rightarrow> suffix r s | Inr r \<Rightarrow> suffix r s"
  by (auto simp: number_int_def Let_def intro!: suffix_steps split: if_splits)

lemma number_frac_ok: "case number_frac s of Inl (msg, r) \<Rightarrow> suffix r s | Inr (d, r) \<Rightarrow> suffix r s"
  by (auto simp: number_frac_def Let_def intro!: suffix_steps)

lemma number_exp_ok: "case number_exp s of Inl (msg, r) \<Rightarrow> suffix r s | Inr (d, r) \<Rightarrow> suffix r s"
  by (auto simp: number_exp_def Let_def intro!: suffix_steps)

lemma parse_number_ok: "res_ok isNumber s (parse_number s)"
proof (cases "number_int s")
  case (Inl e)
  with number_int_ok [of s] show ?thesis by (cases e) (simp add: parse_number_def)
next
  case i: (Inr s1)
  then have s1: "suffix s1 s" using number_int_ok [of s] by simp
  show ?thesis
  proof (cases "number_frac s1")
    case (Inl e)
    with i s1 number_frac_ok [of s1] show ?thesis
      by (cases e) (auto simp: parse_number_def intro: suffix_order.trans)
  next
    case f: (Inr p)
    obtain d1 s2 where p: "p = (d1, s2)" by fastforce
    have s2: "suffix s2 s" using f p s1 number_frac_ok [of s1] by (auto intro: suffix_order.trans)
    have "isNumber (number_value b l)" for b l
      by (simp add: number_value_def isNumber_def split: prod.split)
    with i f p s2 number_exp_ok [of s2] show ?thesis
      by (auto simp: parse_number_def intro: suffix_order.trans split: sum.splits)
  qed
qed

section \<open>Accepted documents\<close>

text \<open>No object holds a key twice.\<close>

fun json_unique :: "json \<Rightarrow> bool" where
  "json_unique (JArray xs) = list_all json_unique xs"
| "json_unique (JObject ms) = (distinct (map fst ms) \<and> list_all (\<lambda>m. json_unique (snd m)) ms)"
| "json_unique _ = True"

definition accepted :: "nat \<Rightarrow> nat \<Rightarrow> json \<Rightarrow> bool" where
  "accepted md d v \<longleftrightarrow> d + json_height v \<le> md \<and> json_unique v"

lemma accepted_flat: "\<not> isArray v \<Longrightarrow> \<not> isObject v \<Longrightarrow> accepted md d v \<longleftrightarrow> d \<le> md"
  by (cases v) (auto simp: accepted_def)

lemma accepted_number: "isNumber v \<Longrightarrow> accepted md d v \<longleftrightarrow> d \<le> md"
  by (cases v) (auto simp: isNumber_def accepted_def)

lemma accepted_array: "accepted md d (JArray xs) \<longleftrightarrow> d \<le> md \<and> list_all (accepted md (d + 1)) xs"
proof (cases "d \<le> md")
  case True
  have le: "d + h \<le> md \<longleftrightarrow> h \<le> md - d" "Suc h \<le> md - d \<longleftrightarrow> d + 1 + h \<le> md" for h using True by linarith+
  show ?thesis unfolding accepted_def list_all_iff le(1) json_height_le le(2) using True by (auto simp: list_all_iff)
qed (simp add: accepted_def)

lemma accepted_object:
  "accepted md d (JObject ms) \<longleftrightarrow> d \<le> md \<and> distinct (map fst ms) \<and> list_all (\<lambda>m. accepted md (d + 1) (snd m)) ms"
proof (cases "d \<le> md")
  case True
  have le: "d + h \<le> md \<longleftrightarrow> h \<le> md - d" "Suc h \<le> md - d \<longleftrightarrow> d + 1 + h \<le> md" for h using True by linarith+
  show ?thesis unfolding accepted_def list_all_iff le(1) json_height_le le(2) using True by (auto simp: list_all_iff)
qed (simp add: accepted_def)

lemma accepted_set:
  assumes "accepted md d (JObject ms)" "accepted md (d + 1) v"
  shows "accepted md d (JObject (alist_set k v ms))"
proof -
  have "list_all (\<lambda>m. accepted md (d + 1) (snd m)) (alist_set k v ms)"
    using assms snd_alist_set [of k v ms] by (force simp: accepted_object list_all_iff)
  with assms show ?thesis by (auto simp: accepted_object)
qed

lemma parse_value_ok:
  "res_ok (accepted md d) s (parse_value md d s)"
  "d' \<le> md' \<Longrightarrow> list_all (accepted md' (d' + 1)) xs \<Longrightarrow> res_ok (accepted md' d') s' (array_loop md' d' xs s')"
  "accepted md'' d'' (JObject ms) \<Longrightarrow> res_ok (accepted md'' d'') s'' (object_loop md'' d'' ms s'')"
proof (induction md d s and md' d' xs s' and md'' d'' ms s'' rule: parse_value_array_loop_object_loop.induct)
  case (1 md d s)
  show ?case
  proof (cases "md < d \<or> s = []")
    case True
    then show ?thesis by (subst parse_value.simps) auto
  next
    case False
    then obtain c r where s: "s = c # r" and d: "d \<le> md" by (cases s) auto
    have sr: "suffix (skip_ws r) s" "suffix (tl (skip_ws r)) s" using s by (auto intro!: suffix_steps)
    have arr: "res_ok (accepted md d) s (array_loop md d [] (skip_ws r))"
      if "c = CHR ''[''" "\<not> peek_is CHR '']'' (skip_ws r)"
      using 1(1) s d that sr(1) by (auto intro: res_ok_mono)
    have obj: "res_ok (accepted md d) s (object_loop md d [] (skip_ws r))"
      if "c = CHR ''{''" "\<not> peek_is CHR ''}'' (skip_ws r)"
    proof -
      have "accepted md d (JObject [])" using d by (simp add: accepted_object)
      with 1(2) s d that have "res_ok (accepted md d) (skip_ws r) (object_loop md d [] (skip_ws r))" by simp
      then show ?thesis using sr(1) by (rule res_ok_mono)
    qed
    have str: "res_ok (accepted md d) s (case parse_string s of Inl e \<Rightarrow> Inl e | Inr (t, s') \<Rightarrow> Inr (JString t, s'))"
      using parse_string_ok [of s] d by (auto simp: res_ok_def accepted_flat split: sum.splits)
    have num: "res_ok (accepted md d) s (parse_number s)"
      using parse_number_ok [of s] suffix_order.order_refl
      by (rule res_ok_mono) (use d in \<open>simp add: accepted_number\<close>)
    have lit: "res_ok (accepted md d) s (consume_literal l v s)" if "\<not> isArray v" "\<not> isObject v" for l v
      using that d by (intro consume_literal_ok) (simp add: accepted_flat)
    have brackets: "res_ok (accepted md d) s (Inr (JArray [], tl (skip_ws r)))" "res_ok (accepted md d) s (Inr (JObject [], tl (skip_ws r)))"
      using sr d by (simp_all add: accepted_array accepted_object)
    have v: "parse_value md d s =
        (if c = CHR ''n'' then consume_literal ''null'' JNull s
         else if c = CHR ''t'' then consume_literal ''true'' (JBool True) s
         else if c = CHR ''f'' then consume_literal ''false'' (JBool False) s
         else if c = CHR 0x22 then (case parse_string s of Inl e \<Rightarrow> Inl e | Inr (t, s') \<Rightarrow> Inr (JString t, s'))
         else if c = CHR ''['' then
           (if peek_is CHR '']'' (skip_ws r) then Inr (JArray [], tl (skip_ws r)) else array_loop md d [] (skip_ws r))
         else if c = CHR ''{'' then
           (if peek_is CHR ''}'' (skip_ws r) then Inr (JObject [], tl (skip_ws r)) else object_loop md d [] (skip_ws r))
         else parse_number s)"
      using d s by (subst parse_value.simps) simp
    show ?thesis unfolding v by (intro res_ok_if lit arr obj str num brackets) simp_all
  qed
next
  case (2 md d xs s)
  have v: "res_ok (accepted md (d + 1)) (skip_ws s) (parse_value md (d + 1) (skip_ws s))" by (rule 2)
  show ?case
  proof (cases "parse_value md (d + 1) (skip_ws s)")
    case (Inl e)
    with res_ok_D(1) [OF v Inl] show ?thesis
      by (subst array_loop.simps) (auto simp: res_ok_Inl intro: suffix_order.trans)
  next
    case (Inr p)
    obtain w s1 where p: "p = (w, s1)" by fastforce
    have w: "accepted md (d + 1) w" "suffix s1 s"
      using res_ok_D(2) [OF v] Inr p by (auto intro: suffix_order.trans)
    have items: "list_all (accepted md (d + 1)) (xs @ [w])" using 2 w by simp
    have sfx: "suffix (skip_ws s1) s" "suffix (tl (skip_ws s1)) s" using w by (auto intro!: suffix_steps)
    have "res_ok (accepted md d) (tl (skip_ws s1)) (array_loop md d (xs @ [w]) (tl (skip_ws s1)))"
      if "peek_is CHR '','' (skip_ws s1)"
      using 2(2) [OF Inr p [symmetric] that] 2(3) items p by simp
    then have "res_ok (accepted md d) s (array_loop md d (xs @ [w]) (tl (skip_ws s1)))"
      if "peek_is CHR '','' (skip_ws s1)"
      using that sfx(2) by (blast intro: res_ok_mono)
    then show ?thesis
      using Inr p sfx items 2(3) by (subst array_loop.simps) (simp add: accepted_array)
  qed
next
  case (3 md d ms s)
  show ?case
  proof (cases "peek_is CHR 0x22 (skip_ws s)")
    case False
    then show ?thesis by (subst object_loop.simps) simp
  next
    case q: True
    have k: "res_ok (\<lambda>_. True) (skip_ws s) (parse_string (skip_ws s))" by (rule parse_string_ok)
    show ?thesis
    proof (cases "parse_string (skip_ws s)")
      case (Inl e)
      with q res_ok_D(1) [OF k Inl] show ?thesis
        by (subst object_loop.simps) (auto simp: res_ok_Inl intro: suffix_order.trans)
    next
      case kp: (Inr kp)
      obtain key s1 where kp': "kp = (key, s1)" by fastforce
      have s1: "suffix s1 s" using res_ok_D(2) [OF k] kp kp' by (auto intro: suffix_order.trans)
      show ?thesis
      proof (cases "peek_is CHR '':'' (skip_ws s1)")
        case False
        with q kp kp' s1 show ?thesis by (subst object_loop.simps) (simp add: suffix_skip_wsI)
      next
        case c: True
        let ?t = "skip_ws (tl (skip_ws s1))"
        have t: "suffix ?t s" using s1 by (auto intro!: suffix_steps)
        have v: "res_ok (accepted md (d + 1)) ?t (parse_value md (d + 1) ?t)" using 3(1) q kp kp' c by simp
        show ?thesis
        proof (cases "parse_value md (d + 1) ?t")
          case (Inl e)
          with q kp kp' c res_ok_D(1) [OF v Inl] t show ?thesis
            by (subst object_loop.simps) (auto simp: res_ok_Inl intro: suffix_order.trans)
        next
          case vp: (Inr vp)
          obtain w s2 where w: "vp = (w, s2)" by fastforce
          have aw: "accepted md (d + 1) w" and s2: "suffix s2 s"
            using res_ok_D(2) [OF v] vp w t by (auto intro: suffix_order.trans)
          have obj: "accepted md d (JObject (alist_set key w ms))" using 3(3) aw by (rule accepted_set)
          have sfx: "suffix (skip_ws s2) s" "suffix (tl (skip_ws s2)) s" using s2 by (auto intro!: suffix_steps)
          have "res_ok (accepted md d) (tl (skip_ws s2)) (object_loop md d (alist_set key w ms) (tl (skip_ws s2)))"
            if "peek_is CHR '','' (skip_ws s2)"
            using 3(2) q kp kp' c vp w that obj by simp
          then have "res_ok (accepted md d) s (object_loop md d (alist_set key w ms) (tl (skip_ws s2)))"
            if "peek_is CHR '','' (skip_ws s2)"
            using that sfx(2) by (blast intro: res_ok_mono)
          then show ?thesis
            using q kp kp' c vp w sfx obj by (subst object_loop.simps) simp
        qed
      qed
    qed
  qed
qed

section \<open>Positions\<close>

text \<open>The line and column of a prefix: newlines before it, and characters since the last one.\<close>

definition column_of :: "string \<Rightarrow> nat" where
  "column_of s = 1 + length (takeWhile (\<lambda>c. c \<noteq> CHR 0x0A) (rev s))"

lemma line_col_eq:
  "line_col s line column =
     (line + length (filter (\<lambda>c. c = CHR 0x0A) s),
      if CHR 0x0A \<in> set s then column_of s else column + length s)"
proof (induction s arbitrary: line column)
  case (Cons c s)
  have "CHR 0x0A \<in> set s \<Longrightarrow> column_of (c # s) = column_of s"
    by (auto simp: column_of_def takeWhile_append)
  moreover have "CHR 0x0A \<notin> set s \<Longrightarrow> column_of (CHR 0x0A # s) = 1 + length s"
    by (auto simp: column_of_def takeWhile_append takeWhile_eq_all_conv)
  ultimately show ?case using Cons by auto
qed simp

lemma line_col_1:
  "line_col s 1 1 = (1 + length (filter (\<lambda>c. c = CHR 0x0A) s), column_of s)"
proof -
  have "takeWhile (\<lambda>c. c \<noteq> CHR 0x0A) (rev s) = rev s" if "CHR 0x0A \<notin> set s"
    unfolding takeWhile_eq_all_conv using that by auto
  then have "CHR 0x0A \<notin> set s \<Longrightarrow> column_of s = 1 + length s" by (simp add: column_of_def del: takeWhile_eq_all_conv)
  then show ?thesis by (simp add: line_col_eq)
qed

lemma parse_value_top: "res_ok (accepted md 0) t (parse_value md 0 (skip_ws t))"
  using parse_value_ok(1) suffix_skip_ws by (rule res_ok_mono)

lemma parse_document_cases:
  "(\<exists>msg r. parse_document md t = Inl (fail_at t (msg, r)) \<and> suffix r t) \<or>
   (\<exists>v. parse_document md t = Inr v \<and> accepted md 0 v)"
proof (cases "parse_value md 0 (skip_ws t)")
  case (Inl f)
  with res_ok_D(1) [OF parse_value_top Inl] show ?thesis
    by (cases f) (auto simp: parse_document_def)
next
  case (Inr p)
  obtain v r where p: "p = (v, r)" by fastforce
  then have "accepted md 0 v" "suffix r t" using res_ok_D(2) [OF parse_value_top] Inr by blast+
  then show ?thesis using Inr p suffix_skip_wsI [of r t]
    by (cases "skip_ws r = []") (auto simp: parse_document_def)
qed

section \<open>Properties\<close>

text \<open>C27. A document the parser accepts is no longer and no deeper than its limits allow, and no
  object in it holds a key twice.\<close>

theorem json_parse_limits:
  assumes "json_parse limits t = Inr v"
  shows "length t \<le> maxLength limits \<and> json_height v \<le> maxDepth limits \<and> json_unique v"
  using assms parse_document_cases [of "maxDepth limits" t]
  by (auto simp: json_parse_def accepted_def split: if_splits)

theorem json_parse_limits_witness:
  "length ''[]'' \<le> maxLength default_limits \<and> json_height (JArray []) \<le> maxDepth default_limits \<and> json_unique (JArray [])"
  by (rule json_parse_limits [of default_limits "''[]''"])
    (simp add: json_parse_def default_limits_def parse_document_def parse_value.simps skip_ws_def json_ws_def peek_is_def)

text \<open>A parse error points into the document, at the line and the column of its offset.\<close>

theorem json_parse_error_position:
  assumes "json_parse limits t = Inl (ParseError msg offset line column)"
  shows "offset \<le> length t \<and> line = 1 + length (filter (\<lambda>c. c = CHR 0x0A) (take offset t))
    \<and> column = column_of (take offset t)"
proof (cases "maxLength limits < length t")
  case True
  with assms show ?thesis by (simp add: json_parse_def column_of_def)
next
  case False
  with assms parse_document_cases [of "maxDepth limits" t] obtain m r
    where "fail_at t (m, r) = ParseError msg offset line column"
    by (auto simp: json_parse_def)
  then show ?thesis by (auto simp: fail_at_def Let_def line_col_1 simp del: One_nat_def split: prod.splits)
qed

theorem json_parse_error_position_witness:
  "1 \<le> length [CHR 0x0A, CHR ''?''] \<and> 2 = 1 + length (filter (\<lambda>c. c = CHR 0x0A) (take 1 [CHR 0x0A, CHR ''?'']))
    \<and> 1 = column_of (take 1 [CHR 0x0A, CHR ''?''])"
  by (rule json_parse_error_position [of default_limits _ "''invalid number''"])
    (simp add: json_parse_def default_limits_def parse_document_def parse_value.simps skip_ws_def json_ws_def peek_is_def
      parse_number_def number_int_def digit_next_def is_digit_def byte_def fail_at_def)

end
