(* ===== verification/Redact.thy ===== *)
theory Redact
  imports String_Utils
begin

text \<open>
  The redaction of credentials (\<open>redactSecrets\<close> and \<open>isSensitiveName\<close> of
  \<open>src/core/StringUtils.cpp\<close>). Each of the three rules is a loop that searches from a position;
  the functions below recurse over that position and terminate because what is left of the text
  shrinks, although the text itself may grow by a mask.
\<close>

section \<open>Definitions\<close>

definition redaction_mask :: string where
  "redaction_mask = ''***REDACTED***''"

definition isValueTerminator :: "char \<Rightarrow> bool" where
  "isValueTerminator c \<longleftrightarrow> c = CHR 0x22 \<or> c = CHR '','' \<or> c = CHR 0x0A \<or> c = CHR 0x0D \<or> c = CHR 0x7D \<or> c = CHR ''&''"

definition sensitive_markers :: "string list" where
  "sensitive_markers = [''password'', ''passwd'', ''secret'', ''token'', ''api_key'', ''apikey'', ''auth'', ''cookie'',
     ''session'', ''credential'', ''private'', ''signature'']"

definition isSensitiveName :: "string \<Rightarrow> bool" where
  "isSensitiveName name = list_ex (containsIgnoreCase name) sensitive_markers"

definition secret_keys :: "string list" where
  "secret_keys = [''authorization'', ''password'', ''passwd'', ''secret'', ''token'', ''api_key'', ''apikey'']"

definition secret_prefixes :: "string list" where
  "secret_prefixes = [''sk-'', ''ghp_'', ''gho_'', ''xoxb-'', ''AKIA'']"

text \<open>\<open>++cursor\<close> while the character there satisfies the test.\<close>

definition skip_while :: "(char \<Rightarrow> bool) \<Rightarrow> string \<Rightarrow> nat \<Rightarrow> nat" where
  "skip_while P out i = i + length (takeWhile P (drop i out))"

definition quote_or_space :: "char \<Rightarrow> bool" where
  "quote_or_space c \<longleftrightarrow> c = CHR 0x22 \<or> is_space c"

text \<open>\<open>out.replace(pos, n, mask)\<close> for a range inside the text.\<close>

definition replace_range :: "string \<Rightarrow> nat \<Rightarrow> nat \<Rightarrow> string \<Rightarrow> string" where
  "replace_range out a b new = take a out @ new @ drop b out"

lemma skip_while_bounds: "i \<le> skip_while P out i" "i \<le> length out \<Longrightarrow> skip_while P out i \<le> length out"
  using length_takeWhile_le [of P "drop i out"] by (auto simp: skip_while_def)

lemma trim_end_bounds: "b \<le> e \<Longrightarrow> b \<le> trim_end t b e \<and> trim_end t b e \<le> e"
proof (induction t b e rule: trim_end.induct)
  case (1 t b e)
  then show ?case by (subst (1 2) trim_end.simps) fastforce
qed

text \<open>Rule 1, for one key: \<open>key: value\<close> and \<open>key=value\<close>.\<close>

definition key_value_start :: "string \<Rightarrow> nat \<Rightarrow> nat option" where
  "key_value_start out after =
     (let cursor = skip_while quote_or_space out after
      in if length out \<le> cursor \<or> (out ! cursor \<noteq> CHR '':'' \<and> out ! cursor \<noteq> CHR ''='') then None
         else Some (skip_while quote_or_space out (cursor + 1)))"

definition key_value_end :: "string \<Rightarrow> nat \<Rightarrow> nat" where
  "key_value_end out cursor = trim_end out cursor (skip_while (\<lambda>c. \<not> isValueTerminator c) out cursor)"

lemma key_value_start_bounds:
  "key_value_start out after = Some cursor \<Longrightarrow> after < cursor \<and> cursor \<le> length out"
  using skip_while_bounds(1) [where i = after and P = quote_or_space and out = out]
    skip_while_bounds [where i = "skip_while quote_or_space out after + 1" and P = quote_or_space and out = out]
  by (auto simp: key_value_start_def Let_def split: if_splits)

lemma key_value_end_bounds:
  "cursor \<le> length out \<Longrightarrow> cursor \<le> key_value_end out cursor \<and> key_value_end out cursor \<le> length out"
  using skip_while_bounds [where i = cursor and P = "\<lambda>c. \<not> isValueTerminator c" and out = out]
    trim_end_bounds [of cursor "skip_while (\<lambda>c. \<not> isValueTerminator c) out cursor" out]
  by (auto simp: key_value_end_def)

function redact_key :: "string \<Rightarrow> string \<Rightarrow> nat \<Rightarrow> string" where
  "redact_key key out from =
     (case find_sub_from key (toLower out) from of
        None \<Rightarrow> out
      | Some found \<Rightarrow>
          if key = [] then out
          else (case key_value_start out (found + length key) of
             None \<Rightarrow> redact_key key out (found + length key)
           | Some cursor \<Rightarrow>
               (let valueEnd = key_value_end out cursor
                in if valueEnd \<le> cursor then redact_key key out cursor
                   else if substr out cursor (valueEnd - cursor) = redaction_mask
                     then redact_key key out (cursor + length redaction_mask)
                   else redact_key key (replace_range out cursor valueEnd redaction_mask) (cursor + length redaction_mask))))"
  by pat_completeness auto

lemma length_replace_range: "a \<le> b \<Longrightarrow> b \<le> length out \<Longrightarrow>
    length (replace_range out a b new) = a + length new + (length out - b)"
  by (simp add: replace_range_def)

lemma mask_nonempty [simp]: "redaction_mask \<noteq> []" "0 < length redaction_mask"
  by (simp_all add: redaction_mask_def)

termination redact_key
proof (relation "measure (\<lambda>(key, out, from). Suc (length out) - from)", goal_cases)
  case (2 key out pos found)
  then show ?case using find_sub_from_Some(1, 2) [OF 2(1)] by (cases key) (auto simp: toLower_def)
next
  case (3 key out pos found cursor valueEnd)
  then show ?case using find_sub_from_Some(1, 2) [OF 3(1)] key_value_start_bounds [OF 3(3)]
    by (auto simp: toLower_def)
next
  case (4 key out pos found cursor valueEnd)
  then show ?case using find_sub_from_Some(1, 2) [OF 4(1)] key_value_start_bounds [OF 4(3)]
    by (auto simp: toLower_def)
next
  case (5 key out pos found cursor valueEnd)
  then show ?case using find_sub_from_Some(1, 2) [OF 5(1)] key_value_start_bounds [OF 5(3)]
      key_value_end_bounds [of cursor out]
    by (auto simp: toLower_def length_replace_range)
qed simp

declare redact_key.simps [simp del]

text \<open>Rule 2: \<open>Bearer <token>\<close>.\<close>

definition bearer_key :: string where
  "bearer_key = ''bearer ''"

definition bearer_stop :: "char \<Rightarrow> bool" where
  "bearer_stop c \<longleftrightarrow> is_space c \<or> c = CHR 0x22 \<or> c = CHR '',''"

function redact_bearer :: "string \<Rightarrow> nat \<Rightarrow> string" where
  "redact_bearer out from =
     (case find_sub_from bearer_key (toLower out) from of
        None \<Rightarrow> out
      | Some found \<Rightarrow>
          (let valueStart = found + 7; valueEnd = skip_while (\<lambda>c. \<not> bearer_stop c) out valueStart
           in if valueEnd \<le> valueStart then redact_bearer out valueStart
              else if substr out valueStart (valueEnd - valueStart) = redaction_mask
                then redact_bearer out (valueStart + length redaction_mask)
              else redact_bearer (replace_range out valueStart valueEnd redaction_mask) (valueStart + length redaction_mask)))"
  by pat_completeness auto

termination redact_bearer
proof (relation "measure (\<lambda>(out, from). Suc (length out) - from)", goal_cases)
  case (2 out pos found valueStart valueEnd)
  then show ?case using find_sub_from_Some(1, 2) [OF 2(1)] by (auto simp: toLower_def bearer_key_def)
next
  case (3 out pos found valueStart valueEnd)
  then show ?case using find_sub_from_Some(1, 2) [OF 3(1)] by (auto simp: toLower_def bearer_key_def)
next
  case (4 out pos found valueStart valueEnd)
  then show ?case using find_sub_from_Some(1, 2) [OF 4(1)] skip_while_bounds(2) [of valueStart out]
    by (auto simp: toLower_def bearer_key_def length_replace_range)
qed simp

declare redact_bearer.simps [simp del]

text \<open>Rule 3: tokens known by their prefix, at least eight characters long after it.\<close>

definition token_char :: "char \<Rightarrow> bool" where
  "token_char c \<longleftrightarrow> is_alnum c \<or> c = CHR ''-'' \<or> c = CHR ''_''"

function redact_prefix :: "string \<Rightarrow> string \<Rightarrow> nat \<Rightarrow> string" where
  "redact_prefix p out from =
     (case find_sub_from p out from of
        None \<Rightarrow> out
      | Some found \<Rightarrow>
          if p = [] then out
          else (let valueEnd = skip_while token_char out (found + length p)
             in if valueEnd - (found + length p) < 8
                then redact_prefix p out (if found < valueEnd then valueEnd else found + 1)
                else redact_prefix p (replace_range out found valueEnd (p @ redaction_mask))
                       (found + length p + length redaction_mask)))"
  by pat_completeness auto

termination redact_prefix
proof (relation "measure (\<lambda>(p, out, from). Suc (length out) - from)", goal_cases)
  case (2 p out pos found valueEnd)
  then show ?case using find_sub_from_Some(1, 2) [OF 2(1)] skip_while_bounds(1) [where i = "found + length p" and P = token_char and out = out]
    by (cases p) auto
next
  case (3 p out pos found valueEnd)
  then show ?case using find_sub_from_Some(1, 2) [OF 3(1)] skip_while_bounds(2) [of "found + length p" out token_char]
    by (cases p) (auto simp: length_replace_range)
qed simp

declare redact_prefix.simps [simp del]

text \<open>The three rules in order.\<close>

definition redactSecrets :: "string \<Rightarrow> string" where
  "redactSecrets t =
     (let out = fold (\<lambda>key out. redact_key key out 0) secret_keys t;
          out = redact_bearer out 0
      in fold (\<lambda>p out. redact_prefix p out 0) secret_prefixes out)"

end
