(* ===== verification/F64_Arith.thy ===== *)
theory F64_Arith
  imports F64_Roundtrip
begin

text \<open>
  The double arithmetic the program uses beside conversion: multiplication, division, \<open>std::ceil\<close>
  converted to \<open>std::size_t\<close>, and \<open>%.<P>f\<close>. Each operation rounds the exact result once.
\<close>

definition nan_bits :: f64 where
  "nan_bits = 0x7FF8000000000000"

definition f64_inf :: "f64 \<Rightarrow> bool" where
  "f64_inf w \<longleftrightarrow> f64_raw w = inf_raw"

definition f64_mul :: "f64 \<Rightarrow> f64 \<Rightarrow> f64" where
  "f64_mul a b =
     (let neg = (f64_neg a \<noteq> f64_neg b); ra = f64_raw a; rb = f64_raw b
      in if f64_nan a \<or> f64_nan b then nan_bits
         else if f64_inf a \<or> f64_inf b then (if ra = 0 \<or> rb = 0 then nan_bits else f64_make neg inf_raw)
         else f64_make neg (raw_of_frac (raw_num ra * raw_num rb) (raw_den ra * raw_den rb)))"

definition f64_div :: "f64 \<Rightarrow> f64 \<Rightarrow> f64" where
  "f64_div a b =
     (let neg = (f64_neg a \<noteq> f64_neg b); ra = f64_raw a; rb = f64_raw b
      in if f64_nan a \<or> f64_nan b then nan_bits
         else if f64_inf a then (if f64_inf b then nan_bits else f64_make neg inf_raw)
         else if f64_inf b then f64_make neg 0
         else if rb = 0 then (if ra = 0 then nan_bits else f64_make neg inf_raw)
         else f64_make neg (raw_of_frac (raw_num ra * raw_den rb) (raw_den ra * raw_num rb)))"

text \<open>The ceiling of a finite double that is not negative.\<close>

definition f64_ceil :: "f64 \<Rightarrow> nat" where
  "f64_ceil w = (let r = f64_raw w in (raw_num r + raw_den r - 1) div raw_den r)"

definition print_fixed :: "nat \<Rightarrow> f64 \<Rightarrow> string" where
  "print_fixed P w =
     (let r = f64_raw w;
          D = div_rne (raw_num r * 10 ^ P) (raw_den r);
          frac = show_nat (D mod 10 ^ P)
      in (if f64_neg w then [CHR ''-''] else []) @ show_nat (D div 10 ^ P)
         @ (if P = 0 then [] else CHR ''.'' # replicate (P - length frac) CHR ''0'' @ frac))"

text \<open>\<open>%0<width>\<close> on text without a sign.\<close>

definition zero_pad :: "nat \<Rightarrow> string \<Rightarrow> string" where
  "zero_pad w t = replicate (w - length t) CHR ''0'' @ t"

section \<open>How far a rounded fraction is from the exact one\<close>

lemma raw_val_compose:
  assumes e: "- 1074 \<le> e" and q: "2 ^ 52 \<le> q" "q \<le> 2 ^ 53"
  shows "raw_val (nat (e + 1074) * 2 ^ 52 + q) = real q * 2 powi e"
proof -
  define E where "E = nat (e + 1074)"
  have E: "int E = e + 1074" using e by (simp add: E_def)
  show ?thesis
  proof (cases "q = 2 ^ 53")
    case True
    then have r: "E * 2 ^ 52 + q = (E + 2) * 2 ^ 52" by simp
    have "raw_mant (E * 2 ^ 52 + q) = 2 ^ 52" "raw_expo (E * 2 ^ 52 + q) = e + 1"
      unfolding r raw_mant_def raw_expo_def using E by simp_all
    then show ?thesis by (simp add: raw_val_def E_def [symmetric] True power_int_add)
  next
    case False
    then have lt: "q - 2 ^ 52 < 2 ^ 52" using q by simp
    have r: "E * 2 ^ 52 + q = (E + 1) * 2 ^ 52 + (q - 2 ^ 52)" using q by simp
    have "(E * 2 ^ 52 + q) div 2 ^ 52 = E + 1" "(E * 2 ^ 52 + q) mod 2 ^ 52 = q - 2 ^ 52"
      unfolding r using lt by (simp_all only: div_mult_self3 mod_mult_self3 div_less mod_less)
    moreover have "\<not> E * 2 ^ 52 + q < 2 ^ 52" using q by simp
    ultimately have "raw_mant (E * 2 ^ 52 + q) = q" "raw_expo (E * 2 ^ 52 + q) = e"
      using q E by (simp_all add: raw_mant_def raw_expo_def)
    then show ?thesis by (simp add: raw_val_def E_def [symmetric])
  qed
qed

lemma raw_of_frac_parts:
  assumes n: "0 < n" and d: "0 < d" and norm: "- 1022 \<le> frac_log 2 n d"
    and e: "e = frac_log 2 n d - 52" and q: "q = div_rne (scale_num 2 n (- e)) (scale_den 2 d (- e))"
  shows "raw_of_frac n d = min inf_raw (nat (e + 1074) * 2 ^ 52 + q)"
    "raw_val (nat (e + 1074) * 2 ^ 52 + q) = real q * 2 powi e"
    "2 powi e * 2 ^ 52 \<le> real n / real d" "\<bar>real q - real n / real d * 2 powi (- e)\<bar> \<le> 1 / 2"
    "2 ^ 52 \<le> q" "q \<le> 2 ^ 53"
proof -
  define x where "x = real n / real d"
  have L: "2 powi frac_log 2 n d \<le> x" "x < 2 powi (frac_log 2 n d + 1)"
    using frac_log_bounds [of 2 n d] n d by (simp_all add: x_def)
  have pe: "(0::real) < 2 powi (- e)" by simp
  have p52: "2 powi (e + 52) = 2 powi e * (2::real) ^ 52" by (simp add: power_int_add)
  have p53: "2 powi (e + 53) = 2 powi e * (2::real) ^ 53" by (simp add: power_int_add)
  have cancel: "2 powi e * c * 2 powi (- e) = c" for c :: real by (simp add: power_int_minus)
  have x: "2 powi e * 2 ^ 52 \<le> x" "x < 2 powi e * 2 ^ 53"
  proof -
    have "frac_log 2 n d = e + 52" "frac_log 2 n d + 1 = e + 53" using e by simp_all
    with L show "2 powi e * 2 ^ 52 \<le> x" "x < 2 powi e * 2 ^ 53" by (simp_all only: p52 p53)
  qed
  show "2 powi e * 2 ^ 52 \<le> real n / real d" using x by (simp add: x_def)
  have "2 powi e * 2 ^ 52 * 2 powi (- e) \<le> x * 2 powi (- e)" "x * 2 powi (- e) < 2 powi e * 2 ^ 53 * 2 powi (- e)"
    using x pe by (simp_all only: mult_right_mono mult_strict_right_mono less_imp_le)
  then have y: "2 ^ 52 \<le> x * 2 powi (- e)" "x * 2 powi (- e) < 2 ^ 53"
    by (simp_all only: cancel)
  show err: "\<bar>real q - real n / real d * 2 powi (- e)\<bar> \<le> 1 / 2"
    using div_rne_error [of "scale_den 2 d (- e)" "scale_num 2 n (- e)"] scale_ratio [of 2 d n "- e"] d by (simp add: q)
  have "real (2 ^ 52) < real q + 1" "real q < real (2 ^ 53) + 1"
    using err y unfolding x_def [symmetric] of_nat_power of_nat_numeral by linarith+
  then show qb: "2 ^ 52 \<le> q" "q \<le> 2 ^ 53" by linarith+
  show "raw_val (nat (e + 1074) * 2 ^ 52 + q) = real q * 2 powi e"
    using norm e qb by (intro raw_val_compose) simp_all
  show "raw_of_frac n d = min inf_raw (nat (e + 1074) * 2 ^ 52 + q)"
    using n norm e by (simp add: raw_of_frac_def Let_def q max_absorb2)
qed

lemma raw_of_frac_error:
  assumes n: "0 < n" and d: "0 < d" and norm: "- 1022 \<le> frac_log 2 n d" and fin: "raw_of_frac n d < inf_raw"
  shows "\<bar>raw_val (raw_of_frac n d) - real n / real d\<bar> \<le> real n / real d / 2 ^ 53"
proof -
  define e q where "e = frac_log 2 n d - 52" and "q = div_rne (scale_num 2 n (- e)) (scale_den 2 d (- e))"
  note parts = raw_of_frac_parts [OF n d norm e_def q_def]
  define x where "x = real n / real d"
  have p: "(0::real) < 2 powi e" by simp
  have "raw_of_frac n d = nat (e + 1074) * 2 ^ 52 + q" using parts(1) fin by simp
  then have v: "raw_val (raw_of_frac n d) = real q * 2 powi e" using parts(2) by simp
  have "x = x * 2 powi (- e) * 2 powi e" by (simp add: power_int_minus)
  then have "\<bar>raw_val (raw_of_frac n d) - x\<bar> = \<bar>real q - x * 2 powi (- e)\<bar> * 2 powi e"
    unfolding v by (metis abs_mult abs_of_pos left_diff_distrib p)
  also have "\<dots> \<le> 1 / 2 * 2 powi e" using parts(4) p by (intro mult_right_mono) (simp_all add: x_def)
  also have "\<dots> \<le> x / 2 ^ 53" using parts(3) by (simp add: x_def)
  finally show ?thesis by (simp add: x_def)
qed

lemma frac_log_nat:
  assumes "0 < n"
  shows "0 \<le> frac_log 2 n 1" "n < 2 ^ 53 \<Longrightarrow> frac_log 2 n 1 \<le> 52"
proof -
  have L: "2 powi frac_log 2 n 1 \<le> real n" "real n < 2 powi (frac_log 2 n 1 + 1)"
    using frac_log_bounds [of 2 n 1] assms by simp_all
  have "(2::real) powi 0 \<le> real n" using assms by simp
  with L(2) have "(2::real) powi 0 < 2 powi (frac_log 2 n 1 + 1)" by linarith
  from powi_less_mono [OF this] show "0 \<le> frac_log 2 n 1" by simp
  assume "n < 2 ^ 53"
  then have "real n < real (2 ^ 53)" by (simp only: of_nat_less_iff)
  then have "real n < 2 powi 53" by simp
  with L(1) have "(2::real) powi frac_log 2 n 1 < 2 powi 53" by linarith
  from powi_less_mono [OF this] show "frac_log 2 n 1 \<le> 52" by simp
qed

lemma raw_of_nat_exact:
  assumes n: "0 < n" "n < 2 ^ 53"
  shows "raw_val (raw_of_frac n 1) = real n" "raw_of_frac n 1 < inf_raw" "0 < raw_of_frac n 1"
proof -
  define e q where "e = frac_log 2 n 1 - 52" and "q = div_rne (scale_num 2 n (- e)) (scale_den 2 1 (- e))"
  have e: "- 52 \<le> e" "e \<le> 0" using frac_log_nat [OF n(1)] n(2) by (simp_all add: e_def)
  have norm: "- 1022 \<le> frac_log 2 n 1" using frac_log_nat(1) [OF n(1)] by simp
  note parts = raw_of_frac_parts [OF n(1) zero_less_one norm e_def q_def]
  have pe: "(2::real) powi (- e) = 2 ^ nat (- e)" using e by (simp add: power_int_def)
  have "q = n * 2 ^ nat (- e)"
    unfolding q_def using scale_ratio [of 2 1 n "- e"] by (intro div_rne_near) (simp_all add: pe)
  then have "real q * 2 powi e = real n * 2 powi (- e) * 2 powi e" by (simp only: pe) simp
  then have v: "real q * 2 powi e = real n" by (simp add: power_int_minus)
  have "nat (e + 1074) * 2 ^ 52 + q \<le> 1074 * 2 ^ 52 + 2 ^ 53"
    using parts(6) e by (intro add_mono mult_right_mono) simp_all
  then have fin: "nat (e + 1074) * 2 ^ 52 + q < inf_raw" by (simp add: inf_raw_def)
  then have r: "raw_of_frac n 1 = nat (e + 1074) * 2 ^ 52 + q" using parts(1) e by (simp add: e_def)
  show "raw_val (raw_of_frac n 1) = real n" "raw_of_frac n 1 < inf_raw" "0 < raw_of_frac n 1"
    unfolding r using parts(2,5) v fin by simp_all
qed

text \<open>The quotient of two small integers, printed with few decimals, is exact to the last of them.\<close>

lemma f64_raw_make: "r < 2 ^ 63 \<Longrightarrow> f64_raw (f64_make neg r) = r" "r < 2 ^ 63 \<Longrightarrow> f64_neg (f64_make neg r) = neg"
  by (auto simp: f64_raw_def f64_make_def f64_neg_def unat_of_nat)

lemma div_rne_exact_near:
  assumes r: "\<bar>raw_val r - real t / real k\<bar> \<le> real t / real k / 2 ^ 53" and k: "0 < k" and P: "10 ^ P = k" and t: "t < 2 ^ 51"
  shows "div_rne (raw_num r * 10 ^ P) (raw_den r) = t"
proof (rule div_rne_near)
  have "real (raw_num r * 10 ^ P) / real (raw_den r) = raw_val r * real k"
  proof -
    have "real (raw_num r * 10 ^ P) / real (raw_den r) = real (raw_num r) / real (raw_den r) * real (10 ^ P)" by simp
    then show ?thesis unfolding P raw_frac .
  qed
  also have "raw_val r * real k - real t = (raw_val r - real t / real k) * real k"
    using k by (simp add: left_diff_distrib)
  finally have "\<bar>real (raw_num r * 10 ^ P) / real (raw_den r) - real t\<bar> = \<bar>raw_val r - real t / real k\<bar> * real k"
    by (simp add: abs_mult)
  also have "\<dots> \<le> real t / real k / 2 ^ 53 * real k" using r by (intro mult_right_mono) simp_all
  also have "\<dots> = real t / 2 ^ 53" using k by simp
  also have "\<dots> < 1 / 2" 
  proof -
    have "real t < real (2 ^ 51)" using t by (simp only: of_nat_less_iff)
    then show ?thesis by simp
  qed
  finally show "\<bar>real (raw_num r * 10 ^ P) / real (raw_den r) - real t\<bar> < 1 / 2" .
qed simp

lemma f64_quotient:
  assumes tb: "0 < t" "t < 2 ^ 53" and kb: "0 < k" "k < 2 ^ 53"
  shows "f64_div (f64_of_int (int t)) (f64_of_int (int k)) = f64_make False (raw_of_frac t k)" "raw_of_frac t k < inf_raw"
    "\<bar>raw_val (raw_of_frac t k) - real t / real k\<bar> \<le> real t / real k / 2 ^ 53"
proof -
  let ?a = "raw_of_frac t 1" and ?b = "raw_of_frac k 1"
  note a = raw_of_nat_exact [OF tb] and b = raw_of_nat_exact [OF kb]
  have bd: "x < 2 ^ 63" if "x < inf_raw" for x using that by (simp add: inf_raw_def)
  have A: "f64_raw (f64_of_int (int t)) = ?a" "\<not> f64_neg (f64_of_int (int t))"
    and B: "f64_raw (f64_of_int (int k)) = ?b" "\<not> f64_neg (f64_of_int (int k))"
    using bd [OF a(2)] bd [OF b(2)] by (simp_all add: f64_of_int_def f64_raw_make)
  let ?n = "raw_num ?a * raw_den ?b" and ?d = "raw_den ?a * raw_num ?b"
  have nd: "0 < ?n" "0 < ?d" using a(3) b(3) by (simp_all add: raw_num_pos)
  have ratio: "real ?n / real ?d = real t / real k"
    using raw_frac [of ?a] raw_frac [of ?b] a(1) b(1) by (simp add: field_simps)
  have same: "raw_of_frac ?n ?d = raw_of_frac t k" by (rule raw_of_frac_cong) (use nd kb ratio in simp_all)
  have "real t < real (2 ^ 53)" "real k < real (2 ^ 53)" using tb kb by (simp_all only: of_nat_less_iff)
  then have "real k < 2 ^ 53" "real t < 2 ^ 53" "1 \<le> real t" "1 \<le> real k" using tb(1) kb(1) by simp_all
  moreover have "2 ^ 53 * 1 \<le> 2 ^ 53 * real t" "2 ^ 53 * 1 \<le> 2 ^ 53 * real k"
    using calculation by (intro mult_left_mono; simp)+
  ultimately have "real k < 2 ^ 53 * real t" "real t < 2 ^ 53 * real k" by linarith+
  then have range: "2 powi (- 53) < real t / real k" "real t / real k < 2 powi 53"
    using kb by (simp_all add: power_int_minus field_simps)
  have L: "2 powi frac_log 2 t k \<le> real t / real k" "real t / real k < 2 powi (frac_log 2 t k + 1)"
    using frac_log_bounds [of 2 t k] tb kb by simp_all
  have "(2::real) powi (- 53) < 2 powi (frac_log 2 t k + 1)" "(2::real) powi frac_log 2 t k < 2 powi 53"
    using range L by linarith+
  from this [THEN powi_less_mono] have l: "- 54 < frac_log 2 t k" "frac_log 2 t k < 53" by simp_all
  show fin: "raw_of_frac t k < inf_raw"
  proof -
    define e q where "e = frac_log 2 t k - 52" and "q = div_rne (scale_num 2 t (- e)) (scale_den 2 k (- e))"
    have norm: "- 1022 \<le> frac_log 2 t k" using l by simp
    note parts = raw_of_frac_parts [OF tb(1) kb(1) norm e_def q_def]
    have "nat (e + 1074) * 2 ^ 52 + q \<le> 1082 * 2 ^ 52 + 2 ^ 53"
      using parts(6) l by (intro add_mono mult_right_mono) (simp_all add: e_def)
    then show ?thesis using parts(1) by (simp add: inf_raw_def)
  qed
  show "f64_div (f64_of_int (int t)) (f64_of_int (int k)) = f64_make False (raw_of_frac t k)"
    using a b A B by (simp add: f64_div_def Let_def f64_nan_def f64_inf_def same [simplified])
  show "\<bar>raw_val (raw_of_frac t k) - real t / real k\<bar> \<le> real t / real k / 2 ^ 53"
    using l by (intro raw_of_frac_error [OF tb(1) kb(1) _ fin]) simp
qed

lemma f64_quotient_zero:
  assumes "0 < k" "k < 2 ^ 53"
  shows "f64_div (f64_of_int 0) (f64_of_int (int k)) = f64_make False 0"
  using raw_of_nat_exact [OF assms]
  by (simp add: f64_div_def Let_def f64_of_int_def raw_of_frac_def f64_nan_def f64_inf_def f64_raw_make inf_raw_def raw_num_def raw_mant_def)

lemma print_fixed_quotient:
  assumes t: "t < 2 ^ 51" and k: "k = 10 ^ P" "0 < P" "P \<le> 15"
  shows "print_fixed P (f64_div (f64_of_int (int t)) (f64_of_int (int k))) =
    show_nat (t div k) @ CHR ''.'' # zero_pad P (show_nat (t mod k))"
proof -
  have "k \<le> 10 ^ 15" unfolding k(1) using k(3) by (rule power_increasing) simp
  then have kb: "0 < k" "k < 2 ^ 53" using k(1) by simp_all
  define r where "r = f64_raw (f64_div (f64_of_int (int t)) (f64_of_int (int k)))"
  have "div_rne (raw_num r * 10 ^ P) (raw_den r) = t \<and> \<not> f64_neg (f64_div (f64_of_int (int t)) (f64_of_int (int k)))"
  proof (cases "t = 0")
    case True
    with f64_quotient_zero [OF kb] show ?thesis by (simp add: r_def f64_raw_make raw_num_def raw_mant_def div_rne_def)
  next
    case False
    then have tb: "0 < t" "t < 2 ^ 53" using t by simp_all
    note q = f64_quotient [OF tb kb]
    have bd: "raw_of_frac t k < 2 ^ 63" using q(2) by (simp add: inf_raw_def)
    then have r: "r = raw_of_frac t k" by (simp add: r_def q(1) f64_raw_make)
    have "div_rne (raw_num r * 10 ^ P) (raw_den r) = t"
      unfolding r by (rule div_rne_exact_near [OF q(3)]) (use k kb t in simp_all)
    then show ?thesis using bd by (simp add: q(1) f64_raw_make)
  qed
  then show ?thesis using k(2)
    by (simp only: print_fixed_def Let_def r_def [symmetric] zero_pad_def k(1) [symmetric]) simp
qed

end
