(* ===== verification/Clock.thy ===== *)
theory Clock
  imports F64_Arith
begin

text \<open>
  Timestamps (\<open>src/core/Clock.cpp\<close>). A \<open>TimePoint\<close> is its \<open>std::int64_t\<close> count of nanoseconds since
  the epoch, here an integer in that range; leaving the range is undefined in C++ (\<open>None\<close>).

  Of the C library the code uses \<open>gmtime_r\<close> and \<open>timegm\<close> (the proleptic Gregorian calendar in UTC),
  \<open>strftime\<close> on a year of four digits, and \<open>sscanf\<close> with \<open>%<width>d\<close> fields.
\<close>

section \<open>The calendar\<close>

definition leap_year :: "int \<Rightarrow> bool" where
  "leap_year y \<longleftrightarrow> 4 dvd y \<and> (\<not> 100 dvd y \<or> 400 dvd y)"

text \<open>Days from the first of January 1970 to the first of January of a year.\<close>

definition days_before_year :: "int \<Rightarrow> int" where
  "days_before_year y = 365 * (y - 1970) + (y - 1) div 4 - (y - 1) div 100 + (y - 1) div 400 - 477"

definition month_lengths :: "int \<Rightarrow> int list" where
  "month_lengths y = [31, if leap_year y then 29 else 28, 31, 30, 31, 30, 31, 31, 30, 31, 30, 31]"

lemma div_pred:
  assumes "0 < (k :: int)"
  shows "y div k = (y - 1) div k + (if k dvd y then 1 else 0)"
proof (cases "k dvd y")
  case True
  then obtain q where q: "y = k * q" by blast
  have "(y - 1) div k = q - 1"
    by (rule int_div_pos_eq [of _ _ _ "k - 1"]) (use assms q in \<open>simp_all add: algebra_simps\<close>)
  with q assms True show ?thesis by simp
next
  case False
  then have "0 < y mod k" using assms pos_mod_sign [of k y] by (simp add: dvd_eq_mod_eq_0 less_le)
  moreover have "y mod k < k" using assms by simp
  ultimately have "(y - 1) div k = y div k"
    by (intro int_div_pos_eq [of _ _ _ "y mod k - 1"]) (simp_all add: algebra_simps)
  with False show ?thesis by simp
qed

lemma mult_div_le: "0 < (k :: int) \<Longrightarrow> k * (d div k) \<le> d"
  using pos_mod_sign [of k d] mult_div_mod_eq [of k d] by linarith

lemma div_less_quotient:
  assumes "0 < (k :: int)" "a < n * k"
  shows "a div k < n"
proof (rule ccontr)
  assume "\<not> a div k < n"
  then have "k * n \<le> k * (a div k)" using assms(1) by (intro mult_left_mono) simp_all
  with mult_div_le [OF assms(1), of a] assms(2) show False by (simp add: mult.commute)
qed

lemma days_before_year_Suc: "days_before_year (y + 1) = days_before_year y + (if leap_year y then 366 else 365)"
proof -
  define p q r where "p = (y - 1) div 4" and "q = (y - 1) div 100" and "r = (y - 1) div 400"
  have a: "y div 4 = p + (if 4 dvd y then 1 else 0)" unfolding p_def by (rule div_pred) simp
  have b: "y div 100 = q + (if 100 dvd y then 1 else 0)" unfolding q_def by (rule div_pred) simp
  have c: "y div 400 = r + (if 400 dvd y then 1 else 0)" unfolding r_def by (rule div_pred) simp
  have d: "400 dvd y \<Longrightarrow> 100 dvd y" "100 dvd y \<Longrightarrow> 4 dvd y" by (erule dvd_trans [rotated], simp)+
  have "days_before_year (y + 1) = 365 * (y - 1970) + 365 + y div 4 - y div 100 + y div 400 - 477"
    unfolding days_before_year_def by (simp only: add_diff_cancel_right' right_diff_distrib distrib_left)
  also have "\<dots> = 365 * (y - 1970) + p - q + r - 477 + (if leap_year y then 366 else 365)"
    unfolding a b c leap_year_def using d by (cases "4 dvd y"; cases "100 dvd y"; cases "400 dvd y") simp_all
  finally show ?thesis by (simp only: days_before_year_def p_def q_def r_def)
qed

text \<open>The year a day falls in: from a year that starts no later, upwards.\<close>

function year_loop :: "int \<Rightarrow> int \<Rightarrow> int" where
  "year_loop d y = (if days_before_year (y + 1) \<le> d then year_loop d (y + 1) else y)"
  by pat_completeness auto
termination
  by (relation "measure (\<lambda>(d, y). nat (d - days_before_year y))") (auto simp: days_before_year_Suc split: if_splits)

declare year_loop.simps [simp del]

definition year_of_day :: "int \<Rightarrow> int" where
  "year_of_day d = year_loop d (1970 + (if d < 0 then d div 365 else d div 366))"

text \<open>Month (from 0) and day of the month (from 0) of a day of the year.\<close>

fun month_loop :: "int list \<Rightarrow> int \<Rightarrow> int \<Rightarrow> int \<times> int" where
  "month_loop [] m d = (m, d)"
| "month_loop (l # ls) m d = (if d < l then (m, d) else month_loop ls (m + 1) (d - l))"

record civil_time =
  tm_year :: int
  tm_mon :: int
  tm_mday :: int
  tm_hour :: int
  tm_min :: int
  tm_sec :: int

text \<open>\<open>gmtime_r\<close>, with the year in full and the month from 1.\<close>

definition gmtime :: "int \<Rightarrow> civil_time" where
  "gmtime t =
     (let d = t div 86400; s = t mod 86400; y = year_of_day d
      in case month_loop (month_lengths y) 0 (d - days_before_year y) of
           (m, md) \<Rightarrow> \<lparr>tm_year = y, tm_mon = m + 1, tm_mday = md + 1,
                        tm_hour = s div 3600, tm_min = s mod 3600 div 60, tm_sec = s mod 60\<rparr>)"

text \<open>\<open>timegm\<close> normalises fields out of range; a month carries into the year, the rest is linear.\<close>

definition timegm :: "civil_time \<Rightarrow> int" where
  "timegm tm =
     (let y = tm_year tm + (tm_mon tm - 1) div 12; m = (tm_mon tm - 1) mod 12
      in (days_before_year y + sum_list (take (nat m) (month_lengths y)) + tm_mday tm - 1) * 86400
         + tm_hour tm * 3600 + tm_min tm * 60 + tm_sec tm)"

section \<open>Text\<close>

definition pad_num :: "nat \<Rightarrow> int \<Rightarrow> string" where
  "pad_num w n = (let t = show_int n in replicate (w - length t) CHR ''0'' @ t)"

text \<open>Division that truncates towards zero, as \<open>duration_cast\<close> does.\<close>

definition tdiv :: "int \<Rightarrow> int \<Rightarrow> int" where
  "tdiv a b = (if a < 0 then - ((- a) div b) else a div b)"

definition toIso8601 :: "int \<Rightarrow> string" where
  "toIso8601 tp =
     (let seconds = tdiv tp 1000000000;
          millis = tdiv (tp - seconds * 1000000000) 1000000;
          tm = gmtime seconds
      in show_int (tm_year tm) @ ''-'' @ pad_num 2 (tm_mon tm) @ ''-'' @ pad_num 2 (tm_mday tm) @ ''T''
         @ pad_num 2 (tm_hour tm) @ '':'' @ pad_num 2 (tm_min tm) @ '':'' @ pad_num 2 (tm_sec tm)
         @ ''.'' @ pad_num 3 millis @ ''Z'')"

text \<open>One \<open>%<width>d\<close> field of \<open>sscanf\<close>: white space is skipped, a sign counts towards the width.\<close>

definition scan_int :: "nat \<Rightarrow> string \<Rightarrow> (int \<times> string) option" where
  "scan_int w s =
     (let s1 = dropWhile is_space s;
          signed = (s1 \<noteq> [] \<and> (hd s1 = CHR ''-'' \<or> hd s1 = CHR ''+''));
          s2 = (if signed then tl s1 else s1);
          ds = takeWhile is_digit (take (if signed then w - 1 else w) s2)
      in if ds = [] then None
         else Some (if signed \<and> hd s1 = CHR ''-'' then - int (digits_val ds) else int (digits_val ds),
                    drop (length ds) s2))"

text \<open>The values matched by a format of fields, each followed by a literal character.\<close>

fun scan_fields :: "(nat \<times> char) list \<Rightarrow> string \<Rightarrow> int list" where
  "scan_fields [] s = []"
| "scan_fields ((w, c) # fs) s =
     (case scan_int w s of
        None \<Rightarrow> []
      | Some (v, r) \<Rightarrow> v # (if r \<noteq> [] \<and> hd r = c then scan_fields fs (tl r) else []))"

definition iso_format :: "(nat \<times> char) list" where
  "iso_format = [(4, CHR ''-''), (2, CHR ''-''), (2, CHR ''T''), (2, CHR '':''), (2, CHR '':''), (2, CHR ''.''), (3, CHR 0x00)]"

definition in_i64 :: "int \<Rightarrow> bool" where
  "in_i64 i \<longleftrightarrow> - (2 ^ 63) \<le> i \<and> i < 2 ^ 63"

definition fromIso8601 :: "string \<Rightarrow> int option" where
  "fromIso8601 t =
     (if length t < 19 then Some 0
      else let vs = scan_fields iso_format (c_str t)
           in if length vs < 6 then Some 0
              else let epoch = timegm \<lparr>tm_year = vs ! 0, tm_mon = vs ! 1, tm_mday = vs ! 2,
                                       tm_hour = vs ! 3, tm_min = vs ! 4, tm_sec = vs ! 5\<rparr>;
                       tp = epoch * 1000000000 + (if 7 \<le> length vs then vs ! 6 else 0) * 1000000
                   in if epoch = - 1 then Some 0
                      else if in_i64 (epoch * 1000000000) \<and> in_i64 tp then Some tp else None)"

definition toEpochMillis :: "int \<Rightarrow> int" where
  "toEpochMillis tp = tdiv tp 1000000"

definition fromEpochMillis :: "int \<Rightarrow> int option" where
  "fromEpochMillis millis = (if in_i64 (millis * 1000000) then Some (millis * 1000000) else None)"

text \<open>\<open>total / 1000.0\<close> in double arithmetic, printed with \<open>%.3f\<close> and \<open>%05.2f\<close>.\<close>

definition seconds_of :: "int \<Rightarrow> f64" where
  "seconds_of millis = f64_div (f64_of_int millis) (f64_of_int 1000)"

definition formatDuration :: "i64 \<Rightarrow> string" where
  "formatDuration duration =
     (let ms = sint duration
      in if ms < 0 then ''0ms''
         else if ms < 1000 then show_int ms @ ''ms''
         else if ms < 60000 then print_fixed 3 (seconds_of ms) @ ''s''
         else show_int (ms div 60000) @ ''m '' @ zero_pad 5 (print_fixed 2 (seconds_of (ms mod 60000))) @ ''s'')"

section \<open>Dates and back\<close>

lemma year_loop_bounds:
  assumes "days_before_year y \<le> d"
  shows "y \<le> year_loop d y \<and> days_before_year (year_loop d y) \<le> d \<and> d < days_before_year (year_loop d y + 1)"
  using assms
proof (induction d y rule: year_loop.induct)
  case (1 d y)
  then show ?case by (subst (1 2 3) year_loop.simps) auto
qed

lemma year_of_day_bounds:
  "days_before_year (year_of_day d) \<le> d" "d < days_before_year (year_of_day d + 1)" "0 \<le> d \<Longrightarrow> 1970 \<le> year_of_day d"
proof -
  have zero: "days_before_year 1970 = 0" by (simp add: days_before_year_def)
  have pos: "days_before_year (1970 + k) \<le> 366 * k" if "0 \<le> k" for k
    using that
  proof (induction k rule: int_ge_induct)
    case (step i)
    then show ?case using days_before_year_Suc [of "1970 + i"] by (simp add: add.assoc split: if_splits)
  qed (simp add: zero)
  have neg: "days_before_year (1970 + k) \<le> 365 * k" if "k \<le> 0" for k
    using that
  proof (induction k rule: int_le_induct)
    case (step i)
    then show ?case using days_before_year_Suc [of "1970 + (i - 1)"] by (simp add: add.assoc split: if_splits)
  qed (simp add: zero)
  have start: "days_before_year (1970 + (if d < 0 then d div 365 else d div 366)) \<le> d"
  proof (cases "d < 0")
    case True
    then have "d div 365 \<le> 0" by (simp add: div_neg_pos_less0 less_imp_le)
    from order.trans [OF neg [OF this] mult_div_le] True show ?thesis by simp
  next
    case False
    then have "0 \<le> d div 366" by (simp add: pos_imp_zdiv_nonneg_iff)
    from order.trans [OF pos [OF this] mult_div_le] False show ?thesis by simp
  qed
  show "days_before_year (year_of_day d) \<le> d" "d < days_before_year (year_of_day d + 1)"
    using year_loop_bounds [OF start] by (simp_all add: year_of_day_def)
  show "1970 \<le> year_of_day d" if "0 \<le> d"
  proof -
    have "1970 \<le> 1970 + d div 366" using that by (simp add: pos_imp_zdiv_nonneg_iff)
    also have "\<dots> \<le> year_of_day d" using year_loop_bounds [OF start] that by (simp add: year_of_day_def)
    finally show ?thesis .
  qed
qed

lemma month_loop_bounds:
  assumes "0 \<le> d" "d < sum_list ls" "month_loop ls m d = (m', d')"
  shows "m \<le> m' \<and> m' < m + int (length ls) \<and> 0 \<le> d' \<and> d' < ls ! nat (m' - m) \<and> d = sum_list (take (nat (m' - m)) ls) + d'"
  using assms
proof (induction ls m d rule: month_loop.induct)
  case (2 l ls m d)
  show ?case
  proof (cases "d < l")
    case False
    with 2 have "m + 1 \<le> m' \<and> m' < m + 1 + int (length ls) \<and> 0 \<le> d' \<and> d' < ls ! nat (m' - (m + 1)) \<and>
        d - l = sum_list (take (nat (m' - (m + 1))) ls) + d'" by simp
    moreover from this have "nat (m' - m) = Suc (nat (m' - (m + 1)))" by (simp add: nat_eq_iff)
    ultimately show ?thesis by simp
  qed (use 2 in auto)
qed simp

lemma month_lengths_sum: "sum_list (month_lengths y) = (if leap_year y then 366 else 365)"
  by (simp add: month_lengths_def)

lemma month_lengths_le: "i < 12 \<Longrightarrow> month_lengths y ! i \<le> 31"
  by (auto simp: month_lengths_def less_Suc_eq numeral_eq_Suc)

lemma timegm_gmtime:
  "timegm (gmtime t) = t"
  "1 \<le> tm_mon (gmtime t) \<and> tm_mon (gmtime t) \<le> 12" "1 \<le> tm_mday (gmtime t) \<and> tm_mday (gmtime t) \<le> 31"
  "0 \<le> tm_hour (gmtime t) \<and> tm_hour (gmtime t) < 24" "0 \<le> tm_min (gmtime t) \<and> tm_min (gmtime t) < 60"
  "0 \<le> tm_sec (gmtime t) \<and> tm_sec (gmtime t) < 60"
  "tm_year (gmtime t) = year_of_day (t div 86400)"
proof -
  define d y where "d = t div 86400" and "y = year_of_day d"
  obtain m md where ml: "month_loop (month_lengths y) 0 (d - days_before_year y) = (m, md)" by fastforce
  have "0 \<le> d - days_before_year y" "d - days_before_year y < sum_list (month_lengths y)"
    using year_of_day_bounds [of d] by (simp_all add: y_def month_lengths_sum days_before_year_Suc split: if_splits)
  from month_loop_bounds [OF this ml] have m: "0 \<le> m" "m < 12" "0 \<le> md" "md < month_lengths y ! nat m"
    and split: "d - days_before_year y = sum_list (take (nat m) (month_lengths y)) + md"
    by (simp_all add: month_lengths_def)
  have g: "gmtime t = \<lparr>tm_year = y, tm_mon = m + 1, tm_mday = md + 1, tm_hour = t mod 86400 div 3600,
      tm_min = t mod 86400 mod 3600 div 60, tm_sec = t mod 86400 mod 60\<rparr>"
    by (simp add: gmtime_def Let_def d_def [symmetric] y_def [symmetric] ml)
  have md: "md < 31" using month_lengths_le [of "nat m" y] m by linarith
  define s where "s = t mod 86400"
  have t: "t = d * 86400 + s" by (simp add: d_def s_def)
  have "s mod 60 = s mod 3600 mod 60" by (simp add: mod_mod_cancel)
  then have s: "s = s div 3600 * 3600 + s mod 3600 div 60 * 60 + s mod 60"
    using div_mult_mod_eq [of s 3600] div_mult_mod_eq [of "s mod 3600" 60] by linarith
  have "timegm (gmtime t) = (days_before_year y + sum_list (take (nat m) (month_lengths y)) + md) * 86400
      + s div 3600 * 3600 + s mod 3600 div 60 * 60 + s mod 60"
    using m(1,2) by (simp add: g timegm_def div_pos_pos_trivial mod_pos_pos_trivial s_def)
  also have "\<dots> = d * 86400 + (s div 3600 * 3600 + s mod 3600 div 60 * 60 + s mod 60)"
    using split by (simp only: add.assoc [symmetric]) simp
  finally show "timegm (gmtime t) = t" using t s by simp
  show "1 \<le> tm_mon (gmtime t) \<and> tm_mon (gmtime t) \<le> 12" "1 \<le> tm_mday (gmtime t) \<and> tm_mday (gmtime t) \<le> 31"
    using m md by (simp_all add: g)
  have "s div 3600 < 24" "s mod 3600 div 60 < 60"
    by (rule div_less_quotient; simp add: s_def)+
  then show "0 \<le> tm_hour (gmtime t) \<and> tm_hour (gmtime t) < 24" "0 \<le> tm_min (gmtime t) \<and> tm_min (gmtime t) < 60"
    "0 \<le> tm_sec (gmtime t) \<and> tm_sec (gmtime t) < 60"
    by (simp_all add: g s_def pos_imp_zdiv_nonneg_iff)
  show "tm_year (gmtime t) = year_of_day (t div 86400)" by (simp add: g y_def d_def)
qed

section \<open>Text and back\<close>

lemma length_show_nat_le: "n < 10 ^ w \<Longrightarrow> 0 < w \<Longrightarrow> length (show_nat n) \<le> w"
proof (induction n arbitrary: w rule: show_nat.induct)
  case (1 n)
  show ?case
  proof (cases "n < 10")
    case False
    with 1 obtain v where v: "w = Suc v" "0 < v" by (cases w; cases "w - 1") auto
    then have "n div 10 < 10 ^ v" using "1.prems" by (simp add: div_less_iff_less_mult mult.commute)
    with 1 False v have "length (show_nat (n div 10)) \<le> v" by blast
    with False v show ?thesis by (subst show_nat.simps) simp
  qed (use 1 in \<open>subst show_nat.simps, simp\<close>)
qed

lemma pad_num_nat: "0 \<le> n \<Longrightarrow> pad_num w n = replicate (w - length (show_nat (nat n))) CHR ''0'' @ show_nat (nat n)"
  by (simp add: pad_num_def show_int_def Let_def)

lemma pad_num_digits: "0 \<le> n \<Longrightarrow> list_all is_digit (pad_num w n)"
  using show_nat_digits by (auto simp: pad_num_nat list_all_iff is_digit_def byte_def)

lemma length_pad_num: "0 \<le> n \<Longrightarrow> n < 10 ^ w \<Longrightarrow> 0 < w \<Longrightarrow> length (pad_num w n) = w"
  using length_show_nat_le [of "nat n" w] by (simp add: pad_num_nat nat_less_iff)

lemma digits_val_pad_num: "0 \<le> n \<Longrightarrow> digits_val (pad_num w n) = nat n"
  by (simp add: pad_num_nat digits_val_append)

lemma scan_int_digits:
  assumes "length ds = w" "0 < w" "list_all is_digit ds"
  shows "scan_int w (ds @ rest) = Some (int (digits_val ds), rest)"
proof -
  obtain c cs where c: "ds = c # cs" "is_digit c" using assms by (cases ds) auto
  then have "\<not> is_space c" "c \<noteq> CHR ''-''" "c \<noteq> CHR ''+''"
    by (auto simp: is_digit_def is_space_def byte_def)
  then have "dropWhile is_space (ds @ rest) = ds @ rest" "hd (ds @ rest) \<noteq> CHR ''-''" "hd (ds @ rest) \<noteq> CHR ''+''"
    using c by simp_all
  moreover have "takeWhile is_digit (take w (ds @ rest)) = ds"
    using assms(1) takeWhile_digits [OF assms(3), of "[]"] by simp
  moreover have "ds \<noteq> []" using c by simp
  ultimately show ?thesis by (simp add: scan_int_def Let_def)
qed

lemma scan_pad_num:
  assumes "0 \<le> n" "n < 10 ^ w" "0 < w"
  shows "scan_int w (pad_num w n @ rest) = Some (n, rest)"
  using scan_int_digits [OF length_pad_num [OF assms] assms(3) pad_num_digits [OF assms(1)]] assms(1)
  by (simp add: digits_val_pad_num)

lemma show_year_pad:
  assumes "1000 \<le> y" "y < 10000"
  shows "show_int y = pad_num 4 y"
proof -
  have "10 ^ 3 \<le> nat y" "nat y < 10 ^ Suc 3" using assms by simp_all
  then have "length (show_nat (nat y)) = Suc 3" by (rule length_show_nat)
  with assms show ?thesis by (simp add: pad_num_def show_int_def)
qed

lemma days_before_year_mono: "0 \<le> k \<Longrightarrow> days_before_year y \<le> days_before_year (y + k)"
proof (induction k rule: int_ge_induct)
  case (step i)
  then show ?case using days_before_year_Suc [of "y + i"] by (simp add: add.assoc split: if_splits)
qed simp

lemma year_of_day_bound:
  assumes "0 \<le> d" "d < 106752"
  shows "1970 \<le> year_of_day d" "year_of_day d < 2263"
proof -
  show "1970 \<le> year_of_day d" using year_of_day_bounds(3) assms by simp
  show "year_of_day d < 2263"
  proof (rule ccontr)
    assume "\<not> year_of_day d < 2263"
    then have "days_before_year 2263 \<le> days_before_year (year_of_day d)"
      using days_before_year_mono [of "year_of_day d - 2263" 2263] by simp
    moreover have "days_before_year 2263 = 107016" by (simp add: days_before_year_def)
    ultimately show False using year_of_day_bounds(1) [of d] assms by simp
  qed
qed

lemma iso8601_roundtrip_fact:
  assumes "0 \<le> tp" "tp < 2 ^ 63" "1000000 dvd tp"
  shows "fromIso8601 (toIso8601 tp) = Some tp"
proof -
  define s ms where "s = tp div 1000000000" and "ms = (tp - s * 1000000000) div 1000000"
  have rem: "tp - s * 1000000000 = tp mod 1000000000" by (simp add: s_def minus_div_mult_eq_mod)
  have s0: "0 \<le> s" using assms(1) by (simp add: s_def pos_imp_zdiv_nonneg_iff)
  have "1000000 dvd tp mod 1000000000" using assms(3) by (simp add: dvd_mod_iff)
  then have ms: "tp mod 1000000000 = ms * 1000000" unfolding ms_def rem by simp
  have msb: "0 \<le> ms" "ms < 1000"
    using pos_mod_sign [of 1000000000 tp] pos_mod_bound [of 1000000000 tp] by (simp_all add: ms)
  have tp: "tp = s * 1000000000 + ms * 1000000" using rem ms by simp
  define tm where "tm = gmtime s"
  have day: "s div 86400 < 106752"
    by (rule div_less_quotient) (use tp msb assms(2) in simp_all)
  have "0 \<le> s div 86400" using s0 by (simp add: pos_imp_zdiv_nonneg_iff)
  then have y: "1970 \<le> tm_year tm" "tm_year tm < 2263"
    using year_of_day_bound [OF _ day] timegm_gmtime(7) [of s] by (simp_all add: tm_def)
  note f = timegm_gmtime(2-6) [of s, folded tm_def]
  have iso: "toIso8601 tp = pad_num 4 (tm_year tm) @ CHR ''-'' # pad_num 2 (tm_mon tm) @ CHR ''-'' # pad_num 2 (tm_mday tm)
      @ CHR ''T'' # pad_num 2 (tm_hour tm) @ CHR '':'' # pad_num 2 (tm_min tm) @ CHR '':'' # pad_num 2 (tm_sec tm)
      @ CHR ''.'' # pad_num 3 ms @ ''Z''"
    using assms(1) s0 tp msb y
    by (simp add: toIso8601_def Let_def tdiv_def s_def [symmetric] ms_def [symmetric] tm_def [symmetric] show_year_pad)
  have lim: "tm_year tm < 10 ^ 4" "tm_mon tm < 10 ^ 2" "tm_mday tm < 10 ^ 2" "tm_hour tm < 10 ^ 2" "tm_min tm < 10 ^ 2"
    "tm_sec tm < 10 ^ 2" "ms < 10 ^ 3" using y f msb by simp_all
  have nonneg: "0 \<le> tm_year tm" "0 \<le> tm_mon tm" "0 \<le> tm_mday tm" "0 \<le> tm_hour tm" "0 \<le> tm_min tm" "0 \<le> tm_sec tm" "0 \<le> ms"
    using y f msb by simp_all
  note pads = nonneg lim
  have scan: "scan_fields iso_format (toIso8601 tp) = [tm_year tm, tm_mon tm, tm_mday tm, tm_hour tm, tm_min tm, tm_sec tm, ms]"
    using pads by (simp add: iso iso_format_def scan_pad_num)
  have "is_digit c \<or> c \<in> {CHR ''-'', CHR '':'', CHR ''T'', CHR ''Z'', CHR ''.''}" if "c \<in> set (toIso8601 tp)" for c
    using that pad_num_digits [OF nonneg(1), of 4] pad_num_digits [OF nonneg(2), of 2] pad_num_digits [OF nonneg(3), of 2]
      pad_num_digits [OF nonneg(4), of 2] pad_num_digits [OF nonneg(5), of 2] pad_num_digits [OF nonneg(6), of 2]
      pad_num_digits [OF nonneg(7), of 3]
    by (auto simp: iso list_all_iff)
  then have "byte c \<noteq> 0" if "c \<in> set (toIso8601 tp)" for c
    using that by (fastforce simp: is_digit_def byte_def)
  then have cstr: "c_str (toIso8601 tp) = toIso8601 tp" by (simp add: c_str_def takeWhile_eq_all_conv)
  have tm: "timegm \<lparr>tm_year = tm_year tm, tm_mon = tm_mon tm, tm_mday = tm_mday tm, tm_hour = tm_hour tm, tm_min = tm_min tm, tm_sec = tm_sec tm\<rparr> = s"
    using timegm_gmtime(1) [of s] by (cases tm) (simp add: tm_def)
  have "length (toIso8601 tp) = 24" using pads by (simp add: iso length_pad_num)
  moreover have "in_i64 (s * 1000000000)" "in_i64 tp" using tp assms s0 msb by (simp_all add: in_i64_def)
  moreover have "s \<noteq> - 1" using s0 by simp
  ultimately show ?thesis
    by (simp only: fromIso8601_def cstr scan Let_def) (simp add: tm tp)
qed

text \<open>A timestamp that is a whole number of milliseconds, not before the epoch, is read back from its
  text as it was.\<close>

theorem iso8601_roundtrip:
  assumes "0 \<le> tp" "tp < 2 ^ 63" "1000000 dvd tp"
  shows "fromIso8601 (toIso8601 tp) = Some tp"
  using assms by (rule iso8601_roundtrip_fact)

theorem iso8601_roundtrip_witness: "fromIso8601 (toIso8601 1757658692417000000) = Some 1757658692417000000"
  by (rule iso8601_roundtrip) simp_all

text \<open>A duration of less than a minute is rendered to the exact millisecond, despite the double
  arithmetic in between.\<close>

theorem formatDuration_exact:
  assumes "1000 \<le> sint d" "sint d < 60000"
  shows "formatDuration d = show_nat (nat (sint d) div 1000) @ ''.'' @ pad_num 3 (sint d mod 1000) @ ''s''"
proof -
  define t where "t = nat (sint d)"
  have t: "sint d = int t" "t < 60000" using assms by (simp_all add: t_def)
  have "print_fixed 3 (f64_div (f64_of_int (int t)) (f64_of_int (int 1000))) =
      show_nat (t div 1000) @ CHR ''.'' # zero_pad 3 (show_nat (t mod 1000))"
    by (rule print_fixed_quotient) (use t in simp_all)
  moreover have "pad_num 3 (int t mod 1000) = zero_pad 3 (show_nat (t mod 1000))"
    by (simp add: pad_num_nat zero_pad_def nat_mod_distrib)
  ultimately show ?thesis
    using assms t by (simp add: formatDuration_def seconds_of_def nat_int)
qed

theorem formatDuration_exact_witness:
  "formatDuration 1234 = show_nat (nat (sint (1234 :: i64)) div 1000) @ ''.'' @ pad_num 3 (sint (1234 :: i64) mod 1000) @ ''s''"
  by (rule formatDuration_exact) simp_all

end
