(* ===== verification/Status.thy ===== *)
theory Status
  imports String_Utils
begin

text \<open>
  Outcomes and failure categories (\<open>include/testforge/core/Status.hpp\<close>, \<open>src/core/Status.cpp\<close>) and
  their text. A \<open>FailureCategory\<close> is a key of \<open>std::map\<close>, so it is linearly ordered by the
  enumerator's position.
\<close>

datatype test_status = Passed | Failed | Skipped | Error | TimedOut

datatype failure_category =
    NoFailure
  | AssertionFailure
  | TimeoutFailure
  | NetworkFailure
  | EnvironmentFailure
  | ResourceFailure
  | ApplicationFailure
  | DependencyFailure
  | ConfigurationFailure
  | FrameworkFailure
  | UnknownFailure

fun status_str :: "test_status \<Rightarrow> string" where
  "status_str Passed = ''PASSED''"
| "status_str Failed = ''FAILED''"
| "status_str Skipped = ''SKIPPED''"
| "status_str Error = ''ERROR''"
| "status_str TimedOut = ''TIMEOUT''"

fun category_str :: "failure_category \<Rightarrow> string" where
  "category_str NoFailure = ''NONE''"
| "category_str AssertionFailure = ''ASSERTION_FAILURE''"
| "category_str TimeoutFailure = ''TIMEOUT''"
| "category_str NetworkFailure = ''NETWORK_FAILURE''"
| "category_str EnvironmentFailure = ''ENVIRONMENT_FAILURE''"
| "category_str ResourceFailure = ''RESOURCE_FAILURE''"
| "category_str ApplicationFailure = ''APPLICATION_FAILURE''"
| "category_str DependencyFailure = ''DEPENDENCY_FAILURE''"
| "category_str ConfigurationFailure = ''CONFIGURATION_FAILURE''"
| "category_str FrameworkFailure = ''FRAMEWORK_ERROR''"
| "category_str UnknownFailure = ''UNKNOWN''"

definition allTestStatuses :: "test_status list" where
  "allTestStatuses = [Passed, Failed, Skipped, Error, TimedOut]"

definition allFailureCategories :: "failure_category list" where
  "allFailureCategories =
     [NoFailure, AssertionFailure, TimeoutFailure, NetworkFailure, EnvironmentFailure, ResourceFailure,
      ApplicationFailure, DependencyFailure, ConfigurationFailure, FrameworkFailure, UnknownFailure]"

definition testStatusFromString :: "string \<Rightarrow> test_status option" where
  "testStatusFromString t = find (\<lambda>s. equalsIgnoreCase t (status_str s)) allTestStatuses"

definition failureCategoryFromString :: "string \<Rightarrow> failure_category option" where
  "failureCategoryFromString t = find (\<lambda>c. equalsIgnoreCase t (category_str c)) allFailureCategories"

definition isFailure :: "test_status \<Rightarrow> bool" where
  "isFailure s \<longleftrightarrow> s = Failed \<or> s = Error \<or> s = TimedOut"

fun ansiColor :: "test_status \<Rightarrow> string" where
  "ansiColor Passed = CHR 0x1B # ''[32m''"
| "ansiColor Failed = CHR 0x1B # ''[31m''"
| "ansiColor Skipped = CHR 0x1B # ''[90m''"
| "ansiColor Error = CHR 0x1B # ''[35m''"
| "ansiColor TimedOut = CHR 0x1B # ''[33m''"

section \<open>The order of the categories\<close>

fun category_index :: "failure_category \<Rightarrow> nat" where
  "category_index NoFailure = 0"
| "category_index AssertionFailure = 1"
| "category_index TimeoutFailure = 2"
| "category_index NetworkFailure = 3"
| "category_index EnvironmentFailure = 4"
| "category_index ResourceFailure = 5"
| "category_index ApplicationFailure = 6"
| "category_index DependencyFailure = 7"
| "category_index ConfigurationFailure = 8"
| "category_index FrameworkFailure = 9"
| "category_index UnknownFailure = 10"

lemma category_index_inject [simp]: "category_index a = category_index b \<longleftrightarrow> a = b"
  by (cases a; cases b) simp_all

instantiation failure_category :: linorder
begin

definition less_eq_failure_category :: "failure_category \<Rightarrow> failure_category \<Rightarrow> bool" where
  "less_eq_failure_category a b \<longleftrightarrow> category_index a \<le> category_index b"

definition less_failure_category :: "failure_category \<Rightarrow> failure_category \<Rightarrow> bool" where
  "less_failure_category a b \<longleftrightarrow> category_index a < category_index b"

instance
  by standard (auto simp: less_eq_failure_category_def less_failure_category_def)

end

section \<open>Text and back\<close>

lemma find_unique:
  assumes "x \<in> set xs" "P x" "\<forall>y. P y \<longrightarrow> y = x"
  shows "find P xs = Some x"
proof (cases "find P xs")
  case None
  with assms(1,2) show ?thesis by (simp add: find_None_iff)
next
  case (Some y)
  then have "P y" by (auto simp: find_Some_iff)
  with assms(3) Some show ?thesis by simp
qed

lemma in_allTestStatuses [simp]: "s \<in> set allTestStatuses"
  by (cases s) (simp_all add: allTestStatuses_def)

lemma in_allFailureCategories [simp]: "c \<in> set allFailureCategories"
  by (cases c) (simp_all add: allFailureCategories_def)

lemma toLower_inject_upper:
  assumes "list_all (\<lambda>c. \<not> is_lower c) a" "list_all (\<lambda>c. \<not> is_lower c) b" "toLower a = toLower b"
  shows "a = b"
proof -
  have inj: "c = d" if "\<not> is_lower c" "\<not> is_lower d" "to_lower_char c = to_lower_char d" for c d
  proof -
    have "(if is_upper c then byte c + 32 else byte c) = (if is_upper d then byte d + 32 else byte d)"
      using that(3) by (metis byte_to_lower_char)
    with that(1,2) have "byte c = byte d" unfolding is_lower_def is_upper_def by (simp split: if_splits)
    then show ?thesis by simp
  qed
  have "list_all2 (\<lambda>c d. to_lower_char c = to_lower_char d) a b"
    using assms(3) by (simp add: toLower_def list_all2_conv_all_nth list_eq_iff_nth_eq)
  then show ?thesis using assms(1,2)
    by (induction a b rule: list_all2_induct) (auto intro: inj)
qed

lemma status_str_upper: "list_all (\<lambda>c. \<not> is_lower c) (status_str s)"
  by (cases s) (simp_all add: is_lower_def byte_def)

lemma category_str_upper: "list_all (\<lambda>c. \<not> is_lower c) (category_str c)"
  by (cases c) (simp_all add: is_lower_def byte_def)

lemma toLower_status_inject: "toLower (status_str a) = toLower (status_str b) \<longleftrightarrow> a = b"
proof
  assume "toLower (status_str a) = toLower (status_str b)"
  then have "status_str a = status_str b" using status_str_upper by (blast intro: toLower_inject_upper)
  then show "a = b" by (cases a; cases b) simp_all
qed simp

lemma toLower_category_inject: "toLower (category_str a) = toLower (category_str b) \<longleftrightarrow> a = b"
proof
  assume "toLower (category_str a) = toLower (category_str b)"
  then have "category_str a = category_str b" using category_str_upper by (blast intro: toLower_inject_upper)
  then show "a = b" by (cases a; cases b) simp_all
qed simp

text \<open>A status is read from its text whatever the case of the letters, and from no other text;
  so is a failure category.\<close>

theorem status_text_exact:
  "(testStatusFromString t = Some s \<longleftrightarrow> toLower t = toLower (status_str s)) \<and>
   (failureCategoryFromString t = Some c \<longleftrightarrow> toLower t = toLower (category_str c))"
proof (intro conjI iffI)
  assume "testStatusFromString t = Some s"
  then show "toLower t = toLower (status_str s)"
    by (auto simp: testStatusFromString_def find_Some_iff equalsIgnoreCase_toLower)
next
  assume "toLower t = toLower (status_str s)"
  then show "testStatusFromString t = Some s"
    unfolding testStatusFromString_def
    by (intro find_unique) (simp_all add: equalsIgnoreCase_toLower toLower_status_inject)
next
  assume "failureCategoryFromString t = Some c"
  then show "toLower t = toLower (category_str c)"
    by (auto simp: failureCategoryFromString_def find_Some_iff equalsIgnoreCase_toLower)
next
  assume "toLower t = toLower (category_str c)"
  then show "failureCategoryFromString t = Some c"
    unfolding failureCategoryFromString_def
    by (intro find_unique) (simp_all add: equalsIgnoreCase_toLower toLower_category_inject)
qed

end
