(* ===== verification/Logger.thy ===== *)
theory Logger
  imports Redact Clock Json_Text Status
begin

text \<open>
  Logging (\<open>src/core/Logger.cpp\<close>): levels, records and their two renderings, the sinks, the
  capture stack of a thread, and the manager through which every record goes.

  A console or file sink is what has been written to its stream, line by line; a file that could
  not be opened is \<open>None\<close>. The manager's sinks are held by value: each is reached through
  one manager. The clock and the thread's number are arguments of \<open>log\<close>.
\<close>

section \<open>Levels and records\<close>

datatype log_level = LevelTrace | LevelDebug | LevelInfo | LevelWarn | LevelError | LevelOff

fun level_index :: "log_level \<Rightarrow> nat" where
  "level_index LevelTrace = 0"
| "level_index LevelDebug = 1"
| "level_index LevelInfo = 2"
| "level_index LevelWarn = 3"
| "level_index LevelError = 4"
| "level_index LevelOff = 5"

instantiation log_level :: linorder
begin

definition less_eq_log_level :: "log_level \<Rightarrow> log_level \<Rightarrow> bool" where
  "less_eq_log_level a b \<longleftrightarrow> level_index a \<le> level_index b"

definition less_log_level :: "log_level \<Rightarrow> log_level \<Rightarrow> bool" where
  "less_log_level a b \<longleftrightarrow> level_index a < level_index b"

instance
proof
  fix a b :: log_level
  show "a \<le> b \<Longrightarrow> b \<le> a \<Longrightarrow> a = b"
    by (cases a; cases b) (simp_all add: less_eq_log_level_def)
qed (auto simp: less_eq_log_level_def less_log_level_def)

end

fun level_str :: "log_level \<Rightarrow> string" where
  "level_str LevelTrace = ''TRACE''"
| "level_str LevelDebug = ''DEBUG''"
| "level_str LevelInfo = ''INFO''"
| "level_str LevelWarn = ''WARN''"
| "level_str LevelError = ''ERROR''"
| "level_str LevelOff = ''OFF''"

fun levelColor :: "log_level \<Rightarrow> string" where
  "levelColor LevelTrace = CHR 0x1B # ''[90m''"
| "levelColor LevelDebug = CHR 0x1B # ''[36m''"
| "levelColor LevelInfo = CHR 0x1B # ''[32m''"
| "levelColor LevelWarn = CHR 0x1B # ''[33m''"
| "levelColor LevelError = CHR 0x1B # ''[31m''"
| "levelColor LevelOff = []"

definition ansi_reset :: string where
  "ansi_reset = CHR 0x1B # ''[0m''"

definition logLevelFromString :: "string \<Rightarrow> log_level option" where
  "logLevelFromString t =
     (let upper = toUpper (trim t)
      in if upper = ''TRACE'' then Some LevelTrace
         else if upper = ''DEBUG'' then Some LevelDebug
         else if upper = ''INFO'' then Some LevelInfo
         else if upper = ''WARN'' \<or> upper = ''WARNING'' then Some LevelWarn
         else if upper = ''ERROR'' then Some LevelError
         else if upper = ''OFF'' \<or> upper = ''NONE'' then Some LevelOff
         else None)"

record log_record =
  lr_timestamp :: int
  lr_level :: log_level
  lr_component :: string
  lr_message :: string
  lr_fields :: "(string \<times> json) list"
  lr_runId :: string
  lr_test :: string
  lr_threadId :: u64

definition render_field :: "string \<times> json \<Rightarrow> string" where
  "render_field field =
     '' '' @ fst field @ ''='' @ (case snd field of JString s \<Rightarrow> s | v \<Rightarrow> json_dump v)"

definition renderHuman :: "log_record \<Rightarrow> bool \<Rightarrow> string" where
  "renderHuman r color =
     toIso8601 (lr_timestamp r) @ '' ''
     @ (if color then levelColor (lr_level r) else [])
     @ padRight (level_str (lr_level r)) 5
     @ (if color then ansi_reset else [])
     @ '' ['' @ lr_component r @ '']''
     @ (if lr_test r \<noteq> [] then '' {'' @ lr_test r @ ''}'' else [])
     @ '' '' @ lr_message r
     @ concat (map render_field (lr_fields r))"

definition log_record_json :: "log_record \<Rightarrow> json" where
  "log_record_json r = obj_of
     ([(''timestamp'', JString (toIso8601 (lr_timestamp r))), (''level'', JString (level_str (lr_level r))),
       (''component'', JString (lr_component r)), (''message'', JString (lr_message r))]
      @ (if lr_test r \<noteq> [] then [(''test'', JString (lr_test r))] else [])
      @ (if lr_runId r \<noteq> [] then [(''run_id'', JString (lr_runId r))] else [])
      @ [(''thread'', JInt (lr_threadId r))]
      @ (if lr_fields r \<noteq> [] then [(''fields'', JObject (lr_fields r))] else []))"

section \<open>Sinks\<close>

datatype log_sink =
    ConsoleSink bool bool "string list"
  | FileSink "string list option"
  | MemorySink nat "log_record list"

text \<open>\<open>MemoryLogSink::write\<close>. A sink of capacity 0 erases from an empty vector, which is undefined.\<close>

definition memory_write :: "nat \<Rightarrow> log_record list \<Rightarrow> log_record \<Rightarrow> log_record list option" where
  "memory_write capacity records r =
     (if capacity \<le> length records
      then (case records of [] \<Rightarrow> None | _ # rest \<Rightarrow> Some (rest @ [r]))
      else Some (records @ [r]))"

fun sink_write :: "log_sink \<Rightarrow> log_record \<Rightarrow> log_sink option" where
  "sink_write (ConsoleSink json color written) r =
     Some (ConsoleSink json color (written @ [c_str (if json then json_dump (log_record_json r) else renderHuman r color)]))"
| "sink_write (FileSink None) r = Some (FileSink None)"
| "sink_write (FileSink (Some written)) r = Some (FileSink (Some (written @ [c_str (json_dump (log_record_json r))])))"
| "sink_write (MemorySink capacity records) r = map_option (MemorySink capacity) (memory_write capacity records r)"

definition renderedLines :: "log_record list \<Rightarrow> string list" where
  "renderedLines records = map (\<lambda>r. renderHuman r False) records"

section \<open>Captures\<close>

text \<open>A \<open>ScopedLogCapture\<close>: its capacity and its records. The stack of a thread, innermost last.\<close>

type_synonym capture = "nat \<times> log_record list"

definition capture_push :: "log_record \<Rightarrow> capture \<Rightarrow> capture" where
  "capture_push r c = (if length (snd c) < fst c then (fst c, snd c @ [r]) else c)"

definition capture_lines :: "capture \<Rightarrow> string list" where
  "capture_lines c = renderedLines (snd c)"

section \<open>The manager and the logger\<close>

record log_manager =
  lm_sinks :: "log_sink list"
  lm_level :: log_level
  lm_runId :: string

definition level_enabled :: "log_manager \<Rightarrow> log_level \<Rightarrow> bool" where
  "level_enabled m level \<longleftrightarrow> level \<noteq> LevelOff \<and> lm_level m \<le> level"

definition setLevel :: "log_level \<Rightarrow> log_manager \<Rightarrow> log_manager" where
  "setLevel level m = m\<lparr>lm_level := level\<rparr>"

definition setRunId :: "string \<Rightarrow> log_manager \<Rightarrow> log_manager" where
  "setRunId rid m = m\<lparr>lm_runId := rid\<rparr>"

definition addSink :: "log_sink option \<Rightarrow> log_manager \<Rightarrow> log_manager" where
  "addSink sink m = (case sink of None \<Rightarrow> m | Some s \<Rightarrow> m\<lparr>lm_sinks := lm_sinks m @ [s]\<rparr>)"

definition replaceSinks :: "log_sink list \<Rightarrow> log_manager \<Rightarrow> log_sink list \<times> log_manager" where
  "replaceSinks sinks m = (lm_sinks m, m\<lparr>lm_sinks := sinks\<rparr>)"

fun write_sinks :: "log_record \<Rightarrow> log_sink list \<Rightarrow> log_sink list option" where
  "write_sinks r [] = Some []"
| "write_sinks r (s # ss) =
     (case sink_write s r of None \<Rightarrow> None | Some s' \<Rightarrow> map_option ((#) s') (write_sinks r ss))"

text \<open>\<open>submit\<close>: the record is stamped, captured by every open capture of the thread, then written.\<close>

definition submit :: "log_record \<Rightarrow> capture list \<Rightarrow> log_manager \<Rightarrow> (capture list \<times> log_manager) option" where
  "submit r captures m =
     (let stamped = (if lr_runId r = [] then r\<lparr>lr_runId := lm_runId m\<rparr> else r)
      in map_option (\<lambda>sinks. (map (capture_push stamped) captures, m\<lparr>lm_sinks := sinks\<rparr>))
           (write_sinks stamped (lm_sinks m)))"

record logger =
  lg_component :: string
  lg_test :: string

definition forTest :: "string \<Rightarrow> logger \<Rightarrow> logger" where
  "forTest name l = l\<lparr>lg_test := name\<rparr>"

definition child :: "string \<Rightarrow> logger \<Rightarrow> logger" where
  "child tail l = l\<lparr>lg_component := lg_component l @ ''.'' @ tail\<rparr>"

definition redact_field :: "string \<times> json \<Rightarrow> string \<times> json" where
  "redact_field field = (case snd field of JString s \<Rightarrow> (fst field, JString (redactSecrets s)) | _ \<Rightarrow> field)"

definition log_event :: "int \<Rightarrow> u64 \<Rightarrow> logger \<Rightarrow> log_level \<Rightarrow> string \<Rightarrow> (string \<times> json) list \<Rightarrow>
    capture list \<Rightarrow> log_manager \<Rightarrow> (capture list \<times> log_manager) option" where
  "log_event now thread l level message fs captures m =
     (if \<not> level_enabled m level then Some (captures, m)
      else submit \<lparr>lr_timestamp = now, lr_level = level, lr_component = lg_component l,
             lr_message = redactSecrets message, lr_fields = map redact_field fs, lr_runId = [],
             lr_test = lg_test l, lr_threadId = thread\<rparr> captures m)"

section \<open>What is retained\<close>

lemma capture_push_simps [simp]: "fst (capture_push r c) = fst c"
  by (simp add: capture_push_def)

lemma capture_fold: "length old \<le> n \<Longrightarrow> fold capture_push rs (n, old) = (n, take n (old @ rs))"
proof (induction rs arbitrary: old)
  case (Cons r rs)
  then show ?case by (cases "length old < n") (simp_all add: capture_push_def Suc_diff_Suc take_Cons')
qed simp

definition memory_fold :: "nat \<Rightarrow> log_record list \<Rightarrow> log_record list \<Rightarrow> log_record list option" where
  "memory_fold capacity rs old = fold (\<lambda>r acc. Option.bind acc (\<lambda>records. memory_write capacity records r)) rs (Some old)"

lemma last_n_snoc: "0 < n \<Longrightarrow> n \<le> length xs \<Longrightarrow> drop (length xs + 1 - n) (xs @ [x]) = drop (length xs + 1 - n) xs @ [x]"
  by simp

lemma memory_fold_last:
  "0 < n \<Longrightarrow> memory_fold n rs [] = Some (drop (length rs - n) rs)"
proof (induction rs rule: rev_induct)
  case (snoc r rs)
  then have IH: "memory_fold n rs [] = Some (drop (length rs - n) rs)" by simp
  show ?case
  proof (cases "n \<le> length rs")
    case True
    then have len: "length (drop (length rs - n) rs) = n" by simp
    then obtain x xs where eq: "drop (length rs - n) rs = x # xs" using snoc.prems by (cases "drop (length rs - n) rs") auto
    have "Suc (length rs) - n = Suc (length rs - n)" using True by simp
    then have "drop (Suc (length rs) - n) rs = xs" using eq by (metis drop_Suc tl_drop list.sel(3))
    with IH eq len True show ?thesis by (simp add: memory_fold_def memory_write_def)
  next
    case False
    with IH show ?thesis by (simp add: memory_fold_def memory_write_def)
  qed
qed (simp add: memory_fold_def)

text \<open>A memory sink of capacity n keeps the last n records written to it; the capture that fills the
  logs of a test keeps the first n and drops the rest.\<close>

theorem log_retention:
  assumes "0 < n"
  shows "memory_fold n rs [] = Some (drop (length rs - n) rs) \<and>
    capture_lines (fold capture_push rs (n, [])) = renderedLines (take n rs)"
  using memory_fold_last [OF assms] capture_fold [of "[]" n rs] by (simp add: capture_lines_def)

definition sample_record :: "nat \<Rightarrow> log_record" where
  "sample_record i = \<lparr>lr_timestamp = 0, lr_level = LevelInfo, lr_component = ''c'', lr_message = show_nat i, lr_fields = [],
     lr_runId = [], lr_test = [], lr_threadId = 0\<rparr>"

theorem log_retention_witness:
  "memory_fold 2 (map sample_record [1, 2, 3]) [] = Some (map sample_record [2, 3])"
  using log_retention [of 2 "map sample_record [1, 2, 3]"] by simp

end
