(* ===== verification/Test_Case.thy ===== *)
theory Test_Case
  imports Json
begin

text \<open>
  \<open>TestMetadata\<close> and the adapter that registers a function as a test
  (\<open>include/testforge/core/TestCase.hpp\<close>, \<open>src/core/TestContext.cpp\<close>,
  \<open>AutoRegistration\<close> of \<open>src/testing/TestRegistry.cpp\<close>).
\<close>

record test_metadata =
  md_name :: string
  md_suite :: string
  md_description :: string
  md_tags :: "string list"
  md_timeoutMs :: i64
  md_enabled :: bool
  md_disabledReason :: string
  md_owner :: string
  md_sourceFile :: string
  md_sourceLine :: int

definition qualifiedName :: "test_metadata \<Rightarrow> string" where
  "qualifiedName md = (if md_suite md = [] then md_name md else md_suite md @ ''.'' @ md_name md)"

definition hasTag :: "test_metadata \<Rightarrow> string \<Rightarrow> bool" where
  "hasTag md tag = list_ex (\<lambda>candidate. candidate = tag) (md_tags md)"

definition strings_json :: "string list \<Rightarrow> json" where
  "strings_json items = JArray (map JString items)"

definition metadata_json :: "test_metadata \<Rightarrow> json" where
  "metadata_json md = obj_of
     ([(''name'', JString (md_name md)), (''suite'', JString (md_suite md)),
       (''qualified_name'', JString (qualifiedName md)), (''description'', JString (md_description md)),
       (''tags'', strings_json (md_tags md)), (''timeout_ms'', JInt (md_timeoutMs md)),
       (''enabled'', JBool (md_enabled md))]
      @ (if md_disabledReason md \<noteq> [] then [(''disabled_reason'', JString (md_disabledReason md))] else [])
      @ (if md_owner md \<noteq> [] then [(''owner'', JString (md_owner md))] else [])
      @ (if md_sourceFile md \<noteq> [] then [(''source_file'', JString (md_sourceFile md)),
           (''source_line'', JInt (word_of_int (md_sourceLine md)))] else []))"

record test_options =
  opt_description :: string
  opt_tags :: "string list"
  opt_timeoutMs :: i64
  opt_enabled :: bool
  opt_disabledReason :: string
  opt_owner :: string

text \<open>The metadata \<open>AutoRegistration\<close> builds: the suite is a tag of its tests.\<close>

definition auto_metadata :: "string option \<Rightarrow> string option \<Rightarrow> string option \<Rightarrow> int \<Rightarrow> test_options \<Rightarrow> test_metadata" where
  "auto_metadata suite name file line options =
     (let md = \<lparr>md_name = case_option [] id name, md_suite = case_option [] id suite,
                md_description = opt_description options, md_tags = opt_tags options,
                md_timeoutMs = opt_timeoutMs options, md_enabled = opt_enabled options,
                md_disabledReason = opt_disabledReason options, md_owner = opt_owner options,
                md_sourceFile = case_option [] id file, md_sourceLine = line\<rparr>
      in if md_suite md \<noteq> [] \<and> \<not> hasTag md (md_suite md)
         then md\<lparr>md_tags := md_tags md @ [md_suite md]\<rparr> else md)"

lemma hasTag_iff [simp]: "hasTag md tag \<longleftrightarrow> tag \<in> set (md_tags md)"
  by (auto simp: hasTag_def list_ex_iff)

lemma auto_metadata_suite_tag: "md_suite (auto_metadata s n f l opts) \<noteq> [] \<Longrightarrow>
    hasTag (auto_metadata s n f l opts) (md_suite (auto_metadata s n f l opts))"
  by (auto simp: auto_metadata_def Let_def split: if_splits)

end
