(* ===== verification/Ordered_Map.thy ===== *)
theory Ordered_Map
  imports Prelude "HOL-Library.List_Lexorder" "HOL-Library.Char_ord"
begin

text \<open>
  \<open>std::map\<close>: entries in increasing key order, at most one per key. Strings are ordered as
  \<open>std::string\<close> orders them, by unsigned characters with a prefix first.

  The interface \<open>keyed_store\<close> is what the clients of a map use: a lookup after a store. It holds of
  the ordered map and of the insertion-ordered member list of a JSON object.
\<close>

fun omap_find :: "'k :: linorder \<Rightarrow> ('k \<times> 'v) list \<Rightarrow> 'v option" where
  "omap_find k [] = None"
| "omap_find k ((k', v) # m) = (if k = k' then Some v else omap_find k m)"

fun omap_set :: "'k :: linorder \<Rightarrow> 'v \<Rightarrow> ('k \<times> 'v) list \<Rightarrow> ('k \<times> 'v) list" where
  "omap_set k v [] = [(k, v)]"
| "omap_set k v ((k', v') # m) =
     (if k < k' then (k, v) # (k', v') # m else if k = k' then (k, v) # m else (k', v') # omap_set k v m)"

definition omap_ok :: "('k :: linorder \<times> 'v) list \<Rightarrow> bool" where
  "omap_ok m \<longleftrightarrow> sorted_wrt (<) (map fst m)"

lemma omap_find_map_of: "omap_find k m = map_of m k"
  by (induction m) auto

lemma omap_find_set [simp]: "omap_ok m \<Longrightarrow> omap_find k (omap_set k' v m) = (if k = k' then Some v else omap_find k m)"
  by (induction k' v m rule: omap_set.induct) (auto simp: omap_ok_def)

lemma keys_omap_set [simp]: "fst ` set (omap_set k v m) = insert k (fst ` set m)"
  by (induction k v m rule: omap_set.induct) auto

lemma omap_set_member: "x \<in> set (omap_set k v m) \<Longrightarrow> x = (k, v) \<or> x \<in> set m"
  by (induction k v m rule: omap_set.induct) (auto split: if_splits)

lemma omap_ok_set [intro]: "omap_ok m \<Longrightarrow> omap_ok (omap_set k v m)"
proof (induction k v m rule: omap_set.induct)
  case (2 k v k' v' m)
  then have "\<forall>x \<in> fst ` set (omap_set k v m). k' < x" if "k' < k"
    using that by (auto simp: omap_ok_def)
  with 2 show ?case by (fastforce simp: omap_ok_def image_iff)
qed (simp add: omap_ok_def)

lemma omap_ok_filter [intro]: "omap_ok m \<Longrightarrow> omap_ok (filter P m)"
  by (simp add: omap_ok_def sorted_wrt_map sorted_wrt_filter)

lemma omap_ok_Nil [simp, intro]: "omap_ok []"
  by (simp add: omap_ok_def)

lemma omap_ok_distinct: "omap_ok m \<Longrightarrow> distinct (map fst m)"
  by (simp add: omap_ok_def strict_sorted_iff)

lemma omap_ok_sorted: "omap_ok m \<Longrightarrow> sorted (map fst m)"
  by (simp add: omap_ok_def strict_sorted_iff)

lemma omap_find_filter: "omap_ok m \<Longrightarrow> omap_find k (filter P m) = (case omap_find k m of Some v \<Rightarrow> if P (k, v) then Some v else None | None \<Rightarrow> None)"
proof (induction m)
  case (Cons x m)
  obtain k' v where x: "x = (k', v)" by fastforce
  have "omap_ok m" "k' \<notin> fst ` set m" using Cons.prems x by (auto simp: omap_ok_def)
  then have "omap_find k' (filter P m) = None" by (auto simp: omap_find_map_of map_of_eq_None_iff)
  with Cons.IH \<open>omap_ok m\<close> show ?case by (simp add: x)
qed simp

lemma omap_set_fresh: "k \<notin> fst ` set m \<Longrightarrow> mset (omap_set k v m) = add_mset (k, v) (mset m)"
  by (induction k v m rule: omap_set.induct) auto

section \<open>The interface of a keyed store\<close>

locale keyed_store =
  fixes lookup :: "'k \<Rightarrow> 'm \<Rightarrow> 'v option"
    and store :: "'k \<Rightarrow> 'v \<Rightarrow> 'm \<Rightarrow> 'm"
    and valid :: "'m \<Rightarrow> bool"
  assumes lookup_store: "valid m \<Longrightarrow> lookup k (store k' v m) = (if k = k' then Some v else lookup k m)"
    and valid_store: "valid m \<Longrightarrow> valid (store k v m)"
begin

lemma lookup_same: "valid m \<Longrightarrow> lookup k (store k v m) = Some v"
  by (simp add: lookup_store)

lemma lookup_other: "valid m \<Longrightarrow> k \<noteq> k' \<Longrightarrow> lookup k (store k' v m) = lookup k m"
  by (simp add: lookup_store)

lemma store_all:
  "valid m \<Longrightarrow> valid (fold (\<lambda>(k, v). store k v) kvs m) \<and>
    lookup k (fold (\<lambda>(k, v). store k v) kvs m) = (case map_of (rev kvs) k of Some v \<Rightarrow> Some v | None \<Rightarrow> lookup k m)"
proof (induction kvs arbitrary: m)
  case (Cons kv kvs)
  obtain a b where "kv = (a, b)" by fastforce
  with Cons show ?case
    by (simp add: valid_store lookup_store map_add_def map_of_append split: option.split)
qed simp

end

interpretation ordered: keyed_store omap_find omap_set omap_ok
  by unfold_locales auto

interpretation members: keyed_store alist_find alist_set "\<lambda>_. True"
  by unfold_locales simp_all

end
