(* ===== verification/Core_Types.thy ===== *)
theory Core_Types
  imports Status
begin

text \<open>
  Version, source locations and the exception hierarchy (\<open>src/core/CoreTypes.cpp\<close>,
  \<open>include/testforge/core/Exceptions.hpp\<close>). A C string pointer that may be null is an \<open>option\<close>.

  An exception is one of the types the code tells apart: a skip, a cancellation, an assertion
  failure, another \<open>TestForgeError\<close> with its category, or a standard exception, of which the code
  sees the text, the name of the type and whether it is a \<open>std::bad_alloc\<close>.
\<close>

definition version_string :: string where
  "version_string = show_nat 0 @ ''.'' @ show_nat 9 @ ''.'' @ show_nat 0"

record source_location =
  sl_file :: "string option"
  sl_line :: nat
  sl_function :: "string option"

definition location_valid :: "source_location \<Rightarrow> bool" where
  "location_valid l \<longleftrightarrow> sl_line l \<noteq> 0"

text \<open>\<open>find_last_of\<close> either separator: what follows the last of them.\<close>

definition is_separator :: "char \<Rightarrow> bool" where
  "is_separator c \<longleftrightarrow> c = CHR ''/'' \<or> c = CHR 0x5C"

definition basename :: "string option \<Rightarrow> string" where
  "basename path = (case path of None \<Rightarrow> [] | Some t \<Rightarrow> rev (takeWhile (\<lambda>c. \<not> is_separator c) (rev t)))"

definition location_brief :: "source_location \<Rightarrow> string" where
  "location_brief l =
     (if \<not> location_valid l then ''<unknown>'' else basename (sl_file l) @ '':'' @ show_nat (sl_line l))"

definition location_full :: "source_location \<Rightarrow> string" where
  "location_full l =
     (if \<not> location_valid l then ''<unknown>''
      else basename (sl_file l) @ '':'' @ show_nat (sl_line l) @
        (case sl_function l of
           Some f \<Rightarrow> if f \<noteq> [] then '' in '' @ f @ ''()'' else []
         | None \<Rightarrow> []))"

datatype test_exception =
    SkipTest string
  | TestCancelled string
  | AssertionError string string string string source_location
  | ForgeError failure_category string
  | StdException string string bool

fun exception_what :: "test_exception \<Rightarrow> string" where
  "exception_what (SkipTest reason) = reason"
| "exception_what (TestCancelled reason) = reason"
| "exception_what (AssertionError message _ _ _ _) = message"
| "exception_what (ForgeError _ message) = message"
| "exception_what (StdException message _ _) = message"

text \<open>The named subclasses differ in their category only.\<close>

definition ConfigurationError :: "string \<Rightarrow> test_exception" where
  "ConfigurationError message = ForgeError ConfigurationFailure message"

definition EnvironmentError :: "string \<Rightarrow> test_exception" where
  "EnvironmentError message = ForgeError EnvironmentFailure message"

definition DependencyError :: "string \<Rightarrow> test_exception" where
  "DependencyError message = ForgeError DependencyFailure message"

definition NetworkError :: "string \<Rightarrow> test_exception" where
  "NetworkError message = ForgeError NetworkFailure message"

definition ResourceError :: "string \<Rightarrow> test_exception" where
  "ResourceError message = ForgeError ResourceFailure message"

definition PersistenceError :: "string \<Rightarrow> test_exception" where
  "PersistenceError message = ForgeError FrameworkFailure message"

definition SecurityError :: "string \<Rightarrow> test_exception" where
  "SecurityError message = ForgeError ConfigurationFailure message"

definition FrameworkException :: "string \<Rightarrow> test_exception" where
  "FrameworkException message = ForgeError FrameworkFailure message"

definition assertion_detail :: "string \<Rightarrow> string \<Rightarrow> string \<Rightarrow> string \<Rightarrow> source_location \<Rightarrow> string" where
  "assertion_detail message expression expected actual location =
     message
     @ (if expression \<noteq> [] then CHR 0x0A # ''  Expression: '' @ expression else [])
     @ (if expected \<noteq> [] \<or> actual \<noteq> [] then
          CHR 0x0A # ''  Expected:   '' @ expected @ CHR 0x0A # ''  Actual:     '' @ actual else [])
     @ (if location_valid location then CHR 0x0A # ''  At:         '' @ location_full location else [])"

lemma basename_no_separator: "\<not> list_ex is_separator (basename path)"
  by (cases path) (auto simp: basename_def list_ex_iff dest: set_takeWhileD)

end
