(* ===== verification/Registry.thy ===== *)
theory Registry
  imports Test_Case Ordered_Map Core_Types
begin

text \<open>
  \<open>TestRegistry\<close> (\<open>src/testing/TestRegistry.cpp\<close>): a \<open>std::map\<close> from qualified name to metadata and
  factory. Each operation holds the registry's mutex from its first to its last access, so it is
  one step on the map. \<open>create\<close> copies the factory and calls it outside the lock; a factory may be
  empty (\<open>None\<close>), and what it makes is the caller's.

  A factory is foreign code: it makes a test, or a null pointer, or leaves with an exception, which
  is no \<open>std::exception\<close> where \<open>FactoryThrew\<close> has none.
\<close>

datatype 'c made = Made "'c option" | FactoryThrew "test_exception option"

type_synonym 'c factory = "(unit \<Rightarrow> 'c made) option"

record 'c registry_entry =
  re_metadata :: test_metadata
  re_factory :: "'c factory"

type_synonym 'c registry = "(string \<times> 'c registry_entry) list"

text \<open>A \<open>FrameworkError\<close> and its message.\<close>

datatype framework_error = FrameworkError string

definition registerTest :: "'c registry \<Rightarrow> test_metadata \<Rightarrow> 'c factory \<Rightarrow> framework_error + 'c registry" where
  "registerTest reg md f =
     (let key = qualifiedName md
      in if omap_find key reg \<noteq> None
         then Inl (FrameworkError (''duplicate test registration: '' @ key @ '' (a test with this suite and name already exists)''))
         else Inr (omap_set key \<lparr>re_metadata = md, re_factory = f\<rparr> reg))"

definition registerOrReplace :: "'c registry \<Rightarrow> test_metadata \<Rightarrow> 'c factory \<Rightarrow> 'c registry" where
  "registerOrReplace reg md f = omap_set (qualifiedName md) \<lparr>re_metadata = md, re_factory = f\<rparr> reg"

text \<open>The loop over the entries: those of the suite are erased and counted.\<close>

fun remove_loop :: "string \<Rightarrow> 'c registry \<Rightarrow> nat \<Rightarrow> 'c registry \<times> nat" where
  "remove_loop suite [] removed = ([], removed)"
| "remove_loop suite ((k, e) # reg) removed =
     (if md_suite (re_metadata e) = suite then remove_loop suite reg (removed + 1)
      else case remove_loop suite reg removed of (reg', n) \<Rightarrow> ((k, e) # reg', n))"

definition removeSuite :: "'c registry \<Rightarrow> string \<Rightarrow> 'c registry \<times> nat" where
  "removeSuite reg suite = remove_loop suite reg 0"

definition registry_contains :: "'c registry \<Rightarrow> string \<Rightarrow> bool" where
  "registry_contains reg q \<longleftrightarrow> omap_find q reg \<noteq> None"

definition registry_find :: "'c registry \<Rightarrow> string \<Rightarrow> test_metadata option" where
  "registry_find reg q = map_option re_metadata (omap_find q reg)"

definition registry_create :: "'c registry \<Rightarrow> string \<Rightarrow> 'c made" where
  "registry_create reg q =
     (case omap_find q reg of
        None \<Rightarrow> Made None
      | Some e \<Rightarrow> (case re_factory e of Some f \<Rightarrow> f () | None \<Rightarrow> Made None))"

definition registry_all :: "'c registry \<Rightarrow> test_metadata list" where
  "registry_all reg = map (\<lambda>(k, e). re_metadata e) reg"

text \<open>A \<open>std::set\<close> of strings, listed in order.\<close>

definition string_set :: "string list \<Rightarrow> string list" where
  "string_set xs = sort (remdups xs)"

definition registry_suites :: "'c registry \<Rightarrow> string list" where
  "registry_suites reg = string_set (map (\<lambda>(k, e). md_suite (re_metadata e)) reg)"

definition registry_tags :: "'c registry \<Rightarrow> string list" where
  "registry_tags reg = string_set (concat (map (\<lambda>(k, e). md_tags (re_metadata e)) reg))"

definition registry_size :: "'c registry \<Rightarrow> nat" where
  "registry_size reg = length reg"

definition registry_clear :: "'c registry \<Rightarrow> 'c registry" where
  "registry_clear reg = []"

section \<open>The invariant\<close>

text \<open>Keys in order and each entry under the qualified name of its metadata.\<close>

definition registry_ok :: "'c registry \<Rightarrow> bool" where
  "registry_ok reg \<longleftrightarrow> omap_ok reg \<and> (\<forall>(k, e) \<in> set reg. k = qualifiedName (re_metadata e))"

lemma remove_loop_eq:
  "remove_loop suite reg n =
     (filter (\<lambda>(k, e). md_suite (re_metadata e) \<noteq> suite) reg,
      n + length (filter (\<lambda>(k, e). md_suite (re_metadata e) = suite) reg))"
  by (induction suite reg n rule: remove_loop.induct) auto

lemma registry_ok_set: "registry_ok reg \<Longrightarrow> registry_ok (omap_set (qualifiedName md) \<lparr>re_metadata = md, re_factory = f\<rparr> reg)"
  by (auto simp: registry_ok_def dest!: omap_set_member)

lemma registry_ok_register: "registry_ok reg \<Longrightarrow> registerTest reg md f = Inr reg' \<Longrightarrow> registry_ok reg'"
  by (auto simp: registerTest_def Let_def registry_ok_set split: if_splits)

lemma registry_ok_replace: "registry_ok reg \<Longrightarrow> registry_ok (registerOrReplace reg md f)"
  by (simp add: registerOrReplace_def registry_ok_set)

lemma registry_ok_remove: "registry_ok reg \<Longrightarrow> registry_ok (fst (removeSuite reg suite))"
  by (auto simp: registry_ok_def removeSuite_def remove_loop_eq)

lemma registry_all_names: "registry_ok reg \<Longrightarrow> map qualifiedName (registry_all reg) = map fst reg"
  by (auto simp: registry_ok_def registry_all_def)

lemma registry_find_iff:
  "registry_ok reg \<Longrightarrow> registry_find reg q = Some md \<longleftrightarrow> md \<in> set (registry_all reg) \<and> qualifiedName md = q"
  using omap_ok_distinct [of reg]
  by (force simp: registry_ok_def registry_find_def registry_all_def omap_find_map_of dest: map_of_SomeD intro: map_of_is_SomeI)

text \<open>A registry of two tests.\<close>

definition sample_metadata :: "string \<Rightarrow> string \<Rightarrow> test_metadata" where
  "sample_metadata suite name = auto_metadata (Some suite) (Some name) None 1
     \<lparr>opt_description = [], opt_tags = [], opt_timeoutMs = 0, opt_enabled = True, opt_disabledReason = [], opt_owner = []\<rparr>"

definition sample_registry :: "unit registry" where
  "sample_registry = registerOrReplace (registerOrReplace [] (sample_metadata ''gpu'' ''t'') None) (sample_metadata ''api'' ''h'') None"

lemma sample_registry_ok: "registry_ok sample_registry"
  by (auto simp: sample_registry_def registry_ok_def [of "[]"] intro!: registry_ok_replace)

section \<open>Properties\<close>

text \<open>Registering a name that is taken is refused; otherwise the test, and only it, becomes
  visible under its qualified name, and the registry's invariant is kept.\<close>

theorem registerTest_exact:
  assumes "registry_ok reg"
  shows "case registerTest reg md f of
      Inl e \<Rightarrow> registry_contains reg (qualifiedName md)
    | Inr reg' \<Rightarrow> \<not> registry_contains reg (qualifiedName md) \<and> registry_ok reg' \<and>
        registry_size reg' = registry_size reg + 1 \<and>
        (\<forall>q. registry_find reg' q = (if q = qualifiedName md then Some md else registry_find reg q))"
proof (cases "registry_contains reg (qualifiedName md)")
  case True
  then show ?thesis by (simp add: registerTest_def registry_contains_def)
next
  case False
  let ?reg' = "omap_set (qualifiedName md) \<lparr>re_metadata = md, re_factory = f\<rparr> reg"
  have r: "registerTest reg md f = Inr ?reg'" using False by (simp add: registerTest_def registry_contains_def)
  have ok: "omap_ok reg" using assms by (simp add: registry_ok_def)
  have "qualifiedName md \<notin> fst ` set reg"
    using False by (simp add: registry_contains_def omap_find_map_of map_of_eq_None_iff)
  then have "size (mset ?reg') = size (mset reg) + 1" by (simp add: omap_set_fresh)
  then show ?thesis
    using False registry_ok_set [OF assms] ordered.lookup_store [OF ok]
    by (simp add: r registry_size_def registry_find_def)
qed

theorem registerTest_exact_witness:
  "case registerTest sample_registry (sample_metadata ''api'' ''new'') None of
      Inl e \<Rightarrow> registry_contains sample_registry (qualifiedName (sample_metadata ''api'' ''new''))
    | Inr reg' \<Rightarrow> \<not> registry_contains sample_registry (qualifiedName (sample_metadata ''api'' ''new'')) \<and> registry_ok reg' \<and>
        registry_size reg' = registry_size sample_registry + 1 \<and>
        (\<forall>q. registry_find reg' q =
          (if q = qualifiedName (sample_metadata ''api'' ''new'') then Some (sample_metadata ''api'' ''new'')
           else registry_find sample_registry q))"
  by (rule registerTest_exact [OF sample_registry_ok])

text \<open>Listing is in strictly increasing order of the qualified names, and removing a suite
  removes its tests and nothing else.\<close>

theorem registry_listing:
  assumes "registry_ok reg"
  shows "sorted_wrt (<) (map qualifiedName (registry_all reg)) \<and>
    registry_ok (fst (removeSuite reg suite)) \<and>
    registry_all (fst (removeSuite reg suite)) = filter (\<lambda>md. md_suite md \<noteq> suite) (registry_all reg) \<and>
    registry_size (fst (removeSuite reg suite)) + snd (removeSuite reg suite) = registry_size reg"
proof (intro conjI)
  show "sorted_wrt (<) (map qualifiedName (registry_all reg))"
    using assms by (simp add: registry_all_names registry_ok_def omap_ok_def)
  show "registry_ok (fst (removeSuite reg suite))" using assms by (rule registry_ok_remove)
  show "registry_all (fst (removeSuite reg suite)) = filter (\<lambda>md. md_suite md \<noteq> suite) (registry_all reg)"
    by (simp add: registry_all_def removeSuite_def remove_loop_eq filter_map comp_def case_prod_unfold)
  show "registry_size (fst (removeSuite reg suite)) + snd (removeSuite reg suite) = registry_size reg"
    using sum_length_filter_compl [of "\<lambda>(k, e). md_suite (re_metadata e) = suite" reg]
    by (simp add: registry_size_def removeSuite_def remove_loop_eq case_prod_unfold add.commute)
qed

theorem registry_listing_witness:
  "sorted_wrt (<) (map qualifiedName (registry_all sample_registry)) \<and>
    registry_ok (fst (removeSuite sample_registry ''gpu'')) \<and>
    registry_all (fst (removeSuite sample_registry ''gpu'')) = filter (\<lambda>md. md_suite md \<noteq> ''gpu'') (registry_all sample_registry) \<and>
    registry_size (fst (removeSuite sample_registry ''gpu'')) + snd (removeSuite sample_registry ''gpu'') = registry_size sample_registry"
  by (rule registry_listing [OF sample_registry_ok])

end
