(* ===== verification/Ids.thy ===== *)
theory Ids
  imports String_Utils
begin

text \<open>
  Identifiers (\<open>src/core/Ids.cpp\<close>): the 64-bit hash \<open>fnv1a64\<close> with its wrap-around multiplication,
  the stable test id, and the random hexadecimal id, whose digits come from the caller's
  generator and are a parameter here.
\<close>

unbundle bit_operations_syntax

definition fnv_offset :: u64 where
  "fnv_offset = 1469598103934665603"

definition fnv_prime :: u64 where
  "fnv_prime = 1099511628211"

definition fnv_step :: "u64 \<Rightarrow> char \<Rightarrow> u64" where
  "fnv_step hash c = (hash XOR word_of_nat (byte c)) * fnv_prime"

definition fnv1a64 :: "string \<Rightarrow> u64" where
  "fnv1a64 t = foldl fnv_step fnv_offset t"

text \<open>Digit \<open>i\<close> of the buffer is nibble \<open>15 - i\<close> of the hash, the lowest nibble last.\<close>

definition hex64 :: "u64 \<Rightarrow> string" where
  "hex64 h = map (\<lambda>i. hex_digit (unat (drop_bit (4 * (15 - i)) h AND 15))) [0..<16]"

definition testId :: "string \<Rightarrow> string \<Rightarrow> string" where
  "testId suite name = hex64 (fnv1a64 (suite @ CHR ''.'' # name))"

text \<open>\<open>dist\<close> is the stream of digits drawn from the engine.\<close>

definition generateHexId :: "(nat \<Rightarrow> nat) \<Rightarrow> nat \<Rightarrow> string" where
  "generateHexId dist bytes = map (\<lambda>i. hex_digit (dist i)) [0..<bytes * 2]"

section \<open>The hash step is a permutation of the 64-bit words\<close>

lemma fnv_prime_inverse: "fnv_prime * 0xCE965057AFF6957B = 1"
  by (simp add: fnv_prime_def)

lemma fnv_mult_inject: "a * fnv_prime = b * fnv_prime \<longleftrightarrow> a = b"
proof
  assume "a * fnv_prime = b * fnv_prime"
  then have "a * fnv_prime * 0xCE965057AFF6957B = b * fnv_prime * 0xCE965057AFF6957B" by simp
  then show "a = b" by (simp only: mult.assoc fnv_prime_inverse mult_1_right)
qed simp

lemma xor_word_cancel: "(a :: 'a :: len word) XOR x = b XOR x \<longleftrightarrow> a = b"
  by (metis xor.assoc xor_self_eq xor.right_neutral)

lemma byte_word_inject: "(word_of_nat (byte c) :: u64) = word_of_nat (byte d) \<longleftrightarrow> c = d"
proof
  assume "(word_of_nat (byte c) :: u64) = word_of_nat (byte d)"
  then have "unat (word_of_nat (byte c) :: u64) = unat (word_of_nat (byte d) :: u64)" by simp
  moreover have "byte c < 2 ^ 64" "byte d < 2 ^ 64"
    using order.strict_trans [OF byte_less_256, of "2 ^ 64"] by simp_all
  ultimately show "c = d" by (simp add: unat_of_nat)
qed simp

lemma fnv_step_inject: "fnv_step h c = fnv_step h' c \<longleftrightarrow> h = h'"
  by (simp add: fnv_step_def fnv_mult_inject xor_word_cancel)

lemma fnv_step_char_inject: "fnv_step h c = fnv_step h d \<longleftrightarrow> c = d"
  by (metis byte_word_inject fnv_mult_inject fnv_step_def xor.commute xor_word_cancel)

lemma fnv_fold_inject: "foldl fnv_step h s = foldl fnv_step h' s \<longleftrightarrow> h = h'"
  by (induction s arbitrary: h h') (simp_all add: fnv_step_inject)

section \<open>Hexadecimal text\<close>

lemma hex_digit_inject:
  assumes "a < 16" "b < 16" "hex_digit a = hex_digit b"
  shows "a = b"
proof -
  have "distinct (map hex_digit [0..<16])" by code_simp
  then have "inj_on hex_digit {0..<16}" by (simp add: distinct_map)
  with assms show ?thesis by (auto dest: inj_onD)
qed

lemma nibble_bit: "n < 4 \<Longrightarrow> bit (drop_bit (4 * k) (h :: u64) AND 15) n \<longleftrightarrow> bit h (4 * k + n)"
proof -
  assume n: "n < 4"
  have m: "(15 :: u64) = mask 4" by (simp add: mask_eq_exp_minus_1)
  show ?thesis unfolding m using n by (simp add: bit_and_iff bit_drop_bit_eq bit_mask_iff)
qed

lemma hex64_inject: "hex64 a = hex64 b \<longleftrightarrow> a = b"
proof
  assume eq: "hex64 a = hex64 b"
  have nib: "drop_bit (4 * k) a AND 15 = drop_bit (4 * k) b AND 15" if "k < 16" for k
  proof -
    have "hex64 a ! (15 - k) = hex64 b ! (15 - k)" by (simp add: eq)
    then have "hex_digit (unat (drop_bit (4 * k) a AND 15)) = hex_digit (unat (drop_bit (4 * k) b AND 15))"
      using that nth_upt [of 0 "15 - k" 16] by (simp add: hex64_def)
    moreover have "unat (x AND 15 :: u64) < 16" for x
      using word_and_le1 [of x 15] by (simp add: word_le_nat_alt)
    ultimately show ?thesis by (metis hex_digit_inject unsigned_word_eqI)
  qed
  show "a = b"
  proof (rule bit_word_eqI)
    fix n
    assume "n < LENGTH(64)"
    then have "n div 4 < 16" "n mod 4 < 4" by simp_all
    then show "bit a n \<longleftrightarrow> bit b n"
      using nibble_bit [of "n mod 4" "n div 4" a] nibble_bit [of "n mod 4" "n div 4" b] nib [of "n div 4"] by simp
  qed
qed simp

text \<open>A test id is sixteen hexadecimal digits that stand for the hash of the qualified name and
  nothing else, and two names that differ in one character only have different ids.\<close>

theorem testId_identifies:
  "length (testId s n) = 16 \<and>
   (testId s n = testId s' n' \<longleftrightarrow> fnv1a64 (s @ CHR ''.'' # n) = fnv1a64 (s' @ CHR ''.'' # n')) \<and>
   (testId s (p @ c # r) = testId s (p @ d # r) \<longleftrightarrow> c = d)"
proof (intro conjI)
  show "length (testId s n) = 16" by (simp add: testId_def hex64_def)
  show "testId s n = testId s' n' \<longleftrightarrow> fnv1a64 (s @ CHR ''.'' # n) = fnv1a64 (s' @ CHR ''.'' # n')"
    by (simp only: testId_def hex64_inject)
  show "testId s (p @ c # r) = testId s (p @ d # r) \<longleftrightarrow> c = d"
    by (simp add: testId_def hex64_inject fnv1a64_def fnv_fold_inject fnv_step_char_inject)
qed

end
