(* ===== verification/Selector.thy ===== *)
theory Selector
  imports Registry Glob Ids "HOL-Library.Multiset"
begin

text \<open>
  \<open>TestFilter\<close> and \<open>TestSelector\<close> (\<open>src/testing/TestSelector.cpp\<close>): which tests a filter takes, their
  order, sharding by a hash of the name, and the seeded shuffle.

  \<open>std::shuffle\<close> over \<open>std::mt19937_64\<close> is implementation-defined: it is a parameter, known only to
  permute. \<open>std::sort\<close> is modelled by the stable sort; the two agree on tests of distinct names, as
  a registry lists them.
\<close>

record test_filter =
  tf_suites :: "string list"
  tf_names :: "string list"
  tf_tags :: "string list"
  tf_excludeTags :: "string list"
  tf_excludeSuites :: "string list"
  tf_includeDisabled :: bool

definition matchesAnyGlob :: "string list \<Rightarrow> string \<Rightarrow> bool" where
  "matchesAnyGlob patterns t = list_ex (\<lambda>pattern. globMatch pattern t) patterns"

definition filter_empty :: "test_filter \<Rightarrow> bool" where
  "filter_empty f \<longleftrightarrow> tf_suites f = [] \<and> tf_names f = [] \<and> tf_tags f = [] \<and> tf_excludeTags f = [] \<and> tf_excludeSuites f = []"

definition filter_matches :: "test_filter \<Rightarrow> test_metadata \<Rightarrow> bool" where
  "filter_matches f md =
     (if \<not> md_enabled md \<and> \<not> tf_includeDisabled f then False
      else if tf_suites f \<noteq> [] \<and> \<not> matchesAnyGlob (tf_suites f) (md_suite md) then False
      else if tf_excludeSuites f \<noteq> [] \<and> matchesAnyGlob (tf_excludeSuites f) (md_suite md) then False
      else if tf_names f \<noteq> [] \<and> \<not> matchesAnyGlob (tf_names f) (qualifiedName md) \<and> \<not> matchesAnyGlob (tf_names f) (md_name md)
        then False
      else if tf_tags f \<noteq> [] \<and> \<not> list_ex (matchesAnyGlob (tf_tags f)) (md_tags md) then False
      else if tf_excludeTags f \<noteq> [] \<and> list_ex (matchesAnyGlob (tf_excludeTags f)) (md_tags md) then False
      else True)"

fun appendFilterPart :: "string \<Rightarrow> string \<Rightarrow> string list \<Rightarrow> string" where
  "appendFilterPart os flag [] = os"
| "appendFilterPart os flag (v # vs) =
     appendFilterPart ((if os \<noteq> [] then os @ '' '' else os) @ flag @ '' '' @ v) flag vs"

definition describe :: "test_filter \<Rightarrow> string" where
  "describe f =
     (let os = appendFilterPart [] ''--suite'' (tf_suites f);
          os = appendFilterPart os ''--test'' (tf_names f);
          os = appendFilterPart os ''--tag'' (tf_tags f);
          os = appendFilterPart os ''--exclude-tag'' (tf_excludeTags f);
          os = appendFilterPart os ''--exclude-suite'' (tf_excludeSuites f);
          os = (if tf_includeDisabled f then (if os \<noteq> [] then os @ '' '' else os) @ ''--include-disabled'' else os)
      in if os = [] then ''<all tests>'' else os)"

record selection_options =
  so_shuffle :: bool
  so_seed :: u64
  so_shardCount :: int
  so_shardIndex :: int

definition resolveSeed :: "u64 \<Rightarrow> u64 \<Rightarrow> u64" where
  "resolveSeed requested now = (if requested \<noteq> 0 then requested else now)"

definition in_shard :: "u64 \<Rightarrow> u64 \<Rightarrow> test_metadata \<Rightarrow> bool" where
  "in_shard shardCount shardIndex md \<longleftrightarrow> fnv1a64 (qualifiedName md) mod shardCount = shardIndex mod shardCount"

definition select :: "(u64 \<Rightarrow> test_metadata list \<Rightarrow> test_metadata list) \<Rightarrow> u64 \<Rightarrow> test_metadata list \<Rightarrow>
    test_filter \<Rightarrow> selection_options \<Rightarrow> test_metadata list" where
  "select shuffle now candidates f options =
     (let selected = sort_key qualifiedName (filter (filter_matches f) candidates);
          sharded = (if 1 < so_shardCount options
             then filter (in_shard (word_of_int (so_shardCount options)) (word_of_int (max 0 (so_shardIndex options)))) selected
             else selected)
      in if so_shuffle options then shuffle (resolveSeed (so_seed options) now) sharded else sharded)"

definition select_registry :: "(u64 \<Rightarrow> test_metadata list \<Rightarrow> test_metadata list) \<Rightarrow> u64 \<Rightarrow> 'c registry \<Rightarrow>
    test_filter \<Rightarrow> selection_options \<Rightarrow> test_metadata list" where
  "select_registry shuffle now reg f options = select shuffle now (registry_all reg) f options"

section \<open>Filters\<close>

definition all_filter :: test_filter where
  "all_filter = \<lparr>tf_suites = [], tf_names = [], tf_tags = [], tf_excludeTags = [], tf_excludeSuites = [], tf_includeDisabled = False\<rparr>"

text \<open>What one non-empty field asks of a test.\<close>

definition asks :: "string list \<Rightarrow> bool \<Rightarrow> bool" where
  "asks field b \<longleftrightarrow> field = [] \<or> b"

lemma filter_matches_conj:
  "filter_matches f md \<longleftrightarrow>
     (md_enabled md \<or> tf_includeDisabled f) \<and>
     asks (tf_suites f) (matchesAnyGlob (tf_suites f) (md_suite md)) \<and>
     \<not> matchesAnyGlob (tf_excludeSuites f) (md_suite md) \<and>
     asks (tf_names f) (matchesAnyGlob (tf_names f) (qualifiedName md) \<or> matchesAnyGlob (tf_names f) (md_name md)) \<and>
     asks (tf_tags f) (list_ex (matchesAnyGlob (tf_tags f)) (md_tags md)) \<and>
     \<not> list_ex (matchesAnyGlob (tf_excludeTags f)) (md_tags md)"
  by (auto simp: filter_matches_def asks_def matchesAnyGlob_def list_ex_iff)

text \<open>A filter field only ever narrows: the fields combine by conjunction, an excluding pattern
  removes, and a disabled test is taken only on request.\<close>

theorem filter_narrows:
  "filter_matches (f\<lparr>tf_excludeTags := p # tf_excludeTags f\<rparr>) md =
     (filter_matches f md \<and> \<not> list_ex (globMatch p) (md_tags md)) \<and>
   filter_matches (f\<lparr>tf_excludeSuites := p # tf_excludeSuites f\<rparr>) md =
     (filter_matches f md \<and> \<not> globMatch p (md_suite md)) \<and>
   filter_matches f md =
     (filter_matches (f\<lparr>tf_suites := []\<rparr>) md \<and> filter_matches (f\<lparr>tf_names := []\<rparr>) md \<and> filter_matches (f\<lparr>tf_tags := []\<rparr>) md
      \<and> asks (tf_suites f) (matchesAnyGlob (tf_suites f) (md_suite md))
      \<and> asks (tf_names f) (matchesAnyGlob (tf_names f) (qualifiedName md) \<or> matchesAnyGlob (tf_names f) (md_name md))
      \<and> asks (tf_tags f) (list_ex (matchesAnyGlob (tf_tags f)) (md_tags md))) \<and>
   filter_matches all_filter md = md_enabled md"
proof (intro conjI)
  have tags: "list_ex (matchesAnyGlob (p # ps)) ts \<longleftrightarrow> list_ex (globMatch p) ts \<or> list_ex (matchesAnyGlob ps) ts" for ps ts
    by (induction ts) (auto simp: matchesAnyGlob_def)
  have suite: "matchesAnyGlob (p # ps) t \<longleftrightarrow> globMatch p t \<or> matchesAnyGlob ps t" for ps t
    by (simp add: matchesAnyGlob_def)
  show "filter_matches (f\<lparr>tf_excludeTags := p # tf_excludeTags f\<rparr>) md = (filter_matches f md \<and> \<not> list_ex (globMatch p) (md_tags md))"
    by (simp add: filter_matches_conj tags) blast
  show "filter_matches (f\<lparr>tf_excludeSuites := p # tf_excludeSuites f\<rparr>) md = (filter_matches f md \<and> \<not> globMatch p (md_suite md))"
    by (simp add: filter_matches_conj suite) blast
  show "filter_matches f md =
     (filter_matches (f\<lparr>tf_suites := []\<rparr>) md \<and> filter_matches (f\<lparr>tf_names := []\<rparr>) md \<and> filter_matches (f\<lparr>tf_tags := []\<rparr>) md
      \<and> asks (tf_suites f) (matchesAnyGlob (tf_suites f) (md_suite md))
      \<and> asks (tf_names f) (matchesAnyGlob (tf_names f) (qualifiedName md) \<or> matchesAnyGlob (tf_names f) (md_name md))
      \<and> asks (tf_tags f) (list_ex (matchesAnyGlob (tf_tags f)) (md_tags md)))"
    by (simp add: filter_matches_conj asks_def) blast
  show "filter_matches all_filter md = md_enabled md"
    by (induction "md_tags md") (simp_all add: filter_matches_conj asks_def all_filter_def matchesAnyGlob_def list_ex_iff)
qed

section \<open>Selection\<close>

definition permutes :: "(u64 \<Rightarrow> 'a list \<Rightarrow> 'a list) \<Rightarrow> bool" where
  "permutes shuffle \<longleftrightarrow> (\<forall>seed xs. mset (shuffle seed xs) = mset xs)"

lemma mset_select:
  assumes "permutes shuffle"
  shows "mset (select shuffle now cands f options) =
    filter_mset (\<lambda>md. filter_matches f md \<and>
       (1 < so_shardCount options \<longrightarrow>
         in_shard (word_of_int (so_shardCount options)) (word_of_int (max 0 (so_shardIndex options))) md)) (mset cands)"
  using assms by (auto simp: select_def permutes_def Let_def filter_filter_mset conj_commute intro: filter_mset_cong)

lemma select_sorted:
  "\<not> so_shuffle options \<Longrightarrow> sorted (map qualifiedName (select shuffle now cands f options))"
  by (auto simp: select_def Let_def sorted_filter)

lemma in_shard_unique:
  assumes n: "1 < n" "n < 2 ^ 31" and i: "0 \<le> i" "i < n"
  shows "in_shard (word_of_int n) (word_of_int i) md \<longleftrightarrow> i = uint (fnv1a64 (qualifiedName md)) mod n"
proof -
  have bound: "n < 2 ^ 64" "i < 2 ^ 64" using n i by simp_all
  have un: "uint (word_of_int n :: u64) = n" "uint (word_of_int i :: u64) = i"
    using n i bound by (simp_all add: uint_word_of_int)
  have "in_shard (word_of_int n) (word_of_int i) md \<longleftrightarrow>
      uint (fnv1a64 (qualifiedName md) mod word_of_int n) = uint ((word_of_int i :: u64) mod word_of_int n)"
    by (simp only: in_shard_def word_uint_eq_iff)
  also have "\<dots> \<longleftrightarrow> uint (fnv1a64 (qualifiedName md)) mod n = i"
    using i by (simp only: uint_mod_distrib un) simp
  finally show ?thesis by auto
qed

lemma sum_mset_shards:
  fixes n :: int
  assumes "\<forall>md. 0 \<le> h md \<and> h md < n"
  shows "(\<Sum>i \<leftarrow> [0..n - 1]. filter_mset (\<lambda>md. P md \<and> i = h md) M) = filter_mset P M"
proof (induction M)
  case (add x M)
  have one: "(\<Sum>i \<leftarrow> [0..n - 1]. (if P x \<and> i = h x then {#x#} else {#})) = (if P x then {#x#} else {#})"
  proof -
    have "(\<Sum>i \<leftarrow> [0..n - 1]. (if P x \<and> i = h x then {#x#} else {#})) =
        (\<Sum>i \<in> {0..n - 1}. (if i = h x then (if P x then {#x#} else {#}) else {#}))"
      by (subst sum_list_distinct_conv_sum_set) (auto intro: sum.cong)
    also have "\<dots> = (if P x then {#x#} else {#})" using assms by (simp add: sum.delta)
    finally show ?thesis .
  qed
  have "(\<Sum>i \<leftarrow> [0..n - 1]. filter_mset (\<lambda>md. P md \<and> i = h md) (add_mset x M)) =
      (\<Sum>i \<leftarrow> [0..n - 1]. filter_mset (\<lambda>md. P md \<and> i = h md) M + (if P x \<and> i = h x then {#x#} else {#}))"
    by (intro arg_cong [of _ _ sum_list] map_cong) auto
  also have "\<dots> = filter_mset P M + (if P x then {#x#} else {#})"
    by (simp only: sum_list_addf add.IH one)
  finally show ?case by simp
qed simp

text \<open>C26. Sharding loses no test and runs none twice: the shards of a selection, taken together, are
  the selection, whatever the shuffle.\<close>

theorem shards_partition:
  assumes "permutes shuffle" and "1 < n" "n < 2 ^ 31"
  shows "(\<Sum>i \<leftarrow> [0..n - 1]. mset (select shuffle now cands f (options\<lparr>so_shardCount := n, so_shardIndex := i\<rparr>)))
    = mset (select shuffle now cands f (options\<lparr>so_shardCount := 1\<rparr>))"
proof -
  let ?h = "\<lambda>md. uint (fnv1a64 (qualifiedName md)) mod n"
  have "mset (select shuffle now cands f (options\<lparr>so_shardCount := n, so_shardIndex := i\<rparr>)) =
      filter_mset (\<lambda>md. filter_matches f md \<and> i = ?h md) (mset cands)" if "i \<in> set [0..n - 1]" for i
  proof -
    have i: "0 \<le> i" "i < n" using that by auto
    show ?thesis using assms(2) by (simp add: mset_select [OF assms(1)] in_shard_unique [OF assms(2,3) i] max_absorb2 i)
  qed
  then have "(\<Sum>i \<leftarrow> [0..n - 1]. mset (select shuffle now cands f (options\<lparr>so_shardCount := n, so_shardIndex := i\<rparr>))) =
      (\<Sum>i \<leftarrow> [0..n - 1]. filter_mset (\<lambda>md. filter_matches f md \<and> i = ?h md) (mset cands))"
    by (intro arg_cong [of _ _ sum_list] map_cong refl)
  also have "\<dots> = filter_mset (filter_matches f) (mset cands)"
    by (rule sum_mset_shards) (use assms(2) in simp)
  finally show ?thesis by (simp add: mset_select [OF assms(1)])
qed

definition sample_options :: selection_options where
  "sample_options = \<lparr>so_shuffle = True, so_seed = 0, so_shardCount = 1, so_shardIndex = 0\<rparr>"

theorem shards_partition_witness:
  "(\<Sum>i \<leftarrow> [0..3 - 1]. mset (select (\<lambda>seed. rev) 0 [sample_metadata ''api'' ''a'', sample_metadata ''gpu'' ''b''] all_filter
      (sample_options\<lparr>so_shardCount := 3, so_shardIndex := i\<rparr>)))
    = mset (select (\<lambda>seed. rev) 0 [sample_metadata ''api'' ''a'', sample_metadata ''gpu'' ''b''] all_filter
      (sample_options\<lparr>so_shardCount := 1\<rparr>))"
  by (rule shards_partition) (simp_all add: permutes_def)

text \<open>Without a shuffle the tests of a registry are selected in the strict order of their qualified
  names, exactly those that match, and whether a shard has one depends on its name alone.\<close>

theorem select_registry_exact:
  assumes "registry_ok reg" "\<not> so_shuffle options"
  shows "sorted_wrt (<) (map qualifiedName (select_registry shuffle now reg f options)) \<and>
    set (select_registry shuffle now reg f options) =
      {md. registry_find reg (qualifiedName md) = Some md \<and> filter_matches f md \<and>
        (1 < so_shardCount options \<longrightarrow>
         in_shard (word_of_int (so_shardCount options)) (word_of_int (max 0 (so_shardIndex options))) md)}"
proof -
  have d: "distinct (map qualifiedName (registry_all reg))"
    using assms(1) omap_ok_distinct [of reg] by (simp add: registry_all_names registry_ok_def)
  have keep: "distinct (map qualifiedName (filter P (sort_key qualifiedName (filter Q xs))))"
    if "distinct (map qualifiedName xs)" for P Q xs
    using that by (simp add: distinct_map inj_on_def)
  have "distinct (map qualifiedName (select_registry shuffle now reg f options))"
    using keep [OF d] keep [OF d, of "\<lambda>_. True"] assms(2) by (simp add: select_registry_def select_def Let_def)
  moreover have "sorted (map qualifiedName (select_registry shuffle now reg f options))"
    using select_sorted assms(2) by (simp add: select_registry_def)
  ultimately have "sorted_wrt (<) (map qualifiedName (select_registry shuffle now reg f options))"
    by (simp add: strict_sorted_iff)
  moreover have "md \<in> set (registry_all reg) \<longleftrightarrow> registry_find reg (qualifiedName md) = Some md" for md
    using registry_find_iff [OF assms(1)] by blast
  ultimately show ?thesis
    using assms(2) by (auto simp: select_registry_def select_def Let_def)
qed

theorem select_registry_exact_witness:
  "sorted_wrt (<) (map qualifiedName (select_registry (\<lambda>s. rev) 0 sample_registry all_filter (sample_options\<lparr>so_shuffle := False, so_shardCount := 1\<rparr>))) \<and>
    set (select_registry (\<lambda>s. rev) 0 sample_registry all_filter (sample_options\<lparr>so_shuffle := False, so_shardCount := 1\<rparr>)) =
      {md. registry_find sample_registry (qualifiedName md) = Some md \<and> filter_matches all_filter md}"
  using select_registry_exact [OF sample_registry_ok, of "sample_options\<lparr>so_shuffle := False, so_shardCount := 1\<rparr>" "\<lambda>s. rev" 0 all_filter]
  by simp

end
