(* ===== verification/Classifier.thy ===== *)
theory Classifier
  imports Core_Types Json
begin

text \<open>
  \<open>FailureClassifier\<close> (\<open>src/execution/FailureClassifier.cpp\<close>): from an exception, its text and the
  metadata of the test to a status and a category.

  \<open>refine\<close> reads \<open>http_status\<close> with \<open>asInt\<close>, which C++ leaves undefined for a double outside the
  range of \<open>std::int64_t\<close>; it then has no result (\<open>None\<close>).
\<close>

record classification =
  cl_status :: test_status
  cl_category :: failure_category
  cl_message :: string
  cl_detail :: string

definition message_signals :: "(string \<times> failure_category) list" where
  "message_signals =
     [(''connection refused'', NetworkFailure),
      (''connection reset'', NetworkFailure),
      (''could not resolve'', NetworkFailure),
      (''name or service not known'', NetworkFailure),
      (''no route to host'', NetworkFailure),
      (''network is unreachable'', NetworkFailure),
      (''broken pipe'', NetworkFailure),
      (''timed out'', TimeoutFailure),
      (''timeout'', TimeoutFailure),
      (''deadline exceeded'', TimeoutFailure),
      (''no such file or directory'', DependencyFailure),
      (''executable not found'', DependencyFailure),
      (''command not found'', DependencyFailure),
      (''not installed'', DependencyFailure),
      (''permission denied'', EnvironmentFailure),
      (''read-only file system'', EnvironmentFailure),
      (''cannot allocate memory'', ResourceFailure),
      (''out of memory'', ResourceFailure),
      (''no space left'', ResourceFailure),
      (''too many open files'', ResourceFailure),
      (''internal server error'', ApplicationFailure),
      (''bad gateway'', ApplicationFailure)]"

fun specificity :: "failure_category \<Rightarrow> nat" where
  "specificity NoFailure = 0"
| "specificity UnknownFailure = 1"
| "specificity AssertionFailure = 2"
| "specificity FrameworkFailure = 4"
| "specificity ConfigurationFailure = 4"
| "specificity TimeoutFailure = 4"
| "specificity ApplicationFailure = 3"
| "specificity NetworkFailure = 3"
| "specificity DependencyFailure = 3"
| "specificity EnvironmentFailure = 3"
| "specificity ResourceFailure = 3"

fun signal_loop :: "string \<Rightarrow> (string \<times> failure_category) list \<Rightarrow> failure_category" where
  "signal_loop lowered [] = UnknownFailure"
| "signal_loop lowered ((needle, category) # signals) =
     (if find_sub needle lowered \<noteq> None then category else signal_loop lowered signals)"

definition fromMessage :: "string \<Rightarrow> failure_category" where
  "fromMessage message = signal_loop (toLower message) message_signals"

definition first_line :: "string \<Rightarrow> string" where
  "first_line full = (case find_char CHR 0x0A full of None \<Rightarrow> full | Some i \<Rightarrow> take i full)"

definition fromException :: "test_exception \<Rightarrow> classification" where
  "fromException err =
     (let full = exception_what err;
          message = first_line full;
          detail = (if find_char CHR 0x0A full \<noteq> None then full else [])
      in case err of
           SkipTest _ \<Rightarrow> \<lparr>cl_status = Skipped, cl_category = NoFailure, cl_message = message, cl_detail = detail\<rparr>
         | TestCancelled _ \<Rightarrow> \<lparr>cl_status = TimedOut, cl_category = TimeoutFailure, cl_message = message, cl_detail = detail\<rparr>
         | AssertionError msg expr expected actual location \<Rightarrow>
             \<lparr>cl_status = Failed, cl_category = AssertionFailure, cl_message = message,
              cl_detail = assertion_detail msg expr expected actual location\<rparr>
         | ForgeError category _ \<Rightarrow>
             \<lparr>cl_status = (if category = TimeoutFailure then TimedOut else Error), cl_category = category,
              cl_message = message, cl_detail = detail\<rparr>
         | StdException _ type_name bad_alloc \<Rightarrow>
             (let category = fromMessage message
              in \<lparr>cl_status = Error,
                  cl_category = (if category = UnknownFailure \<and> bad_alloc then ResourceFailure else category),
                  cl_message = message,
                  cl_detail = (if detail \<noteq> [] then detail @ [CHR 0x0A] else detail) @ ''exception type: '' @ type_name\<rparr>))"

definition fromUnknownException :: classification where
  "fromUnknownException =
     \<lparr>cl_status = Error, cl_category = UnknownFailure,
      cl_message = ''test threw a non-std::exception object'',
      cl_detail = ''TestForge caught an exception that does not derive from std::exception, so no '' @
        ''diagnostic information could be extracted. Throw a std::exception subclass '' @
        ''(or use the TF_ASSERT_* macros) to get a useful failure report.''\<rparr>"

definition promote :: "failure_category \<Rightarrow> failure_category \<Rightarrow> failure_category" where
  "promote candidate refined = (if specificity refined < specificity candidate then candidate else refined)"

definition refine_http :: "json \<Rightarrow> failure_category \<Rightarrow> failure_category option" where
  "refine_http metadata refined =
     (case json_find metadata ''http_status'' of
        Some status \<Rightarrow>
          if isNumber status then
            (case asInt status of
               Inr code \<Rightarrow> Some (if 500 \<le> sint code then promote ApplicationFailure refined else refined)
             | Inl _ \<Rightarrow> None)
          else Some refined
      | None \<Rightarrow> Some refined)"

definition refine_transport :: "json \<Rightarrow> failure_category \<Rightarrow> failure_category" where
  "refine_transport metadata refined =
     (case json_find metadata ''transport_error'' of
        Some (JString t) \<Rightarrow> promote (fromMessage t) refined
      | _ \<Rightarrow> refined)"

definition refine_missing :: "json \<Rightarrow> failure_category \<Rightarrow> failure_category" where
  "refine_missing metadata refined =
     (case json_find metadata ''missing_dependency'' of
        Some (JString t) \<Rightarrow> if t \<noteq> [] then promote DependencyFailure refined else refined
      | _ \<Rightarrow> refined)"

definition refine_hint :: "json \<Rightarrow> failure_category \<Rightarrow> failure_category" where
  "refine_hint metadata refined =
     (if refined = UnknownFailure then
        (case json_find metadata ''error_hint'' of
           Some (JString t) \<Rightarrow> promote (fromMessage t) refined
         | _ \<Rightarrow> refined)
      else refined)"

definition refine :: "failure_category \<Rightarrow> json \<Rightarrow> failure_category option" where
  "refine base metadata =
     map_option (\<lambda>c. refine_hint metadata (refine_missing metadata (refine_transport metadata c)))
       (refine_http metadata base)"

fun explain :: "failure_category \<Rightarrow> string" where
  "explain NoFailure = ''No failure.''"
| "explain AssertionFailure = ''The system under test produced the wrong result. Investigate the SUT, or '' @
     ''the expectation if the behaviour changed on purpose.''"
| "explain TimeoutFailure = ''The test did not finish within its deadline. Look for a hung dependency, a '' @
     ''deadlock, or a budget that is simply too tight.''"
| "explain NetworkFailure = ''The system under test could not be reached. Usually the service is not '' @
     ''running, or the address or port is wrong.''"
| "explain EnvironmentFailure = ''The machine running the test is at fault: permissions, missing paths, or a '' @
     ''misconfigured host.''"
| "explain ResourceFailure = ''The machine ran out of something: memory, disk, or file descriptors.''"
| "explain ApplicationFailure = ''The system under test errored internally (5xx or a crash). Check its logs '' @
     ''rather than the test.''"
| "explain DependencyFailure = ''A required binary or service is absent. Install it, or let the test skip.''"
| "explain ConfigurationFailure = ''TestForge was configured incorrectly. Fix the config file, flags, or '' @
     ''environment variables.''"
| "explain FrameworkFailure = ''A defect in TestForge itself. This should be reported as a bug.''"
| "explain UnknownFailure = ''Could not be classified automatically. Read the logs and diagnostics.''"

definition isRetryable :: "failure_category \<Rightarrow> bool" where
  "isRetryable c \<longleftrightarrow> c = NetworkFailure \<or> c = TimeoutFailure \<or> c = ResourceFailure"

section \<open>Refinement of a category\<close>

text \<open>A category is kept or replaced by a more specific one.\<close>

definition sharper :: "failure_category \<Rightarrow> failure_category \<Rightarrow> bool" where
  "sharper new old \<longleftrightarrow> new = old \<or> specificity old < specificity new"

named_theorems sharpens \<open>steps of \<open>refine\<close> that never lose precision\<close>

lemma sharper_refl [sharpens]: "sharper c c"
  by (simp add: sharper_def)

lemma sharper_trans: "sharper c b \<Longrightarrow> sharper b a \<Longrightarrow> sharper c a"
  by (auto simp: sharper_def)

lemma promote_sharper [sharpens]: "sharper (promote candidate c) c"
  by (simp add: promote_def sharper_def)

lemma refine_steps_sharper [sharpens]:
  "sharper (refine_transport m c) c" "sharper (refine_missing m c) c" "sharper (refine_hint m c) c"
  by (auto simp: refine_transport_def refine_missing_def refine_hint_def split: option.split json.split intro!: sharpens)

lemma refine_http_sharper: "refine_http m c = Some d \<Longrightarrow> sharper d c"
  by (auto simp: refine_http_def split: option.splits sum.splits if_splits intro!: sharpens)

lemma refine_sharper:
  assumes "refine c m = Some d"
  shows "sharper d c"
proof -
  from assms obtain b where b: "refine_http m c = Some b" and d: "d = refine_hint m (refine_missing m (refine_transport m b))"
    by (auto simp: refine_def)
  show ?thesis
    unfolding d
    by (intro sharper_trans [OF refine_steps_sharper(3)] sharper_trans [OF refine_steps_sharper(2)]
        sharper_trans [OF refine_steps_sharper(1)] refine_http_sharper [OF b])
qed

text \<open>\<open>refine\<close> has a result unless the status code cannot be converted.\<close>

lemma refine_defined:
  "refine c m = None \<longleftrightarrow> (\<exists>d. json_find m ''http_status'' = Some (JDouble d) \<and> f64_trunc d = None)"
  by (cases "json_find m ''http_status''"; cases "the (json_find m ''http_status'')")
    (auto simp: refine_def refine_http_def isNumber_def split: sum.splits option.splits)

text \<open>Refining a category with the facts a test recorded never replaces it by a vaguer one, leaves a
  deadline, configuration or framework diagnosis alone, and has a result for every metadata whose
  \<open>http_status\<close> fits an integer.\<close>

theorem refine_never_vaguer:
  "(case refine c m of
      Some d \<Rightarrow> (d = c \<or> specificity c < specificity d) \<and> (specificity c = 4 \<longrightarrow> d = c)
    | None \<Rightarrow> \<exists>d. json_find m ''http_status'' = Some (JDouble d) \<and> f64_trunc d = None)"
proof (cases "refine c m")
  case None
  then have "\<exists>d. json_find m ''http_status'' = Some (JDouble d) \<and> f64_trunc d = None" by (simp only: refine_defined)
  with None show ?thesis by simp
next
  case (Some d)
  then have "sharper d c" by (rule refine_sharper)
  moreover have "specificity d \<le> 4" by (cases d) simp_all
  ultimately show ?thesis using Some by (auto simp: sharper_def)
qed

theorem refine_never_vaguer_witness:
  "case refine AssertionFailure (JObject [(''http_status'', JInt 503)]) of
      Some d \<Rightarrow> (d = AssertionFailure \<or> specificity AssertionFailure < specificity d) \<and> (specificity AssertionFailure = 4 \<longrightarrow> d = AssertionFailure)
    | None \<Rightarrow> \<exists>d. json_find (JObject [(''http_status'', JInt 503)]) ''http_status'' = Some (JDouble d) \<and> f64_trunc d = None"
  by (rule refine_never_vaguer)

section \<open>Messages\<close>

lemma signal_loop_found:
  "signal_loop t sigs = (case find (\<lambda>(n, c). contains t n) sigs of Some (n, c) \<Rightarrow> c | None \<Rightarrow> UnknownFailure)"
  by (induction t sigs rule: signal_loop.induct) (auto simp: contains_def)

lemma message_signal_categories: "(n, c) \<in> set message_signals \<Longrightarrow>
    c \<in> {NetworkFailure, TimeoutFailure, DependencyFailure, EnvironmentFailure, ResourceFailure, ApplicationFailure}"
  by (auto simp: message_signals_def)

text \<open>The category of a message is that of the first table entry whose phrase occurs in it, whatever
  its case, and never one that only the framework itself may assign.\<close>

theorem fromMessage_first_signal:
  "fromMessage t = (case find (\<lambda>(phrase, c). sublist phrase (toLower t)) message_signals of
      Some (phrase, c) \<Rightarrow> c | None \<Rightarrow> UnknownFailure) \<and>
   fromMessage (toUpper t) = fromMessage t \<and>
   fromMessage t \<notin> {NoFailure, AssertionFailure, ConfigurationFailure, FrameworkFailure}"
proof (intro conjI)
  show "fromMessage t = (case find (\<lambda>(phrase, c). sublist phrase (toLower t)) message_signals of
      Some (phrase, c) \<Rightarrow> c | None \<Rightarrow> UnknownFailure)"
    by (simp add: fromMessage_def signal_loop_found contains_sublist)
  have "to_lower_char (to_upper_char c) = to_lower_char c" for c
    by (auto simp: to_lower_char_def to_upper_char_def is_lower_def is_upper_def byte_char_of)
  then have "toLower (toUpper t) = toLower t" by (simp add: toLower_def toUpper_def)
  then show "fromMessage (toUpper t) = fromMessage t" by (simp add: fromMessage_def)
  have "fromMessage t \<in> {UnknownFailure} \<union> snd ` set message_signals"
  proof (cases "find (\<lambda>(n, c). contains (toLower t) n) message_signals")
    case (Some s)
    then have "s \<in> set message_signals" by (metis find_Some_iff nth_mem)
    moreover have "fromMessage t = snd s" using Some by (cases s) (simp add: fromMessage_def signal_loop_found)
    ultimately show ?thesis by simp
  qed (simp add: fromMessage_def signal_loop_found)
  then show "fromMessage t \<notin> {NoFailure, AssertionFailure, ConfigurationFailure, FrameworkFailure}"
    using message_signal_categories by fastforce
qed

section \<open>Exceptions\<close>

lemma first_line_no_newline: "CHR 0x0A \<notin> set (first_line t)"
  by (auto simp: first_line_def find_char_None_iff dest: find_char_Some split: option.splits)

lemma first_line_prefix: "prefix (first_line t) t"
  by (auto simp: first_line_def take_is_prefix split: option.splits)

text \<open>Every exception gets exactly one verdict: only a skip is not a failure, only an assertion says the
  system under test is wrong, only a timeout category gives a timeout; the message is the one line
  the exception starts with, and no text is lost.\<close>

theorem fromException_verdict:
  "let k = fromException e in
    (cl_status k = Skipped \<longleftrightarrow> (\<exists>r. e = SkipTest r)) \<and>
    (cl_status k = Failed \<longleftrightarrow> (\<exists>m x ex ac l. e = AssertionError m x ex ac l)) \<and>
    (cl_status k = TimedOut \<longrightarrow> cl_category k = TimeoutFailure) \<and> cl_status k \<noteq> Passed \<and>
    prefix (cl_message k) (exception_what e) \<and> CHR 0x0A \<notin> set (cl_message k) \<and>
    (cl_message k = exception_what e \<or> prefix (exception_what e) (cl_detail k))"
proof -
  have msg: "cl_message (fromException e) = first_line (exception_what e)"
    by (cases e) (simp_all add: fromException_def Let_def)
  have full: "first_line (exception_what e) = exception_what e \<or> prefix (exception_what e) (cl_detail (fromException e))"
    by (cases e) (auto simp: fromException_def Let_def first_line_def assertion_detail_def prefix_def split: option.splits)
  show ?thesis
    unfolding Let_def msg using full first_line_prefix first_line_no_newline
    by (cases e) (auto simp: fromException_def Let_def)
qed

theorem fromException_verdict_witness:
  "cl_status (fromException (SkipTest ''no gpu'')) = Skipped \<and>
   prefix (cl_message (fromException (SkipTest ''no gpu''))) ''no gpu'' \<and> cl_status (fromException (SkipTest ''no gpu'')) \<noteq> Failed"
  using fromException_verdict [of "SkipTest ''no gpu''"] by (simp add: Let_def)

end
