(* ===== verification/Test_Result.thy ===== *)
theory Test_Result
  imports Status Ids Clock Test_Case Ordered_Map
begin

text \<open>
  \<open>TestResult\<close>, \<open>RunStatistics\<close> and \<open>TestRun\<close> (\<open>include/testforge/core/TestResult.hpp\<close>,
  \<open>src/core/TestResult.cpp\<close>): their JSON form and back, the aggregate numbers of a run, and the
  exit code of the process.

  \<open>None\<close> is undefined behaviour of the C++: a JSON number no \<open>std::int64_t\<close> can hold, a timestamp
  beyond the clock's range, or a sum of durations that overflows. Counters of type \<open>int\<close> are
  integers: they count the elements of one vector.
\<close>

record test_result =
  r_testId :: string
  r_testName :: string
  r_suiteName :: string
  r_runId :: string
  r_status :: test_status
  r_category :: failure_category
  r_startTime :: int
  r_endTime :: int
  r_duration :: i64
  r_errorMessage :: string
  r_errorDetail :: string
  r_logs :: "string list"
  r_tags :: "string list"
  r_metadata :: json
  r_diagnostics :: json
  r_attempt :: int
  r_flaky :: bool
  r_worker :: string

text \<open>The default member initialisers.\<close>

definition default_result :: test_result where
  "default_result =
     \<lparr>r_testId = [], r_testName = [], r_suiteName = [], r_runId = [], r_status = Error, r_category = UnknownFailure,
      r_startTime = 0, r_endTime = 0, r_duration = 0, r_errorMessage = [], r_errorDetail = [], r_logs = [],
      r_tags = [], r_metadata = JObject [], r_diagnostics = JObject [], r_attempt = 1, r_flaky = False, r_worker = []\<rparr>"

definition result_name :: "test_result \<Rightarrow> string" where
  "result_name r = (if r_suiteName r = [] then r_testName r else r_suiteName r @ ''.'' @ r_testName r)"

definition make_result :: "int \<Rightarrow> string \<Rightarrow> string \<Rightarrow> test_status \<Rightarrow> test_result" where
  "make_result now suite name status = default_result
     \<lparr>r_suiteName := suite, r_testName := name, r_testId := testId suite name, r_status := status,
      r_category := (if status = Passed \<or> status = Skipped then NoFailure else UnknownFailure),
      r_startTime := now, r_endTime := now\<rparr>"

section \<open>JSON\<close>

definition strings_of_json :: "json option \<Rightarrow> string list" where
  "strings_of_json v =
     (case v of
        Some (JArray xs) \<Rightarrow> concat (map (\<lambda>x. case x of JString s \<Rightarrow> [s] | _ \<Rightarrow> []) xs)
      | _ \<Rightarrow> [])"

definition readString :: "json \<Rightarrow> string \<Rightarrow> string" where
  "readString v key = (case json_find v key of Some (JString s) \<Rightarrow> s | _ \<Rightarrow> [])"

definition result_json :: "test_result \<Rightarrow> json" where
  "result_json r = obj_of
     [(''test_id'', JString (r_testId r)), (''test_name'', JString (r_testName r)),
      (''suite_name'', JString (r_suiteName r)), (''qualified_name'', JString (result_name r)),
      (''run_id'', JString (r_runId r)), (''status'', JString (status_str (r_status r))),
      (''failure_category'', JString (category_str (r_category r))),
      (''start_time'', JString (toIso8601 (r_startTime r))), (''end_time'', JString (toIso8601 (r_endTime r))),
      (''duration_ms'', JInt (r_duration r)), (''error_message'', JString (r_errorMessage r)),
      (''error_detail'', JString (r_errorDetail r)), (''logs'', strings_json (r_logs r)),
      (''tags'', strings_json (r_tags r)), (''metadata'', r_metadata r), (''diagnostics'', r_diagnostics r),
      (''attempt'', JInt (word_of_int (r_attempt r))), (''flaky_candidate'', JBool (r_flaky r)),
      (''worker'', JString (r_worker r))]"

text \<open>A member read as an integer when it is a number; the value is kept otherwise.\<close>

definition read_int :: "json \<Rightarrow> string \<Rightarrow> i64 \<Rightarrow> i64 option" where
  "read_int v key fallback =
     (case json_find v key of
        Some w \<Rightarrow> if isNumber w then (case asInt w of Inr i \<Rightarrow> Some i | Inl _ \<Rightarrow> None) else Some fallback
      | None \<Rightarrow> Some fallback)"

text \<open>\<open>static_cast<int>\<close> of a 64-bit integer keeps its low 32 bits.\<close>

definition to_int32 :: "i64 \<Rightarrow> int" where
  "to_int32 i = signed_take_bit 31 (sint i)"

definition result_of_json :: "json \<Rightarrow> test_result option" where
  "result_of_json v =
     (case (fromIso8601 (readString v ''start_time''), fromIso8601 (readString v ''end_time''),
            read_int v ''duration_ms'' 0, read_int v ''attempt'' 1) of
        (Some start, Some finish, Some duration, Some attempt) \<Rightarrow>
          Some (let suite = readString v ''suite_name''; name = readString v ''test_name''; tid = readString v ''test_id''
           in \<lparr>r_testId = (if tid = [] then testId suite name else tid), r_testName = name, r_suiteName = suite,
               r_runId = readString v ''run_id'',
               r_status = (case testStatusFromString (readString v ''status'') of Some s \<Rightarrow> s | None \<Rightarrow> Error),
               r_category = (case failureCategoryFromString (readString v ''failure_category'') of
                   Some c \<Rightarrow> c | None \<Rightarrow> UnknownFailure),
               r_startTime = start, r_endTime = finish, r_duration = duration,
               r_errorMessage = readString v ''error_message'', r_errorDetail = readString v ''error_detail'',
               r_logs = strings_of_json (json_find v ''logs''), r_tags = strings_of_json (json_find v ''tags''),
               r_metadata = (case json_find v ''metadata'' of Some m \<Rightarrow> m | None \<Rightarrow> JObject []),
               r_diagnostics = (case json_find v ''diagnostics'' of Some m \<Rightarrow> m | None \<Rightarrow> JObject []),
               r_attempt = to_int32 attempt,
               r_flaky = (case json_find v ''flaky_candidate'' of Some (JBool b) \<Rightarrow> b | _ \<Rightarrow> False),
               r_worker = readString v ''worker''\<rparr>)
      | _ \<Rightarrow> None)"

section \<open>Statistics\<close>

record run_statistics =
  st_total :: int
  st_passed :: int
  st_failed :: int
  st_skipped :: int
  st_errors :: int
  st_timeouts :: int
  st_totalDuration :: int
  st_wallDuration :: i64
  st_averageDuration :: int
  st_medianDuration :: int
  st_p95Duration :: int
  st_maxDuration :: int
  st_slowestTest :: string
  st_categories :: "(failure_category \<times> int) list"

text \<open>The fractions \<open>0.50\<close>, \<open>0.95\<close> and \<open>100.0\<close>.\<close>

definition f64_half :: f64 where "f64_half = 0x3FE0000000000000"
definition f64_095 :: f64 where "f64_095 = 0x3FEE666666666666"
definition f64_100 :: f64 where "f64_100 = 0x4059000000000000"

definition percentile :: "int list \<Rightarrow> f64 \<Rightarrow> int" where
  "percentile durations fraction =
     (if durations = [] then 0
      else let rank = f64_ceil (f64_mul fraction (f64_of_int (int (length durations))));
               index = (if rank = 0 then 0 else min (rank - 1) (length durations - 1))
           in durations ! index)"

definition count_status :: "test_status \<Rightarrow> run_statistics \<Rightarrow> run_statistics" where
  "count_status s st =
     (case s of
        Passed \<Rightarrow> st\<lparr>st_passed := st_passed st + 1\<rparr>
      | Failed \<Rightarrow> st\<lparr>st_failed := st_failed st + 1\<rparr>
      | Skipped \<Rightarrow> st\<lparr>st_skipped := st_skipped st + 1\<rparr>
      | Error \<Rightarrow> st\<lparr>st_errors := st_errors st + 1\<rparr>
      | TimedOut \<Rightarrow> st\<lparr>st_timeouts := st_timeouts st + 1\<rparr>)"

definition count_category :: "failure_category \<Rightarrow> run_statistics \<Rightarrow> run_statistics" where
  "count_category c st =
     (if c \<noteq> NoFailure then
        st\<lparr>st_categories := omap_set c ((case omap_find c (st_categories st) of Some n \<Rightarrow> n | None \<Rightarrow> 0) + 1) (st_categories st)\<rparr>
      else st)"

definition count_longest :: "test_result \<Rightarrow> run_statistics \<Rightarrow> run_statistics" where
  "count_longest r st =
     (let ms = sint (r_duration r)
      in if st_maxDuration st < ms then st\<lparr>st_maxDuration := ms, st_slowestTest := result_name r\<rparr> else st)"

text \<open>The loop over the results: the statistics, the durations and their sum so far.\<close>

fun compute_loop :: "test_result list \<Rightarrow> run_statistics \<Rightarrow> int list \<Rightarrow> int \<Rightarrow> (run_statistics \<times> int list \<times> int) option" where
  "compute_loop [] st durations s = Some (st, durations, s)"
| "compute_loop (r # rs) st durations s =
     (let ms = sint (r_duration r)
      in if in_i64 (s + ms)
         then compute_loop rs (count_longest r (count_category (r_category r) (count_status (r_status r) st)))
                (durations @ [ms]) (s + ms)
         else None)"

definition empty_statistics :: run_statistics where
  "empty_statistics =
     \<lparr>st_total = 0, st_passed = 0, st_failed = 0, st_skipped = 0, st_errors = 0, st_timeouts = 0, st_totalDuration = 0,
      st_wallDuration = 0, st_averageDuration = 0, st_medianDuration = 0, st_p95Duration = 0, st_maxDuration = 0,
      st_slowestTest = [], st_categories = []\<rparr>"

definition compute_statistics :: "test_result list \<Rightarrow> i64 \<Rightarrow> run_statistics option" where
  "compute_statistics results wall =
     (case compute_loop results (empty_statistics\<lparr>st_wallDuration := wall, st_total := int (length results)\<rparr>) [] 0 of
        None \<Rightarrow> None
      | Some (st, durations, s) \<Rightarrow>
          Some (if durations = [] then st\<lparr>st_totalDuration := s\<rparr>
                else st\<lparr>st_totalDuration := s, st_averageDuration := tdiv s (int (length durations)),
                        st_medianDuration := percentile (sort durations) f64_half,
                        st_p95Duration := percentile (sort durations) f64_095\<rparr>))"

definition successRate :: "run_statistics \<Rightarrow> f64" where
  "successRate st =
     (let considered = st_total st - st_skipped st
      in if considered \<le> 0 then 0
         else f64_div (f64_mul f64_100 (f64_of_int (st_passed st))) (f64_of_int considered))"

definition parallelEfficiency :: "run_statistics \<Rightarrow> f64" where
  "parallelEfficiency st =
     (if sint (st_wallDuration st) \<le> 0 then 0
      else f64_div (f64_of_int (st_totalDuration st)) (f64_of_int (sint (st_wallDuration st))))"

definition statistics_json :: "run_statistics \<Rightarrow> json" where
  "statistics_json st = obj_of
     [(''total'', JInt (word_of_int (st_total st))), (''passed'', JInt (word_of_int (st_passed st))),
      (''failed'', JInt (word_of_int (st_failed st))), (''skipped'', JInt (word_of_int (st_skipped st))),
      (''errors'', JInt (word_of_int (st_errors st))), (''timeouts'', JInt (word_of_int (st_timeouts st))),
      (''success_rate'', JDouble (successRate st)),
      (''total_duration_ms'', JInt (word_of_int (st_totalDuration st))), (''wall_duration_ms'', JInt (st_wallDuration st)),
      (''average_duration_ms'', JInt (word_of_int (st_averageDuration st))),
      (''median_duration_ms'', JInt (word_of_int (st_medianDuration st))),
      (''p95_duration_ms'', JInt (word_of_int (st_p95Duration st))),
      (''max_duration_ms'', JInt (word_of_int (st_maxDuration st))), (''slowest_test'', JString (st_slowestTest st)),
      (''parallel_efficiency'', JDouble (parallelEfficiency st)),
      (''failure_categories'', obj_of (map (\<lambda>(c, n). (category_str c, JInt (word_of_int n))) (st_categories st)))]"

section \<open>Runs\<close>

record test_run =
  run_id :: string
  run_label :: string
  run_startedAt :: int
  run_finishedAt :: int
  run_duration :: i64
  run_workers :: int
  run_filter :: string
  run_gitCommit :: string
  run_hostname :: string
  run_environment :: json
  run_results :: "test_result list"
  run_cancellationReason :: string

definition wasCancelled :: "test_run \<Rightarrow> bool" where
  "wasCancelled run \<longleftrightarrow> run_cancellationReason run \<noteq> []"

definition run_summary_members :: "test_run \<Rightarrow> run_statistics \<Rightarrow> (string \<times> json) list" where
  "run_summary_members run st =
     [(''run_id'', JString (run_id run)), (''label'', JString (run_label run)),
      (''started_at'', JString (toIso8601 (run_startedAt run))), (''finished_at'', JString (toIso8601 (run_finishedAt run))),
      (''duration_ms'', JInt (run_duration run)), (''workers'', JInt (word_of_int (run_workers run))),
      (''filter'', JString (run_filter run)), (''git_commit'', JString (run_gitCommit run)),
      (''hostname'', JString (run_hostname run)), (''cancellation_reason'', JString (run_cancellationReason run)),
      (''statistics'', statistics_json st)]"

definition run_summary_json :: "test_run \<Rightarrow> json option" where
  "run_summary_json run =
     map_option (\<lambda>st. obj_of (run_summary_members run st)) (compute_statistics (run_results run) (run_duration run))"

definition run_json :: "test_run \<Rightarrow> json option" where
  "run_json run =
     map_option (\<lambda>st. obj_of (run_summary_members run st @
        [(''environment'', run_environment run), (''results'', JArray (map result_json (run_results run)))]))
       (compute_statistics (run_results run) (run_duration run))"

fun results_of_json :: "json list \<Rightarrow> test_result list option" where
  "results_of_json [] = Some []"
| "results_of_json (x # xs) =
     (case result_of_json x of None \<Rightarrow> None | Some r \<Rightarrow> map_option ((#) r) (results_of_json xs))"

definition run_of_json :: "json \<Rightarrow> test_run option" where
  "run_of_json v =
     (case (fromIso8601 (readString v ''started_at''), fromIso8601 (readString v ''finished_at''),
            read_int v ''duration_ms'' 0, read_int v ''workers'' 1,
            (case json_find v ''results'' of Some (JArray xs) \<Rightarrow> results_of_json xs | _ \<Rightarrow> Some [])) of
        (Some start, Some finish, Some duration, Some workers, Some results) \<Rightarrow>
          Some \<lparr>run_id = readString v ''run_id'', run_label = readString v ''label'', run_startedAt = start,
                run_finishedAt = finish, run_duration = duration, run_workers = to_int32 workers,
                run_filter = readString v ''filter'', run_gitCommit = readString v ''git_commit'',
                run_hostname = readString v ''hostname'',
                run_environment = (case json_find v ''environment'' of Some e \<Rightarrow> e | None \<Rightarrow> JObject []),
                run_results = results, run_cancellationReason = readString v ''cancellation_reason''\<rparr>
      | _ \<Rightarrow> None)"

definition exitCode :: "test_run \<Rightarrow> int" where
  "exitCode run =
     (if list_ex (\<lambda>r. r_category r = FrameworkFailure) (run_results run) then 2
      else if list_ex (\<lambda>r. isFailure (r_status r)) (run_results run) then 1
      else if wasCancelled run then 4
      else 0)"

section \<open>The numbers of a run\<close>

definition count_of :: "('a \<Rightarrow> bool) \<Rightarrow> 'a list \<Rightarrow> int" where
  "count_of P xs = int (length (filter P xs))"

lemma count_of_simps [simp]:
  "count_of P [] = 0" "count_of P (x # xs) = (if P x then 1 else 0) + count_of P xs"
  by (simp_all add: count_of_def)

lemma percentile_member:
  assumes "ds \<noteq> []"
  shows "percentile ds f \<in> set ds"
proof -
  define rank where "rank = f64_ceil (f64_mul f (f64_of_int (int (length ds))))"
  have "(if rank = 0 then 0 else min (rank - 1) (length ds - 1)) < length ds"
    using assms by (cases ds) (auto simp: min_def)
  moreover have "percentile ds f = ds ! (if rank = 0 then 0 else min (rank - 1) (length ds - 1))"
    using assms by (simp add: percentile_def Let_def rank_def)
  ultimately show ?thesis by simp
qed

named_theorems stat_fields \<open>fields a counting step leaves alone or changes\<close>

lemma count_status_fields [stat_fields]:
  "st_passed (count_status s st) = (if s = Passed then 1 else 0) + st_passed st"
  "st_failed (count_status s st) = (if s = Failed then 1 else 0) + st_failed st"
  "st_skipped (count_status s st) = (if s = Skipped then 1 else 0) + st_skipped st"
  "st_errors (count_status s st) = (if s = Error then 1 else 0) + st_errors st"
  "st_timeouts (count_status s st) = (if s = TimedOut then 1 else 0) + st_timeouts st"
  "st_total (count_status s st) = st_total st" "st_wallDuration (count_status s st) = st_wallDuration st"
  "st_maxDuration (count_status s st) = st_maxDuration st" "st_slowestTest (count_status s st) = st_slowestTest st"
  "st_categories (count_status s st) = st_categories st"
  by (cases s; simp add: count_status_def)+

lemma count_category_fields [stat_fields]:
  "st_passed (count_category c st) = st_passed st" "st_failed (count_category c st) = st_failed st"
  "st_skipped (count_category c st) = st_skipped st" "st_errors (count_category c st) = st_errors st"
  "st_timeouts (count_category c st) = st_timeouts st" "st_total (count_category c st) = st_total st"
  "st_wallDuration (count_category c st) = st_wallDuration st"
  "st_maxDuration (count_category c st) = st_maxDuration st" "st_slowestTest (count_category c st) = st_slowestTest st"
  by (simp_all add: count_category_def)

lemma count_longest_fields [stat_fields]:
  "st_passed (count_longest r st) = st_passed st" "st_failed (count_longest r st) = st_failed st"
  "st_skipped (count_longest r st) = st_skipped st" "st_errors (count_longest r st) = st_errors st"
  "st_timeouts (count_longest r st) = st_timeouts st" "st_total (count_longest r st) = st_total st"
  "st_wallDuration (count_longest r st) = st_wallDuration st" "st_categories (count_longest r st) = st_categories st"
  "st_maxDuration (count_longest r st) = max (sint (r_duration r)) (st_maxDuration st)"
  by (simp_all add: count_longest_def Let_def)

lemma compute_loop_counts:
  assumes "compute_loop rs st ds s = Some (st', ds', s')"
  shows "st_passed st' = st_passed st + count_of (\<lambda>r. r_status r = Passed) rs"
    "st_failed st' = st_failed st + count_of (\<lambda>r. r_status r = Failed) rs"
    "st_skipped st' = st_skipped st + count_of (\<lambda>r. r_status r = Skipped) rs"
    "st_errors st' = st_errors st + count_of (\<lambda>r. r_status r = Error) rs"
    "st_timeouts st' = st_timeouts st + count_of (\<lambda>r. r_status r = TimedOut) rs"
    "st_total st' = st_total st" "st_wallDuration st' = st_wallDuration st"
    "ds' = ds @ map (\<lambda>r. sint (r_duration r)) rs" "s' = s + (\<Sum>r \<leftarrow> rs. sint (r_duration r))"
  using assms
  by (induction rs st ds s rule: compute_loop.induct) (auto simp: Let_def stat_fields split: if_splits)

text \<open>The category counts, through the interface of the ordered map.\<close>

lemma compute_loop_categories:
  assumes "compute_loop rs st ds s = Some (st', ds', s')" "omap_ok (st_categories st)"
  shows "omap_ok (st_categories st') \<and>
    omap_find c (st_categories st') =
      (if c = NoFailure \<or> count_of (\<lambda>r. r_category r = c) rs = 0 then omap_find c (st_categories st)
       else Some ((case omap_find c (st_categories st) of Some n \<Rightarrow> n | None \<Rightarrow> 0) + count_of (\<lambda>r. r_category r = c) rs))"
  using assms
proof (induction rs st ds s rule: compute_loop.induct)
  case (2 r rs st ds s)
  let ?st1 = "count_longest r (count_category (r_category r) (count_status (r_status r) st))"
  have ok: "omap_ok (st_categories ?st1)"
    using "2.prems"(2) by (auto simp: stat_fields count_category_def)
  have find1: "omap_find c (st_categories ?st1) =
      (if r_category r = c \<and> c \<noteq> NoFailure
       then Some ((case omap_find c (st_categories st) of Some n \<Rightarrow> n | None \<Rightarrow> 0) + 1) else omap_find c (st_categories st))"
    using ordered.lookup_store [OF "2.prems"(2)] by (auto simp: stat_fields count_category_def)
  have "0 \<le> count_of (\<lambda>r. r_category r = c) rs" by (simp add: count_of_def)
  then show ?case
    using "2.IH" [OF refl _ _ ok] "2.prems"(1) find1 by (auto simp: Let_def split: if_splits)
qed simp

lemma compute_loop_longest:
  assumes "compute_loop rs st ds s = Some (st', ds', s')"
  shows "st_maxDuration st \<le> st_maxDuration st' \<and> (\<forall>r \<in> set rs. sint (r_duration r) \<le> st_maxDuration st') \<and>
    (st_maxDuration st' = st_maxDuration st \<and> st_slowestTest st' = st_slowestTest st \<or>
     (\<exists>r \<in> set rs. sint (r_duration r) = st_maxDuration st' \<and> result_name r = st_slowestTest st'))"
  using assms
proof (induction rs st ds s rule: compute_loop.induct)
  case (2 r rs st ds s)
  let ?st1 = "count_longest r (count_category (r_category r) (count_status (r_status r) st))"
  have "st_maxDuration ?st1 = sint (r_duration r) \<and> st_slowestTest ?st1 = result_name r \<or>
      st_maxDuration ?st1 = st_maxDuration st \<and> st_slowestTest ?st1 = st_slowestTest st"
    by (simp add: count_longest_def Let_def stat_fields)
  moreover have "sint (r_duration r) \<le> st_maxDuration ?st1" "st_maxDuration st \<le> st_maxDuration ?st1"
    by (simp_all add: stat_fields)
  ultimately show ?case
    using "2.IH" [OF refl] "2.prems" by (fastforce simp: Let_def split: if_splits)
qed simp

lemma compute_loop_defined:
  assumes "\<forall>r \<in> set rs. 0 \<le> sint (r_duration r)" "0 \<le> s" "s + (\<Sum>r \<leftarrow> rs. sint (r_duration r)) < 2 ^ 63"
  shows "\<exists>x. compute_loop rs st ds s = Some x"
  using assms
proof (induction rs st ds s rule: compute_loop.induct)
  case (2 r rs st ds s)
  have "0 \<le> (\<Sum>r \<leftarrow> rs. sint (r_duration r))" using "2.prems"(1) by (intro sum_list_nonneg) auto
  then have "in_i64 (s + sint (r_duration r))" using "2.prems" by (simp add: in_i64_def)
  with 2 show ?case by (simp add: Let_def add.assoc)
qed simp

lemma status_partition:
  "count_of (\<lambda>r. r_status r = Passed) rs + count_of (\<lambda>r. r_status r = Failed) rs + count_of (\<lambda>r. r_status r = Skipped) rs
    + count_of (\<lambda>r. r_status r = Error) rs + count_of (\<lambda>r. r_status r = TimedOut) rs = int (length rs)"
proof (induction rs)
  case (Cons r rs)
  then show ?case by (cases "r_status r") simp_all
qed simp

lemma statistics_defined:
  assumes "\<forall>r \<in> set rs. 0 \<le> sint (r_duration r)" "(\<Sum>r \<leftarrow> rs. sint (r_duration r)) < 2 ^ 63"
  shows "\<exists>st. compute_statistics rs wall = Some st"
proof -
  obtain st ds s where "compute_loop rs (empty_statistics\<lparr>st_wallDuration := wall, st_total := int (length rs)\<rparr>) [] 0 = Some (st, ds, s)"
    using compute_loop_defined [of rs 0 "empty_statistics\<lparr>st_wallDuration := wall, st_total := int (length rs)\<rparr>" "[]"] assms
    by (metis add_0 order_refl prod_cases3)
  then show ?thesis by (simp add: compute_statistics_def)
qed

text \<open>The statistics of a run are those of its results: every result is counted under exactly one
  status, each failure category under its own count, the slowest test is one that took the longest,
  and median and 95th percentile are durations that were observed.\<close>

theorem statistics_exact:
  assumes "\<forall>r \<in> set rs. 0 \<le> sint (r_duration r)" "(\<Sum>r \<leftarrow> rs. sint (r_duration r)) < 2 ^ 63"
  shows "\<exists>st. compute_statistics rs wall = Some st \<and>
    st_passed st = count_of (\<lambda>r. r_status r = Passed) rs \<and> st_skipped st = count_of (\<lambda>r. r_status r = Skipped) rs \<and>
    st_passed st + st_failed st + st_skipped st + st_errors st + st_timeouts st = st_total st \<and> st_total st = int (length rs) \<and>
    (\<forall>c. omap_find c (st_categories st) =
      (if c = NoFailure \<or> count_of (\<lambda>r. r_category r = c) rs = 0 then None else Some (count_of (\<lambda>r. r_category r = c) rs))) \<and>
    st_totalDuration st = (\<Sum>r \<leftarrow> rs. sint (r_duration r)) \<and>
    (\<forall>r \<in> set rs. sint (r_duration r) \<le> st_maxDuration st) \<and>
    (st_maxDuration st = 0 \<and> st_slowestTest st = [] \<or>
     (\<exists>r \<in> set rs. sint (r_duration r) = st_maxDuration st \<and> result_name r = st_slowestTest st)) \<and>
    (rs \<noteq> [] \<longrightarrow> st_medianDuration st \<in> (\<lambda>r. sint (r_duration r)) ` set rs \<and> st_p95Duration st \<in> (\<lambda>r. sint (r_duration r)) ` set rs)"
proof -
  let ?st0 = "empty_statistics\<lparr>st_wallDuration := wall, st_total := int (length rs)\<rparr>"
  obtain st ds s where loop: "compute_loop rs ?st0 [] 0 = Some (st, ds, s)"
    using compute_loop_defined [of rs 0 ?st0 "[]"] assms by (metis add_0 order_refl prod_cases3)
  note counts = compute_loop_counts [OF loop]
  have cats: "omap_find c (st_categories st) =
      (if c = NoFailure \<or> count_of (\<lambda>r. r_category r = c) rs = 0 then None else Some (count_of (\<lambda>r. r_category r = c) rs))" for c
    using compute_loop_categories [OF loop, of c] by (simp add: empty_statistics_def)
  have longest: "(\<forall>r \<in> set rs. sint (r_duration r) \<le> st_maxDuration st) \<and>
      (st_maxDuration st = 0 \<and> st_slowestTest st = [] \<or>
       (\<exists>r \<in> set rs. sint (r_duration r) = st_maxDuration st \<and> result_name r = st_slowestTest st))"
    using compute_loop_longest [OF loop] by (simp add: empty_statistics_def)
  have mem: "rs \<noteq> [] \<Longrightarrow> percentile (sort ds) f \<in> (\<lambda>r. sint (r_duration r)) ` set rs" for f
  proof -
    assume "rs \<noteq> []"
    then have "length (sort ds) \<noteq> 0" using counts(8) by simp
    then have "percentile (sort ds) f \<in> set ds" using percentile_member [of "sort ds" f] by (simp del: length_sort)
    then show ?thesis using counts(8) by simp
  qed
  have part: "st_passed st + st_failed st + st_skipped st + st_errors st + st_timeouts st = st_total st"
    using status_partition [of rs] counts by (simp add: empty_statistics_def)
  have ds: "ds = [] \<longleftrightarrow> rs = []" using counts(8) by simp
  let ?st = "if ds = [] then st\<lparr>st_totalDuration := s\<rparr>
      else st\<lparr>st_totalDuration := s, st_averageDuration := tdiv s (int (length ds)),
              st_medianDuration := percentile (sort ds) f64_half, st_p95Duration := percentile (sort ds) f64_095\<rparr>"
  have "compute_statistics rs wall = Some ?st" by (simp only: compute_statistics_def loop option.case prod.case)
  then show ?thesis
    using counts(1,3,6,9) cats longest mem part ds
    by (intro exI [of _ ?st] conjI; cases "rs = []") (simp_all add: empty_statistics_def)
qed

lemmas sample_result_defs = make_result_def default_result_def

theorem statistics_exact_witness:
  "\<exists>st. compute_statistics [make_result 0 ''api'' ''a'' Passed, make_result 0 ''api'' ''b'' Failed] 5 = Some st \<and>
    st_passed st = 1 \<and> st_skipped st = 0 \<and> st_total st = 2"
  using statistics_exact [of "[make_result 0 ''api'' ''a'' Passed, make_result 0 ''api'' ''b'' Failed]" 5]
  by (auto simp: sample_result_defs)

text \<open>The exit code of a run is zero only if it was not cut short and no test failed; a defect of the
  framework takes precedence over a failing test, and that over a cancellation.\<close>

theorem exitCode_meaning:
  "exitCode run = (if \<exists>r \<in> set (run_results run). r_category r = FrameworkFailure then 2
     else if \<exists>r \<in> set (run_results run). r_status r \<noteq> Passed \<and> r_status r \<noteq> Skipped then 1
     else if run_cancellationReason run \<noteq> [] then 4 else 0) \<and>
   (exitCode run = 0 \<longleftrightarrow> \<not> wasCancelled run \<and>
     (\<forall>r \<in> set (run_results run). (r_status r = Passed \<or> r_status r = Skipped) \<and> r_category r \<noteq> FrameworkFailure))"
proof -
  have "isFailure s \<longleftrightarrow> s \<noteq> Passed \<and> s \<noteq> Skipped" for s by (cases s) (simp_all add: isFailure_def)
  then show ?thesis by (auto simp: exitCode_def list_ex_iff wasCancelled_def)
qed

section \<open>Results through JSON and back\<close>

lemma json_find_obj_of: "json_find (obj_of ms) k = map_of (rev ms) k"
  using members.store_all [where m = "[]" and kvs = ms and k = k] by (simp add: obj_of_def split: option.splits)

lemma fold_alist_fresh: "distinct (map fst (acc @ ms)) \<Longrightarrow> fold (\<lambda>(k, v). alist_set k v) ms acc = acc @ ms"
proof (induction ms arbitrary: acc)
  case (Cons m ms)
  obtain k v where m: "m = (k, v)" by fastforce
  from Cons.prems have "k \<notin> set (map fst acc)" by (auto simp: m)
  with Cons.IH [of "acc @ [(k, v)]"] Cons.prems show ?case by (simp add: m alist_set_fresh)
qed simp

lemma obj_of_distinct: "distinct (map fst ms) \<Longrightarrow> obj_of ms = JObject ms"
  using fold_alist_fresh [of "[]" ms] by (simp add: obj_of_def)

lemma isObject_obj_of [simp]: "isObject (obj_of ms)"
  by (simp add: obj_of_def)

lemma strings_of_strings_json [simp]: "strings_of_json (Some (strings_json xs)) = xs"
  by (induction xs) (simp_all add: strings_of_json_def strings_json_def)

lemma status_from_str [simp]: "testStatusFromString (status_str s) = Some s"
  unfolding testStatusFromString_def
  by (intro find_unique) (simp_all add: equalsIgnoreCase_toLower toLower_status_inject)

lemma category_from_str [simp]: "failureCategoryFromString (category_str c) = Some c"
  unfolding failureCategoryFromString_def
  by (intro find_unique) (simp_all add: equalsIgnoreCase_toLower toLower_category_inject)

definition in_int32 :: "int \<Rightarrow> bool" where
  "in_int32 i \<longleftrightarrow> - (2 ^ 31) \<le> i \<and> i < 2 ^ 31"

lemma to_int32_word [simp]: "in_int32 i \<Longrightarrow> to_int32 (word_of_int i) = i"
  by (simp add: to_int32_def in_int32_def sint_sbintrunc' signed_take_bit_int_eq_self)

text \<open>Timestamps as the clock of the code gives them: whole milliseconds, not before the epoch.\<close>

definition stamp_ok :: "int \<Rightarrow> bool" where
  "stamp_ok tp \<longleftrightarrow> 0 \<le> tp \<and> tp < 2 ^ 63 \<and> 1000000 dvd tp"

definition result_ok :: "test_result \<Rightarrow> bool" where
  "result_ok r \<longleftrightarrow> stamp_ok (r_startTime r) \<and> stamp_ok (r_endTime r) \<and> in_int32 (r_attempt r) \<and> r_testId r \<noteq> []"

lemma iso_stamp: "stamp_ok tp \<Longrightarrow> fromIso8601 (toIso8601 tp) = Some tp"
  unfolding stamp_ok_def by (rule iso8601_roundtrip_fact) auto

lemma result_json_roundtrip:
  assumes "result_ok r"
  shows "result_of_json (result_json r) = Some r"
proof -
  have ok: "stamp_ok (r_startTime r)" "stamp_ok (r_endTime r)" "in_int32 (r_attempt r)" "r_testId r \<noteq> []"
    using assms by (simp_all add: result_ok_def)
  note find = json_find_obj_of result_json_def
  have strs: "readString (result_json r) ''test_id'' = r_testId r" "readString (result_json r) ''test_name'' = r_testName r"
    "readString (result_json r) ''suite_name'' = r_suiteName r" "readString (result_json r) ''run_id'' = r_runId r"
    "readString (result_json r) ''status'' = status_str (r_status r)"
    "readString (result_json r) ''failure_category'' = category_str (r_category r)"
    "readString (result_json r) ''start_time'' = toIso8601 (r_startTime r)"
    "readString (result_json r) ''end_time'' = toIso8601 (r_endTime r)"
    "readString (result_json r) ''error_message'' = r_errorMessage r" "readString (result_json r) ''error_detail'' = r_errorDetail r"
    "readString (result_json r) ''worker'' = r_worker r"
    by (simp_all add: readString_def find)
  have others: "json_find (result_json r) ''duration_ms'' = Some (JInt (r_duration r))"
    "json_find (result_json r) ''logs'' = Some (strings_json (r_logs r))" "json_find (result_json r) ''tags'' = Some (strings_json (r_tags r))"
    "json_find (result_json r) ''metadata'' = Some (r_metadata r)" "json_find (result_json r) ''diagnostics'' = Some (r_diagnostics r)"
    "json_find (result_json r) ''attempt'' = Some (JInt (word_of_int (r_attempt r)))"
    "json_find (result_json r) ''flaky_candidate'' = Some (JBool (r_flaky r))"
    by (simp_all add: find)
  show ?thesis
    using ok by (simp add: result_of_json_def strs others iso_stamp read_int_def isNumber_def)
qed

lemma results_of_json_map:
  "list_all result_ok rs \<Longrightarrow> results_of_json (map result_json rs) = Some rs"
  by (induction rs) (simp_all add: result_json_roundtrip)

text \<open>A run is rebuilt from its JSON form with every result as it was, and the form exists for every
  run whose durations are sane.\<close>

theorem run_json_roundtrip:
  assumes "list_all result_ok (run_results run)" "stamp_ok (run_startedAt run)" "stamp_ok (run_finishedAt run)" "in_int32 (run_workers run)"
    and "\<forall>r \<in> set (run_results run). 0 \<le> sint (r_duration r)" "(\<Sum>r \<leftarrow> run_results run. sint (r_duration r)) < 2 ^ 63"
  shows "\<exists>v. run_json run = Some v \<and> run_of_json v = Some run"
proof -
  obtain st where st: "compute_statistics (run_results run) (run_duration run) = Some st"
    using statistics_defined [OF assms(5,6)] by blast
  define v where "v = obj_of (run_summary_members run st @
        [(''environment'', run_environment run), (''results'', JArray (map result_json (run_results run)))])"
  note find = json_find_obj_of v_def run_summary_members_def
  have strs: "readString v ''run_id'' = run_id run" "readString v ''label'' = run_label run"
    "readString v ''started_at'' = toIso8601 (run_startedAt run)" "readString v ''finished_at'' = toIso8601 (run_finishedAt run)"
    "readString v ''filter'' = run_filter run" "readString v ''git_commit'' = run_gitCommit run"
    "readString v ''hostname'' = run_hostname run" "readString v ''cancellation_reason'' = run_cancellationReason run"
    by (simp_all add: readString_def find)
  have others: "json_find v ''duration_ms'' = Some (JInt (run_duration run))"
    "json_find v ''workers'' = Some (JInt (word_of_int (run_workers run)))"
    "json_find v ''environment'' = Some (run_environment run)"
    "json_find v ''results'' = Some (JArray (map result_json (run_results run)))"
    by (simp_all add: find)
  have "run_json run = Some v" by (simp add: run_json_def st v_def)
  moreover have "run_of_json v = Some run"
    using assms(2-4) by (simp add: run_of_json_def strs others iso_stamp read_int_def isNumber_def results_of_json_map [OF assms(1)])
  ultimately show ?thesis by blast
qed

definition sample_run :: test_run where
  "sample_run = \<lparr>run_id = ''f00d'', run_label = ''nightly'', run_startedAt = 1757658692417000000, run_finishedAt = 1757658693000000000,
     run_duration = 583, run_workers = 4, run_filter = ''<all tests>'', run_gitCommit = [], run_hostname = ''ci'',
     run_environment = JObject [], run_results = [make_result 1757658692417000000 ''api'' ''health'' Passed], run_cancellationReason = []\<rparr>"

lemma testId_nonempty: "testId s n \<noteq> []"
  by (simp add: testId_def hex64_def)

theorem run_json_roundtrip_witness: "\<exists>v. run_json sample_run = Some v \<and> run_of_json v = Some sample_run"
  by (rule run_json_roundtrip)
    (simp_all add: sample_run_def sample_result_defs result_ok_def stamp_ok_def in_int32_def testId_nonempty)

theorem exitCode_meaning_witness:
  "(exitCode sample_run = 0) = (\<not> wasCancelled sample_run \<and>
     (\<forall>r \<in> set (run_results sample_run). (r_status r = Passed \<or> r_status r = Skipped) \<and> r_category r \<noteq> FrameworkFailure))"
  by (rule conjunct2 [OF exitCode_meaning])

end
