(* ===== verification/Cancel_Token.thy ===== *)
theory Cancel_Token
  imports Core_Types Clock
begin

text \<open>
  \<open>CancellationToken\<close> and \<open>CancellationSource\<close> (\<open>src/core/CancellationToken.cpp\<close>). The shared state
  changes only under its mutex, so each operation is a step on it; a token without a state is
  \<open>None\<close>. Times of the monotonic clock are nanoseconds; \<open>time_point::max()\<close> is \<open>None\<close>.
\<close>

record cancel_state =
  cs_cancelled :: bool
  cs_reason :: string
  cs_deadline :: "int option"

definition new_source :: cancel_state where
  "new_source = \<lparr>cs_cancelled = False, cs_reason = [], cs_deadline = None\<rparr>"

definition source_cancel :: "string \<Rightarrow> cancel_state \<Rightarrow> cancel_state" where
  "source_cancel reason s = (if cs_cancelled s then s else s\<lparr>cs_reason := reason, cs_cancelled := True\<rparr>)"

definition source_setDeadline :: "int option \<Rightarrow> cancel_state \<Rightarrow> cancel_state" where
  "source_setDeadline deadline s = s\<lparr>cs_deadline := deadline\<rparr>"

definition token_isCancelled :: "cancel_state option \<Rightarrow> bool" where
  "token_isCancelled token = (case token of None \<Rightarrow> False | Some s \<Rightarrow> cs_cancelled s)"

definition token_reason :: "cancel_state option \<Rightarrow> string" where
  "token_reason token = (case token of None \<Rightarrow> [] | Some s \<Rightarrow> cs_reason s)"

text \<open>\<open>waitFor\<close> returns when the predicate holds or the time is up: the state is the one it wakes to.\<close>

definition token_waitFor :: "cancel_state option \<Rightarrow> bool" where
  "token_waitFor token = (case token of None \<Rightarrow> True | Some s \<Rightarrow> \<not> cs_cancelled s)"

definition millis_max :: int where
  "millis_max = 2 ^ 63 - 1"

definition token_remaining :: "int \<Rightarrow> cancel_state option \<Rightarrow> int" where
  "token_remaining now token =
     (case token of
        None \<Rightarrow> millis_max
      | Some s \<Rightarrow> (case cs_deadline s of
          None \<Rightarrow> millis_max
        | Some deadline \<Rightarrow> if deadline \<le> now then 0 else tdiv (deadline - now) 1000000))"

text \<open>\<open>TestContext::throwIfCancelled\<close>: the exception, if any.\<close>

definition throwIfCancelled :: "cancel_state option \<Rightarrow> test_exception option" where
  "throwIfCancelled token =
     (if token_isCancelled token
      then Some (TestCancelled (if token_reason token = [] then ''cancelled'' else token_reason token))
      else None)"

lemma source_cancel_simps [simp]:
  "cs_cancelled (source_cancel r s)" "cs_deadline (source_cancel r s) = cs_deadline s"
  "cs_reason (source_cancel r s) = (if cs_cancelled s then cs_reason s else r)"
  by (simp_all add: source_cancel_def)

lemma cancel_again: "cs_cancelled s \<Longrightarrow> fold source_cancel rs s = s"
  by (induction rs) (simp_all add: source_cancel_def)

text \<open>Of several reasons to cancel the first is kept, for good: every later check reports it, whatever
  deadline is set meanwhile.\<close>

theorem first_reason_wins:
  "let s = fold source_cancel (r # rs) (source_setDeadline d new_source)
   in token_isCancelled (Some s) \<and> token_reason (Some s) = r \<and> \<not> token_waitFor (Some s) \<and>
      throwIfCancelled (Some s) = Some (TestCancelled (if r = [] then ''cancelled'' else r)) \<and>
      fold source_cancel rs' (source_setDeadline d' s) = source_setDeadline d' s"
proof -
  let ?s0 = "source_cancel r (source_setDeadline d new_source)"
  have s: "fold source_cancel (r # rs) (source_setDeadline d new_source) = ?s0" by (simp add: cancel_again)
  have "cs_cancelled (source_setDeadline d' ?s0)" by (simp add: source_setDeadline_def)
  then have "fold source_cancel rs' (source_setDeadline d' ?s0) = source_setDeadline d' ?s0" by (rule cancel_again)
  then show ?thesis
    by (simp only: s Let_def)
      (simp add: token_isCancelled_def token_reason_def token_waitFor_def throwIfCancelled_def new_source_def source_setDeadline_def)
qed

end
