(* ===== verification/Transition.thy ===== *)
theory Transition
  imports Main
begin

text \<open>
  Runs of a component that moves in labelled steps: a step relation, the runs it admits, and the
  interface \<open>invariant_system\<close> through which an invariant of the single step becomes one of the run.
\<close>

inductive run :: "('s \<Rightarrow> 'e \<Rightarrow> 's \<Rightarrow> bool) \<Rightarrow> 's \<Rightarrow> 'e list \<Rightarrow> 's \<Rightarrow> bool" for step where
  run_Nil [intro]: "run step s [] s"
| run_Cons: "step s e s' \<Longrightarrow> run step s' es s'' \<Longrightarrow> run step s (e # es) s''"

inductive_cases run_NilE: "run step s [] s'"
inductive_cases run_ConsE: "run step s (e # es) s'"

lemma run_append: "run step s es s' \<Longrightarrow> run step s' fs s'' \<Longrightarrow> run step s (es @ fs) s''"
  by (induction rule: run.induct) (auto intro: run_Cons)

locale invariant_system =
  fixes step :: "'s \<Rightarrow> 'e \<Rightarrow> 's \<Rightarrow> bool"
    and inv :: "'s \<Rightarrow> bool"
  assumes step_inv: "inv s \<Longrightarrow> step s e s' \<Longrightarrow> inv s'"
begin

lemma run_inv: "run step s es s' \<Longrightarrow> inv s \<Longrightarrow> inv s'"
  by (induction rule: run.induct) (auto intro: step_inv)

lemma run_mono:
  assumes "\<And>s e s'. inv s \<Longrightarrow> step s e s' \<Longrightarrow> P s \<Longrightarrow> P s'"
  shows "run step s es s' \<Longrightarrow> inv s \<Longrightarrow> P s \<Longrightarrow> P s'"
  by (induction rule: run.induct) (blast intro: step_inv assms)+

end

text \<open>A system in which a measure falls with every step of a class of events: its runs are short.\<close>

locale terminating_system = invariant_system step inv
  for step :: "'s \<Rightarrow> 'e \<Rightarrow> 's \<Rightarrow> bool" and inv :: "'s \<Rightarrow> bool" +
  fixes internal :: "'e \<Rightarrow> bool"
    and cost :: "'s \<Rightarrow> nat"
  assumes cost_falls: "inv s \<Longrightarrow> internal e \<Longrightarrow> step s e s' \<Longrightarrow> cost s' < cost s"
begin

lemma run_length: "run step s es s' \<Longrightarrow> inv s \<Longrightarrow> list_all internal es \<Longrightarrow> length es + cost s' \<le> cost s"
proof (induction rule: run.induct)
  case (run_Cons s e s' es s'')
  then have "inv s'" "cost s' < cost s" by (auto intro: step_inv cost_falls)
  with run_Cons show ?case by simp
qed simp

text \<open>Other events may come in between, as long as they do not raise the measure.\<close>

lemma run_internal_length:
  assumes "\<And>s e s'. inv s \<Longrightarrow> \<not> internal e \<Longrightarrow> step s e s' \<Longrightarrow> cost s' \<le> cost s"
  shows "run step s es s' \<Longrightarrow> inv s \<Longrightarrow> length (filter internal es) + cost s' \<le> cost s"
proof (induction rule: run.induct)
  case (run_Cons s e s' es s'')
  then have "inv s'" by (blast intro: step_inv)
  with run_Cons assms [of s e s'] cost_falls [of s e s'] show ?case by (cases "internal e") auto
qed simp

lemma runs_to_rest:
  assumes "inv s" and next_step: "\<And>t. inv t \<Longrightarrow> \<not> Q t \<Longrightarrow> \<exists>e t'. internal e \<and> step t e t'"
  shows "\<exists>es s'. list_all internal es \<and> run step s es s' \<and> Q s'"
  using assms(1)
proof (induction "cost s" arbitrary: s rule: less_induct)
  case less
  show ?case
  proof (cases "Q s")
    case True
    then show ?thesis by (intro exI [of _ "[]"] exI [of _ s]) auto
  next
    case False
    then obtain e t where t: "internal e" "step s e t" using next_step less.prems by blast
    then have "cost t < cost s" "inv t" using less.prems cost_falls step_inv by blast+
    from less.hyps [OF this] obtain es s' where "list_all internal es" "run step t es s'" "Q s'" by blast
    with t show ?thesis by (intro exI [of _ "e # es"] exI [of _ s']) (auto intro: run_Cons)
  qed
qed

end

end
