(* ===== verification/Thread_Pool.thy ===== *)
theory Thread_Pool
  imports Transition Prelude "HOL-Library.Multiset"
begin

text \<open>
  \<open>ThreadPool\<close> (\<open>include/testforge/execution/ThreadPool.hpp\<close>, \<open>src/execution/ThreadPool.cpp\<close>) as a
  transition system. One mutex guards the queue, the flags and the counter, so every critical section
  is one step: \<open>submit\<close>, a worker's wake-up (take a task, discard the queue, or leave), the end of a
  task, and the two shutdown requests. A worker that waits has no step: the predicate of its condition
  variable is the step's guard. \<open>joinAll\<close> returns when every worker has left.

  \<open>tp_submitted\<close>, \<open>tp_taken\<close>, \<open>tp_finished\<close> and \<open>tp_discarded\<close> are history, read by no step.
\<close>

datatype 't worker_state = Waiting | Running 't | Exited

record 't pool =
  tp_queue :: "'t list"
  tp_workers :: "'t worker_state list"
  tp_stopping :: bool
  tp_discard :: bool
  tp_pending :: nat
  tp_joined :: bool
  tp_submitted :: "'t list"
  tp_taken :: "'t list"
  tp_finished :: "'t list"
  tp_discarded :: "'t list"

definition new_pool :: "nat \<Rightarrow> 't pool" where
  "new_pool n =
     \<lparr>tp_queue = [], tp_workers = replicate (max 1 n) Waiting, tp_stopping = False, tp_discard = False, tp_pending = 0,
      tp_joined = False, tp_submitted = [], tp_taken = [], tp_finished = [], tp_discarded = []\<rparr>"

definition worker_name :: "string \<Rightarrow> nat \<Rightarrow> string" where
  "worker_name name index = name @ ''-'' @ show_nat index"

definition pool_submit :: "'t \<Rightarrow> 't pool \<Rightarrow> string + 't pool" where
  "pool_submit t p =
     (if tp_stopping p then Inl ''ThreadPool::submit called after shutdown''
      else Inr (p\<lparr>tp_queue := tp_queue p @ [t], tp_pending := tp_pending p + 1, tp_submitted := tp_submitted p @ [t]\<rparr>))"

text \<open>One pass of \<open>workerLoop\<close> from the wait to the task: \<open>None\<close> while the worker has to wait.\<close>

definition worker_wake :: "nat \<Rightarrow> 't pool \<Rightarrow> 't pool option" where
  "worker_wake i p =
     (if \<not> i < length (tp_workers p) \<or> tp_workers p ! i \<noteq> Waiting then None
      else if tp_queue p = [] \<and> \<not> tp_stopping p then None
      else if tp_queue p = [] then Some (p\<lparr>tp_workers := (tp_workers p)[i := Exited]\<rparr>)
      else if tp_stopping p \<and> tp_discard p then
        Some (p\<lparr>tp_queue := [], tp_pending := tp_pending p - length (tp_queue p),
                tp_workers := (tp_workers p)[i := Exited], tp_discarded := tp_discarded p @ tp_queue p\<rparr>)
      else
        Some (p\<lparr>tp_queue := tl (tp_queue p), tp_workers := (tp_workers p)[i := Running (hd (tp_queue p))],
                tp_taken := tp_taken p @ [hd (tp_queue p)]\<rparr>))"

text \<open>The task returns or throws; either way the worker accounts for it and goes back to wait.\<close>

definition task_done :: "nat \<Rightarrow> 't pool \<Rightarrow> 't pool option" where
  "task_done i p =
     (if i < length (tp_workers p) then
        (case tp_workers p ! i of
           Running t \<Rightarrow> Some (p\<lparr>tp_workers := (tp_workers p)[i := Waiting], tp_pending := tp_pending p - 1,
                              tp_finished := tp_finished p @ [t]\<rparr>)
         | _ \<Rightarrow> None)
      else None)"

definition request_shutdown :: "'t pool \<Rightarrow> 't pool" where
  "request_shutdown p = p\<lparr>tp_stopping := True, tp_discard := False\<rparr>"

definition request_shutdownNow :: "'t pool \<Rightarrow> 't pool" where
  "request_shutdownNow p = p\<lparr>tp_stopping := True, tp_discard := True\<rparr>"

definition joinAll :: "'t pool \<Rightarrow> 't pool option" where
  "joinAll p =
     (if tp_joined p then Some p
      else if list_all (\<lambda>w. w = Exited) (tp_workers p) then Some (p\<lparr>tp_joined := True\<rparr>) else None)"

definition waitIdle_returns :: "'t pool \<Rightarrow> bool" where
  "waitIdle_returns p \<longleftrightarrow> tp_pending p = 0"

definition queueDepth :: "'t pool \<Rightarrow> nat" where
  "queueDepth p = length (tp_queue p)"

definition workerCount :: "'t pool \<Rightarrow> nat" where
  "workerCount p = length (tp_workers p)"

datatype 't pool_event = Submit 't | Wake nat | Done nat | Shutdown | ShutdownNow | Join

inductive pool_step :: "'t pool \<Rightarrow> 't pool_event \<Rightarrow> 't pool \<Rightarrow> bool" where
  step_submit: "pool_submit t p = Inr p' \<Longrightarrow> pool_step p (Submit t) p'"
| step_wake: "worker_wake i p = Some p' \<Longrightarrow> pool_step p (Wake i) p'"
| step_done: "task_done i p = Some p' \<Longrightarrow> pool_step p (Done i) p'"
| step_shutdown: "pool_step p Shutdown (request_shutdown p)"
| step_shutdownNow: "pool_step p ShutdownNow (request_shutdownNow p)"
| step_join: "tp_stopping p \<Longrightarrow> joinAll p = Some p' \<Longrightarrow> pool_step p Join p'"

inductive_cases pool_stepE: "pool_step p e p'"

inductive_simps pool_step_simps:
  "pool_step p (Submit t) p'" "pool_step p (Wake i) p'" "pool_step p (Done i) p'"
  "pool_step p Shutdown p'" "pool_step p ShutdownNow p'" "pool_step p Join p'"

section \<open>The invariant\<close>

definition running_of :: "'t worker_state \<Rightarrow> 't list" where
  "running_of w = (case w of Running t \<Rightarrow> [t] | _ \<Rightarrow> [])"

definition tp_running :: "'t pool \<Rightarrow> 't list" where
  "tp_running p = concat (map running_of (tp_workers p))"

lemma tp_running_update [simp]:
  "tp_running (p\<lparr>tp_workers := ws\<rparr>) = concat (map running_of ws)"
  "tp_running (p\<lparr>tp_queue := q\<rparr>) = tp_running p" "tp_running (p\<lparr>tp_pending := n\<rparr>) = tp_running p"
  "tp_running (p\<lparr>tp_stopping := b\<rparr>) = tp_running p" "tp_running (p\<lparr>tp_discard := b\<rparr>) = tp_running p"
  "tp_running (p\<lparr>tp_joined := b\<rparr>) = tp_running p" "tp_running (p\<lparr>tp_submitted := ts\<rparr>) = tp_running p"
  "tp_running (p\<lparr>tp_taken := ts\<rparr>) = tp_running p" "tp_running (p\<lparr>tp_finished := ts\<rparr>) = tp_running p"
  "tp_running (p\<lparr>tp_discarded := ts\<rparr>) = tp_running p"
  by (simp_all add: tp_running_def)

text \<open>
  The counter is the number of tasks queued or running; tasks were taken in the order of submission,
  and each one taken is running or finished; a worker leaves, and tasks are discarded, only after a
  shutdown request and with the queue left empty.
\<close>

definition pool_inv :: "'t pool \<Rightarrow> bool" where
  "pool_inv p \<longleftrightarrow>
     tp_pending p = length (tp_queue p) + length (tp_running p) \<and>
     tp_submitted p = tp_taken p @ tp_discarded p @ tp_queue p \<and>
     mset (tp_taken p) = mset (tp_running p) + mset (tp_finished p) \<and>
     (Exited \<in> set (tp_workers p) \<longrightarrow> tp_stopping p \<and> tp_queue p = []) \<and>
     (tp_discarded p \<noteq> [] \<longrightarrow> tp_stopping p \<and> tp_queue p = []) \<and>
     tp_workers p \<noteq> []"

lemma concat_map_update:
  assumes "i < length ws"
  shows "mset (concat (map running_of (ws[i := w]))) + mset (running_of (ws ! i)) = mset (concat (map running_of ws)) + mset (running_of w)"
proof -
  have "ws = take i ws @ ws ! i # drop (Suc i) ws" using assms by (simp add: id_take_nth_drop)
  then have "mset (concat (map running_of ws)) = mset (concat (map running_of (take i ws))) + mset (running_of (ws ! i))
      + mset (concat (map running_of (drop (Suc i) ws)))"
    by (metis (no_types) concat.simps(2) concat_append list.simps(9) map_append mset_append union_assoc)
  moreover have "mset (concat (map running_of (ws[i := w]))) = mset (concat (map running_of (take i ws))) + mset (running_of w)
      + mset (concat (map running_of (drop (Suc i) ws)))"
    using assms by (simp add: upd_conv_take_nth_drop)
  ultimately show ?thesis by simp
qed

lemma running_update:
  assumes "i < length (tp_workers p)"
  shows "mset (concat (map running_of ((tp_workers p)[i := w]))) + mset (running_of (tp_workers p ! i)) = mset (tp_running p) + mset (running_of w)"
  unfolding tp_running_def by (rule concat_map_update [OF assms])

lemma running_of_simps [simp]: "running_of Waiting = []" "running_of Exited = []" "running_of (Running t) = [t]"
  by (simp_all add: running_of_def)

lemma length_running_mset: "length (tp_running p) = size (mset (tp_running p))"
  by simp

lemma pool_inv_wake:
  assumes inv: "pool_inv p" and wake: "worker_wake i p = Some p'"
  shows "pool_inv p'"
proof -
  from wake have i: "i < length (tp_workers p)" "tp_workers p ! i = Waiting" by (auto simp: worker_wake_def split: if_splits)
  have upd: "mset (concat (map running_of ((tp_workers p)[i := w]))) = mset (tp_running p) + mset (running_of w)" for w
    using running_update [OF i(1), of w] i(2) by simp
  have len: "length (concat (map running_of ((tp_workers p)[i := w]))) = length (tp_running p) + length (running_of w)" for w
    using arg_cong [OF upd [of w], of size] by simp
  have set_upd: "Exited \<in> set ((tp_workers p)[i := w]) \<Longrightarrow> w = Exited \<or> Exited \<in> set (tp_workers p)" for w
    using set_update_subset_insert [of "tp_workers p" i w] by auto
  show ?thesis
  proof (cases "tp_queue p")
    case Nil
    with wake i have "p' = p\<lparr>tp_workers := (tp_workers p)[i := Exited]\<rparr>" "tp_stopping p"
      by (auto simp: worker_wake_def split: if_splits)
    with inv Nil upd [of Exited] len [of Exited] show ?thesis by (auto simp: pool_inv_def)
  next
    case (Cons t q)
    show ?thesis
    proof (cases "tp_stopping p \<and> tp_discard p")
      case True
      with wake i Cons have "p' = p\<lparr>tp_queue := [], tp_pending := tp_pending p - length (tp_queue p),
                tp_workers := (tp_workers p)[i := Exited], tp_discarded := tp_discarded p @ tp_queue p\<rparr>"
        by (auto simp: worker_wake_def)
      with inv True upd [of Exited] len [of Exited] show ?thesis by (auto simp: pool_inv_def)
    next
      case False
      with wake i Cons have "p' = p\<lparr>tp_queue := q, tp_workers := (tp_workers p)[i := Running t], tp_taken := tp_taken p @ [t]\<rparr>"
        by (auto simp: worker_wake_def)
      with inv Cons upd [of "Running t"] len [of "Running t"] set_upd [of "Running t"] show ?thesis
        by (auto simp: pool_inv_def)
    qed
  qed
qed

lemma pool_inv_done:
  assumes inv: "pool_inv p" and fin: "task_done i p = Some p'"
  shows "pool_inv p'"
proof -
  from fin obtain t where i: "i < length (tp_workers p)" "tp_workers p ! i = Running t"
    and p': "p' = p\<lparr>tp_workers := (tp_workers p)[i := Waiting], tp_pending := tp_pending p - 1, tp_finished := tp_finished p @ [t]\<rparr>"
    by (auto simp: task_done_def split: if_splits worker_state.splits)
  have upd: "mset (tp_running p) = add_mset t (mset (tp_running p'))"
    using running_update [OF i(1), of Waiting] i(2) by (simp add: p')
  have len: "length (tp_running p) = Suc (length (tp_running p'))"
    using arg_cong [OF upd, of size] by simp
  have "Exited \<in> set ((tp_workers p)[i := Waiting]) \<Longrightarrow> Exited \<in> set (tp_workers p)"
    using set_update_subset_insert [of "tp_workers p" i Waiting] by auto
  with inv upd len show ?thesis by (auto simp: pool_inv_def p')
qed

lemma pool_inv_step:
  assumes "pool_inv p" "pool_step p e p'"
  shows "pool_inv p'"
  using assms(2)
proof cases
  case (step_submit t)
  then have "p' = p\<lparr>tp_queue := tp_queue p @ [t], tp_pending := tp_pending p + 1, tp_submitted := tp_submitted p @ [t]\<rparr>" "\<not> tp_stopping p"
    by (auto simp: pool_submit_def split: if_splits)
  then show ?thesis using assms(1) by (auto simp: pool_inv_def)
next
  case (step_wake i)
  then show ?thesis using assms(1) pool_inv_wake by blast
next
  case (step_done i)
  then show ?thesis using assms(1) pool_inv_done by blast
next
  case step_shutdown
  then show ?thesis using assms(1) by (auto simp: pool_inv_def request_shutdown_def)
next
  case step_shutdownNow
  then show ?thesis using assms(1) by (auto simp: pool_inv_def request_shutdownNow_def)
next
  case step_join
  then show ?thesis using assms(1) by (auto simp: pool_inv_def joinAll_def split: if_splits)
qed

lemma pool_inv_new: "pool_inv (new_pool n)"
  by (simp add: pool_inv_def new_pool_def tp_running_def max_def)

interpretation pool: invariant_system pool_step pool_inv
  by unfold_locales (rule pool_inv_step)

section \<open>Progress of a shutdown\<close>

text \<open>The steps the workers take by themselves, and a measure they decrease.\<close>

fun worker_event :: "'t pool_event \<Rightarrow> bool" where
  "worker_event (Wake i) = True"
| "worker_event (Done i) = True"
| "worker_event e = False"

definition state_cost :: "'t worker_state \<Rightarrow> nat" where
  "state_cost w = (case w of Exited \<Rightarrow> 0 | Waiting \<Rightarrow> 1 | Running _ \<Rightarrow> 2)"

definition pool_cost :: "'t pool \<Rightarrow> nat" where
  "pool_cost p = 2 * length (tp_queue p) + sum_list (map state_cost (tp_workers p))"

lemma state_cost_simps [simp]: "state_cost Waiting = 1" "state_cost Exited = 0" "state_cost (Running t) = 2"
  by (simp_all add: state_cost_def)

lemma cost_update:
  assumes "i < length ws"
  shows "sum_list (map state_cost (ws[i := w])) + state_cost (ws ! i) = sum_list (map state_cost ws) + state_cost w"
  using assms elem_le_sum_list [of i "map state_cost ws"] by (simp add: map_update sum_list_update)

lemma pool_cost_falls:
  assumes "worker_event e" "pool_step p e p'"
  shows "pool_cost p' < pool_cost p"
  using assms(2,1)
proof cases
  case (step_wake i)
  then have i: "i < length (tp_workers p)" "tp_workers p ! i = Waiting" by (auto simp: worker_wake_def split: if_splits)
  have c: "sum_list (map state_cost ((tp_workers p)[i := w])) + 1 = sum_list (map state_cost (tp_workers p)) + state_cost w" for w
    using cost_update [OF i(1), of w] i(2) by simp
  show ?thesis
    using step_wake(2) i c [of Exited] c [of "Running (hd (tp_queue p))"]
    by (cases "tp_queue p") (auto simp: worker_wake_def pool_cost_def split: if_splits)
next
  case (step_done i)
  then obtain t where i: "i < length (tp_workers p)" "tp_workers p ! i = Running t"
    and p': "p' = p\<lparr>tp_workers := (tp_workers p)[i := Waiting], tp_pending := tp_pending p - 1, tp_finished := tp_finished p @ [t]\<rparr>"
    by (auto simp: task_done_def split: if_splits worker_state.splits)
  show ?thesis using cost_update [OF i(1), of Waiting] i(2) by (simp add: pool_cost_def p')
qed simp_all

lemma worker_can_step:
  assumes "tp_stopping p" "\<not> list_all (\<lambda>w. w = Exited) (tp_workers p)"
  shows "\<exists>e p'. worker_event e \<and> pool_step p e p'"
proof -
  obtain i where i: "i < length (tp_workers p)" "tp_workers p ! i \<noteq> Exited"
    using assms(2) by (auto simp: list_all_length)
  show ?thesis
  proof (cases "tp_workers p ! i")
    case Waiting
    with i assms(1) have "\<exists>p'. worker_wake i p = Some p'" by (auto simp: worker_wake_def)
    then show ?thesis by (metis step_wake worker_event.simps(1))
  next
    case (Running t)
    with i have "\<exists>p'. task_done i p = Some p'" by (auto simp: task_done_def)
    then show ?thesis by (metis step_done worker_event.simps(2))
  qed (use i in simp)
qed

text \<open>A shutdown stays requested, and so does the decision to drain.\<close>

definition stopping_inv :: "'t pool \<Rightarrow> bool" where
  "stopping_inv p \<longleftrightarrow> pool_inv p \<and> tp_stopping p"

lemma worker_step_flags:
  "worker_event e \<Longrightarrow> pool_step p e p' \<Longrightarrow> tp_stopping p' = tp_stopping p \<and> tp_discard p' = tp_discard p \<and>
    tp_submitted p' = tp_submitted p"
  by (erule pool_step.cases) (auto simp: worker_wake_def task_done_def split: if_splits worker_state.splits)

lemma stopping_step:
  assumes "stopping_inv p" "pool_step p e p'"
  shows "stopping_inv p'"
proof -
  have "pool_inv p'" using assms pool_inv_step by (auto simp: stopping_inv_def)
  moreover have "tp_stopping p'"
    using assms(2,1)
    by cases (auto simp: stopping_inv_def pool_submit_def worker_wake_def task_done_def request_shutdown_def
      request_shutdownNow_def joinAll_def split: if_splits worker_state.splits)
  ultimately show ?thesis by (simp add: stopping_inv_def)
qed

interpretation stopping_pool: terminating_system pool_step stopping_inv worker_event pool_cost
  by unfold_locales (auto intro: stopping_step pool_cost_falls)

section \<open>Running a list of events\<close>

fun pool_exec :: "'t pool \<Rightarrow> 't pool_event \<Rightarrow> 't pool option" where
  "pool_exec p (Submit t) = (case pool_submit t p of Inr p' \<Rightarrow> Some p' | Inl _ \<Rightarrow> None)"
| "pool_exec p (Wake i) = worker_wake i p"
| "pool_exec p (Done i) = task_done i p"
| "pool_exec p Shutdown = Some (request_shutdown p)"
| "pool_exec p ShutdownNow = Some (request_shutdownNow p)"
| "pool_exec p Join = (if tp_stopping p then joinAll p else None)"

fun pool_exec_all :: "'t pool \<Rightarrow> 't pool_event list \<Rightarrow> 't pool option" where
  "pool_exec_all p [] = Some p"
| "pool_exec_all p (e # es) = (case pool_exec p e of Some p' \<Rightarrow> pool_exec_all p' es | None \<Rightarrow> None)"

lemma pool_exec_iff: "pool_exec p e = Some p' \<longleftrightarrow> pool_step p e p'"
  by (cases e) (auto simp: pool_step_simps split: sum.splits)

lemma pool_exec_all_run: "pool_exec_all p es = Some p' \<Longrightarrow> run pool_step p es p'"
  by (induction es arbitrary: p) (auto simp: pool_exec_iff intro: run_Cons split: option.splits)

section \<open>Properties\<close>

text \<open>C25. In every run of the pool no task is lost and none runs twice: what was submitted was taken in the
  order of submission, was discarded, or is still queued; what was taken is finished or running; and
  the pool counts as idle exactly when nothing is queued or running.\<close>

theorem pool_exactly_once:
  assumes "run pool_step (new_pool n) es p"
  shows "tp_submitted p = tp_taken p @ tp_discarded p @ tp_queue p \<and>
    mset (tp_submitted p) = mset (tp_finished p) + mset (tp_running p) + mset (tp_discarded p) + mset (tp_queue p) \<and>
    (waitIdle_returns p \<longleftrightarrow> tp_queue p = [] \<and> tp_running p = []) \<and>
    (\<not> tp_stopping p \<longrightarrow> tp_discarded p = [] \<and> Exited \<notin> set (tp_workers p)) \<and>
    workerCount p = max 1 n"
proof -
  have inv: "pool_inv p" using pool.run_inv [OF assms pool_inv_new] .
  have "length (tp_workers p) = max 1 n"
    by (rule pool.run_mono [OF _ assms pool_inv_new])
      (auto simp: new_pool_def pool_submit_def worker_wake_def task_done_def request_shutdown_def request_shutdownNow_def joinAll_def
        elim!: pool_stepE split: if_splits worker_state.splits)
  with inv show ?thesis by (auto simp: pool_inv_def waitIdle_returns_def workerCount_def)
qed

definition sample_events :: "nat pool_event list" where
  "sample_events = [Submit 7, Submit 8, Wake 1, Submit 9, Done 1, Wake 0, Shutdown, Done 0, Wake 1, Wake 0, Done 1, Wake 1, Join]"

definition sample_pool :: "nat pool" where
  "sample_pool = \<lparr>tp_queue = [], tp_workers = [Exited, Exited], tp_stopping = True, tp_discard = False, tp_pending = 0,
      tp_joined = True, tp_submitted = [7, 8, 9], tp_taken = [7, 8, 9], tp_finished = [7, 8, 9], tp_discarded = []\<rparr>"

lemma sample_pool_run: "run pool_step (new_pool 2) sample_events sample_pool"
  by (rule pool_exec_all_run)
    (simp add: sample_events_def sample_pool_def new_pool_def pool_submit_def worker_wake_def task_done_def request_shutdown_def
      joinAll_def numeral_2_eq_2)

theorem pool_exactly_once_witness:
  "tp_submitted sample_pool = tp_taken sample_pool @ tp_discarded sample_pool @ tp_queue sample_pool \<and>
    mset (tp_submitted sample_pool) = mset (tp_finished sample_pool) + mset (tp_running sample_pool)
      + mset (tp_discarded sample_pool) + mset (tp_queue sample_pool) \<and>
    waitIdle_returns sample_pool = (tp_queue sample_pool = [] \<and> tp_running sample_pool = []) \<and> workerCount sample_pool = max 1 2"
  using pool_exactly_once [OF sample_pool_run] by (elim conjE) (intro conjI; assumption)

lemma run_without_discard:
  "run pool_step p es p' \<Longrightarrow> ShutdownNow \<notin> set es \<Longrightarrow> \<not> tp_discard p \<and> tp_discarded p = [] \<Longrightarrow>
    \<not> tp_discard p' \<and> tp_discarded p' = []"
proof (induction rule: run.induct)
  case (run_Cons s e s' es s'')
  from run_Cons.hyps(1) run_Cons.prems have "\<not> tp_discard s' \<and> tp_discarded s' = []"
    by cases (auto simp: pool_submit_def worker_wake_def task_done_def request_shutdown_def joinAll_def
        split: if_splits worker_state.splits)
  with run_Cons show ?case by simp
qed simp

lemma all_exited_empty:
  assumes "pool_inv p" "list_all (\<lambda>w. w = Exited) (tp_workers p)"
  shows "tp_queue p = [] \<and> tp_running p = []"
proof -
  have "Exited \<in> set (tp_workers p)" using assms by (cases "tp_workers p") (auto simp: pool_inv_def)
  moreover have "tp_running p = []" using assms(2) by (auto simp: tp_running_def list_all_iff)
  ultimately show ?thesis using assms(1) by (simp add: pool_inv_def)
qed

text \<open>A pool that is shut down without \<open>shutdownNow\<close> has run every task it accepted once its workers
  are joined, and refuses any other.\<close>

theorem shutdown_drains:
  assumes "run pool_step (new_pool n) es p" "ShutdownNow \<notin> set es" "list_all (\<lambda>w. w = Exited) (tp_workers p)"
  shows "tp_taken p = tp_submitted p \<and> mset (tp_finished p) = mset (tp_submitted p) \<and> waitIdle_returns p \<and>
    (\<forall>t. pool_submit t p = Inl ''ThreadPool::submit called after shutdown'') \<and> joinAll p \<noteq> None"
proof -
  have inv: "pool_inv p" using pool.run_inv [OF assms(1) pool_inv_new] .
  have "tp_discarded p = []" using run_without_discard [OF assms(1,2)] by (simp add: new_pool_def)
  moreover have "Exited \<in> set (tp_workers p)" using inv assms(3) by (cases "tp_workers p") (auto simp: pool_inv_def)
  ultimately show ?thesis
    using inv all_exited_empty [OF inv assms(3)] assms(3)
    by (auto simp: pool_inv_def waitIdle_returns_def pool_submit_def joinAll_def)
qed

theorem shutdown_drains_witness:
  "tp_taken sample_pool = tp_submitted sample_pool \<and> mset (tp_finished sample_pool) = mset (tp_submitted sample_pool) \<and>
    waitIdle_returns sample_pool \<and> (\<forall>t. pool_submit t sample_pool = Inl ''ThreadPool::submit called after shutdown'') \<and>
    joinAll sample_pool \<noteq> None"
  by (rule shutdown_drains [OF sample_pool_run]) (simp_all add: sample_events_def sample_pool_def)

text \<open>Once a shutdown is requested, the workers, left to themselves, take a bounded number of steps and
  always reach the point where joining them succeeds: no worker is left waiting.\<close>

theorem shutdown_terminates:
  assumes "run pool_step (new_pool n) es p" "tp_stopping p"
  shows "(\<forall>fs q. list_all worker_event fs \<and> run pool_step p fs q \<longrightarrow> length fs \<le> 2 * length (tp_queue p) + 2 * workerCount p) \<and>
    (\<exists>fs q. list_all worker_event fs \<and> run pool_step p fs q \<and> joinAll q \<noteq> None)"
proof -
  have inv: "stopping_inv p" using pool.run_inv [OF assms(1) pool_inv_new] assms(2) by (simp add: stopping_inv_def)
  have "sum_list (map state_cost ws) \<le> 2 * length ws" for ws :: "'a worker_state list"
    by (induction ws) (auto simp: state_cost_def split: worker_state.split)
  then have "pool_cost p \<le> 2 * length (tp_queue p) + 2 * workerCount p" by (simp add: pool_cost_def workerCount_def)
  then have "length fs \<le> 2 * length (tp_queue p) + 2 * workerCount p" if "list_all worker_event fs" "run pool_step p fs q" for fs q
    using stopping_pool.run_length [OF that(2) inv that(1)] by simp
  moreover have "\<exists>fs q. list_all worker_event fs \<and> run pool_step p fs q \<and> joinAll q \<noteq> None"
    by (rule stopping_pool.runs_to_rest [OF inv])
      (use worker_can_step in \<open>auto simp: stopping_inv_def joinAll_def split: if_splits\<close>)
  ultimately show ?thesis by blast
qed

definition stopping_events :: "nat pool_event list" where
  "stopping_events = [Submit 7, Submit 8, Wake 1, ShutdownNow]"

definition stopping_sample :: "nat pool" where
  "stopping_sample = \<lparr>tp_queue = [8], tp_workers = [Waiting, Running 7], tp_stopping = True, tp_discard = True, tp_pending = 2,
      tp_joined = False, tp_submitted = [7, 8], tp_taken = [7], tp_finished = [], tp_discarded = []\<rparr>"

theorem shutdown_terminates_witness:
  "\<exists>fs q. list_all worker_event fs \<and> run pool_step stopping_sample fs q \<and> joinAll q \<noteq> None"
proof -
  have "run pool_step (new_pool 2) stopping_events stopping_sample"
    by (rule pool_exec_all_run)
      (simp add: stopping_events_def stopping_sample_def new_pool_def pool_submit_def worker_wake_def request_shutdownNow_def numeral_2_eq_2)
  from shutdown_terminates [OF this] show ?thesis by (simp add: stopping_sample_def)
qed

text \<open>
  A \<open>shutdown\<close> that arrives after \<open>shutdownNow\<close>, before a worker has dropped the queue, revokes the
  decision to discard: the queued task runs.
\<close>

lemma shutdown_revokes_discard:
  "pool_exec_all (new_pool 1) [Submit (7 :: nat), ShutdownNow, Shutdown, Wake 0, Done 0] =
    Some \<lparr>tp_queue = [], tp_workers = [Waiting], tp_stopping = True, tp_discard = False, tp_pending = 0,
      tp_joined = False, tp_submitted = [7], tp_taken = [7], tp_finished = [7], tp_discarded = []\<rparr>"
  by (simp add: new_pool_def pool_submit_def worker_wake_def task_done_def request_shutdown_def request_shutdownNow_def)

end
