(* ===== verification/Execution.thy ===== *)
theory Execution
  imports Classifier Test_Result Cancel_Token Logger
begin

text \<open>
  One execution of a test body (\<open>src/execution/TestRunner.cpp\<close>, first half, and
  \<open>src/core/TestContext.cpp\<close>): the context a test writes to, \<open>executeBody\<close>, the bounded wait
  \<open>awaitBoundedBody\<close>, the verdicts that replace the body's own, and the orphan reaper.

  A test is foreign code. What one execution of it did is an observation: for each phase the calls
  it made on its context and the exception it left with, if any, and the records it logged. All
  theorems hold for every observation, whatever the test looked at to decide what to do. What the
  rest of the process does meanwhile is a list of events on the two cancellation sources.
\<close>

section \<open>The test context\<close>

record test_context =
  cx_facts :: "(string \<times> json) list"
  cx_tags :: "string list"
  cx_notes :: "string list"

definition new_context :: test_context where
  "new_context = \<lparr>cx_facts = [], cx_tags = [], cx_notes = []\<rparr>"

definition addMetadata :: "string \<Rightarrow> json \<Rightarrow> test_context \<Rightarrow> test_context" where
  "addMetadata key v cx = cx\<lparr>cx_facts := alist_set key v (cx_facts cx)\<rparr>"

definition addTag :: "string \<Rightarrow> test_context \<Rightarrow> test_context" where
  "addTag tag cx = (if tag \<in> set (cx_tags cx) then cx else cx\<lparr>cx_tags := cx_tags cx @ [tag]\<rparr>)"

definition addNote :: "string \<Rightarrow> test_context \<Rightarrow> test_context" where
  "addNote note cx = cx\<lparr>cx_notes := cx_notes cx @ [note]\<rparr>"

definition effectiveTimeout :: "test_metadata \<Rightarrow> i64 \<Rightarrow> i64" where
  "effectiveTimeout md defaultTimeoutMs = (if 0 < sint (md_timeoutMs md) then md_timeoutMs md else defaultTimeoutMs)"

datatype context_op = AddMetadata string json | AddTag string | AddNote string

fun context_step :: "context_op \<Rightarrow> test_context \<Rightarrow> test_context" where
  "context_step (AddMetadata key v) = addMetadata key v"
| "context_step (AddTag tag) = addTag tag"
| "context_step (AddNote note) = addNote note"

section \<open>executeBody\<close>

text \<open>What a phase left with: nothing, an exception, or an object that is no \<open>std::exception\<close>.\<close>

datatype thrown = Returned | ThrewStd test_exception | ThrewOther

record body_script =
  bs_setUp :: "context_op list"
  bs_setUpThrew :: thrown
  bs_execute :: "context_op list"
  bs_executeThrew :: thrown
  bs_tearDown :: "context_op list"
  bs_records :: "log_record list"

definition classify_into :: "classification \<Rightarrow> test_result \<Rightarrow> test_result" where
  "classify_into k r = r\<lparr>r_status := cl_status k, r_category := cl_category k,
     r_errorMessage := cl_message k, r_errorDetail := cl_detail k\<rparr>"

fun catch_body :: "bool \<Rightarrow> thrown \<Rightarrow> test_result \<Rightarrow> test_result" where
  "catch_body setUpSucceeded Returned r = r\<lparr>r_status := Passed, r_category := NoFailure\<rparr>"
| "catch_body setUpSucceeded (ThrewStd e) r =
     (let r = classify_into (fromException e) r
      in if \<not> setUpSucceeded \<and> r_status r = Failed
         then r\<lparr>r_status := Error, r_errorDetail := ''failure occurred during setUp'' @ CHR 0x0A # r_errorDetail r\<rparr>
         else r)"
| "catch_body setUpSucceeded ThrewOther r = classify_into fromUnknownException r"

definition executeBody :: "body_script \<Rightarrow> test_result \<Rightarrow> test_context \<Rightarrow> test_result \<times> test_context \<times> string list" where
  "executeBody b r cx =
     (let logs = capture_lines (fold capture_push (bs_records b) (200, []));
          cx = fold context_step (bs_setUp b) cx
      in if bs_setUpThrew b \<noteq> Returned then (catch_body False (bs_setUpThrew b) r, cx, logs)
         else (let cx = fold context_step (bs_execute b) cx;
                   r = catch_body True (bs_executeThrew b) r;
                   cx = fold context_step (bs_tearDown b) cx
               in (r, cx, logs)))"

section \<open>The cancellation sources of a run and of a test\<close>

record sources =
  src_run :: cancel_state
  src_test :: cancel_state

text \<open>
  What other threads do: \<open>runCancellation->cancel\<close> (a request, or a fail-fast) and the part of
  \<open>cancelAllActive\<close> that reaches this test.
\<close>

datatype env_event = CancelRun string | CancelTest string

fun env_step :: "env_event \<Rightarrow> sources \<Rightarrow> sources" where
  "env_step (CancelRun reason) s = s\<lparr>src_run := source_cancel reason (src_run s)\<rparr>"
| "env_step (CancelTest reason) s = s\<lparr>src_test := source_cancel reason (src_test s)\<rparr>"

section \<open>awaitBoundedBody\<close>

text \<open>
  One turn of the loop observes the clock (nanoseconds), and, when it waits, the events meanwhile
  and whether the body was finished when the wait ended.
\<close>

record poll =
  po_now :: int
  po_events :: "env_event list"
  po_ready :: bool

definition poll_slice :: "int \<Rightarrow> int \<Rightarrow> int" where
  "poll_slice deadline now = min 25 (tdiv (deadline - now) 1000000)"

definition forward_cancellation :: "sources \<Rightarrow> sources" where
  "forward_cancellation s =
     (if token_isCancelled (Some (src_run s)) \<and> \<not> token_isCancelled (Some (src_test s))
      then s\<lparr>src_test := source_cancel (token_reason (Some (src_run s))) (src_test s)\<rparr> else s)"

text \<open>\<open>None\<close>: the observation ends while the loop is still waiting.\<close>

fun poll_loop :: "int \<Rightarrow> poll list \<Rightarrow> sources \<Rightarrow> (bool \<times> sources) option" where
  "poll_loop deadline [] s = None"
| "poll_loop deadline (p # ps) s =
     (if deadline \<le> po_now p then Some (False, s)
      else let s = fold env_step (po_events p) s
           in if po_ready p then Some (True, s) else poll_loop deadline ps (forward_cancellation s))"

record await_obs =
  ao_start :: int
  ao_polls :: "poll list"
  ao_graceEvents :: "env_event list"
  ao_graceReady :: bool

record body_outcome =
  bo_completed :: bool
  bo_deadlineExceeded :: bool

text \<open>
  Why an attempt has no result: the observation ends while the attempt waits, the clock or a
  conversion is out of range, or an exception leaves the attempt (one of the factory, which is called
  outside every \<open>try\<close>).
\<close>

datatype stuck = StillWaiting | UndefinedBehaviour | Thrown "test_exception option"

definition deadline_of :: "int \<Rightarrow> i64 \<Rightarrow> int option" where
  "deadline_of now timeoutMs =
     (let span = sint timeoutMs * 1000000 in if in_i64 span \<and> in_i64 (now + span) then Some (now + span) else None)"

definition deadline_reason :: "i64 \<Rightarrow> string" where
  "deadline_reason timeoutMs = ''deadline of '' @ show_int (sint timeoutMs) @ ''ms exceeded''"

definition awaitBoundedBody :: "await_obs \<Rightarrow> i64 \<Rightarrow> string \<Rightarrow> sources \<Rightarrow> string list \<Rightarrow>
    stuck + (body_outcome \<times> sources \<times> string list)" where
  "awaitBoundedBody obs timeoutMs name s orphans =
     (case deadline_of (ao_start obs) timeoutMs of
        None \<Rightarrow> Inl UndefinedBehaviour
      | Some deadline \<Rightarrow>
          (case poll_loop deadline (ao_polls obs) s of
             None \<Rightarrow> Inl StillWaiting
           | Some (True, s) \<Rightarrow> Inr (\<lparr>bo_completed = True, bo_deadlineExceeded = False\<rparr>, s, orphans)
           | Some (False, s) \<Rightarrow>
               (let s = s\<lparr>src_test := source_cancel (deadline_reason timeoutMs) (src_test s)\<rparr>;
                    s = fold env_step (ao_graceEvents obs) s
                in Inr (\<lparr>bo_completed = ao_graceReady obs, bo_deadlineExceeded = True\<rparr>, s,
                     if ao_graceReady obs then orphans else orphans @ [name]))))"

section \<open>Verdicts that replace the body's\<close>

text \<open>\<open>metadata.set\<close> on the object every result starts with.\<close>

definition set_fact :: "string \<Rightarrow> json \<Rightarrow> test_result \<Rightarrow> test_result" where
  "set_fact key v r = (case json_set (r_metadata r) key v of Inr m \<Rightarrow> r\<lparr>r_metadata := m\<rparr> | Inl _ \<Rightarrow> r)"

definition abandoned_detail :: string where
  "abandoned_detail =
     ''The test body is still running on a background thread. TestForge never forcibly ''
     @ ''terminates a thread (see docs/concurrency.md), so the thread is left to finish and ''
     @ ''is reported again at shutdown. Make the test cooperative by calling ''
     @ ''ctx.throwIfCancelled() inside its loops, or ctx.sleepFor() instead of ''
     @ ''std::this_thread::sleep_for.''"

definition describeAbandonedTest :: "test_result \<Rightarrow> i64 \<Rightarrow> int \<Rightarrow> test_result" where
  "describeAbandonedTest r timeoutMs attempt =
     set_fact ''abandoned_thread'' (JBool True)
      (set_fact ''deadline_exceeded'' (JBool True)
       (set_fact ''attempt'' (JInt (word_of_int attempt))
        (set_fact ''timeout_ms'' (JInt timeoutMs)
         (r\<lparr>r_status := TimedOut, r_category := TimeoutFailure,
            r_errorMessage := ''test exceeded its '' @ show_int (sint timeoutMs) @ ''ms deadline and did not respond to cancellation'',
            r_errorDetail := abandoned_detail\<rparr>))))"

definition grace_detail :: string where
  "grace_detail =
     ''The test did not observe cancellation and ran to completion after the deadline ''
     @ ''had already passed. Add a ctx.throwIfCancelled() checkpoint, or use ''
     @ ''ctx.sleepFor() instead of std::this_thread::sleep_for, so it can stop when ''
     @ ''asked. See docs/concurrency.md.''"

definition cancelled_detail :: string where
  "cancelled_detail =
     ''The run was cancelled while this test was executing, so its outcome was discarded ''
     @ ''rather than recorded as a pass or a failure.''"

definition overrideVerdictForCancellation :: "test_result \<Rightarrow> bool \<Rightarrow> bool \<Rightarrow> i64 \<Rightarrow> string \<Rightarrow> test_result" where
  "overrideVerdictForCancellation r deadlineExceeded cancelledByRun timeoutMs reason =
     (if deadlineExceeded then
        (let unwoundCleanly = (r_status r = TimedOut);
             r = r\<lparr>r_status := TimedOut, r_category := TimeoutFailure\<rparr>;
             r = (if \<not> unwoundCleanly
                  then r\<lparr>r_errorMessage := ''test exceeded its '' @ show_int (sint timeoutMs) @
                            ''ms deadline and only finished during the cancellation grace period'',
                         r_errorDetail := grace_detail\<rparr>
                  else r)
         in set_fact ''finished_in_grace_period'' (JBool True) (set_fact ''deadline_exceeded'' (JBool True) r))
      else if cancelledByRun then
        set_fact ''run_cancelled'' (JBool True)
          (r\<lparr>r_status := Skipped, r_category := NoFailure, r_errorMessage := ''cancelled: '' @ reason,
             r_errorDetail := cancelled_detail\<rparr>)
      else r)"

definition render_notes :: "string list \<Rightarrow> string" where
  "render_notes notes = concat (map (\<lambda>note. CHR 0x0A # ''  note: '' @ note) notes)"

definition add_tag_once :: "string \<Rightarrow> string list \<Rightarrow> string list" where
  "add_tag_once tag tags = (if tag \<in> set tags then tags else tags @ [tag])"

definition applyContextOutput :: "test_context \<Rightarrow> test_result \<Rightarrow> test_result" where
  "applyContextOutput cx r =
     (let r = fold (\<lambda>(key, v). set_fact key v) (cx_facts cx) r;
          r = r\<lparr>r_tags := fold add_tag_once (cx_tags cx) (r_tags r)\<rparr>
      in if cx_notes cx \<noteq> [] then r\<lparr>r_errorDetail := r_errorDetail r @ render_notes (cx_notes cx)\<rparr> else r)"

section \<open>The orphan reaper\<close>

text \<open>
  An orphan is its name and the time at which its thread ends, if ever. \<open>wait_for(d)\<close> returns when
  the thread has ended or \<open>d\<close> is over, whichever is first; the code in between takes no time.
\<close>

definition remaining_wait :: "int \<Rightarrow> int \<Rightarrow> int" where
  "remaining_wait deadline now = (if deadline \<le> now then 0 else tdiv (deadline - now) 1000000)"

fun drain_loop :: "int \<Rightarrow> int \<Rightarrow> (string \<times> int option) list \<Rightarrow> string list \<times> int" where
  "drain_loop deadline now [] = ([], now)"
| "drain_loop deadline now ((name, ends) # pending) =
     (let limit = now + remaining_wait deadline now * 1000000
      in case ends of
           Some t \<Rightarrow>
             if t \<le> limit then drain_loop deadline (max now t) pending
             else (case drain_loop deadline limit pending of (stuck_names, t') \<Rightarrow> (name # stuck_names, t'))
         | None \<Rightarrow> (case drain_loop deadline limit pending of (stuck_names, t') \<Rightarrow> (name # stuck_names, t')))"

definition drain :: "int \<Rightarrow> i64 \<Rightarrow> (string \<times> int option) list \<Rightarrow> string list \<times> int" where
  "drain now grace orphans = drain_loop (now + sint grace * 1000000) now orphans"

end
