(* ===== verification/Runner.thy ===== *)
theory Runner
  imports Execution Registry Selector
begin

text \<open>
  The runner (\<open>src/execution/TestRunner.cpp\<close>, second half): one attempt (\<open>runOne\<close>), the retry
  policy, the handling of results, and a whole run on one worker. \<open>Schedule\<close> has the parallel run.

  An attempt is given by what it observes: the clock, the worker, the body and the events on the
  cancellation sources while it lasts. The runner's own state is the cancellation source of the
  run, the names in the reaper, the flag that stops scheduling, the results, and the sequence of
  effects on the observers and the repository. Failures of the repository are caught and logged by
  the code, so they change nothing here.
\<close>

section \<open>One attempt\<close>

record attempt_obs =
  at_worker :: string
  at_started :: int
  at_finished :: int
  at_elapsed :: i64
  at_armed :: int
  at_before :: "env_event list"
  at_script :: body_script
  at_during :: "env_event list"
  at_await :: await_obs

definition finish :: "attempt_obs \<Rightarrow> test_result \<Rightarrow> test_result" where
  "finish obs r = r\<lparr>r_endTime := at_finished obs, r_duration := at_elapsed obs\<rparr>"

text \<open>The result before anything is known of the test.\<close>

definition blank_result :: "test_metadata \<Rightarrow> string \<Rightarrow> int \<Rightarrow> attempt_obs \<Rightarrow> test_result" where
  "blank_result md rid attempt obs =
     (make_result (at_started obs) (md_suite md) (md_name md) Error)
       \<lparr>r_runId := rid, r_attempt := attempt, r_tags := md_tags md, r_worker := at_worker obs, r_startTime := at_started obs\<rparr>"

definition disabled_result :: "test_metadata \<Rightarrow> test_result \<Rightarrow> test_result" where
  "disabled_result md r = r\<lparr>r_status := Skipped, r_category := NoFailure,
     r_errorMessage := (if md_disabledReason md = [] then ''test is disabled'' else md_disabledReason md)\<rparr>"

definition missing_result :: "test_result \<Rightarrow> test_result" where
  "missing_result r = r\<lparr>r_status := Error, r_category := FrameworkFailure,
     r_errorMessage := ''test is registered but its factory produced nothing''\<rparr>"

definition not_run_result :: "string \<Rightarrow> test_result \<Rightarrow> test_result" where
  "not_run_result reason r = set_fact ''run_cancelled'' (JBool True)
     (r\<lparr>r_status := Skipped, r_category := NoFailure, r_errorMessage := ''not run: '' @ reason\<rparr>)"

text \<open>What is made of a body that has finished; \<open>None\<close> as for \<open>refine\<close>.\<close>

definition refine_result :: "test_result \<Rightarrow> test_result option" where
  "refine_result r =
     (if isFailure (r_status r) then map_option (\<lambda>c. r\<lparr>r_category := c\<rparr>) (refine (r_category r) (r_metadata r)) else Some r)"

definition completed_result :: "attempt_obs \<Rightarrow> int \<Rightarrow> i64 \<Rightarrow> bool \<Rightarrow> sources \<Rightarrow> test_result \<Rightarrow> test_result option" where
  "completed_result obs attempt timeoutMs deadlineExceeded s blank =
     (case executeBody (at_script obs) blank new_context of
        (r, cx, logs) \<Rightarrow>
          (let r = r\<lparr>r_logs := logs, r_worker := at_worker obs, r_attempt := attempt\<rparr>;
               cancelledByRun = (token_isCancelled (Some (src_test s)) \<and> \<not> deadlineExceeded);
               r = overrideVerdictForCancellation r deadlineExceeded cancelledByRun timeoutMs (token_reason (Some (src_run s)));
               r = applyContextOutput cx r
           in map_option (\<lambda>r. finish obs (set_fact ''attempt'' (JInt (word_of_int attempt)) (set_fact ''timeout_ms'' (JInt timeoutMs) r)))
                (refine_result r)))"

text \<open>The result, the run's source and the reaper's names afterwards.\<close>

type_synonym attempt_outcome = "test_result \<times> cancel_state \<times> string list"

definition run_bounded :: "attempt_obs \<Rightarrow> string \<Rightarrow> int \<Rightarrow> i64 \<Rightarrow> sources \<Rightarrow> test_result \<Rightarrow> string list \<Rightarrow> stuck + attempt_outcome" where
  "run_bounded obs name attempt timeoutMs s blank orphans =
     (case awaitBoundedBody (at_await obs) timeoutMs name s orphans of
        Inl e \<Rightarrow> Inl e
      | Inr (outcome, s, orphans) \<Rightarrow>
          if \<not> bo_completed outcome
          then Inr (finish obs (describeAbandonedTest blank timeoutMs attempt), src_run s, orphans)
          else (case completed_result obs attempt timeoutMs (bo_deadlineExceeded outcome) s blank of
             None \<Rightarrow> Inl UndefinedBehaviour
           | Some r \<Rightarrow> Inr (r, src_run s, orphans)))"

definition run_inline :: "attempt_obs \<Rightarrow> int \<Rightarrow> i64 \<Rightarrow> sources \<Rightarrow> test_result \<Rightarrow> string list \<Rightarrow> stuck + attempt_outcome" where
  "run_inline obs attempt timeoutMs s blank orphans =
     (let s = fold env_step (at_during obs) s
      in case completed_result obs attempt timeoutMs False s blank of
           None \<Rightarrow> Inl UndefinedBehaviour
         | Some r \<Rightarrow> Inr (r, src_run s, orphans))"

definition runOne :: "i64 \<Rightarrow> 'c registry \<Rightarrow> test_metadata \<Rightarrow> string \<Rightarrow> int \<Rightarrow> attempt_obs \<Rightarrow> cancel_state \<Rightarrow> string list \<Rightarrow>
    stuck + attempt_outcome" where
  "runOne defaultTimeoutMs reg md rid attempt obs run_source orphans =
     (let blank = blank_result md rid attempt obs
      in if \<not> md_enabled md then Inr (finish obs (disabled_result md blank), run_source, orphans)
         else case registry_create reg (qualifiedName md) of
           FactoryThrew e \<Rightarrow> Inl (Thrown e)
         | Made None \<Rightarrow> Inr (finish obs (missing_result blank), run_source, orphans)
         | Made (Some test) \<Rightarrow> (let timeoutMs = effectiveTimeout md defaultTimeoutMs;
                   bounded = (0 < sint timeoutMs);
                   armed = deadline_of (at_armed obs) timeoutMs
               in if bounded \<and> armed = None then Inl UndefinedBehaviour
                  else (let test_source = (if bounded then source_setDeadline armed new_source else new_source);
                            s = fold env_step (at_before obs) \<lparr>src_run = run_source, src_test = test_source\<rparr>
                        in if token_isCancelled (Some (src_run s))
                           then Inr (finish obs (not_run_result (token_reason (Some (src_run s))) blank), src_run s, orphans)
                           else if bounded then run_bounded obs (qualifiedName md) attempt timeoutMs s blank orphans
                           else run_inline obs attempt timeoutMs s blank orphans)))"

section \<open>Retries and the handling of results\<close>

record run_options =
  ro_failFast :: bool
  ro_retryFailed :: int
  ro_persist :: bool
  ro_collect :: bool
  ro_workers :: int

datatype run_effect = TestStarted test_metadata | SavedResult test_result | TestFinished test_result

record run_state =
  rs_source :: cancel_state
  rs_orphans :: "string list"
  rs_stop :: bool
  rs_results :: "test_result list"
  rs_effects :: "run_effect list"

definition emit :: "run_effect \<Rightarrow> run_state \<Rightarrow> run_state" where
  "emit e st = st\<lparr>rs_effects := rs_effects st @ [e]\<rparr>"

definition save_result :: "run_options \<Rightarrow> test_result \<Rightarrow> run_state \<Rightarrow> run_state" where
  "save_result opts r st = (if ro_persist opts then emit (SavedResult r) st else st)"

text \<open>\<open>collected\<close> is what the diagnostic collector returns, if there is one.\<close>

definition handleResult :: "run_options \<Rightarrow> json option \<Rightarrow> test_result \<Rightarrow> run_state \<Rightarrow> run_state" where
  "handleResult opts collected r st =
     (let r = (case collected of
                 Some d \<Rightarrow> if isFailure (r_status r) \<and> ro_collect opts then r\<lparr>r_diagnostics := d\<rparr> else r
               | None \<Rightarrow> r);
          st = st\<lparr>rs_results := rs_results st @ [r]\<rparr>;
          st = emit (TestFinished r) (save_result opts r st)
      in if ro_failFast opts \<and> isFailure (r_status r)
         then st\<lparr>rs_stop := True, rs_source := source_cancel (''fail-fast: '' @ result_name r @ '' failed'') (rs_source st)\<rparr>
         else st)"

text \<open>
  The loop over the attempts, from \<open>attempt\<close> on; \<open>left\<close> counts those still allowed after it. The
  observation of the n-th attempt is \<open>obs n\<close>.
\<close>

fun retry_loop :: "i64 \<Rightarrow> 'c registry \<Rightarrow> run_options \<Rightarrow> test_metadata \<Rightarrow> string \<Rightarrow> (nat \<Rightarrow> attempt_obs) \<Rightarrow>
    nat \<Rightarrow> nat \<Rightarrow> run_state \<Rightarrow> stuck + (test_result \<times> run_state)" where
  "retry_loop dt reg opts md rid obs attempt left st =
     (case runOne dt reg md rid (int attempt) (obs attempt) (rs_source st) (rs_orphans st) of
        Inl e \<Rightarrow> Inl e
      | Inr (r, source, orphans) \<Rightarrow>
          (let st = st\<lparr>rs_source := source, rs_orphans := orphans\<rparr>
           in if \<not> isFailure (r_status r) then Inr (if 1 < attempt then r\<lparr>r_flaky := True\<rparr> else r, st)
              else if 0 < left \<and> \<not> isRetryable (r_category r) then Inr (r, st)
              else (case left of
                 0 \<Rightarrow> Inr (r, st)
               | Suc left' \<Rightarrow> retry_loop dt reg opts md rid obs (attempt + 1) left' (save_result opts r st))))"

declare retry_loop.simps [simp del]

definition executeWithRetries :: "i64 \<Rightarrow> 'c registry \<Rightarrow> run_options \<Rightarrow> string \<Rightarrow> (nat \<Rightarrow> attempt_obs) \<Rightarrow> json option \<Rightarrow>
    test_metadata \<Rightarrow> run_state \<Rightarrow> stuck + run_state" where
  "executeWithRetries dt reg opts rid obs collected md st =
     (if rs_stop st then Inr st
      else (case retry_loop dt reg opts md rid obs 1 (nat (max 0 (ro_retryFailed opts))) (emit (TestStarted md) st) of
         Inl e \<Rightarrow> Inl e
       | Inr (r, st) \<Rightarrow> Inr (handleResult opts collected r st)))"

section \<open>A run on one worker\<close>

text \<open>What is observed of each test: its attempts, and the diagnostics collected for it.\<close>

type_synonym run_obs = "string \<Rightarrow> (nat \<Rightarrow> attempt_obs) \<times> json option"

fun run_tests :: "i64 \<Rightarrow> 'c registry \<Rightarrow> run_options \<Rightarrow> string \<Rightarrow> run_obs \<Rightarrow> test_metadata list \<Rightarrow> run_state \<Rightarrow> stuck + run_state" where
  "run_tests dt reg opts rid obs [] st = Inr st"
| "run_tests dt reg opts rid obs (md # mds) st =
     (case obs (qualifiedName md) of
        (attempts, collected) \<Rightarrow>
          (case executeWithRetries dt reg opts rid attempts collected md st of
             Inl e \<Rightarrow> Inl e
           | Inr st \<Rightarrow> run_tests dt reg opts rid obs mds st))"

definition new_run_state :: "cancel_state \<Rightarrow> string list \<Rightarrow> run_state" where
  "new_run_state source orphans = \<lparr>rs_source = source, rs_orphans = orphans, rs_stop = False, rs_results = [], rs_effects = []\<rparr>"

definition run_workers_of :: "run_options \<Rightarrow> int \<Rightarrow> int" where
  "run_workers_of opts effectiveWorkers = max 1 (if 0 < ro_workers opts then ro_workers opts else effectiveWorkers)"

text \<open>
  The end of \<open>run\<close>: why it was cancelled, if it was, and the results in the order of their names.
  \<open>template\<close> holds what was set before the first test.
\<close>

definition finish_run :: "test_run \<Rightarrow> int \<Rightarrow> i64 \<Rightarrow> run_state \<Rightarrow> test_run" where
  "finish_run template now wall st =
     template\<lparr>run_duration := wall, run_finishedAt := now,
       run_cancellationReason := (if token_isCancelled (Some (rs_source st)) then token_reason (Some (rs_source st))
          else run_cancellationReason template),
       run_results := sort_key result_name (rs_results st)\<rparr>"

end
