(* ===== verification/Runner_Facts.thy ===== *)
theory Runner_Facts
  imports Runner
begin

text \<open>
  Properties of one attempt and of the retry policy: which verdict each way through \<open>runOne\<close> ends
  in, the bound on the wait, and what the reaper reports.
\<close>

named_theorems keeps \<open>fields that a step of the runner leaves alone\<close>

lemma set_fact_keeps [keeps]:
  "r_status (set_fact k v r) = r_status r" "r_category (set_fact k v r) = r_category r"
  "r_errorMessage (set_fact k v r) = r_errorMessage r" "r_testName (set_fact k v r) = r_testName r"
  "r_suiteName (set_fact k v r) = r_suiteName r" "r_attempt (set_fact k v r) = r_attempt r"
  "r_runId (set_fact k v r) = r_runId r" "r_errorDetail (set_fact k v r) = r_errorDetail r" "r_testId (set_fact k v r) = r_testId r"
  "r_tags (set_fact k v r) = r_tags r"
  by (simp_all add: set_fact_def split: sum.split)

lemma fold_set_fact_keeps [keeps]:
  "r_status (fold (\<lambda>(k, v). set_fact k v) kvs r) = r_status r"
  "r_category (fold (\<lambda>(k, v). set_fact k v) kvs r) = r_category r"
  "r_errorMessage (fold (\<lambda>(k, v). set_fact k v) kvs r) = r_errorMessage r"
  "r_testName (fold (\<lambda>(k, v). set_fact k v) kvs r) = r_testName r"
  "r_suiteName (fold (\<lambda>(k, v). set_fact k v) kvs r) = r_suiteName r"
  "r_attempt (fold (\<lambda>(k, v). set_fact k v) kvs r) = r_attempt r"
  by (induction kvs arbitrary: r) (auto simp: keeps split_beta)

lemma applyContextOutput_keeps [keeps]:
  "r_status (applyContextOutput cx r) = r_status r" "r_category (applyContextOutput cx r) = r_category r"
  "r_errorMessage (applyContextOutput cx r) = r_errorMessage r"
  "r_testName (applyContextOutput cx r) = r_testName r" "r_suiteName (applyContextOutput cx r) = r_suiteName r"
  "r_attempt (applyContextOutput cx r) = r_attempt r"
  by (simp_all add: applyContextOutput_def Let_def keeps)

lemma catch_body_keeps [keeps]:
  "r_testName (catch_body b t r) = r_testName r" "r_suiteName (catch_body b t r) = r_suiteName r"
  "r_metadata (catch_body b t r) = r_metadata r" "r_tags (catch_body b t r) = r_tags r"
  by (cases t; simp add: classify_into_def Let_def)+

lemma finish_keeps [keeps]:
  "r_status (finish obs r) = r_status r" "r_category (finish obs r) = r_category r"
  "r_errorMessage (finish obs r) = r_errorMessage r" "r_testName (finish obs r) = r_testName r"
  "r_suiteName (finish obs r) = r_suiteName r" "r_attempt (finish obs r) = r_attempt r" "r_metadata (finish obs r) = r_metadata r"
  "r_errorDetail (finish obs r) = r_errorDetail r"
  by (simp_all add: finish_def)

lemma overrideVerdict_keeps [keeps]:
  "r_testName (overrideVerdictForCancellation r d c t reason) = r_testName r"
  "r_suiteName (overrideVerdictForCancellation r d c t reason) = r_suiteName r"
  "r_attempt (overrideVerdictForCancellation r d c t reason) = r_attempt r"
  by (simp_all add: overrideVerdictForCancellation_def Let_def keeps)

lemma overrideVerdict_status:
  "r_status (overrideVerdictForCancellation r d c t reason) = (if d then TimedOut else if c then Skipped else r_status r)"
  "r_category (overrideVerdictForCancellation r d c t reason) = (if d then TimeoutFailure else if c then NoFailure else r_category r)"
  by (simp_all add: overrideVerdictForCancellation_def Let_def keeps)

lemma refine_result_keeps:
  "refine_result r = Some r' \<Longrightarrow> r_status r' = r_status r \<and> r_testName r' = r_testName r \<and> r_suiteName r' = r_suiteName r
     \<and> r_attempt r' = r_attempt r \<and> r_errorMessage r' = r_errorMessage r \<and> r_metadata r' = r_metadata r"
  by (auto simp: refine_result_def split: if_splits)

lemma refine_result_category:
  "refine_result r = Some r' \<Longrightarrow> if isFailure (r_status r) then sharper (r_category r') (r_category r) else r_category r' = r_category r"
proof (cases "isFailure (r_status r)")
  case True
  assume "refine_result r = Some r'"
  with True obtain c where c: "refine (r_category r) (r_metadata r) = Some c" "r_category r' = c"
    by (auto simp: refine_result_def)
  have "sharper c (r_category r)" using c(1) by (rule refine_sharper)
  with True c(2) show ?thesis by simp
qed (auto simp: refine_result_def)

lemma specificity_le_4: "specificity c \<le> 4"
  by (cases c) simp_all

lemma sharper_timeout: "sharper c TimeoutFailure \<Longrightarrow> c = TimeoutFailure"
  using specificity_le_4 [of c] by (auto simp: sharper_def)

section \<open>A finished body\<close>

definition body_result :: "attempt_obs \<Rightarrow> test_result \<Rightarrow> test_result" where
  "body_result obs blank = fst (executeBody (at_script obs) blank new_context)"

lemma completed_result_status:
  assumes "completed_result obs attempt timeoutMs d s blank = Some r"
  shows "r_status r = (if d then TimedOut else if token_isCancelled (Some (src_test s)) then Skipped else r_status (body_result obs blank))"
    and "d \<Longrightarrow> r_category r = TimeoutFailure"
    and "\<not> d \<Longrightarrow> token_isCancelled (Some (src_test s)) \<Longrightarrow> r_category r = NoFailure \<and> r_errorMessage r = ''cancelled: '' @ token_reason (Some (src_run s))"
    and "r_attempt r = attempt" and "r_testName r = r_testName blank" and "r_suiteName r = r_suiteName blank"
proof -
  obtain b cx logs where b: "executeBody (at_script obs) blank new_context = (b, cx, logs)" by (cases "executeBody (at_script obs) blank new_context")
  let ?c = "token_isCancelled (Some (src_test s)) \<and> \<not> d"
  let ?b = "b\<lparr>r_logs := logs, r_worker := at_worker obs, r_attempt := attempt\<rparr>"
  let ?o = "overrideVerdictForCancellation ?b d ?c timeoutMs (token_reason (Some (src_run s)))"
  from assms b obtain r' where r': "refine_result (applyContextOutput cx ?o) = Some r'"
    and r: "r = finish obs (set_fact ''attempt'' (JInt (word_of_int attempt)) (set_fact ''timeout_ms'' (JInt timeoutMs) r'))"
    by (auto simp: completed_result_def Let_def)
  note k = refine_result_keeps [OF r'] and cat = refine_result_category [OF r']
  have names: "r_testName b = r_testName blank" "r_suiteName b = r_suiteName blank"
    using b by (auto simp: executeBody_def Let_def keeps split: if_splits)
  show "r_status r = (if d then TimedOut else if token_isCancelled (Some (src_test s)) then Skipped else r_status (body_result obs blank))"
    using k by (simp add: r keeps overrideVerdict_status body_result_def b)
  show "r_attempt r = attempt" "r_testName r = r_testName blank" "r_suiteName r = r_suiteName blank"
    using k names by (simp_all add: r keeps)
  show "d \<Longrightarrow> r_category r = TimeoutFailure"
    using cat by (simp add: r keeps overrideVerdict_status isFailure_def sharper_timeout)
  show "\<not> d \<Longrightarrow> token_isCancelled (Some (src_test s)) \<Longrightarrow> r_category r = NoFailure \<and> r_errorMessage r = ''cancelled: '' @ token_reason (Some (src_run s))"
    using cat k by (simp add: r keeps overrideVerdict_status isFailure_def)
      (simp add: overrideVerdictForCancellation_def keeps)
qed

section \<open>The ways through an attempt\<close>

text \<open>The sources when the body is about to start.\<close>

definition started_sources :: "i64 \<Rightarrow> attempt_obs \<Rightarrow> cancel_state \<Rightarrow> sources" where
  "started_sources timeoutMs obs source =
     fold env_step (at_before obs) \<lparr>src_run = source,
       src_test = (if 0 < sint timeoutMs then source_setDeadline (deadline_of (at_armed obs) timeoutMs) new_source else new_source)\<rparr>"

text \<open>The body starts: the test is enabled, can be made, and the run is not cancelled.\<close>

definition body_starts :: "i64 \<Rightarrow> 'c registry \<Rightarrow> test_metadata \<Rightarrow> attempt_obs \<Rightarrow> cancel_state \<Rightarrow> bool" where
  "body_starts dt reg md obs source \<longleftrightarrow> md_enabled md \<and> (\<exists>test. registry_create reg (qualifiedName md) = Made (Some test)) \<and>
     \<not> cs_cancelled (src_run (started_sources (effectiveTimeout md dt) obs source))"

text \<open>How the wait for a bounded body ended: the flag of \<open>poll_loop\<close> and the sources then.\<close>

definition wait_end :: "i64 \<Rightarrow> attempt_obs \<Rightarrow> cancel_state \<Rightarrow> (bool \<times> sources) option" where
  "wait_end timeoutMs obs source =
     Option.bind (deadline_of (ao_start (at_await obs)) timeoutMs)
       (\<lambda>deadline. poll_loop deadline (ao_polls (at_await obs)) (started_sources timeoutMs obs source))"

lemma isCancelled_Some [simp]: "token_isCancelled (Some s) = cs_cancelled s" "token_reason (Some s) = cs_reason s"
  by (simp_all add: token_isCancelled_def token_reason_def)

lemma runOne_bounded:
  assumes "body_starts dt reg md obs source" "0 < sint (effectiveTimeout md dt)"
    and "runOne dt reg md rid n obs source orphans = Inr out"
  shows "run_bounded obs (qualifiedName md) n (effectiveTimeout md dt) (started_sources (effectiveTimeout md dt) obs source)
    (blank_result md rid n obs) orphans = Inr out"
  using assms by (auto simp: runOne_def Let_def body_starts_def started_sources_def split: if_splits)

lemma runOne_inline:
  assumes "body_starts dt reg md obs source" "\<not> 0 < sint (effectiveTimeout md dt)"
  shows "runOne dt reg md rid n obs source orphans =
    run_inline obs n (effectiveTimeout md dt) (started_sources (effectiveTimeout md dt) obs source) (blank_result md rid n obs) orphans"
  using assms by (auto simp: runOne_def Let_def body_starts_def started_sources_def)

lemma await_deadline:
  assumes "wait_end T obs source = Some (False, s)"
  shows "awaitBoundedBody (at_await obs) T name (started_sources T obs source) orphans =
    Inr (\<lparr>bo_completed = ao_graceReady (at_await obs), bo_deadlineExceeded = True\<rparr>,
      fold env_step (ao_graceEvents (at_await obs)) (s\<lparr>src_test := source_cancel (deadline_reason T) (src_test s)\<rparr>),
      if ao_graceReady (at_await obs) then orphans else orphans @ [name])"
  using assms by (auto simp: wait_end_def awaitBoundedBody_def Let_def split: option.splits bind_splits)

lemma await_in_time:
  assumes "wait_end T obs source = Some (True, s)"
  shows "awaitBoundedBody (at_await obs) T name (started_sources T obs source) orphans =
    Inr (\<lparr>bo_completed = True, bo_deadlineExceeded = False\<rparr>, s, orphans)"
  using assms by (auto simp: wait_end_def awaitBoundedBody_def split: option.splits bind_splits)

lemma describeAbandoned_keeps [keeps]:
  "r_status (describeAbandonedTest r T n) = TimedOut" "r_category (describeAbandonedTest r T n) = TimeoutFailure"
  by (simp_all add: describeAbandonedTest_def keeps)

text \<open>C1. A test that is past its deadline is recorded as timed out whatever its body went on to do. If the
  body ends within the grace period nothing is left behind; if not, its name goes to the reaper and
  the result does not depend on the body at all: nothing the stray thread still writes is read.\<close>

theorem deadline_is_timeout:
  assumes "runOne dt reg md rid n obs source orphans = Inr (r, source', orphans')"
    and "body_starts dt reg md obs source" "0 < sint (effectiveTimeout md dt)"
    and "wait_end (effectiveTimeout md dt) obs source = Some (False, s)"
  shows "r_status r = TimedOut \<and> r_category r = TimeoutFailure \<and>
    (if ao_graceReady (at_await obs) then orphans' = orphans
     else orphans' = orphans @ [qualifiedName md] \<and>
       (\<forall>b. runOne dt reg md rid n (obs\<lparr>at_script := b\<rparr>) source orphans = Inr (r, source', orphans')))"
proof -
  let ?T = "effectiveTimeout md dt"
  note run = runOne_bounded [OF assms(2,3,1)]
  note eval = run_bounded_def await_deadline [OF assms(4)]
  show ?thesis
  proof (cases "ao_graceReady (at_await obs)")
    case True
    with run obtain s' where "completed_result obs n ?T True s' (blank_result md rid n obs) = Some r" and "orphans' = orphans"
      by (auto simp: eval split: option.splits)
    with completed_result_status(1,2) [OF this(1)] True show ?thesis by simp
  next
    case False
    with run have r: "r = finish obs (describeAbandonedTest (blank_result md rid n obs) ?T n)"
      and o: "orphans' = orphans @ [qualifiedName md]" by (auto simp: eval)
    have "runOne dt reg md rid n (obs\<lparr>at_script := b\<rparr>) source orphans = Inr (r, source', orphans')" for b
    proof -
      have same: "started_sources ?T (obs\<lparr>at_script := b\<rparr>) source = started_sources ?T obs source"
        "wait_end ?T (obs\<lparr>at_script := b\<rparr>) source = wait_end ?T obs source"
        "blank_result md rid n (obs\<lparr>at_script := b\<rparr>) = blank_result md rid n obs"
        "finish (obs\<lparr>at_script := b\<rparr>) = finish obs" for b
        by (simp_all add: started_sources_def wait_end_def blank_result_def finish_def fun_eq_iff)
      have "run_bounded (obs\<lparr>at_script := b\<rparr>) (qualifiedName md) n ?T (started_sources ?T obs source) (blank_result md rid n obs) orphans
          = Inr (r, source', orphans')"
        using run False by (auto simp: eval same)
      moreover have "runOne dt reg md rid n (obs\<lparr>at_script := b\<rparr>) source orphans =
          run_bounded (obs\<lparr>at_script := b\<rparr>) (qualifiedName md) n ?T (started_sources ?T obs source) (blank_result md rid n obs) orphans"
        using assms(1-3) by (auto simp: runOne_def Let_def body_starts_def started_sources_def same split: if_splits)
      ultimately show ?thesis by simp
    qed
    then show ?thesis using False r o by (simp add: keeps)
  qed
qed

text \<open>The body ended before any deadline, with the sources in state \<open>s\<close>.\<close>

definition in_time :: "i64 \<Rightarrow> attempt_obs \<Rightarrow> cancel_state \<Rightarrow> sources \<Rightarrow> bool" where
  "in_time T obs source s \<longleftrightarrow>
     (if 0 < sint T then wait_end T obs source = Some (True, s)
      else s = fold env_step (at_during obs) (started_sources T obs source))"

lemma runOne_in_time:
  assumes "runOne dt reg md rid n obs source orphans = Inr (r, source', orphans')"
    and "body_starts dt reg md obs source" "in_time (effectiveTimeout md dt) obs source s"
  shows "completed_result obs n (effectiveTimeout md dt) False s (blank_result md rid n obs) = Some r"
    and "source' = src_run s" "orphans' = orphans"
proof -
  have "completed_result obs n (effectiveTimeout md dt) False s (blank_result md rid n obs) = Some r \<and> source' = src_run s \<and> orphans' = orphans"
  proof (cases "0 < sint (effectiveTimeout md dt)")
    case True
    with assms(3) have "wait_end (effectiveTimeout md dt) obs source = Some (True, s)" by (simp add: in_time_def)
    with runOne_bounded [OF assms(2) True assms(1)] show ?thesis
      by (auto simp: run_bounded_def await_in_time split: option.splits)
  next
    case False
    with assms show ?thesis by (auto simp: runOne_inline run_inline_def in_time_def Let_def split: option.splits)
  qed
  then show "completed_result obs n (effectiveTimeout md dt) False s (blank_result md rid n obs) = Some r"
    "source' = src_run s" "orphans' = orphans" by simp_all
qed

lemma fromException_Failed: "cl_status (fromException e) = Failed \<longleftrightarrow> (\<exists>m x ex ac l. e = AssertionError m x ex ac l)"
  and fromException_not_Passed: "cl_status (fromException e) \<noteq> Passed"
  and fromException_Skipped: "cl_status (fromException e) = Skipped \<longleftrightarrow> (\<exists>why. e = SkipTest why)"
  by (cases e; simp add: fromException_def Let_def)+

lemma unknown_status: "cl_status fromUnknownException = Error"
  by (simp add: fromUnknownException_def)

lemma catch_body_Passed: "r_status (catch_body b t r) = Passed \<longleftrightarrow> t = Returned"
  by (cases t) (auto simp: classify_into_def Let_def fromException_not_Passed unknown_status)

lemma catch_body_Failed:
  "r_status (catch_body b t r) = Failed \<longleftrightarrow> b \<and> (\<exists>m x ex ac l. t = ThrewStd (AssertionError m x ex ac l))"
  by (cases t) (auto simp: classify_into_def Let_def fromException_Failed unknown_status)

lemma catch_body_Skipped: "r_status (catch_body b t r) = Skipped \<longleftrightarrow> (\<exists>why. t = ThrewStd (SkipTest why))"
  by (cases t) (auto simp: classify_into_def Let_def fromException_Skipped unknown_status fromException_Failed)

lemma body_result_status:
  "r_status (body_result obs blank) = r_status
     (if bs_setUpThrew (at_script obs) = Returned then catch_body True (bs_executeThrew (at_script obs)) blank
      else catch_body False (bs_setUpThrew (at_script obs)) blank)"
  by (simp add: body_result_def executeBody_def Let_def)

text \<open>C3. A body that ends in time is judged by what it did: it passed when both phases returned, it failed
  only by an assertion of the body itself, it skipped by saying so, and anything else, an assertion
  of setUp included, is an error or a timeout. If the test was cancelled meanwhile it is recorded as
  skipped with the reason of the run, and nothing it concluded counts.\<close>

theorem verdict_in_time:
  assumes "runOne dt reg md rid n obs source orphans = Inr (r, source', orphans')"
    and "body_starts dt reg md obs source" "in_time (effectiveTimeout md dt) obs source s"
  shows "if cs_cancelled (src_test s)
    then r_status r = Skipped \<and> r_category r = NoFailure \<and> r_errorMessage r = ''cancelled: '' @ cs_reason (src_run s)
    else (let setUp = bs_setUpThrew (at_script obs); execute = bs_executeThrew (at_script obs) in
      (r_status r = Passed \<longleftrightarrow> setUp = Returned \<and> execute = Returned) \<and>
      (r_status r = Failed \<longleftrightarrow> setUp = Returned \<and> (\<exists>m x ex ac l. execute = ThrewStd (AssertionError m x ex ac l))) \<and>
      (r_status r = Skipped \<longleftrightarrow> (\<exists>why. setUp = ThrewStd (SkipTest why) \<or> setUp = Returned \<and> execute = ThrewStd (SkipTest why))))"
proof -
  have c: "completed_result obs n (effectiveTimeout md dt) False s (blank_result md rid n obs) = Some r"
    by (rule runOne_in_time [OF assms])
  show ?thesis
  proof (cases "cs_cancelled (src_test s)")
    case True
    with completed_result_status(1,3) [OF c] show ?thesis by simp
  next
    case False
    with completed_result_status(1) [OF c] have "r_status r = r_status (body_result obs (blank_result md rid n obs))" by simp
    with False show ?thesis
      by (auto simp: body_result_status catch_body_Passed catch_body_Failed catch_body_Skipped Let_def)
  qed
qed

section \<open>The bounded wait\<close>

lemma forward_tells: "cs_cancelled (src_run s) \<Longrightarrow> cs_cancelled (src_test (forward_cancellation s))"
  by (simp add: forward_cancellation_def)

lemma env_step_mono: "cs_cancelled (src_run s) \<Longrightarrow> cs_cancelled (src_run (env_step e s))"
  "cs_cancelled (src_test s) \<Longrightarrow> cs_cancelled (src_test (env_step e s))"
  by (cases e; simp add: source_cancel_def)+

lemma env_steps_mono: "cs_cancelled (src_run s) \<Longrightarrow> cs_cancelled (src_run (fold env_step es s))"
  "cs_cancelled (src_test s) \<Longrightarrow> cs_cancelled (src_test (fold env_step es s))"
  by (induction es arbitrary: s) (auto simp: env_step_mono)

lemma forward_mono: "cs_cancelled (src_test s) \<Longrightarrow> cs_cancelled (src_test (forward_cancellation s))"
  by (simp add: forward_cancellation_def)

lemma poll_loop_mono: "poll_loop deadline ps s = Some (b, s') \<Longrightarrow> cs_cancelled (src_test s) \<Longrightarrow> cs_cancelled (src_test s')"
  by (induction ps arbitrary: s) (auto simp: Let_def env_steps_mono forward_mono split: if_splits)

text \<open>Each wait that runs out took at least the time it was given: what \<open>wait_for\<close> promises.\<close>

fun waits_honoured :: "int \<Rightarrow> poll list \<Rightarrow> bool" where
  "waits_honoured deadline (p # q # ps) \<longleftrightarrow>
     (po_now p < deadline \<longrightarrow> po_now p + poll_slice deadline (po_now p) * 1000000 \<le> po_now q) \<and> waits_honoured deadline (q # ps)"
| "waits_honoured deadline ps \<longleftrightarrow> True"

text \<open>The waits the loop asks for, in milliseconds.\<close>

fun asked_waits :: "int \<Rightarrow> poll list \<Rightarrow> int list" where
  "asked_waits deadline [] = []"
| "asked_waits deadline (p # ps) =
     (if deadline \<le> po_now p then []
      else poll_slice deadline (po_now p) # (if po_ready p then [] else asked_waits deadline ps))"

lemma tdiv_pos: "0 < d \<Longrightarrow> 0 \<le> a \<Longrightarrow> tdiv a d = a div d"
  by (simp add: tdiv_def)

lemma poll_slice_bounds:
  assumes "now < deadline"
  shows "0 \<le> poll_slice deadline now" "poll_slice deadline now \<le> 25" "poll_slice deadline now * 1000000 \<le> deadline - now"
proof -
  have m: "(deadline - now) div 1000000 * 1000000 \<le> deadline - now" "0 \<le> (deadline - now) div 1000000"
    using assms div_mult_mod_eq [of "deadline - now" 1000000] by (simp_all add: pos_imp_zdiv_nonneg_iff)
  then show "0 \<le> poll_slice deadline now" "poll_slice deadline now \<le> 25" "poll_slice deadline now * 1000000 \<le> deadline - now"
    using assms by (auto simp: poll_slice_def tdiv_pos min_def)
qed

lemma asked_waits_sum:
  "waits_honoured deadline ps \<Longrightarrow> ps \<noteq> [] \<Longrightarrow> sum_list (asked_waits deadline ps) * 1000000 \<le> max 0 (deadline - po_now (hd ps))"
proof (induction deadline ps rule: waits_honoured.induct)
  case (1 deadline p q ps)
  show ?case
  proof (cases "deadline \<le> po_now p \<or> po_ready p")
    case True
    then show ?thesis using poll_slice_bounds(3) [of "po_now p" deadline] by auto
  next
    case False
    then have step: "po_now p + poll_slice deadline (po_now p) * 1000000 \<le> po_now q" using 1 by simp
    have "sum_list (asked_waits deadline (q # ps)) * 1000000 \<le> max 0 (deadline - po_now q)" using 1 by simp
    moreover have "sum_list (asked_waits deadline (p # q # ps)) = poll_slice deadline (po_now p) + sum_list (asked_waits deadline (q # ps))"
      using False by simp
    ultimately show ?thesis using step poll_slice_bounds(3) [of "po_now p" deadline] False
      by (simp only: distrib_right) (auto simp: max_def split: if_splits)
  qed
qed (auto simp: not_le intro: max.coboundedI2 poll_slice_bounds(3))

lemma poll_loop_ends: "\<exists>p \<in> set ps. deadline \<le> po_now p \<or> po_ready p \<Longrightarrow> poll_loop deadline ps s \<noteq> None"
  by (induction ps arbitrary: s) (auto simp: Let_def)

lemma asked_waits_range: "list_all (\<lambda>w. 0 \<le> w \<and> w \<le> 25) (asked_waits deadline ps)"
  by (induction ps) (auto simp: poll_slice_bounds)

text \<open>The loop that waits for a bounded test asks for slices of at most 25 ms that add up to no more than
  the timeout, returns as soon as the body is seen to be finished or the deadline to have passed,
  and hands a cancellation of the run on to the test after the slice in which it came.\<close>

theorem wait_is_bounded:
  assumes "deadline_of start T = Some deadline" "waits_honoured deadline (p # ps)" "start \<le> po_now p" "0 \<le> sint T"
  shows "sum_list (asked_waits deadline (p # ps)) \<le> sint T \<and>
    list_all (\<lambda>w. 0 \<le> w \<and> w \<le> 25) (asked_waits deadline (p # ps)) \<and>
    ((\<exists>q \<in> set (p # ps). deadline \<le> po_now q \<or> po_ready q) \<longrightarrow> poll_loop deadline (p # ps) s \<noteq> None) \<and>
    (\<forall>b s'. poll_loop deadline (p # ps) s = Some (b, s') \<and> po_now p < deadline \<and> \<not> po_ready p \<and>
       cs_cancelled (src_run (fold env_step (po_events p) s)) \<longrightarrow> cs_cancelled (src_test s'))"
proof (intro conjI impI allI)
  have "deadline = start + sint T * 1000000" using assms(1) by (auto simp: deadline_of_def Let_def split: if_splits)
  then show "sum_list (asked_waits deadline (p # ps)) \<le> sint T"
    using asked_waits_sum [OF assms(2)] assms(3,4) by (auto simp: max_def split: if_splits)
  show "list_all (\<lambda>w. 0 \<le> w \<and> w \<le> 25) (asked_waits deadline (p # ps))" by (rule asked_waits_range)
  show "poll_loop deadline (p # ps) s \<noteq> None" if "\<exists>q \<in> set (p # ps). deadline \<le> po_now q \<or> po_ready q"
    using that by (rule poll_loop_ends)
  fix b s'
  assume "poll_loop deadline (p # ps) s = Some (b, s') \<and> po_now p < deadline \<and> \<not> po_ready p \<and>
       cs_cancelled (src_run (fold env_step (po_events p) s))"
  then show "cs_cancelled (src_test s')" by (auto simp: Let_def not_le [symmetric] intro: poll_loop_mono forward_tells)
qed

section \<open>The reaper\<close>

definition alive_after :: "int \<Rightarrow> string \<times> int option \<Rightarrow> bool" where
  "alive_after t orphan = (case snd orphan of None \<Rightarrow> True | Some e \<Rightarrow> t < e)"

lemma wait_limit:
  assumes "now \<le> deadline"
  shows "deadline - 1000000 < now + remaining_wait deadline now * 1000000"
    and "now \<le> now + remaining_wait deadline now * 1000000" and "now + remaining_wait deadline now * 1000000 \<le> deadline"
proof -
  define q m where "q = (deadline - now) div 1000000" and "m = (deadline - now) mod 1000000"
  have "deadline - now = q * 1000000 + m" "0 \<le> m" "m < 1000000" by (simp_all add: q_def m_def)
  moreover have "0 \<le> q" using assms by (simp add: q_def pos_imp_zdiv_nonneg_iff)
  moreover have "remaining_wait deadline now = q" using assms by (auto simp: remaining_wait_def tdiv_pos q_def)
  ultimately show "deadline - 1000000 < now + remaining_wait deadline now * 1000000"
    "now \<le> now + remaining_wait deadline now * 1000000" "now + remaining_wait deadline now * 1000000 \<le> deadline"
    by linarith+
qed

lemma alive_weaken:
  assumes "subseq names (map fst (filter (alive_after (max m b)) pending))" "now \<le> m"
  shows "subseq names (map fst (filter (alive_after (max now b)) pending))"
proof -
  have "filter (alive_after (max m b)) pending = filter (alive_after (max m b)) (filter (alive_after (max now b)) pending)"
    using assms(2) by (auto simp: alive_after_def intro!: filter_cong split: option.splits)
  then show ?thesis by (metis assms(1) subseq_filter_left subseq_map subseq_order.trans)
qed

lemma drain_loop_facts:
  assumes "now \<le> deadline" "drain_loop deadline now orphans = (names, t)"
  shows "now \<le> t \<and> t \<le> deadline \<and>
    subseq (map fst (filter (\<lambda>q. snd q = None) orphans)) names \<and>
    subseq names (map fst (filter (alive_after (max now (deadline - 1000000))) orphans))"
  using assms
proof (induction deadline now orphans arbitrary: names t rule: drain_loop.induct)
  case (2 deadline now name ends pending)
  define limit where "limit = now + remaining_wait deadline now * 1000000"
  have lims: "deadline - 1000000 < limit" "now \<le> limit" "limit \<le> deadline"
    using wait_limit [OF 2(4)] by (simp_all add: limit_def)
  show ?case
  proof (cases "\<exists>e. ends = Some e \<and> e \<le> limit")
    case True
    then obtain e where e: "ends = Some e" "e \<le> limit" by blast
    have "max now e \<le> deadline" using e lims 2(4) by simp
    moreover have "drain_loop deadline (max now e) pending = (names, t)" using 2(5) e by (simp add: Let_def limit_def)
    ultimately have "max now e \<le> t \<and> t \<le> deadline \<and> subseq (map fst (filter (\<lambda>q. snd q = None) pending)) names \<and>
        subseq names (map fst (filter (alive_after (max (max now e) (deadline - 1000000))) pending))"
      by (intro 2(2) [OF limit_def e])
    then show ?thesis using e alive_weaken [of names "max now e" "deadline - 1000000" pending now] by (auto intro: subseq_Cons')
  next
    case False
    have "drain_loop deadline now ((name, ends) # pending) = (case drain_loop deadline limit pending of (ns, t') \<Rightarrow> (name # ns, t'))"
      using False by (cases ends) (simp_all add: Let_def limit_def)
    then obtain ns where ns: "drain_loop deadline limit pending = (ns, t)" "names = name # ns"
      using 2(5) by (auto split: prod.splits)
    have "limit \<le> t \<and> t \<le> deadline \<and> subseq (map fst (filter (\<lambda>q. snd q = None) pending)) ns \<and>
        subseq ns (map fst (filter (alive_after (max limit (deadline - 1000000))) pending))"
    proof (cases ends)
      case None
      show ?thesis by (rule 2(1) [OF limit_def None lims(3) ns(1)])
    next
      case (Some e)
      then have "\<not> e \<le> limit" using False by simp
      from 2(3) [OF limit_def Some this lims(3) ns(1)] show ?thesis .
    qed
    moreover have "alive_after (max now (deadline - 1000000)) (name, ends)"
      using False lims by (auto simp: alive_after_def split: option.split)
    ultimately show ?thesis using ns(2) lims alive_weaken [of ns limit "deadline - 1000000" pending now] by (auto intro: subseq_Cons')
  qed
qed simp

text \<open>At shutdown the reaper waits no longer than the grace period in all, whatever the number of stray
  threads; it names every thread that never ends, and none that ended more than a millisecond
  before the period was over.\<close>

theorem drain_is_bounded:
  assumes "0 \<le> sint grace"
  shows "case drain now grace orphans of (names, t) \<Rightarrow>
    now \<le> t \<and> t \<le> now + sint grace * 1000000 \<and>
    subseq (map fst (filter (\<lambda>q. snd q = None) orphans)) names \<and>
    subseq names (map fst (filter (alive_after (max now (now + (sint grace - 1) * 1000000))) orphans))"
proof -
  obtain names t where d: "drain now grace orphans = (names, t)" by fastforce
  have eq: "now + sint grace * 1000000 - 1000000 = now + (sint grace - 1) * 1000000" by (simp add: algebra_simps)
  show ?thesis
    using drain_loop_facts [OF _ d [unfolded drain_def]] assms by (simp add: d eq)
qed

theorem drain_is_bounded_witness:
  "drain 0 2000 [(''late'', Some 1500000000), (''hung'', None)] = ([''hung''], 2000000000) \<and>
   subseq [''hung''] (fst (drain 0 2000 [(''hung'', None)]))"
  using drain_is_bounded [of 2000 0 "[(''hung'', None)]"] by (simp add: drain_def remaining_wait_def tdiv_def alive_after_def Let_def)

section \<open>Sample executions\<close>

definition sample_tests :: "unit registry" where
  "sample_tests = registerOrReplace [] (sample_metadata ''api'' ''h'') (Some (\<lambda>_. Made (Some ())))"

definition sample_body :: body_script where
  "sample_body = \<lparr>bs_setUp = [], bs_setUpThrew = Returned, bs_execute = [AddTag ''slow''], bs_executeThrew = Returned,
     bs_tearDown = [], bs_records = []\<rparr>"

text \<open>A body under a deadline of 100 ms: polled at the start and at \<open>t\<close>, where it is ready or not.\<close>

definition sample_attempt :: "int \<Rightarrow> bool \<Rightarrow> attempt_obs" where
  "sample_attempt t ready = \<lparr>at_worker = ''main'', at_started = 0, at_finished = t, at_elapsed = 100, at_armed = 0, at_before = [],
     at_script = sample_body, at_during = [],
     at_await = \<lparr>ao_start = 0, ao_polls = [\<lparr>po_now = 0, po_events = [], po_ready = False\<rparr>, \<lparr>po_now = t, po_events = [], po_ready = ready\<rparr>],
       ao_graceEvents = [], ao_graceReady = False\<rparr>\<rparr>"

lemma sample_defs:
  "registry_create sample_tests (qualifiedName (sample_metadata ''api'' ''h'')) = Made (Some ())"
  "effectiveTimeout (sample_metadata ''api'' ''h'') 100 = 100" "md_enabled (sample_metadata ''api'' ''h'')"
  by (simp_all add: sample_tests_def registerOrReplace_def registry_create_def sample_metadata_def auto_metadata_def effectiveTimeout_def Let_def)

lemma sample_starts: "body_starts 100 sample_tests (sample_metadata ''api'' ''h'') (sample_attempt t b) new_source"
  by (simp add: body_starts_def sample_defs started_sources_def sample_attempt_def new_source_def)

lemma sample_deadline: "deadline_of 0 100 = Some 100000000"
  by (simp add: deadline_of_def in_i64_def)

lemma sample_wait:
  "wait_end 100 (sample_attempt 100000000 False) new_source =
     Some (False, started_sources 100 (sample_attempt 100000000 False) new_source)"
  "wait_end 100 (sample_attempt 50000000 True) new_source =
     Some (True, started_sources 100 (sample_attempt 50000000 True) new_source)"
  by (simp_all add: wait_end_def sample_attempt_def sample_deadline forward_cancellation_def started_sources_def new_source_def
      source_setDeadline_def Let_def)

lemma sample_run:
  assumes "0 \<le> t"
  shows "runOne 100 sample_tests (sample_metadata ''api'' ''h'') ''f00d'' n (sample_attempt t b) new_source orphans =
    run_bounded (sample_attempt t b) (qualifiedName (sample_metadata ''api'' ''h'')) n 100 (started_sources 100 (sample_attempt t b) new_source)
      (blank_result (sample_metadata ''api'' ''h'') ''f00d'' n (sample_attempt t b)) orphans"
  using sample_starts [of t b]
  by (simp add: runOne_def Let_def body_starts_def sample_defs started_sources_def sample_deadline sample_attempt_def)

lemma sample_quiet: "\<not> cs_cancelled (src_test (started_sources 100 (sample_attempt t b) new_source))"
  "src_run (started_sources 100 (sample_attempt t b) new_source) = new_source"
  by (simp_all add: started_sources_def sample_attempt_def new_source_def source_setDeadline_def)

lemma sample_times_out:
  "runOne 100 sample_tests (sample_metadata ''api'' ''h'') ''f00d'' n (sample_attempt 100000000 False) new_source orphans =
     Inr (finish (sample_attempt 100000000 False)
         (describeAbandonedTest (blank_result (sample_metadata ''api'' ''h'') ''f00d'' n (sample_attempt 100000000 False)) 100 n),
       new_source, orphans @ [qualifiedName (sample_metadata ''api'' ''h'')])"
proof -
  have "\<not> ao_graceReady (at_await (sample_attempt 100000000 False))" "ao_graceEvents (at_await (sample_attempt 100000000 False)) = []"
    by (simp_all add: sample_attempt_def)
  then show ?thesis by (simp add: sample_run run_bounded_def await_deadline [OF sample_wait(1)] sample_quiet)
qed

lemma sample_passes:
  "\<exists>r. runOne 100 sample_tests (sample_metadata ''api'' ''h'') ''f00d'' n (sample_attempt 50000000 True) new_source orphans =
     Inr (r, new_source, orphans) \<and> r_status r = Passed"
proof -
  let ?obs = "sample_attempt 50000000 True" and ?md = "sample_metadata ''api'' ''h''"
  let ?s = "started_sources 100 ?obs new_source"
  have "completed_result ?obs n 100 False ?s (blank_result ?md ''f00d'' n ?obs) \<noteq> None"
    using sample_quiet(1) by (simp add: completed_result_def refine_result_def sample_attempt_def sample_body_def executeBody_def Let_def
        overrideVerdictForCancellation_def keeps isFailure_def)
  then obtain r where r: "completed_result ?obs n 100 False ?s (blank_result ?md ''f00d'' n ?obs) = Some r" by auto
  have "r_status r = Passed"
    using completed_result_status(1) [OF r] sample_quiet(1)
    by (simp add: body_result_def executeBody_def Let_def) (simp add: sample_attempt_def sample_body_def)
  with r show ?thesis by (simp add: sample_run run_bounded_def await_in_time [OF sample_wait(2)] sample_quiet(2))
qed

theorem deadline_is_timeout_witness:
  "\<exists>r source. runOne 100 sample_tests (sample_metadata ''api'' ''h'') ''f00d'' 1 (sample_attempt 100000000 False) new_source [] =
      Inr (r, source, [qualifiedName (sample_metadata ''api'' ''h'')]) \<and> r_status r = TimedOut"
proof -
  let ?md = "sample_metadata ''api'' ''h''"
  obtain r source orphans where out: "runOne 100 sample_tests ?md ''f00d'' 1 (sample_attempt 100000000 False) new_source [] = Inr (r, source, orphans)"
    using sample_times_out by blast
  from deadline_is_timeout [OF this sample_starts] sample_wait(1) have "r_status r = TimedOut \<and> orphans = [qualifiedName ?md]"
    by (simp add: sample_defs) (simp add: sample_attempt_def)
  with out show ?thesis by blast
qed

theorem verdict_in_time_witness:
  "\<exists>r source. runOne 100 sample_tests (sample_metadata ''api'' ''h'') ''f00d'' 1 (sample_attempt 50000000 True) new_source [] =
      Inr (r, source, []) \<and> r_status r = Passed"
proof -
  let ?obs = "sample_attempt 50000000 True" and ?md = "sample_metadata ''api'' ''h''"
  let ?s = "started_sources 100 ?obs new_source"
  obtain r where out: "runOne 100 sample_tests ?md ''f00d'' 1 ?obs new_source [] = Inr (r, new_source, [])" using sample_passes by blast
  have "in_time (effectiveTimeout ?md 100) ?obs new_source ?s" by (simp add: in_time_def sample_defs sample_wait)
  from verdict_in_time [OF out sample_starts this] sample_quiet have "r_status r = Passed"
    by (simp add: Let_def) (simp add: sample_attempt_def sample_body_def)
  with out show ?thesis by blast
qed

theorem wait_is_bounded_witness:
  "sum_list (asked_waits 100000000 (ao_polls (at_await (sample_attempt 100000000 False)))) \<le> sint (100 :: i64)"
  using wait_is_bounded [OF sample_deadline, of "\<lparr>po_now = 0, po_events = [], po_ready = False\<rparr>" "[\<lparr>po_now = 100000000, po_events = [], po_ready = False\<rparr>]"]
  by (simp add: sample_attempt_def poll_slice_def tdiv_def)

end
