(* ===== verification/Run_Facts.thy ===== *)
theory Run_Facts
  imports Runner_Facts
begin

text \<open>
  The retry policy and a run on one worker: which attempts are made, which results are kept, when
  fail-fast stops, and what the process then reports.
\<close>

section \<open>A factory that throws\<close>

definition factory_throws :: "'c registry \<Rightarrow> test_metadata \<Rightarrow> test_exception option \<Rightarrow> bool" where
  "factory_throws reg md e \<longleftrightarrow> md_enabled md \<and> registry_create reg (qualifiedName md) = FactoryThrew e"

lemma await_not_thrown: "awaitBoundedBody obs T name s orphans \<noteq> Inl (Thrown e)"
  by (auto simp: awaitBoundedBody_def Let_def split: option.splits bool.splits)

lemma runOne_thrown: "runOne dt reg md rid n obs source orphans = Inl (Thrown e) \<longleftrightarrow> factory_throws reg md e"
  by (auto simp: runOne_def factory_throws_def Let_def run_bounded_def run_inline_def await_not_thrown
      split: made.splits option.splits sum.splits if_splits prod.splits)

section \<open>Results carry the name of their test\<close>

lemma qualified_result_name:
  "r_testName r = md_name md \<Longrightarrow> r_suiteName r = md_suite md \<Longrightarrow> result_name r = qualifiedName md"
  by (simp add: result_name_def qualifiedName_def)

lemma blank_result_names [simp]:
  "r_testName (blank_result md rid n obs) = md_name md" "r_suiteName (blank_result md rid n obs) = md_suite md"
  "r_attempt (blank_result md rid n obs) = n"
  by (simp_all add: blank_result_def make_result_def)

lemma replaced_result_names [simp]:
  "r_testName (disabled_result md r) = r_testName r" "r_suiteName (disabled_result md r) = r_suiteName r"
  "r_testName (missing_result r) = r_testName r" "r_suiteName (missing_result r) = r_suiteName r"
  "r_testName (not_run_result why r) = r_testName r" "r_suiteName (not_run_result why r) = r_suiteName r"
  "r_testName (describeAbandonedTest r T n) = r_testName r" "r_suiteName (describeAbandonedTest r T n) = r_suiteName r"
  by (simp_all add: disabled_result_def missing_result_def not_run_result_def describeAbandonedTest_def keeps)

lemma runOne_result_name:
  assumes "runOne dt reg md rid n obs source orphans = Inr (r, source', orphans')"
  shows "result_name r = qualifiedName md"
proof (rule qualified_result_name)
  have done_names: "r_testName r = md_name md \<and> r_suiteName r = md_suite md"
    if "completed_result obs n T d s (blank_result md rid n obs) = Some r" for T d s
    using completed_result_status(5,6) [OF that] by simp
  have "r_testName r = md_name md \<and> r_suiteName r = md_suite md"
    using assms
    by (auto simp: runOne_def Let_def run_bounded_def run_inline_def keeps split: if_splits sum.splits prod.splits option.splits made.splits
        dest: done_names)
  then show "r_testName r = md_name md" "r_suiteName r = md_suite md" by simp_all
qed

section \<open>Retries\<close>

text \<open>The results of successive attempts, from the n-th on.\<close>

fun attempts_chain :: "i64 \<Rightarrow> 'c registry \<Rightarrow> test_metadata \<Rightarrow> string \<Rightarrow> (nat \<Rightarrow> attempt_obs) \<Rightarrow> nat \<Rightarrow> test_result list \<Rightarrow>
    cancel_state \<times> string list \<Rightarrow> cancel_state \<times> string list \<Rightarrow> bool" where
  "attempts_chain dt reg md rid obs n [] s s' \<longleftrightarrow> s = s'"
| "attempts_chain dt reg md rid obs n (r # rs) s s' \<longleftrightarrow>
     (\<exists>s1. runOne dt reg md rid (int n) (obs n) (fst s) (snd s) = Inr (r, s1) \<and> attempts_chain dt reg md rid obs (n + 1) rs s1 s')"

definition worth_retrying :: "test_result \<Rightarrow> bool" where
  "worth_retrying r \<longleftrightarrow> isFailure (r_status r) \<and> isRetryable (r_category r)"

definition flag_flaky :: "bool \<Rightarrow> test_result \<Rightarrow> test_result" where
  "flag_flaky retried r = (if retried \<and> \<not> isFailure (r_status r) then r\<lparr>r_flaky := True\<rparr> else r)"

lemma result_name_flag [simp]: "result_name (flag_flaky b r) = result_name r"
  by (simp add: flag_flaky_def result_name_def)

definition saved :: "run_options \<Rightarrow> test_result list \<Rightarrow> run_effect list" where
  "saved opts rs = (if ro_persist opts then map SavedResult rs else [])"

lemma saved_Nil [simp]: "saved opts [] = []"
  by (simp add: saved_def)

lemma save_result_simps [simp]:
  "rs_source (save_result opts r st) = rs_source st" "rs_orphans (save_result opts r st) = rs_orphans st"
  "rs_stop (save_result opts r st) = rs_stop st" "rs_results (save_result opts r st) = rs_results st"
  "rs_effects (save_result opts r st) = rs_effects st @ saved opts [r]"
  by (simp_all add: save_result_def emit_def saved_def)

lemma emit_simps [simp]:
  "rs_source (emit e st) = rs_source st" "rs_orphans (emit e st) = rs_orphans st" "rs_stop (emit e st) = rs_stop st"
  "rs_results (emit e st) = rs_results st" "rs_effects (emit e st) = rs_effects st @ [e]"
  by (simp_all add: emit_def)

lemma retry_loop_step:
  assumes "runOne dt reg md rid (int n) (obs n) (rs_source st) (rs_orphans st) = Inr (l, source, orphans)"
  shows "retry_loop dt reg opts md rid obs n left st =
    (if worth_retrying l \<and> 0 < left
     then retry_loop dt reg opts md rid obs (n + 1) (left - 1) (save_result opts l (st\<lparr>rs_source := source, rs_orphans := orphans\<rparr>))
     else Inr (flag_flaky (1 < n) l, st\<lparr>rs_source := source, rs_orphans := orphans\<rparr>))"
  by (subst retry_loop.simps, cases left)
    (simp_all only: assms sum.case prod.case Let_def nat.case, simp_all add: worth_retrying_def flag_flaky_def)

lemma retry_loop_runs:
  assumes "retry_loop dt reg opts md rid obs n left st = Inr out"
  shows "\<exists>l source orphans. runOne dt reg md rid (int n) (obs n) (rs_source st) (rs_orphans st) = Inr (l, source, orphans)"
proof (cases "runOne dt reg md rid (int n) (obs n) (rs_source st) (rs_orphans st)")
  case (Inl e)
  with assms show ?thesis by (subst (asm) retry_loop.simps) simp
qed (metis prod_cases3)

lemma retry_loop_chain:
  assumes "retry_loop dt reg opts md rid obs n left st = Inr (r, st')" "1 \<le> n"
  shows "\<exists>failed last.
    attempts_chain dt reg md rid obs n (failed @ [last]) (rs_source st, rs_orphans st) (rs_source st', rs_orphans st') \<and>
    length failed \<le> left \<and> list_all worth_retrying failed \<and> (length failed < left \<longrightarrow> \<not> worth_retrying last) \<and>
    r = flag_flaky (1 < n \<or> failed \<noteq> []) last \<and>
    rs_effects st' = rs_effects st @ saved opts failed \<and> rs_results st' = rs_results st \<and> rs_stop st' = rs_stop st"
  using assms
proof (induction left arbitrary: n st)
  case 0
  from retry_loop_runs [OF 0(1)] obtain l source orphans
    where one: "runOne dt reg md rid (int n) (obs n) (rs_source st) (rs_orphans st) = Inr (l, source, orphans)" by blast
  have "r = flag_flaky (1 < n) l" "st' = st\<lparr>rs_source := source, rs_orphans := orphans\<rparr>"
    using 0(1) unfolding retry_loop_step [where obs = obs, OF one] by simp_all
  then show ?case using one by (intro exI [of _ "[]"] exI [of _ l]) simp
next
  case (Suc left)
  from retry_loop_runs [OF Suc.prems(1)] obtain l source orphans
    where one: "runOne dt reg md rid (int n) (obs n) (rs_source st) (rs_orphans st) = Inr (l, source, orphans)" by blast
  let ?st = "st\<lparr>rs_source := source, rs_orphans := orphans\<rparr>"
  show ?case
  proof (cases "worth_retrying l")
    case True
    then have "retry_loop dt reg opts md rid obs (n + 1) left (save_result opts l ?st) = Inr (r, st')"
      using Suc.prems(1) unfolding retry_loop_step [where obs = obs, OF one] by simp
    from Suc.IH [OF this] obtain failed last where f:
      "attempts_chain dt reg md rid obs (n + 1) (failed @ [last]) (source, orphans) (rs_source st', rs_orphans st')"
      "length failed \<le> left" "list_all worth_retrying failed" "length failed < left \<longrightarrow> \<not> worth_retrying last"
      "r = flag_flaky True last" "rs_effects st' = (rs_effects st @ saved opts [l]) @ saved opts failed"
      "rs_results st' = rs_results st" "rs_stop st' = rs_stop st"
      using Suc.prems(2) by (auto simp del: attempts_chain.simps)
    show ?thesis
      using one True f by (intro exI [of _ "l # failed"] exI [of _ last]) (simp add: saved_def)
  next
    case False
    then have "r = flag_flaky (1 < n) l" "st' = ?st"
      using Suc.prems(1) unfolding retry_loop_step [where obs = obs, OF one] by simp_all
    then show ?thesis using one False by (intro exI [of _ "[]"] exI [of _ l]) simp
  qed
qed

lemma attempts_chain_names: "attempts_chain dt reg md rid obs n rs s s' \<Longrightarrow> list_all (\<lambda>r. result_name r = qualifiedName md) rs"
  by (induction rs arbitrary: n s) (auto dest: runOne_result_name)

lemma retry_loop_name:
  assumes "retry_loop dt reg opts md rid obs 1 left st = Inr (r, st')"
  shows "result_name r = qualifiedName md"
  using retry_loop_chain [OF assms] by (auto dest: attempts_chain_names)

text \<open>C6. A test is attempted once more only after a failure of a kind that a retry may cure, never more often
  than allowed, and always while both hold; every attempt but the last failed and is recorded, in
  order, where results are kept. What is reported is the last attempt, with the flag of a flaky
  test added exactly when failed attempts went before it and it is itself no failure: a test that
  fails to the end is not flagged, one that passes on a retry is, and so is a retry that was
  skipped because the run had been cancelled meanwhile.\<close>

theorem retry_policy:
  assumes "retry_loop dt reg opts md rid obs 1 (nat (max 0 (ro_retryFailed opts))) st = Inr (r, st')"
  shows "\<exists>failed last.
    attempts_chain dt reg md rid obs 1 (failed @ [last]) (rs_source st, rs_orphans st) (rs_source st', rs_orphans st') \<and>
    int (length failed) \<le> max 0 (ro_retryFailed opts) \<and> list_all worth_retrying failed \<and>
    (int (length failed) < max 0 (ro_retryFailed opts) \<longrightarrow> \<not> worth_retrying last) \<and>
    r = flag_flaky (failed \<noteq> []) last \<and> result_name r = qualifiedName md \<and>
    rs_effects st' = rs_effects st @ saved opts failed"
proof -
  from retry_loop_chain [OF assms] obtain failed last where f:
    "attempts_chain dt reg md rid obs 1 (failed @ [last]) (rs_source st, rs_orphans st) (rs_source st', rs_orphans st')"
    "length failed \<le> nat (max 0 (ro_retryFailed opts))" "list_all worth_retrying failed"
    "length failed < nat (max 0 (ro_retryFailed opts)) \<longrightarrow> \<not> worth_retrying last"
    "r = flag_flaky (failed \<noteq> []) last" "rs_effects st' = rs_effects st @ saved opts failed"
    by auto
  have "result_name r = qualifiedName md" using assms by (rule retry_loop_name)
  then show ?thesis using f by (intro exI [of _ failed] exI [of _ last]) auto
qed

text \<open>
  A retry that finds the run cancelled is skipped, and its result takes the place of the failure
  before it, flagged as if it had passed.
\<close>

lemma cancelled_retry_hides_failure:
  assumes "md_enabled md" "registry_create reg (qualifiedName md) = Made (Some test)" "ro_retryFailed opts = 1"
    and "runOne dt reg md rid 1 (obs 1) (rs_source st) (rs_orphans st) = Inr (r1, source1, orphans1)" "worth_retrying r1"
    and "at_before (obs 2) = []" "at_armed (obs 2) = 0" "effectiveTimeout md dt = 0" "cs_cancelled source1"
  shows "\<exists>r st'. retry_loop dt reg opts md rid obs 1 (nat (max 0 (ro_retryFailed opts))) st = Inr (r, st') \<and>
    r_status r = Skipped \<and> r_flaky r"
proof -
  define r2 where "r2 = finish (obs 2) (not_run_result (cs_reason source1) (blank_result md rid 2 (obs 2)))"
  define st1 where "st1 = save_result opts r1 (st\<lparr>rs_source := source1, rs_orphans := orphans1\<rparr>)"
  have two: "runOne dt reg md rid (int 2) (obs 2) (rs_source st1) (rs_orphans st1) = Inr (r2, source1, orphans1)"
    using assms by (auto simp: runOne_def Let_def r2_def st1_def)
  have skipped: "r_status r2 = Skipped" by (simp add: r2_def not_run_result_def keeps)
  have one: "runOne dt reg md rid (int 1) (obs 1) (rs_source st) (rs_orphans st) = Inr (r1, source1, orphans1)" using assms(4) by simp
  have "retry_loop dt reg opts md rid obs 1 1 st = retry_loop dt reg opts md rid obs (1 + 1) (1 - 1) st1"
    unfolding st1_def retry_loop_step [where obs = obs and n = 1, OF one] using assms(5) by (simp only: if_True zero_less_one simp_thms)
  also have "\<dots> = retry_loop dt reg opts md rid obs 2 0 st1" by (simp only: one_add_one diff_self_eq_0)
  also have "\<dots> = Inr (flag_flaky True r2, st1\<lparr>rs_source := source1, rs_orphans := orphans1\<rparr>)"
    unfolding retry_loop_step [where obs = obs and n = 2, OF two] by simp
  finally show ?thesis
    using assms(3) skipped by (simp add: flag_flaky_def isFailure_def)
qed

section \<open>An attempt comes to an end\<close>

text \<open>The integer an \<open>http_status\<close> fact is read as exists.\<close>

fun fact_ok :: "string \<times> json \<Rightarrow> bool" where
  "fact_ok (key, JDouble d) \<longleftrightarrow> key \<noteq> ''http_status'' \<or> f64_trunc d \<noteq> None"
| "fact_ok _ \<longleftrightarrow> True"

fun op_ok :: "context_op \<Rightarrow> bool" where
  "op_ok (AddMetadata key v) \<longleftrightarrow> fact_ok (key, v)"
| "op_ok _ \<longleftrightarrow> True"

definition script_ok :: "body_script \<Rightarrow> bool" where
  "script_ok b \<longleftrightarrow> list_all op_ok (bs_setUp b @ bs_execute b @ bs_tearDown b)"

lemma set_alist_set: "p \<in> set (alist_set k v m) \<Longrightarrow> p = (k, v) \<or> p \<in> set m"
  by (induction k v m rule: alist_set.induct) (auto split: if_splits)

lemma context_step_ok: "op_ok c \<Longrightarrow> list_all fact_ok (cx_facts cx) \<Longrightarrow> list_all fact_ok (cx_facts (context_step c cx))"
  by (cases c) (auto simp: addMetadata_def addTag_def addNote_def list_all_iff dest!: set_alist_set)

lemma context_steps_ok: "list_all op_ok cs \<Longrightarrow> list_all fact_ok (cx_facts cx) \<Longrightarrow> list_all fact_ok (cx_facts (fold context_step cs cx))"
  by (induction cs arbitrary: cx) (auto intro: context_step_ok)

definition object_ok :: "json \<Rightarrow> bool" where
  "object_ok m \<longleftrightarrow> (\<exists>ms. m = JObject ms \<and> list_all fact_ok ms)"

lemma set_fact_ok: "object_ok (r_metadata r) \<Longrightarrow> fact_ok (k, v) \<Longrightarrow> object_ok (r_metadata (set_fact k v r))"
  by (auto simp: object_ok_def set_fact_def list_all_iff dest!: set_alist_set)

lemma fold_set_fact_ok:
  "object_ok (r_metadata r) \<Longrightarrow> list_all fact_ok kvs \<Longrightarrow> object_ok (r_metadata (fold (\<lambda>(k, v). set_fact k v) kvs r))"
  by (induction kvs arbitrary: r) (auto intro: set_fact_ok)

lemma override_ok: "object_ok (r_metadata r) \<Longrightarrow> object_ok (r_metadata (overrideVerdictForCancellation r d c T why))"
  by (auto simp: overrideVerdictForCancellation_def Let_def intro!: set_fact_ok)

lemma applyContext_ok: "object_ok (r_metadata r) \<Longrightarrow> list_all fact_ok (cx_facts cx) \<Longrightarrow> object_ok (r_metadata (applyContextOutput cx r))"
  by (simp add: applyContextOutput_def Let_def fold_set_fact_ok)

lemma refine_result_ok:
  assumes "object_ok (r_metadata r)"
  shows "\<exists>r'. refine_result r = Some r'"
proof -
  obtain ms where ms: "r_metadata r = JObject ms" "list_all fact_ok ms" using assms by (auto simp: object_ok_def)
  have "f64_trunc d \<noteq> None" if "alist_find ''http_status'' ms = Some (JDouble d)" for d
    using map_of_SomeD [OF that [unfolded alist_find_map_of]] ms(2) by (force simp: list_all_iff)
  then have "refine (r_category r) (r_metadata r) \<noteq> None" using ms(1) by (simp only: refine_defined) auto
  then show ?thesis by (auto simp: refine_result_def)
qed

lemma completed_result_ok:
  assumes "script_ok (at_script obs)" "object_ok (r_metadata blank)"
  shows "completed_result obs n T d s blank \<noteq> None"
proof -
  obtain b cx logs where b: "executeBody (at_script obs) blank new_context = (b, cx, logs)"
    by (cases "executeBody (at_script obs) blank new_context")
  then have "object_ok (r_metadata b)" using assms(2) by (auto simp: executeBody_def Let_def keeps split: if_splits)
  moreover have "list_all fact_ok (cx_facts cx)"
    using b assms(1) by (auto simp: executeBody_def Let_def script_ok_def new_context_def intro!: context_steps_ok split: if_splits)
  ultimately show ?thesis by (auto simp: completed_result_def b Let_def intro!: refine_result_ok applyContext_ok override_ok)
qed

text \<open>The wait is seen to end: the body becomes ready or the clock passes the deadline.\<close>

definition wait_observed :: "i64 \<Rightarrow> attempt_obs \<Rightarrow> bool" where
  "wait_observed T obs \<longleftrightarrow> deadline_of (at_armed obs) T \<noteq> None \<and>
     (case deadline_of (ao_start (at_await obs)) T of
        None \<Rightarrow> False
      | Some deadline \<Rightarrow> list_ex (\<lambda>p. deadline \<le> po_now p \<or> po_ready p) (ao_polls (at_await obs)))"

lemma attempt_has_result:
  assumes "\<nexists>e. factory_throws reg md e" "script_ok (at_script obs)"
    and "sint (effectiveTimeout md dt) \<le> 0 \<or> wait_observed (effectiveTimeout md dt) obs"
  shows "\<exists>r source' orphans'. runOne dt reg md rid n obs source orphans = Inr (r, source', orphans') \<and> result_name r = qualifiedName md"
proof -
  have makes: "(\<exists>test. registry_create reg (qualifiedName md) = Made test)" if "md_enabled md"
    using assms(1) that by (cases "registry_create reg (qualifiedName md)") (auto simp: factory_throws_def)
  have blank: "object_ok (r_metadata (blank_result md rid n obs))"
    by (simp add: object_ok_def blank_result_def make_result_def default_result_def)
  note completed = completed_result_ok [OF assms(2) blank]
  have poll: "poll_loop deadline (ao_polls (at_await obs)) s \<noteq> None"
    if "deadline_of (ao_start (at_await obs)) (effectiveTimeout md dt) = Some deadline" "wait_observed (effectiveTimeout md dt) obs" for deadline s
    using that by (intro poll_loop_ends) (auto simp: wait_observed_def list_ex_iff)
  have "isl (runOne dt reg md rid n obs source orphans) = False"
  proof (cases "0 < sint (effectiveTimeout md dt)")
    case True
    with assms(3) have w: "wait_observed (effectiveTimeout md dt) obs" by simp
    then obtain deadline where d: "deadline_of (ao_start (at_await obs)) (effectiveTimeout md dt) = Some deadline"
      "deadline_of (at_armed obs) (effectiveTimeout md dt) \<noteq> None" by (auto simp: wait_observed_def split: option.splits)
    have bounded: "isl (run_bounded obs name n (effectiveTimeout md dt) s (blank_result md rid n obs) orphans) = False" for name s
    proof -
      obtain b s1 where "poll_loop deadline (ao_polls (at_await obs)) s = Some (b, s1)" using poll [OF d(1) w, of s] by auto
      then obtain out s2 o2 where "awaitBoundedBody (at_await obs) (effectiveTimeout md dt) name s orphans = Inr (out, s2, o2)"
        by (cases b) (simp_all add: awaitBoundedBody_def d(1) Let_def)
      then show ?thesis
        using completed [of n "effectiveTimeout md dt" "bo_deadlineExceeded out" s2] by (auto simp: run_bounded_def)
    qed
    from d(2) True makes show ?thesis by (auto simp: runOne_def Let_def bounded split: option.splits if_splits)
  next
    case False
    have "isl (run_inline obs n (effectiveTimeout md dt) s (blank_result md rid n obs) orphans) = False" for s
      using completed [of n "effectiveTimeout md dt" False "fold env_step (at_during obs) s"] by (auto simp: run_inline_def)
    with False makes show ?thesis by (auto simp: runOne_def Let_def split: option.splits if_splits)
  qed
  then obtain r source' orphans' where "runOne dt reg md rid n obs source orphans = Inr (r, source', orphans')"
    by (cases "runOne dt reg md rid n obs source orphans") auto
  with runOne_result_name [OF this] show ?thesis by blast
qed

text \<open>C8. An attempt has a result, under the name of its test, if the factory does not throw, every number the
  body records as its HTTP status converts to an integer, and it is bounded by a deadline the clock
  can represent or else its body returns. For a bounded test the loop need only once see its body
  ready or the clock past the deadline; whether the body then ends within the grace period, one
  timed wait of the library, does not matter, so there is a result even if the body never returns.\<close>

theorem attempt_returns:
  assumes "\<nexists>e. factory_throws reg md e" "script_ok (at_script obs)"
    and "sint (effectiveTimeout md dt) \<le> 0 \<or> wait_observed (effectiveTimeout md dt) obs"
  shows "\<exists>r source' orphans'. runOne dt reg md rid n obs source orphans = Inr (r, source', orphans') \<and> result_name r = qualifiedName md"
  using assms by (rule attempt_has_result)

theorem attempt_returns_witness:
  "\<exists>r source' orphans'. runOne 100 sample_tests (sample_metadata ''api'' ''h'') ''f00d'' 1 (sample_attempt 100000000 False) new_source [] =
     Inr (r, source', orphans') \<and> result_name r = qualifiedName (sample_metadata ''api'' ''h'')"
  by (rule attempt_returns)
    (simp_all add: factory_throws_def script_ok_def sample_attempt_def sample_body_def wait_observed_def sample_defs sample_deadline)

section \<open>A run on one worker\<close>

lemma handleResult_simps:
  "\<exists>r'. rs_results (handleResult opts c r st) = rs_results st @ [r'] \<and> r_status r' = r_status r \<and> result_name r' = result_name r"
  "rs_stop (handleResult opts c r st) = (rs_stop st \<or> ro_failFast opts \<and> isFailure (r_status r))"
  "ro_failFast opts \<Longrightarrow> isFailure (r_status r) \<Longrightarrow> cs_cancelled (rs_source (handleResult opts c r st))"
  by (auto simp: handleResult_def Let_def result_name_def split: option.split)

lemma executeWithRetries_step:
  assumes "executeWithRetries dt reg opts rid obs c md st = Inr st'" "\<not> rs_stop st"
  shows "\<exists>r. rs_results st' = rs_results st @ [r] \<and> result_name r = qualifiedName md \<and>
    rs_stop st' = (ro_failFast opts \<and> isFailure (r_status r)) \<and> (rs_stop st' \<longrightarrow> cs_cancelled (rs_source st'))"
proof -
  from assms obtain r st1 where retry: "retry_loop dt reg opts md rid obs 1 (nat (max 0 (ro_retryFailed opts))) (emit (TestStarted md) st) = Inr (r, st1)"
    and st': "st' = handleResult opts c r st1"
    by (auto simp: executeWithRetries_def split: sum.splits)
  have "rs_results st1 = rs_results st" "rs_stop st1 = rs_stop st" using retry_loop_chain [OF retry] by auto
  with handleResult_simps [where opts = opts and c = c and r = r and st = st1] retry_loop_name [OF retry] assms(2) st' show ?thesis by auto
qed

lemma run_tests_stopped: "rs_stop st \<Longrightarrow> run_tests dt reg opts rid obs mds st = Inr st"
  by (induction mds) (simp_all add: executeWithRetries_def split_beta)

lemma run_tests_results:
  assumes "run_tests dt reg opts rid obs mds st = Inr st'" "\<not> rs_stop st"
  shows "\<exists>new. rs_results st' = rs_results st @ new \<and> map result_name new = map qualifiedName (take (length new) mds) \<and>
    length new \<le> length mds \<and> (length new < length mds \<longrightarrow> rs_stop st') \<and>
    (rs_stop st' \<longrightarrow> ro_failFast opts \<and> new \<noteq> [] \<and> isFailure (r_status (last new)) \<and> cs_cancelled (rs_source st')) \<and>
    (ro_failFast opts \<longrightarrow> list_all (\<lambda>r. \<not> isFailure (r_status r)) (butlast new))"
  using assms
proof (induction mds arbitrary: st)
  case (Cons md mds)
  obtain attempts c where o: "obs (qualifiedName md) = (attempts, c)" by fastforce
  from Cons.prems o obtain st1 where one: "executeWithRetries dt reg opts rid attempts c md st = Inr st1"
    and rest: "run_tests dt reg opts rid obs mds st1 = Inr st'" by (auto split: sum.splits)
  from executeWithRetries_step [OF one Cons.prems(2)] obtain r where
    r: "rs_results st1 = rs_results st @ [r]" "result_name r = qualifiedName md"
      "rs_stop st1 = (ro_failFast opts \<and> isFailure (r_status r))" "rs_stop st1 \<longrightarrow> cs_cancelled (rs_source st1)" by blast
  show ?case
  proof (cases "rs_stop st1")
    case True
    then have "st' = st1" using rest by (simp add: run_tests_stopped)
    with r True show ?thesis by (intro exI [of _ "[r]"]) auto
  next
    case False
    from Cons.IH [OF rest False] obtain new where
      new: "rs_results st' = rs_results st1 @ new" "map result_name new = map qualifiedName (take (length new) mds)"
        "length new \<le> length mds" "length new < length mds \<longrightarrow> rs_stop st'"
        "rs_stop st' \<longrightarrow> ro_failFast opts \<and> new \<noteq> [] \<and> isFailure (r_status (last new)) \<and> cs_cancelled (rs_source st')"
        "ro_failFast opts \<longrightarrow> list_all (\<lambda>r. \<not> isFailure (r_status r)) (butlast new)" by blast
    with r False show ?thesis by (intro exI [of _ "r # new"]) auto
  qed
qed simp

lemma sequence_end:
  assumes "run_tests dt reg opts rid obs mds (new_run_state source orphans) = Inr st"
  shows "map result_name (rs_results st) = map qualifiedName (take (length (rs_results st)) mds) \<and>
    mset (run_results (finish_run template now wall st)) = mset (rs_results st) \<and>
    sorted (map result_name (run_results (finish_run template now wall st))) \<and>
    (\<not> ro_failFast opts \<longrightarrow> length (rs_results st) = length mds) \<and>
    (ro_failFast opts \<longrightarrow> list_all (\<lambda>r. \<not> isFailure (r_status r)) (butlast (rs_results st))) \<and>
    (length (rs_results st) < length mds \<longrightarrow> cs_cancelled (rs_source st) \<and> exitCode (finish_run template now wall st) \<noteq> 0)"
proof -
  from run_tests_results [OF assms] have
    new: "map result_name (rs_results st) = map qualifiedName (take (length (rs_results st)) mds)"
      "length (rs_results st) \<le> length mds" "length (rs_results st) < length mds \<longrightarrow> rs_stop st"
      "rs_stop st \<longrightarrow> ro_failFast opts \<and> rs_results st \<noteq> [] \<and> isFailure (r_status (last (rs_results st))) \<and> cs_cancelled (rs_source st)"
      "ro_failFast opts \<longrightarrow> list_all (\<lambda>r. \<not> isFailure (r_status r)) (butlast (rs_results st))"
    by (auto simp: new_run_state_def)
  have results: "run_results (finish_run template now wall st) = sort_key result_name (rs_results st)" by (simp add: finish_run_def)
  have "exitCode (finish_run template now wall st) \<noteq> 0" if "rs_stop st"
  proof -
    have "last (rs_results st) \<in> set (run_results (finish_run template now wall st))" using new(4) that by (simp add: results)
    then have "list_ex (\<lambda>r. isFailure (r_status r)) (run_results (finish_run template now wall st))"
      using new(4) that by (auto simp: list_ex_iff)
    then show ?thesis by (simp add: exitCode_def)
  qed
  with new results show ?thesis by auto
qed

text \<open>C5. On one worker the tests run in the order selected, each once, and every one of them has a result in
  the report, which lists them by name. Only fail-fast leaves tests out, from the first failure on,
  and then the run is recorded as cancelled and the process does not report success.\<close>

theorem sequential_run:
  assumes "run_tests dt reg opts rid obs mds (new_run_state source orphans) = Inr st"
  shows "map result_name (rs_results st) = map qualifiedName (take (length (rs_results st)) mds) \<and>
    mset (run_results (finish_run template now wall st)) = mset (rs_results st) \<and>
    sorted (map result_name (run_results (finish_run template now wall st))) \<and>
    (\<not> ro_failFast opts \<longrightarrow> length (rs_results st) = length mds) \<and>
    (ro_failFast opts \<longrightarrow> list_all (\<lambda>r. \<not> isFailure (r_status r)) (butlast (rs_results st))) \<and>
    (length (rs_results st) < length mds \<longrightarrow> cs_cancelled (rs_source st) \<and> exitCode (finish_run template now wall st) \<noteq> 0)"
  by (rule sequence_end [OF assms])

definition sample_options_of_run :: run_options where
  "sample_options_of_run = \<lparr>ro_failFast = True, ro_retryFailed = 0, ro_persist = True, ro_collect = False, ro_workers = 1\<rparr>"

definition disabled_sample :: test_metadata where
  "disabled_sample = (sample_metadata ''api'' ''off'')\<lparr>md_enabled := False\<rparr>"

lemma disabled_runOne:
  "runOne dt reg disabled_sample rid n obs source orphans =
     Inr (finish obs (disabled_result disabled_sample (blank_result disabled_sample rid n obs)), source, orphans)"
  by (simp add: runOne_def disabled_sample_def Let_def)

lemma disabled_retry:
  "retry_loop dt reg opts disabled_sample rid obs 1 left st =
     Inr (finish (obs 1) (disabled_result disabled_sample (blank_result disabled_sample rid 1 (obs 1))), st)"
  using retry_loop_step [of dt reg disabled_sample rid 1 obs st _ "rs_source st" "rs_orphans st" opts left, OF disabled_runOne]
  by (simp add: worth_retrying_def flag_flaky_def isFailure_def disabled_result_def keeps)

text \<open>A test that times out at the first attempt and passes at the second.\<close>

definition sample_retry_options :: run_options where
  "sample_retry_options = sample_options_of_run\<lparr>ro_retryFailed := 1\<rparr>"

definition sample_retried :: "nat \<Rightarrow> attempt_obs" where
  "sample_retried n = (if n = 1 then sample_attempt 100000000 False else sample_attempt 50000000 True)"

lemma sample_first_attempt:
  "\<exists>r orphans'. runOne 100 sample_tests (sample_metadata ''api'' ''h'') ''f00d'' (int 1) (sample_retried 1) new_source orphans =
     Inr (r, new_source, orphans') \<and> worth_retrying r"
  by (simp add: sample_retried_def sample_times_out worth_retrying_def isFailure_def isRetryable_def keeps)

lemma sample_second_attempt:
  "\<exists>r. runOne 100 sample_tests (sample_metadata ''api'' ''h'') ''f00d'' (int 2) (sample_retried 2) new_source orphans =
     Inr (r, new_source, orphans) \<and> r_status r = Passed"
  using sample_passes by (simp add: sample_retried_def)

lemma sample_retry_loop:
  "\<exists>r st'. retry_loop 100 sample_tests sample_retry_options (sample_metadata ''api'' ''h'') ''f00d'' sample_retried 1
      (nat (max 0 (ro_retryFailed sample_retry_options))) (new_run_state new_source []) = Inr (r, st') \<and> r_status r = Passed \<and> r_flaky r"
proof -
  let ?opts = sample_retry_options and ?md = "sample_metadata ''api'' ''h''"
  let ?loop = "retry_loop 100 sample_tests ?opts ?md ''f00d'' sample_retried"
  obtain r1 o1 where one: "runOne 100 sample_tests ?md ''f00d'' (int 1) (sample_retried 1) (rs_source (new_run_state new_source []))
      (rs_orphans (new_run_state new_source [])) = Inr (r1, new_source, o1)" "worth_retrying r1"
    using sample_first_attempt unfolding new_run_state_def run_state.simps by blast
  define st where "st = save_result ?opts r1 ((new_run_state new_source [])\<lparr>rs_source := new_source, rs_orphans := o1\<rparr>)"
  obtain r2 where two: "runOne 100 sample_tests ?md ''f00d'' (int 2) (sample_retried 2) (rs_source st) (rs_orphans st) = Inr (r2, new_source, o1)"
    "r_status r2 = Passed"
    using sample_second_attempt [of o1] by (auto simp: st_def)
  have "?loop 1 1 (new_run_state new_source []) = ?loop (1 + 1) (1 - 1) st"
    unfolding st_def retry_loop_step [where obs = sample_retried and n = 1, OF one(1)] using one(2) by (simp only: if_True zero_less_one simp_thms)
  also have "\<dots> = ?loop 2 0 st" by (simp only: one_add_one diff_self_eq_0)
  also have "\<dots> = Inr (flag_flaky True r2, st\<lparr>rs_source := new_source, rs_orphans := o1\<rparr>)"
    unfolding retry_loop_step [where obs = sample_retried and n = 2, OF two(1)] by simp
  finally show ?thesis
    using two(2) by (simp add: sample_retry_options_def sample_options_of_run_def flag_flaky_def isFailure_def)
qed

theorem retry_policy_witness:
  "\<exists>r st'. retry_loop 100 sample_tests sample_retry_options (sample_metadata ''api'' ''h'') ''f00d'' sample_retried 1
      (nat (max 0 (ro_retryFailed sample_retry_options))) (new_run_state new_source []) = Inr (r, st') \<and>
    r_status r = Passed \<and> r_flaky r \<and> result_name r = qualifiedName (sample_metadata ''api'' ''h'') \<and>
    (\<exists>r1. rs_effects st' = [SavedResult r1] \<and> worth_retrying r1)"
proof -
  from sample_retry_loop obtain r st' where out: "retry_loop 100 sample_tests sample_retry_options (sample_metadata ''api'' ''h'') ''f00d'' sample_retried 1
      (nat (max 0 (ro_retryFailed sample_retry_options))) (new_run_state new_source []) = Inr (r, st')" "r_status r = Passed" "r_flaky r"
    by blast
  let ?st = "new_run_state new_source []"
  from retry_policy [OF out(1)] obtain failed last where f: "int (length failed) \<le> max 0 (ro_retryFailed sample_retry_options)"
    "list_all worth_retrying failed" "r = flag_flaky (failed \<noteq> []) last" "result_name r = qualifiedName (sample_metadata ''api'' ''h'')"
    "rs_effects st' = rs_effects ?st @ saved sample_retry_options failed"
    "attempts_chain 100 sample_tests (sample_metadata ''api'' ''h'') ''f00d'' sample_retried 1 (failed @ [last]) (rs_source ?st, rs_orphans ?st)
      (rs_source st', rs_orphans st')"
    by blast
  obtain r0 o0 where one: "runOne 100 sample_tests (sample_metadata ''api'' ''h'') ''f00d'' (int 1) (sample_retried 1) new_source [] =
      Inr (r0, new_source, o0)" "worth_retrying r0"
    using sample_first_attempt by blast
  have "failed \<noteq> []"
  proof
    assume none: "failed = []"
    then have "worth_retrying last" using f(6) one by (simp add: new_run_state_def)
    with none f(3) out(2) show False by (simp add: flag_flaky_def worth_retrying_def isFailure_def)
  qed
  then obtain r1 where "failed = [r1]" using f(1) by (cases failed) (auto simp: sample_retry_options_def sample_options_of_run_def)
  with f(2,5) have "rs_effects st' = [SavedResult r1] \<and> worth_retrying r1"
    by (simp add: saved_def sample_retry_options_def sample_options_of_run_def new_run_state_def)
  with f(4) out show ?thesis by blast
qed

theorem sequential_run_witness:
  "\<exists>st. run_tests 100 sample_tests sample_options_of_run ''f00d'' (\<lambda>q. (\<lambda>n. sample_attempt 0 True, None)) [disabled_sample]
      (new_run_state new_source []) = Inr st \<and> map result_name (rs_results st) = map qualifiedName (take (length (rs_results st)) [disabled_sample])"
proof -
  obtain st where "run_tests 100 sample_tests sample_options_of_run ''f00d'' (\<lambda>q. (\<lambda>n. sample_attempt 0 True, None)) [disabled_sample]
      (new_run_state new_source []) = Inr st"
    by (auto simp: executeWithRetries_def disabled_retry [unfolded One_nat_def] new_run_state_def)
  with sequential_run [OF this] show ?thesis by blast
qed

end
