(* ===== verification/Schedule.thy ===== *)
theory Schedule
  imports Run_Facts Transition
begin

text \<open>
  A run on several workers (the parallel branch of \<open>TestRunner::run\<close>): every selected test is one task
  of the thread pool, taken in the order of submission (\<open>Thread_Pool\<close>). The tasks share the results,
  the flag that stops scheduling and the source of the run, each under its mutex or atomic, so the
  steps of the workers interleave: a task begins, makes attempts, and ends with the result of the
  last one or with the exception that left an attempt. \<open>gives md n c\<close> says that \<open>c\<close>, an exception or a
  result, may come out of the n-th attempt of a test.
\<close>

section \<open>States and steps\<close>

text \<open>A running task is its test and the number of the attempt it is at.\<close>

record sched =
  sc_queue :: "test_metadata list"
  sc_running :: "(test_metadata \<times> nat) list"
  sc_dropped :: "test_metadata list"
  sc_thrown :: "(test_metadata \<times> test_exception option) list"
  sc_state :: run_state

datatype sched_event =
    TaskBegins
  | TaskDropped
  | AttemptRepeated test_metadata nat test_result
  | TaskEnds test_metadata nat test_result "json option"
  | TaskThrows test_metadata nat "test_exception option"
  | RunCancelled string

definition task_begins :: "int \<Rightarrow> sched \<Rightarrow> sched option" where
  "task_begins workers s =
     (case sc_queue s of
        [] \<Rightarrow> None
      | md # queue \<Rightarrow>
          if rs_stop (sc_state s) \<or> workers \<le> int (length (sc_running s)) then None
          else Some (s\<lparr>sc_queue := queue, sc_running := (md, 1) # sc_running s, sc_state := emit (TestStarted md) (sc_state s)\<rparr>))"

text \<open>A task that finds the flag set returns at once.\<close>

definition task_dropped :: "int \<Rightarrow> sched \<Rightarrow> sched option" where
  "task_dropped workers s =
     (case sc_queue s of
        [] \<Rightarrow> None
      | md # queue \<Rightarrow>
          if \<not> rs_stop (sc_state s) \<or> workers \<le> int (length (sc_running s)) then None
          else Some (s\<lparr>sc_queue := queue, sc_dropped := sc_dropped s @ [md]\<rparr>))"

text \<open>Whether the loop over the attempts goes on after the n-th.\<close>

definition may_repeat :: "run_options \<Rightarrow> nat \<Rightarrow> test_result \<Rightarrow> bool" where
  "may_repeat opts n r \<longleftrightarrow> worth_retrying r \<and> int n \<le> max 0 (ro_retryFailed opts)"

definition attempt_repeated :: "run_options \<Rightarrow> test_metadata \<Rightarrow> nat \<Rightarrow> test_result \<Rightarrow> sched \<Rightarrow> sched option" where
  "attempt_repeated opts md n r s =
     (if (md, n) \<in> set (sc_running s) \<and> may_repeat opts n r
      then Some (s\<lparr>sc_running := (md, n + 1) # remove1 (md, n) (sc_running s), sc_state := save_result opts r (sc_state s)\<rparr>)
      else None)"

definition task_ends :: "run_options \<Rightarrow> test_metadata \<Rightarrow> nat \<Rightarrow> test_result \<Rightarrow> json option \<Rightarrow> sched \<Rightarrow> sched option" where
  "task_ends opts md n r collected s =
     (if (md, n) \<in> set (sc_running s) \<and> \<not> may_repeat opts n r
      then Some (s\<lparr>sc_running := remove1 (md, n) (sc_running s),
             sc_state := handleResult opts collected (flag_flaky (1 < n) r) (sc_state s)\<rparr>)
      else None)"

text \<open>The exception is kept in the task's future; nothing is recorded of the test.\<close>

definition task_throws :: "test_metadata \<Rightarrow> nat \<Rightarrow> test_exception option \<Rightarrow> sched \<Rightarrow> sched option" where
  "task_throws md n e s =
     (if (md, n) \<in> set (sc_running s)
      then Some (s\<lparr>sc_running := remove1 (md, n) (sc_running s), sc_thrown := sc_thrown s @ [(md, e)]\<rparr>) else None)"

definition run_cancelled :: "string \<Rightarrow> sched \<Rightarrow> sched" where
  "run_cancelled reason s = s\<lparr>sc_state := (sc_state s)\<lparr>rs_source := source_cancel reason (rs_source (sc_state s))\<rparr>\<rparr>"

type_synonym outcomes = "test_metadata \<Rightarrow> nat \<Rightarrow> test_exception option + test_result \<Rightarrow> bool"

inductive sched_step :: "run_options \<Rightarrow> int \<Rightarrow> outcomes \<Rightarrow> sched \<Rightarrow> sched_event \<Rightarrow> sched \<Rightarrow> bool"
  for opts workers gives where
  sched_begins: "task_begins workers s = Some s' \<Longrightarrow> sched_step opts workers gives s TaskBegins s'"
| sched_dropped: "task_dropped workers s = Some s' \<Longrightarrow> sched_step opts workers gives s TaskDropped s'"
| sched_repeated: "gives md n (Inr r) \<Longrightarrow> attempt_repeated opts md n r s = Some s' \<Longrightarrow>
    sched_step opts workers gives s (AttemptRepeated md n r) s'"
| sched_ends: "gives md n (Inr r) \<Longrightarrow> task_ends opts md n r collected s = Some s' \<Longrightarrow>
    sched_step opts workers gives s (TaskEnds md n r collected) s'"
| sched_throws: "gives md n (Inl e) \<Longrightarrow> task_throws md n e s = Some s' \<Longrightarrow>
    sched_step opts workers gives s (TaskThrows md n e) s'"
| sched_cancelled: "sched_step opts workers gives s (RunCancelled reason) (run_cancelled reason s)"

inductive_cases sched_stepE: "sched_step opts workers gives s e s'"

definition new_sched :: "test_metadata list \<Rightarrow> cancel_state \<Rightarrow> sched" where
  "new_sched selected source =
     \<lparr>sc_queue = selected, sc_running = [], sc_dropped = [], sc_thrown = [], sc_state = new_run_state source []\<rparr>"

text \<open>What may come out of an attempt, whatever it observes and whatever the state of the run's source then.\<close>

definition attempt_gives :: "i64 \<Rightarrow> 'c registry \<Rightarrow> string \<Rightarrow> outcomes" where
  "attempt_gives dt reg rid md n c \<longleftrightarrow>
     (\<exists>obs source orphans. case c of
        Inl e \<Rightarrow> runOne dt reg md rid (int n) obs source orphans = Inl (Thrown e)
      | Inr r \<Rightarrow> \<exists>source' orphans'. runOne dt reg md rid (int n) obs source orphans = Inr (r, source', orphans'))"

text \<open>
  The end of the run: the exceptions are collected from the futures. One that is a \<open>std::exception\<close> is
  logged; any other leaves \<open>run\<close>, which then has no report (\<open>None\<close>).
\<close>

definition finish_schedule :: "test_run \<Rightarrow> int \<Rightarrow> i64 \<Rightarrow> sched \<Rightarrow> test_run option" where
  "finish_schedule template now wall s =
     (if list_ex (\<lambda>(md, e). e = None) (sc_thrown s) then None else Some (finish_run template now wall (sc_state s)))"

section \<open>The invariant\<close>

text \<open>The names of the tests of a list that have a property, counted.\<close>

definition tally :: "(test_metadata \<Rightarrow> bool) \<Rightarrow> test_metadata list \<Rightarrow> string multiset" where
  "tally P xs = mset (map qualifiedName (filter P xs))"

lemma tally_simps [simp]:
  "tally P [] = {#}" "tally P (x # xs) = (if P x then add_mset (qualifiedName x) (tally P xs) else tally P xs)"
  "tally P (xs @ ys) = tally P xs + tally P ys"
  by (simp_all add: tally_def)

lemma tally_split: "tally P xs + tally (\<lambda>x. \<not> P x) xs = mset (map qualifiedName xs)"
  by (induction xs) auto

lemma tally_running:
  "(md, n) \<in> set xs \<Longrightarrow> tally P (map fst xs) = tally P [md] + tally P (map fst (remove1 (md, n) xs))"
  by (induction xs) auto

text \<open>A result in the report has the verdict of an attempt that was the last of its test.\<close>

definition last_attempt :: "run_options \<Rightarrow> outcomes \<Rightarrow> test_metadata list \<Rightarrow> test_result \<Rightarrow> bool" where
  "last_attempt opts gives selected r \<longleftrightarrow>
     (\<exists>md n r0. md \<in> set selected \<and> 1 \<le> n \<and> gives md n (Inr r0) \<and> \<not> may_repeat opts n r0 \<and>
       result_name r = qualifiedName md \<and> r_status r = r_status r0)"

text \<open>
  \<open>bad\<close> tests are those whose attempts throw. Every test is in one place, and a good one that has left
  the queue and is not running has a result unless it was dropped.
\<close>

definition sched_inv :: "run_options \<Rightarrow> int \<Rightarrow> outcomes \<Rightarrow> (test_metadata \<Rightarrow> bool) \<Rightarrow> test_metadata list \<Rightarrow> sched \<Rightarrow> bool" where
  "sched_inv opts workers gives bad selected s \<longleftrightarrow>
     tally bad selected = tally bad (sc_queue s) + tally bad (map fst (sc_running s)) + tally bad (sc_dropped s)
       + mset (map (\<lambda>(md, e). qualifiedName md) (sc_thrown s)) \<and>
     tally (\<lambda>md. \<not> bad md) selected =
       tally (\<lambda>md. \<not> bad md) (sc_queue s) + tally (\<lambda>md. \<not> bad md) (map fst (sc_running s)) + tally (\<lambda>md. \<not> bad md) (sc_dropped s)
       + mset (map result_name (rs_results (sc_state s))) \<and>
     int (length (sc_running s)) \<le> workers \<and> set (sc_queue s) \<subseteq> set selected \<and>
     list_all (\<lambda>(md, n). md \<in> set selected \<and> 1 \<le> n \<and> n \<le> nat (max 0 (ro_retryFailed opts)) + 1) (sc_running s) \<and>
     list_all (\<lambda>(md, e). md \<in> set selected \<and> (\<exists>n. gives md n (Inl e))) (sc_thrown s) \<and>
     list_all (last_attempt opts gives selected) (rs_results (sc_state s)) \<and>
     (sc_dropped s \<noteq> [] \<longrightarrow> rs_stop (sc_state s)) \<and>
     (rs_stop (sc_state s) \<longrightarrow> ro_failFast opts \<and> cs_cancelled (rs_source (sc_state s)) \<and>
       list_ex (\<lambda>r. isFailure (r_status r)) (rs_results (sc_state s)))"

lemma sched_inv_new: "0 \<le> workers \<Longrightarrow> sched_inv opts workers gives bad selected (new_sched selected source)"
  by (simp add: sched_inv_def new_sched_def new_run_state_def)

text \<open>What is asked of the attempts: a bad test throws, another gives results under its name.\<close>

definition outcomes_ok :: "outcomes \<Rightarrow> (test_metadata \<Rightarrow> bool) \<Rightarrow> bool" where
  "outcomes_ok gives bad \<longleftrightarrow>
     (\<forall>md n c. gives md n c \<longrightarrow> (case c of Inl e \<Rightarrow> bad md | Inr r \<Rightarrow> \<not> bad md \<and> result_name r = qualifiedName md))"

lemma outcomes_okD:
  assumes "outcomes_ok gives bad"
  shows "gives md n (Inl e) \<Longrightarrow> bad md" "gives md n (Inr r) \<Longrightarrow> \<not> bad md \<and> result_name r = qualifiedName md"
  using assms by (force simp: outcomes_ok_def)+

lemma running_removed:
  assumes "(md, n) \<in> set xs"
  shows "length (remove1 (md, n) xs) < length xs" "set (remove1 (md, n) xs) \<subseteq> set xs"
  using assms by (auto simp: length_remove1 set_remove1_subset dest: length_pos_if_in_set)

lemma flag_status [simp]: "r_status (flag_flaky b r) = r_status r"
  by (simp add: flag_flaky_def)

lemma sched_inv_ends:
  assumes ok: "outcomes_ok gives bad" and inv: "sched_inv opts workers gives bad selected s" and gives: "gives md n (Inr r)"
    and ends: "task_ends opts md n r c s = Some s'"
  shows "sched_inv opts workers gives bad selected s'"
proof -
  from ends have md: "(md, n) \<in> set (sc_running s)" and final: "\<not> may_repeat opts n r"
    and s': "s' = s\<lparr>sc_running := remove1 (md, n) (sc_running s), sc_state := handleResult opts c (flag_flaky (1 < n) r) (sc_state s)\<rparr>"
    by (auto simp: task_ends_def split: if_splits)
  have good: "\<not> bad md" "result_name r = qualifiedName md" using outcomes_okD(2) [of gives bad, OF ok gives] by simp_all
  obtain r' where r': "rs_results (handleResult opts c (flag_flaky (1 < n) r) (sc_state s)) = rs_results (sc_state s) @ [r']"
    "r_status r' = r_status r" "result_name r' = qualifiedName md"
    using handleResult_simps(1) [of opts c "flag_flaky (1 < n) r" "sc_state s"] good by auto
  have source: "cs_cancelled (rs_source (handleResult opts c (flag_flaky (1 < n) r) (sc_state s)))"
    if "cs_cancelled (rs_source (sc_state s)) \<or> ro_failFast opts \<and> isFailure (r_status r)"
    using that by (auto simp: handleResult_def Let_def source_cancel_def split: option.split)
  have "md \<in> set selected" "1 \<le> n" using inv md by (auto simp: sched_inv_def list_all_iff)
  then have "last_attempt opts gives selected r'" using r' gives final by (auto simp: last_attempt_def)
  then show ?thesis
    using inv good r' source running_removed [OF md]
    by (auto simp: sched_inv_def s' handleResult_simps(2) tally_running [OF md] list_all_iff)
qed

lemma sched_inv_throws:
  assumes ok: "outcomes_ok gives bad" and inv: "sched_inv opts workers gives bad selected s" and gives: "gives md n (Inl e)"
    and throws: "task_throws md n e s = Some s'"
  shows "sched_inv opts workers gives bad selected s'"
proof -
  from throws have md: "(md, n) \<in> set (sc_running s)"
    and s': "s' = s\<lparr>sc_running := remove1 (md, n) (sc_running s), sc_thrown := sc_thrown s @ [(md, e)]\<rparr>"
    by (auto simp: task_throws_def split: if_splits)
  have "bad md" by (rule outcomes_okD(1) [OF ok gives])
  moreover have "md \<in> set selected" using inv md by (auto simp: sched_inv_def list_all_iff)
  ultimately have "bad md" "md \<in> set selected" by simp_all
  then show ?thesis
    using inv gives running_removed [OF md] by (auto simp: sched_inv_def s' tally_running [OF md] list_all_iff)
qed

lemma sched_inv_repeats:
  assumes inv: "sched_inv opts workers gives bad selected s" and repeats: "attempt_repeated opts md n r s = Some s'"
  shows "sched_inv opts workers gives bad selected s'"
proof -
  from repeats have md: "(md, n) \<in> set (sc_running s)" and more: "int n \<le> max 0 (ro_retryFailed opts)"
    and s': "s' = s\<lparr>sc_running := (md, n + 1) # remove1 (md, n) (sc_running s), sc_state := save_result opts r (sc_state s)\<rparr>"
    by (auto simp: attempt_repeated_def may_repeat_def split: if_splits)
  have "n \<le> nat (max 0 (ro_retryFailed opts))" using more by (simp add: le_nat_iff)
  moreover have "md \<in> set selected" using inv md by (auto simp: sched_inv_def list_all_iff)
  ultimately have "n \<le> nat (max 0 (ro_retryFailed opts))" "md \<in> set selected" by simp_all
  then show ?thesis
    using inv running_removed [OF md] by (auto simp: sched_inv_def s' tally_running [OF md] list_all_iff)
qed

lemma sched_inv_step:
  assumes "outcomes_ok gives bad" "sched_inv opts workers gives bad selected s" "sched_step opts workers gives s e s'"
  shows "sched_inv opts workers gives bad selected s'"
  using assms(3,2)
proof cases
  case sched_begins
  then show ?thesis using assms(2) by (auto simp: sched_inv_def task_begins_def split: list.splits if_splits)
next
  case sched_dropped
  then show ?thesis using assms(2) by (auto simp: sched_inv_def task_dropped_def split: list.splits if_splits)
next
  case (sched_repeated md n r)
  show ?thesis by (rule sched_inv_repeats [OF assms(2) sched_repeated(3)])
next
  case (sched_ends md n r c)
  show ?thesis by (rule sched_inv_ends [OF assms(1,2) sched_ends(2,3)])
next
  case (sched_throws md n e)
  show ?thesis by (rule sched_inv_throws [OF assms(1,2) sched_throws(2,3)])
qed (auto simp: sched_inv_def run_cancelled_def source_cancel_def)

text \<open>The attempts of the model meet what is asked of them.\<close>

definition unmakeable :: "'c registry \<Rightarrow> test_metadata \<Rightarrow> bool" where
  "unmakeable reg md \<longleftrightarrow> (\<exists>e. factory_throws reg md e)"

lemma runOne_throw_excludes: "factory_throws reg md e \<Longrightarrow> runOne dt reg md rid n obs source orphans \<noteq> Inr out"
  by (metis runOne_thrown sum.distinct(1))

lemma attempt_outcomes_ok: "outcomes_ok (attempt_gives dt reg rid) (unmakeable reg)"
  by (auto simp: outcomes_ok_def attempt_gives_def unmakeable_def runOne_thrown split: sum.splits
      dest: runOne_throw_excludes intro: runOne_result_name)

lemma attempt_throws_iff: "attempt_gives dt reg rid md n (Inl e) \<longleftrightarrow> factory_throws reg md e"
  by (auto simp: attempt_gives_def runOne_thrown)

interpretation schedule: invariant_system "sched_step opts workers (attempt_gives dt reg rid)"
    "sched_inv opts workers (attempt_gives dt reg rid) (unmakeable reg) selected"
  for opts workers dt reg rid selected
  by unfold_locales (rule sched_inv_step [OF attempt_outcomes_ok])

section \<open>Termination\<close>

fun task_event :: "sched_event \<Rightarrow> bool" where
  "task_event (RunCancelled reason) = False"
| "task_event _ = True"

definition retries_left :: "run_options \<Rightarrow> test_metadata \<times> nat \<Rightarrow> nat" where
  "retries_left opts task = nat (max 0 (ro_retryFailed opts)) + 2 - snd task"

definition sched_cost :: "run_options \<Rightarrow> sched \<Rightarrow> nat" where
  "sched_cost opts s = (nat (max 0 (ro_retryFailed opts)) + 2) * length (sc_queue s) + sum_list (map (retries_left opts) (sc_running s))"

lemma retries_left_simp [simp]: "retries_left opts (md, n) = nat (max 0 (ro_retryFailed opts)) + 2 - n"
  by (simp add: retries_left_def)

lemma retries_left_remove:
  "task \<in> set xs \<Longrightarrow> sum_list (map (retries_left opts) xs) = retries_left opts task + sum_list (map (retries_left opts) (remove1 task xs))"
  by (rule sum_list_map_remove1)

lemma sched_cost_falls:
  assumes "sched_inv opts workers gives bad selected s" "sched_step opts workers gives s e s'" "task_event e"
  shows "sched_cost opts s' < sched_cost opts s"
  using assms(2,3)
proof cases
  case (sched_repeated md n r)
  then have "(md, n) \<in> set (sc_running s)" "n \<le> nat (max 0 (ro_retryFailed opts))"
    "s' = s\<lparr>sc_running := (md, n + 1) # remove1 (md, n) (sc_running s), sc_state := save_result opts r (sc_state s)\<rparr>"
    by (auto simp: attempt_repeated_def may_repeat_def le_nat_iff split: if_splits)
  moreover from this(2) obtain k where "nat (max 0 (ro_retryFailed opts)) = n + k" using le_iff_add by blast
  ultimately show ?thesis using retries_left_remove [of "(md, n)" "sc_running s" opts] by (simp add: sched_cost_def)
next
  case (sched_ends md n r c)
  then have md: "(md, n) \<in> set (sc_running s)"
    "s' = s\<lparr>sc_running := remove1 (md, n) (sc_running s), sc_state := handleResult opts c (flag_flaky (1 < n) r) (sc_state s)\<rparr>"
    by (auto simp: task_ends_def split: if_splits)
  then have "n \<le> nat (max 0 (ro_retryFailed opts)) + 1" using assms(1) by (auto simp: sched_inv_def list_all_iff)
  then have "0 < retries_left opts (md, n)" by simp
  then show ?thesis using md retries_left_remove [of "(md, n)" "sc_running s" opts] by (simp add: sched_cost_def del: retries_left_simp)
next
  case (sched_throws md n e)
  then have md: "(md, n) \<in> set (sc_running s)"
    "s' = s\<lparr>sc_running := remove1 (md, n) (sc_running s), sc_thrown := sc_thrown s @ [(md, e)]\<rparr>"
    by (auto simp: task_throws_def split: if_splits)
  then have "n \<le> nat (max 0 (ro_retryFailed opts)) + 1" using assms(1) by (auto simp: sched_inv_def list_all_iff)
  then have "0 < retries_left opts (md, n)" by simp
  then show ?thesis using md retries_left_remove [of "(md, n)" "sc_running s" opts] by (simp add: sched_cost_def del: retries_left_simp)
qed (auto simp: sched_cost_def task_begins_def task_dropped_def split: list.splits if_splits)

lemma sched_cost_cancel: "sched_step opts workers gives s e s' \<Longrightarrow> \<not> task_event e \<Longrightarrow> sched_cost opts s' \<le> sched_cost opts s"
  by (erule sched_stepE) (auto simp: sched_cost_def run_cancelled_def)

interpretation finishing_schedule: terminating_system "sched_step opts workers (attempt_gives dt reg rid)"
    "sched_inv opts workers (attempt_gives dt reg rid) (unmakeable reg) selected" task_event "sched_cost opts"
  for opts workers dt reg rid selected
  by unfold_locales (rule sched_cost_falls)

definition all_done :: "sched \<Rightarrow> bool" where
  "all_done s \<longleftrightarrow> sc_queue s = [] \<and> sc_running s = []"

text \<open>What a worker does with what came out of an attempt.\<close>

definition attempt_event :: "run_options \<Rightarrow> test_metadata \<Rightarrow> nat \<Rightarrow> test_exception option + test_result \<Rightarrow> json option \<Rightarrow> sched_event" where
  "attempt_event opts md n c collected =
     (case c of
        Inl e \<Rightarrow> TaskThrows md n e
      | Inr r \<Rightarrow> if may_repeat opts n r then AttemptRepeated md n r else TaskEnds md n r collected)"

lemma attempt_event_enabled:
  assumes "(md, n) \<in> set (sc_running s)" "gives md n c"
  shows "\<exists>s'. sched_step opts workers gives s (attempt_event opts md n c collected) s'"
proof (cases c)
  case (Inl e)
  then obtain s' where "task_throws md n e s = Some s'" using assms(1) by (simp add: task_throws_def)
  then show ?thesis using assms(2) Inl by (auto simp: attempt_event_def intro: sched_throws)
next
  case (Inr r)
  show ?thesis
  proof (cases "may_repeat opts n r")
    case True
    then obtain s' where "attempt_repeated opts md n r s = Some s'" using assms(1) by (simp add: attempt_repeated_def)
    then show ?thesis using assms(2) Inr True by (auto simp: attempt_event_def intro: sched_repeated)
  next
    case False
    then obtain s' where "task_ends opts md n r collected s = Some s'" using assms(1) by (simp add: task_ends_def)
    then show ?thesis using assms(2) Inr False by (auto simp: attempt_event_def intro: sched_ends)
  qed
qed

lemma task_event_attempt [simp]: "task_event (attempt_event opts md n c collected)"
  by (simp add: attempt_event_def split: sum.split)

lemma queue_moves:
  assumes "sc_queue s \<noteq> []" "int (length (sc_running s)) < workers"
  shows "\<exists>e s'. e \<in> {TaskBegins, TaskDropped} \<and> sched_step opts workers gives s e s'"
proof -
  from assms(1) obtain md queue where q: "sc_queue s = md # queue" by (cases "sc_queue s") auto
  show ?thesis
  proof (cases "rs_stop (sc_state s)")
    case True
    with q assms(2) have "\<exists>s'. task_dropped workers s = Some s'" by (simp add: task_dropped_def)
    then show ?thesis by (blast intro: sched_dropped)
  next
    case False
    with q assms(2) have "\<exists>s'. task_begins workers s = Some s'" by (simp add: task_begins_def)
    then show ?thesis by (blast intro: sched_begins)
  qed
qed

text \<open>A timeout whose deadline the clock can represent.\<close>

definition timeout_ok :: "i64 \<Rightarrow> test_metadata \<Rightarrow> bool" where
  "timeout_ok dt md \<longleftrightarrow> sint (effectiveTimeout md dt) \<le> 0 \<or> deadline_of 0 (effectiveTimeout md dt) \<noteq> None"

lemma attempt_gives_something:
  assumes "timeout_ok dt md"
  shows "\<exists>c. attempt_gives dt reg rid md n c"
proof (cases "unmakeable reg md")
  case True
  then show ?thesis unfolding unmakeable_def by (metis attempt_throws_iff)
next
  case False
  have "sint (effectiveTimeout md dt) \<le> 0 \<or> wait_observed (effectiveTimeout md dt) (sample_attempt 0 True)"
    using assms by (auto simp: timeout_ok_def wait_observed_def sample_attempt_def)
  moreover have "script_ok (at_script (sample_attempt 0 True))" by (simp add: sample_attempt_def sample_body_def script_ok_def)
  ultimately obtain r source' orphans' where "runOne dt reg md rid (int n) (sample_attempt 0 True) new_source [] = Inr (r, source', orphans')"
    using attempt_has_result [of reg md "sample_attempt 0 True"] False unfolding unmakeable_def by blast
  then have "attempt_gives dt reg rid md n (Inr r)" unfolding attempt_gives_def sum.case by blast
  then show ?thesis ..
qed

lemma sched_progress:
  assumes "\<not> all_done s" "0 < workers" "\<And>md n. (md, n) \<in> set (sc_running s) \<Longrightarrow> \<exists>c. gives md n c"
  shows "\<exists>e s'. task_event e \<and> sched_step opts workers gives s e s'"
proof (cases "sc_running s")
  case Nil
  with assms(1,2) have "sc_queue s \<noteq> []" "int (length (sc_running s)) < workers" by (auto simp: all_done_def)
  from queue_moves [OF this] show ?thesis by force
next
  case (Cons task rest)
  then have "(fst task, snd task) \<in> set (sc_running s)" by simp
  then show ?thesis using assms(3) attempt_event_enabled [of "fst task" "snd task" s gives] by (metis task_event_attempt)
qed

section \<open>Properties\<close>

lemma schedule_end:
  assumes "run (sched_step opts workers (attempt_gives dt reg rid)) (new_sched selected source) es s" "all_done s" "0 \<le> workers"
  shows "mset (map qualifiedName selected) = mset (map qualifiedName (sc_dropped s))
      + mset (map (\<lambda>(md, e). qualifiedName md) (sc_thrown s)) + mset (map result_name (rs_results (sc_state s))) \<and>
    list_all (\<lambda>(md, e). md \<in> set selected \<and> factory_throws reg md e) (sc_thrown s) \<and>
    list_all (last_attempt opts (attempt_gives dt reg rid) selected) (rs_results (sc_state s)) \<and>
    (sc_dropped s \<noteq> [] \<longrightarrow> ro_failFast opts \<and> cs_cancelled (rs_source (sc_state s))) \<and>
    (case finish_schedule template now wall s of
       None \<Rightarrow> \<exists>md \<in> set selected. factory_throws reg md None
     | Some report \<Rightarrow> (sc_dropped s \<noteq> [] \<longrightarrow> exitCode report \<noteq> 0) \<and>
         (\<not> ro_failFast opts \<longrightarrow> map result_name (run_results report) =
            sort (map qualifiedName (filter (\<lambda>md. \<not> unmakeable reg md) selected))))"
proof -
  let ?g = "attempt_gives dt reg rid" and ?bad = "unmakeable reg"
  have inv: "sched_inv opts workers ?g ?bad selected s"
    using schedule.run_inv [OF assms(1) sched_inv_new [OF assms(3)]] .
  have bad: "tally ?bad selected = tally ?bad (sc_dropped s) + mset (map (\<lambda>(md, e). qualifiedName md) (sc_thrown s))"
    and good: "tally (\<lambda>md. \<not> ?bad md) selected = tally (\<lambda>md. \<not> ?bad md) (sc_dropped s) + mset (map result_name (rs_results (sc_state s)))"
    using inv assms(2) by (simp_all add: sched_inv_def all_done_def)
  have all: "mset (map qualifiedName selected) = mset (map qualifiedName (sc_dropped s))
      + mset (map (\<lambda>(md, e). qualifiedName md) (sc_thrown s)) + mset (map result_name (rs_results (sc_state s)))"
    unfolding tally_split [of ?bad, symmetric] bad good by (simp only: ac_simps)
  have thrown: "list_all (\<lambda>(md, e). md \<in> set selected \<and> factory_throws reg md e) (sc_thrown s)"
    using inv by (simp add: sched_inv_def attempt_throws_iff)
  define report where "report = finish_run template now wall (sc_state s)"
  have results: "run_results report = sort_key result_name (rs_results (sc_state s))" by (simp add: report_def finish_run_def)
  have dropped: "exitCode report \<noteq> 0" if "sc_dropped s \<noteq> []"
    using inv that by (auto simp: sched_inv_def exitCode_def results list_ex_iff)
  have listed: "map result_name (run_results report) = sort (map qualifiedName (filter (\<lambda>md. \<not> ?bad md) selected))" if "\<not> ro_failFast opts"
  proof (rule properties_for_sort [symmetric])
    have "sc_dropped s = []" using inv that by (auto simp: sched_inv_def)
    then show "mset (map result_name (run_results report)) = mset (map qualifiedName (filter (\<lambda>md. \<not> ?bad md) selected))"
      using good by (simp add: results tally_def)
    show "sorted (map result_name (run_results report))" by (simp add: results)
  qed
  have "case finish_schedule template now wall s of
       None \<Rightarrow> \<exists>md \<in> set selected. factory_throws reg md None
     | Some report \<Rightarrow> (sc_dropped s \<noteq> [] \<longrightarrow> exitCode report \<noteq> 0) \<and>
         (\<not> ro_failFast opts \<longrightarrow> map result_name (run_results report) = sort (map qualifiedName (filter (\<lambda>md. \<not> ?bad md) selected)))"
    using thrown dropped listed by (auto simp: finish_schedule_def report_def list_ex_iff list_all_iff)
  then show ?thesis using inv all thrown by (simp add: sched_inv_def)
qed


text \<open>C7. A schedule takes at most two steps, and one for each retry allowed, for each selected test, however
  often the run is cancelled in between. It does not get stuck: while tests are queued and a worker
  is idle the next one can begin or be dropped, a task can go on with whatever comes out of its
  attempt, and from every state that is reached all tasks can be brought to their end if the clock
  can represent their deadlines.\<close>

theorem schedule_finishes:
  assumes "run (sched_step opts workers (attempt_gives dt reg rid)) (new_sched selected source) es s" "0 < workers"
  shows "length (filter task_event es) \<le> (nat (max 0 (ro_retryFailed opts)) + 2) * length selected \<and>
    (sc_queue s \<noteq> [] \<and> int (length (sc_running s)) < workers \<longrightarrow>
      (\<exists>e s'. e \<in> {TaskBegins, TaskDropped} \<and> sched_step opts workers (attempt_gives dt reg rid) s e s')) \<and>
    (\<forall>md n c collected. (md, n) \<in> set (sc_running s) \<and> attempt_gives dt reg rid md n c \<longrightarrow>
      (\<exists>s'. sched_step opts workers (attempt_gives dt reg rid) s (attempt_event opts md n c collected) s')) \<and>
    (list_all (timeout_ok dt) selected \<longrightarrow>
      (\<exists>fs t. list_all task_event fs \<and> run (sched_step opts workers (attempt_gives dt reg rid)) s fs t \<and> all_done t))"
proof -
  let ?g = "attempt_gives dt reg rid" and ?bad = "unmakeable reg"
  note start = sched_inv_new [where opts = opts and gives = ?g and bad = ?bad and selected = selected and source = source,
      OF less_imp_le [OF assms(2)]]
  have inv: "sched_inv opts workers ?g ?bad selected s" by (rule schedule.run_inv [OF assms(1) start])
  have "length (filter task_event es) + sched_cost opts s \<le> sched_cost opts (new_sched selected source)"
    by (rule finishing_schedule.run_internal_length [OF _ assms(1) start]) (rule sched_cost_cancel)
  then have steps: "length (filter task_event es) \<le> (nat (max 0 (ro_retryFailed opts)) + 2) * length selected"
    by (simp add: sched_cost_def new_sched_def)
  have "\<exists>fs t. list_all task_event fs \<and> run (sched_step opts workers ?g) s fs t \<and> all_done t" if ok: "list_all (timeout_ok dt) selected"
  proof (rule finishing_schedule.runs_to_rest [OF inv])
    fix t
    assume t: "sched_inv opts workers ?g ?bad selected t" "\<not> all_done t"
    have "\<exists>c. ?g md n c" if "(md, n) \<in> set (sc_running t)" for md n
    proof -
      have "timeout_ok dt md" using t(1) that ok by (auto simp: sched_inv_def list_all_iff)
      then show ?thesis by (rule attempt_gives_something)
    qed
    then show "\<exists>e t'. task_event e \<and> sched_step opts workers ?g t e t'"
      by (rule sched_progress [OF t(2) assms(2)])
  qed
  moreover have "\<exists>s'. sched_step opts workers ?g s (attempt_event opts md n c collected) s'"
    if "(md, n) \<in> set (sc_running s)" "?g md n c" for md n c collected
    using that by (rule attempt_event_enabled)
  moreover note queue_moves [of s workers opts ?g]
  ultimately show ?thesis using steps by simp
qed

section \<open>A schedule with a test that cannot be made\<close>

text \<open>Two tests on two workers: the factory of one throws, the other is disabled.\<close>

definition broken_sample :: test_metadata where
  "broken_sample = sample_metadata ''api'' ''broken''"

definition broken_tests :: "unit registry" where
  "broken_tests = registerOrReplace (registerOrReplace [] disabled_sample None) broken_sample
     (Some (\<lambda>_. FactoryThrew (Some (StdException ''no fixture'' ''std::runtime_error'' False))))"

definition sample_schedule_options :: run_options where
  "sample_schedule_options = sample_retry_options\<lparr>ro_failFast := False, ro_workers := 2\<rparr>"

definition sample_skip :: test_result where
  "sample_skip = finish (sample_attempt 0 True) (disabled_result disabled_sample (blank_result disabled_sample ''f00d'' 1 (sample_attempt 0 True)))"

definition sample_events :: "sched_event list" where
  "sample_events = [TaskBegins, TaskBegins, TaskThrows broken_sample 1 (Some (StdException ''no fixture'' ''std::runtime_error'' False)),
     TaskEnds disabled_sample 1 sample_skip None]"

definition sample_schedule :: sched where
  "sample_schedule = \<lparr>sc_queue = [], sc_running = [], sc_dropped = [],
     sc_thrown = [(broken_sample, Some (StdException ''no fixture'' ''std::runtime_error'' False))],
     sc_state = handleResult sample_schedule_options None sample_skip
       (emit (TestStarted disabled_sample) (emit (TestStarted broken_sample) (new_run_state new_source [])))\<rparr>"

lemma broken_throws: "factory_throws broken_tests broken_sample (Some (StdException ''no fixture'' ''std::runtime_error'' False))"
  by (simp add: factory_throws_def broken_tests_def registerOrReplace_def registry_create_def broken_sample_def disabled_sample_def
      sample_metadata_def auto_metadata_def qualifiedName_def Let_def omap_find_map_of)

lemma disabled_gives: "attempt_gives dt reg ''f00d'' disabled_sample 1 (Inr sample_skip)"
  using disabled_runOne [of dt reg "''f00d''" "int 1" "sample_attempt 0 True"]
  unfolding attempt_gives_def sample_skip_def sum.case of_nat_1 by blast

lemma skip_final: "\<not> may_repeat opts n sample_skip" "flag_flaky (1 < (1::nat)) sample_skip = sample_skip"
  by (simp_all add: may_repeat_def worth_retrying_def flag_flaky_def sample_skip_def isFailure_def disabled_result_def keeps)

lemma sample_schedule_run:
  "run (sched_step sample_schedule_options 2 (attempt_gives 100 broken_tests ''f00d''))
    (new_sched [broken_sample, disabled_sample] new_source) sample_events sample_schedule"
proof -
  let ?step = "sched_step sample_schedule_options 2 (attempt_gives 100 broken_tests ''f00d'')"
  let ?e = "Some (StdException ''no fixture'' ''std::runtime_error'' False)"
  let ?st0 = "new_run_state new_source []" let ?st1 = "emit (TestStarted broken_sample) ?st0"
  let ?st2 = "emit (TestStarted disabled_sample) ?st1"
  let ?s1 = "\<lparr>sc_queue = [disabled_sample], sc_running = [(broken_sample, 1)], sc_dropped = [], sc_thrown = [], sc_state = ?st1\<rparr>"
  let ?s2 = "\<lparr>sc_queue = [], sc_running = [(disabled_sample, 1), (broken_sample, 1)], sc_dropped = [], sc_thrown = [], sc_state = ?st2\<rparr>"
  let ?s3 = "\<lparr>sc_queue = [], sc_running = [(disabled_sample, 1)], sc_dropped = [], sc_thrown = [(broken_sample, ?e)], sc_state = ?st2\<rparr>"
  have "?step (new_sched [broken_sample, disabled_sample] new_source) TaskBegins ?s1"
    by (rule sched_begins) (simp add: task_begins_def new_sched_def new_run_state_def)
  moreover have "?step ?s1 TaskBegins ?s2" by (rule sched_begins) (simp add: task_begins_def emit_def new_run_state_def)
  moreover have "?step ?s2 (TaskThrows broken_sample 1 ?e) ?s3"
  proof (rule sched_throws)
    show "attempt_gives 100 broken_tests ''f00d'' broken_sample 1 (Inl ?e)" by (simp only: attempt_throws_iff broken_throws)
    have "broken_sample \<noteq> disabled_sample" by (simp add: broken_sample_def disabled_sample_def sample_metadata_def auto_metadata_def Let_def)
    then show "task_throws broken_sample 1 ?e ?s2 = Some ?s3" by (simp add: task_throws_def)
  qed
  moreover have "?step ?s3 (TaskEnds disabled_sample 1 sample_skip None) sample_schedule"
  proof (rule sched_ends)
    show "attempt_gives 100 broken_tests ''f00d'' disabled_sample 1 (Inr sample_skip)" by (rule disabled_gives)
    show "task_ends sample_schedule_options disabled_sample 1 sample_skip None ?s3 = Some sample_schedule"
      unfolding task_ends_def skip_final(2) using skip_final(1) by (simp add: sample_schedule_def)
  qed
  ultimately show ?thesis unfolding sample_events_def by (blast intro: run_Cons run_Nil)
qed

lemma sample_schedule_done: "all_done sample_schedule"
  by (simp add: all_done_def sample_schedule_def)

lemma sample_schedule_report:
  "finish_schedule template now wall sample_schedule = Some (finish_run template now wall (sc_state sample_schedule))"
  by (simp add: finish_schedule_def sample_schedule_def)

text \<open>
  A test that cannot be made is lost: the report names the other test only, and the exit code is that
  of success.
\<close>

lemma lost_test_reports_success:
  assumes "run_cancellationReason template = []" "finish_schedule template now wall sample_schedule = Some report"
  shows "map result_name (run_results report) = [qualifiedName disabled_sample] \<and> exitCode report = 0"
proof -
  have results: "rs_results (sc_state sample_schedule) = [sample_skip]"
    by (simp add: sample_schedule_def handleResult_def sample_schedule_options_def new_run_state_def Let_def)
  have quiet: "\<not> cs_cancelled (rs_source (sc_state sample_schedule))"
    by (simp add: sample_schedule_def handleResult_def sample_schedule_options_def new_run_state_def new_source_def Let_def)
  have report: "report = finish_run template now wall (sc_state sample_schedule)" using assms(2) sample_schedule_report by simp
  have skip: "result_name sample_skip = qualifiedName disabled_sample" "r_status sample_skip = Skipped" "r_category sample_skip = NoFailure"
    by (simp_all add: sample_skip_def keeps disabled_result_def qualified_result_name)
  then show ?thesis
    using results quiet assms(1) unfolding report by (simp add: finish_run_def exitCode_def wasCancelled_def isFailure_def)
qed


theorem schedule_finishes_witness:
  "length (filter task_event sample_events) \<le> (nat (max 0 (ro_retryFailed sample_schedule_options)) + 2) * length [broken_sample, disabled_sample] \<and>
   (\<exists>fs t. list_all task_event fs \<and> run (sched_step sample_schedule_options 2 (attempt_gives 100 broken_tests ''f00d''))
     (new_sched [broken_sample, disabled_sample] new_source) fs t \<and> all_done t)"
proof -
  have ok: "list_all (timeout_ok 100) [broken_sample, disabled_sample]"
    by (simp add: timeout_ok_def broken_sample_def disabled_sample_def effectiveTimeout_def sample_metadata_def auto_metadata_def
        sample_deadline Let_def)
  have start: "run (sched_step sample_schedule_options 2 (attempt_gives 100 broken_tests ''f00d''))
      (new_sched [broken_sample, disabled_sample] new_source) [] (new_sched [broken_sample, disabled_sample] new_source)"
    by (rule run_Nil)
  have w: "(0::int) < 2" by simp
  show ?thesis
    using schedule_finishes [OF sample_schedule_run w] ok
      schedule_finishes [OF start w] by blast
qed

section \<open>Active tests\<close>

text \<open>
  The sources of the tests that execute right now (\<open>TestRunner::Impl\<close>): they are registered before
  a test looks at the source of the run, so that a request to cancel reaches each of them whatever
  the order in which the two threads go on.

  A registered source is a pointer: here a number that no other registered source has.
\<close>

record runner_impl =
  ri_run :: cancel_state
  ri_requested :: bool
  ri_active :: "(nat \<times> cancel_state) list"

definition registerActive :: "nat \<Rightarrow> cancel_state \<Rightarrow> runner_impl \<Rightarrow> runner_impl" where
  "registerActive i source impl = impl\<lparr>ri_active := ri_active impl @ [(i, source)]\<rparr>"

definition unregisterActive :: "nat \<Rightarrow> runner_impl \<Rightarrow> runner_impl" where
  "unregisterActive i impl = impl\<lparr>ri_active := filter (\<lambda>(j, source). j \<noteq> i) (ri_active impl)\<rparr>"

definition cancelAllActive :: "string \<Rightarrow> runner_impl \<Rightarrow> runner_impl" where
  "cancelAllActive reason impl = impl\<lparr>ri_active := map (\<lambda>(i, source). (i, source_cancel reason source)) (ri_active impl)\<rparr>"

text \<open>The first two actions of \<open>requestCancellation\<close>; the third is \<open>cancelAllActive\<close>.\<close>

definition cancelRun :: "string \<Rightarrow> runner_impl \<Rightarrow> runner_impl" where
  "cancelRun reason impl = impl\<lparr>ri_requested := True, ri_run := source_cancel reason (ri_run impl)\<rparr>"

definition requestCancellation :: "string \<Rightarrow> runner_impl \<Rightarrow> runner_impl" where
  "requestCancellation reason impl = cancelAllActive reason (cancelRun reason impl)"

definition cancellationRequested :: "runner_impl \<Rightarrow> bool" where
  "cancellationRequested impl = ri_requested impl"

text \<open>What one active test sees of the two sources.\<close>

definition sources_of :: "nat \<Rightarrow> runner_impl \<Rightarrow> sources option" where
  "sources_of i impl = map_option (\<lambda>source. \<lparr>src_run = ri_run impl, src_test = source\<rparr>) (alist_find i (ri_active impl))"

lemma alist_find_map: "alist_find i (map (\<lambda>(j, v). (j, f v)) xs) = map_option f (alist_find i xs)"
  by (induction xs) auto

text \<open>To a test, a request is the two events of \<open>Execution\<close>, in this order.\<close>

lemma request_as_events:
  "sources_of i (requestCancellation reason impl) =
     map_option (fold env_step [CancelRun reason, CancelTest reason]) (sources_of i impl)"
  by (cases "alist_find i (ri_active impl)")
    (simp_all add: sources_of_def requestCancellation_def cancelAllActive_def cancelRun_def alist_find_map)

section \<open>A request and a test that starts\<close>

text \<open>
  The thread of a test registers its source and then looks at the run; the thread that cancels sets
  the run's source and then goes through the list. The state is the runner and, once the test has
  looked, whether it started.
\<close>

datatype race_event = Registers | Looks | SetsRun | CancelsActive

fun race_step :: "nat \<Rightarrow> string \<Rightarrow> race_event \<Rightarrow> runner_impl \<times> bool option \<Rightarrow> runner_impl \<times> bool option" where
  "race_step i reason Registers (impl, started) = (registerActive i new_source impl, started)"
| "race_step i reason Looks (impl, started) = (impl, Some (\<not> token_isCancelled (Some (ri_run impl))))"
| "race_step i reason SetsRun (impl, started) = (cancelRun reason impl, started)"
| "race_step i reason CancelsActive (impl, started) = (cancelAllActive reason impl, started)"

lemma alist_find_snoc_fresh: "alist_find i xs = None \<Longrightarrow> alist_find i (xs @ [(i, v)]) = Some v"
  by (induction xs) (auto split: if_splits)

lemmas race_defs = registerActive_def cancelRun_def cancelAllActive_def sources_of_def alist_find_map alist_find_snoc_fresh
  new_source_def token_isCancelled_def source_cancel_def

text \<open>C4. No cancellation is lost: whatever the order in which a test that starts and a request to cancel
  interleave, the test either finds the run cancelled and does not start, or has its own source
  cancelled by the request, with its reason.\<close>

theorem no_lost_cancellation:
  assumes "alist_find i (ri_active impl) = None"
    and "es \<in> shuffles [Registers, Looks] [SetsRun, CancelsActive]"
  shows "case fold (race_step i reason) es (impl, None) of (impl', started) \<Rightarrow>
    started = Some False \<or> started = Some True \<and> (\<exists>s. sources_of i impl' = Some s \<and> cs_cancelled (src_test s) \<and> cs_reason (src_test s) = reason)"
  using assms by (auto simp: race_defs split: if_splits)

theorem no_lost_cancellation_witness:
  "case fold (race_step 1 ''ctrl-c'') [Registers, SetsRun, Looks, CancelsActive]
      (\<lparr>ri_run = new_source, ri_requested = False, ri_active = []\<rparr>, None) of (impl', started) \<Rightarrow>
    started = Some False \<or> started = Some True \<and>
      (\<exists>s. sources_of 1 impl' = Some s \<and> cs_cancelled (src_test s) \<and> cs_reason (src_test s) = ''ctrl-c'')"
  by (rule no_lost_cancellation) simp_all

text \<open>A request reaches every registered test at once.\<close>

lemma request_reaches_all:
  "list_all (\<lambda>(i, source). cs_cancelled source) (ri_active (requestCancellation reason impl))"
  "map fst (ri_active (requestCancellation reason impl)) = map fst (ri_active impl)"
  by (auto simp: requestCancellation_def cancelAllActive_def cancelRun_def list_all_iff)

end
