(* ===== verification/Url.thy ===== *)
theory Url
  imports String_Utils
begin

text \<open>
  URLs and the policy on which of them may be requested (\<open>src/net/Url.cpp\<close>).

  A port is an integer, 0 when there is none; the octets of an IPv4 literal are integers.
\<close>

section \<open>URLs\<close>

record url =
  u_scheme :: string
  u_host :: string
  u_port :: int
  u_path :: string
  u_query :: string
  u_fragment :: string

definition defaultPortFor :: "string \<Rightarrow> int" where
  "defaultPortFor scheme = (if scheme = ''https'' then 443 else if scheme = ''http'' then 80 else 0)"

definition requestTarget :: "url \<Rightarrow> string" where
  "requestTarget u =
     (let target = (if u_path u = [] then ''/'' else u_path u)
      in if u_query u \<noteq> [] then target @ ''?'' @ u_query u else target)"

definition authority :: "url \<Rightarrow> string" where
  "authority u =
     (if u_port u = 0 \<or> u_port u = defaultPortFor (u_scheme u) then u_host u
      else u_host u @ '':'' @ show_int (u_port u))"

definition url_string :: "url \<Rightarrow> string" where
  "url_string u = u_scheme u @ ''://'' @ authority u @ requestTarget u
     @ (if u_fragment u \<noteq> [] then CHR ''#'' # u_fragment u else [])"

definition scheme_char :: "char \<Rightarrow> bool" where
  "scheme_char c \<longleftrightarrow> is_alnum c \<or> c = CHR ''+'' \<or> c = CHR ''-'' \<or> c = CHR ''.''"

definition parse_port :: "string \<Rightarrow> int option" where
  "parse_port t =
     (case parseInt t of
        None \<Rightarrow> None
      | Some p \<Rightarrow> if sint p \<le> 0 \<or> 65535 < sint p then None else Some (sint p))"

text \<open>The text before the first occurrence of a character, and the text from it on, if it occurs.\<close>

definition cut_at :: "char \<Rightarrow> string \<Rightarrow> string \<times> string option" where
  "cut_at c t = (case find_char c t of None \<Rightarrow> (t, None) | Some i \<Rightarrow> (take i t, Some (drop (i + 1) t)))"

text \<open>Host and port of an authority without user information.\<close>

definition parse_authority :: "string \<Rightarrow> (string \<times> int) option" where
  "parse_authority a =
     (if hd a = CHR ''['' then
        (case find_char CHR '']'' a of
           None \<Rightarrow> None
         | Some close \<Rightarrow>
             (let host = substr a 1 (close - 1); tail = drop (close + 1) a
              in if tail = [] then Some (host, 0)
                 else if hd tail \<noteq> CHR '':'' then None
                 else map_option (Pair host) (parse_port (drop 1 tail))))
      else (case rfind_char CHR '':'' a of
              Some colon \<Rightarrow> map_option (Pair (take colon a)) (parse_port (drop (colon + 1) a))
            | None \<Rightarrow> Some (a, 0)))"

definition parse_rest :: "string \<Rightarrow> string \<Rightarrow> url option" where
  "parse_rest scheme rest =
     (let (rest, fragment) = cut_at CHR ''#'' rest;
          (auth, pathAndQuery) = (case find_char CHR ''/'' rest of
             None \<Rightarrow> (rest, ''/'') | Some slash \<Rightarrow> (take slash rest, drop slash rest));
          auth = (case find_char CHR ''@'' auth of None \<Rightarrow> auth | Some at \<Rightarrow> drop (at + 1) auth)
      in if auth = [] then None
         else (case parse_authority auth of
           None \<Rightarrow> None
         | Some (host, port) \<Rightarrow>
             if host = [] then None
             else (let (path, query) = cut_at CHR ''?'' pathAndQuery
               in Some \<lparr>u_scheme = scheme, u_host = toLower host,
                    u_port = (if port = 0 then defaultPortFor scheme else port),
                    u_path = (if path = [] then ''/'' else path), u_query = case_option [] id query,
                    u_fragment = case_option [] id fragment\<rparr>)))"

definition parseUrl :: "string \<Rightarrow> url option" where
  "parseUrl t =
     (let trimmed = trim t
      in if trimmed = [] then None
         else (case find_sub ''://'' trimmed of
           None \<Rightarrow> None
         | Some schemeEnd \<Rightarrow>
             if schemeEnd = 0 then None
             else (let scheme = toLower (take schemeEnd trimmed); rest = drop (schemeEnd + 3) trimmed
               in if \<not> list_all scheme_char scheme then None
                  else if rest = [] then None
                  else parse_rest scheme rest)))"

fun strip_slashes :: "string \<Rightarrow> string" where
  "strip_slashes p = (if p \<noteq> [] \<and> last p = CHR ''/'' then strip_slashes (butlast p) else p)"

declare strip_slashes.simps [simp del]

definition joinUrl :: "string \<Rightarrow> string \<Rightarrow> string option" where
  "joinUrl base path =
     (if contains path ''..'' then None
      else if startsWith path ''http://'' \<or> startsWith path ''https://'' then
        (if parseUrl path \<noteq> None then Some path else None)
      else (case parseUrl base of
        None \<Rightarrow> None
      | Some parsedBase \<Rightarrow>
          (let basePath = strip_slashes (u_path parsedBase);
               suff = (if path = [] then ''/'' else if hd path \<noteq> CHR ''/'' then CHR ''/'' # path else path);
               (suff, query) = cut_at CHR ''?'' suff
           in Some (url_string (parsedBase\<lparr>u_path := basePath @ suff, u_query := case_option [] id query, u_fragment := []\<rparr>)))))"

section \<open>Percent encoding\<close>

definition unreserved :: "char \<Rightarrow> bool" where
  "unreserved c \<longleftrightarrow> is_alnum c \<or> c = CHR ''-'' \<or> c = CHR ''_'' \<or> c = CHR ''.'' \<or> c = CHR ''~''"

definition upper_hex_digit :: "nat \<Rightarrow> char" where
  "upper_hex_digit d = ''0123456789ABCDEF'' ! d"

definition encode_char :: "char \<Rightarrow> string" where
  "encode_char c =
     (if unreserved c then [c] else [CHR ''%'', upper_hex_digit (byte c div 16), upper_hex_digit (byte c mod 16)])"

definition urlEncode :: "string \<Rightarrow> string" where
  "urlEncode t = concat (map encode_char t)"

definition url_hex_value :: "char \<Rightarrow> nat option" where
  "url_hex_value c =
     (if is_digit c then Some (byte c - 48)
      else if 97 \<le> byte c \<and> byte c \<le> 102 then Some (byte c - 97 + 10)
      else if 65 \<le> byte c \<and> byte c \<le> 70 then Some (byte c - 65 + 10)
      else None)"

text \<open>The loop over the text; an escape needs its two digits inside the text.\<close>

fun urlDecode :: "string \<Rightarrow> string" where
  "urlDecode (c # h # l # t) =
     (if c = CHR ''+'' then CHR '' '' # urlDecode (h # l # t)
      else if c = CHR ''%'' then
        (case (url_hex_value h, url_hex_value l) of
           (Some high, Some low) \<Rightarrow> char_of (high * 16 + low) # urlDecode t
         | _ \<Rightarrow> c # urlDecode (h # l # t))
      else c # urlDecode (h # l # t))"
| "urlDecode (c # t) = (if c = CHR ''+'' then CHR '' '' else c) # urlDecode t"
| "urlDecode [] = []"

definition parseQuery :: "string \<Rightarrow> (string \<times> string) list" where
  "parseQuery query =
     map (\<lambda>part. case cut_at CHR ''='' part of
        (k, None) \<Rightarrow> (urlDecode k, []) | (k, Some v) \<Rightarrow> (urlDecode k, urlDecode v)) (split query CHR ''&'' True)"

section \<open>The policy\<close>

text \<open>The loop of \<open>isIpv4Literal\<close>: the octets that are complete, and the one being read.\<close>

fun ipv4_loop :: "int list \<Rightarrow> int option \<Rightarrow> string \<Rightarrow> (int list \<times> int option) option" where
  "ipv4_loop values current [] = Some (values, current)"
| "ipv4_loop values current (c # cs) =
     (if is_digit c then
        (let v = (case current of None \<Rightarrow> 0 | Some v \<Rightarrow> v) * 10 + int (digit_val c)
         in if 255 < v then None else ipv4_loop values (Some v) cs)
      else if c = CHR ''.'' then
        (case current of
           None \<Rightarrow> None
         | Some v \<Rightarrow> if 3 \<le> length values then None else ipv4_loop (values @ [v]) None cs)
      else None)"

definition isIpv4Literal :: "string \<Rightarrow> int list option" where
  "isIpv4Literal host =
     (case ipv4_loop [] None host of
        Some (values, Some v) \<Rightarrow> if length values = 3 then Some (values @ [v]) else None
      | _ \<Rightarrow> None)"

record url_policy =
  up_schemes :: "string list"
  up_hosts :: "string list"
  up_blockLinkLocal :: bool
  up_blockLoopback :: bool
  up_blockPrivate :: bool

definition default_policy :: url_policy where
  "default_policy = \<lparr>up_schemes = [''http'', ''https''], up_hosts = [], up_blockLinkLocal = True, up_blockLoopback = False,
     up_blockPrivate = False\<rparr>"

text \<open>A condition on the octets, where the host is a literal.\<close>

definition octets_in :: "string \<Rightarrow> (int \<Rightarrow> int \<Rightarrow> bool) \<Rightarrow> bool" where
  "octets_in host P = (case isIpv4Literal host of Some (a # b # _) \<Rightarrow> P a b | _ \<Rightarrow> False)"

definition private_range :: "int \<Rightarrow> int \<Rightarrow> bool" where
  "private_range a b \<longleftrightarrow> a = 10 \<or> a = 172 \<and> 16 \<le> b \<and> b \<le> 31 \<or> a = 192 \<and> b = 168"

definition reject :: "url_policy \<Rightarrow> url \<Rightarrow> string" where
  "reject p u =
     (if u_scheme u \<notin> set (up_schemes p) then ''scheme '' @ CHR 0x27 # u_scheme u @ CHR 0x27 # '' is not allowed''
      else if up_hosts p \<noteq> [] then
        (if \<not> list_ex (\<lambda>host. equalsIgnoreCase host (u_host u)) (up_hosts p)
         then ''host '' @ CHR 0x27 # u_host u @ CHR 0x27 # '' is not in the allow-list'' else [])
      else if up_blockLoopback p \<and>
          (equalsIgnoreCase (u_host u) ''localhost'' \<or> u_host u = ''::1'' \<or> octets_in (u_host u) (\<lambda>a b. a = 127))
        then ''loopback addresses are blocked by policy''
      else if up_blockLinkLocal p \<and> octets_in (u_host u) (\<lambda>a b. a = 169 \<and> b = 254)
        then ''link-local addresses (including cloud metadata endpoints) are blocked''
      else if up_blockLinkLocal p \<and> startsWith (u_host u) ''fe80:'' then ''link-local addresses are blocked''
      else if up_blockPrivate p \<and> octets_in (u_host u) private_range then ''private network addresses are blocked by policy''
      else [])"

definition reject_raw :: "url_policy \<Rightarrow> string \<Rightarrow> string" where
  "reject_raw p raw = (case parseUrl raw of None \<Rightarrow> ''not a valid absolute http(s) URL'' | Some u \<Rightarrow> reject p u)"

definition restrictedTo :: "string \<Rightarrow> url_policy" where
  "restrictedTo base =
     (case parseUrl base of
        Some u \<Rightarrow> default_policy\<lparr>up_hosts := up_hosts default_policy @ [u_host u]\<rparr> | None \<Rightarrow> default_policy)"

end
