(* ===== verification/Url_Facts.thy ===== *)
theory Url_Facts
  imports Url
begin

text \<open>
  What holds of the URLs of \<open>Url\<close>: the parts a parsed URL can have, the text of a URL parses
  back to it, percent encoding is undone by decoding, and what the policy lets through.
\<close>

section \<open>Cutting a text\<close>

lemma cut_at_absent: "c \<notin> set t \<Longrightarrow> cut_at c t = (t, None)"
  by (simp add: cut_at_def find_char_None_iff [THEN iffD2])

lemma cut_at_append: "c \<notin> set s \<Longrightarrow> cut_at c (s @ c # t) = (s, Some t)"
  by (simp add: cut_at_def find_char_append)

lemma cut_at_parts: "cut_at c t = (s, r) \<Longrightarrow> c \<notin> set s \<and> t = s @ (case r of None \<Rightarrow> [] | Some r \<Rightarrow> c # r)"
  by (auto simp: cut_at_def find_char_None_iff split: option.splits dest: find_char_Some)

lemma set_rfind_take: "rfind_char c t = Some i \<Longrightarrow> set (take i t) \<subseteq> set t"
  by (rule set_take_subset)

section \<open>The parts of a parsed URL\<close>

lemma parse_port_range: "parse_port t = Some p \<Longrightarrow> 0 < p \<and> p \<le> 65535"
  by (auto simp: parse_port_def split: option.splits if_splits)

lemma parse_authority_parts:
  assumes "parse_authority a = Some (host, port)"
  shows "set host \<subseteq> set a" "0 \<le> port" "port \<le> 65535"
proof -
  from assms show "0 \<le> port" "port \<le> 65535"
    by (auto simp: parse_authority_def Let_def dest!: parse_port_range split: if_splits option.splits)
  from assms show "set host \<subseteq> set a"
    by (auto simp: parse_authority_def Let_def substr_def split: if_splits option.splits
        dest: in_set_takeD in_set_dropD)
qed

definition url_wf :: "url \<Rightarrow> bool" where
  "url_wf u \<longleftrightarrow> u_scheme u \<noteq> [] \<and> list_all scheme_char (u_scheme u) \<and> toLower (u_scheme u) = u_scheme u
     \<and> u_host u \<noteq> [] \<and> toLower (u_host u) = u_host u \<and> CHR ''/'' \<notin> set (u_host u) \<and> CHR ''#'' \<notin> set (u_host u)
     \<and> 0 \<le> u_port u \<and> u_port u \<le> 65535
     \<and> u_path u \<noteq> [] \<and> hd (u_path u) = CHR ''/'' \<and> CHR ''?'' \<notin> set (u_path u) \<and> CHR ''#'' \<notin> set (u_path u)
     \<and> CHR ''#'' \<notin> set (u_query u)"

lemma lower_is_lower: "is_upper d \<Longrightarrow> is_lower (to_lower_char d)"
  by (simp add: to_lower_char_def is_upper_def is_lower_def byte_char_of)

lemma mem_toLower: "\<not> is_alpha c \<Longrightarrow> c \<in> set (toLower t) \<longleftrightarrow> c \<in> set t"
proof -
  assume c: "\<not> is_alpha c"
  have "to_lower_char d = c \<longleftrightarrow> d = c" for d
    using c lower_is_lower [of d] by (cases "is_upper d") (auto simp: to_lower_char_def is_alpha_def)
  then show ?thesis by (simp add: toLower_def image_iff eq_commute [of c])
qed

lemma delimiter_lower [simp]:
  "CHR ''/'' \<in> set (toLower t) \<longleftrightarrow> CHR ''/'' \<in> set t" "CHR ''#'' \<in> set (toLower t) \<longleftrightarrow> CHR ''#'' \<in> set t"
  by (rule mem_toLower; simp add: byte_simps)+

lemma toLower_eq_Nil [simp]: "toLower t = [] \<longleftrightarrow> t = []"
  by (simp add: toLower_def)

lemma defaultPort_range: "0 \<le> defaultPortFor s" "defaultPortFor s \<le> 65535"
  by (simp_all add: defaultPortFor_def)

lemma before_slash:
  assumes "(case find_char CHR ''/'' rest of None \<Rightarrow> (rest, ''/'') | Some i \<Rightarrow> (take i rest, drop i rest)) = (auth, pq)"
  shows "CHR ''/'' \<notin> set auth \<and> set auth \<subseteq> set rest \<and> (\<exists>more. pq = CHR ''/'' # more \<and> set more \<subseteq> set rest)"
proof (cases "find_char CHR ''/'' rest")
  case None
  with assms show ?thesis by (auto simp: find_char_None_iff)
next
  case (Some i)
  note f = find_char_Some [OF Some]
  from f have d: "drop i rest = CHR ''/'' # drop (Suc i) rest" by (metis Cons_nth_drop_Suc)
  from assms Some have "auth = take i rest" "pq = drop i rest" by simp_all
  with f d show ?thesis using set_take_subset [of i rest] set_drop_subset [of "Suc i" rest] by simp
qed

lemma parse_rest_wf:
  assumes "parse_rest scheme rest = Some u"
  shows "u_scheme u = scheme \<and> u_host u \<noteq> [] \<and> toLower (u_host u) = u_host u \<and> CHR ''/'' \<notin> set (u_host u)
    \<and> CHR ''#'' \<notin> set (u_host u) \<and> 0 \<le> u_port u \<and> u_port u \<le> 65535 \<and> u_path u \<noteq> [] \<and> hd (u_path u) = CHR ''/''
    \<and> CHR ''?'' \<notin> set (u_path u) \<and> CHR ''#'' \<notin> set (u_path u) \<and> CHR ''#'' \<notin> set (u_query u)"
proof -
  obtain r fragment where cut: "cut_at CHR ''#'' rest = (r, fragment)" by fastforce
  obtain auth0 pq where sl: "(case find_char CHR ''/'' r of None \<Rightarrow> (r, ''/'')
      | Some i \<Rightarrow> (take i r, drop i r)) = (auth0, pq)" by fastforce
  define auth where "auth = (case find_char CHR ''@'' auth0 of None \<Rightarrow> auth0 | Some at \<Rightarrow> drop (at + 1) auth0)"
  obtain path query where q: "cut_at CHR ''?'' pq = (path, query)" by fastforce
  from assms obtain host port where pa: "parse_authority auth = Some (host, port)" and h: "host \<noteq> []"
    and u: "u = \<lparr>u_scheme = scheme, u_host = toLower host, u_port = (if port = 0 then defaultPortFor scheme else port),
                  u_path = (if path = [] then ''/'' else path), u_query = case_option [] id query,
                  u_fragment = case_option [] id fragment\<rparr>"
    by (auto simp: parse_rest_def cut sl q auth_def [symmetric] split: if_splits option.splits)
  have nohash: "CHR ''#'' \<notin> set r" using cut_at_parts [OF cut] by simp
  have sub: "set auth \<subseteq> set auth0" by (auto simp: auth_def split: option.splits dest: in_set_dropD)
  note s = before_slash [OF sl]
  from sub s nohash have ha: "CHR ''/'' \<notin> set host" "CHR ''#'' \<notin> set host"
    using parse_authority_parts(1) [OF pa] by blast+
  from s obtain more where pq: "pq = CHR ''/'' # more" and more: "set more \<subseteq> set r" by blast
  note c = cut_at_parts [OF q]
  have nh: "CHR ''#'' \<notin> set pq" using nohash more by (auto simp: pq)
  have "path \<noteq> [] \<Longrightarrow> hd path = CHR ''/''" using c pq by (cases path) auto
  with c nh have "hd (if path = [] then ''/'' else path) = CHR ''/''" "CHR ''#'' \<notin> set path"
    "CHR ''#'' \<notin> set (case_option [] id query)" by (auto split: option.splits)
  with c h ha show ?thesis
    using parse_authority_parts(2,3) [OF pa] defaultPort_range [of scheme] by (auto simp: u)
qed

lemma parseUrl_cases:
  assumes "parseUrl t = Some u"
  obtains i where "find_sub ''://'' (trim t) = Some i" "i \<noteq> 0"
    "list_all scheme_char (toLower (take i (trim t)))" "drop (i + 3) (trim t) \<noteq> []"
    "parse_rest (toLower (take i (trim t))) (drop (i + 3) (trim t)) = Some u"
proof -
  from assms obtain i where i: "find_sub ''://'' (trim t) = Some i" "i \<noteq> 0"
    by (fastforce simp: parseUrl_def Let_def split: if_splits option.splits)
  from assms have ne: "trim t \<noteq> []" by (auto simp: parseUrl_def Let_def)
  from assms i(2) ne have "list_all scheme_char (toLower (take i (trim t))) \<and> drop (i + 3) (trim t) \<noteq> [] \<and>
      parse_rest (toLower (take i (trim t))) (drop (i + 3) (trim t)) = Some u"
    by (simp add: parseUrl_def i(1) Let_def split: if_splits)
  with i that show thesis by blast
qed

lemma parseUrl_parts:
  assumes "parseUrl t = Some u"
  shows "url_wf u"
proof -
  from assms obtain i where i: "find_sub ''://'' (trim t) = Some i" "i \<noteq> 0"
    and s: "list_all scheme_char (toLower (take i (trim t)))"
    and r: "parse_rest (toLower (take i (trim t))) (drop (i + 3) (trim t)) = Some u"
    by (rule parseUrl_cases)
  have ne: "take i (trim t) \<noteq> []" using i find_sub_Some [OF i(1)] by auto
  from parse_rest_wf [OF r] s ne show ?thesis by (auto simp: url_wf_def)
qed

text \<open>
  The parts of a parsed URL are in their ranges: the scheme and the host are not empty and
  in lower case, neither the host, the path nor the query holds a character that starts a later
  part, the port is 0 to 65535, and the path starts with a slash.
\<close>

theorem parseUrl_wf: "parseUrl t = Some u \<Longrightarrow> url_wf u"
  by (rule parseUrl_parts)

lemma parseUrl_example:
  "parseUrl ''HTTP://user@Host.io:8080/a?b=1#c'' =
     Some \<lparr>u_scheme = ''http'', u_host = ''host.io'', u_port = 8080, u_path = ''/a'', u_query = ''b=1'', u_fragment = ''c''\<rparr>"
  by code_simp

theorem parseUrl_wf_witness:
  "url_wf \<lparr>u_scheme = ''http'', u_host = ''host.io'', u_port = 8080, u_path = ''/a'', u_query = ''b=1'', u_fragment = ''c''\<rparr>"
  by (rule parseUrl_wf [OF parseUrl_example])

section \<open>The text of a URL\<close>

definition url_base_ok :: "url \<Rightarrow> bool" where
  "url_base_ok u \<longleftrightarrow> u_scheme u \<in> {''http'', ''https''} \<and> u_host u \<noteq> [] \<and> toLower (u_host u) = u_host u
     \<and> set (u_host u) \<inter> set ''/#:@'' = {} \<and> hd (u_host u) \<noteq> CHR ''['' \<and> 0 < u_port u \<and> u_port u \<le> 65535"

definition url_ok :: "url \<Rightarrow> bool" where
  "url_ok u \<longleftrightarrow> url_wf u \<and> url_base_ok u \<and> \<not> is_space (last (url_string u))"

lemma show_port_chars: "0 \<le> p \<Longrightarrow> c \<in> set (show_int p) \<Longrightarrow> is_digit c"
  using show_nat_digits [of "nat p"] by (simp add: show_int_def)

lemma parse_port_show: "0 < p \<Longrightarrow> p \<le> 65535 \<Longrightarrow> parse_port (show_int p) = Some p"
proof -
  assume p: "0 < p" "p \<le> 65535"
  then have "sint (word_of_int p :: i64) = p" by (simp add: signed_of_int signed_take_bit_int_eq_self)
  with parseInt_show_int [of "word_of_int p :: i64"] p show ?thesis by (simp add: parse_port_def)
qed

lemma mem_authority:
  assumes "url_base_ok u" "\<not> is_digit c" "c \<noteq> CHR '':''" "c \<notin> set (u_host u)"
  shows "c \<notin> set (authority u)"
  using assms show_port_chars [of "u_port u" c] by (auto simp: authority_def url_base_ok_def)

lemma authority_delimiters:
  assumes "url_base_ok u"
  shows "CHR ''#'' \<notin> set (authority u)" "CHR ''/'' \<notin> set (authority u)" "CHR ''@'' \<notin> set (authority u)" "authority u \<noteq> []"
  using mem_authority [OF assms, of "CHR ''#''"] mem_authority [OF assms, of "CHR ''/''"] mem_authority [OF assms, of "CHR ''@''"] assms
  by (auto simp: url_base_ok_def byte_simps authority_def)

lemma parse_authority_authority:
  assumes "url_base_ok u"
  shows "parse_authority (authority u) =
    Some (u_host u, if u_port u = defaultPortFor (u_scheme u) then 0 else u_port u)"
proof -
  from assms have h: "u_host u \<noteq> []" "hd (u_host u) \<noteq> CHR ''[''" "CHR '':'' \<notin> set (u_host u)" "0 < u_port u"
    "u_port u \<le> 65535" by (auto simp: url_base_ok_def)
  then have a: "hd (authority u) \<noteq> CHR ''[''" by (simp add: authority_def)
  have d: "CHR '':'' \<notin> set (show_int (u_port u))"
    using show_port_chars [of "u_port u" "CHR '':''"] h(4) by (auto simp: byte_simps)
  show ?thesis
  proof (cases "u_port u = defaultPortFor (u_scheme u)")
    case True
    with h a show ?thesis
      by (auto simp: parse_authority_def authority_def rfind_char_None_iff [THEN iffD2])
  next
    case False
    with h(4) have "authority u = u_host u @ CHR '':'' # show_int (u_port u)" by (simp add: authority_def)
    moreover from d have "rfind_char CHR '':'' (u_host u @ CHR '':'' # show_int (u_port u)) = Some (length (u_host u))"
      by (rule rfind_char_append)
    ultimately show ?thesis using a False h(4,5) by (simp add: parse_authority_def parse_port_show)
  qed
qed

lemma requestTarget_cases:
  assumes "url_wf u"
  shows "cut_at CHR ''?'' (requestTarget u) = (u_path u, if u_query u = [] then None else Some (u_query u))"
    and "\<exists>more. requestTarget u = CHR ''/'' # more" and "CHR ''#'' \<notin> set (requestTarget u)"
proof -
  from assms obtain more where p: "u_path u = CHR ''/'' # more" "CHR ''?'' \<notin> set (u_path u)"
    by (cases "u_path u") (auto simp: url_wf_def)
  then show "cut_at CHR ''?'' (requestTarget u) = (u_path u, if u_query u = [] then None else Some (u_query u))"
    using cut_at_append [OF p(2), of "u_query u"] cut_at_absent [OF p(2)] by (simp add: requestTarget_def Let_def)
  from p show "\<exists>more. requestTarget u = CHR ''/'' # more" by (auto simp: requestTarget_def Let_def)
  from assms show "CHR ''#'' \<notin> set (requestTarget u)" by (auto simp: requestTarget_def Let_def url_wf_def)
qed

lemma parse_rest_string:
  assumes "url_ok u"
  shows "parse_rest (u_scheme u)
    (authority u @ requestTarget u @ (if u_fragment u \<noteq> [] then CHR ''#'' # u_fragment u else [])) = Some u"
proof -
  from assms have wf: "url_wf u" and base: "url_base_ok u" by (simp_all add: url_ok_def)
  obtain more where more: "requestTarget u = CHR ''/'' # more" using requestTarget_cases(2) [OF wf] by blast
  note delims = authority_delimiters [OF base]
  have nh: "CHR ''#'' \<notin> set (authority u @ requestTarget u)" using delims requestTarget_cases(3) [OF wf] by simp
  have cut: "cut_at CHR ''#'' (authority u @ requestTarget u @ (if u_fragment u \<noteq> [] then CHR ''#'' # u_fragment u else []))
      = (authority u @ requestTarget u, if u_fragment u = [] then None else Some (u_fragment u))"
    using cut_at_append [OF nh, of "u_fragment u"] cut_at_absent [OF nh] by simp
  have slash: "find_char CHR ''/'' (authority u @ requestTarget u) = Some (length (authority u))"
    using find_char_append [OF delims(2)] by (simp add: more)
  show ?thesis
    using wf base delims
    by (simp add: parse_rest_def cut slash find_char_None_iff [THEN iffD2] parse_authority_authority [OF base]
        requestTarget_cases(1) [OF wf] url_wf_def url_base_ok_def)
qed

text \<open>
  The text of a URL parses back to that URL: scheme http or https, a port of its own, a host
  that is no IPv6 literal and holds no user separator, and no white space at the end.
\<close>

theorem parseUrl_string:
  assumes "url_ok u"
  shows "parseUrl (url_string u) = Some u"
proof -
  from assms have s: "u_scheme u = ''http'' \<or> u_scheme u = ''https''" by (auto simp: url_ok_def url_base_ok_def)
  have trim: "trim (url_string u) = url_string u"
    using s assms by (intro trim_id) (auto simp: url_string_def url_ok_def byte_simps)
  have sub: "find_sub ''://'' (url_string u) = Some (length (u_scheme u))"
    using s by (auto simp: url_string_def)
  have ne: "authority u \<noteq> []" using assms authority_delimiters(4) by (simp add: url_ok_def)
  have parts: "url_string u \<noteq> []" "take (length (u_scheme u)) (url_string u) = u_scheme u"
    "drop (length (u_scheme u) + 3) (url_string u) =
      authority u @ requestTarget u @ (if u_fragment u \<noteq> [] then CHR ''#'' # u_fragment u else [])"
    by (simp_all add: url_string_def)
  have "u_scheme u \<noteq> []" "list_all scheme_char (u_scheme u)" "toLower (u_scheme u) = u_scheme u"
    using assms by (simp_all add: url_ok_def url_wf_def)
  then show ?thesis
    using parse_rest_string [OF assms] ne by (simp add: parseUrl_def trim sub parts Let_def)
qed

lemma url_ok_example:
  "url_ok \<lparr>u_scheme = ''https'', u_host = ''host'', u_port = 8443, u_path = ''/a'', u_query = ''b=1'', u_fragment = []\<rparr>"
  by (simp add: url_ok_def url_base_ok_def url_wf_def url_string_def authority_def requestTarget_def defaultPortFor_def scheme_char_def
      toLower_def byte_simps)

theorem parseUrl_string_witness:
  "parseUrl (url_string \<lparr>u_scheme = ''https'', u_host = ''host'', u_port = 8443, u_path = ''/a'', u_query = ''b=1'', u_fragment = []\<rparr>)
    = Some \<lparr>u_scheme = ''https'', u_host = ''host'', u_port = 8443, u_path = ''/a'', u_query = ''b=1'', u_fragment = []\<rparr>"
  by (rule parseUrl_string [OF url_ok_example])

text \<open>Whatever follows the first slash, the scheme, host and port are read back.\<close>

lemma trim_keeps_front:
  assumes "a \<noteq> []" "\<not> is_space (hd a)" "\<not> is_space (last a)"
  shows "\<exists>z. trim (a @ y) = a @ z"
proof -
  from assms have "dropWhile is_space (a @ y) = a @ y" by (cases a) auto
  moreover have "rev (dropWhile is_space (rev (a @ y))) = a @ rev (dropWhile is_space (rev y))"
  proof (cases "list_all is_space y")
    case True
    then have "dropWhile is_space (rev y) = []" by (simp add: list_all_iff)
    moreover have "dropWhile is_space (rev a) = rev a" using assms by (cases "rev a") (auto simp: hd_rev [symmetric])
    ultimately show ?thesis using True by (simp add: dropWhile_append list_all_iff)
  next
    case False
    then show ?thesis by (auto simp: dropWhile_append list_all_iff)
  qed
  ultimately show ?thesis by (auto simp: trim_eq)
qed

lemma cut_at_front: "c \<notin> set a \<Longrightarrow> cut_at c (a @ y) = (a @ fst (cut_at c y), snd (cut_at c y))"
  by (auto simp: cut_at_def find_char_append_None split: option.splits)

lemma parseUrl_base:
  assumes "url_base_ok u"
  shows "\<exists>v. parseUrl (u_scheme u @ ''://'' @ authority u @ ''/'' @ t) = Some v
    \<and> u_scheme v = u_scheme u \<and> u_host v = u_host u \<and> u_port v = u_port u"
proof -
  let ?front = "u_scheme u @ ''://'' @ authority u @ ''/''"
  from assms have s: "u_scheme u = ''http'' \<or> u_scheme u = ''https''" by (auto simp: url_base_ok_def)
  have "?front \<noteq> []" "\<not> is_space (hd ?front)" "\<not> is_space (last ?front)" using s by (auto simp: byte_simps)
  then obtain z where z: "trim (?front @ t) = ?front @ z" using trim_keeps_front by blast
  have sub: "find_sub ''://'' (?front @ z) = Some (length (u_scheme u))" using s by auto
  have parts: "take (length (u_scheme u)) (?front @ z) = u_scheme u" "drop (length (u_scheme u) + 3) (?front @ z) = authority u @ ''/'' @ z"
    by simp_all
  note delims = authority_delimiters [OF assms]
  have slash: "find_char CHR ''/'' (authority u @ CHR ''/'' # y) = Some (length (authority u))" for y
    using find_char_append [OF delims(2)] by simp
  obtain v where v: "parse_rest (u_scheme u) (authority u @ ''/'' @ z) = Some v"
    "u_scheme v = u_scheme u" "u_host v = u_host u" "u_port v = u_port u"
  proof (rule that [of "the (parse_rest (u_scheme u) (authority u @ ''/'' @ z))"])
    obtain z' f where zf: "cut_at CHR ''#'' z = (z', f)" by fastforce
    have cut: "cut_at CHR ''#'' (authority u @ ''/'' @ z) = (authority u @ CHR ''/'' # z', f)"
      using cut_at_front [of "CHR ''#''" "authority u @ ''/''" z] delims(1) zf by simp
    obtain p q where pq: "cut_at CHR ''?'' (CHR ''/'' # z') = (p, q)" by fastforce
    have r: "parse_rest (u_scheme u) (authority u @ ''/'' @ z) = Some \<lparr>u_scheme = u_scheme u, u_host = u_host u, u_port = u_port u,
        u_path = (if p = [] then ''/'' else p), u_query = case_option [] id q, u_fragment = case_option [] id f\<rparr>"
      unfolding parse_rest_def cut using assms delims
      by (simp add: slash pq find_char_None_iff [THEN iffD2] parse_authority_authority [OF assms] url_base_ok_def)
    show "parse_rest (u_scheme u) (authority u @ ''/'' @ z) = Some (the (parse_rest (u_scheme u) (authority u @ ''/'' @ z)))"
      "u_scheme (the (parse_rest (u_scheme u) (authority u @ ''/'' @ z))) = u_scheme u"
      "u_host (the (parse_rest (u_scheme u) (authority u @ ''/'' @ z))) = u_host u"
      "u_port (the (parse_rest (u_scheme u) (authority u @ ''/'' @ z))) = u_port u"
      unfolding r by simp_all
  qed
  have schemes: "list_all scheme_char (u_scheme u)" "toLower (u_scheme u) = u_scheme u" "u_scheme u \<noteq> []"
    using s by (auto simp: scheme_char_def toLower_def byte_simps)
  have "parseUrl (?front @ t) = Some v"
    unfolding parseUrl_def z Let_def sub option.case parts using schemes v(1) by simp
  with v show ?thesis by auto
qed

text \<open>
  Outside these bounds the text does not come back: an IPv6 host loses its brackets, and of two
  at signs the second survives in the host and is read as a separator the next time.
\<close>

lemma joinUrl_ipv6: "joinUrl ''http://[::1]'' ''/x'' = Some ''http://::1/x''"
  by code_simp

lemma reparse_ipv6: "map_option u_host (parseUrl ''http://::1/x'') = Some '':''"
  by code_simp

lemma userinfo_reparsed: "map_option u_host (parseUrl ''http://a@b@c/'') = Some ''b@c'' \<and>
    map_option u_host (parseUrl ''http://b@c/'') = Some ''c''"
  by code_simp

lemma other_scheme_parses: "map_option u_scheme (parseUrl ''ftp://h/'') = Some ''ftp''"
  by code_simp

section \<open>Percent encoding\<close>

lemma upper_hex_value: "d < 16 \<Longrightarrow> url_hex_value (upper_hex_digit d) = Some d"
proof -
  assume "d < 16"
  then have "d \<in> set [0..<16]" by simp
  moreover have "list_all (\<lambda>d. url_hex_value (upper_hex_digit d) = Some d) [0..<16]" by code_simp
  ultimately show ?thesis by (simp only: list_all_iff)
qed

lemma urlDecode_plain: "c \<noteq> CHR ''+'' \<Longrightarrow> c \<noteq> CHR ''%'' \<Longrightarrow> urlDecode (c # t) = c # urlDecode t"
  by (cases t; cases "tl t") simp_all

lemma urlDecode_encode_char: "urlDecode (encode_char c @ t) = c # urlDecode t"
proof (cases "unreserved c")
  case True
  then have "c \<noteq> CHR ''+''" "c \<noteq> CHR ''%''" by (auto simp: unreserved_def byte_simps)
  with True show ?thesis by (simp add: encode_char_def urlDecode_plain)
next
  case False
  have "byte c div 16 < 16" "byte c mod 16 < 16" using byte_less_256 [of c] by (simp_all del: byte_less_256)
  then have "url_hex_value (upper_hex_digit (byte c div 16)) = Some (byte c div 16)"
    "url_hex_value (upper_hex_digit (byte c mod 16)) = Some (byte c mod 16)"
    by (simp_all add: upper_hex_value)
  moreover have "char_of (byte c div 16 * 16 + byte c mod 16) = c" by (simp only: div_mult_mod_eq char_of_byte)
  ultimately show ?thesis using False by (simp add: encode_char_def)
qed

lemma encode_char_chars: "d \<in> set (encode_char c) \<Longrightarrow> unreserved d \<or> d = CHR ''%''"
proof -
  have "list_all (\<lambda>d. unreserved (upper_hex_digit d)) [0..<16]" by code_simp
  then have hex: "unreserved (upper_hex_digit n)" if "n < 16" for n using that by (simp add: list_all_iff)
  have "byte c div 16 < 16" "byte c mod 16 < 16" using byte_less_256 [of c] by (simp_all del: byte_less_256)
  note hex [OF this(1)] hex [OF this(2)]
  moreover assume "d \<in> set (encode_char c)"
  ultimately show ?thesis by (auto simp: encode_char_def split: if_splits)
qed

text \<open>
  Decoding undoes percent encoding for every text of bytes, and the encoded text holds
  unreserved characters and percent signs only, so none that delimits a part of a URL.
\<close>

theorem urlDecode_urlEncode:
  "urlDecode (urlEncode t) = t \<and> list_all (\<lambda>c. unreserved c \<or> c = CHR ''%'') (urlEncode t)"
proof
  show "urlDecode (urlEncode t) = t" by (induction t) (simp_all add: urlEncode_def urlDecode_encode_char)
  show "list_all (\<lambda>c. unreserved c \<or> c = CHR ''%'') (urlEncode t)"
    using encode_char_chars by (fastforce simp: list_all_iff urlEncode_def)
qed

section \<open>The policy\<close>

lemma foldl_digits_mono: "v \<le> foldl (\<lambda>a c. 10 * a + digit_val c) v ds"
proof (induction ds arbitrary: v)
  case (Cons d ds)
  from Cons.IH [of "10 * v + digit_val d"] show ?case by simp
qed simp

lemma ipv4_loop_more_digits:
  "list_all is_digit ds \<Longrightarrow> foldl (\<lambda>a c. 10 * a + digit_val c) v ds \<le> 255 \<Longrightarrow>
    ipv4_loop vs (Some (int v)) (ds @ t) = ipv4_loop vs (Some (int (foldl (\<lambda>a c. 10 * a + digit_val c) v ds))) t"
proof (induction ds arbitrary: v)
  case (Cons d ds)
  from foldl_digits_mono [of "10 * v + digit_val d" ds] Cons.prems have "10 * v + digit_val d \<le> 255" by simp
  moreover have "int v * 10 + int (digit_val d) = int (10 * v + digit_val d)" by simp
  ultimately show ?case using Cons.prems Cons.IH [of "10 * v + digit_val d"] by (simp add: mult.commute)
qed simp

lemma ipv4_loop_digits:
  assumes "ds \<noteq> []" "list_all is_digit ds" "digits_val ds \<le> 255"
  shows "ipv4_loop vs None (ds @ t) = ipv4_loop vs (Some (int (digits_val ds))) t"
proof -
  from assms(1) obtain d rest where ds: "ds = d # rest" by (cases ds) auto
  from foldl_digits_mono [of "digit_val d" rest] assms(3) have "digit_val d \<le> 255"
    by (simp add: ds digits_val_def)
  with ipv4_loop_more_digits [of rest "digit_val d" vs t] assms(2,3) show ?thesis
    by (simp add: ds digits_val_def)
qed

text \<open>Every dotted-decimal spelling of an address is recognised, leading zeros included.\<close>

lemma isIpv4Literal_dotted:
  assumes "list_all (\<lambda>ds. ds \<noteq> [] \<and> list_all is_digit ds \<and> digits_val ds \<le> 255) [a, b, c, d]"
  shows "isIpv4Literal (a @ ''.'' @ b @ ''.'' @ c @ ''.'' @ d) =
    Some [int (digits_val a), int (digits_val b), int (digits_val c), int (digits_val d)]"
proof -
  have dot: "\<not> is_digit CHR ''.''" by (simp add: byte_simps)
  from assms have "a \<noteq> []" "list_all is_digit a" "digits_val a \<le> 255" "b \<noteq> []" "list_all is_digit b" "digits_val b \<le> 255"
    "c \<noteq> []" "list_all is_digit c" "digits_val c \<le> 255" "d \<noteq> []" "list_all is_digit d" "digits_val d \<le> 255"
    by simp_all
  then show ?thesis using ipv4_loop_digits [of d _ "[]"] by (simp add: isIpv4Literal_def ipv4_loop_digits dot)
qed

lemma reject_allowed:
  assumes "reject p u = []"
  shows "u_scheme u \<in> set (up_schemes p)"
    and "up_hosts p \<noteq> [] \<Longrightarrow> toLower (u_host u) \<in> toLower ` set (up_hosts p)"
    and "up_hosts p = [] \<Longrightarrow> up_blockLinkLocal p \<Longrightarrow> \<not> octets_in (u_host u) (\<lambda>a b. a = 169 \<and> b = 254)"
    and "up_hosts p = [] \<Longrightarrow> up_blockLoopback p \<Longrightarrow> \<not> octets_in (u_host u) (\<lambda>a b. a = 127)"
    and "up_hosts p = [] \<Longrightarrow> up_blockPrivate p \<Longrightarrow> \<not> octets_in (u_host u) private_range"
  using assms by (auto simp: reject_def list_ex_iff equalsIgnoreCase_toLower image_iff eq_commute [of _ "toLower (u_host u)"] split: if_splits)

text \<open>
  C22. A URL the policy accepts is well formed and of an allowed scheme. Its host is one of the
  allow-list, when there is one; otherwise no dotted-decimal spelling of an address in
  169.254.0.0/16, where cloud metadata is served, gets through while link-local addresses are
  blocked.
\<close>

theorem policy_sound:
  assumes "reject_raw p raw = []"
  shows "\<exists>u. parseUrl raw = Some u \<and> url_wf u \<and> u_scheme u \<in> set (up_schemes p)
    \<and> (up_hosts p \<noteq> [] \<longrightarrow> toLower (u_host u) \<in> toLower ` set (up_hosts p))
    \<and> (up_hosts p = [] \<and> up_blockLinkLocal p \<longrightarrow> (\<forall>a b c d.
        list_all (\<lambda>ds. ds \<noteq> [] \<and> list_all is_digit ds \<and> digits_val ds \<le> 255) [a, b, c, d] \<and>
        digits_val a = 169 \<and> digits_val b = 254 \<longrightarrow> u_host u \<noteq> a @ ''.'' @ b @ ''.'' @ c @ ''.'' @ d))"
proof -
  from assms obtain u where u: "parseUrl raw = Some u" and r: "reject p u = []"
    by (auto simp: reject_raw_def split: option.splits)
  have "u_host u \<noteq> a @ ''.'' @ b @ ''.'' @ c @ ''.'' @ d"
    if "up_hosts p = []" "up_blockLinkLocal p" and ab: "digits_val a = 169" "digits_val b = 254"
      and ds: "list_all (\<lambda>ds. ds \<noteq> [] \<and> list_all is_digit ds \<and> digits_val ds \<le> 255) [a, b, c, d]" for a b c d
  proof -
    from that reject_allowed(3) [OF r] have "\<not> octets_in (u_host u) (\<lambda>a b. a = 169 \<and> b = 254)" by simp
    with isIpv4Literal_dotted [OF ds] ab show ?thesis by (auto simp: octets_in_def)
  qed
  with u parseUrl_parts [OF u] reject_allowed(1,2) [OF r] show ?thesis by blast
qed

lemma policy_example: "reject_raw default_policy ''https://host.io/'' = []"
  by code_simp

theorem policy_sound_witness: "\<exists>u. parseUrl ''https://host.io/'' = Some u \<and> u_scheme u \<in> {''http'', ''https''}"
  using policy_sound [OF policy_example] by (auto simp: default_policy_def)

text \<open>
  Only the dotted-decimal spelling is recognised. The name resolver also takes the shorter,
  octal and single-number spellings of the same address, and those pass.
\<close>

lemma metadata_blocked: "reject_raw default_policy ''http://169.254.169.254/'' \<noteq> []"
  by code_simp

lemma metadata_as_number: "reject_raw default_policy ''http://2852039166/'' = []"
  by code_simp

lemma metadata_shortened: "reject_raw default_policy ''http://169.254.43518/'' = []"
  by code_simp

text \<open>A policy restricted to a base that does not parse admits every host.\<close>

lemma restricted_to_nothing: "parseUrl base = None \<Longrightarrow> restrictedTo base = default_policy"
  by (simp add: restrictedTo_def)

end
