(* ===== verification/Http_Types.thy ===== *)
theory Http_Types
  imports Json_Text Redact Core_Types Clock Ordered_Map
begin

text \<open>
  HTTP messages (\<open>src/net/HttpTypes.cpp\<close>): the header list, which keeps the order and the case of
  what was added and is searched without regard to case, requests, responses and the redacted
  metadata recorded of a response.

  An \<open>int\<close> of the source (a status code) is an integer, a duration in milliseconds a 64-bit word.
\<close>

section \<open>Headers\<close>

type_synonym headers = "(string \<times> string) list"

definition headers_add :: "string \<Rightarrow> string \<Rightarrow> headers \<Rightarrow> headers" where
  "headers_add name v hs = hs @ [(name, v)]"

definition headers_remove :: "string \<Rightarrow> headers \<Rightarrow> headers" where
  "headers_remove name hs = filter (\<lambda>item. \<not> equalsIgnoreCase (fst item) name) hs"

definition headers_set :: "string \<Rightarrow> string \<Rightarrow> headers \<Rightarrow> headers" where
  "headers_set name v hs = headers_remove name hs @ [(name, v)]"

fun headers_get :: "string \<Rightarrow> headers \<Rightarrow> string option" where
  "headers_get name [] = None"
| "headers_get name ((key, v) # hs) = (if equalsIgnoreCase key name then Some v else headers_get name hs)"

definition headers_getOr :: "string \<Rightarrow> string \<Rightarrow> headers \<Rightarrow> string" where
  "headers_getOr name fallback hs = case_option fallback id (headers_get name hs)"

definition headers_contains :: "string \<Rightarrow> headers \<Rightarrow> bool" where
  "headers_contains name hs \<longleftrightarrow> headers_get name hs \<noteq> None"

definition headers_getAll :: "string \<Rightarrow> headers \<Rightarrow> string list" where
  "headers_getAll name hs = map snd (filter (\<lambda>item. equalsIgnoreCase (fst item) name) hs)"

definition headers_redacted :: "headers \<Rightarrow> json" where
  "headers_redacted hs =
     obj_of (map (\<lambda>(key, v). (key, JString (if isSensitiveName key then redaction_mask else redactSecrets v))) hs)"

section \<open>Requests and responses\<close>

record http_request =
  rq_method :: string
  rq_url :: string
  rq_headers :: headers
  rq_body :: string
  rq_timeout :: i64

definition default_request :: http_request where
  "default_request = \<lparr>rq_method = ''GET'', rq_url = [], rq_headers = [], rq_body = [], rq_timeout = 0\<rparr>"

definition jsonPost :: "string \<Rightarrow> json \<Rightarrow> http_request" where
  "jsonPost url payload = default_request\<lparr>rq_method := ''POST'', rq_url := url, rq_body := json_dump payload,
     rq_headers := headers_set ''Accept'' ''application/json'' (headers_set ''Content-Type'' ''application/json'' [])\<rparr>"

definition request_get :: "string \<Rightarrow> http_request" where
  "request_get url = default_request\<lparr>rq_method := ''GET'', rq_url := url,
     rq_headers := headers_set ''Accept'' ''application/json'' []\<rparr>"

record http_response =
  rs_status :: int
  rs_statusText :: string
  rs_headers :: headers
  rs_body :: string
  rs_elapsed :: i64
  rs_transportError :: bool
  rs_errorMessage :: string
  rs_requestMethod :: string
  rs_requestUrl :: string

definition default_response :: http_response where
  "default_response = \<lparr>rs_status = 0, rs_statusText = [], rs_headers = [], rs_body = [], rs_elapsed = 0,
     rs_transportError = False, rs_errorMessage = [], rs_requestMethod = [], rs_requestUrl = []\<rparr>"

definition response_ok :: "http_response \<Rightarrow> bool" where
  "response_ok r \<longleftrightarrow> 200 \<le> rs_status r \<and> rs_status r < 300"

definition isClientError :: "http_response \<Rightarrow> bool" where
  "isClientError r \<longleftrightarrow> 400 \<le> rs_status r \<and> rs_status r < 500"

definition isServerError :: "http_response \<Rightarrow> bool" where
  "isServerError r \<longleftrightarrow> 500 \<le> rs_status r"

definition describeTarget :: "http_response \<Rightarrow> string" where
  "describeTarget r =
     (if rs_requestMethod r = [] \<and> rs_requestUrl r = [] then ''<unknown request>''
      else rs_requestMethod r @ '' '' @ rs_requestUrl r)"

definition response_json :: "http_response \<Rightarrow> json option" where
  "response_json r =
     (if rs_body r = [] then None
      else (case tryParse default_limits (rs_body r) of Inr v \<Rightarrow> Some v | Inl _ \<Rightarrow> None))"

definition no_location :: source_location where
  "no_location = \<lparr>sl_file = Some [], sl_line = 0, sl_function = Some []\<rparr>"

definition jsonOrThrow :: "http_response \<Rightarrow> test_exception + json" where
  "jsonOrThrow r =
     (if rs_body r = [] then Inr JNull
      else (case tryParse default_limits (rs_body r) of
        Inr v \<Rightarrow> Inr v
      | Inl e \<Rightarrow> Inl (AssertionError (''response body is not valid JSON for '' @ describeTarget r @ '': '' @ e)
          ''response.json()'' ''valid JSON'' (String_Utils.truncate (rs_body r) 400) no_location)))"

definition contentType :: "http_response \<Rightarrow> string" where
  "contentType r =
     (let v = headers_getOr ''Content-Type'' [] (rs_headers r)
      in trim (case find_char CHR '';'' v of Some semicolon \<Rightarrow> take semicolon v | None \<Rightarrow> v))"

definition toMetadataJson :: "http_response \<Rightarrow> json" where
  "toMetadataJson r = obj_of
     ([(''http_method'', JString (rs_requestMethod r)), (''http_url'', JString (rs_requestUrl r)),
       (''http_status'', JInt (word_of_int (rs_status r))), (''http_status_text'', JString (rs_statusText r)),
       (''response_time_ms'', JInt (rs_elapsed r)), (''content_type'', JString (contentType r)),
       (''response_bytes'', JInt (of_nat (length (rs_body r))))]
      @ (if rs_transportError r then [(''transport_error'', JString (rs_errorMessage r))] else [])
      @ [(''response_excerpt'', JString (String_Utils.truncate (redactSecrets (rs_body r)) 2000)),
         (''response_headers'', headers_redacted (rs_headers r))])"

definition status_phrases :: "(int \<times> string) list" where
  "status_phrases =
     [(200, ''OK''), (201, ''Created''), (202, ''Accepted''), (204, ''No Content''), (301, ''Moved Permanently''),
      (302, ''Found''), (304, ''Not Modified''), (400, ''Bad Request''), (401, ''Unauthorized''), (403, ''Forbidden''),
      (404, ''Not Found''), (405, ''Method Not Allowed''), (408, ''Request Timeout''), (409, ''Conflict''),
      (413, ''Payload Too Large''), (415, ''Unsupported Media Type''), (422, ''Unprocessable Entity''),
      (429, ''Too Many Requests''), (500, ''Internal Server Error''), (501, ''Not Implemented''), (502, ''Bad Gateway''),
      (503, ''Service Unavailable''), (504, ''Gateway Timeout'')]"

definition reasonPhrase :: "int \<Rightarrow> string" where
  "reasonPhrase code =
     (case map_of status_phrases code of
        Some phrase \<Rightarrow> phrase
      | None \<Rightarrow> if 200 \<le> code \<and> code < 300 then ''Success''
                else if 400 \<le> code \<and> code < 500 then ''Client Error''
                else if 500 \<le> code then ''Server Error'' else ''Unknown'')"

section \<open>Lookup after update\<close>

lemma same_name [simp]: "equalsIgnoreCase a a"
  by (simp add: equalsIgnoreCase_toLower)

lemma headers_get_append: "headers_get k (hs @ hs') = (case headers_get k hs of Some v \<Rightarrow> Some v | None \<Rightarrow> headers_get k hs')"
  by (induction k hs rule: headers_get.induct) auto

lemma headers_get_removed: "equalsIgnoreCase k name \<Longrightarrow> headers_get k (headers_remove name hs) = None"
  by (induction hs) (auto simp: headers_remove_def equalsIgnoreCase_toLower)

lemma headers_get_remove_other: "\<not> equalsIgnoreCase k name \<Longrightarrow> headers_get k (headers_remove name hs) = headers_get k hs"
  by (induction hs) (auto simp: headers_remove_def equalsIgnoreCase_toLower)

lemma headers_get_set: "headers_get k (headers_set name v hs) = (if equalsIgnoreCase name k then Some v else headers_get k hs)"
proof (cases "equalsIgnoreCase name k")
  case True
  then have "equalsIgnoreCase k name" by (simp add: equalsIgnoreCase_toLower)
  from headers_get_removed [OF this] True show ?thesis by (simp add: headers_set_def headers_get_append)
next
  case False
  then have "\<not> equalsIgnoreCase k name" by (simp add: equalsIgnoreCase_toLower)
  from headers_get_remove_other [OF this] False show ?thesis
    by (simp add: headers_set_def headers_get_append split: option.splits)
qed

lemma headers_contains_set: "headers_contains k (headers_set name v hs) \<longleftrightarrow> equalsIgnoreCase name k \<or> headers_contains k hs"
  by (simp add: headers_contains_def headers_get_set)

lemma headers_getAll_set:
  "headers_getAll k (headers_set name v hs) = (if equalsIgnoreCase name k then [v] else headers_getAll k hs)"
proof -
  have "filter (\<lambda>i. equalsIgnoreCase (fst i) k) (filter (\<lambda>i. \<not> equalsIgnoreCase (fst i) name) hs) =
      (if equalsIgnoreCase name k then [] else filter (\<lambda>i. equalsIgnoreCase (fst i) k) hs)"
    by (auto simp: equalsIgnoreCase_toLower intro!: filter_cong)
  then show ?thesis by (simp add: headers_getAll_def headers_set_def headers_remove_def)
qed

text \<open>
  Whatever the case of the name, a header that was set is found with its new value and with no
  other, every other header is found as before, and removing it leaves no entry of that name.
\<close>

theorem headers_update_exact:
  "headers_get k (headers_set name v hs) = (if toLower name = toLower k then Some v else headers_get k hs)
   \<and> headers_getAll k (headers_set name v hs) = (if toLower name = toLower k then [v] else headers_getAll k hs)
   \<and> headers_get k (headers_remove name hs) = (if toLower name = toLower k then None else headers_get k hs)
   \<and> headers_get k (headers_add name v hs) =
      (case headers_get k hs of Some w \<Rightarrow> Some w | None \<Rightarrow> if toLower name = toLower k then Some v else None)"
  using headers_get_removed [of k name hs] headers_get_remove_other [of k name hs]
  by (auto simp: headers_get_set headers_getAll_set headers_add_def headers_get_append equalsIgnoreCase_toLower
      split: option.splits)

section \<open>What is recorded of a response\<close>

lemma obj_of_find: "json_find (obj_of ms) k = map_of (rev ms) k"
  using members.store_all [where m = "[]" and k = k and kvs = ms] by (simp add: obj_of_def split: option.splits)

lemma headers_redacted_find:
  assumes "json_find (headers_redacted hs) k = Some v"
  shows "if isSensitiveName k then v = JString redaction_mask else (\<exists>w. (k, w) \<in> set hs \<and> v = JString (redactSecrets w))"
proof -
  from assms have "(k, v) \<in> set (map (\<lambda>(key, v). (key, JString (if isSensitiveName key then redaction_mask else redactSecrets v))) hs)"
    unfolding headers_redacted_def obj_of_find by (auto dest: map_of_SomeD)
  then show ?thesis by auto
qed

text \<open>
  The metadata recorded of a response shows no value of a header whose name is sensitive, and
  every other header value and the excerpt of the body only through the redaction; the excerpt is
  at most 2000 bytes long.
\<close>

theorem response_metadata_redacted:
  assumes "json_find (toMetadataJson r) ''response_headers'' = Some shown"
  shows "(\<forall>k v. json_find shown k = Some v \<longrightarrow>
      (if isSensitiveName k then v = JString redaction_mask else (\<exists>w. (k, w) \<in> set (rs_headers r) \<and> v = JString (redactSecrets w))))
    \<and> (\<exists>t. json_find (toMetadataJson r) ''response_excerpt'' = Some (JString t) \<and> length t \<le> 2000
        \<and> t = String_Utils.truncate (redactSecrets (rs_body r)) 2000)"
proof -
  have "shown = headers_redacted (rs_headers r)"
    using assms unfolding toMetadataJson_def obj_of_find by simp
  moreover have "json_find (toMetadataJson r) ''response_excerpt'' = Some (JString (String_Utils.truncate (redactSecrets (rs_body r)) 2000))"
    unfolding toMetadataJson_def obj_of_find by simp
  ultimately show ?thesis using headers_redacted_find length_truncate by auto
qed

lemma metadata_example:
  "json_find (toMetadataJson (default_response\<lparr>rs_headers := [(''Set-Cookie'', ''id=1''), (''Server'', ''x'')]\<rparr>)) ''response_headers''
    = Some (JObject [(''Set-Cookie'', JString redaction_mask), (''Server'', JString (redactSecrets ''x''))])"
proof -
  have s: "isSensitiveName ''Set-Cookie''" "\<not> isSensitiveName ''Server''" by code_simp+
  show ?thesis
    unfolding toMetadataJson_def obj_of_find by (simp add: headers_redacted_def obj_of_def default_response_def s)
qed

theorem response_metadata_redacted_witness:
  "json_find (JObject [(''Set-Cookie'', JString redaction_mask), (''Server'', JString (redactSecrets ''x''))]) ''Set-Cookie''
    = Some (JString redaction_mask)"
proof -
  have "isSensitiveName ''Set-Cookie''" by code_simp
  with response_metadata_redacted [OF metadata_example] show ?thesis by simp
qed

end
