(* ===== verification/Http_Wire.thy ===== *)
theory Http_Wire
  imports Http_Types Url
begin

text \<open>
  The text of HTTP/1.1 messages: what \<open>src/net/HttpClient.cpp\<close> and \<open>src/net/HttpServer.cpp\<close> write
  and read of the head of a message. Both read the header lines with the same loop.
\<close>

definition crlf :: string where
  "crlf = [CHR 0x0D, CHR 0x0A]"

definition header_line_text :: "string \<times> string \<Rightarrow> string" where
  "header_line_text item = fst item @ '': '' @ snd item @ crlf"

definition header_block :: "headers \<Rightarrow> string" where
  "header_block hs = concat (map header_line_text hs)"

text \<open>The loop over the lines after the first: a line without a colon is skipped.\<close>

fun read_header_lines :: "string list \<Rightarrow> headers \<Rightarrow> headers" where
  "read_header_lines [] hs = hs"
| "read_header_lines (l # ls) hs =
     (case find_char CHR '':'' l of
        None \<Rightarrow> read_header_lines ls hs
      | Some colon \<Rightarrow> read_header_lines ls (headers_add (trim (take colon l)) (trim (drop (colon + 1) l)) hs))"

section \<open>The lines of a head\<close>

text \<open>A line that reads back as it was written, and a header item that does.\<close>

definition plain_line :: "string \<Rightarrow> bool" where
  "plain_line l \<longleftrightarrow> CHR 0x0A \<notin> set l \<and> CHR 0x0D \<notin> set l"

definition trimmed :: "string \<Rightarrow> bool" where
  "trimmed t \<longleftrightarrow> trim t = t"

definition header_ok :: "string \<times> string \<Rightarrow> bool" where
  "header_ok item \<longleftrightarrow> plain_line (fst item) \<and> plain_line (snd item) \<and> trimmed (fst item) \<and> trimmed (snd item)
     \<and> CHR '':'' \<notin> set (fst item)"

text \<open>A head is its lines, each ended by CR LF; an empty line ends it.\<close>

definition lines_text :: "string list \<Rightarrow> string" where
  "lines_text ls = concat (map (\<lambda>l. l @ crlf) ls)"

lemma split_line: "CHR 0x0A \<notin> set l \<Longrightarrow> split_loop CHR 0x0A False (l @ CHR 0x0A # t) = l # split_loop CHR 0x0A False t"
  by (simp add: split_loop_Some [of _ _ "length l"] find_char_append)

lemma split_lines_text:
  "list_all plain_line ls \<Longrightarrow> plain_line l \<Longrightarrow>
    split_loop CHR 0x0A False (lines_text ls @ l) = map (\<lambda>l. l @ [CHR 0x0D]) ls @ [l]"
proof (induction ls)
  case Nil
  then show ?case by (simp add: lines_text_def split_loop_None plain_line_def find_char_None_iff)
next
  case (Cons k ls)
  then have "CHR 0x0A \<notin> set (k @ [CHR 0x0D])" by (simp add: plain_line_def)
  from split_line [OF this] Cons show ?case by (simp add: lines_text_def crlf_def)
qed

lemma chomp_plain: "plain_line l \<Longrightarrow> chomp_cr l = l"
  using last_in_set [of l] unfolding chomp_cr_def plain_line_def by metis

lemma splitLines_head:
  assumes "list_all plain_line ls" "plain_line l" "l \<noteq> []"
  shows "splitLines (lines_text ls @ l) = ls @ [l]"
proof -
  have "map chomp_cr (split (lines_text ls @ l) CHR 0x0A False) = ls @ [l]"
    using assms chomp_plain [OF assms(2)]
    by (auto simp: split_def split_lines_text list_all_iff intro!: map_idI) (simp add: chomp_cr_def)
  with assms(3) show ?thesis by (simp add: splitLines_def)
qed

text \<open>The empty line is found where the head ends, not earlier.\<close>

lemma prefix_not_in_head:
  assumes "list_all plain_line ls" "ls \<noteq> []" "list_all (\<lambda>l. l \<noteq> []) ls"
  shows "find_sub (crlf @ crlf) (lines_text ls @ crlf @ t) = Some (length (lines_text ls) - 2)"
  using assms
proof (induction ls)
  case (Cons l ls)
  have one: "find_sub (crlf @ crlf) (l @ u) = map_option ((+) (length l)) (find_sub (crlf @ crlf) u)"
    if "CHR 0x0D \<notin> set l" for l u
    using that by (induction l) (auto simp: crlf_def map_option_case split: option.splits)
  from Cons.prems have l: "CHR 0x0D \<notin> set l" by (simp add: plain_line_def)
  show ?case
  proof (cases "ls = []")
    case True
    then show ?thesis using one [OF l] by (simp add: lines_text_def crlf_def)
  next
    case False
    then obtain k ks where ls: "ls = k # ks" by (cases ls) auto
    from Cons.prems ls obtain c k' where k: "k = c # k'" "c \<noteq> CHR 0x0D" by (cases k) (auto simp: plain_line_def)
    have "find_sub (crlf @ crlf) (lines_text ls @ crlf @ t) = Some (length (lines_text ls) - 2)"
      using Cons False by simp
    moreover have "2 \<le> length (lines_text ls)" by (simp add: ls lines_text_def crlf_def)
    moreover have "lines_text ls = c # k' @ crlf @ lines_text ks" by (simp add: ls k lines_text_def)
    ultimately show ?thesis using one [OF l, of "crlf @ lines_text ls @ crlf @ t"] k(2)
      by (simp add: lines_text_def crlf_def)
  qed
qed simp

section \<open>Reading back the header lines\<close>

lemma trim_space_Cons: "is_space c \<Longrightarrow> trim (c # t) = trim t"
  by (simp add: trim_eq)

lemma read_header_block:
  "list_all header_ok hs \<Longrightarrow> read_header_lines (map (\<lambda>item. fst item @ '': '' @ snd item) hs) acc = acc @ hs"
proof (induction hs arbitrary: acc)
  case (Cons item hs)
  obtain k v where item: "item = (k, v)" by fastforce
  from Cons.prems have "CHR '':'' \<notin> set k" "trim k = k" "trim v = v" by (simp_all add: item header_ok_def trimmed_def)
  then show ?case
    using Cons trim_space_Cons [of "CHR '' ''" v] by (simp add: item find_char_append headers_add_def byte_simps)
qed simp

lemma header_block_lines: "header_block hs = lines_text (map (\<lambda>item. fst item @ '': '' @ snd item) hs)"
  by (induction hs) (simp_all add: header_block_def lines_text_def header_line_text_def)

lemma header_lines_plain:
  "list_all header_ok hs \<Longrightarrow> list_all plain_line (map (\<lambda>item. fst item @ '': '' @ snd item) hs)"
  by (induction hs) (auto simp: header_ok_def plain_line_def)

end
