(* ===== verification/Environment.thy ===== *)
theory Environment
  imports Redact Ordered_Map
begin

text \<open>
  The environment of the process (\<open>src/core/Environment.cpp\<close>): reading variables with a default,
  the redacted snapshots for reports, and the \<open>.env\<close> file.

  The environment is the list of its entries \<open>NAME=value\<close>, as the process holds it; \<open>getenv\<close> and
  \<open>setenv\<close> are those of the C library. The lines of a file are given as its text.
\<close>

type_synonym environ = "string list"

section \<open>The C library\<close>

definition entry_of :: "string \<Rightarrow> string \<Rightarrow> bool" where
  "entry_of name e \<longleftrightarrow> prefix (name @ ''='') e"

definition getenv :: "string \<Rightarrow> environ \<Rightarrow> string option" where
  "getenv name env =
     (if name = [] then None else map_option (drop (length name + 1)) (find (entry_of name) env))"

text \<open>\<open>setenv(name, value, 0)\<close>: a variable that exists is kept; a name that is no name is refused.\<close>

definition setenv :: "string \<Rightarrow> string \<Rightarrow> environ \<Rightarrow> environ \<times> bool" where
  "setenv name v env =
     (if name = [] \<or> CHR ''='' \<in> set name then (env, False)
      else (if getenv name env \<noteq> None then env else env @ [name @ ''='' @ v], True))"

section \<open>Reading variables\<close>

definition env_get :: "string \<Rightarrow> environ \<Rightarrow> string option" where
  "env_get name env = getenv (c_str name) env"

definition env_getOr :: "string \<Rightarrow> string \<Rightarrow> environ \<Rightarrow> string" where
  "env_getOr name fallback env = case_option fallback id (env_get name env)"

definition env_getBool :: "string \<Rightarrow> bool \<Rightarrow> environ \<Rightarrow> bool" where
  "env_getBool name fallback env =
     (case env_get name env of
        None \<Rightarrow> fallback
      | Some raw \<Rightarrow> if raw = [] then fallback else case_option fallback id (parseBool raw))"

definition env_getInt :: "string \<Rightarrow> i64 \<Rightarrow> environ \<Rightarrow> i64" where
  "env_getInt name fallback env =
     (case env_get name env of None \<Rightarrow> fallback | Some raw \<Rightarrow> case_option fallback id (parseInt raw))"

definition env_isSet :: "string \<Rightarrow> environ \<Rightarrow> bool" where
  "env_isSet name env \<longleftrightarrow> env_get name env \<noteq> None"

section \<open>Snapshots\<close>

definition redacted_value :: "string \<Rightarrow> string \<Rightarrow> string" where
  "redacted_value key v = (if isSensitiveName key then redaction_mask else redactSecrets v)"

definition snapshot_entry :: "string \<Rightarrow> (string \<times> string) list \<Rightarrow> (string \<times> string) list" where
  "snapshot_entry line out =
     (case find_char CHR ''='' line of
        None \<Rightarrow> out
      | Some eq \<Rightarrow> omap_set (take eq line) (redacted_value (take eq line) (drop (eq + 1) line)) out)"

definition snapshotRedacted :: "environ \<Rightarrow> (string \<times> string) list" where
  "snapshotRedacted env = fold snapshot_entry env []"

definition kDiagnosticNames :: "string list" where
  "kDiagnosticNames = [''PATH'', ''HOME'', ''USER'', ''SHELL'', ''LANG'', ''LC_ALL'', ''PWD'', ''HOSTNAME'', ''CI'', ''GITHUB_ACTIONS'',
     ''GITHUB_RUN_ID'', ''container'', ''CUDA_VISIBLE_DEVICES'', ''NVIDIA_VISIBLE_DEVICES'', ''TESTFORGE_CONFIG'', ''TESTFORGE_ENV'']"

definition diagnosticSubset :: "environ \<Rightarrow> (string \<times> string) list" where
  "diagnosticSubset env =
     fold (\<lambda>name out. case env_get name env of None \<Rightarrow> out | Some v \<Rightarrow> omap_set name (redacted_value name v) out)
       kDiagnosticNames []"

section \<open>The .env file\<close>

text \<open>The lines \<open>std::getline\<close> returns.\<close>

definition getlines :: "string \<Rightarrow> string list" where
  "getlines t = (let ls = split t CHR 0x0A False in if last ls = [] then butlast ls else ls)"

definition strip_quotes :: "string \<Rightarrow> string" where
  "strip_quotes v =
     (if 2 \<le> length v \<and> (hd v = CHR 0x22 \<and> last v = CHR 0x22 \<or> hd v = CHR 0x27 \<and> last v = CHR 0x27)
      then substr v 1 (length v - 2) else v)"

text \<open>The assignment a line holds, if any.\<close>

definition dotenv_assignment :: "string \<Rightarrow> (string \<times> string) option" where
  "dotenv_assignment line =
     (let trimmed = trim line
      in if trimmed = [] \<or> hd trimmed = CHR ''#'' then None
         else (let body = (if startsWith trimmed ''export '' then trim (drop 7 trimmed) else trimmed)
               in case find_char CHR ''='' body of
                    None \<Rightarrow> None
                  | Some eq \<Rightarrow>
                      (let key = trim (take eq body); v = trim (drop (eq + 1) body)
                       in if key = [] then None else Some (key, strip_quotes v))))"

fun dotenv_loop :: "string list \<Rightarrow> environ \<Rightarrow> nat \<Rightarrow> environ \<times> nat" where
  "dotenv_loop [] env applied = (env, applied)"
| "dotenv_loop (line # lines) env applied =
     (case dotenv_assignment line of
        None \<Rightarrow> dotenv_loop lines env applied
      | Some (key, v) \<Rightarrow>
          if env_isSet key env then dotenv_loop lines env applied
          else (case setenv (c_str key) (c_str v) env of
             (env, ok) \<Rightarrow> dotenv_loop lines env (if ok then applied + 1 else applied)))"

text \<open>\<open>loadDotEnv\<close>: the contents are missing when the file cannot be opened.\<close>

definition loadDotEnv :: "string option \<Rightarrow> environ \<Rightarrow> environ \<times> nat option" where
  "loadDotEnv file env =
     (case file of None \<Rightarrow> (env, None) | Some t \<Rightarrow> (case dotenv_loop (getlines t) env 0 of (env, n) \<Rightarrow> (env, Some n)))"

section \<open>The environment after a file was loaded\<close>

lemma find_append: "find P (xs @ ys) = (case find P xs of Some x \<Rightarrow> Some x | None \<Rightarrow> find P ys)"
  by (induction xs) auto

lemma entry_of_entry:
  assumes "CHR ''='' \<notin> set k"
  shows "entry_of name (k @ CHR ''='' # v) \<and> CHR ''='' \<notin> set name \<longleftrightarrow> name = k"
proof
  assume "entry_of name (k @ CHR ''='' # v) \<and> CHR ''='' \<notin> set name"
  then obtain r where eq: "name @ CHR ''='' # r = k @ CHR ''='' # v" and n: "CHR ''='' \<notin> set name"
    by (auto simp: entry_of_def prefix_def)
  have "takeWhile (\<lambda>c. c \<noteq> CHR ''='') (name @ CHR ''='' # r) = name" using n by (induction name) auto
  moreover have "takeWhile (\<lambda>c. c \<noteq> CHR ''='') (k @ CHR ''='' # v) = k" using assms by (induction k) auto
  ultimately show "name = k" using eq by simp
qed (simp add: entry_of_def assms)

lemma getenv_setenv:
  assumes "setenv k v env = (env', ok)" "name \<noteq> []" "CHR ''='' \<notin> set name"
  shows "getenv name env' = (if getenv name env = None \<and> ok \<and> name = k then Some v else getenv name env)"
proof (cases "k = [] \<or> CHR ''='' \<in> set k \<or> getenv k env \<noteq> None")
  case False
  then have env': "env' = env @ [k @ CHR ''='' # v]" and ok: ok and k: "CHR ''='' \<notin> set k"
    using assms(1) by (auto simp: setenv_def)
  show ?thesis
    using entry_of_entry [OF k, of name v] assms(2,3) ok
    by (auto simp: env' getenv_def find_append split: option.splits if_splits)
qed (use assms in \<open>auto simp: setenv_def split: if_splits\<close>)

text \<open>The assignments of a file that \<open>setenv\<close> accepts, in their order.\<close>

definition assignments :: "string list \<Rightarrow> (string \<times> string) list" where
  "assignments lines = map (\<lambda>(k, v). (c_str k, c_str v)) (List.map_filter dotenv_assignment lines)"

lemma dotenv_loop_get:
  assumes "name \<noteq> []" "CHR ''='' \<notin> set name"
  shows "getenv name (fst (dotenv_loop lines env n)) =
    (case getenv name env of Some v \<Rightarrow> Some v | None \<Rightarrow> map_of (assignments lines) name)"
proof (induction lines env n rule: dotenv_loop.induct)
  case (1 env applied)
  show ?case by (simp add: assignments_def List.map_filter_simps split: option.split)
next
  case (2 line lines env applied)
  show ?case
  proof (cases "dotenv_assignment line")
    case None
    with 2(1) show ?thesis by (cases "getenv name env") (simp_all add: assignments_def List.map_filter_simps)
  next
    case (Some kv)
    obtain k v where kv: "kv = (k, v)" by fastforce
    have asg: "assignments (line # lines) = (c_str k, c_str v) # assignments lines"
      by (simp add: assignments_def List.map_filter_simps Some kv)
    show ?thesis
    proof (cases "env_isSet k env")
      case True
      with 2(2) [OF Some kv [symmetric]] Some kv show ?thesis
        by (auto simp: asg env_isSet_def env_get_def split: option.splits)
    next
      case False
      obtain env' ok where s: "setenv (c_str k) (c_str v) env = (env', ok)" by fastforce
      have "ok \<or> name \<noteq> c_str k" using s assms by (auto simp: setenv_def split: if_splits)
      with 2(3) [OF Some kv [symmetric] False s [symmetric]] getenv_setenv [OF s assms] Some kv False s show ?thesis
        by (auto simp: asg split: option.splits)
    qed
  qed
qed

text \<open>
  Loading a \<open>.env\<close> file never changes a variable that is set, and gives every other variable
  the value of the first line that assigns it (a name without an equals sign or zero byte).
\<close>

theorem environment_wins:
  assumes "name \<noteq> []" "CHR ''='' \<notin> set name" "c_str name = name"
  shows "env_get name (fst (loadDotEnv (Some t) env)) =
    (case env_get name env of Some v \<Rightarrow> Some v | None \<Rightarrow> map_of (assignments (getlines t)) name)"
  using dotenv_loop_get [OF assms(1,2), of "getlines t" env 0]
  by (cases "dotenv_loop (getlines t) env 0") (simp add: env_get_def loadDotEnv_def assms(3))

theorem environment_wins_witness:
  "env_get ''B'' (fst (loadDotEnv (Some (''# c'' @ CHR 0x0A # ''export B = '' @ CHR 0x22 # ''x y'' @ [CHR 0x22, CHR 0x0A])) [''A=1''])) = Some ''x y''"
proof -
  have "map_of (assignments (getlines (''# c'' @ CHR 0x0A # ''export B = '' @ CHR 0x22 # ''x y'' @ [CHR 0x22, CHR 0x0A]))) ''B'' = Some ''x y''"
    "env_get ''B'' [''A=1''] = None" "c_str ''B'' = ''B''" by code_simp+
  with environment_wins [of "''B''" "''# c'' @ CHR 0x0A # ''export B = '' @ CHR 0x22 # ''x y'' @ [CHR 0x22, CHR 0x0A]" "[''A=1'']"]
  show ?thesis by simp
qed

section \<open>What the snapshots show\<close>

lemma snapshot_ok: "omap_ok out \<Longrightarrow> omap_ok (fold snapshot_entry env out)"
  by (induction env arbitrary: out) (auto simp: snapshot_entry_def split: option.splits)

definition masked :: "string \<times> string \<Rightarrow> bool" where
  "masked kv \<longleftrightarrow> isSensitiveName (fst kv) \<longrightarrow> snd kv = redaction_mask"

lemma snapshot_masked: "list_all masked out \<Longrightarrow> list_all masked (fold snapshot_entry env out)"
proof (induction env arbitrary: out)
  case (Cons e env)
  have "list_all masked (snapshot_entry e out)" using Cons.prems
    by (auto simp: snapshot_entry_def masked_def redacted_value_def list_all_iff dest!: omap_set_member split: option.splits)
  with Cons.IH show ?case by simp
qed simp

lemma subset_masked: "list_all masked out \<Longrightarrow> list_all masked (fold (\<lambda>name out. case env_get name env of
    None \<Rightarrow> out | Some v \<Rightarrow> omap_set name (redacted_value name v) out) names out)"
proof (induction names arbitrary: out)
  case (Cons n names)
  have "list_all masked (case env_get n env of None \<Rightarrow> out | Some v \<Rightarrow> omap_set n (redacted_value n v) out)" using Cons.prems
    by (auto simp: masked_def redacted_value_def list_all_iff dest!: omap_set_member split: option.splits)
  with Cons.IH show ?case by simp
qed simp

text \<open>
  Neither snapshot of the environment shows the value of a variable whose name is sensitive,
  whatever the environment holds.
\<close>

theorem snapshots_masked:
  "list_all masked (snapshotRedacted env) \<and> list_all masked (diagnosticSubset env)"
  by (simp add: snapshotRedacted_def diagnosticSubset_def snapshot_masked subset_masked del: fold_simps)

end
