(* ===== verification/Configuration.thy ===== *)
theory Configuration
  imports Test_Result Logger Core_Types Environment "HOL-Library.Monad_Syntax"
begin

text \<open>
  The configuration (\<open>src/core/Config.cpp\<close>, \<open>include/testforge/core/Config.hpp\<close>): its sections with
  their defaults, the reading of a document, the overrides of the environment, the validation and
  the JSON form.

  A reader is undefined (\<open>None\<close>) where the source converts a double that no 64-bit integer can hold.
  The contents of the file and the number of processors are parameters.
\<close>

section \<open>The sections\<close>

record execution_config =
  ex_workers :: int
  ex_defaultTimeoutMs :: i64
  ex_cancellationGraceMs :: i64
  ex_failFast :: bool
  ex_retryFailed :: int
  ex_shuffle :: bool
  ex_shuffleSeed :: u64
  ex_excludeSuitesByDefault :: "string list"

record logging_config =
  lc_level :: log_level
  lc_json :: bool
  lc_color :: bool
  lc_file :: string

record database_config =
  dc_enabled :: bool
  dc_path :: string
  dc_retentionDays :: int
  dc_busyTimeoutMs :: i64

record reporting_config =
  rc_outputDirectory :: string
  rc_console :: bool
  rc_json :: bool
  rc_html :: bool
  rc_junit :: bool
  rc_verboseFailures :: bool

record api_target_config =
  tc_baseUrl :: string
  tc_timeoutMs :: i64
  tc_slaMs :: i64
  tc_defaultHeaders :: "(string \<times> json) list"

record ai_config =
  ai_enabled :: bool
  ai_endpoint :: string
  ai_model :: string
  ai_timeoutMs :: i64
  ai_maxGeneratedTests :: int
  ai_maxResponseBytes :: i64
  ai_allowedTargetHosts :: "string list"

record diagnostics_config =
  gc_collectOnFailure :: bool
  gc_includeGpu :: bool
  gc_includeProcesses :: bool
  gc_includeSystemLogs :: bool
  gc_topProcessCount :: int
  gc_commandTimeoutMs :: i64

record server_config =
  sc_host :: string
  sc_port :: int
  sc_workers :: int
  sc_staticDirectory :: string
  sc_maxRequestBytes :: i64
  sc_maxPendingConnections :: int

record config =
  cf_execution :: execution_config
  cf_logging :: logging_config
  cf_database :: database_config
  cf_reporting :: reporting_config
  cf_api :: api_target_config
  cf_ai :: ai_config
  cf_diagnostics :: diagnostics_config
  cf_server :: server_config
  cf_custom :: json
  cf_sourcePath :: string

definition default_execution_config :: execution_config where
  "default_execution_config = \<lparr>ex_workers = 0, ex_defaultTimeoutMs = 30000, ex_cancellationGraceMs = 2000, ex_failFast = False,
     ex_retryFailed = 0, ex_shuffle = False, ex_shuffleSeed = 0, ex_excludeSuitesByDefault = [''failure_injection'']\<rparr>"

definition default_logging_config :: logging_config where
  "default_logging_config = \<lparr>lc_level = LevelInfo, lc_json = False, lc_color = True, lc_file = []\<rparr>"

definition default_database_config :: database_config where
  "default_database_config = \<lparr>dc_enabled = True, dc_path = ''testforge.db'', dc_retentionDays = 90, dc_busyTimeoutMs = 5000\<rparr>"

definition default_reporting_config :: reporting_config where
  "default_reporting_config = \<lparr>rc_outputDirectory = ''reports'', rc_console = True, rc_json = True, rc_html = True,
     rc_junit = False, rc_verboseFailures = True\<rparr>"

definition default_api_config :: api_target_config where
  "default_api_config = \<lparr>tc_baseUrl = ''http://127.0.0.1:8000'', tc_timeoutMs = 10000, tc_slaMs = 2000, tc_defaultHeaders = []\<rparr>"

definition default_ai_config :: ai_config where
  "default_ai_config = \<lparr>ai_enabled = False, ai_endpoint = ''http://127.0.0.1:8810/'', ai_model = ''gpt-4o-mini'',
     ai_timeoutMs = 60000, ai_maxGeneratedTests = 50, ai_maxResponseBytes = 512 * 1024, ai_allowedTargetHosts = []\<rparr>"

definition default_diagnostics_config :: diagnostics_config where
  "default_diagnostics_config = \<lparr>gc_collectOnFailure = True, gc_includeGpu = True, gc_includeProcesses = False,
     gc_includeSystemLogs = False, gc_topProcessCount = 10, gc_commandTimeoutMs = 4000\<rparr>"

definition default_server_config :: server_config where
  "default_server_config = \<lparr>sc_host = ''127.0.0.1'', sc_port = 8080, sc_workers = 4, sc_staticDirectory = ''dashboard'',
     sc_maxRequestBytes = 1024 * 1024, sc_maxPendingConnections = 256\<rparr>"

definition default_config :: config where
  "default_config = \<lparr>cf_execution = default_execution_config, cf_logging = default_logging_config,
     cf_database = default_database_config, cf_reporting = default_reporting_config, cf_api = default_api_config,
     cf_ai = default_ai_config, cf_diagnostics = default_diagnostics_config, cf_server = default_server_config,
     cf_custom = JObject [], cf_sourcePath = []\<rparr>"

section \<open>Reading a document\<close>

definition section_of :: "json \<Rightarrow> string \<Rightarrow> json option" where
  "section_of doc name = (case json_find doc name of Some v \<Rightarrow> if isObject v then Some v else None | None \<Rightarrow> None)"

definition cfg_bool :: "json option \<Rightarrow> string \<Rightarrow> bool \<Rightarrow> bool" where
  "cfg_bool obj key out =
     (case obj of None \<Rightarrow> out | Some v \<Rightarrow> (case json_find v key of Some (JBool b) \<Rightarrow> b | _ \<Rightarrow> out))"

definition cfg_int :: "json option \<Rightarrow> string \<Rightarrow> i64 \<Rightarrow> i64 option" where
  "cfg_int obj key out = (case obj of None \<Rightarrow> Some out | Some v \<Rightarrow> read_int v key out)"

definition cfg_int32 :: "json option \<Rightarrow> string \<Rightarrow> int \<Rightarrow> int option" where
  "cfg_int32 obj key out = map_option to_int32 (cfg_int obj key (word_of_int out))"

definition cfg_string :: "json option \<Rightarrow> string \<Rightarrow> string \<Rightarrow> string" where
  "cfg_string obj key out =
     (case obj of None \<Rightarrow> out | Some v \<Rightarrow> (case json_find v key of Some (JString s) \<Rightarrow> s | _ \<Rightarrow> out))"

definition cfg_strings :: "json option \<Rightarrow> string \<Rightarrow> string list \<Rightarrow> string list" where
  "cfg_strings obj key out =
     (case obj of
        None \<Rightarrow> out
      | Some v \<Rightarrow> (case json_find v key of Some (JArray xs) \<Rightarrow> strings_of_json (Some (JArray xs)) | _ \<Rightarrow> out))"

definition read_execution :: "json option \<Rightarrow> execution_config \<Rightarrow> execution_config option" where
  "read_execution ex c =
     do { workers \<leftarrow> cfg_int32 ex ''workers'' (ex_workers c);
          timeout \<leftarrow> cfg_int ex ''default_timeout_ms'' (ex_defaultTimeoutMs c);
          grace \<leftarrow> cfg_int ex ''cancellation_grace_ms'' (ex_cancellationGraceMs c);
          retry \<leftarrow> cfg_int32 ex ''retry_failed'' (ex_retryFailed c);
          seed \<leftarrow> cfg_int ex ''shuffle_seed'' (ex_shuffleSeed c);
          Some \<lparr>ex_workers = workers, ex_defaultTimeoutMs = timeout, ex_cancellationGraceMs = grace,
             ex_failFast = cfg_bool ex ''fail_fast'' (ex_failFast c), ex_retryFailed = retry,
             ex_shuffle = cfg_bool ex ''shuffle'' (ex_shuffle c), ex_shuffleSeed = seed,
             ex_excludeSuitesByDefault = cfg_strings ex ''exclude_suites_by_default'' (ex_excludeSuitesByDefault c)\<rparr> }"

definition read_logging :: "json option \<Rightarrow> logging_config \<Rightarrow> logging_config" where
  "read_logging lg c =
     \<lparr>lc_level = case_option (lc_level c) id (logLevelFromString (cfg_string lg ''level'' (level_str (lc_level c)))),
      lc_json = cfg_bool lg ''json'' (lc_json c), lc_color = cfg_bool lg ''color'' (lc_color c),
      lc_file = cfg_string lg ''file'' (lc_file c)\<rparr>"

definition read_database :: "json option \<Rightarrow> database_config \<Rightarrow> database_config option" where
  "read_database db c =
     do { days \<leftarrow> cfg_int32 db ''retention_days'' (dc_retentionDays c);
          busy \<leftarrow> cfg_int db ''busy_timeout_ms'' (dc_busyTimeoutMs c);
          Some \<lparr>dc_enabled = cfg_bool db ''enabled'' (dc_enabled c), dc_path = cfg_string db ''path'' (dc_path c),
             dc_retentionDays = days, dc_busyTimeoutMs = busy\<rparr> }"

definition read_reporting :: "json option \<Rightarrow> reporting_config \<Rightarrow> reporting_config" where
  "read_reporting rep c =
     \<lparr>rc_outputDirectory = cfg_string rep ''output_directory'' (rc_outputDirectory c),
      rc_console = cfg_bool rep ''console'' (rc_console c), rc_json = cfg_bool rep ''json'' (rc_json c),
      rc_html = cfg_bool rep ''html'' (rc_html c), rc_junit = cfg_bool rep ''junit'' (rc_junit c),
      rc_verboseFailures = cfg_bool rep ''verbose_failures'' (rc_verboseFailures c)\<rparr>"

definition read_api :: "json option \<Rightarrow> api_target_config \<Rightarrow> api_target_config option" where
  "read_api api c =
     do { timeout \<leftarrow> cfg_int api ''timeout_ms'' (tc_timeoutMs c);
          sla \<leftarrow> cfg_int api ''sla_ms'' (tc_slaMs c);
          Some \<lparr>tc_baseUrl = cfg_string api ''base_url'' (tc_baseUrl c), tc_timeoutMs = timeout, tc_slaMs = sla,
             tc_defaultHeaders = (case Option.bind api (\<lambda>v. json_find v ''default_headers'') of
                 Some (JObject ms) \<Rightarrow> ms | _ \<Rightarrow> tc_defaultHeaders c)\<rparr> }"

definition read_ai :: "json option \<Rightarrow> ai_config \<Rightarrow> ai_config option" where
  "read_ai ai c =
     do { timeout \<leftarrow> cfg_int ai ''timeout_ms'' (ai_timeoutMs c);
          tests \<leftarrow> cfg_int32 ai ''max_generated_tests'' (ai_maxGeneratedTests c);
          bytes \<leftarrow> cfg_int ai ''max_response_bytes'' (ai_maxResponseBytes c);
          Some \<lparr>ai_enabled = cfg_bool ai ''enabled'' (ai_enabled c), ai_endpoint = cfg_string ai ''endpoint'' (ai_endpoint c),
             ai_model = cfg_string ai ''model'' (ai_model c), ai_timeoutMs = timeout, ai_maxGeneratedTests = tests,
             ai_maxResponseBytes = bytes,
             ai_allowedTargetHosts = cfg_strings ai ''allowed_target_hosts'' (ai_allowedTargetHosts c)\<rparr> }"

definition read_diagnostics :: "json option \<Rightarrow> diagnostics_config \<Rightarrow> diagnostics_config option" where
  "read_diagnostics diag c =
     do { processes \<leftarrow> cfg_int32 diag ''top_process_count'' (gc_topProcessCount c);
          timeout \<leftarrow> cfg_int diag ''command_timeout_ms'' (gc_commandTimeoutMs c);
          Some \<lparr>gc_collectOnFailure = cfg_bool diag ''collect_on_failure'' (gc_collectOnFailure c),
             gc_includeGpu = cfg_bool diag ''include_gpu'' (gc_includeGpu c),
             gc_includeProcesses = cfg_bool diag ''include_processes'' (gc_includeProcesses c),
             gc_includeSystemLogs = cfg_bool diag ''include_system_logs'' (gc_includeSystemLogs c),
             gc_topProcessCount = processes, gc_commandTimeoutMs = timeout\<rparr> }"

definition read_server :: "json option \<Rightarrow> server_config \<Rightarrow> server_config option" where
  "read_server srv c =
     do { port \<leftarrow> cfg_int32 srv ''port'' (sc_port c);
          workers \<leftarrow> cfg_int32 srv ''workers'' (sc_workers c);
          bytes \<leftarrow> cfg_int srv ''max_request_bytes'' (sc_maxRequestBytes c);
          pending \<leftarrow> cfg_int32 srv ''max_pending_connections'' (sc_maxPendingConnections c);
          Some \<lparr>sc_host = cfg_string srv ''host'' (sc_host c), sc_port = port, sc_workers = workers,
             sc_staticDirectory = cfg_string srv ''static_directory'' (sc_staticDirectory c), sc_maxRequestBytes = bytes,
             sc_maxPendingConnections = pending\<rparr> }"

text \<open>\<open>Config::fromJson\<close>: a section that is missing or no object keeps its defaults.\<close>

definition in_section :: "json option \<Rightarrow> (json option \<Rightarrow> 'a \<Rightarrow> 'a option) \<Rightarrow> 'a \<Rightarrow> 'a option" where
  "in_section obj reader c = (case obj of None \<Rightarrow> Some c | Some _ \<Rightarrow> reader obj c)"

definition config_of_json :: "json \<Rightarrow> config option" where
  "config_of_json doc =
     do { execution \<leftarrow> in_section (section_of doc ''execution'') read_execution default_execution_config;
          logging \<leftarrow> in_section (section_of doc ''logging'') (\<lambda>obj c. Some (read_logging obj c)) default_logging_config;
          database \<leftarrow> in_section (section_of doc ''database'') read_database default_database_config;
          reporting \<leftarrow> in_section (section_of doc ''reporting'') (\<lambda>obj c. Some (read_reporting obj c)) default_reporting_config;
          api \<leftarrow> in_section (section_of doc ''api'') read_api default_api_config;
          ai \<leftarrow> in_section (section_of doc ''ai'') read_ai default_ai_config;
          diagnostics \<leftarrow> in_section (section_of doc ''diagnostics'') read_diagnostics default_diagnostics_config;
          server \<leftarrow> in_section (section_of doc ''server'') read_server default_server_config;
          Some \<lparr>cf_execution = execution, cf_logging = logging, cf_database = database, cf_reporting = reporting, cf_api = api,
             cf_ai = ai, cf_diagnostics = diagnostics, cf_server = server,
             cf_custom = case_option (JObject []) id (json_find doc ''custom''), cf_sourcePath = []\<rparr> }"

definition loadFromFile :: "string \<Rightarrow> string option \<Rightarrow> (test_exception + config) option" where
  "loadFromFile path file =
     (case file of
        None \<Rightarrow> Some (Inl (ConfigurationError (''cannot open configuration file: '' @ path)))
      | Some t \<Rightarrow> (case tryParse default_limits t of
            Inl e \<Rightarrow> Some (Inl (ConfigurationError (''invalid JSON in '' @ path @ '': '' @ e)))
          | Inr doc \<Rightarrow>
              if \<not> isObject doc then Some (Inl (ConfigurationError (''configuration root must be a JSON object: '' @ path)))
              else map_option (\<lambda>c. Inr (c\<lparr>cf_sourcePath := path\<rparr>)) (config_of_json doc)))"

section \<open>The environment\<close>

definition env_int32 :: "string \<Rightarrow> int \<Rightarrow> environ \<Rightarrow> int" where
  "env_int32 name fallback env = to_int32 (env_getInt name (word_of_int fallback) env)"

definition override_execution :: "environ \<Rightarrow> execution_config \<Rightarrow> execution_config" where
  "override_execution env c = c
     \<lparr>ex_workers := env_int32 ''TESTFORGE_WORKERS'' (ex_workers c) env,
      ex_defaultTimeoutMs := env_getInt ''TESTFORGE_TIMEOUT_MS'' (ex_defaultTimeoutMs c) env,
      ex_failFast := env_getBool ''TESTFORGE_FAIL_FAST'' (ex_failFast c) env,
      ex_retryFailed := env_int32 ''TESTFORGE_RETRY_FAILED'' (ex_retryFailed c) env\<rparr>"

definition override_logging :: "environ \<Rightarrow> logging_config \<Rightarrow> logging_config" where
  "override_logging env c = c
     \<lparr>lc_level := (case env_get ''TESTFORGE_LOG_LEVEL'' env of
          None \<Rightarrow> lc_level c | Some level \<Rightarrow> case_option (lc_level c) id (logLevelFromString level)),
      lc_json := env_getBool ''TESTFORGE_LOG_JSON'' (lc_json c) env,
      lc_file := env_getOr ''TESTFORGE_LOG_FILE'' (lc_file c) env,
      lc_color := (if env_isSet ''NO_COLOR'' env then False else lc_color c)\<rparr>"

definition override_ai :: "environ \<Rightarrow> ai_config \<Rightarrow> ai_config" where
  "override_ai env c = c
     \<lparr>ai_enabled := env_getBool ''TESTFORGE_AI_ENABLED'' (ai_enabled c) env,
      ai_endpoint := env_getOr ''TESTFORGE_AI_ENDPOINT'' (ai_endpoint c) env,
      ai_model := env_getOr ''TESTFORGE_AI_MODEL'' (ai_model c) env,
      ai_timeoutMs := env_getInt ''TESTFORGE_AI_TIMEOUT_MS'' (ai_timeoutMs c) env\<rparr>"

definition applyEnvironmentOverrides :: "environ \<Rightarrow> config \<Rightarrow> config" where
  "applyEnvironmentOverrides env c = c
     \<lparr>cf_execution := override_execution env (cf_execution c),
      cf_logging := override_logging env (cf_logging c),
      cf_database := (cf_database c)\<lparr>dc_enabled := env_getBool ''TESTFORGE_DB_ENABLED'' (dc_enabled (cf_database c)) env,
        dc_path := env_getOr ''TESTFORGE_DB_PATH'' (dc_path (cf_database c)) env\<rparr>,
      cf_reporting := (cf_reporting c)\<lparr>rc_outputDirectory := env_getOr ''TESTFORGE_REPORT_DIR'' (rc_outputDirectory (cf_reporting c)) env\<rparr>,
      cf_api := (cf_api c)\<lparr>tc_baseUrl := env_getOr ''TESTFORGE_API_BASE_URL'' (tc_baseUrl (cf_api c)) env,
        tc_timeoutMs := env_getInt ''TESTFORGE_API_TIMEOUT_MS'' (tc_timeoutMs (cf_api c)) env\<rparr>,
      cf_ai := override_ai env (cf_ai c),
      cf_diagnostics := (cf_diagnostics c)\<lparr>gc_collectOnFailure := env_getBool ''TESTFORGE_DIAG_ON_FAILURE'' (gc_collectOnFailure (cf_diagnostics c)) env,
        gc_includeGpu := env_getBool ''TESTFORGE_DIAG_GPU'' (gc_includeGpu (cf_diagnostics c)) env\<rparr>,
      cf_server := (cf_server c)\<lparr>sc_host := env_getOr ''TESTFORGE_SERVER_HOST'' (sc_host (cf_server c)) env,
        sc_port := env_int32 ''TESTFORGE_SERVER_PORT'' (sc_port (cf_server c)) env\<rparr>\<rparr>"

section \<open>Validation\<close>

definition config_problems :: "config \<Rightarrow> string list" where
  "config_problems c =
     (let ex = cf_execution c; db = cf_database c; api = cf_api c; ai = cf_ai c; srv = cf_server c
      in (if ex_workers ex < 0 \<or> 512 < ex_workers ex then [''execution.workers must be between 0 and 512''] else [])
       @ (if sint (ex_defaultTimeoutMs ex) < 0 then [''execution.default_timeout_ms must not be negative''] else [])
       @ (if ex_retryFailed ex < 0 \<or> 10 < ex_retryFailed ex then [''execution.retry_failed must be between 0 and 10''] else [])
       @ (if dc_enabled db \<and> dc_path db = [] then [''database.path must not be empty when the database is enabled''] else [])
       @ (if dc_retentionDays db < 0 then [''database.retention_days must not be negative''] else [])
       @ (if sint (tc_timeoutMs api) \<le> 0 then [''api.timeout_ms must be positive''] else [])
       @ (if tc_baseUrl api \<noteq> [] \<and> \<not> startsWith (tc_baseUrl api) ''http://'' \<and> \<not> startsWith (tc_baseUrl api) ''https://''
          then [''api.base_url must start with http:// or https://''] else [])
       @ (if ai_enabled ai \<and> ai_endpoint ai = [] then [''ai.endpoint must be set when ai.enabled is true''] else [])
       @ (if ai_maxGeneratedTests ai \<le> 0 \<or> 500 < ai_maxGeneratedTests ai then [''ai.max_generated_tests must be between 1 and 500''] else [])
       @ (if sc_port srv < 1 \<or> 65535 < sc_port srv then [''server.port must be between 1 and 65535''] else [])
       @ (if sc_workers srv < 1 \<or> 128 < sc_workers srv then [''server.workers must be between 1 and 128''] else [])
       @ (if sc_maxPendingConnections srv < 1 then [''server.max_pending_connections must be at least 1''] else []))"

definition config_validate :: "config \<Rightarrow> test_exception + unit" where
  "config_validate c =
     (if config_problems c = [] then Inr ()
      else Inl (ConfigurationError (''invalid configuration''
        @ (if cf_sourcePath c \<noteq> [] then '' ('' @ cf_sourcePath c @ '')'' else []) @ '':''
        @ concat (map (\<lambda>problem. CHR 0x0A # ''  - '' @ problem) (config_problems c)))))"

text \<open>The number of processors may be unknown, and is then 0.\<close>

definition effectiveWorkers :: "nat \<Rightarrow> config \<Rightarrow> int" where
  "effectiveWorkers hardware c =
     (if 0 < ex_workers (cf_execution c) then ex_workers (cf_execution c)
      else if hardware = 0 then 4 else int (min hardware 32))"

section \<open>The JSON form\<close>

definition json_int :: "int \<Rightarrow> json" where
  "json_int i = JInt (word_of_int i)"

definition execution_json :: "nat \<Rightarrow> config \<Rightarrow> json" where
  "execution_json hardware c = (let ex = cf_execution c in obj_of
     [(''workers'', json_int (ex_workers ex)), (''effective_workers'', json_int (effectiveWorkers hardware c)),
      (''default_timeout_ms'', JInt (ex_defaultTimeoutMs ex)), (''cancellation_grace_ms'', JInt (ex_cancellationGraceMs ex)),
      (''fail_fast'', JBool (ex_failFast ex)), (''retry_failed'', json_int (ex_retryFailed ex)),
      (''shuffle'', JBool (ex_shuffle ex)), (''shuffle_seed'', JInt (ex_shuffleSeed ex)),
      (''exclude_suites_by_default'', strings_json (ex_excludeSuitesByDefault ex))])"

definition logging_json :: "logging_config \<Rightarrow> json" where
  "logging_json c = obj_of [(''level'', JString (level_str (lc_level c))), (''json'', JBool (lc_json c)),
     (''color'', JBool (lc_color c)), (''file'', JString (lc_file c))]"

definition database_json :: "database_config \<Rightarrow> json" where
  "database_json c = obj_of [(''enabled'', JBool (dc_enabled c)), (''path'', JString (dc_path c)),
     (''retention_days'', json_int (dc_retentionDays c)), (''busy_timeout_ms'', JInt (dc_busyTimeoutMs c))]"

definition reporting_json :: "reporting_config \<Rightarrow> json" where
  "reporting_json c = obj_of [(''output_directory'', JString (rc_outputDirectory c)), (''console'', JBool (rc_console c)),
     (''json'', JBool (rc_json c)), (''html'', JBool (rc_html c)), (''junit'', JBool (rc_junit c)),
     (''verbose_failures'', JBool (rc_verboseFailures c))]"

definition api_json :: "api_target_config \<Rightarrow> json" where
  "api_json c = obj_of [(''base_url'', JString (tc_baseUrl c)), (''timeout_ms'', JInt (tc_timeoutMs c)),
     (''sla_ms'', JInt (tc_slaMs c)), (''default_headers'', obj_of (tc_defaultHeaders c))]"

definition ai_json :: "ai_config \<Rightarrow> json" where
  "ai_json c = obj_of [(''enabled'', JBool (ai_enabled c)), (''endpoint'', JString (ai_endpoint c)), (''model'', JString (ai_model c)),
     (''timeout_ms'', JInt (ai_timeoutMs c)), (''max_generated_tests'', json_int (ai_maxGeneratedTests c)),
     (''max_response_bytes'', JInt (ai_maxResponseBytes c)), (''allowed_target_hosts'', strings_json (ai_allowedTargetHosts c))]"

definition diagnostics_json :: "diagnostics_config \<Rightarrow> json" where
  "diagnostics_json c = obj_of [(''collect_on_failure'', JBool (gc_collectOnFailure c)), (''include_gpu'', JBool (gc_includeGpu c)),
     (''include_processes'', JBool (gc_includeProcesses c)), (''include_system_logs'', JBool (gc_includeSystemLogs c)),
     (''top_process_count'', json_int (gc_topProcessCount c)), (''command_timeout_ms'', JInt (gc_commandTimeoutMs c))]"

definition server_config_json :: "server_config \<Rightarrow> json" where
  "server_config_json c = obj_of [(''host'', JString (sc_host c)), (''port'', json_int (sc_port c)), (''workers'', json_int (sc_workers c)),
     (''static_directory'', JString (sc_staticDirectory c)), (''max_request_bytes'', JInt (sc_maxRequestBytes c)),
     (''max_pending_connections'', json_int (sc_maxPendingConnections c))]"

definition config_json :: "nat \<Rightarrow> config \<Rightarrow> json" where
  "config_json hardware c = obj_of
     ([(''execution'', execution_json hardware c), (''logging'', logging_json (cf_logging c)),
       (''database'', database_json (cf_database c)), (''reporting'', reporting_json (cf_reporting c)), (''api'', api_json (cf_api c)),
       (''ai'', ai_json (cf_ai c)), (''diagnostics'', diagnostics_json (cf_diagnostics c)), (''server'', server_config_json (cf_server c)),
       (''custom'', cf_custom c)]
      @ (if cf_sourcePath c \<noteq> [] then [(''source_path'', JString (cf_sourcePath c))] else []))"

section \<open>Reading a written configuration\<close>

definition config_ok :: "config \<Rightarrow> bool" where
  "config_ok c \<longleftrightarrow> list_all in_int32 [ex_workers (cf_execution c), ex_retryFailed (cf_execution c), dc_retentionDays (cf_database c),
       ai_maxGeneratedTests (cf_ai c), gc_topProcessCount (cf_diagnostics c), sc_port (cf_server c), sc_workers (cf_server c),
       sc_maxPendingConnections (cf_server c)] \<and> distinct (map fst (tc_defaultHeaders (cf_api c)))"

lemma level_of_str [simp]: "logLevelFromString (level_str l) = Some l"
  by (cases l) (simp_all, code_simp+)

lemmas cfg_defs = cfg_bool_def cfg_int_def cfg_int32_def cfg_string_def cfg_strings_def read_int_def isNumber_def json_find_obj_of
  json_int_def

lemma strings_json_array: "strings_json xs = JArray (map JString xs)" "strings_of_json (Some (JArray (map JString xs))) = xs"
  using strings_of_strings_json [of xs] by (simp_all add: strings_json_def)

lemma section_read:
  "in_int32 (ex_workers (cf_execution c)) \<Longrightarrow> in_int32 (ex_retryFailed (cf_execution c)) \<Longrightarrow>
     read_execution (Some (execution_json hw c)) d = Some (cf_execution c)"
  "read_logging (Some (logging_json l)) d2 = l"
  "in_int32 (dc_retentionDays db) \<Longrightarrow> read_database (Some (database_json db)) d3 = Some db"
  "read_reporting (Some (reporting_json r)) d4 = r"
  "distinct (map fst (tc_defaultHeaders t)) \<Longrightarrow> read_api (Some (api_json t)) d5 = Some t"
  "in_int32 (ai_maxGeneratedTests a) \<Longrightarrow> read_ai (Some (ai_json a)) d6 = Some a"
  "in_int32 (gc_topProcessCount g) \<Longrightarrow> read_diagnostics (Some (diagnostics_json g)) d7 = Some g"
  "list_all in_int32 [sc_port s, sc_workers s, sc_maxPendingConnections s] \<Longrightarrow> read_server (Some (server_config_json s)) d8 = Some s"
  by (simp_all add: read_execution_def execution_json_def read_logging_def logging_json_def read_database_def database_json_def
      read_reporting_def reporting_json_def read_api_def api_json_def obj_of_distinct read_ai_def ai_json_def read_diagnostics_def
      diagnostics_json_def read_server_def server_config_json_def cfg_defs strings_json_array Let_def)

lemma section_objects [simp]:
  "isObject (execution_json hw c)" "isObject (logging_json l)" "isObject (database_json db)" "isObject (reporting_json r)"
  "isObject (api_json t)" "isObject (ai_json a)" "isObject (diagnostics_json g)" "isObject (server_config_json s)"
  by (simp_all add: execution_json_def logging_json_def database_json_def reporting_json_def api_json_def ai_json_def
      diagnostics_json_def server_config_json_def Let_def)

text \<open>
  The JSON form of a configuration reads back as the same configuration, every section and every
  field of it (the path it was loaded from is not read back).
\<close>

theorem config_json_roundtrip:
  assumes "config_ok c"
  shows "config_of_json (config_json hardware c) = Some (c\<lparr>cf_sourcePath := []\<rparr>)"
proof -
  define v where "v = config_json hardware c"
  have find: "section_of v ''execution'' = Some (execution_json hardware c)" "section_of v ''logging'' = Some (logging_json (cf_logging c))"
    "section_of v ''database'' = Some (database_json (cf_database c))"
    "section_of v ''reporting'' = Some (reporting_json (cf_reporting c))" "section_of v ''api'' = Some (api_json (cf_api c))"
    "section_of v ''ai'' = Some (ai_json (cf_ai c))" "section_of v ''diagnostics'' = Some (diagnostics_json (cf_diagnostics c))"
    "section_of v ''server'' = Some (server_config_json (cf_server c))" "json_find v ''custom'' = Some (cf_custom c)"
    by (simp_all add: v_def config_json_def section_of_def json_find_obj_of)
  from assms show ?thesis
    by (simp add: v_def [symmetric] config_of_json_def find in_section_def section_read config_ok_def)
qed

theorem config_json_roundtrip_witness:
  "config_of_json (config_json 8 (default_config\<lparr>cf_sourcePath := ''a.json''\<rparr>)) = Some default_config"
proof -
  have "config_ok (default_config\<lparr>cf_sourcePath := ''a.json''\<rparr>)"
    by (simp add: config_ok_def default_config_def default_execution_config_def default_database_config_def default_ai_config_def
        default_diagnostics_config_def default_server_config_def default_api_config_def in_int32_def)
  from config_json_roundtrip [OF this, of 8] show ?thesis by (simp add: default_config_def)
qed

section \<open>What validation does not see\<close>

text \<open>
  A number of the document is cut to 32 bits before it is checked: the port 4294975376 passes as 8080.
\<close>

lemma wide_port_passes:
  "read_server (Some (JObject [(''port'', JInt 4294975376)])) default_server_config = Some default_server_config"
proof -
  have "to_int32 4294975376 = 8080" "to_int32 4 = 4" "to_int32 256 = 256" by (simp_all add: to_int32_def)
  then show ?thesis by (simp add: read_server_def cfg_defs default_server_config_def)
qed

lemma overrides_nothing: "config_ok c \<Longrightarrow> applyEnvironmentOverrides [] c = c"
  by (simp add: applyEnvironmentOverrides_def override_execution_def override_logging_def override_ai_def env_int32_def
      env_getInt_def env_getBool_def env_getOr_def env_isSet_def env_get_def getenv_def config_ok_def)

end
