(* ===== verification/Http_Server.thy ===== *)
theory Http_Server
  imports Http_Wire Configuration
begin

text \<open>
  The HTTP server (\<open>src/net/HttpServer.cpp\<close>): routing, static files, one connection from its first
  byte to its answer, and the acceptor's bookkeeping.

  What the socket does is a parameter: the non-empty chunks \<open>recv\<close> returns, in order, after which
  it returns nothing more (the peer is gone or the time is up). So is the file system, a map from a
  path to the contents of a regular file that can be read, and the handlers of the routes, functions
  from a request to a response or to nothing when they throw.
\<close>

section \<open>Requests and responses\<close>

record server_request =
  sr_method :: string
  sr_path :: string
  sr_query :: string
  sr_headers :: headers
  sr_body :: string
  sr_clientAddress :: string
  sr_pathParameters :: "(string \<times> string) list"

record server_response =
  sp_status :: int
  sp_headers :: headers
  sp_body :: string

definition server_request_json :: "server_request \<Rightarrow> json option" where
  "server_request_json r =
     (if sr_body r = [] then None
      else (case tryParse default_limits (sr_body r) of Inr v \<Rightarrow> Some v | Inl _ \<Rightarrow> None))"

definition queryParameter :: "string \<Rightarrow> string \<Rightarrow> server_request \<Rightarrow> string" where
  "queryParameter name fallback r = case_option fallback id (alist_find name (parseQuery (sr_query r)))"

definition queryParameterInt :: "string \<Rightarrow> int \<Rightarrow> server_request \<Rightarrow> int" where
  "queryParameterInt name fallback r =
     (let raw = queryParameter name [] r
      in if raw \<noteq> [] then (case parseInt raw of Some parsed \<Rightarrow> to_int32 parsed | None \<Rightarrow> fallback) else fallback)"

definition pathParameter :: "string \<Rightarrow> server_request \<Rightarrow> string" where
  "pathParameter name r = case_option [] id (omap_find name (sr_pathParameters r))"

definition default_server_response :: server_response where
  "default_server_response = \<lparr>sp_status = 200, sp_headers = [], sp_body = []\<rparr>"

definition with_type :: "int \<Rightarrow> string \<Rightarrow> string \<Rightarrow> server_response" where
  "with_type status body type = \<lparr>sp_status = status, sp_headers = headers_set ''Content-Type'' type [], sp_body = body\<rparr>"

definition server_json :: "int \<Rightarrow> json \<Rightarrow> server_response" where
  "server_json status payload = with_type status (json_dump_indent 2 payload) ''application/json; charset=utf-8''"

definition server_text :: "int \<Rightarrow> string \<Rightarrow> server_response" where
  "server_text status body = with_type status body ''text/plain; charset=utf-8''"

definition server_html :: "int \<Rightarrow> string \<Rightarrow> server_response" where
  "server_html status body = with_type status body ''text/html; charset=utf-8''"

definition server_error :: "int \<Rightarrow> string \<Rightarrow> string \<Rightarrow> server_response" where
  "server_error status message code = server_json status (obj_of [(''error'', obj_of
     [(''code'', JString (if code = [] then reasonPhrase status else code)), (''message'', JString message),
      (''status'', JInt (word_of_int status))])])"

definition noContent :: server_response where
  "noContent = default_server_response\<lparr>sp_status := 204\<rparr>"

section \<open>Routing\<close>

record route =
  rt_method :: string
  rt_segments :: "string list"
  rt_handler :: "server_request \<Rightarrow> server_response option"

definition splitPath :: "string \<Rightarrow> string list" where
  "splitPath path = split path CHR ''/'' True"

definition is_capture :: "string \<Rightarrow> bool" where
  "is_capture pattern \<longleftrightarrow> pattern \<noteq> [] \<and> hd pattern = CHR '':''"

text \<open>One route against the segments of a path: the captured parameters if it matches.\<close>

fun capture_loop :: "string list \<Rightarrow> string list \<Rightarrow> (string \<times> string) list \<Rightarrow> (string \<times> string) list option" where
  "capture_loop (p # ps) (s # ss) captured =
     (if is_capture p then capture_loop ps ss (omap_set (tl p) s captured)
      else if p \<noteq> s then None else capture_loop ps ss captured)"
| "capture_loop _ _ captured = Some captured"

definition route_captures :: "string list \<Rightarrow> route \<Rightarrow> (string \<times> string) list option" where
  "route_captures segments r =
     (if length (rt_segments r) \<noteq> length segments then None else capture_loop (rt_segments r) segments [])"

text \<open>The first route of the right method; otherwise the method of the last one that differs only there.\<close>

fun match_loop :: "string \<Rightarrow> string list \<Rightarrow> string option \<Rightarrow> route list \<Rightarrow> string option + route \<times> (string \<times> string) list" where
  "match_loop meth segments mismatch [] = Inl mismatch"
| "match_loop meth segments mismatch (r # rs) =
     (case route_captures segments r of
        None \<Rightarrow> match_loop meth segments mismatch rs
      | Some captured \<Rightarrow>
          if rt_method r \<noteq> meth then match_loop meth segments (Some (rt_method r)) rs else Inr (r, captured))"

definition match_route :: "route list \<Rightarrow> string \<Rightarrow> string \<Rightarrow> string option + route \<times> (string \<times> string) list" where
  "match_route routes meth path = match_loop meth (splitPath path) None routes"

text \<open>\<open>HttpServer::route\<close>: the handler of an existing route is replaced.\<close>

fun replace_route :: "route \<Rightarrow> route list \<Rightarrow> route list option" where
  "replace_route entry [] = None"
| "replace_route entry (r # rs) =
     (if rt_method r = rt_method entry \<and> rt_segments r = rt_segments entry then Some (r\<lparr>rt_handler := rt_handler entry\<rparr> # rs)
      else map_option ((#) r) (replace_route entry rs))"

definition add_route :: "string \<Rightarrow> string \<Rightarrow> (server_request \<Rightarrow> server_response option) \<Rightarrow> route list \<Rightarrow> route list" where
  "add_route meth pattern handler routes =
     (let entry = \<lparr>rt_method = toUpper meth, rt_segments = splitPath pattern, rt_handler = handler\<rparr>
      in case replace_route entry routes of Some rs \<Rightarrow> rs | None \<Rightarrow> routes @ [entry])"

section \<open>Static files\<close>

definition mimeTypeFor :: "string \<Rightarrow> string" where
  "mimeTypeFor path =
     (if endsWith path ''.html'' \<or> endsWith path ''.htm'' then ''text/html; charset=utf-8''
      else if endsWith path ''.css'' then ''text/css; charset=utf-8''
      else if endsWith path ''.js'' \<or> endsWith path ''.mjs'' then ''application/javascript; charset=utf-8''
      else if endsWith path ''.json'' then ''application/json''
      else if endsWith path ''.svg'' then ''image/svg+xml''
      else if endsWith path ''.png'' then ''image/png''
      else if endsWith path ''.jpg'' \<or> endsWith path ''.jpeg'' then ''image/jpeg''
      else if endsWith path ''.ico'' then ''image/x-icon''
      else if endsWith path ''.woff2'' then ''font/woff2''
      else if endsWith path ''.txt'' \<or> endsWith path ''.log'' then ''text/plain; charset=utf-8''
      else if endsWith path ''.xml'' then ''application/xml''
      else ''application/octet-stream'')"

definition isSafeRelativePath :: "string \<Rightarrow> bool" where
  "isSafeRelativePath path \<longleftrightarrow>
     \<not> (path = [] \<or> hd path = CHR ''/'' \<or> CHR 0x00 \<in> set path \<or> CHR 0x5C \<in> set path)
     \<and> list_all (\<lambda>segment. \<not> (segment = ''..'' \<or> segment = ''.'')) (split path CHR ''/'' True)"

record static_site =
  ss_directory :: string
  ss_prefix :: string

definition static_relative :: "static_site \<Rightarrow> string \<Rightarrow> string" where
  "static_relative site path =
     (let relative = (if ss_prefix site \<noteq> [] \<and> ss_prefix site \<noteq> ''/'' \<and> startsWith path (ss_prefix site)
                      then drop (length (ss_prefix site)) path else path);
          relative = dropWhile (\<lambda>c. c = CHR ''/'') relative
      in if relative = [] then ''index.html'' else relative)"

definition with_slash :: "string \<Rightarrow> string" where
  "with_slash dir = (if dir \<noteq> [] \<and> last dir \<noteq> CHR ''/'' then dir @ ''/'' else dir)"

definition serveStatic :: "(string \<Rightarrow> string option) \<Rightarrow> static_site \<Rightarrow> server_request \<Rightarrow> server_response option" where
  "serveStatic files site r =
     (if ss_directory site = [] \<or> (sr_method r \<noteq> ''GET'' \<and> sr_method r \<noteq> ''HEAD'') then None
      else (let relative = static_relative site (sr_path r)
        in if \<not> isSafeRelativePath relative then Some (server_error 400 ''invalid path'' ''INVALID_PATH'')
           else (case files (with_slash (ss_directory site) @ relative) of
             None \<Rightarrow> None
           | Some contents \<Rightarrow> Some \<lparr>sp_status = 200,
               sp_headers = headers_set ''Cache-Control'' ''no-cache'' (headers_set ''Content-Type'' (mimeTypeFor relative) []),
               sp_body = contents\<rparr>)))"

end
