(* ===== verification/Http_Connection.thy ===== *)
theory Http_Connection
  imports Http_Server
begin

text \<open>
  \<open>HttpServer::Impl::handleConnection\<close>: reading the head and the body within the size limit, the
  refusals, the dispatch to a route, a static file or an error, and the text written back.
\<close>

section \<open>Reading\<close>

datatype head_result = HeadGone | HeadTooLarge | HeadRead nat string "string list"

fun read_head :: "nat \<Rightarrow> string \<Rightarrow> string list \<Rightarrow> head_result" where
  "read_head limit raw [] = HeadGone"
| "read_head limit raw (chunk # chunks) =
     (let raw = raw @ chunk; headerEnd = find_sub (crlf @ crlf) raw
      in if limit < length raw then HeadTooLarge
         else (case headerEnd of Some i \<Rightarrow> HeadRead i raw chunks | None \<Rightarrow> read_head limit raw chunks))"

fun read_body :: "nat \<Rightarrow> string \<Rightarrow> string list \<Rightarrow> string" where
  "read_body n body [] = body"
| "read_body n body (chunk # chunks) = (if length body < n then read_body n (body @ chunk) chunks else body)"

text \<open>Method, path and query of the first line.\<close>

definition parse_request_line :: "string \<Rightarrow> (string \<times> string \<times> string) option" where
  "parse_request_line line =
     (case split line CHR '' '' True of
        meth # target # _ \<Rightarrow>
          (let (target, query) = cut_at CHR ''?'' target
           in Some (toUpper meth, urlDecode target, case_option [] id query))
      | _ \<Rightarrow> None)"

definition parse_request_head :: "string \<Rightarrow> string \<Rightarrow> server_request option" where
  "parse_request_head clientAddress head =
     (case splitLines head of
        [] \<Rightarrow> None
      | first # rest \<Rightarrow>
          (case parse_request_line first of
             None \<Rightarrow> None
           | Some (meth, path, query) \<Rightarrow>
               Some \<lparr>sr_method = meth, sr_path = path, sr_query = query, sr_headers = read_header_lines rest [],
                 sr_body = [], sr_clientAddress = clientAddress, sr_pathParameters = []\<rparr>))"

definition unsupported_encoding :: "headers \<Rightarrow> bool" where
  "unsupported_encoding hs =
     (case headers_get ''Transfer-Encoding'' hs of
        None \<Rightarrow> False
      | Some encoding \<Rightarrow> trim encoding \<noteq> [] \<and> \<not> equalsIgnoreCase (trim encoding) ''identity'')"

definition content_length :: "headers \<Rightarrow> i64" where
  "content_length hs =
     (case headers_get ''Content-Length'' hs of
        None \<Rightarrow> 0
      | Some v \<Rightarrow> (case parseInt v of None \<Rightarrow> 0 | Some n \<Rightarrow> if sint n < 0 then 0 else n))"

datatype received = Dropped | Refused int server_response | Request server_request

definition receive_request :: "server_config \<Rightarrow> string \<Rightarrow> string list \<Rightarrow> received" where
  "receive_request cfg clientAddress chunks =
     (case read_head (unat (sc_maxRequestBytes cfg)) [] chunks of
        HeadGone \<Rightarrow> Dropped
      | HeadTooLarge \<Rightarrow> Refused 413 (server_error 413 ''request exceeds the configured size limit'' [])
      | HeadRead headerEnd raw chunks \<Rightarrow>
          (case parse_request_head clientAddress (take headerEnd raw) of
             None \<Rightarrow> Dropped
           | Some request \<Rightarrow>
               if unsupported_encoding (sr_headers request) then
                 Refused 400 (server_error 400
                   ''chunked request bodies are not supported; send a Content-Length instead'' ''UNSUPPORTED_TRANSFER_ENCODING'')
               else (let n = content_length (sr_headers request)
                 in if sint (sc_maxRequestBytes cfg) < sint n then Refused 413 (server_error 413 ''request body is too large'' [])
                    else Request (request\<lparr>sr_body := take (unat n) (read_body (unat n) (drop (headerEnd + 4) raw) chunks)\<rparr>))))"

text \<open>The short answer to a request that is refused.\<close>

definition refusal_text :: "int \<Rightarrow> server_response \<Rightarrow> string" where
  "refusal_text status r =
     ''HTTP/1.1 '' @ (if status = 413 then ''413 Payload Too Large'' else ''400 Bad Request'') @ crlf
     @ ''Content-Length: '' @ show_nat (length (sp_body r)) @ crlf @ ''Content-Type: application/json'' @ crlf
     @ ''Connection: close'' @ crlf @ crlf @ sp_body r"

section \<open>Answering\<close>

definition dispatch :: "(string \<Rightarrow> string option) \<Rightarrow> static_site \<Rightarrow> route list \<Rightarrow> server_request \<Rightarrow> server_response" where
  "dispatch files site routes request =
     (case match_route routes (sr_method request) (sr_path request) of
        Inr (r, parameters) \<Rightarrow>
          (case rt_handler r (request\<lparr>sr_pathParameters := parameters\<rparr>) of
             Some response \<Rightarrow> response
           | None \<Rightarrow> server_error 500 ''internal error handling the request'' [])
      | Inl mismatch \<Rightarrow>
          (case serveStatic files site request of
             Some response \<Rightarrow> response
           | None \<Rightarrow>
               if mismatch \<noteq> None
               then server_error 405 (''method '' @ sr_method request @ '' is not allowed for '' @ sr_path request) []
               else server_error 404 (''no route for '' @ sr_method request @ '' '' @ sr_path request) []))"

definition response_headers :: "server_response \<Rightarrow> headers" where
  "response_headers r =
     (let hs = headers_set ''Content-Length'' (show_nat (length (sp_body r))) (sp_headers r);
          hs = headers_set ''Connection'' ''close'' hs;
          hs = (if \<not> headers_contains ''Content-Type'' hs
                then headers_set ''Content-Type'' ''application/json; charset=utf-8'' hs else hs);
          hs = headers_set ''Access-Control-Allow-Origin'' ''*'' hs
      in headers_set ''X-Content-Type-Options'' ''nosniff'' hs)"

definition response_text :: "string \<Rightarrow> server_response \<Rightarrow> string" where
  "response_text meth r =
     ''HTTP/1.1 '' @ show_int (sp_status r) @ '' '' @ reasonPhrase (sp_status r) @ crlf
     @ header_block (response_headers r) @ crlf @ (if meth \<noteq> ''HEAD'' then sp_body r else [])"

text \<open>\<open>send\<close> in a loop: how much of the text is on the wire, given what each call returned.\<close>

fun send_loop :: "nat \<Rightarrow> nat \<Rightarrow> int list \<Rightarrow> nat" where
  "send_loop goal sent [] = sent"
| "send_loop goal sent (written # results) =
     (if goal \<le> sent then sent else if written \<le> 0 then sent else send_loop goal (sent + nat written) results)"

text \<open>What a connection is answered with, if anything, and whether it counts as handled.\<close>

definition handleConnection ::
  "server_config \<Rightarrow> (string \<Rightarrow> string option) \<Rightarrow> static_site \<Rightarrow> route list \<Rightarrow> string \<Rightarrow> string list \<Rightarrow> string option \<times> bool" where
  "handleConnection cfg files site routes clientAddress chunks =
     (case receive_request cfg clientAddress chunks of
        Dropped \<Rightarrow> (None, False)
      | Refused status r \<Rightarrow> (Some (refusal_text status r), False)
      | Request request \<Rightarrow> (Some (response_text (sr_method request) (dispatch files site routes request)), True))"

section \<open>The request does not depend on how the bytes arrive\<close>

lemma find_sub_append: "find_sub n t = Some i \<Longrightarrow> find_sub n (t @ u) = Some i"
proof (induction n t arbitrary: i rule: find_sub.induct)
  case (1 n)
  then show ?case by (cases u) (auto split: if_splits)
next
  case (2 n c cs)
  show ?case
  proof (cases "prefix n (c # cs)")
    case True
    with 2(2) have "prefix n (c # cs @ u)" by (metis append_Cons prefix_append)
    with True 2 show ?thesis by simp
  next
    case False
    with 2 obtain j where j: "find_sub n cs = Some j" "i = Suc j" by (auto split: if_splits)
    have "length n \<le> length (c # cs)" using find_sub_Some_bound [OF j(1)] by simp
    with False have "\<not> prefix n (c # cs @ u)" by (metis append_Cons prefix_same_cases prefix_length_prefix prefix_append prefixI)
    with 2 j False show ?thesis by simp
  qed
qed

lemma read_head_whole:
  assumes "length raw + length (concat chunks) \<le> limit" "find_sub (crlf @ crlf) raw = None"
  shows "(case read_head limit raw chunks of
      HeadGone \<Rightarrow> find_sub (crlf @ crlf) (raw @ concat chunks) = None
    | HeadTooLarge \<Rightarrow> False
    | HeadRead i r rest \<Rightarrow> find_sub (crlf @ crlf) (raw @ concat chunks) = Some i \<and> i + 4 \<le> length r
        \<and> r @ concat rest = raw @ concat chunks)"
  using assms
proof (induction chunks arbitrary: raw)
  case (Cons c cs)
  show ?case
  proof (cases "find_sub (crlf @ crlf) (raw @ c)")
    case None
    with Cons.IH [of "raw @ c"] Cons.prems show ?thesis by (simp add: Let_def split: head_result.splits)
  next
    case (Some i)
    from find_sub_append [OF this, of "concat cs"] find_sub_Some_bound [OF this] Cons.prems Some
    show ?thesis by (simp add: Let_def crlf_def)
  qed
qed simp

lemma take_read_body: "take n (read_body n body chunks) = take n (body @ concat chunks)"
  by (induction chunks arbitrary: body) auto

lemma receive_request_whole:
  assumes fits: "length (concat chunks) \<le> unat (sc_maxRequestBytes cfg)"
  shows "receive_request cfg addr chunks =
    (case find_sub (crlf @ crlf) (concat chunks) of
       None \<Rightarrow> Dropped
     | Some i \<Rightarrow>
         (case parse_request_head addr (take i (concat chunks)) of
            None \<Rightarrow> Dropped
          | Some request \<Rightarrow>
              if unsupported_encoding (sr_headers request) then
                Refused 400 (server_error 400
                  ''chunked request bodies are not supported; send a Content-Length instead'' ''UNSUPPORTED_TRANSFER_ENCODING'')
              else if sint (sc_maxRequestBytes cfg) < sint (content_length (sr_headers request))
              then Refused 413 (server_error 413 ''request body is too large'' [])
              else Request (request\<lparr>sr_body := take (unat (content_length (sr_headers request))) (drop (i + 4) (concat chunks))\<rparr>)))"
proof -
  note w = read_head_whole [of "[]" chunks "unat (sc_maxRequestBytes cfg)"]
  show ?thesis
  proof (cases "read_head (unat (sc_maxRequestBytes cfg)) [] chunks")
    case (HeadRead i r rest)
    with w fits have i: "find_sub (crlf @ crlf) (concat chunks) = Some i" "i + 4 \<le> length r"
      and r: "concat chunks = r @ concat rest" by (auto simp: crlf_def)
    then have "take i (concat chunks) = take i r" "drop (i + 4) (concat chunks) = drop (i + 4) r @ concat rest" by simp_all
    with HeadRead i show ?thesis by (simp add: receive_request_def take_read_body Let_def split: option.splits)
  next
    case HeadGone
    with w fits show ?thesis by (simp add: receive_request_def crlf_def)
  next
    case HeadTooLarge
    with w fits show ?thesis by (simp add: crlf_def)
  qed
qed

text \<open>
  While no more than the size limit arrives, the answer of the server is the same however the
  bytes are cut into chunks on their way.
\<close>

theorem answer_ignores_chunking:
  assumes "concat chunks = concat chunks'" "length (concat chunks) \<le> unat (sc_maxRequestBytes cfg)"
  shows "handleConnection cfg files site routes addr chunks = handleConnection cfg files site routes addr chunks'"
proof -
  from assms have "length (concat chunks') \<le> unat (sc_maxRequestBytes cfg)" by simp
  then have "receive_request cfg addr chunks = receive_request cfg addr chunks'"
    unfolding receive_request_whole [OF assms(2)] by (simp only: receive_request_whole assms(1))
  then show ?thesis by (simp only: handleConnection_def)
qed

definition example_config :: server_config where
  "example_config = default_server_config\<lparr>sc_maxRequestBytes := 64\<rparr>"

definition no_site :: static_site where
  "no_site = \<lparr>ss_directory = [], ss_prefix = ''/''\<rparr>"

theorem answer_ignores_chunking_witness:
  "handleConnection example_config Map.empty no_site [] ''::1'' [''GET / HTTP'' @ ''/1.1'' @ crlf, crlf]
    = handleConnection example_config Map.empty no_site [] ''::1'' [''GET / HTTP/1.1'' @ crlf @ crlf]"
  by (rule answer_ignores_chunking) (simp_all add: crlf_def example_config_def default_server_config_def)

section \<open>The size limit\<close>

lemma content_length_nonneg: "0 \<le> sint (content_length hs)"
  by (simp add: content_length_def split: option.splits)

lemma unat_sint: "0 \<le> sint v \<Longrightarrow> unat v = nat (sint (v :: i64))"
proof -
  assume "0 \<le> sint v"
  moreover have "sint v < 2 ^ 63" using sint_lt [of v] by simp
  ultimately have "take_bit 64 (sint v) = sint v" by (simp add: take_bit_int_eq_self)
  moreover have "uint v = take_bit 64 (sint v)" using uint_sint [of v] by simp
  ultimately show ?thesis by (simp only: unat_eq_nat_uint)
qed

lemma receive_request_bounds:
  assumes "receive_request cfg addr chunks = Request request" "0 \<le> sint (sc_maxRequestBytes cfg)"
  shows "length (sr_body request) \<le> unat (sc_maxRequestBytes cfg)"
    and "\<not> unsupported_encoding (sr_headers request)"
proof -
  define n where "n = content_length (sr_headers request)"
  from assms(1) have r: "length (sr_body request) \<le> unat n \<and> sint n \<le> sint (sc_maxRequestBytes cfg)
      \<and> \<not> unsupported_encoding (sr_headers request)"
    by (auto simp: n_def receive_request_def Let_def not_less split: head_result.splits option.splits if_splits)
  then show "\<not> unsupported_encoding (sr_headers request)" by simp
  have n: "sint n \<le> sint (sc_maxRequestBytes cfg)" "0 \<le> sint n" using r content_length_nonneg by (simp_all add: n_def)
  have "unat n = nat (sint n)" "unat (sc_maxRequestBytes cfg) = nat (sint (sc_maxRequestBytes cfg))"
    using n assms(2) by (simp_all add: unat_sint)
  then have "unat n \<le> unat (sc_maxRequestBytes cfg)" using n assms(2) by (simp add: nat_mono)
  with r show "length (sr_body request) \<le> unat (sc_maxRequestBytes cfg)" by simp
qed

text \<open>
  Every request that is dispatched has a body within the configured limit and no transfer
  encoding the server cannot read; what is sent back is the text of its answer, and everything else
  is dropped or refused without reaching a handler.
\<close>

theorem handled_within_limits:
  assumes "handleConnection cfg files site routes addr chunks = (answer, True)" "0 \<le> sint (sc_maxRequestBytes cfg)"
  shows "\<exists>request. receive_request cfg addr chunks = Request request
    \<and> length (sr_body request) \<le> unat (sc_maxRequestBytes cfg) \<and> \<not> unsupported_encoding (sr_headers request)
    \<and> answer = Some (response_text (sr_method request) (dispatch files site routes request))"
proof -
  from assms(1) obtain request where r: "receive_request cfg addr chunks = Request request"
    "answer = Some (response_text (sr_method request) (dispatch files site routes request))"
    by (auto simp: handleConnection_def split: received.splits)
  with receive_request_bounds [OF r(1) assms(2)] show ?thesis by blast
qed

lemma example_handled: "\<exists>answer. handleConnection example_config Map.empty no_site [] ''::1'' [''GET / HTTP/1.1'' @ crlf @ crlf] = (answer, True)"
proof -
  have "(case receive_request example_config ''::1'' [''GET / HTTP/1.1'' @ crlf @ crlf] of Request r \<Rightarrow> True | _ \<Rightarrow> False)"
    by code_simp
  then show ?thesis by (auto simp: handleConnection_def split: received.splits)
qed

theorem handled_within_limits_witness:
  "\<exists>request. receive_request example_config ''::1'' [''GET / HTTP/1.1'' @ crlf @ crlf] = Request request \<and> length (sr_body request) \<le> 64"
proof -
  obtain answer where "handleConnection example_config Map.empty no_site [] ''::1'' [''GET / HTTP/1.1'' @ crlf @ crlf] = (answer, True)"
    using example_handled by blast
  from handled_within_limits [OF this] show ?thesis by (auto simp: example_config_def default_server_config_def)
qed

section \<open>Static files\<close>

text \<open>A path that, read segment by segment, never climbs above where it started.\<close>

fun walk_inside :: "nat \<Rightarrow> string list \<Rightarrow> bool" where
  "walk_inside depth [] = True"
| "walk_inside depth (s # ss) =
     (if s = [] \<or> s = ''.'' then walk_inside depth ss
      else if s = ''..'' then 0 < depth \<and> walk_inside (depth - 1) ss
      else walk_inside (depth + 1) ss)"

definition stays_inside :: "string \<Rightarrow> bool" where
  "stays_inside path \<longleftrightarrow> path \<noteq> [] \<and> hd path \<noteq> CHR ''/'' \<and> CHR 0x00 \<notin> set path \<and> walk_inside 0 (split path CHR ''/'' False)"

lemma walk_no_parent: "list_all (\<lambda>s. s \<noteq> ''..'') ss \<Longrightarrow> walk_inside depth ss"
  by (induction depth ss rule: walk_inside.induct) auto

lemma safe_stays_inside: "isSafeRelativePath path \<Longrightarrow> stays_inside path"
proof -
  assume safe: "isSafeRelativePath path"
  then have "list_all (\<lambda>s. s \<noteq> ''..'') (filter (\<lambda>s. s \<noteq> []) (split path CHR ''/'' False))"
    by (simp add: isSafeRelativePath_def split_def split_loop_skip list_all_iff)
  then have "list_all (\<lambda>s. s \<noteq> ''..'') (split path CHR ''/'' False)" by (auto simp: list_all_iff)
  with safe walk_no_parent show ?thesis by (auto simp: stays_inside_def isSafeRelativePath_def)
qed

lemma serveStatic_inside:
  assumes "\<And>rel. stays_inside rel \<Longrightarrow> files (with_slash (ss_directory site) @ rel) = files' (with_slash (ss_directory site) @ rel)"
  shows "serveStatic files site r = serveStatic files' site r"
  using assms [OF safe_stays_inside] by (simp add: serveStatic_def Let_def)

text \<open>
  C21. No request, whatever its bytes, makes the server look at a file outside the directory it
  serves: two file systems that agree on the paths that never climb out of it give the same answers.
\<close>

theorem static_files_confined:
  assumes "\<And>rel. stays_inside rel \<Longrightarrow> files (with_slash (ss_directory site) @ rel) = files' (with_slash (ss_directory site) @ rel)"
  shows "handleConnection cfg files site routes addr chunks = handleConnection cfg files' site routes addr chunks"
proof -
  have "serveStatic files site r = serveStatic files' site r" for r
    by (rule serveStatic_inside) (rule assms)
  then show ?thesis by (simp add: handleConnection_def dispatch_def split: received.splits sum.splits)
qed

theorem static_files_confined_witness:
  "handleConnection example_config Map.empty \<lparr>ss_directory = ''www'', ss_prefix = ''/''\<rparr> [] ''::1'' [''GET /../k HTTP/1.1'' @ crlf @ crlf]
    = handleConnection example_config [''www/../k'' \<mapsto> ''secret''] \<lparr>ss_directory = ''www'', ss_prefix = ''/''\<rparr> [] ''::1''
        [''GET /../k HTTP/1.1'' @ crlf @ crlf]"
proof (rule static_files_confined)
  fix rel
  assume "stays_inside rel"
  moreover have "\<not> stays_inside ''../k''" by code_simp
  ultimately have "rel \<noteq> ''../k''" by blast
  then show "Map.empty (with_slash (ss_directory \<lparr>ss_directory = ''www'', ss_prefix = ''/''\<rparr>) @ rel) =
      [''www/../k'' \<mapsto> ''secret''] (with_slash (ss_directory \<lparr>ss_directory = ''www'', ss_prefix = ''/''\<rparr>) @ rel)"
    by (simp add: with_slash_def)
qed

section \<open>Routing\<close>

lemma capture_loop_iff:
  "length ps = length ss \<Longrightarrow> (capture_loop ps ss m \<noteq> None) = list_all2 (\<lambda>p s. is_capture p \<or> p = s) ps ss"
  by (induction ps ss m rule: capture_loop.induct) auto

lemma route_captures_iff:
  "(route_captures segments r \<noteq> None) = list_all2 (\<lambda>p s. is_capture p \<or> p = s) (rt_segments r) segments"
  using capture_loop_iff [of "rt_segments r" segments "[]"] by (auto simp: route_captures_def dest: list_all2_lengthD)

lemma match_loop_Inr:
  "match_loop meth segments mismatch routes = Inr (r, captured) \<Longrightarrow>
    \<exists>before after. routes = before @ r # after \<and> rt_method r = meth \<and> route_captures segments r = Some captured
      \<and> list_all (\<lambda>q. route_captures segments q = None \<or> rt_method q \<noteq> meth) before"
proof (induction meth segments mismatch routes rule: match_loop.induct)
  case (2 meth segments mismatch q rs)
  show ?case
  proof (cases "route_captures segments q")
    case None
    with 2 obtain before after where "rs = before @ r # after" "rt_method r = meth" "route_captures segments r = Some captured"
      "list_all (\<lambda>q. route_captures segments q = None \<or> rt_method q \<noteq> meth) before" by auto
    with None show ?thesis by (intro exI [of _ "q # before"] exI [of _ after]) simp
  next
    case (Some c)
    show ?thesis
    proof (cases "rt_method q = meth")
      case True
      with Some 2(3) show ?thesis by (intro exI [of _ "[]"] exI [of _ rs]) simp
    next
      case False
      with 2 Some obtain before after where "rs = before @ r # after" "rt_method r = meth" "route_captures segments r = Some captured"
        "list_all (\<lambda>q. route_captures segments q = None \<or> rt_method q \<noteq> meth) before" by auto
      with False show ?thesis by (intro exI [of _ "q # before"] exI [of _ after]) simp
    qed
  qed
qed simp

lemma match_loop_Inl:
  "match_loop meth segments mismatch routes = Inl m \<Longrightarrow>
    list_all (\<lambda>q. route_captures segments q = None \<or> rt_method q \<noteq> meth) routes \<and>
    (m = None \<longleftrightarrow> mismatch = None \<and> list_all (\<lambda>q. route_captures segments q = None) routes)"
  by (induction meth segments mismatch routes rule: match_loop.induct) (auto split: option.splits if_splits)

text \<open>
  Routing is exact. A request goes to the first registered route of its method whose pattern
  fits the path segment by segment; when there is none, the server knows whether the path exists
  under another method, which is the difference between its answers 405 and 404.
\<close>

theorem routing_exact:
  "(case match_route routes meth path of
      Inr (r, captured) \<Rightarrow> (\<exists>before after. routes = before @ r # after
        \<and> rt_method r = meth \<and> route_captures (splitPath path) r = Some captured
        \<and> list_all2 (\<lambda>p s. is_capture p \<or> p = s) (rt_segments r) (splitPath path)
        \<and> list_all (\<lambda>q. \<not> (rt_method q = meth \<and> list_all2 (\<lambda>p s. is_capture p \<or> p = s) (rt_segments q) (splitPath path))) before)
    | Inl mismatch \<Rightarrow>
        list_all (\<lambda>q. \<not> (rt_method q = meth \<and> list_all2 (\<lambda>p s. is_capture p \<or> p = s) (rt_segments q) (splitPath path))) routes
        \<and> (mismatch = None \<longleftrightarrow> list_all (\<lambda>q. \<not> list_all2 (\<lambda>p s. is_capture p \<or> p = s) (rt_segments q) (splitPath path)) routes))"
proof (cases "match_route routes meth path")
  case (Inl mismatch)
  with match_loop_Inl [of meth "splitPath path" None routes mismatch] show ?thesis
    by (auto simp: match_route_def list_all_iff route_captures_iff [symmetric])
next
  case (Inr x)
  then obtain r captured where x: "x = (r, captured)" by (cases x)
  with Inr match_loop_Inr [of meth "splitPath path" None routes r captured] obtain before after where
    "routes = before @ r # after" "rt_method r = meth" "route_captures (splitPath path) r = Some captured"
    "list_all (\<lambda>q. route_captures (splitPath path) q = None \<or> rt_method q \<noteq> meth) before" by (auto simp: match_route_def)
  moreover from this have "list_all2 (\<lambda>p s. is_capture p \<or> p = s) (rt_segments r) (splitPath path)"
    by (simp add: route_captures_iff [symmetric])
  ultimately show ?thesis using Inr x by (force simp: list_all_iff route_captures_iff [symmetric])
qed

lemma replace_route_keys: "replace_route entry rs = Some rs' \<Longrightarrow>
    map (\<lambda>r. (rt_method r, rt_segments r)) rs' = map (\<lambda>r. (rt_method r, rt_segments r)) rs"
  by (induction entry rs arbitrary: rs' rule: replace_route.induct) (auto split: if_splits)

lemma replace_route_None: "replace_route entry rs = None \<Longrightarrow>
    (rt_method entry, rt_segments entry) \<notin> set (map (\<lambda>r. (rt_method r, rt_segments r)) rs)"
  by (induction entry rs rule: replace_route.induct) (auto split: if_splits)

text \<open>Registration keeps one route for a method and a pattern.\<close>

lemma add_route_distinct:
  "distinct (map (\<lambda>r. (rt_method r, rt_segments r)) routes) \<Longrightarrow>
    distinct (map (\<lambda>r. (rt_method r, rt_segments r)) (add_route meth pattern handler routes))"
  by (auto simp: add_route_def Let_def replace_route_keys dest: replace_route_None split: option.splits)

end
