(* ===== verification/Http_Acceptor.thy ===== *)
theory Http_Acceptor
  imports Http_Connection Transition
begin

text \<open>
  \<open>HttpServer::Impl::acceptLoop\<close>: the bound on the connections in flight. The acceptor thread checks
  the counter and takes a slot; a worker closes the descriptor when \<open>handleConnection\<close> returns and
  gives the slot back after that, so the two are separate steps. \<open>ac_accepted\<close>, \<open>ac_live\<close>,
  \<open>ac_leaving\<close> and \<open>ac_closed\<close> are history, read by no step.
\<close>

record acceptor =
  ac_inFlight :: int
  ac_rejected :: u64
  ac_accepted :: "nat list"
  ac_live :: "nat list"
  ac_leaving :: "nat list"
  ac_closed :: "nat list"

definition new_acceptor :: acceptor where
  "new_acceptor = \<lparr>ac_inFlight = 0, ac_rejected = 0, ac_accepted = [], ac_live = [], ac_leaving = [], ac_closed = []\<rparr>"

definition busy_body :: string where
  "busy_body = ''{'' @ CHR 0x22 # ''error'' @ CHR 0x22 # '':{'' @ CHR 0x22 # ''code'' @ CHR 0x22 # '':'' @ CHR 0x22 #
     ''SERVER_BUSY'' @ CHR 0x22 # '','' @ CHR 0x22 # ''message'' @ CHR 0x22 # '':'' @ CHR 0x22 #
     ''too many connections in flight'' @ CHR 0x22 # ''}}''"

definition busy_text :: string where
  "busy_text = ''HTTP/1.1 503 Service Unavailable'' @ crlf @ ''Content-Type: application/json; charset=utf-8'' @ crlf
     @ ''Content-Length: '' @ show_nat (length busy_body) @ crlf @ ''Connection: close'' @ crlf @ ''Retry-After: 1'' @ crlf
     @ crlf @ busy_body"

text \<open>One accepted descriptor; the pool takes the task or throws. The text is what is sent at once.\<close>

definition accept_connection :: "server_config \<Rightarrow> nat \<Rightarrow> bool \<Rightarrow> acceptor \<Rightarrow> acceptor \<times> string option" where
  "accept_connection cfg fd submitted st =
     (let st = st\<lparr>ac_accepted := fd # ac_accepted st\<rparr>
      in if max 1 (sc_maxPendingConnections cfg) \<le> ac_inFlight st
         then (st\<lparr>ac_rejected := ac_rejected st + 1, ac_closed := fd # ac_closed st\<rparr>, Some busy_text)
         else (let st = st\<lparr>ac_inFlight := ac_inFlight st + 1\<rparr>
           in if submitted then (st\<lparr>ac_live := fd # ac_live st\<rparr>, None)
              else (st\<lparr>ac_inFlight := ac_inFlight st - 1, ac_closed := fd # ac_closed st\<rparr>, None)))"

definition close_connection :: "nat \<Rightarrow> acceptor \<Rightarrow> acceptor option" where
  "close_connection fd st =
     (if fd \<in> set (ac_live st)
      then Some (st\<lparr>ac_live := remove1 fd (ac_live st), ac_leaving := fd # ac_leaving st, ac_closed := fd # ac_closed st\<rparr>)
      else None)"

definition free_slot :: "nat \<Rightarrow> acceptor \<Rightarrow> acceptor option" where
  "free_slot fd st =
     (if fd \<in> set (ac_leaving st)
      then Some (st\<lparr>ac_leaving := remove1 fd (ac_leaving st), ac_inFlight := ac_inFlight st - 1\<rparr>) else None)"

datatype acceptor_event = Accepted nat bool | ConnectionClosed nat | SlotFreed nat

inductive acceptor_step :: "server_config \<Rightarrow> acceptor \<Rightarrow> acceptor_event \<Rightarrow> acceptor \<Rightarrow> bool" for cfg where
  step_accept: "accept_connection cfg fd submitted st = (st', sent) \<Longrightarrow> acceptor_step cfg st (Accepted fd submitted) st'"
| step_close: "close_connection fd st = Some st' \<Longrightarrow> acceptor_step cfg st (ConnectionClosed fd) st'"
| step_free: "free_slot fd st = Some st' \<Longrightarrow> acceptor_step cfg st (SlotFreed fd) st'"

inductive_cases acceptor_stepE: "acceptor_step cfg st e st'"

section \<open>The invariant\<close>

definition acceptor_inv :: "server_config \<Rightarrow> acceptor \<Rightarrow> bool" where
  "acceptor_inv cfg st \<longleftrightarrow>
     ac_inFlight st = int (length (ac_live st)) + int (length (ac_leaving st))
     \<and> ac_inFlight st \<le> max 1 (sc_maxPendingConnections cfg)
     \<and> mset (ac_accepted st) = mset (ac_live st) + mset (ac_closed st)"

lemma acceptor_inv_new: "acceptor_inv cfg new_acceptor"
  by (simp add: acceptor_inv_def new_acceptor_def)

lemma acceptor_inv_accept: "acceptor_inv cfg st \<Longrightarrow> acceptor_inv cfg (fst (accept_connection cfg fd submitted st))"
  by (auto simp: accept_connection_def acceptor_inv_def Let_def)

lemma length_remove1_int: "x \<in> set xs \<Longrightarrow> int (length (remove1 x xs)) = int (length xs) - 1"
  using length_pos_if_in_set [of x xs] by (simp add: length_remove1 of_nat_diff Suc_leI)

lemma acceptor_inv_close: "acceptor_inv cfg st \<Longrightarrow> close_connection fd st = Some st' \<Longrightarrow> acceptor_inv cfg st'"
  by (auto simp: close_connection_def acceptor_inv_def length_remove1_int split: if_splits)

lemma acceptor_inv_free: "acceptor_inv cfg st \<Longrightarrow> free_slot fd st = Some st' \<Longrightarrow> acceptor_inv cfg st'"
  by (auto simp: free_slot_def acceptor_inv_def length_remove1_int split: if_splits)

interpretation accepting: invariant_system "acceptor_step cfg" "acceptor_inv cfg"
proof
  fix st e st'
  assume "acceptor_inv cfg st" "acceptor_step cfg st e st'"
  from this(2,1) show "acceptor_inv cfg st'"
    by cases (auto dest: acceptor_inv_accept acceptor_inv_close acceptor_inv_free,
        metis acceptor_inv_accept fst_conv)
qed

text \<open>
  C23. Whatever the order in which connections arrive, end and give their slots back, the server
  holds no more descriptors than its limit, and each descriptor it accepted is either still being
  served or has been closed exactly once.
\<close>

theorem connections_bounded:
  assumes "run (acceptor_step cfg) new_acceptor events st"
  shows "int (length (ac_live st)) \<le> max 1 (sc_maxPendingConnections cfg)
    \<and> mset (ac_accepted st) = mset (ac_live st) + mset (ac_closed st)"
  using accepting.run_inv [OF assms acceptor_inv_new] by (simp add: acceptor_inv_def)

theorem connections_bounded_witness:
  "\<exists>st. run (acceptor_step (default_server_config\<lparr>sc_maxPendingConnections := 1\<rparr>)) new_acceptor
      [Accepted 3 True, Accepted 4 True, ConnectionClosed 3, SlotFreed 3] st
    \<and> int (length (ac_live st)) \<le> 1 \<and> mset (ac_closed st) = {#3, 4#}"
proof -
  define cfg where "cfg = default_server_config\<lparr>sc_maxPendingConnections := 1\<rparr>"
  define st where "st = \<lparr>ac_inFlight = 0, ac_rejected = 1, ac_accepted = [4, 3], ac_live = [], ac_leaving = [], ac_closed = [3, 4]\<rparr>"
  have "run (acceptor_step cfg) new_acceptor [Accepted 3 True, Accepted 4 True, ConnectionClosed 3, SlotFreed 3] st"
    by (rule run_Cons, rule step_accept, simp add: accept_connection_def new_acceptor_def cfg_def Let_def)+
      (rule run_Cons, rule step_close, simp add: close_connection_def, rule run_Cons, rule step_free,
        simp add: free_slot_def, simp add: st_def run_Nil)
  moreover from connections_bounded [OF this] have "int (length (ac_live st)) \<le> 1" by (simp add: cfg_def)
  ultimately show ?thesis by (intro exI [of _ st]) (simp add: cfg_def st_def)
qed

end
