(* ===== verification/Http_Client.thy ===== *)
theory Http_Client
  imports Http_Wire Test_Result Cancel_Token
begin

text \<open>
  The HTTP client (\<open>src/net/HttpClient.cpp\<close>): the loops that connect, send and read against a
  deadline, the decoder of chunked bodies, the request text, the reading of a response, and the
  redirects.

  Each system call is an observation: what the loop found when it looked at the cancellation
  token, at the clock and at the socket in one pass. A loop runs over the list of its observations;
  \<open>None\<close> means that it has not returned when they are used up.
\<close>

section \<open>Options\<close>

record client_options =
  co_connectTimeout :: i64
  co_requestTimeout :: i64
  co_maxResponseBytes :: nat
  co_followRedirects :: bool
  co_maxRedirects :: int
  co_defaultHeaders :: headers
  co_policy :: url_policy
  co_userAgent :: string

definition default_client_options :: client_options where
  "default_client_options = \<lparr>co_connectTimeout = 5000, co_requestTimeout = 10000, co_maxResponseBytes = 8 * 1024 * 1024,
     co_followRedirects = True, co_maxRedirects = 5, co_defaultHeaders = [], co_policy = default_policy,
     co_userAgent = ''TestForge/0.9''\<rparr>"

definition kMaxHeaderBytes :: nat where
  "kMaxHeaderBytes = 64 * 1024"

section \<open>Connecting\<close>

text \<open>What \<open>poll\<close> reports, and behind a ready descriptor \<open>getsockopt\<close> and the socket's error.\<close>

datatype poll_result =
    PollInterrupted
  | PollFailed string
  | PollIdle
  | OptionFailed string
  | SocketError string
  | SocketConnected

record connect_obs =
  cn_cancelled :: "string option"
  cn_now :: int
  cn_poll :: poll_result

datatype connect_attempt =
    SocketFailed string
  | ConnectedAtOnce
  | ConnectFailed string
  | InProgress int "connect_obs list"

fun connect_loop :: "i64 \<Rightarrow> int \<Rightarrow> connect_obs list \<Rightarrow> (string + unit) option" where
  "connect_loop timeout deadline [] = None"
| "connect_loop timeout deadline (ob # obs) =
     (case cn_cancelled ob of
        Some reason \<Rightarrow> Some (Inl (''connect aborted: '' @ reason))
      | None \<Rightarrow>
          if deadline \<le> cn_now ob then Some (Inl (''connect timed out after '' @ formatDuration timeout))
          else (case cn_poll ob of
              PollInterrupted \<Rightarrow> connect_loop timeout deadline obs
            | PollFailed why \<Rightarrow> Some (Inl (''poll() failed during connect: '' @ why))
            | PollIdle \<Rightarrow> connect_loop timeout deadline obs
            | OptionFailed why \<Rightarrow> Some (Inl (''getsockopt() failed: '' @ why))
            | SocketError why \<Rightarrow> Some (Inl (''connect failed: '' @ why))
            | SocketConnected \<Rightarrow> Some (Inr ())))"

fun connectWithTimeout :: "i64 \<Rightarrow> connect_attempt \<Rightarrow> (string + unit) option" where
  "connectWithTimeout timeout (SocketFailed why) = Some (Inl (''socket() failed: '' @ why))"
| "connectWithTimeout timeout ConnectedAtOnce = Some (Inr ())"
| "connectWithTimeout timeout (ConnectFailed why) = Some (Inl (''connect() failed: '' @ why))"
| "connectWithTimeout timeout (InProgress started obs) = connect_loop timeout (started + sint timeout) obs"

text \<open>The loop over the resolved addresses: each with the time at which its turn came.\<close>

definition connect_budget :: "client_options \<Rightarrow> int \<Rightarrow> int \<Rightarrow> i64" where
  "connect_budget opts deadline now =
     (if deadline \<le> now then 0 else word_of_int (min (sint (co_connectTimeout opts)) (deadline - now)))"

fun connect_any :: "client_options \<Rightarrow> int \<Rightarrow> string \<Rightarrow> (int \<times> connect_attempt) list \<Rightarrow> (string + unit) option" where
  "connect_any opts deadline error [] = Some (Inl error)"
| "connect_any opts deadline error ((now, attempt) # attempts) =
     (case connectWithTimeout (connect_budget opts deadline now) attempt of
        None \<Rightarrow> None
      | Some (Inr ()) \<Rightarrow> Some (Inr ())
      | Some (Inl error) \<Rightarrow> connect_any opts deadline error attempts)"

section \<open>Sending and reading\<close>

datatype send_result = Sent nat | SendBlocked | SendInterrupted | SendFailed string

record send_obs =
  sn_cancelled :: "string option"
  sn_now :: int
  sn_result :: send_result

text \<open>\<open>sendAll\<close>: the argument of the loop is what is left to send.\<close>

fun send_all :: "int \<Rightarrow> string \<Rightarrow> send_obs list \<Rightarrow> (string + unit) option" where
  "send_all deadline [] obs = Some (Inr ())"
| "send_all deadline (c # cs) [] = None"
| "send_all deadline (c # cs) (ob # obs) =
     (case sn_cancelled ob of
        Some reason \<Rightarrow> Some (Inl (''send aborted: '' @ reason))
      | None \<Rightarrow>
          if deadline \<le> sn_now ob then Some (Inl ''timed out while sending the request'')
          else (case sn_result ob of
              Sent n \<Rightarrow> send_all deadline (drop n (c # cs)) obs
            | SendBlocked \<Rightarrow> send_all deadline (c # cs) obs
            | SendInterrupted \<Rightarrow> send_all deadline (c # cs) obs
            | SendFailed why \<Rightarrow> Some (Inl (''send() failed: '' @ why))))"

datatype recv_result = Received string | PeerClosed | RecvInterrupted | RecvBlocked "string option" | RecvFailed string

record read_obs =
  rd_cancelled :: "string option"
  rd_now :: int
  rd_result :: recv_result

datatype read_outcome = ReadData string | ReadEof | ReadTimeout string | ReadCancelled string | ReadError string

fun readSome :: "int \<Rightarrow> string \<Rightarrow> read_obs list \<Rightarrow> (read_outcome \<times> read_obs list) option" where
  "readSome deadline buffer [] = None"
| "readSome deadline buffer (ob # obs) =
     (case rd_cancelled ob of
        Some reason \<Rightarrow> Some (ReadCancelled (''read aborted: '' @ reason), obs)
      | None \<Rightarrow>
          if deadline \<le> rd_now ob then Some (ReadTimeout ''timed out while reading the response'', obs)
          else (case rd_result ob of
              Received chunk \<Rightarrow> Some (ReadData (buffer @ chunk), obs)
            | PeerClosed \<Rightarrow> Some (ReadEof, obs)
            | RecvInterrupted \<Rightarrow> readSome deadline buffer obs
            | RecvBlocked None \<Rightarrow> readSome deadline buffer obs
            | RecvBlocked (Some why) \<Rightarrow> Some (ReadError (''poll() failed during read: '' @ why), obs)
            | RecvFailed why \<Rightarrow> Some (ReadError (''recv() failed: '' @ why), obs)))"

fun read_error :: "read_outcome \<Rightarrow> string" where
  "read_error (ReadTimeout why) = why"
| "read_error (ReadCancelled why) = why"
| "read_error (ReadError why) = why"
| "read_error _ = []"

lemma readSome_shorter: "readSome deadline buffer obs = Some (outcome, rest) \<Longrightarrow> length rest < length obs"
  by (induction deadline buffer obs rule: readSome.induct) (auto split: option.splits if_splits recv_result.splits)

section \<open>Chunked bodies\<close>

text \<open>The size of a chunk, in 64 bits; blanks are skipped.\<close>

fun chunk_size :: "string \<Rightarrow> u64 \<Rightarrow> u64 option" where
  "chunk_size [] n = Some n"
| "chunk_size (c # cs) n =
     (case url_hex_value c of
        Some digit \<Rightarrow> chunk_size cs (n * 16 + of_nat digit)
      | None \<Rightarrow> if c = CHR '' '' \<or> c = CHR 0x09 then chunk_size cs n else None)"

text \<open>
  The loop of \<open>decodeChunked\<close>: whether the stream is well formed, whether it is complete, and what
  was decoded. Positions are added in 64 bits, so the loop need not end.
\<close>

partial_function (option) decode_loop :: "string \<Rightarrow> nat \<Rightarrow> string \<Rightarrow> (bool \<times> bool \<times> string) option" where
  "decode_loop raw pos out =
     (if length raw \<le> pos then Some (True, False, out)
      else (case find_sub_from crlf raw pos of
        None \<Rightarrow> Some (True, False, out)
      | Some lineEnd \<Rightarrow>
          let sizeLine = fst (cut_at CHR '';'' (substr raw pos (lineEnd - pos)))
          in if sizeLine = [] then Some (False, False, out)
             else (case chunk_size sizeLine 0 of
               None \<Rightarrow> Some (False, False, out)
             | Some n \<Rightarrow>
                 let dataStart = lineEnd + 2; next_pos = unat (of_nat dataStart + n + 2 :: u64)
                 in if n = 0 then Some (True, True, out)
                    else if length raw < next_pos then Some (True, False, out)
                    else decode_loop raw next_pos (out @ substr raw dataStart (unat n)))))"

definition decodeChunked :: "string \<Rightarrow> (bool \<times> bool \<times> string) option" where
  "decodeChunked raw = decode_loop raw 0 []"

end
