(* ===== verification/Http_Exchange.thy ===== *)
theory Http_Exchange
  imports Http_Client
begin

text \<open>
  \<open>HttpClient::Impl::perform\<close>: one request from its URL to its response, and the redirects that
  follow. Times are in milliseconds. Beside its result the model returns what went out: for each
  request that got past the checks its URL, the request and the text written to the socket.
\<close>

section \<open>The request\<close>

definition request_headers :: "client_options \<Rightarrow> url \<Rightarrow> http_request \<Rightarrow> headers" where
  "request_headers opts u request =
     (let hs = fold (\<lambda>(name, v). headers_set name v) (rq_headers request) (co_defaultHeaders opts);
          hs = headers_set ''Host'' (authority u) hs;
          hs = (if \<not> headers_contains ''User-Agent'' hs then headers_set ''User-Agent'' (co_userAgent opts) hs else hs);
          hs = (if \<not> headers_contains ''Accept'' hs then headers_set ''Accept'' ''*/*'' hs else hs);
          hs = headers_set ''Connection'' ''close'' hs
      in if rq_body request \<noteq> [] \<or> rq_method request = ''POST'' \<or> rq_method request = ''PUT'' \<or> rq_method request = ''PATCH''
         then headers_set ''Content-Length'' (show_nat (length (rq_body request))) hs else hs)"

definition request_wire :: "client_options \<Rightarrow> url \<Rightarrow> http_request \<Rightarrow> string" where
  "request_wire opts u request =
     rq_method request @ '' '' @ requestTarget u @ '' HTTP/1.1'' @ crlf
     @ header_block (request_headers opts u request) @ crlf @ rq_body request"

section \<open>The response\<close>

text \<open>Reading up to the empty line: its position, what has arrived and the observations left.\<close>

function response_head :: "int \<Rightarrow> string \<Rightarrow> read_obs list \<Rightarrow> (string + nat \<times> string \<times> read_obs list) option" where
  "response_head deadline raw obs =
     (case readSome deadline raw obs of
        None \<Rightarrow> None
      | Some (ReadEof, obs) \<Rightarrow> Some (Inl ''connection closed before the response headers were complete'')
      | Some (ReadData raw, obs) \<Rightarrow>
          (case find_sub (crlf @ crlf) raw of
             Some headerEnd \<Rightarrow> Some (Inr (headerEnd, raw, obs))
           | None \<Rightarrow> if kMaxHeaderBytes < length raw
                     then Some (Inl (''response headers exceeded '' @ show_nat kMaxHeaderBytes @ '' bytes''))
                     else response_head deadline raw obs)
      | Some (outcome, obs) \<Rightarrow> Some (Inl (read_error outcome)))"
  by pat_completeness auto
termination
  by (relation "measure (\<lambda>(deadline, raw, obs). length obs)") (auto dest: readSome_shorter)

declare response_head.simps [simp del]

definition parse_status_line :: "string \<Rightarrow> string + int \<times> string" where
  "parse_status_line line =
     (case find_char CHR '' '' line of
        None \<Rightarrow> Inl (''malformed status line: '' @ String_Utils.truncate line 120)
      | Some firstSpace \<Rightarrow>
          (let (codeText, phrase) = cut_at CHR '' '' (drop (firstSpace + 1) line)
           in case parseInt codeText of
                None \<Rightarrow> Inl (''malformed status code: '' @ codeText)
              | Some code \<Rightarrow> Inr (to_int32 code, case phrase of None \<Rightarrow> reasonPhrase (to_int32 code) | Some t \<Rightarrow> trim t)))"

definition parse_response_head :: "string \<Rightarrow> string + int \<times> string \<times> headers" where
  "parse_response_head head =
     (case splitLines head of
        [] \<Rightarrow> Inl ''empty response''
      | first # rest \<Rightarrow>
          (case parse_status_line first of
             Inl e \<Rightarrow> Inl e
           | Inr (code, phrase) \<Rightarrow> Inr (code, phrase, read_header_lines rest [])))"

definition is_chunked :: "headers \<Rightarrow> bool" where
  "is_chunked hs \<longleftrightarrow> equalsIgnoreCase (headers_getOr ''Transfer-Encoding'' [] hs) ''chunked''"

definition declared_length :: "headers \<Rightarrow> nat option" where
  "declared_length hs =
     (case headers_get ''Content-Length'' hs of
        None \<Rightarrow> None
      | Some v \<Rightarrow> (case parseInt v of None \<Rightarrow> None | Some n \<Rightarrow> if 0 \<le> sint n then Some (unat n) else None))"

definition bodyless :: "string \<Rightarrow> int \<Rightarrow> bool" where
  "bodyless meth code \<longleftrightarrow> meth = ''HEAD'' \<or> code = 204 \<or> code = 304"

text \<open>What a pass of the body loop finds in the buffer: the body if it is all there, or an error.\<close>

definition body_ready :: "bool \<Rightarrow> nat option \<Rightarrow> string \<Rightarrow> (string + string option) option" where
  "body_ready chunked n buffer =
     (if chunked then
        (case decodeChunked buffer of
           None \<Rightarrow> None
         | Some (valid, whole, decoded) \<Rightarrow>
             if \<not> valid then Some (Inl ''malformed chunked response body'')
             else Some (Inr (if whole then Some decoded else None)))
      else (case n of
          Some n \<Rightarrow> Some (Inr (if n \<le> length buffer then Some (take n buffer) else None))
        | None \<Rightarrow> Some (Inr None)))"

text \<open>The body and whether it was cut at the limit.\<close>

function response_body :: "nat \<Rightarrow> int \<Rightarrow> bool \<Rightarrow> nat option \<Rightarrow> bool \<Rightarrow> string \<Rightarrow> read_obs list \<Rightarrow> (string + string \<times> bool) option" where
  "response_body limit deadline chunked n eof buffer obs =
     (case body_ready chunked n buffer of
        None \<Rightarrow> None
      | Some (Inl e) \<Rightarrow> Some (Inl e)
      | Some (Inr (Some body)) \<Rightarrow> Some (Inr (body, False))
      | Some (Inr None) \<Rightarrow>
          if eof then Some (Inr (buffer, False))
          else if limit < length buffer then Some (Inr (take limit buffer, True))
          else (case readSome deadline buffer obs of
              None \<Rightarrow> None
            | Some (ReadEof, obs) \<Rightarrow> response_body limit deadline chunked n True buffer obs
            | Some (ReadData buffer, obs) \<Rightarrow> response_body limit deadline chunked n eof buffer obs
            | Some (outcome, obs) \<Rightarrow> Some (Inl (read_error outcome))))"
  by pat_completeness auto
termination
  by (relation "measure (\<lambda>(limit, deadline, chunked, n, eof, buffer, obs). length obs)") (auto dest: readSome_shorter)

declare response_body.simps [simp del]

text \<open>The response as far as it was read, and why reading stopped if it did. \<open>fail\<close> keeps what is there.\<close>

definition read_response ::
  "client_options \<Rightarrow> int \<Rightarrow> http_request \<Rightarrow> http_response \<Rightarrow> read_obs list \<Rightarrow> (string option \<times> http_response) option" where
  "read_response opts deadline request response obs =
     (case response_head deadline [] obs of
        None \<Rightarrow> None
      | Some (Inl e) \<Rightarrow> Some (Some e, response)
      | Some (Inr (headerEnd, raw, obs)) \<Rightarrow>
          (case parse_response_head (take headerEnd raw) of
             Inl e \<Rightarrow> Some (Some e, response)
           | Inr (code, phrase, hs) \<Rightarrow>
               (let response = response\<lparr>rs_status := code, rs_statusText := phrase, rs_headers := hs\<rparr>
                in if bodyless (rq_method request) code then Some (None, response)
                   else (case response_body (co_maxResponseBytes opts) deadline (is_chunked hs) (declared_length hs) False
                                (drop (headerEnd + 4) raw) obs of
                       None \<Rightarrow> None
                     | Some (Inl e) \<Rightarrow> Some (Some e, response)
                     | Some (Inr (body, truncated)) \<Rightarrow>
                         Some (None, response\<lparr>rs_body := body, rs_headers :=
                           if truncated then headers_set ''X-TestForge-Truncated'' ''true'' hs else hs\<rparr>)))))"

section \<open>Redirects\<close>

definition is_redirect :: "int \<Rightarrow> bool" where
  "is_redirect code \<longleftrightarrow> code = 301 \<or> code = 302 \<or> code = 303 \<or> code = 307 \<or> code = 308"

definition resolve_location :: "url \<Rightarrow> string \<Rightarrow> string option" where
  "resolve_location u location =
     (if startsWith location ''http://'' \<or> startsWith location ''https://'' then Some location
      else if hd location = CHR ''/'' then
        (let (target, query) = cut_at CHR ''?'' location
         in Some (url_string (u\<lparr>u_path := target, u_query := case_option [] id query, u_fragment := []\<rparr>)))
      else joinUrl (url_string u) location)"

definition same_origin :: "url \<Rightarrow> url option \<Rightarrow> bool" where
  "same_origin u target =
     (case target of
        None \<Rightarrow> False
      | Some v \<Rightarrow> u_scheme v = u_scheme u \<and> equalsIgnoreCase (u_host v) (u_host u) \<and> u_port v = u_port u)"

definition credential_names :: "string list" where
  "credential_names = [''Authorization'', ''Cookie'', ''Proxy-Authorization'']"

definition follow_up :: "url \<Rightarrow> http_request \<Rightarrow> int \<Rightarrow> string \<Rightarrow> http_request" where
  "follow_up u request code nextUrl =
     (let f = request\<lparr>rq_url := nextUrl\<rparr>;
          f = (if \<not> same_origin u (parseUrl nextUrl)
               then f\<lparr>rq_headers := fold headers_remove credential_names (rq_headers f)\<rparr> else f)
      in if code = 303 \<or> ((code = 301 \<or> code = 302) \<and> rq_method request \<noteq> ''GET'' \<and> rq_method request \<noteq> ''HEAD'')
         then f\<lparr>rq_method := ''GET'', rq_body := []\<rparr> else f)"

text \<open>The request a response leads to, if it is a redirect that is followed.\<close>

definition next_request :: "client_options \<Rightarrow> int \<Rightarrow> url \<Rightarrow> http_request \<Rightarrow> http_response \<Rightarrow> http_request option" where
  "next_request opts remaining u request response =
     (if co_followRedirects opts \<and> 0 < remaining \<and> is_redirect (rs_status response) then
        (case headers_get ''Location'' (rs_headers response) of
           None \<Rightarrow> None
         | Some location \<Rightarrow>
             if location = [] then None
             else map_option (follow_up u request (rs_status response)) (resolve_location u location))
      else None)"

section \<open>A request and its redirects\<close>

text \<open>What the transport did for one request: name resolution, connection, sending and reading.\<close>

record hop =
  hp_started :: int
  hp_resolved :: "string + (int \<times> connect_attempt) list"
  hp_send :: "send_obs list"
  hp_reads :: "read_obs list"
  hp_elapsed :: i64

type_synonym sent = "(url \<times> http_request \<times> string) list"

definition fail_response :: "i64 \<Rightarrow> string \<Rightarrow> http_response \<Rightarrow> http_response" where
  "fail_response elapsed message response =
     response\<lparr>rs_transportError := True, rs_errorMessage := message, rs_elapsed := elapsed\<rparr>"

definition started_response :: "http_request \<Rightarrow> http_response" where
  "started_response request = default_response\<lparr>rs_requestMethod := rq_method request, rs_requestUrl := rq_url request\<rparr>"

definition request_deadline :: "client_options \<Rightarrow> http_request \<Rightarrow> int \<Rightarrow> int" where
  "request_deadline opts request started =
     started + sint (if 0 < sint (rq_timeout request) then rq_timeout request else co_requestTimeout opts)"

text \<open>The exchange on the wire with a host that may be contacted.\<close>

definition exchange :: "client_options \<Rightarrow> hop \<Rightarrow> url \<Rightarrow> http_request \<Rightarrow> (string option \<times> http_response) option" where
  "exchange opts h u request =
     (let deadline = request_deadline opts request (hp_started h); response = started_response request
      in case hp_resolved h of
           Inl why \<Rightarrow> Some (Some (''could not resolve '' @ CHR 0x27 # u_host u @ CHR 0x27 # '': '' @ why), response)
         | Inr addresses \<Rightarrow>
             (case connect_any opts deadline (''no addresses returned for '' @ u_host u) addresses of
                None \<Rightarrow> None
              | Some (Inl e) \<Rightarrow> Some (Some e, response)
              | Some (Inr ()) \<Rightarrow>
                  (case send_all deadline (request_wire opts u request) (hp_send h) of
                     None \<Rightarrow> None
                   | Some (Inl e) \<Rightarrow> Some (Some e, response)
                   | Some (Inr ()) \<Rightarrow> read_response opts deadline request response (hp_reads h))))"

definition not_supported :: string where
  "not_supported = ''HTTPS is not supported by the built-in client (no TLS stack is linked). Point ''
     @ ''TestForge at an http:// endpoint, or route the call through the Python AI sidecar.''"

text \<open>The checks before anything is resolved or sent.\<close>

definition admit :: "client_options \<Rightarrow> http_request \<Rightarrow> string + url" where
  "admit opts request =
     (case parseUrl (rq_url request) of
        None \<Rightarrow> Inl (''not a valid absolute http(s) URL: '' @ rq_url request)
      | Some u \<Rightarrow>
          if reject (co_policy opts) u \<noteq> [] then Inl (''request blocked by URL policy: '' @ reject (co_policy opts) u)
          else if u_scheme u = ''https'' then Inl not_supported
          else Inr u)"

fun perform :: "client_options \<Rightarrow> hop list \<Rightarrow> http_request \<Rightarrow> int \<Rightarrow> http_response option \<times> sent" where
  "perform opts [] request remaining = (None, [])"
| "perform opts (h # hs) request remaining =
     (case admit opts request of
        Inl e \<Rightarrow> (Some (fail_response (hp_elapsed h) e (started_response request)), [])
      | Inr u \<Rightarrow>
          (let out = (u, request, request_wire opts u request)
           in case exchange opts h u request of
                None \<Rightarrow> (None, [out])
              | Some (Some e, response) \<Rightarrow> (Some (fail_response (hp_elapsed h) e response), [out])
              | Some (None, response) \<Rightarrow>
                  (let response = response\<lparr>rs_elapsed := hp_elapsed h\<rparr>
                   in case next_request opts remaining u request response of
                     None \<Rightarrow> (Some response, [out])
                   | Some f \<Rightarrow>
                       (let (followed, sent) = perform opts hs f (remaining - 1)
                        in (map_option (\<lambda>r. r\<lparr>rs_elapsed := rs_elapsed r + rs_elapsed response\<rparr>) followed, out # sent)))))"

text \<open>\<open>HttpClient::send\<close> and the requests the convenience methods build.\<close>

definition client_send :: "client_options \<Rightarrow> hop list \<Rightarrow> http_request \<Rightarrow> http_response option \<times> sent" where
  "client_send opts hs request = perform opts hs request (co_maxRedirects opts)"

definition add_headers :: "headers \<Rightarrow> http_request \<Rightarrow> http_request" where
  "add_headers hs request = request\<lparr>rq_headers := fold (\<lambda>(name, v). headers_set name v) hs (rq_headers request)\<rparr>"

definition get_request :: "string \<Rightarrow> headers \<Rightarrow> http_request" where
  "get_request url hs = add_headers hs (request_get url)"

definition body_request :: "string \<Rightarrow> string \<Rightarrow> string \<Rightarrow> string \<Rightarrow> headers \<Rightarrow> http_request" where
  "body_request meth url body type hs = add_headers hs
     (default_request\<lparr>rq_method := meth, rq_url := url, rq_body := body, rq_headers := headers_set ''Content-Type'' type []\<rparr>)"

definition post_json_request :: "string \<Rightarrow> json \<Rightarrow> headers \<Rightarrow> http_request" where
  "post_json_request url payload hs = add_headers hs (jsonPost url payload)"

definition delete_request :: "string \<Rightarrow> headers \<Rightarrow> http_request" where
  "delete_request url hs = add_headers hs (default_request\<lparr>rq_method := ''DELETE'', rq_url := url\<rparr>)"

end
