(* ===== verification/Client_Facts.thy ===== *)
theory Client_Facts
  imports Http_Exchange Url_Facts
begin

text \<open>
  What the client sends and to whom: the policy on every hop of a redirect chain, credentials and
  origins, the loops against their deadline, and the decoder of chunked bodies.
\<close>

section \<open>Who is contacted\<close>

lemma admit_sound: "admit opts request = Inr u \<Longrightarrow>
    parseUrl (rq_url request) = Some u \<and> reject (co_policy opts) u = [] \<and> u_scheme u \<noteq> ''https''"
  by (auto simp: admit_def split: option.splits if_splits)

lemma perform_sent:
  "out \<in> set (snd (perform opts hs request remaining)) \<Longrightarrow>
    admit opts (fst (snd out)) = Inr (fst out) \<and> snd (snd out) = request_wire opts (fst out) (fst (snd out))"
  by (induction opts hs request remaining rule: perform.induct)
    (auto simp: Let_def split: sum.splits option.splits prod.splits if_splits)

lemma next_request_remaining: "next_request opts remaining u request response = Some f \<Longrightarrow> 0 < remaining"
  by (auto simp: next_request_def split: if_splits)

lemma perform_length: "0 \<le> remaining \<Longrightarrow> int (length (snd (perform opts hs request remaining))) \<le> remaining + 1"
proof (induction opts hs request remaining rule: perform.induct)
  case (2 opts h hs request remaining)
  have "int (length sent) \<le> remaining"
    if "perform opts hs f (remaining - 1) = (followed, sent)" "admit opts request = Inr u" "exchange opts h u request = Some (None, response)"
      "next_request opts remaining u request (response\<lparr>rs_elapsed := hp_elapsed h\<rparr>) = Some f" for u response f followed sent
    using 2(1) [OF that(2) refl that(3) refl refl refl that(4)] next_request_remaining [OF that(4)] that(1) by simp
  note later = this
  show ?case
    using 2(2) by (auto simp: Let_def split: sum.splits option.splits prod.splits dest: later)
qed simp

text \<open>
  C10. Every request that reaches the network, redirects included, is one whose URL the policy
  accepts and whose scheme is not https; a chain has at most one request more than the limit of
  redirects.
\<close>

theorem policy_on_every_hop:
  assumes "0 \<le> co_maxRedirects opts"
  shows "list_all (\<lambda>(u, req, wire). parseUrl (rq_url req) = Some u \<and> reject (co_policy opts) u = [] \<and> u_scheme u \<noteq> ''https''
      \<and> wire = request_wire opts u req) (snd (client_send opts hs request))
    \<and> int (length (snd (client_send opts hs request))) \<le> co_maxRedirects opts + 1"
proof -
  have "parseUrl (rq_url req) = Some u \<and> reject (co_policy opts) u = [] \<and> u_scheme u \<noteq> ''https'' \<and> wire = request_wire opts u req"
    if "(u, req, wire) \<in> set (snd (client_send opts hs request))" for u req wire
    using perform_sent [OF that [unfolded client_send_def]] admit_sound [of opts req u] by simp
  with perform_length [OF assms] show ?thesis by (auto simp: list_all_iff client_send_def)
qed

section \<open>Credentials\<close>

definition credential :: "string \<Rightarrow> bool" where
  "credential name \<longleftrightarrow> list_ex (equalsIgnoreCase name) credential_names"

definition no_credentials :: "headers \<Rightarrow> bool" where
  "no_credentials hs \<longleftrightarrow> list_all (\<lambda>item. \<not> credential (fst item)) hs"

lemma remove_credentials: "no_credentials (fold headers_remove credential_names hs)"
  by (auto simp: no_credentials_def credential_names_def credential_def headers_remove_def list_all_iff)

lemma follow_up_headers: "rq_headers (follow_up u request code nextUrl) =
    (if same_origin u (parseUrl nextUrl) then rq_headers request else fold headers_remove credential_names (rq_headers request))"
  by (simp add: follow_up_def Let_def)

lemma follow_up_url: "rq_url (follow_up u request code nextUrl) = nextUrl"
  by (simp add: follow_up_def Let_def)

lemma fold_remove_subset: "set (fold headers_remove names hs) \<subseteq> set hs"
proof (induction names arbitrary: hs)
  case (Cons n names)
  have "set (headers_remove n hs) \<subseteq> set hs" by (auto simp: headers_remove_def)
  with Cons [of "headers_remove n hs"] show ?case by simp
qed simp

lemma follow_up_no_credentials: "no_credentials (rq_headers request) \<Longrightarrow> no_credentials (rq_headers (follow_up u request code nextUrl))"
  using fold_remove_subset [of credential_names "rq_headers request"]
  by (auto simp: follow_up_headers no_credentials_def list_all_iff)

lemma same_origin_trans: "same_origin u (Some v) \<Longrightarrow> same_origin v w \<Longrightarrow> same_origin u w"
  by (auto simp: same_origin_def equalsIgnoreCase_toLower split: option.splits)

lemma same_origin_refl: "same_origin u (Some u)"
  by (simp add: same_origin_def)

lemma next_request_follow_up:
  "next_request opts remaining u request response = Some f \<Longrightarrow> \<exists>nextUrl. f = follow_up u request (rs_status response) nextUrl"
  by (auto simp: next_request_def split: if_splits option.splits)

lemma perform_credentials:
  "(\<And>u. parseUrl (rq_url request) = Some u \<Longrightarrow> same_origin start (Some u) \<or> no_credentials (rq_headers request)) \<Longrightarrow>
    (v, req, wire) \<in> set (snd (perform opts hs request remaining)) \<Longrightarrow>
    same_origin start (Some v) \<or> no_credentials (rq_headers req)"
proof (induction opts hs request remaining rule: perform.induct)
  case (2 opts h hs request remaining)
  then obtain u where u: "admit opts request = Inr u" by (auto split: sum.splits)
  note now = 2(2) [OF conjunct1 [OF admit_sound [OF u]]]
  show ?case
  proof (cases "(v, req, wire) = (u, request, request_wire opts u request)")
    case True
    with now show ?thesis by simp
  next
    case False
    with 2(3) u obtain response f where e: "exchange opts h u request = Some (None, response)"
      and f: "next_request opts remaining u request (response\<lparr>rs_elapsed := hp_elapsed h\<rparr>) = Some f"
      and later: "(v, req, wire) \<in> set (snd (perform opts hs f (remaining - 1)))"
      by (auto simp: Let_def split: option.splits prod.splits)
    from next_request_follow_up [OF f] obtain code nextUrl where fu: "f = follow_up u request code nextUrl" by blast
    show ?thesis
    proof (rule 2(1) [OF u refl e refl refl refl f _ later])
      fix w
      assume w: "parseUrl (rq_url f) = Some w"
      show "same_origin start (Some w) \<or> no_credentials (rq_headers f)"
        using now w same_origin_trans [of start u "Some w"] follow_up_no_credentials [of request u code nextUrl] remove_credentials
        by (cases "same_origin u (Some w)") (auto simp: fu follow_up_url follow_up_headers)
    qed
  qed
qed simp

text \<open>
  C11. Credentials do not cross an origin: of all the requests of a redirect chain, only those for
  the origin (scheme, host and port) of the first carry an Authorization, Cookie or
  Proxy-Authorization header of the caller's request.
\<close>

theorem credentials_stay_at_origin:
  assumes "parseUrl (rq_url request) = Some start"
  shows "list_all (\<lambda>(u, req, wire). same_origin start (Some u) \<or> no_credentials (rq_headers req)) (snd (client_send opts hs request))"
proof -
  have "same_origin start (Some u) \<or> no_credentials (rq_headers req)"
    if "(u, req, wire) \<in> set (snd (client_send opts hs request))" for u req wire
    using perform_credentials [OF _ that [unfolded client_send_def], of start] assms same_origin_refl by auto
  then show ?thesis by (auto simp: list_all_iff)
qed

text \<open>A chain with a redirect to another host, and what is sent to each of the two.\<close>

definition redirect_hop :: hop where
  "redirect_hop = \<lparr>hp_started = 0, hp_resolved = Inr [(0, ConnectedAtOnce)],
     hp_send = [\<lparr>sn_cancelled = None, sn_now = 0, sn_result = Sent 1000\<rparr>],
     hp_reads = [\<lparr>rd_cancelled = None, rd_now = 1, rd_result = Received (''HTTP/1.1 302 Found'' @ crlf
       @ ''Location: http://b/'' @ crlf @ ''Content-Length: 0'' @ crlf @ crlf)\<rparr>],
     hp_elapsed = 1\<rparr>"

definition last_hop :: hop where
  "last_hop = redirect_hop\<lparr>hp_resolved := Inl ''unknown''\<rparr>"

definition small_options :: "headers \<Rightarrow> client_options" where
  "small_options hs = \<lparr>co_connectTimeout = 5000, co_requestTimeout = 10000, co_maxResponseBytes = 64, co_followRedirects = True,
     co_maxRedirects = 5, co_defaultHeaders = hs, co_policy = default_policy, co_userAgent = ''TestForge/0.9''\<rparr>"

definition authorised :: http_request where
  "authorised = default_request\<lparr>rq_url := ''http://a/'', rq_headers := [(''authorization'', ''Bearer x'')]\<rparr>"

lemma redirect_example:
  "map (\<lambda>(u, req, wire). (u_host u, rq_headers req)) (snd (client_send (small_options []) [redirect_hop, last_hop] authorised))
    = [(''a'', [(''authorization'', ''Bearer x'')]), (''b'', [])]"
  by code_simp

theorem policy_on_every_hop_witness:
  "map (u_host \<circ> fst) (snd (client_send (small_options []) [redirect_hop, last_hop] authorised)) = [''a'', ''b''] \<and>
    length (snd (client_send (small_options []) [redirect_hop, last_hop] authorised)) \<le> 6"
  using policy_on_every_hop [of "small_options []" "[redirect_hop, last_hop]" authorised]
    arg_cong [OF redirect_example, of "map fst"] by (simp add: small_options_def comp_def case_prod_unfold)

theorem credentials_stay_at_origin_witness:
  "list_all (\<lambda>(u, req, wire). u_host u = ''a'' \<or> no_credentials (rq_headers req))
     (snd (client_send (small_options []) [redirect_hop, last_hop] authorised))"
proof -
  have "parseUrl (rq_url authorised) = Some \<lparr>u_scheme = ''http'', u_host = ''a'', u_port = 80, u_path = ''/'', u_query = [], u_fragment = []\<rparr>"
    by code_simp
  from credentials_stay_at_origin [OF this, of "small_options []" "[redirect_hop, last_hop]"] redirect_example show ?thesis
    by (auto simp: list_all_iff no_credentials_def credential_def)
qed

text \<open>
  The headers every request of a client carries by default are added on each hop, so a credential
  among those does reach the other host.
\<close>

lemma default_credentials_cross:
  "map (\<lambda>(u, req, wire). (u_host u, headers_get ''Authorization'' (request_headers (small_options [(''Authorization'', ''Bearer x'')]) u req)))
     (snd (client_send (small_options [(''Authorization'', ''Bearer x'')]) [redirect_hop, last_hop] (default_request\<lparr>rq_url := ''http://a/''\<rparr>)))
    = [(''a'', Some ''Bearer x''), (''b'', Some ''Bearer x'')]"
  by code_simp

section \<open>Chunked bodies\<close>

text \<open>A reference encoder: the size of each chunk in hexadecimal, and a chunk of size 0 at the end.\<close>

fun show_hex :: "nat \<Rightarrow> string" where
  "show_hex n = (if n < 16 then [upper_hex_digit n] else show_hex (n div 16) @ [upper_hex_digit (n mod 16)])"

declare show_hex.simps [simp del]

definition encode_chunk :: "string \<Rightarrow> string" where
  "encode_chunk c = show_hex (length c) @ crlf @ c @ crlf"

definition encode_chunks :: "string list \<Rightarrow> string" where
  "encode_chunks cs = concat (map encode_chunk cs) @ ''0'' @ crlf @ crlf"

lemma chunk_size_append: "chunk_size (s @ t) n = (case chunk_size s n of Some k \<Rightarrow> chunk_size t k | None \<Rightarrow> None)"
  by (induction s n rule: chunk_size.induct) (auto split: option.splits)

lemma chunk_size_show_hex: "chunk_size (show_hex k) 0 = Some (of_nat k)"
proof (induction k rule: show_hex.induct)
  case (1 k)
  show ?case
  proof (cases "k < 16")
    case True
    then show ?thesis by (subst show_hex.simps) (simp add: upper_hex_value)
  next
    case False
    have "(of_nat (k div 16) * 16 + of_nat (k mod 16) :: u64) = of_nat (k div 16 * 16 + k mod 16)"
      by (simp only: of_nat_add of_nat_mult of_nat_numeral)
    also have "\<dots> = of_nat k" by (simp only: div_mult_mod_eq)
    finally show ?thesis using False 1 by (subst show_hex.simps) (simp add: chunk_size_append upper_hex_value)
  qed
qed

lemma upper_hex_chars: "d < 16 \<Longrightarrow> unreserved (upper_hex_digit d)"
proof -
  assume "d < 16"
  moreover have "list_all (\<lambda>d. unreserved (upper_hex_digit d)) [0..<16]" by code_simp
  ultimately show ?thesis by (simp add: list_all_iff)
qed

lemma show_hex_chars: "c \<in> set (show_hex k) \<Longrightarrow> unreserved c"
proof (induction k rule: show_hex.induct)
  case (1 k)
  then show ?case by (cases "k < 16") (simp_all add: show_hex.simps [of k] upper_hex_chars, auto simp: upper_hex_chars)
qed

lemma show_hex_nonempty [simp]: "show_hex k \<noteq> []"
  by (subst show_hex.simps) simp

lemma find_crlf: "CHR 0x0D \<notin> set l \<Longrightarrow> find_sub crlf (l @ crlf @ t) = Some (length l)"
  by (induction l) (auto simp: crlf_def)

lemma find_crlf_from: "CHR 0x0D \<notin> set l \<Longrightarrow> find_sub_from crlf (pre @ l @ crlf @ t) (length pre) = Some (length pre + length l)"
  using find_crlf [of l t] by (simp add: find_sub_from_def)

lemma unat_of_nat_small: "n < 2 ^ 64 \<Longrightarrow> unat (of_nat n :: u64) = n"
  by (simp add: unat_of_nat)

lemma decode_step:
  assumes "pos < length raw" "find_sub_from crlf raw pos = Some lineEnd"
    and "fst (cut_at CHR '';'' (substr raw pos (lineEnd - pos))) = h" "h \<noteq> []" "chunk_size h 0 = Some n" "n \<noteq> 0"
    and "unat (of_nat (lineEnd + 2) + n + 2 :: u64) = next_pos" "next_pos \<le> length raw"
  shows "decode_loop raw pos out = decode_loop raw next_pos (out @ substr raw (lineEnd + 2) (unat n))"
proof -
  from assms(1) have "\<not> length raw \<le> pos" by simp
  moreover from assms(8) have "\<not> length raw < next_pos" by simp
  ultimately show ?thesis
    by (subst decode_loop.simps) (simp only: if_False option.case Let_def assms(2-7))
qed

lemma decode_one_chunk:
  assumes "c \<noteq> []" "length (pre @ encode_chunk c @ t) < 2 ^ 64"
  shows "decode_loop (pre @ encode_chunk c @ t) (length pre) out =
    decode_loop (pre @ encode_chunk c @ t) (length pre + length (encode_chunk c)) (out @ c)"
proof -
  let ?h = "show_hex (length c)"
  let ?raw = "pre @ ?h @ crlf @ c @ crlf @ t"
  have h: "CHR 0x0D \<notin> set ?h" "CHR '';'' \<notin> set ?h" using show_hex_chars by (fastforce simp: unreserved_def byte_simps)+
  have line: "find_sub_from crlf ?raw (length pre) = Some (length pre + length ?h)"
    by (rule find_crlf_from [OF h(1)])
  have size: "fst (cut_at CHR '';'' (substr ?raw (length pre) (length pre + length ?h - length pre))) = ?h"
    by (simp add: substr_def cut_at_absent [OF h(2)])
  have len: "length pre + length ?h + 2 + length c + 2 < 2 ^ 64" "length c < 2 ^ 64"
    using assms(2) by (simp_all add: encode_chunk_def crlf_def)
  have u: "unat (of_nat (length c) :: u64) = length c" using len by (simp only: unat_of_nat_small)
  have nz: "(of_nat (length c) :: u64) \<noteq> 0" using u assms(1) by (metis length_0_conv unat_0)
  have "(of_nat (length pre + length ?h + 2) + of_nat (length c) + 2 :: u64) = of_nat (length pre + length ?h + 2 + length c + 2)"
    by simp
  then have next_pos: "unat (of_nat (length pre + length ?h + 2) + of_nat (length c) + 2 :: u64) = length pre + length ?h + 2 + length c + 2"
    using len by (simp only: unat_of_nat_small)
  have "decode_loop ?raw (length pre) out = decode_loop ?raw (length pre + length ?h + 2 + length c + 2)
      (out @ substr ?raw (length pre + length ?h + 2) (unat (of_nat (length c) :: u64)))"
    by (rule decode_step [OF _ line size _ chunk_size_show_hex nz next_pos]) (simp_all add: crlf_def)
  moreover have "substr ?raw (length pre + length ?h + 2) (length c) = c" by (simp add: substr_def crlf_def)
  ultimately show ?thesis by (simp only: u) (simp add: encode_chunk_def crlf_def add.assoc)
qed

lemma decode_chunks:
  "list_all (\<lambda>c. c \<noteq> []) cs \<Longrightarrow> length (pre @ encode_chunks cs @ t) < 2 ^ 64 \<Longrightarrow>
    decode_loop (pre @ encode_chunks cs @ t) (length pre) out = Some (True, True, out @ concat cs)"
proof (induction cs arbitrary: pre out)
  case Nil
  have "find_sub_from crlf (pre @ ''0'' @ crlf @ crlf @ t) (length pre) = Some (length pre + 1)"
    using find_crlf_from [of "''0''" pre "crlf @ t"] by simp
  then show ?case
    by (subst decode_loop.simps) (simp add: encode_chunks_def substr_def cut_at_def url_hex_value_def byte_simps)
next
  case (Cons c cs)
  have e: "encode_chunks (c # cs) = encode_chunk c @ encode_chunks cs" by (simp add: encode_chunks_def)
  from Cons decode_one_chunk [of c pre "encode_chunks cs @ t" out] Cons.IH [of "pre @ encode_chunk c" "out @ c"]
  show ?case by (simp add: e)
qed

text \<open>
  A body sent in chunks is decoded exactly: the chunks of any division of it, each with its
  size in hexadecimal, decode to the body, and the end is recognised whatever follows.
\<close>

theorem decodeChunked_exact:
  assumes "list_all (\<lambda>c. c \<noteq> []) cs" "length (encode_chunks cs @ t) < 2 ^ 64"
  shows "decodeChunked (encode_chunks cs @ t) = Some (True, True, concat cs)"
  using decode_chunks [of cs "[]" t "[]"] assms by (simp add: decodeChunked_def)

theorem decodeChunked_exact_witness: "decodeChunked (encode_chunks [''ab'', ''c'']) = Some (True, True, ''abc'')"
proof -
  have "length (encode_chunks [''ab'', ''c''] @ []) < 2 ^ 64" by (simp add: encode_chunks_def encode_chunk_def show_hex.simps crlf_def)
  from decodeChunked_exact [OF _ this] show ?thesis by simp
qed

text \<open>
  A size near the largest 64-bit number makes the next position wrap around to the start: the
  loop never ends, whatever the deadline, and neither does the reading of the response.
\<close>

definition evil_chunk :: string where
  "evil_chunk = ''FFFFFFFFFFFFFFEC'' @ crlf"

lemma decode_loop_hangs: "decode_loop evil_chunk 0 out = None"
proof -
  have size: "chunk_size ''FFFFFFFFFFFFFFEC'' 0 = Some 0xFFFFFFFFFFFFFFEC"
    by (simp add: url_hex_value_def byte_simps)
  have line: "find_sub_from crlf evil_chunk 0 = Some 16" by code_simp
  have digits: "fst (cut_at CHR '';'' (substr evil_chunk 0 (16 - 0))) = ''FFFFFFFFFFFFFFEC''" by code_simp
  have arith: "unat (of_nat (16 + 2) + 0xFFFFFFFFFFFFFFEC + 2 :: u64) = 0" "((0xFFFFFFFFFFFFFFEC :: u64) = 0) = False" by simp_all
  have nonempty: "(length evil_chunk \<le> 0) = False" "(length evil_chunk < 0) = False" by (simp_all add: evil_chunk_def)
  have "\<not> (raw = evil_chunk \<and> pos = 0)" if "decode_loop raw pos out = Some y" for raw pos out y
  proof (rule decode_loop.raw_induct [where P = "\<lambda>raw pos out y. \<not> (raw = evil_chunk \<and> pos = 0)", OF _ that])
    fix f raw pos out y
    assume IH: "\<And>raw pos out y. f raw pos out = Some y \<Longrightarrow> \<not> (raw = evil_chunk \<and> pos = 0)"
      and body: "(if length raw \<le> pos then Some (True, False, out)
        else (case find_sub_from crlf raw pos of
          None \<Rightarrow> Some (True, False, out)
        | Some lineEnd \<Rightarrow>
            let sizeLine = fst (cut_at CHR '';'' (substr raw pos (lineEnd - pos)))
            in if sizeLine = [] then Some (False, False, out)
               else (case chunk_size sizeLine 0 of
                 None \<Rightarrow> Some (False, False, out)
               | Some n \<Rightarrow>
                   let dataStart = lineEnd + 2; next_pos = unat (of_nat dataStart + n + 2 :: u64)
                   in if n = 0 then Some (True, True, out)
                      else if length raw < next_pos then Some (True, False, out)
                      else f raw next_pos (out @ substr raw dataStart (unat n))))) = Some y"
    show "\<not> (raw = evil_chunk \<and> pos = 0)"
    proof
      assume raw: "raw = evil_chunk \<and> pos = 0"
      from body have "f evil_chunk 0 (out @ substr evil_chunk (16 + 2) (unat (0xFFFFFFFFFFFFFFEC :: u64))) = Some y"
        unfolding raw [THEN conjunct1] raw [THEN conjunct2] line option.case Let_def digits size arith
        by (simp only: nonempty if_False list.distinct)
      from IH [OF this] show False by simp
    qed
  qed
  then show ?thesis by (metis not_None_eq)
qed

lemma response_body_hangs: "response_body limit deadline True n eof evil_chunk obs = None"
  by (subst response_body.simps) (simp add: body_ready_def decodeChunked_def decode_loop_hangs)

section \<open>Deadlines\<close>

text \<open>Each loop returns at the latest on the pass that finds the deadline over or the token cancelled.\<close>

definition read_stops :: "int \<Rightarrow> read_obs \<Rightarrow> bool" where
  "read_stops deadline ob \<longleftrightarrow> rd_cancelled ob \<noteq> None \<or> deadline \<le> rd_now ob"

lemma connect_loop_stops:
  "list_ex (\<lambda>ob. cn_cancelled ob \<noteq> None \<or> deadline \<le> cn_now ob) obs \<Longrightarrow> connect_loop timeout deadline obs \<noteq> None"
  by (induction timeout deadline obs rule: connect_loop.induct) (auto split: option.splits poll_result.splits)

lemma send_all_stops:
  "list_ex (\<lambda>ob. sn_cancelled ob \<noteq> None \<or> deadline \<le> sn_now ob) obs \<Longrightarrow> send_all deadline t obs \<noteq> None"
  by (induction deadline t obs rule: send_all.induct) (auto split: option.splits send_result.splits)

lemma readSome_stops:
  "list_ex (read_stops deadline) obs \<Longrightarrow> (case readSome deadline buffer obs of
      None \<Rightarrow> False
    | Some (ReadData _, rest) \<Rightarrow> list_ex (read_stops deadline) rest
    | Some (ReadEof, rest) \<Rightarrow> list_ex (read_stops deadline) rest
    | Some _ \<Rightarrow> True)"
  by (induction deadline buffer obs rule: readSome.induct)
    (auto simp: read_stops_def split: option.splits recv_result.splits if_splits, blast+)

lemma response_head_stops: "list_ex (read_stops deadline) obs \<Longrightarrow> response_head deadline raw obs \<noteq> None"
proof (induction deadline raw obs rule: response_head.induct)
  case (1 deadline raw obs)
  with readSome_stops [OF 1(2), of raw] show ?case
    by (subst response_head.simps) (auto split: option.splits prod.splits read_outcome.splits)
qed

lemma response_body_stops:
  "\<not> chunked \<Longrightarrow> list_ex (read_stops deadline) obs \<Longrightarrow> response_body limit deadline chunked n eof buffer obs \<noteq> None"
proof (induction limit deadline chunked n eof buffer obs rule: response_body.induct)
  case (1 limit deadline chunked n eof buffer obs)
  then have some: "body_ready chunked n buffer \<noteq> None" by (auto simp: body_ready_def split: option.splits)
  note stops = readSome_stops [OF 1(4), of buffer]
  show ?case
  proof (cases "body_ready chunked n buffer = Some (Inr None) \<and> \<not> eof \<and> \<not> limit < length buffer")
    case True
    then show ?thesis
      using stops 1(1,2,3)
      by (subst response_body.simps) (auto split: option.splits prod.splits read_outcome.splits)
  next
    case False
    with some show ?thesis
      by (subst response_body.simps) (auto split: option.splits sum.splits)
  qed
qed

text \<open>
  The client does not outstay its deadline: each of its loops, connecting, sending, reading the
  head and reading a body that is not chunked, has returned once it finds the time to be up or the
  request cancelled, whatever the socket did before.
\<close>

theorem client_loops_return:
  assumes "list_ex (\<lambda>ob. cn_cancelled ob \<noteq> None \<or> deadline \<le> cn_now ob) connects"
    and "list_ex (\<lambda>ob. sn_cancelled ob \<noteq> None \<or> deadline \<le> sn_now ob) sends"
    and "list_ex (\<lambda>ob. rd_cancelled ob \<noteq> None \<or> deadline \<le> rd_now ob) reads"
  shows "connect_loop timeout deadline connects \<noteq> None \<and> send_all deadline wire sends \<noteq> None
    \<and> response_head deadline raw reads \<noteq> None \<and> response_body limit deadline False n eof buffer reads \<noteq> None"
proof -
  have r: "list_ex (read_stops deadline) reads" using assms(3) by (simp add: read_stops_def list_ex_iff)
  show ?thesis
    using connect_loop_stops [OF assms(1)] send_all_stops [OF assms(2)] response_head_stops [OF r]
      response_body_stops [of False deadline reads limit n eof buffer] r by blast
qed

theorem client_loops_return_witness:
  "connect_loop 5 10 [\<lparr>cn_cancelled = None, cn_now = 3, cn_poll = PollIdle\<rparr>, \<lparr>cn_cancelled = None, cn_now = 10, cn_poll = PollIdle\<rparr>] \<noteq> None
   \<and> response_head 10 [] [\<lparr>rd_cancelled = None, rd_now = 4, rd_result = RecvInterrupted\<rparr>,
        \<lparr>rd_cancelled = Some ''stop'', rd_now = 5, rd_result = PeerClosed\<rparr>] \<noteq> None"
  using client_loops_return [of 10 "[\<lparr>cn_cancelled = None, cn_now = 3, cn_poll = PollIdle\<rparr>, \<lparr>cn_cancelled = None, cn_now = 10, cn_poll = PollIdle\<rparr>]"
      "[\<lparr>sn_cancelled = None, sn_now = 10, sn_result = SendBlocked\<rparr>]"
      "[\<lparr>rd_cancelled = None, rd_now = 4, rd_result = RecvInterrupted\<rparr>, \<lparr>rd_cancelled = Some ''stop'', rd_now = 5, rd_result = PeerClosed\<rparr>]"
      5 "[]" "[]" 0 None False "[]"] by simp

end
