(* ===== verification/Wire_Facts.thy ===== *)
theory Wire_Facts
  imports Client_Facts Http_Connection
begin

text \<open>
  The client and the server of the program together: the request the one writes is the request the
  other reads, and the answer the server writes is the response the client reads, however the bytes
  are cut on their way.
\<close>

section \<open>The request\<close>

lemma split_skip_Nil [simp]: "split_loop d True [] = []"
  by (simp add: split_loop_None)

lemma split_skip_word: "d \<notin> set w \<Longrightarrow> w \<noteq> [] \<Longrightarrow> split_loop d True (w @ d # t) = w # split_loop d True t"
  by (simp add: split_loop_Some [of _ _ "length w"] find_char_append)

lemma split_skip_last: "d \<notin> set w \<Longrightarrow> w \<noteq> [] \<Longrightarrow> split_loop d True w = [w]"
  by (simp add: split_loop_None find_char_None_iff)

text \<open>A word of the request line: not empty, no blank and no end of line in it.\<close>

definition plain_word :: "string \<Rightarrow> bool" where
  "plain_word w \<longleftrightarrow> w \<noteq> [] \<and> CHR '' '' \<notin> set w \<and> plain_line w"

lemma parse_request_line_word:
  assumes "plain_word meth" "plain_word (requestTarget u)" "url_wf u"
  shows "parse_request_line (meth @ '' '' @ requestTarget u @ '' HTTP/1.1'') = Some (toUpper meth, urlDecode (u_path u), u_query u)"
proof -
  have "split_loop CHR '' '' True ''HTTP/1.1'' = [''HTTP/1.1'']" by (rule split_skip_last) simp_all
  with assms have "split (meth @ '' '' @ requestTarget u @ '' HTTP/1.1'') CHR '' '' True = [meth, requestTarget u, ''HTTP/1.1'']"
    using split_skip_word [of "CHR '' ''" meth "requestTarget u @ '' HTTP/1.1''"]
      split_skip_word [of "CHR '' ''" "requestTarget u" "''HTTP/1.1''"]
    by (simp add: split_def plain_word_def)
  then show ?thesis by (simp add: parse_request_line_def requestTarget_cases(1) [OF assms(3)])
qed

lemma take_append_left: "take (length x) (x @ y) = x"
  by simp

lemma drop_after_head: "drop (length x + 4) (x @ crlf @ crlf @ t) = t"
  by (simp add: crlf_def)

text \<open>A head whose lines are plain is found, cut off and split into those lines.\<close>

lemma find_head:
  assumes "list_all plain_line (l # ls)" "list_all (\<lambda>l. l \<noteq> []) (l # ls)"
  shows "\<exists>i. find_sub (crlf @ crlf) (lines_text (l # ls) @ crlf @ t) = Some i
    \<and> splitLines (take i (lines_text (l # ls) @ crlf @ t)) = l # ls
    \<and> drop (i + 4) (lines_text (l # ls) @ crlf @ t) = t"
proof -
  obtain ks k where ks: "l # ls = ks @ [k]" by (cases "l # ls" rule: rev_cases) auto
  have eq: "lines_text (l # ls) @ crlf @ t = (lines_text ks @ k) @ crlf @ crlf @ t" by (simp add: ks lines_text_def)
  have len: "length (lines_text (l # ls)) - 2 = length (lines_text ks @ k)" by (simp add: ks lines_text_def crlf_def)
  have find: "find_sub (crlf @ crlf) (lines_text (l # ls) @ crlf @ t) = Some (length (lines_text ks @ k))"
    using prefix_not_in_head [OF assms(1) _ assms(2), of t] unfolding len by blast
  have lines: "splitLines (lines_text ks @ k) = l # ls"
    using assms splitLines_head [of ks k] unfolding ks by simp
  have head: "take (length (lines_text ks @ k)) (lines_text (l # ls) @ crlf @ t) = lines_text ks @ k"
    unfolding eq by (rule take_append_left)
  have rest: "drop (length (lines_text ks @ k) + 4) (lines_text (l # ls) @ crlf @ t) = t"
    unfolding eq by (rule drop_after_head)
  show ?thesis
    by (rule exI [of _ "length (lines_text ks @ k)"]) (simp only: find head lines rest simp_thms)
qed

lemma header_lines_nonempty: "list_all (\<lambda>l. l \<noteq> []) (map (\<lambda>item. fst item @ '': '' @ snd item) hs)"
  by (induction hs) auto

text \<open>The length the request declares is the length of its body, or it has none to read.\<close>

lemma content_length_request:
  assumes "length (rq_body request) < 2 ^ 63"
  shows "take (unat (content_length (request_headers opts u request))) (rq_body request) = rq_body request"
proof (cases "rq_body request = []")
  case False
  have "headers_get ''Content-Length'' (request_headers opts u request) = Some (show_nat (length (rq_body request)))"
    using False by (simp add: request_headers_def Let_def headers_get_set)
  moreover have "parseInt (show_nat (length (rq_body request))) = Some (of_nat (length (rq_body request)))"
  proof -
    have s: "sint (of_nat (length (rq_body request)) :: i64) = int (length (rq_body request))"
      using assms by (simp add: signed_of_nat signed_take_bit_int_eq_self)
    from parseInt_show_int [of "of_nat (length (rq_body request))"] show ?thesis unfolding s by (simp add: show_int_def)
  qed
  moreover have "unat (of_nat (length (rq_body request)) :: i64) = length (rq_body request)"
    using assms unat_of_nat_small by simp
  moreover have "0 \<le> sint (of_nat (length (rq_body request)) :: i64)"
    using assms by (simp add: signed_of_nat signed_take_bit_int_eq_self)
  ultimately show ?thesis by (simp add: content_length_def)
qed simp

text \<open>
  C12. The server reads the request the client wrote: the method in upper case, the decoded path, the
  query, all headers in their order and the body, in whatever pieces the text arrives. The
  conditions: the URL is of the form \<open>parseUrl\<close> gives, the method is not empty, and neither it nor
  the request target holds a blank or a line break; no header's name or value holds a line break or
  begins or ends with white space, no name holds a colon; no \<open>Transfer-Encoding\<close> other than
  \<open>identity\<close> is declared; and the request, with the length it declares, fits the limit of the
  server (and a body fits 63 bits).
\<close>

theorem request_reaches_server:
  assumes "url_wf u" "plain_word (rq_method request)" "plain_word (requestTarget u)"
    and "list_all header_ok (request_headers opts u request)"
    and "\<not> unsupported_encoding (request_headers opts u request)"
    and "concat chunks = request_wire opts u request"
    and "length (request_wire opts u request) \<le> unat (sc_maxRequestBytes cfg)"
    and "sint (content_length (request_headers opts u request)) \<le> sint (sc_maxRequestBytes cfg)"
    and "length (rq_body request) < 2 ^ 63"
  shows "receive_request cfg addr chunks = Request
    \<lparr>sr_method = toUpper (rq_method request), sr_path = urlDecode (u_path u), sr_query = u_query u,
     sr_headers = request_headers opts u request, sr_body = rq_body request, sr_clientAddress = addr, sr_pathParameters = []\<rparr>"
proof -
  let ?hs = "request_headers opts u request"
  let ?line = "rq_method request @ '' '' @ requestTarget u @ '' HTTP/1.1''"
  let ?ls = "map (\<lambda>item. fst item @ '': '' @ snd item) ?hs"
  have wire: "request_wire opts u request = lines_text (?line # ?ls) @ crlf @ rq_body request"
    by (simp add: request_wire_def header_block_lines) (simp add: lines_text_def)
  have plain: "list_all plain_line (?line # ?ls)"
    using header_lines_plain [OF assms(4)] assms(2,3) by (auto simp: plain_word_def plain_line_def)
  have "list_all (\<lambda>l. l \<noteq> []) (?line # ?ls)" using header_lines_nonempty by simp
  from find_head [OF plain this, of "rq_body request"] obtain i where
    i: "find_sub (crlf @ crlf) (request_wire opts u request) = Some i"
    "splitLines (take i (request_wire opts u request)) = ?line # ?ls"
    "drop (i + 4) (request_wire opts u request) = rq_body request"
    unfolding wire by blast
  have head: "parse_request_head addr (take i (request_wire opts u request)) = Some
    \<lparr>sr_method = toUpper (rq_method request), sr_path = urlDecode (u_path u), sr_query = u_query u,
     sr_headers = ?hs, sr_body = [], sr_clientAddress = addr, sr_pathParameters = []\<rparr>"
    using parse_request_line_word [OF assms(2,3,1)] read_header_block [OF assms(4), of "[]"]
    by (simp add: parse_request_head_def i(2) del: append_assoc)
  show ?thesis
    using assms(5,7,8) content_length_request [OF assms(9)]
    by (simp add: receive_request_whole assms(6) i head not_less)
qed

definition example_url :: url where
  "example_url = \<lparr>u_scheme = ''http'', u_host = ''h'', u_port = 80, u_path = ''/a'', u_query = ''b=1'', u_fragment = []\<rparr>"

definition example_request :: http_request where
  "example_request = default_request\<lparr>rq_method := ''POST'', rq_body := ''xyz''\<rparr>"

lemma example_request_headers: "request_headers (small_options []) example_url example_request =
    [(''Host'', ''h''), (''User-Agent'', ''TestForge/0.9''), (''Accept'', ''*/*''), (''Connection'', ''close''), (''Content-Length'', ''3'')]"
proof -
  have "show_nat (Suc (Suc (Suc 0))) = ''3''" by (subst show_nat.simps) (simp add: digit_char_def char_of_eq_iff)
  moreover have "authority example_url = ''h''" by code_simp
  ultimately show ?thesis
    by (simp add: request_headers_def example_request_def default_request_def small_options_def headers_set_def headers_remove_def
        headers_contains_def equalsIgnoreCase_toLower toLower_def byte_simps)
qed

theorem request_reaches_server_witness:
  "receive_request default_server_config ''::1'' [request_wire (small_options []) example_url example_request] = Request
    \<lparr>sr_method = ''POST'', sr_path = ''/a'', sr_query = ''b=1'', sr_headers = request_headers (small_options []) example_url example_request,
     sr_body = ''xyz'', sr_clientAddress = ''::1'', sr_pathParameters = []\<rparr>"
proof -
  have wf: "url_wf example_url" "plain_word (requestTarget example_url)" "toUpper ''POST'' = ''POST''" "urlDecode ''/a'' = ''/a''"
    by code_simp+
  have h: "list_all header_ok (request_headers (small_options []) example_url example_request)"
    "\<not> unsupported_encoding (request_headers (small_options []) example_url example_request)"
    "content_length (request_headers (small_options []) example_url example_request) = 3"
    unfolding example_request_headers by code_simp+
  have "length (request_wire (small_options []) example_url example_request) \<le> unat (sc_maxRequestBytes default_server_config)"
    unfolding request_wire_def example_request_headers
    by (simp add: header_block_def header_line_text_def crlf_def requestTarget_def
        example_url_def example_request_def default_request_def default_server_config_def Let_def)
  from request_reaches_server [OF wf(1) _ wf(2) h(1,2) _ this, of "[request_wire (small_options []) example_url example_request]" "''::1''"] h(3) wf
  show ?thesis
    by (simp add: example_request_def default_request_def default_server_config_def plain_word_def plain_line_def)
      (simp add: example_url_def)
qed

section \<open>The response\<close>

definition ready :: "int \<Rightarrow> read_obs \<Rightarrow> string \<Rightarrow> bool" where
  "ready deadline ob chunk \<longleftrightarrow> rd_cancelled ob = None \<and> rd_now ob < deadline \<and> rd_result ob = Received chunk"

lemma readSome_ready: "ready deadline ob c \<Longrightarrow> readSome deadline buffer (ob # obs) = Some (ReadData (buffer @ c), obs)"
  by (simp add: ready_def)

lemma find_sub_prefix_None: "find_sub n (t @ u) = Some i \<Longrightarrow> find_sub n t = None \<Longrightarrow> length t < i + length n"
proof (rule ccontr)
  assume f: "find_sub n (t @ u) = Some i" and none: "find_sub n t = None" and "\<not> length t < i + length n"
  then have le: "i + length n \<le> length t" by simp
  from find_sub_Some [OF f] have "t @ u = take i (t @ u) @ n @ drop (i + length n) (t @ u)" by blast
  then have "take (i + length n) (t @ u) = take i (t @ u) @ n"
    by (metis append_assoc append_eq_conv_conj find_sub_Some_bound [OF f] length_append length_take min_absorb2 add_leD1)
  with le have "take (i + length n) t = take i t @ n" by simp
  then have "t = take i t @ n @ drop (i + length n) t" by (metis append_assoc append_take_drop_id)
  then have "sublist n t" by (metis sublist_appendI)
  with none show False by (simp add: find_sub_None_iff)
qed

lemma response_head_ready:
  "list_all2 (ready deadline) obs chunks \<Longrightarrow> find_sub (crlf @ crlf) raw = None \<Longrightarrow>
    find_sub (crlf @ crlf) (raw @ concat chunks) = Some i \<Longrightarrow> i + 4 \<le> kMaxHeaderBytes \<Longrightarrow>
    \<exists>r obs' chunks'. response_head deadline raw (obs @ further) = Some (Inr (i, r, obs' @ further)) \<and>
      list_all2 (ready deadline) obs' chunks' \<and> r @ concat chunks' = raw @ concat chunks \<and> i + 4 \<le> length r"
proof (induction obs chunks arbitrary: raw rule: list_all2_induct)
  case (Cons ob obs c chunks)
  show ?case
  proof (cases "find_sub (crlf @ crlf) (raw @ c)")
    case None
    have "length (raw @ c) < i + length (crlf @ crlf)"
      using find_sub_prefix_None [OF _ None, of "concat chunks" i] Cons.prems(2) by simp
    then have "\<not> kMaxHeaderBytes < length (raw @ c)" using Cons.prems(3) by (simp add: crlf_def)
    with None Cons.IH [OF None] Cons.prems readSome_ready [OF Cons.hyps(1)] show ?thesis
      by (subst response_head.simps) simp
  next
    case (Some j)
    from find_sub_append [OF this, of "concat chunks"] Cons.prems have j: "j = i" by simp
    from find_sub_Some_bound [OF Some] have "i + 4 \<le> length (raw @ c)" by (simp add: crlf_def j)
    with Some Cons.hyps readSome_ready [OF Cons.hyps(1)] show ?thesis
      by (subst response_head.simps) (auto simp: j intro!: exI [of _ obs] exI [of _ chunks])
  qed
qed simp

lemma response_body_ready:
  "list_all2 (ready deadline) obs chunks \<Longrightarrow> n \<le> length (buffer @ concat chunks) \<Longrightarrow> n \<le> limit \<Longrightarrow>
    response_body limit deadline False (Some n) False buffer (obs @ further) = Some (Inr (take n (buffer @ concat chunks), False))"
proof (induction obs chunks arbitrary: buffer rule: list_all2_induct)
  case Nil
  then show ?case by (subst response_body.simps) (simp add: body_ready_def)
next
  case (Cons ob obs c chunks)
  show ?case
  proof (cases "n \<le> length buffer")
    case True
    then show ?thesis by (subst response_body.simps) (simp add: body_ready_def)
  next
    case False
    with Cons readSome_ready [OF Cons.hyps(1)] show ?thesis
      by (subst response_body.simps) (simp add: body_ready_def)
  qed
qed

lemma phrase_plain: "plain_line (reasonPhrase code) \<and> trim (reasonPhrase code) = reasonPhrase code"
proof -
  have l: "list_all (\<lambda>p. plain_line p \<and> trim p = p)
      (map snd status_phrases @ [''Success'', ''Client Error'', ''Server Error'', ''Unknown''])" by code_simp
  have "reasonPhrase code \<in> set (map snd status_phrases @ [''Success'', ''Client Error'', ''Server Error'', ''Unknown''])"
    by (force simp: reasonPhrase_def split: option.splits dest: map_of_SomeD)
  with l show ?thesis unfolding list_all_iff by blast
qed

lemma parse_status_text:
  assumes "in_int32 code"
  shows "parse_status_line (''HTTP/1.1 '' @ show_int code @ '' '' @ reasonPhrase code) = Inr (code, reasonPhrase code)"
proof -
  have ns: "CHR '' '' \<notin> set (show_int code)"
    using show_int_chars [of "CHR '' ''" code] by (auto simp: byte_simps)
  have c: "sint (word_of_int code :: i64) = code"
    using assms by (simp add: in_int32_def signed_of_int signed_take_bit_int_eq_self)
  from parseInt_show_int [of "word_of_int code :: i64"] have "parseInt (show_int code) = Some (word_of_int code)" by (simp add: c)
  moreover have "cut_at CHR '' '' (show_int code @ '' '' @ reasonPhrase code) = (show_int code, Some (reasonPhrase code))"
    using cut_at_append [OF ns] by simp
  moreover have "find_char CHR '' '' (''HTTP/1.1 '' @ show_int code @ '' '' @ reasonPhrase code) = Some 8" by simp
  ultimately show ?thesis using assms phrase_plain [of code] by (simp add: parse_status_line_def)
qed

lemma response_headers_length: "headers_get ''Content-Length'' (response_headers r) = Some (show_nat (length (sp_body r)))"
  by (simp add: response_headers_def Let_def headers_get_set equalsIgnoreCase_toLower toLower_def byte_simps)

text \<open>
  C13. The client reads the answer the server wrote: status, phrase, all headers in their order and
  the body, in whatever pieces the text arrives before the deadline, with no transport error. The
  conditions: the answer is one with a body (neither the client's request nor the one the server
  answers is a \<open>HEAD\<close>, and the status, an \<open>int\<close>, is not 204 or 304) and is not declared as chunked;
  no header's name or value holds a line break or begins or ends with white space, no name holds a
  colon; and head and body fit the limits of the client (and the body 63 bits).
\<close>

theorem response_reaches_client:
  assumes "list_all header_ok (response_headers r)" "\<not> is_chunked (response_headers r)"
    and "in_int32 (sp_status r)" "\<not> bodyless (rq_method request) (sp_status r)" "meth \<noteq> ''HEAD''"
    and "length (sp_body r) \<le> co_maxResponseBytes opts" "length (sp_body r) < 2 ^ 63"
    and "length (response_text meth r) \<le> length (sp_body r) + kMaxHeaderBytes"
    and "list_all2 (ready deadline) reads chunks" "concat chunks = response_text meth r"
  shows "read_response opts deadline request response (reads @ further) = Some (None,
    response\<lparr>rs_status := sp_status r, rs_statusText := reasonPhrase (sp_status r), rs_headers := response_headers r,
      rs_body := sp_body r\<rparr>)"
proof -
  let ?hs = "response_headers r"
  let ?line = "''HTTP/1.1 '' @ show_int (sp_status r) @ '' '' @ reasonPhrase (sp_status r)"
  let ?ls = "map (\<lambda>item. fst item @ '': '' @ snd item) ?hs"
  have text_eq: "response_text meth r = lines_text (?line # ?ls) @ crlf @ sp_body r"
    using assms(5) by (simp add: response_text_def header_block_lines) (simp add: lines_text_def)
  have "plain_line (show_int (sp_status r))"
    using show_int_chars [of _ "sp_status r"] by (fastforce simp: plain_line_def byte_simps)
  then have plain: "list_all plain_line (?line # ?ls)"
    using header_lines_plain [OF assms(1)] phrase_plain [of "sp_status r"] by (auto simp: plain_line_def)
  have "list_all (\<lambda>l. l \<noteq> []) (?line # ?ls)" using header_lines_nonempty by simp
  from find_head [OF plain this, of "sp_body r"] obtain i where
    i: "find_sub (crlf @ crlf) (response_text meth r) = Some i" "splitLines (take i (response_text meth r)) = ?line # ?ls"
    "drop (i + 4) (response_text meth r) = sp_body r"
    unfolding text_eq by blast
  have "i + 4 \<le> length (response_text meth r)" using find_sub_Some_bound [OF i(1)] by (simp add: crlf_def)
  then have "length (response_text meth r) = i + 4 + length (sp_body r)" using arg_cong [OF i(3), of length] by simp
  with assms(8) have "i + 4 \<le> kMaxHeaderBytes" by simp
  from response_head_ready [OF assms(9) _ _ this, of "[]" further] i(1) obtain raw obs' chunks' where
    head: "response_head deadline [] (reads @ further) = Some (Inr (i, raw, obs' @ further))"
    and rest: "list_all2 (ready deadline) obs' chunks'" "raw @ concat chunks' = response_text meth r" "i + 4 \<le> length raw"
    by (auto simp: assms(10) crlf_def)
  from rest(2,3) have "take i (response_text meth r) = take i raw"
    by (metis add_leD1 append_eq_conv_conj le_add_diff_inverse take_add take_append_left take_take min.absorb1)
  then have parsed: "parse_response_head (take i raw) = Inr (sp_status r, reasonPhrase (sp_status r), ?hs)"
    using i(2) parse_status_text [OF assms(3)] read_header_block [OF assms(1), of "[]"] by (simp add: parse_response_head_def)
  have buffer: "drop (i + 4) raw @ concat chunks' = sp_body r"
    using i(3) rest(2,3) by (metis drop_append diff_is_0_eq' drop_0)
  have n: "declared_length ?hs = Some (length (sp_body r))"
  proof -
    have s: "sint (of_nat (length (sp_body r)) :: i64) = int (length (sp_body r))"
      using assms(7) by (simp add: signed_of_nat signed_take_bit_int_eq_self)
    from parseInt_show_int [of "of_nat (length (sp_body r))"] s
    have "parseInt (show_nat (length (sp_body r))) = Some (of_nat (length (sp_body r)))" by (simp add: show_int_def)
    with s assms(7) show ?thesis by (simp add: declared_length_def response_headers_length unat_of_nat_small)
  qed
  show ?thesis
    using response_body_ready [OF rest(1), of "length (sp_body r)" "drop (i + 4) raw" "co_maxResponseBytes opts" further]
      assms(2,4,6) by (simp add: read_response_def head parsed n buffer Let_def)
qed

lemma example_response_headers: "response_headers (server_text 200 ''ok'') =
    [(''Content-Type'', ''text/plain; charset=utf-8''), (''Content-Length'', ''2''), (''Connection'', ''close''),
     (''Access-Control-Allow-Origin'', ''*''), (''X-Content-Type-Options'', ''nosniff'')]"
proof -
  have "show_nat (Suc (Suc 0)) = ''2''" by (subst show_nat.simps) (simp add: digit_char_def char_of_eq_iff)
  then show ?thesis
    by (simp add: response_headers_def server_text_def with_type_def headers_set_def headers_remove_def
        headers_contains_def equalsIgnoreCase_toLower toLower_def byte_simps Let_def)
qed

theorem response_reaches_client_witness:
  "read_response (small_options []) 10 example_request default_response
     [\<lparr>rd_cancelled = None, rd_now = 1, rd_result = Received (response_text ''GET'' (server_text 200 ''ok''))\<rparr>] = Some (None,
    default_response\<lparr>rs_status := 200, rs_statusText := ''OK'', rs_headers := response_headers (server_text 200 ''ok''), rs_body := ''ok''\<rparr>)"
proof -
  let ?r = "server_text 200 ''ok''"
  have h: "list_all header_ok (response_headers ?r)" "\<not> is_chunked (response_headers ?r)"
    unfolding example_response_headers by code_simp+
  have s: "sp_status ?r = 200" "sp_body ?r = ''ok''" by (simp_all add: server_text_def with_type_def)
  have "length (show_int 200) = 3" by (simp add: show_int_def show_nat.simps)
  then have "length (response_text ''GET'' ?r) \<le> length (sp_body ?r) + kMaxHeaderBytes"
    unfolding response_text_def example_response_headers
    by (simp add: s header_block_def header_line_text_def crlf_def kMaxHeaderBytes_def reasonPhrase_def status_phrases_def)
  from response_reaches_client [OF h _ _ _ _ _ this, of example_request "small_options []" 10
      "[\<lparr>rd_cancelled = None, rd_now = 1, rd_result = Received (response_text ''GET'' ?r)\<rparr>]" "[response_text ''GET'' ?r]"
      default_response "[]"]
  show ?thesis
    by (simp add: s in_int32_def bodyless_def example_request_def default_request_def small_options_def ready_def)
      (simp add: reasonPhrase_def status_phrases_def)
qed

end
