(* ===== verification/Test_Spec.thy ===== *)
theory Test_Spec
  imports Test_Result Json_Text
begin

text \<open>
  Test specifications (\<open>src/ai/TestSpec.cpp\<close>): the data a suite of generated tests consists of, its
  JSON form and its reading from untrusted text.

  A reader returns the error text or the value; \<open>None\<close> is the undefined conversion of a double that
  no 64-bit integer can hold, which \<open>asInt\<close> performs on a number of the document.
\<close>

section \<open>Data\<close>

datatype assertion_kind =
    StatusCode | StatusCodeIn | ResponseTimeUnder | BodyContains | BodyNotContains
  | JsonFieldExists | JsonFieldEquals | HeaderExists | HeaderEquals

record spec_assertion =
  sa_kind :: assertion_kind
  sa_target :: string
  sa_expected :: json

record test_spec =
  ts_name :: string
  ts_description :: string
  ts_method :: string
  ts_endpoint :: string
  ts_headers :: "(string \<times> json) list"
  ts_body :: json
  ts_expectedStatus :: int
  ts_acceptableStatuses :: "int list"
  ts_maxResponseTimeMs :: i64
  ts_assertions :: "spec_assertion list"
  ts_tags :: "string list"

record test_suite =
  su_suite :: string
  su_requirement :: string
  su_source :: string
  su_model :: string
  su_tests :: "test_spec list"

section \<open>Assertions\<close>

definition kind_names :: "(assertion_kind \<times> string) list" where
  "kind_names = [(StatusCode, ''status_code''), (StatusCodeIn, ''status_code_in''), (ResponseTimeUnder, ''response_time_under_ms''),
     (BodyContains, ''body_contains''), (BodyNotContains, ''body_not_contains''), (JsonFieldExists, ''json_field_exists''),
     (JsonFieldEquals, ''json_field_equals''), (HeaderExists, ''header_exists''), (HeaderEquals, ''header_equals'')]"

definition kindName :: "assertion_kind \<Rightarrow> string" where
  "kindName k = (case alist_find k kind_names of Some name \<Rightarrow> name | None \<Rightarrow> ''unknown'')"

fun kind_lookup :: "string \<Rightarrow> (assertion_kind \<times> string) list \<Rightarrow> assertion_kind option" where
  "kind_lookup normalised [] = None"
| "kind_lookup normalised ((k, name) # ks) = (if normalised = name then Some k else kind_lookup normalised ks)"

definition kindFromString :: "string \<Rightarrow> assertion_kind option" where
  "kindFromString t = kind_lookup (toLower (trim t)) kind_names"

definition quoted :: "string \<Rightarrow> string" where
  "quoted t = CHR 0x27 # t @ [CHR 0x27]"

definition assertion_describe :: "spec_assertion \<Rightarrow> string" where
  "assertion_describe a = (let expected = json_dump (sa_expected a) in case sa_kind a of
       StatusCode \<Rightarrow> ''status == '' @ expected
     | StatusCodeIn \<Rightarrow> ''status in '' @ expected
     | ResponseTimeUnder \<Rightarrow> ''response time < '' @ expected @ ''ms''
     | BodyContains \<Rightarrow> ''body contains '' @ expected
     | BodyNotContains \<Rightarrow> ''body does not contain '' @ expected
     | JsonFieldExists \<Rightarrow> ''json has field '' @ quoted (sa_target a)
     | JsonFieldEquals \<Rightarrow> ''json.'' @ sa_target a @ '' == '' @ expected
     | HeaderExists \<Rightarrow> ''header '' @ quoted (sa_target a) @ '' present''
     | HeaderEquals \<Rightarrow> ''header '' @ quoted (sa_target a) @ '' == '' @ expected)"

definition assertion_json :: "spec_assertion \<Rightarrow> json" where
  "assertion_json a = obj_of ([(''kind'', JString (kindName (sa_kind a)))]
     @ (if sa_target a \<noteq> [] then [(''target'', JString (sa_target a))] else []) @ [(''expected'', sa_expected a)])"

definition needsTarget :: "assertion_kind \<Rightarrow> bool" where
  "needsTarget k \<longleftrightarrow> k = JsonFieldExists \<or> k = JsonFieldEquals \<or> k = HeaderExists \<or> k = HeaderEquals"

definition assertion_of_json :: "json \<Rightarrow> string + spec_assertion" where
  "assertion_of_json v =
     (if \<not> isObject v then Inl ''assertion must be an object''
      else (case kindFromString (readString v ''kind'') of
          None \<Rightarrow> Inl (''unknown assertion kind '' @ quoted (readString v ''kind'') @ ''; supported kinds are ''
                    @ join (map snd kind_names) '', '')
        | Some k \<Rightarrow>
            (let target = readString v ''target'';
                 expected = (case json_find v ''expected'' of Some e \<Rightarrow> e | None \<Rightarrow> JNull)
             in if needsTarget k \<and> target = []
                then Inl (''assertion '' @ quoted (kindName k) @ '' requires a non-empty '' @ quoted ''target'')
                else Inr \<lparr>sa_kind = k, sa_target = target, sa_expected = expected\<rparr>)))"

section \<open>Tests\<close>

definition spec_json :: "test_spec \<Rightarrow> json" where
  "spec_json t = obj_of
     ([(''name'', JString (ts_name t)), (''description'', JString (ts_description t)), (''method'', JString (ts_method t)),
       (''endpoint'', JString (ts_endpoint t))]
      @ (if ts_headers t \<noteq> [] then [(''headers'', obj_of (ts_headers t))] else [])
      @ (if \<not> isNull (ts_body t) then [(''body'', ts_body t)] else [])
      @ [(''expected_status'', JInt (word_of_int (ts_expectedStatus t)))]
      @ (if ts_acceptableStatuses t \<noteq> []
         then [(''acceptable_statuses'', JArray (map (\<lambda>s. JInt (word_of_int s)) (ts_acceptableStatuses t)))] else [])
      @ (if 0 < sint (ts_maxResponseTimeMs t) then [(''max_response_time_ms'', JInt (ts_maxResponseTimeMs t))] else [])
      @ (if ts_assertions t \<noteq> [] then [(''assertions'', JArray (map assertion_json (ts_assertions t)))] else [])
      @ (if ts_tags t \<noteq> [] then [(''tags'', strings_json (ts_tags t))] else []))"

text \<open>\<open>static_cast<int>(value.asInt())\<close>, of a value known to be a number.\<close>

definition number_int32 :: "json \<Rightarrow> int option" where
  "number_int32 v = (case asInt v of Inr i \<Rightarrow> Some (to_int32 i) | Inl _ \<Rightarrow> None)"

definition read_status :: "json \<Rightarrow> int option" where
  "read_status v =
     (case json_find v ''expected_status'' of
        Some s \<Rightarrow>
          if isNumber s then number_int32 s
          else (case json_find v ''expectedStatus'' of
              Some a \<Rightarrow> if isNumber a then number_int32 a else Some 200 | None \<Rightarrow> Some 200)
      | None \<Rightarrow>
          (case json_find v ''expectedStatus'' of
              Some a \<Rightarrow> if isNumber a then number_int32 a else Some 200 | None \<Rightarrow> Some 200))"

fun read_statuses :: "json list \<Rightarrow> int list option" where
  "read_statuses [] = Some []"
| "read_statuses (v # vs) =
     (if isNumber v then
        (case (number_int32 v, read_statuses vs) of (Some s, Some ss) \<Rightarrow> Some (s # ss) | _ \<Rightarrow> None)
      else read_statuses vs)"

fun read_assertions :: "json list \<Rightarrow> string + spec_assertion list" where
  "read_assertions [] = Inr []"
| "read_assertions (v # vs) =
     (case assertion_of_json v of Inl e \<Rightarrow> Inl e | Inr a \<Rightarrow> map_sum id ((#) a) (read_assertions vs))"

definition readStringOr :: "json \<Rightarrow> string \<Rightarrow> string \<Rightarrow> string" where
  "readStringOr v key fallback = (case json_find v key of Some (JString s) \<Rightarrow> s | _ \<Rightarrow> fallback)"

definition array_member :: "json \<Rightarrow> string \<Rightarrow> json list" where
  "array_member v key = (case json_find v key of Some (JArray xs) \<Rightarrow> xs | _ \<Rightarrow> [])"

definition spec_endpoint :: "json \<Rightarrow> string" where
  "spec_endpoint v =
     (let endpoint = trim (readString v ''endpoint'')
      in if endpoint = [] then trim (readString v ''path'') else endpoint)"

definition spec_of_json :: "json \<Rightarrow> (string + test_spec) option" where
  "spec_of_json v =
     (if \<not> isObject v then Some (Inl ''test must be an object'')
      else (let name = trim (readString v ''name'') in
        if name = [] then Some (Inl (''test is missing a '' @ quoted ''name''))
        else if spec_endpoint v = [] then Some (Inl (''test '' @ quoted name @ '' is missing an '' @ quoted ''endpoint''))
        else (case (read_status v, read_statuses (array_member v ''acceptable_statuses''), read_int v ''max_response_time_ms'' 0) of
            (Some status, Some statuses, Some budget) \<Rightarrow>
              Some (case read_assertions (array_member v ''assertions'') of
                  Inl e \<Rightarrow> Inl (''test '' @ quoted name @ '': '' @ e)
                | Inr assertions \<Rightarrow> Inr
                    \<lparr>ts_name = name, ts_description = readString v ''description'',
                     ts_method = toUpper (trim (readStringOr v ''method'' ''GET'')), ts_endpoint = spec_endpoint v,
                     ts_headers = (case json_find v ''headers'' of Some (JObject ms) \<Rightarrow> ms | _ \<Rightarrow> []),
                     ts_body = (case json_find v ''body'' of Some b \<Rightarrow> b | None \<Rightarrow> JNull),
                     ts_expectedStatus = status, ts_acceptableStatuses = statuses, ts_maxResponseTimeMs = budget,
                     ts_assertions = assertions, ts_tags = strings_of_json (json_find v ''tags'')\<rparr>)
          | _ \<Rightarrow> None)))"

section \<open>Suites\<close>

definition suite_json :: "test_suite \<Rightarrow> json" where
  "suite_json s = obj_of
     ([(''suite'', JString (su_suite s)), (''requirement'', JString (su_requirement s)), (''source'', JString (su_source s))]
      @ (if su_model s \<noteq> [] then [(''model'', JString (su_model s))] else [])
      @ [(''tests'', JArray (map spec_json (su_tests s))), (''test_count'', JInt (of_nat (length (su_tests s))))])"

fun read_tests :: "json list \<Rightarrow> (string + test_spec list) option" where
  "read_tests [] = Some (Inr [])"
| "read_tests (v # vs) =
     (case spec_of_json v of
        None \<Rightarrow> None
      | Some (Inl e) \<Rightarrow> Some (Inl e)
      | Some (Inr t) \<Rightarrow> map_option (map_sum id ((#) t)) (read_tests vs))"

definition suite_of_json :: "json \<Rightarrow> (string + test_suite) option" where
  "suite_of_json v =
     (if \<not> isObject v then Some (Inl ''the specification document must be a JSON object'')
      else (let suite = trim (readString v ''suite'') in
        if suite = [] then Some (Inl (''the specification is missing a '' @ quoted ''suite'' @ '' name''))
        else (case json_find v ''tests'' of
            Some (JArray items) \<Rightarrow>
              if items = [] then Some (Inl ''the specification contains no tests'')
              else map_option (map_sum id (\<lambda>tests. \<lparr>su_suite = suite, su_requirement = readString v ''requirement'',
                     su_source = readString v ''source'', su_model = readString v ''model'', su_tests = tests\<rparr>)) (read_tests items)
          | _ \<Rightarrow> Some (Inl (''the specification is missing a '' @ quoted ''tests'' @ '' array'')))))"

definition suite_limits :: parse_limits where
  "suite_limits = \<lparr>maxDepth = 24, maxLength = 2 * 1024 * 1024\<rparr>"

definition suite_parse :: "string \<Rightarrow> (string + test_suite) option" where
  "suite_parse t =
     (case tryParse suite_limits t of
        Inl e \<Rightarrow> Some (Inl (''the specification is not valid JSON: '' @ e))
      | Inr document \<Rightarrow> suite_of_json document)"

section \<open>Reading back\<close>

lemma kind_roundtrip: "kindFromString (kindName k) = Some k"
  by (cases k) (simp_all, code_simp+)

definition assertion_ok :: "spec_assertion \<Rightarrow> bool" where
  "assertion_ok a \<longleftrightarrow> (needsTarget (sa_kind a) \<longrightarrow> sa_target a \<noteq> [])"

lemma assertion_roundtrip: "assertion_ok a \<Longrightarrow> assertion_of_json (assertion_json a) = Inr a"
  by (auto simp: assertion_of_json_def assertion_json_def json_find_obj_of readString_def kind_roundtrip assertion_ok_def Let_def)

lemma assertions_roundtrip: "list_all assertion_ok xs \<Longrightarrow> read_assertions (map assertion_json xs) = Inr xs"
  by (induction xs) (simp_all add: assertion_roundtrip)

text \<open>What a test that was read looks like: trimmed and not empty where that is checked.\<close>

definition spec_ok :: "test_spec \<Rightarrow> bool" where
  "spec_ok t \<longleftrightarrow> ts_name t \<noteq> [] \<and> trim (ts_name t) = ts_name t \<and> ts_endpoint t \<noteq> [] \<and> trim (ts_endpoint t) = ts_endpoint t
     \<and> toUpper (trim (ts_method t)) = ts_method t \<and> distinct (map fst (ts_headers t))
     \<and> in_int32 (ts_expectedStatus t) \<and> list_all in_int32 (ts_acceptableStatuses t) \<and> 0 \<le> sint (ts_maxResponseTimeMs t)
     \<and> list_all assertion_ok (ts_assertions t)"

lemma statuses_roundtrip: "list_all in_int32 ss \<Longrightarrow> read_statuses (map (\<lambda>s. JInt (word_of_int s)) ss) = Some ss"
  by (induction ss) (simp_all add: isNumber_def number_int32_def)

lemma isNull_iff [simp]: "isNull v \<longleftrightarrow> v = JNull"
  by (cases v) auto

lemma spec_find:
  "json_find (spec_json t) ''name'' = Some (JString (ts_name t))"
  "json_find (spec_json t) ''description'' = Some (JString (ts_description t))"
  "json_find (spec_json t) ''method'' = Some (JString (ts_method t))"
  "json_find (spec_json t) ''endpoint'' = Some (JString (ts_endpoint t))"
  "json_find (spec_json t) ''headers'' = (if ts_headers t \<noteq> [] then Some (obj_of (ts_headers t)) else None)"
  "json_find (spec_json t) ''body'' = (if ts_body t \<noteq> JNull then Some (ts_body t) else None)"
  "json_find (spec_json t) ''expected_status'' = Some (JInt (word_of_int (ts_expectedStatus t)))"
  "json_find (spec_json t) ''acceptable_statuses'' =
     (if ts_acceptableStatuses t \<noteq> [] then Some (JArray (map (\<lambda>s. JInt (word_of_int s)) (ts_acceptableStatuses t))) else None)"
  "json_find (spec_json t) ''max_response_time_ms'' =
     (if 0 < sint (ts_maxResponseTimeMs t) then Some (JInt (ts_maxResponseTimeMs t)) else None)"
  "json_find (spec_json t) ''assertions'' = (if ts_assertions t \<noteq> [] then Some (JArray (map assertion_json (ts_assertions t))) else None)"
  "json_find (spec_json t) ''tags'' = (if ts_tags t \<noteq> [] then Some (strings_json (ts_tags t)) else None)"
  by (simp_all add: spec_json_def json_find_obj_of)

lemma spec_roundtrip:
  assumes "spec_ok t"
  shows "spec_of_json (spec_json t) = Some (Inr t)"
proof -
  have obj: "isObject (spec_json t)" by (simp add: spec_json_def)
  have status: "read_status (spec_json t) = Some (ts_expectedStatus t)"
    using assms by (simp add: read_status_def spec_find isNumber_def number_int32_def spec_ok_def)
  have statuses: "read_statuses (array_member (spec_json t) ''acceptable_statuses'') = Some (ts_acceptableStatuses t)"
    using assms statuses_roundtrip by (simp add: array_member_def spec_find spec_ok_def)
  have budget: "read_int (spec_json t) ''max_response_time_ms'' 0 = Some (ts_maxResponseTimeMs t)"
  proof (cases "0 < sint (ts_maxResponseTimeMs t)")
    case False
    with assms have "sint (ts_maxResponseTimeMs t) = 0" by (simp add: spec_ok_def)
    then have "word_of_int (sint (ts_maxResponseTimeMs t)) = (0 :: i64)" by simp
    then have "ts_maxResponseTimeMs t = 0" by simp
    then show ?thesis by (simp add: read_int_def spec_find)
  qed (simp add: read_int_def spec_find isNumber_def)
  have assertions: "read_assertions (array_member (spec_json t) ''assertions'') = Inr (ts_assertions t)"
    using assms assertions_roundtrip by (simp add: array_member_def spec_find spec_ok_def)
  have headers: "(case json_find (spec_json t) ''headers'' of Some (JObject ms) \<Rightarrow> ms | _ \<Rightarrow> []) = ts_headers t"
    using assms by (simp add: spec_find obj_of_distinct spec_ok_def)
  have tags: "strings_of_json (json_find (spec_json t) ''tags'') = ts_tags t"
    by (simp add: spec_find) (simp add: strings_of_json_def)
  have endpoint: "spec_endpoint (spec_json t) = ts_endpoint t"
    using assms by (simp add: spec_endpoint_def readString_def spec_find spec_ok_def)
  show ?thesis
    unfolding spec_of_json_def endpoint status statuses budget assertions headers tags
    using assms by (simp add: obj readString_def readStringOr_def spec_find spec_ok_def)
qed

lemma tests_roundtrip: "list_all spec_ok ts \<Longrightarrow> read_tests (map spec_json ts) = Some (Inr ts)"
  by (induction ts) (simp_all add: spec_roundtrip)

text \<open>
  A suite of tests is read back from its JSON form exactly: every test with its method, endpoint,
  headers, body, statuses, budget, assertions and tags. The names are trimmed and not empty,
  the method is in upper case, and no header is given twice.
\<close>

theorem suite_json_roundtrip:
  assumes "su_suite s \<noteq> []" "trim (su_suite s) = su_suite s" "su_tests s \<noteq> []" "list_all spec_ok (su_tests s)"
  shows "suite_of_json (suite_json s) = Some (Inr s)"
proof -
  have find: "json_find (suite_json s) ''suite'' = Some (JString (su_suite s))"
    "json_find (suite_json s) ''requirement'' = Some (JString (su_requirement s))"
    "json_find (suite_json s) ''source'' = Some (JString (su_source s))"
    "json_find (suite_json s) ''model'' = (if su_model s \<noteq> [] then Some (JString (su_model s)) else None)"
    "json_find (suite_json s) ''tests'' = Some (JArray (map spec_json (su_tests s)))"
    by (simp_all add: suite_json_def json_find_obj_of)
  have "isObject (suite_json s)" by (simp add: suite_json_def)
  with assms tests_roundtrip [OF assms(4)] show ?thesis
    by (simp add: suite_of_json_def readString_def find)
qed

definition sample_spec :: test_spec where
  "sample_spec = \<lparr>ts_name = ''list'', ts_description = [], ts_method = ''GET'', ts_endpoint = ''/users'', ts_headers = [], ts_body = JNull,
     ts_expectedStatus = 200, ts_acceptableStatuses = [], ts_maxResponseTimeMs = 0,
     ts_assertions = [\<lparr>sa_kind = HeaderExists, sa_target = ''ETag'', sa_expected = JNull\<rparr>], ts_tags = [''smoke'']\<rparr>"

definition sample_suite :: test_suite where
  "sample_suite = \<lparr>su_suite = ''users'', su_requirement = [], su_source = ''mock'', su_model = [], su_tests = [sample_spec]\<rparr>"

theorem suite_json_roundtrip_witness: "suite_of_json (suite_json sample_suite) = Some (Inr sample_suite)"
proof (rule suite_json_roundtrip)
  have t: "trim ''users'' = ''users''" "trim ''list'' = ''list''" "trim ''/users'' = ''/users''" "toUpper (trim ''GET'') = ''GET''"
    by code_simp+
  show "su_suite sample_suite \<noteq> []" "trim (su_suite sample_suite) = su_suite sample_suite" "su_tests sample_suite \<noteq> []"
    "list_all spec_ok (su_tests sample_suite)"
    by (simp_all add: sample_suite_def sample_spec_def spec_ok_def t in_int32_def assertion_ok_def)
qed

end
