(* ===== verification/Spec_Validator.thy ===== *)
theory Spec_Validator
  imports Test_Spec Url Configuration
begin

text \<open>
  The gate between generated tests and their execution (\<open>src/ai/SpecValidator.cpp\<close>): what makes a
  name, an endpoint and a whole test acceptable, and the validation of a suite, which drops every
  test with a fatal issue.

  A check returns the reason it fails, if it does. \<open>validateOne\<close> is undefined (\<open>None\<close>) where the
  source converts a double that no 64-bit integer can hold.
\<close>

record validation_issue =
  vi_where :: string
  vi_message :: string
  vi_fatal :: bool

record validation_report =
  vr_valid :: bool
  vr_accepted :: int
  vr_rejected :: int
  vr_issues :: "validation_issue list"

definition issue_json :: "validation_issue \<Rightarrow> json" where
  "issue_json i = obj_of [(''where'', JString (vi_where i)), (''message'', JString (vi_message i)), (''fatal'', JBool (vi_fatal i))]"

definition report_summary :: "validation_report \<Rightarrow> string" where
  "report_summary r =
     show_int (vr_accepted r) @ '' test(s) accepted, '' @ show_int (vr_rejected r) @ '' rejected''
     @ (if vr_issues r \<noteq> [] then '', '' @ show_nat (length (vr_issues r)) @ '' issue(s) recorded'' else [])"

definition report_json :: "validation_report \<Rightarrow> json" where
  "report_json r = obj_of [(''valid'', JBool (vr_valid r)), (''accepted'', JInt (word_of_int (vr_accepted r))),
     (''rejected'', JInt (word_of_int (vr_rejected r))), (''summary'', JString (report_summary r)),
     (''issues'', JArray (map issue_json (vr_issues r)))]"

section \<open>Names and endpoints\<close>

definition control_char :: "char \<Rightarrow> bool" where
  "control_char c \<longleftrightarrow> byte c < 32 \<or> byte c = 127"

definition hasControlCharacter :: "string \<Rightarrow> bool" where
  "hasControlCharacter t = list_ex control_char t"

definition allowedMethods :: "string list" where
  "allowedMethods = [''GET'', ''POST'', ''PUT'', ''PATCH'', ''DELETE'', ''HEAD'', ''OPTIONS'']"

definition forbiddenHeaders :: "string list" where
  "forbiddenHeaders = [''authorization'', ''cookie'', ''set-cookie'', ''proxy-authorization'', ''host'', ''x-forwarded-for'',
     ''x-forwarded-host'', ''x-real-ip'', ''content-length'', ''transfer-encoding'', ''connection'', ''upgrade'']"

definition name_char :: "char \<Rightarrow> bool" where
  "name_char c \<longleftrightarrow> is_alnum c \<or> c = CHR ''_'' \<or> c = CHR ''-'' \<or> c = CHR ''.''"

definition unsafe_name :: "string \<Rightarrow> string option" where
  "unsafe_name name =
     (if name = [] then Some ''name is empty''
      else if 80 < length name then Some (''name exceeds '' @ show_nat 80 @ '' characters'')
      else (case find (\<lambda>c. \<not> name_char c) name of
          Some c \<Rightarrow> Some (''name contains an unsupported character '' @ quoted [c] @ '' (allowed: letters, digits, ''
                     @ quoted ''_'' @ '', '' @ quoted ''-'' @ '', '' @ quoted ''.'' @ '')'')
        | None \<Rightarrow>
            if hd name = CHR ''.'' \<or> contains name ''..''
            then Some (''name must not start with '' @ quoted ''.'' @ '' or contain '' @ quoted ''..'') else None))"

definition url_schemes :: "string list" where
  "url_schemes = [''http:'', ''https:'', ''file:'', ''ftp:'', ''gopher:'', ''data:'', ''javascript:'']"

definition dash :: string where
  "dash = [CHR 0xE2, CHR 0x80, CHR 0x94]"

definition unsafe_endpoint :: "string \<Rightarrow> string option" where
  "unsafe_endpoint endpoint =
     (if endpoint = [] then Some ''endpoint is empty''
      else if 512 < length endpoint then Some (''endpoint exceeds '' @ show_nat 512 @ '' characters'')
      else if hasControlCharacter endpoint then Some ''endpoint contains a control character''
      else if hd endpoint \<noteq> CHR ''/'' then Some (''endpoint must be a path beginning with '' @ quoted ''/'' @ '' '' @ dash
        @ '' absolute URLs are not allowed, so a generated test cannot choose its own target host'')
      else if startsWith endpoint ''//'' then Some (''endpoint must not start with '' @ quoted ''//'' @ '' (that is a protocol-relative URL)'')
      else if contains endpoint ''..'' then Some (''endpoint must not contain '' @ quoted ''..'')
      else if list_ex (contains (toLower endpoint)) url_schemes then Some ''endpoint must not contain a URL scheme''
      else if contains endpoint ''@'' then Some (''endpoint must not contain '' @ quoted ''@'')
      else None)"

section \<open>One test\<close>

record ai_validator =
  va_config :: ai_config
  va_policy :: url_policy
  va_baseUrl :: string

definition fatal_issue :: "string \<Rightarrow> string \<Rightarrow> validation_issue" where
  "fatal_issue where message = \<lparr>vi_where = where, vi_message = message, vi_fatal = True\<rparr>"

definition endpoint_issues :: "ai_validator \<Rightarrow> string \<Rightarrow> string \<Rightarrow> validation_issue list" where
  "endpoint_issues v where endpoint =
     (case unsafe_endpoint endpoint of
        Some reason \<Rightarrow> [fatal_issue where reason]
      | None \<Rightarrow>
          (case joinUrl (va_baseUrl v) endpoint of
             None \<Rightarrow> [fatal_issue where (''endpoint could not be resolved against the configured base URL '' @ quoted (va_baseUrl v))]
           | Some resolved \<Rightarrow>
               let rejection = reject_raw (va_policy v) resolved
               in if rejection \<noteq> [] then [fatal_issue where (''resolved URL is not permitted: '' @ rejection)] else []))"

definition status_out_of_range :: "int \<Rightarrow> bool" where
  "status_out_of_range s \<longleftrightarrow> s < 100 \<or> 599 < s"

definition header_issues :: "string \<Rightarrow> string \<times> json \<Rightarrow> validation_issue list" where
  "header_issues where header =
     (if toLower (fst header) \<in> set forbiddenHeaders then [fatal_issue where (''header '' @ quoted (fst header)
        @ '' may not be set by a generated test; credentials and routing headers come from configuration'')] else [])
     @ (if hasControlCharacter (fst header) then [fatal_issue where ''header name contains a control character''] else [])
     @ (case snd header of
          JString t \<Rightarrow>
            (if hasControlCharacter t
             then [fatal_issue where (''value of header '' @ quoted (fst header) @ '' contains a control character'')] else [])
            @ (if 1024 < length t then [fatal_issue where (''value of header '' @ quoted (fst header) @ '' is too long'')] else [])
        | _ \<Rightarrow> [])"

definition assertion_issues :: "string \<Rightarrow> spec_assertion \<Rightarrow> validation_issue list option" where
  "assertion_issues where a =
     (let front = (if hasControlCharacter (sa_target a) then [fatal_issue where ''assertion target contains a control character''] else [])
        @ (if 200 < length (sa_target a) then [fatal_issue where ''assertion target is too long''] else []);
          back = (if sa_kind a = StatusCodeIn \<and> \<not> isArray (sa_expected a)
                  then [fatal_issue where ''status_code_in requires an array of status codes''] else [])
      in if sa_kind a = ResponseTimeUnder then
           (if \<not> isNumber (sa_expected a)
            then Some (front @ [fatal_issue where ''response_time_under_ms requires a positive number''] @ back)
            else (case intOr (sa_expected a) 0 of
                None \<Rightarrow> None
              | Some n \<Rightarrow> Some (front @ (if sint n \<le> 0 then [fatal_issue where ''response_time_under_ms requires a positive number''] else [])
                           @ back)))
         else Some (front @ back))"

fun assertions_issues :: "string \<Rightarrow> nat \<Rightarrow> spec_assertion list \<Rightarrow> validation_issue list option" where
  "assertions_issues pre i [] = Some []"
| "assertions_issues pre i (a # as) =
     (case (assertion_issues (pre @ ''.assertions['' @ show_nat i @ '']'') a, assertions_issues pre (i + 1) as) of
        (Some xs, Some ys) \<Rightarrow> Some (xs @ ys) | _ \<Rightarrow> None)"

definition body_issues :: "string \<Rightarrow> test_spec \<Rightarrow> validation_issue list" where
  "body_issues where t =
     (if isNull (ts_body t) then []
      else (if 64 * 1024 < length (json_dump (ts_body t))
            then [fatal_issue where (''request body exceeds '' @ show_nat (64 * 1024) @ '' bytes'')] else [])
        @ (if ts_method t = ''GET'' \<or> ts_method t = ''HEAD''
           then [\<lparr>vi_where = where, vi_message = ''a '' @ ts_method t @ '' request should not carry a body'', vi_fatal = False\<rparr>] else []))"

definition validateOne :: "ai_validator \<Rightarrow> test_spec \<Rightarrow> nat \<Rightarrow> validation_issue list option" where
  "validateOne v t index =
     (let pre = ''tests['' @ show_nat index @ '']''
      in map_option (\<lambda>asserted.
          (case unsafe_name (ts_name t) of Some reason \<Rightarrow> [fatal_issue (pre @ ''.name'') reason] | None \<Rightarrow> [])
          @ (if ts_method t \<notin> set allowedMethods then [fatal_issue (pre @ ''.method'') (''method '' @ quoted (ts_method t)
               @ '' is not allowed (allowed: '' @ join allowedMethods '', '' @ '')'')] else [])
          @ endpoint_issues v (pre @ ''.endpoint'') (ts_endpoint t)
          @ (if status_out_of_range (ts_expectedStatus t) then [fatal_issue (pre @ ''.expected_status'')
               (''expected status '' @ show_int (ts_expectedStatus t) @ '' is outside 100-599'')] else [])
          @ map (\<lambda>s. fatal_issue (pre @ ''.acceptable_statuses'') (''status '' @ show_int s @ '' is outside 100-599''))
              (filter status_out_of_range (ts_acceptableStatuses t))
          @ (if sint (ts_maxResponseTimeMs t) < 0 \<or> 600000 < sint (ts_maxResponseTimeMs t)
             then [fatal_issue (pre @ ''.max_response_time_ms'') ''latency budget must be between 0 and 600000 ms''] else [])
          @ (if 16 < length (ts_headers t) then [fatal_issue (pre @ ''.headers'') (''more than '' @ show_nat 16 @ '' headers'')] else [])
          @ concat (map (header_issues (pre @ ''.headers'')) (ts_headers t))
          @ body_issues (pre @ ''.body'') t
          @ (if 20 < length (ts_assertions t) then [fatal_issue (pre @ ''.assertions'') (''more than '' @ show_nat 20 @ '' assertions'')] else [])
          @ asserted) (assertions_issues pre 0 (ts_assertions t)))"

section \<open>A suite\<close>

definition is_fatal :: "validation_issue list \<Rightarrow> bool" where
  "is_fatal issues = list_ex vi_fatal issues"

text \<open>The loop over the tests: the tests left, their index, the names seen, what was accepted, and the report.\<close>

fun validate_loop ::
  "ai_validator \<Rightarrow> test_spec list \<Rightarrow> nat \<Rightarrow> string set \<Rightarrow> test_spec list \<Rightarrow> validation_report \<Rightarrow> (test_spec list \<times> validation_report) option" where
  "validate_loop v [] i seen accepted report = Some (accepted, report)"
| "validate_loop v (t # ts) i seen accepted report =
     (case validateOne v t i of
        None \<Rightarrow> None
      | Some issues \<Rightarrow>
          (let lowered = toLower (ts_name t);
               issues = (if lowered \<in> seen then issues @ [fatal_issue (''tests['' @ show_nat i @ ''].name'')
                  (''duplicate test name '' @ quoted (ts_name t) @ '' within the suite'')] else issues);
               report = report\<lparr>vr_issues := vr_issues report @ issues\<rparr>
           in if is_fatal issues
              then validate_loop v ts (i + 1) (insert lowered seen) accepted (report\<lparr>vr_rejected := vr_rejected report + 1\<rparr>)
              else validate_loop v ts (i + 1) (insert lowered seen) (accepted @ [t]) (report\<lparr>vr_accepted := vr_accepted report + 1\<rparr>)))"

definition validate :: "ai_validator \<Rightarrow> test_suite \<Rightarrow> (test_suite \<times> validation_report) option" where
  "validate v s =
     (case unsafe_name (su_suite s) of
        Some reason \<Rightarrow> Some (s\<lparr>su_tests := []\<rparr>,
          \<lparr>vr_valid = False, vr_accepted = 0, vr_rejected = int (length (su_tests s)),
           vr_issues = [fatal_issue ''suite'' (''suite name is not usable: '' @ reason)]\<rparr>)
      | None \<Rightarrow>
          (let maxTests = nat (max 1 (ai_maxGeneratedTests (va_config v))); count = length (su_tests s);
               report = \<lparr>vr_valid = False, vr_accepted = 0,
                 vr_rejected = (if maxTests < count then int (count - maxTests) else 0),
                 vr_issues = (if maxTests < count then [\<lparr>vi_where = ''tests'', vi_message = ''the specification contains ''
                   @ show_nat count @ '' tests; keeping the first '' @ show_nat maxTests @ '' (ai.max_generated_tests)'',
                   vi_fatal = False\<rparr>] else [])\<rparr>
           in map_option (\<lambda>(accepted, report).
                let report = report\<lparr>vr_valid := (accepted \<noteq> [])\<rparr>
                in (s\<lparr>su_tests := accepted\<rparr>,
                    if \<not> vr_valid report \<and> vr_issues report = []
                    then report\<lparr>vr_issues := [fatal_issue ''tests'' ''the specification produced no usable tests'']\<rparr> else report))
              (validate_loop v (take maxTests (su_tests s)) 0 {} [] report)))"

end
