(* ===== verification/Validator_Facts.thy ===== *)
theory Validator_Facts
  imports Spec_Validator Url_Facts
begin

text \<open>
  What the validator promises of the tests it lets through, and what it reports of the others.
\<close>

section \<open>The target\<close>

lemma strip_slashes_prefix: "prefix (strip_slashes p) p"
proof (induction p rule: strip_slashes.induct)
  case (1 p)
  show ?case
  proof (cases "p \<noteq> [] \<and> last p = CHR ''/''")
    case True
    then have "prefix (butlast p) p" by (simp add: prefix_def) (metis append_butlast_last_id)
    with 1 True show ?thesis by (subst strip_slashes.simps) (auto intro: prefix_order.trans)
  qed (subst strip_slashes.simps, auto)
qed

lemma requestTarget_Cons: "u_path u = c # p \<Longrightarrow> \<exists>t. requestTarget u = c # t"
  by (simp add: requestTarget_def Let_def)

lemma unsafe_endpoint_None:
  assumes "unsafe_endpoint e = None"
  shows "e \<noteq> []" "length e \<le> 512" "\<not> hasControlCharacter e" "hd e = CHR ''/''" "\<not> startsWith e ''//''"
    "\<not> contains e ''..''" "CHR ''@'' \<notin> set e"
proof -
  from assms show "e \<noteq> []" "length e \<le> 512" "\<not> hasControlCharacter e" "hd e = CHR ''/''" "\<not> startsWith e ''//''"
    "\<not> contains e ''..''"
    by (auto simp: unsafe_endpoint_def split: if_splits)
  from assms have "\<not> contains e ''@''" by (auto simp: unsafe_endpoint_def split: if_splits)
  then show "CHR ''@'' \<notin> set e" by (auto simp: contains_sublist sublist_def in_set_conv_decomp)
qed

text \<open>
  A test cannot choose its own target. Whatever endpoint passes the check, the URL it resolves to
  parses back to the scheme, the host and the port of the configured base URL (a base with a host
  name or an IPv4 address).
\<close>

theorem endpoint_keeps_target:
  assumes "unsafe_endpoint e = None" "joinUrl base e = Some resolved" "parseUrl base = Some b" "url_base_ok b"
  shows "\<exists>u. parseUrl resolved = Some u \<and> u_scheme u = u_scheme b \<and> u_host u = u_host b \<and> u_port u = u_port b"
proof -
  note e = unsafe_endpoint_None [OF assms(1)]
  from e(1,4) obtain e' where e': "e = CHR ''/'' # e'" by (cases e) auto
  obtain suff query where cut: "cut_at CHR ''?'' e = (suff, query)" by fastforce
  from cut_at_parts [OF cut] obtain suff' where suff: "suff = CHR ''/'' # suff'"
    by (cases suff) (auto simp: e' split: option.splits)
  let ?j = "b\<lparr>u_path := strip_slashes (u_path b) @ suff, u_query := case_option [] id query, u_fragment := []\<rparr>"
  have r: "resolved = url_string ?j"
    using assms(2,3) e cut by (simp add: joinUrl_def e' startsWith_prefix Let_def)
  have "hd (u_path b) = CHR ''/''" using parseUrl_parts [OF assms(3)] by (simp add: url_wf_def)
  then have "hd (u_path ?j) = CHR ''/'' \<and> u_path ?j \<noteq> []"
    using strip_slashes_prefix [of "u_path b"] by (cases "strip_slashes (u_path b)") (auto simp: suff prefix_def)
  then obtain more where "u_path ?j = CHR ''/'' # more" by (cases "u_path ?j") auto
  then obtain t where "requestTarget ?j = CHR ''/'' # t" using requestTarget_Cons by blast
  moreover have "authority ?j = authority b" by (simp add: authority_def)
  ultimately have "resolved = u_scheme b @ ''://'' @ authority b @ ''/'' @ t" by (simp add: r url_string_def)
  with parseUrl_base [OF assms(4), of t] show ?thesis by simp
qed

theorem endpoint_keeps_target_witness:
  "\<exists>u. parseUrl ''http://h/api/users'' = Some u \<and> u_host u = ''h'' \<and> u_port u = 80"
proof -
  have p: "parseUrl ''http://h/api'' = Some \<lparr>u_scheme = ''http'', u_host = ''h'', u_port = 80, u_path = ''/api'', u_query = [], u_fragment = []\<rparr>"
    and e: "unsafe_endpoint ''/users'' = None" by code_simp+
  have b: "url_base_ok \<lparr>u_scheme = ''http'', u_host = ''h'', u_port = 80, u_path = ''/api'', u_query = [], u_fragment = []\<rparr>"
    by (simp add: url_base_ok_def toLower_def byte_simps)
  have "joinUrl ''http://h/api'' ''/users'' = Some ''http://h/api/users''" by code_simp
  from endpoint_keeps_target [OF e this p b] show ?thesis by auto
qed

section \<open>One test\<close>

definition header_safe :: "string \<times> json \<Rightarrow> bool" where
  "header_safe h \<longleftrightarrow> toLower (fst h) \<notin> set forbiddenHeaders \<and> \<not> hasControlCharacter (fst h)
     \<and> (case snd h of JString t \<Rightarrow> \<not> hasControlCharacter t \<and> length t \<le> 1024 | _ \<Rightarrow> True)"

definition assertion_safe :: "spec_assertion \<Rightarrow> bool" where
  "assertion_safe a \<longleftrightarrow> \<not> hasControlCharacter (sa_target a) \<and> length (sa_target a) \<le> 200
     \<and> (sa_kind a = ResponseTimeUnder \<longrightarrow> isNumber (sa_expected a) \<and> (\<exists>n. intOr (sa_expected a) 0 = Some n \<and> 0 < sint n))
     \<and> (sa_kind a = StatusCodeIn \<longrightarrow> isArray (sa_expected a))"

text \<open>The rules of the validator: all that makes it drop a test, but for a name that is taken.\<close>

definition spec_safe :: "ai_validator \<Rightarrow> test_spec \<Rightarrow> bool" where
  "spec_safe v t \<longleftrightarrow> unsafe_name (ts_name t) = None \<and> ts_method t \<in> set allowedMethods \<and> unsafe_endpoint (ts_endpoint t) = None
     \<and> (\<exists>r. joinUrl (va_baseUrl v) (ts_endpoint t) = Some r \<and> reject_raw (va_policy v) r = [])
     \<and> \<not> status_out_of_range (ts_expectedStatus t) \<and> list_all (\<lambda>s. \<not> status_out_of_range s) (ts_acceptableStatuses t)
     \<and> 0 \<le> sint (ts_maxResponseTimeMs t) \<and> sint (ts_maxResponseTimeMs t) \<le> 600000
     \<and> length (ts_headers t) \<le> 16 \<and> list_all header_safe (ts_headers t)
     \<and> (isNull (ts_body t) \<or> length (json_dump (ts_body t)) \<le> 64 * 1024)
     \<and> length (ts_assertions t) \<le> 20 \<and> list_all assertion_safe (ts_assertions t)"

lemma is_fatal_simps [simp]:
  "\<not> is_fatal []" "is_fatal (xs @ ys) \<longleftrightarrow> is_fatal xs \<or> is_fatal ys" "is_fatal (fatal_issue w m # xs)"
  by (simp_all add: is_fatal_def fatal_issue_def)

lemma is_fatal_concat: "is_fatal (concat xss) \<longleftrightarrow> list_ex is_fatal xss"
  by (induction xss) simp_all

lemma is_fatal_map: "is_fatal (map (\<lambda>s. fatal_issue w (f s)) xs) \<longleftrightarrow> xs \<noteq> []"
  by (cases xs) simp_all

lemma endpoint_issues_safe:
  "is_fatal (endpoint_issues v w e) \<longleftrightarrow>
    \<not> (unsafe_endpoint e = None \<and> (\<exists>r. joinUrl (va_baseUrl v) e = Some r \<and> reject_raw (va_policy v) r = []))"
  by (auto simp: endpoint_issues_def Let_def split: option.splits if_splits)

lemma header_issues_safe: "is_fatal (header_issues w h) \<longleftrightarrow> \<not> header_safe h"
  by (auto simp: header_issues_def header_safe_def not_less split: json.splits if_splits)

lemma body_issues_safe: "is_fatal (body_issues w t) \<longleftrightarrow> \<not> (isNull (ts_body t) \<or> length (json_dump (ts_body t)) \<le> 64 * 1024)"
  by (auto simp: body_issues_def is_fatal_def fatal_issue_def not_less split: if_splits)

lemma assertion_issues_safe:
  "assertion_issues w a = Some issues \<Longrightarrow> is_fatal issues \<longleftrightarrow> \<not> assertion_safe a"
  by (auto simp: assertion_issues_def assertion_safe_def Let_def not_less not_le split: if_splits option.splits)

lemma assertions_issues_safe:
  "assertions_issues pre i as = Some issues \<Longrightarrow> is_fatal issues \<longleftrightarrow> \<not> list_all assertion_safe as"
  by (induction pre i as arbitrary: issues rule: assertions_issues.induct)
    (auto split: option.splits dest: assertion_issues_safe)

lemma filter_empty_iff: "filter P xs = [] \<longleftrightarrow> list_all (\<lambda>x. \<not> P x) xs"
  by (induction xs) auto

lemma is_fatal_option: "is_fatal (case x of None \<Rightarrow> [] | Some reason \<Rightarrow> [fatal_issue w (f reason)]) \<longleftrightarrow> x \<noteq> None"
  by (simp split: option.split)

lemma is_fatal_if: "is_fatal (if b then [fatal_issue w m] else []) \<longleftrightarrow> b"
  by simp

lemma validateOne_safe:
  assumes "validateOne v t i = Some issues"
  shows "is_fatal issues \<longleftrightarrow> \<not> spec_safe v t"
proof -
  obtain asserted where asserted: "assertions_issues (''tests['' @ show_nat i @ '']'') 0 (ts_assertions t) = Some asserted"
    using assms(1) by (auto simp: validateOne_def Let_def)
  note issues = assms(1) [unfolded validateOne_def Let_def asserted option.map option.inject, symmetric]
  have name: "is_fatal (case unsafe_name (ts_name t) of Some reason \<Rightarrow> [fatal_issue w reason] | None \<Rightarrow> []) \<longleftrightarrow> unsafe_name (ts_name t) \<noteq> None" for w
    by (simp split: option.split)
  have headers: "list_ex is_fatal (map (header_issues w) hs) \<longleftrightarrow> \<not> list_all header_safe hs" for w hs
    by (auto simp: list_ex_iff list_all_iff header_issues_safe)
  show ?thesis
    unfolding issues spec_safe_def
    by (simp only: is_fatal_simps(2) name is_fatal_if is_fatal_map is_fatal_concat endpoint_issues_safe headers body_issues_safe
        assertions_issues_safe [OF asserted] filter_empty_iff de_Morgan_conj not_not) (simp only: not_le disj_assoc)
qed

section \<open>A suite\<close>

text \<open>The tests that are to be accepted: those that meet the rules and whose name none before them has.\<close>

fun passing :: "ai_validator \<Rightarrow> string set \<Rightarrow> test_spec list \<Rightarrow> test_spec list" where
  "passing v seen [] = []"
| "passing v seen (t # ts) =
     (if spec_safe v t \<and> toLower (ts_name t) \<notin> seen then [t] else []) @ passing v (insert (toLower (ts_name t)) seen) ts"

lemma validate_loop_facts:
  "validate_loop v ts i seen accepted report = Some (accepted', report') \<Longrightarrow>
    \<exists>new. new = passing v seen ts \<and> accepted' = accepted @ new \<and> subseq new ts \<and> list_all (spec_safe v) new
      \<and> distinct (map (\<lambda>t. toLower (ts_name t)) new) \<and> set (map (\<lambda>t. toLower (ts_name t)) new) \<inter> seen = {}
      \<and> vr_accepted report' = vr_accepted report + int (length new)
      \<and> vr_rejected report' = vr_rejected report + int (length ts) - int (length new)"
proof (induction v ts i seen accepted report rule: validate_loop.induct)
  case (2 v t ts i seen accepted report)
  from 2(3) obtain issues where one: "validateOne v t i = Some issues" by (auto split: option.splits)
  define lowered where "lowered = toLower (ts_name t)"
  define issues' where "issues' = (if lowered \<in> seen then issues @ [fatal_issue (''tests['' @ show_nat i @ ''].name'')
    (''duplicate test name '' @ quoted (ts_name t) @ '' within the suite'')] else issues)"
  let ?r = "report\<lparr>vr_issues := vr_issues report @ issues'\<rparr>"
  note IH = 2(1,2) [OF one lowered_def issues'_def refl]
  have step: "validate_loop v (t # ts) i seen accepted report =
    (if is_fatal issues' then validate_loop v ts (i + 1) (insert lowered seen) accepted (?r\<lparr>vr_rejected := vr_rejected ?r + 1\<rparr>)
     else validate_loop v ts (i + 1) (insert lowered seen) (accepted @ [t]) (?r\<lparr>vr_accepted := vr_accepted ?r + 1\<rparr>))"
    by (simp add: one lowered_def issues'_def Let_def)
  show ?case
  proof (cases "is_fatal issues'")
    case True
    with validateOne_safe [OF one] have t: "\<not> (spec_safe v t \<and> lowered \<notin> seen)" by (auto simp: issues'_def split: if_splits)
    from IH(1) [OF True] 2(3) [unfolded step] True obtain new where
      "new = passing v (insert lowered seen) ts" "accepted' = accepted @ new" "subseq new ts" "list_all (spec_safe v) new" "distinct (map (\<lambda>t. toLower (ts_name t)) new)"
      "set (map (\<lambda>t. toLower (ts_name t)) new) \<inter> insert lowered seen = {}" "vr_accepted report' = vr_accepted report + int (length new)"
      "vr_rejected report' = vr_rejected report + 1 + int (length ts) - int (length new)" by auto
    then show ?thesis using t by (intro exI [of _ new]) (auto simp: lowered_def)
  next
    case False
    then have "lowered \<notin> seen" "\<not> is_fatal issues" by (auto simp: issues'_def split: if_splits)
    with validateOne_safe [OF one] have t: "spec_safe v t" "lowered \<notin> seen" by auto
    from IH(2) [OF False] 2(3) [unfolded step] False obtain new where
      "new = passing v (insert lowered seen) ts" "accepted' = accepted @ t # new" "subseq new ts" "list_all (spec_safe v) new" "distinct (map (\<lambda>t. toLower (ts_name t)) new)"
      "set (map (\<lambda>t. toLower (ts_name t)) new) \<inter> insert lowered seen = {}" "vr_accepted report' = vr_accepted report + 1 + int (length new)"
      "vr_rejected report' = vr_rejected report + int (length ts) - int (length new)" by auto
    with t show ?thesis by (intro exI [of _ "t # new"]) (auto simp: lowered_def)
  qed
qed auto

lemma validate_facts:
  assumes "validate v s = Some (s', report)"
  shows "list_all (spec_safe v) (su_tests s') \<and> subseq (su_tests s') (su_tests s)
    \<and> distinct (map (\<lambda>t. toLower (ts_name t)) (su_tests s')) \<and> int (length (su_tests s')) \<le> max 1 (ai_maxGeneratedTests (va_config v))
    \<and> vr_accepted report = int (length (su_tests s')) \<and> vr_accepted report + vr_rejected report = int (length (su_tests s))
    \<and> (vr_valid report \<longleftrightarrow> su_tests s' \<noteq> [])
    \<and> su_tests s' = (if unsafe_name (su_suite s) = None
        then passing v {} (take (nat (max 1 (ai_maxGeneratedTests (va_config v)))) (su_tests s)) else [])"
proof (cases "unsafe_name (su_suite s)")
  case (Some reason)
  with assms show ?thesis by (auto simp: validate_def)
next
  case None
  define n where "n = nat (max 1 (ai_maxGeneratedTests (va_config v)))"
  from assms None obtain accepted r0 r where
    loop: "validate_loop v (take n (su_tests s)) 0 {} [] r0 = Some (accepted, r)"
    and r0: "vr_accepted r0 = 0" "vr_rejected r0 = (if n < length (su_tests s) then int (length (su_tests s) - n) else 0)"
    and s': "su_tests s' = accepted"
    and report: "vr_accepted report = vr_accepted r" "vr_rejected report = vr_rejected r" "vr_valid report = (accepted \<noteq> [])"
    by (auto simp: validate_def n_def [symmetric] Let_def split: if_splits prod.splits)
  from validate_loop_facts [OF loop] obtain new where new: "new = passing v {} (take n (su_tests s))" "accepted = new" "subseq new (take n (su_tests s))"
    "list_all (spec_safe v) new" "distinct (map (\<lambda>t. toLower (ts_name t)) new)"
    "vr_accepted r = int (length new)" "vr_rejected r = vr_rejected r0 + int (length (take n (su_tests s))) - int (length new)"
    using r0 by auto
  have "subseq (take n (su_tests s)) (su_tests s)" by (simp add: prefix_imp_subseq take_is_prefix)
  with new have "subseq new (su_tests s)" by (meson subseq_order.order_trans)
  moreover have "length new \<le> n" using list_emb_length [OF new(3)] by simp
  then have "int (length new) \<le> max 1 (ai_maxGeneratedTests (va_config v))" by (simp add: n_def)
  ultimately show ?thesis using new r0 None by (auto simp: s' report min_def n_def [symmetric] split: if_splits)
qed

lemma validate_keeps: "validate v s = Some (s', report) \<Longrightarrow> su_suite s' = su_suite s \<and> su_source s' = su_source s"
  by (auto simp: validate_def Let_def split: option.splits prod.splits if_splits)

text \<open>
  C19. Of the tests of a suite with a usable name, no more than configured are looked at, and those
  accepted are exactly the ones that meet every rule of the validator and have a name that, whatever
  the case of its letters, no test before them has: so they keep their order and have different
  names. A suite with an unusable name loses all its tests. The report accounts for every test of
  the suite as accepted or rejected, and is valid exactly when a test is left.
\<close>

theorem validate_sound:
  assumes "validate v s = Some (s', report)"
  shows "list_all (spec_safe v) (su_tests s') \<and> subseq (su_tests s') (su_tests s)
    \<and> distinct (map (\<lambda>t. toLower (ts_name t)) (su_tests s')) \<and> int (length (su_tests s')) \<le> max 1 (ai_maxGeneratedTests (va_config v))
    \<and> vr_accepted report = int (length (su_tests s')) \<and> vr_accepted report + vr_rejected report = int (length (su_tests s))
    \<and> (vr_valid report \<longleftrightarrow> su_tests s' \<noteq> [])
    \<and> su_tests s' = (if unsafe_name (su_suite s) = None
        then passing v {} (take (nat (max 1 (ai_maxGeneratedTests (va_config v)))) (su_tests s)) else [])"
  by (rule validate_facts [OF assms])

definition sample_validator :: ai_validator where
  "sample_validator = \<lparr>va_config = default_ai_config, va_policy = default_policy, va_baseUrl = ''http://h''\<rparr>"

lemma sample_validateOne: "validateOne sample_validator sample_spec 0 = Some []"
proof -
  have e: "endpoint_issues sample_validator w ''/users'' = []" for w
  proof -
    have "unsafe_endpoint ''/users'' = None" "joinUrl ''http://h'' ''/users'' = Some ''http://h/users''"
      "reject_raw default_policy ''http://h/users'' = []" by code_simp+
    then show ?thesis by (simp add: endpoint_issues_def sample_validator_def)
  qed
  have "unsafe_name ''list'' = None" "\<not> hasControlCharacter ''ETag''" by code_simp+
  with e show ?thesis
    by (simp add: validateOne_def sample_spec_def Let_def assertion_issues_def body_issues_def status_out_of_range_def
        allowedMethods_def)
qed

theorem validate_sound_witness:
  "\<exists>s' report. validate sample_validator sample_suite = Some (s', report) \<and> su_tests s' \<noteq> []
     \<and> list_all (spec_safe sample_validator) (su_tests s')"
proof -
  have "unsafe_name ''users'' = None" by code_simp
  then obtain s' report where v: "validate sample_validator sample_suite = Some (s', report)" and r: "vr_valid report"
    using sample_validateOne by (auto simp: validate_def sample_suite_def Let_def is_fatal_def sample_validator_def default_ai_config_def)
  from validate_sound [OF v] v r show ?thesis by blast
qed

section \<open>What the check of the headers misses\<close>

text \<open>
  A header name with a trailing space is not one of the forbidden names, while the server trims the
  name it reads: the credentials the rule is there to keep out reach a server of this kind.
\<close>

lemma spaced_header_passes:
  "header_issues w (''Authorization '', JString ''Bearer x'') = []"
  "header_issues w (''Authorization: Bearer x'', JString [])  = []"
  by (simp_all add: header_issues_def, code_simp+)

end
