(* ===== verification/Assertions.thy ===== *)
theory Assertions
  imports Core_Types Clock Json_Text Glob
begin

text \<open>
  The assertions a test makes (\<open>src/testing/Assertions.cpp\<close>) and the scopes that collect their
  failures. The engine is the state of one thread: the number of checks, the scopes that exist, by
  an identity of their own, and the stack of those that are open, the innermost first.

  A check either lets the test go on with a new state or throws. Line and file of a check are a
  parameter. \<open>isNear\<close> and the address of a pointer are left out.
\<close>

section \<open>Scopes\<close>

record soft_scope =
  so_failures :: "string list"
  so_first :: source_location
  so_verified :: bool

record assertion_engine =
  en_checks :: u64
  en_stack :: "nat list"
  en_scopes :: "(nat \<times> soft_scope) list"

type_synonym checked = "test_exception option \<times> assertion_engine"

definition new_scope :: soft_scope where
  "new_scope = \<lparr>so_failures = [], so_first = \<lparr>sl_file = Some [], sl_line = 0, sl_function = Some []\<rparr>, so_verified = False\<rparr>"

definition new_engine :: assertion_engine where
  "new_engine = \<lparr>en_checks = 0, en_stack = [], en_scopes = []\<rparr>"

definition scope_of :: "nat \<Rightarrow> assertion_engine \<Rightarrow> soft_scope" where
  "scope_of i en = case_option new_scope id (alist_find i (en_scopes en))"

definition open_scope :: "nat \<Rightarrow> assertion_engine \<Rightarrow> assertion_engine" where
  "open_scope i en = en\<lparr>en_stack := i # en_stack en, en_scopes := alist_set i new_scope (en_scopes en)\<rparr>"

definition pop_scope :: "nat \<Rightarrow> assertion_engine \<Rightarrow> assertion_engine" where
  "pop_scope i en = (case en_stack en of j # js \<Rightarrow> if j = i then en\<lparr>en_stack := js\<rparr> else en | [] \<Rightarrow> en)"

text \<open>The destructor, and whether it logs that failures were never verified.\<close>

definition close_scope :: "nat \<Rightarrow> assertion_engine \<Rightarrow> assertion_engine \<times> bool" where
  "close_scope i en = (pop_scope i en, \<not> so_verified (scope_of i en) \<and> so_failures (scope_of i en) \<noteq> [])"

definition record_failure :: "string \<Rightarrow> source_location \<Rightarrow> soft_scope \<Rightarrow> soft_scope" where
  "record_failure detail where sc =
     (let sc = (if so_failures sc = [] then sc\<lparr>so_first := where\<rparr> else sc)
      in sc\<lparr>so_failures := so_failures sc @ [detail]\<rparr>)"

fun numbered_failures :: "nat \<Rightarrow> string list \<Rightarrow> string" where
  "numbered_failures i [] = []"
| "numbered_failures i (f # fs) = CHR 0x0A # ''['' @ show_nat i @ ''] '' @ f @ numbered_failures (i + 1) fs"

text \<open>Verifying: an exception if there is anything to report, after which the scope is closed to checks.\<close>

definition verify_scope :: "nat \<Rightarrow> assertion_engine \<Rightarrow> checked" where
  "verify_scope i en =
     (let sc = scope_of i en; fs = so_failures sc;
          marked = en\<lparr>en_scopes := alist_set i (sc\<lparr>so_verified := True\<rparr>) (en_scopes en)\<rparr>
      in if so_verified sc \<or> fs = [] then (None, marked)
         else (Some (AssertionError (show_nat (length fs) @ '' assertion(s) failed'' @ numbered_failures 1 fs)
           ''soft assertions'' ''all checks pass'' (show_nat (length fs) @ '' failed'') (so_first sc)), pop_scope i marked))"

section \<open>The engine\<close>

definition buildMessage :: "string \<Rightarrow> string \<Rightarrow> string" where
  "buildMessage message expression =
     (if message \<noteq> [] then message else if expression \<noteq> [] then ''assertion failed: '' @ expression else ''assertion failed'')"

definition report ::
  "bool \<Rightarrow> string \<Rightarrow> string \<Rightarrow> string \<Rightarrow> string \<Rightarrow> source_location \<Rightarrow> assertion_engine \<Rightarrow> checked" where
  "report succeeded expression expected actual message where en =
     (let en = en\<lparr>en_checks := en_checks en + 1\<rparr>; message = buildMessage message expression
      in if succeeded then (None, en)
         else (case en_stack en of
             i # _ \<Rightarrow> (None, en\<lparr>en_scopes := alist_set i
               (record_failure (assertion_detail message expression expected actual where) where (scope_of i en)) (en_scopes en)\<rparr>)
           | [] \<Rightarrow> (Some (AssertionError message expression expected actual where), en)))"

definition resetCounters :: "assertion_engine \<Rightarrow> assertion_engine" where
  "resetCounters en = en\<lparr>en_checks := 0\<rparr>"

section \<open>The assertions\<close>

definition display_text :: "string \<Rightarrow> string" where
  "display_text t = CHR 0x22 # t @ [CHR 0x22]"

definition show_bool :: "bool \<Rightarrow> string" where
  "show_bool b = (if b then ''true'' else ''false'')"

definition isTrue :: "bool \<Rightarrow> string \<Rightarrow> source_location \<Rightarrow> string \<Rightarrow> assertion_engine \<Rightarrow> checked" where
  "isTrue v expression where message = report v expression ''true'' (show_bool v) message where"

definition isFalse :: "bool \<Rightarrow> string \<Rightarrow> source_location \<Rightarrow> string \<Rightarrow> assertion_engine \<Rightarrow> checked" where
  "isFalse v expression where message = report (\<not> v) expression ''false'' (show_bool v) message where"

text \<open>The comparisons of two integers of any width, which compare the values.\<close>

definition areEqual :: "int \<Rightarrow> int \<Rightarrow> string \<Rightarrow> source_location \<Rightarrow> string \<Rightarrow> assertion_engine \<Rightarrow> checked" where
  "areEqual actual expected expression where message =
     report (actual = expected) expression (show_int expected) (show_int actual) message where"

definition areNotEqual :: "int \<Rightarrow> int \<Rightarrow> string \<Rightarrow> source_location \<Rightarrow> string \<Rightarrow> assertion_engine \<Rightarrow> checked" where
  "areNotEqual actual forbidden expression where message =
     report (\<not> actual = forbidden) expression (''anything except '' @ show_int forbidden) (show_int actual) message where"

definition isLess :: "int \<Rightarrow> int \<Rightarrow> string \<Rightarrow> source_location \<Rightarrow> string \<Rightarrow> assertion_engine \<Rightarrow> checked" where
  "isLess actual bound expression where message =
     report (actual < bound) expression (''< '' @ show_int bound) (show_int actual) message where"

definition isLessOrEqual :: "int \<Rightarrow> int \<Rightarrow> string \<Rightarrow> source_location \<Rightarrow> string \<Rightarrow> assertion_engine \<Rightarrow> checked" where
  "isLessOrEqual actual bound expression where message =
     report (actual < bound \<or> actual = bound) expression (''<= '' @ show_int bound) (show_int actual) message where"

definition isGreater :: "int \<Rightarrow> int \<Rightarrow> string \<Rightarrow> source_location \<Rightarrow> string \<Rightarrow> assertion_engine \<Rightarrow> checked" where
  "isGreater actual bound expression where message =
     report (bound < actual) expression (''> '' @ show_int bound) (show_int actual) message where"

definition isGreaterOrEqual :: "int \<Rightarrow> int \<Rightarrow> string \<Rightarrow> source_location \<Rightarrow> string \<Rightarrow> assertion_engine \<Rightarrow> checked" where
  "isGreaterOrEqual actual bound expression where message =
     report (bound < actual \<or> actual = bound) expression (''>= '' @ show_int bound) (show_int actual) message where"

definition containsSubstring :: "string \<Rightarrow> string \<Rightarrow> string \<Rightarrow> source_location \<Rightarrow> string \<Rightarrow> assertion_engine \<Rightarrow> checked" where
  "containsSubstring haystack needle expression where message =
     report (find_sub needle haystack \<noteq> None) expression (''text containing '' @ display_text needle)
       (display_text (String_Utils.truncate haystack 400)) message where"

definition doesNotContainSubstring :: "string \<Rightarrow> string \<Rightarrow> string \<Rightarrow> source_location \<Rightarrow> string \<Rightarrow> assertion_engine \<Rightarrow> checked" where
  "doesNotContainSubstring haystack needle expression where message =
     report (find_sub needle haystack = None) expression (''text NOT containing '' @ display_text needle)
       (display_text (String_Utils.truncate haystack 400)) message where"

definition matchesGlob :: "string \<Rightarrow> string \<Rightarrow> string \<Rightarrow> source_location \<Rightarrow> string \<Rightarrow> assertion_engine \<Rightarrow> checked" where
  "matchesGlob t pattern expression where message =
     report (globMatch pattern t) expression (''text matching '' @ display_text pattern)
       (display_text (String_Utils.truncate t 400)) message where"

definition endpoint_note :: "string \<Rightarrow> string \<Rightarrow> string \<Rightarrow> string" where
  "endpoint_note what message endpoint = (if message = [] \<and> endpoint \<noteq> [] then what @ endpoint else message)"

definition statusCode :: "int \<Rightarrow> int \<Rightarrow> string \<Rightarrow> source_location \<Rightarrow> string \<Rightarrow> assertion_engine \<Rightarrow> checked" where
  "statusCode actual expected endpoint where message =
     report (actual = expected) (''response.statusCode == '' @ show_int expected) (show_int expected) (show_int actual)
       (endpoint_note ''unexpected HTTP status for '' message endpoint) where"

definition statusCodeIn :: "int \<Rightarrow> int list \<Rightarrow> string \<Rightarrow> source_location \<Rightarrow> string \<Rightarrow> assertion_engine \<Rightarrow> checked" where
  "statusCodeIn actual allowed endpoint where message =
     report (actual \<in> set allowed) ''response.statusCode in allowed set'' (''one of ['' @ join (map show_int allowed) '', '' @ '']'')
       (show_int actual) (endpoint_note ''unexpected HTTP status for '' message endpoint) where"

definition responseTime :: "i64 \<Rightarrow> i64 \<Rightarrow> string \<Rightarrow> source_location \<Rightarrow> string \<Rightarrow> assertion_engine \<Rightarrow> checked" where
  "responseTime actual budget endpoint where message =
     report (sint actual \<le> sint budget) ''response.elapsed <= budget'' (''<= '' @ formatDuration budget)
       (formatDuration actual @ (if sint actual \<le> sint budget then [] else '' (over budget by '' @ formatDuration (actual - budget) @ '')''))
       (endpoint_note ''response time budget exceeded for '' message endpoint) where"

definition quoted_path :: "string \<Rightarrow> string" where
  "quoted_path p = CHR 0x27 # p @ [CHR 0x27]"

definition jsonHasField :: "json \<Rightarrow> string \<Rightarrow> source_location \<Rightarrow> string \<Rightarrow> assertion_engine \<Rightarrow> checked" where
  "jsonHasField document dottedPath where message =
     report (json_path document dottedPath \<noteq> None) (''json has field '' @ dottedPath) (''field '' @ quoted_path dottedPath @ '' present'')
       (if json_path document dottedPath \<noteq> None then ''present''
        else ''absent; document = '' @ String_Utils.truncate (json_dump document) 400) message where"

definition jsonFieldEquals :: "json \<Rightarrow> string \<Rightarrow> json \<Rightarrow> source_location \<Rightarrow> string \<Rightarrow> assertion_engine \<Rightarrow> checked" where
  "jsonFieldEquals document dottedPath expected where message =
     (case json_path document dottedPath of
        None \<Rightarrow> report False (''json.'' @ dottedPath @ '' == expected'') (json_dump expected)
          (''field absent; document = '' @ String_Utils.truncate (json_dump document) 400) message where
      | Some found \<Rightarrow> report (json_eq found expected) (''json.'' @ dottedPath @ '' == expected'') (json_dump expected)
          (json_dump found) message where)"

definition fail_test :: "string \<Rightarrow> source_location \<Rightarrow> assertion_engine \<Rightarrow> checked" where
  "fail_test message where en =
     (case report False ''TF_FAIL'' ''no failure'' ''explicit failure'' message where en of
        (Some e, en) \<Rightarrow> (Some e, en)
      | (None, en) \<Rightarrow> (Some (AssertionError message ''TF_FAIL'' ''no failure'' ''explicit failure'' where), en))"

section \<open>Checks inside a scope\<close>

lemma report_outside: "en_stack en = [] \<Longrightarrow>
    report ok expression expected actual message where en =
      (if ok then None else Some (AssertionError (buildMessage message expression) expression expected actual where),
       en\<lparr>en_checks := en_checks en + 1\<rparr>)"
  by (simp add: report_def Let_def)

text \<open>Inside a scope a check never throws; it adds its failure, if it fails, to the innermost scope.\<close>

lemma report_inside:
  assumes "en_stack en = i # js"
  shows "\<exists>en' d. report ok expression expected actual message where en = (None, en') \<and> en_stack en' = en_stack en
    \<and> so_failures (scope_of i en') = so_failures (scope_of i en) @ (if ok then [] else [d])
    \<and> so_verified (scope_of i en') = so_verified (scope_of i en)"
  using assms by (auto simp: report_def Let_def scope_of_def record_failure_def)

lemma verify_scope_throws:
  "fst (verify_scope i en) \<noteq> None \<longleftrightarrow> \<not> so_verified (scope_of i en) \<and> so_failures (scope_of i en) \<noteq> []"
  by (auto simp: verify_scope_def Let_def)

text \<open>
  A check that fails after a scope was verified without failures is recorded in that scope, and
  nothing reports it: verifying again succeeds and the destructor does not log.
\<close>

lemma failure_after_verify_is_lost:
  assumes "verify_scope i en = (None, en1)" "en_stack en = i # js" "so_failures (scope_of i en) = []"
    and "report False expression expected actual message where en1 = (None, en2)"
  shows "fst (verify_scope i en2) = None \<and> snd (close_scope i en2) = False"
proof -
  have en1: "en1 = en\<lparr>en_scopes := alist_set i ((scope_of i en)\<lparr>so_verified := True\<rparr>) (en_scopes en)\<rparr>"
    using assms(1,3) by (simp add: verify_scope_def Let_def)
  then have "en_stack en1 = i # js" "so_verified (scope_of i en1)" using assms(2) by (simp_all add: scope_of_def)
  with report_inside [of en1 i js False expression expected actual message "where"] assms(4)
  have "so_verified (scope_of i en2)" by auto
  then show ?thesis by (simp add: verify_scope_def close_scope_def Let_def)
qed

end
