(* ===== verification/Spec_Case.thy ===== *)
theory Spec_Case
  imports Http_Exchange Validator_Facts Assertions Execution Registry
begin

text \<open>
  API tests and generated tests (\<open>src/testing/ApiTestCase.cpp\<close>, \<open>src/testing/SpecTestCase.cpp\<close>): the
  client a test talks to the system under test with, the interpretation of a test specification,
  and the registration of a suite of them.

  What a request meets is an observation: the cancellation token when it is checked and when the
  remaining time is read, the clock, and the hops of the exchange. An outcome is missing (\<open>None\<close>)
  when the client has not returned, or the source converts a double no 64-bit integer can hold.
\<close>

section \<open>The client of a test\<close>

record api_client =
  ac_options :: client_options
  ac_baseUrl :: string
  ac_slaMs :: i64
  ac_exchangeCount :: int
  ac_exchanges :: "json list"

definition default_header_list :: "(string \<times> json) list \<Rightarrow> headers" where
  "default_header_list ms = fold (\<lambda>(name, v) hs. case v of JString t \<Rightarrow> headers_set name t hs | _ \<Rightarrow> hs) ms []"

definition optionsFrom :: "config \<Rightarrow> client_options" where
  "optionsFrom cf = (let api = cf_api cf in default_client_options
     \<lparr>co_requestTimeout := tc_timeoutMs api,
      co_connectTimeout := (if 5000 < sint (tc_timeoutMs api) then 5000 else tc_timeoutMs api),
      co_userAgent := ''TestForge/0.9 (api-test)'',
      co_defaultHeaders := default_header_list (tc_defaultHeaders api),
      co_policy := restrictedTo (tc_baseUrl api)\<rparr>)"

definition new_api_client :: "config \<Rightarrow> api_client" where
  "new_api_client cf = \<lparr>ac_options = optionsFrom cf, ac_baseUrl = tc_baseUrl (cf_api cf), ac_slaMs = tc_slaMs (cf_api cf),
     ac_exchangeCount = 0, ac_exchanges = []\<rparr>"

definition api_resolve :: "api_client \<Rightarrow> string \<Rightarrow> test_exception + string" where
  "api_resolve api path =
     (if startsWith path ''http://'' \<or> startsWith path ''https://'' then Inr path
      else (case joinUrl (ac_baseUrl api) path of
          Some joined \<Rightarrow> Inr joined
        | None \<Rightarrow> Inl (ConfigurationError (''cannot resolve '' @ quoted path @ '' against base URL '' @ quoted (ac_baseUrl api)))))"

definition exchange_json :: "int \<Rightarrow> http_response \<Rightarrow> json" where
  "exchange_json n r = obj_of [(''n'', json_int n), (''method'', JString (rs_requestMethod r)), (''url'', JString (rs_requestUrl r)),
     (''status'', json_int (rs_status r)), (''ms'', JInt (rs_elapsed r))]"

definition record_exchange :: "http_response \<Rightarrow> api_client \<Rightarrow> test_context \<Rightarrow> api_client \<times> test_context" where
  "record_exchange r api cx =
     (let n = ac_exchangeCount api + 1;
          cx = fold (\<lambda>(key, v). addMetadata key v) (case toMetadataJson r of JObject ms \<Rightarrow> ms | _ \<Rightarrow> []) cx;
          api = api\<lparr>ac_exchangeCount := n, ac_exchanges := ac_exchanges api @ [exchange_json n r]\<rparr>
      in (api, if 1 < n then addMetadata ''exchanges'' (JArray (ac_exchanges api)) cx else cx))"

record request_obs =
  ro_token :: "cancel_state option"
  ro_later :: "cancel_state option"
  ro_now :: int
  ro_hops :: "hop list"

text \<open>A request never gets more time than is left for the test.\<close>

definition cap_timeout :: "int \<Rightarrow> http_request \<Rightarrow> http_request" where
  "cap_timeout left request =
     (if left \<noteq> millis_max \<and> 0 < left \<and> (sint (rq_timeout request) = 0 \<or> left < sint (rq_timeout request))
      then request\<lparr>rq_timeout := word_of_int left\<rparr> else request)"

type_synonym answer = "(test_exception + http_response) option \<times> api_client \<times> test_context \<times> sent"

definition api_send :: "request_obs \<Rightarrow> http_request \<Rightarrow> api_client \<Rightarrow> test_context \<Rightarrow> answer" where
  "api_send ob request api cx =
     (case throwIfCancelled (ro_token ob) of
        Some e \<Rightarrow> (Some (Inl e), api, cx, [])
      | None \<Rightarrow>
          (let request = cap_timeout (token_remaining (ro_now ob) (ro_later ob)) request
           in case client_send (ac_options api) (ro_hops ob) request of
                (None, sent) \<Rightarrow> (None, api, cx, sent)
              | (Some r, sent) \<Rightarrow> (case record_exchange r api cx of (api, cx) \<Rightarrow> (Some (Inr r), api, cx, sent))))"

text \<open>The requests by method: the path is resolved first.\<close>

definition send_resolved :: "string \<Rightarrow> (string \<Rightarrow> http_request) \<Rightarrow> request_obs \<Rightarrow> api_client \<Rightarrow> test_context \<Rightarrow> answer" where
  "send_resolved path request_of ob api cx =
     (case api_resolve api path of
        Inl e \<Rightarrow> (Some (Inl e), api, cx, [])
      | Inr u \<Rightarrow> api_send ob (request_of u) api cx)"

definition api_get :: "string \<Rightarrow> headers \<Rightarrow> request_obs \<Rightarrow> api_client \<Rightarrow> test_context \<Rightarrow> answer" where
  "api_get path hs = send_resolved path (\<lambda>u. get_request u hs)"

definition api_postRaw :: "string \<Rightarrow> string \<Rightarrow> string \<Rightarrow> headers \<Rightarrow> request_obs \<Rightarrow> api_client \<Rightarrow> test_context \<Rightarrow> answer" where
  "api_postRaw path body type hs = send_resolved path (\<lambda>u. body_request ''POST'' u body type hs)"

definition api_post :: "string \<Rightarrow> json \<Rightarrow> headers \<Rightarrow> request_obs \<Rightarrow> api_client \<Rightarrow> test_context \<Rightarrow> answer" where
  "api_post path body hs = send_resolved path (\<lambda>u. post_json_request u body hs)"

definition api_put :: "string \<Rightarrow> json \<Rightarrow> headers \<Rightarrow> request_obs \<Rightarrow> api_client \<Rightarrow> test_context \<Rightarrow> answer" where
  "api_put path body hs = send_resolved path (\<lambda>u. body_request ''PUT'' u (json_dump body) ''application/json'' hs)"

definition api_patch :: "string \<Rightarrow> json \<Rightarrow> headers \<Rightarrow> request_obs \<Rightarrow> api_client \<Rightarrow> test_context \<Rightarrow> answer" where
  "api_patch path body hs = send_resolved path (\<lambda>u. body_request ''PATCH'' u (json_dump body) ''application/json'' hs)"

definition api_del :: "string \<Rightarrow> headers \<Rightarrow> request_obs \<Rightarrow> api_client \<Rightarrow> test_context \<Rightarrow> answer" where
  "api_del path hs = send_resolved path (\<lambda>u. delete_request u hs)"

text \<open>The probes of the service: an exception, if any. They are not recorded.\<close>

definition probe :: "string \<Rightarrow> i64 \<Rightarrow> hop list \<Rightarrow> api_client \<Rightarrow> (http_response \<Rightarrow> test_exception option) \<Rightarrow> test_exception option option \<times> sent" where
  "probe path timeout hs api verdict =
     (case api_resolve api path of
        Inl e \<Rightarrow> (Some (Some e), [])
      | Inr u \<Rightarrow> (case client_send (ac_options api) hs ((request_get u)\<lparr>rq_timeout := timeout\<rparr>) of
          (r, sent) \<Rightarrow> (map_option verdict r, sent)))"

definition requireReachable :: "config \<Rightarrow> string \<Rightarrow> hop list \<Rightarrow> api_client \<Rightarrow> test_exception option option \<times> sent" where
  "requireReachable cf path hs api =
     probe path (if sint (tc_timeoutMs (cf_api cf)) < 3000 then tc_timeoutMs (cf_api cf) else 3000) hs api
       (\<lambda>r. if rs_transportError r
            then Some (DependencyError (''the system under test is not reachable at '' @ ac_baseUrl api @ '' ('' @ rs_errorMessage r
              @ ''). Start it with: uvicorn app.main:app --port 8000 --app-dir sample-service''))
            else None)"

definition skipUnlessReachable :: "string \<Rightarrow> hop list \<Rightarrow> api_client \<Rightarrow> test_exception option option \<times> sent" where
  "skipUnlessReachable path hs api = probe path 2000 hs api
     (\<lambda>r. if rs_transportError r then Some (SkipTest (''the system under test is not reachable at '' @ ac_baseUrl api)) else None)"

section \<open>Assertions of a specification\<close>

definition statuses_of :: "json \<Rightarrow> int list option" where
  "statuses_of v = (case v of JArray items \<Rightarrow> read_statuses items | _ \<Rightarrow> Some [])"

definition evaluate :: "spec_assertion \<Rightarrow> http_response \<Rightarrow> source_location \<Rightarrow> assertion_engine \<Rightarrow> checked option" where
  "evaluate a r loc en = (case sa_kind a of
       StatusCode \<Rightarrow> map_option (\<lambda>n. statusCode (rs_status r) (to_int32 n) (describeTarget r) loc [] en) (intOr (sa_expected a) 200)
     | StatusCodeIn \<Rightarrow> map_option (\<lambda>allowed. statusCodeIn (rs_status r) allowed (describeTarget r) loc [] en) (statuses_of (sa_expected a))
     | ResponseTimeUnder \<Rightarrow> map_option (\<lambda>n. responseTime (rs_elapsed r) n (describeTarget r) loc [] en) (intOr (sa_expected a) 0)
     | BodyContains \<Rightarrow> Some (containsSubstring (rs_body r) (stringOr (sa_expected a) []) ''response body contains expected text'' loc [] en)
     | BodyNotContains \<Rightarrow> Some (doesNotContainSubstring (rs_body r) (stringOr (sa_expected a) []) ''response body excludes text'' loc [] en)
     | JsonFieldExists \<Rightarrow> Some (case jsonOrThrow r of Inl e \<Rightarrow> (Some e, en) | Inr document \<Rightarrow> jsonHasField document (sa_target a) loc [] en)
     | JsonFieldEquals \<Rightarrow> Some (case jsonOrThrow r of Inl e \<Rightarrow> (Some e, en)
          | Inr document \<Rightarrow> jsonFieldEquals document (sa_target a) (sa_expected a) loc [] en)
     | HeaderExists \<Rightarrow> (let present = headers_contains (sa_target a) (rs_headers r) in
          Some (report present (''header '' @ quoted (sa_target a) @ '' present'') ''header present'' (if present then ''present'' else ''absent'')
            (''missing response header for '' @ describeTarget r) loc en))
     | HeaderEquals \<Rightarrow> (let actual = headers_getOr (sa_target a) [] (rs_headers r); expected = stringOr (sa_expected a) [] in
          Some (report (actual = expected) (''header '' @ quoted (sa_target a) @ '' == expected'') expected
            (if actual = [] then ''(absent)'' else actual) (''unexpected response header for '' @ describeTarget r) loc en)))"

fun evaluate_all :: "spec_assertion list \<Rightarrow> http_response \<Rightarrow> source_location \<Rightarrow> assertion_engine \<Rightarrow> checked option" where
  "evaluate_all [] r loc en = Some (None, en)"
| "evaluate_all (a # as) r loc en =
     (case evaluate a r loc en of
        Some (None, en) \<Rightarrow> evaluate_all as r loc en
      | other \<Rightarrow> other)"

text \<open>The checks of one response inside a scope \<open>i\<close>: a check inside a scope does not throw.\<close>

definition check_response :: "test_spec \<Rightarrow> http_response \<Rightarrow> source_location \<Rightarrow> nat \<Rightarrow> assertion_engine \<Rightarrow> checked option" where
  "check_response t r loc i en =
     (let en = open_scope i en;
          en = snd (if ts_acceptableStatuses t \<noteq> [] then statusCodeIn (rs_status r) (ts_acceptableStatuses t) (describeTarget r) loc [] en
                    else statusCode (rs_status r) (ts_expectedStatus t) (describeTarget r) loc [] en);
          en = (if 0 < sint (ts_maxResponseTimeMs t) then snd (responseTime (rs_elapsed r) (ts_maxResponseTimeMs t) (describeTarget r) loc [] en) else en)
      in case evaluate_all (ts_assertions t) r loc en of
           None \<Rightarrow> None
         | Some (Some e, en) \<Rightarrow> Some (Some e, fst (close_scope i en))
         | Some (None, en) \<Rightarrow> (case verify_scope i en of (thrown, en) \<Rightarrow> Some (thrown, fst (close_scope i en))))"

section \<open>Executing a specification\<close>

definition spec_request :: "test_spec \<Rightarrow> string \<Rightarrow> http_request" where
  "spec_request t u =
     (let request = default_request\<lparr>rq_method := ts_method t, rq_url := u, rq_headers := default_header_list (ts_headers t)\<rparr>
      in if isNull (ts_body t) then request
         else (let request = request\<lparr>rq_body := json_dump (ts_body t)\<rparr>
               in if headers_contains ''Content-Type'' (rq_headers request) then request
                  else request\<lparr>rq_headers := headers_set ''Content-Type'' ''application/json'' (rq_headers request)\<rparr>))"

record spec_run =
  sx_outcome :: "test_exception option option"
  sx_context :: test_context
  sx_engine :: assertion_engine
  sx_sent :: sent

definition provenance :: "test_spec \<Rightarrow> test_context \<Rightarrow> test_context" where
  "provenance t cx =
     (let cx = addMetadata ''spec_endpoint'' (JString (ts_endpoint t)) (addMetadata ''spec_method'' (JString (ts_method t))
          (addMetadata ''spec_generated'' (JBool True) cx))
      in if ts_description t \<noteq> [] then addNote (ts_description t) cx else cx)"

definition spec_execute ::
  "config \<Rightarrow> test_spec \<Rightarrow> request_obs \<Rightarrow> source_location \<Rightarrow> nat \<Rightarrow> assertion_engine \<Rightarrow> test_context \<Rightarrow> spec_run" where
  "spec_execute cf t ob loc i en cx =
     (let api = new_api_client cf; cx = provenance t cx
      in case send_resolved (ts_endpoint t) (spec_request t) ob api cx of
           (None, api, cx, sent) \<Rightarrow> \<lparr>sx_outcome = None, sx_context = cx, sx_engine = en, sx_sent = sent\<rparr>
         | (Some (Inl e), api, cx, sent) \<Rightarrow> \<lparr>sx_outcome = Some (Some e), sx_context = cx, sx_engine = en, sx_sent = sent\<rparr>
         | (Some (Inr r), api, cx, sent) \<Rightarrow>
             if rs_transportError r
             then \<lparr>sx_outcome = Some (Some (NetworkError (''could not reach '' @ rs_requestUrl r @ '': '' @ rs_errorMessage r))),
                   sx_context = cx, sx_engine = en, sx_sent = sent\<rparr>
             else (case check_response t r loc i en of
                 None \<Rightarrow> \<lparr>sx_outcome = None, sx_context = cx, sx_engine = en, sx_sent = sent\<rparr>
               | Some (thrown, en) \<Rightarrow> \<lparr>sx_outcome = Some thrown, sx_context = cx, sx_engine = en, sx_sent = sent\<rparr>))"

section \<open>Registering a suite\<close>

definition generated_metadata :: "test_suite \<Rightarrow> test_spec \<Rightarrow> test_metadata" where
  "generated_metadata s t = \<lparr>md_name = ts_name t, md_suite = su_suite s, md_description = ts_description t,
     md_tags = add_tag_once (su_suite s) (add_tag_once ''generated'' (ts_tags t)), md_timeoutMs = 0, md_enabled = True,
     md_disabledReason = [], md_owner = su_source s, md_sourceFile = su_source s, md_sourceLine = 0\<rparr>"

type_synonym spec_registry = "(test_metadata \<times> test_spec) registry"

definition register_spec :: "test_suite \<Rightarrow> test_spec \<Rightarrow> spec_registry \<Rightarrow> spec_registry" where
  "register_spec s t reg =
     (let md = generated_metadata s t in registerOrReplace reg md (Some (\<lambda>_. Made (Some (md, t)))))"

definition spec_validator :: "config \<Rightarrow> ai_validator" where
  "spec_validator cf = \<lparr>va_config = cf_ai cf, va_policy = restrictedTo (tc_baseUrl (cf_api cf)), va_baseUrl = tc_baseUrl (cf_api cf)\<rparr>"

definition registerSpecSuite :: "spec_registry \<Rightarrow> test_suite \<Rightarrow> config \<Rightarrow> (test_exception + (spec_registry \<times> nat)) option" where
  "registerSpecSuite reg s cf =
     map_option (\<lambda>(s, report).
       if \<not> vr_valid report then Inl (SecurityError (''refusing to register the generated suite: '' @ report_summary report))
       else Inr (fold (register_spec s) (su_tests s) (fst (removeSuite reg (su_suite s))), length (su_tests s)))
     (validate (spec_validator cf) s)"

end
