(* ===== verification/Spec_Facts.thy ===== *)
theory Spec_Facts
  imports Spec_Case Client_Facts
begin

text \<open>
  What a generated test decides and where its requests go, and what the registration lets in.
\<close>

section \<open>Checks inside a scope\<close>

text \<open>
  The state of a scope after checks: nothing else of the engine has changed that matters, and
  failures were added exactly when the condition does not hold.
\<close>

definition collects :: "nat \<Rightarrow> assertion_engine \<Rightarrow> assertion_engine \<Rightarrow> bool \<Rightarrow> bool" where
  "collects i en en' ok \<longleftrightarrow> en_stack en' = en_stack en \<and> so_verified (scope_of i en') = so_verified (scope_of i en)
     \<and> (\<exists>ds. so_failures (scope_of i en') = so_failures (scope_of i en) @ ds \<and> (ds = [] \<longleftrightarrow> ok))"

lemma collects_refl: "collects i en en True"
  by (simp add: collects_def)

lemma collects_trans: "collects i en en1 a \<Longrightarrow> collects i en1 en2 b \<Longrightarrow> collects i en en2 (a \<and> b)"
  by (force simp: collects_def)

lemma report_collects:
  assumes "en_stack en = i # js"
  shows "fst (report ok e x a m loc en) = None \<and> collects i en (snd (report ok e x a m loc en)) ok"
proof -
  from report_inside [OF assms] obtain en' d where "report ok e x a m loc en = (None, en')" "en_stack en' = en_stack en"
    "so_failures (scope_of i en') = so_failures (scope_of i en) @ (if ok then [] else [d])"
    "so_verified (scope_of i en') = so_verified (scope_of i en)" by metis
  then show ?thesis by (auto simp: collects_def)
qed

text \<open>What an assertion of a specification asks of a response.\<close>

definition holds_with :: "'a option \<Rightarrow> ('a \<Rightarrow> bool) \<Rightarrow> bool" where
  "holds_with x P = (case x of Some v \<Rightarrow> P v | None \<Rightarrow> False)"

definition assertion_holds :: "http_response \<Rightarrow> spec_assertion \<Rightarrow> bool" where
  "assertion_holds r a = (case sa_kind a of
       StatusCode \<Rightarrow> holds_with (intOr (sa_expected a) 200) (\<lambda>n. rs_status r = to_int32 n)
     | StatusCodeIn \<Rightarrow> holds_with (statuses_of (sa_expected a)) (\<lambda>ns. rs_status r \<in> set ns)
     | ResponseTimeUnder \<Rightarrow> holds_with (intOr (sa_expected a) 0) (\<lambda>n. sint (rs_elapsed r) \<le> sint n)
     | BodyContains \<Rightarrow> sublist (stringOr (sa_expected a) []) (rs_body r)
     | BodyNotContains \<Rightarrow> \<not> sublist (stringOr (sa_expected a) []) (rs_body r)
     | JsonFieldExists \<Rightarrow> (case jsonOrThrow r of Inr d \<Rightarrow> json_path d (sa_target a) \<noteq> None | Inl _ \<Rightarrow> False)
     | JsonFieldEquals \<Rightarrow> (case jsonOrThrow r of
         Inr d \<Rightarrow> holds_with (json_path d (sa_target a)) (\<lambda>found. json_eq found (sa_expected a)) | Inl _ \<Rightarrow> False)
     | HeaderExists \<Rightarrow> headers_get (sa_target a) (rs_headers r) \<noteq> None
     | HeaderEquals \<Rightarrow> case_option [] id (headers_get (sa_target a) (rs_headers r)) = stringOr (sa_expected a) [])"

definition spec_holds :: "test_spec \<Rightarrow> http_response \<Rightarrow> bool" where
  "spec_holds t r \<longleftrightarrow>
     (if ts_acceptableStatuses t \<noteq> [] then rs_status r \<in> set (ts_acceptableStatuses t) else rs_status r = ts_expectedStatus t)
     \<and> (0 < sint (ts_maxResponseTimeMs t) \<longrightarrow> sint (rs_elapsed r) \<le> sint (ts_maxResponseTimeMs t))
     \<and> list_all (assertion_holds r) (ts_assertions t)"

lemmas check_defs = statusCode_def statusCodeIn_def responseTime_def containsSubstring_def doesNotContainSubstring_def
  jsonHasField_def jsonFieldEquals_def

lemma evaluate_collects:
  assumes "en_stack en = i # js" "evaluate a r loc en = Some (thrown, en')"
  shows "if thrown = None then collects i en en' (assertion_holds r a) else \<not> assertion_holds r a \<and> en' = en"
proof -
  note rep = report_collects [OF assms(1)]
  have rep': "thrown = None \<and> collects i en en' ok" if "report ok e x y m loc en = (thrown, en')" for ok e x y m
    using rep [of ok e x y m loc] that by simp
  show ?thesis
  proof (cases "sa_kind a")
    case JsonFieldExists
    with assms(2) show ?thesis
      by (auto simp: evaluate_def check_defs assertion_holds_def split: sum.splits dest!: rep')
  next
    case JsonFieldEquals
    with assms(2) show ?thesis
      by (auto simp: evaluate_def check_defs assertion_holds_def holds_with_def split: sum.splits option.splits dest!: rep')
  qed (use assms(2) in \<open>auto simp: evaluate_def check_defs assertion_holds_def holds_with_def Let_def headers_contains_def
      headers_getOr_def find_sub_None_iff split: option.splits dest!: rep'\<close>)
qed

lemma evaluate_all_collects:
  "en_stack en = i # js \<Longrightarrow> evaluate_all as r loc en = Some (thrown, en') \<Longrightarrow>
    en_stack en' = i # js \<and>
    (if thrown = None then collects i en en' (list_all (assertion_holds r) as) else \<not> list_all (assertion_holds r) as)"
proof (induction as r loc en rule: evaluate_all.induct)
  case (2 a as r loc en)
  from 2(3) obtain x en1 where one: "evaluate a r loc en = Some (x, en1)" by (auto split: option.splits)
  note now = evaluate_collects [OF 2(2) one]
  show ?case
  proof (cases x)
    case None
    with now have c: "collects i en en1 (assertion_holds r a)" by simp
    then have "en_stack en1 = i # js" using 2(2) by (simp add: collects_def)
    with 2(1) [OF one refl None] 2(3) one None collects_trans [OF c] show ?thesis by (auto split: if_splits)
  next
    case (Some e)
    with now one 2(2,3) show ?thesis by auto
  qed
qed (simp add: collects_refl)

lemma check_response_exact:
  assumes "check_response t r loc i en = Some (thrown, en')" "i \<notin> set (en_stack en)"
  shows "(thrown = None \<longleftrightarrow> spec_holds t r) \<and> en_stack en' = en_stack en"
proof -
  define en0 where "en0 = open_scope i en"
  define en1 where "en1 = snd (if ts_acceptableStatuses t \<noteq> [] then statusCodeIn (rs_status r) (ts_acceptableStatuses t) (describeTarget r) loc [] en0
                    else statusCode (rs_status r) (ts_expectedStatus t) (describeTarget r) loc [] en0)"
  define en2 where "en2 = (if 0 < sint (ts_maxResponseTimeMs t)
    then snd (responseTime (rs_elapsed r) (ts_maxResponseTimeMs t) (describeTarget r) loc [] en1) else en1)"
  define ok1 where "ok1 = (if ts_acceptableStatuses t \<noteq> [] then rs_status r \<in> set (ts_acceptableStatuses t) else rs_status r = ts_expectedStatus t)"
  define ok2 where "ok2 = (0 < sint (ts_maxResponseTimeMs t) \<longrightarrow> sint (rs_elapsed r) \<le> sint (ts_maxResponseTimeMs t))"
  have en0: "en_stack en0 = i # en_stack en" "scope_of i en0 = new_scope" by (simp_all add: en0_def open_scope_def scope_of_def)
  have c1: "collects i en0 en1 ok1" using report_collects [OF en0(1)] by (simp add: en1_def ok1_def statusCode_def statusCodeIn_def)
  then have s1: "en_stack en1 = i # en_stack en" using en0 by (simp add: collects_def)
  have "collects i en1 en2 ok2"
    using report_collects [OF s1] collects_refl by (simp add: en2_def ok2_def responseTime_def)
  note c2 = collects_trans [OF c1 this]
  then have s2: "en_stack en2 = i # en_stack en" using en0 by (simp add: collects_def)
  have unfolded: "check_response t r loc i en = (case evaluate_all (ts_assertions t) r loc en2 of
       None \<Rightarrow> None | Some (Some e, en) \<Rightarrow> Some (Some e, fst (close_scope i en))
     | Some (None, en) \<Rightarrow> (case verify_scope i en of (thrown, en) \<Rightarrow> Some (thrown, fst (close_scope i en))))"
    by (simp only: check_response_def Let_def en0_def en1_def en2_def)
  with assms(1) obtain x en3 where ev: "evaluate_all (ts_assertions t) r loc en2 = Some (x, en3)"
    by (cases "evaluate_all (ts_assertions t) r loc en2") auto
  note all = evaluate_all_collects [OF s2 ev]
  have result: "Some (thrown, en') = (case x of Some e \<Rightarrow> Some (Some e, fst (close_scope i en3))
      | None \<Rightarrow> (case verify_scope i en3 of (thrown, en) \<Rightarrow> Some (thrown, fst (close_scope i en))))"
    using assms(1) ev unfolded by (simp split: option.splits)
  have holds: "spec_holds t r \<longleftrightarrow> (ok1 \<and> ok2) \<and> list_all (assertion_holds r) (ts_assertions t)"
    by (auto simp: spec_holds_def ok1_def ok2_def)
  show ?thesis
  proof (cases x)
    case None
    with all collects_trans [OF c2] have c: "collects i en0 en3 (spec_holds t r)" and s3: "en_stack en3 = i # en_stack en"
      by (simp_all add: holds)
    then have f: "so_failures (scope_of i en3) = [] \<longleftrightarrow> spec_holds t r" "\<not> so_verified (scope_of i en3)"
      using en0(2) by (auto simp: collects_def new_scope_def)
    obtain th en4 where v: "verify_scope i en3 = (th, en4)" by fastforce
    then have "th = None \<longleftrightarrow> spec_holds t r" using verify_scope_throws [of i en3] f by auto
    moreover have "en_stack en4 = en_stack en3 \<or> en_stack en4 = en_stack en"
      using v s3 by (auto simp: verify_scope_def Let_def pop_scope_def split: if_splits)
    ultimately show ?thesis using result None v s3 assms(2)
      by (cases "en_stack en") (auto simp: close_scope_def pop_scope_def split: list.splits)
  next
    case (Some e)
    with result all holds show ?thesis by (auto simp: close_scope_def pop_scope_def)
  qed
qed

section \<open>The verdict of a generated test\<close>

definition spec_answer :: "config \<Rightarrow> test_spec \<Rightarrow> request_obs \<Rightarrow> string \<Rightarrow> http_response option" where
  "spec_answer cf t ob u =
     fst (client_send (optionsFrom cf) (ro_hops ob) (cap_timeout (token_remaining (ro_now ob) (ro_later ob)) (spec_request t u)))"

lemma send_resolved_cases:
  "send_resolved (ts_endpoint t) (spec_request t) ob (new_api_client cf) cx = (answer, api', cx', sent) \<Longrightarrow>
    (case api_resolve (new_api_client cf) (ts_endpoint t) of
       Inl e \<Rightarrow> answer = Some (Inl e) \<and> sent = []
     | Inr u \<Rightarrow> (case throwIfCancelled (ro_token ob) of
         Some e \<Rightarrow> answer = Some (Inl e) \<and> sent = []
       | None \<Rightarrow> answer = map_option Inr (spec_answer cf t ob u)
           \<and> sent = snd (client_send (optionsFrom cf) (ro_hops ob)
               (cap_timeout (token_remaining (ro_now ob) (ro_later ob)) (spec_request t u)))))"
  by (auto simp: send_resolved_def api_send_def spec_answer_def new_api_client_def Let_def split: sum.splits option.splits prod.splits)

text \<open>
  C14. A generated test passes exactly when it was not cancelled, its endpoint resolves, the service
  answers, and the answer has an accepted status, is within the time budget and satisfies every
  assertion of the specification; the assertion scope it opened is closed again.
\<close>

theorem spec_verdict_exact:
  assumes "sx_outcome (spec_execute cf t ob loc i en cx) = Some thrown" "i \<notin> set (en_stack en)"
  shows "(thrown = None \<longleftrightarrow> throwIfCancelled (ro_token ob) = None \<and>
      (\<exists>u r. api_resolve (new_api_client cf) (ts_endpoint t) = Inr u \<and> spec_answer cf t ob u = Some r
         \<and> \<not> rs_transportError r \<and> spec_holds t r))
    \<and> en_stack (sx_engine (spec_execute cf t ob loc i en cx)) = en_stack en"
proof -
  obtain answer api' cx' sent where send:
    "send_resolved (ts_endpoint t) (spec_request t) ob (new_api_client cf) (provenance t cx) = (answer, api', cx', sent)"
    by (metis prod_cases4)
  note cases = send_resolved_cases [OF send]
  note run = assms(1) [unfolded spec_execute_def Let_def send prod.case]
  show ?thesis
  proof (cases answer)
    case None
    with run show ?thesis by simp
  next
    case (Some result)
    show ?thesis
    proof (cases result)
      case (Inl e)
      with Some run cases show ?thesis by (auto simp: spec_execute_def Let_def send split: sum.splits option.splits)
    next
      case (Inr r)
      with Some cases obtain u where u: "api_resolve (new_api_client cf) (ts_endpoint t) = Inr u"
        "throwIfCancelled (ro_token ob) = None" "spec_answer cf t ob u = Some r"
        by (auto split: sum.splits option.splits)
      show ?thesis
      proof (cases "rs_transportError r")
        case True
        with Inr Some run u show ?thesis by (auto simp: spec_execute_def Let_def send)
      next
        case False
        with Inr Some run obtain en' where c: "check_response t r loc i en = Some (thrown, en')"
          by (auto split: option.splits)
        with check_response_exact [OF c assms(2)] Inr Some False u show ?thesis
          by (auto simp: spec_execute_def Let_def send)
      qed
    qed
  qed
qed

section \<open>Where its requests go\<close>

lemma restricted_host:
  assumes "parseUrl base = Some b" "reject (restrictedTo base) u = []"
  shows "equalsIgnoreCase (u_host b) (u_host u) \<and> (u_scheme u = ''http'' \<or> u_scheme u = ''https'')"
  using assms by (auto simp: restrictedTo_def reject_def default_policy_def split: if_splits)

definition sample_config :: config where
  "sample_config = default_config\<lparr>cf_api := default_api_config\<lparr>tc_baseUrl := ''http://h''\<rparr>\<rparr>"

text \<open>No address is found for the host.\<close>

definition lost_request :: request_obs where
  "lost_request = \<lparr>ro_token = None, ro_later = None, ro_now = 0, ro_hops =
     [\<lparr>hp_started = 0, hp_resolved = Inl ''unknown host'', hp_send = [], hp_reads = [], hp_elapsed = 3\<rparr>]\<rparr>"

lemma lost_answer:
  "api_resolve (new_api_client sample_config) ''/users'' = Inr ''http://h/users''"
  "spec_answer sample_config sample_spec lost_request ''http://h/users'' = Some (fail_response 3 ''could not resolve 'h': unknown host''
     (default_response\<lparr>rs_requestMethod := ''GET'', rs_requestUrl := ''http://h/users''\<rparr>))"
proof -
  have j: "joinUrl ''http://h'' ''/users'' = Some ''http://h/users''" by code_simp
  have u: "parseUrl ''http://h/users'' = Some \<lparr>u_scheme = ''http'', u_host = ''h'', u_port = 80, u_path = ''/users'', u_query = [], u_fragment = []\<rparr>"
    and b: "parseUrl ''http://h'' = Some \<lparr>u_scheme = ''http'', u_host = ''h'', u_port = 80, u_path = ''/'', u_query = [], u_fragment = []\<rparr>"
    by code_simp+
  show "api_resolve (new_api_client sample_config) ''/users'' = Inr ''http://h/users''"
    by (simp add: api_resolve_def startsWith_prefix new_api_client_def sample_config_def j)
  show "spec_answer sample_config sample_spec lost_request ''http://h/users'' = Some (fail_response 3 ''could not resolve 'h': unknown host''
     (default_response\<lparr>rs_requestMethod := ''GET'', rs_requestUrl := ''http://h/users''\<rparr>))"
    by (simp add: spec_answer_def client_send_def optionsFrom_def lost_request_def token_remaining_def cap_timeout_def
        spec_request_def sample_spec_def default_request_def admit_def u reject_def restrictedTo_def sample_config_def b
        default_policy_def equalsIgnoreCase_toLower exchange_def started_response_def Let_def default_client_options_def)
qed

theorem spec_verdict_exact_witness:
  "\<exists>thrown. sx_outcome (spec_execute sample_config sample_spec lost_request no_location 0 new_engine new_context) = Some (Some thrown)"
proof -
  let ?run = "spec_execute sample_config sample_spec lost_request no_location 0 new_engine new_context"
  have t: "ts_endpoint sample_spec = ''/users''" by (simp add: sample_spec_def)
  have c: "throwIfCancelled (ro_token lost_request) = None" by (simp add: lost_request_def throwIfCancelled_def token_isCancelled_def)
  obtain answer api' cx' sent where send:
    "send_resolved (ts_endpoint sample_spec) (spec_request sample_spec) lost_request (new_api_client sample_config)
       (provenance sample_spec new_context) = (answer, api', cx', sent)"
    by (metis prod_cases4)
  from send_resolved_cases [OF send] have "\<exists>thrown. sx_outcome ?run = Some thrown"
    by (simp add: t c lost_answer spec_execute_def send [unfolded t] Let_def fail_response_def)
  then obtain thrown where run: "sx_outcome ?run = Some thrown" by blast
  have "thrown \<noteq> None"
    using spec_verdict_exact [OF run] lost_answer by (auto simp: t new_engine_def fail_response_def)
  with run show ?thesis by blast
qed

text \<open>
  C18. Every request a generated test causes, redirects included, goes in clear HTTP to the host of
  the configured base URL, whatever its specification says, and at most six requests are sent.
\<close>

theorem generated_requests_confined:
  assumes "parseUrl (tc_baseUrl (cf_api cf)) = Some b"
  shows "list_all (\<lambda>(u, req, wire). u_scheme u = ''http'' \<and> equalsIgnoreCase (u_host b) (u_host u))
      (sx_sent (spec_execute cf t ob loc i en cx))
    \<and> int (length (sx_sent (spec_execute cf t ob loc i en cx))) \<le> 6"
proof -
  obtain answer api' cx' sent where send:
    "send_resolved (ts_endpoint t) (spec_request t) ob (new_api_client cf) (provenance t cx) = (answer, api', cx', sent)"
    by (metis prod_cases4)
  have sent: "sx_sent (spec_execute cf t ob loc i en cx) = sent"
    by (simp add: spec_execute_def send Let_def split: option.splits sum.splits)
  have opts: "co_policy (optionsFrom cf) = restrictedTo (tc_baseUrl (cf_api cf))" "co_maxRedirects (optionsFrom cf) = 5"
    by (simp_all add: optionsFrom_def Let_def default_client_options_def)
  from send_resolved_cases [OF send] have "sent = [] \<or> (\<exists>req. sent = snd (perform (optionsFrom cf) (ro_hops ob) req 5))"
    by (auto simp: client_send_def opts split: sum.splits option.splits)
  then show ?thesis
  proof
    assume "\<exists>req. sent = snd (perform (optionsFrom cf) (ro_hops ob) req 5)"
    then obtain req0 where s: "sent = snd (perform (optionsFrom cf) (ro_hops ob) req0 5)" by blast
    have "u_scheme u = ''http'' \<and> equalsIgnoreCase (u_host b) (u_host u)" if "(u, req, wire) \<in> set sent" for u req wire
      using perform_sent [OF that [unfolded s]] admit_sound [of "optionsFrom cf" req u] restricted_host [OF assms, of u] opts by auto
    moreover have "int (length sent) \<le> 6"
      using perform_length [where opts = "optionsFrom cf" and hs = "ro_hops ob" and request = req0 and remaining = 5] s by simp
    ultimately show ?thesis by (auto simp: sent list_all_iff)
  qed (simp add: sent)
qed

section \<open>Registration\<close>

definition generated_entry :: "test_suite \<Rightarrow> test_spec \<Rightarrow> (test_metadata \<times> test_spec) registry_entry" where
  "generated_entry s t = \<lparr>re_metadata = generated_metadata s t, re_factory = Some (\<lambda>_. Made (Some (generated_metadata s t, t)))\<rparr>"

lemma register_specs:
  "registry_ok reg \<Longrightarrow> registry_ok (fold (register_spec s) ts reg) \<and>
    (\<forall>x \<in> set (fold (register_spec s) ts reg). x \<in> set reg \<or> (\<exists>t \<in> set ts. x = (qualifiedName (generated_metadata s t), generated_entry s t)))"
proof (induction ts arbitrary: reg)
  case (Cons t ts)
  let ?reg = "register_spec s t reg"
  have ok: "registry_ok ?reg" using registry_ok_replace [OF Cons.prems] by (simp add: register_spec_def Let_def)
  have "x \<in> set reg \<or> x = (qualifiedName (generated_metadata s t), generated_entry s t)" if "x \<in> set ?reg" for x
    using that by (auto simp: register_spec_def Let_def registerOrReplace_def generated_entry_def dest: omap_set_member)
  with Cons.IH [OF ok] show ?case by fastforce
qed simp

lemma validate_safe:
  assumes "validate v s = Some (s', rp)"
  shows "list_all (spec_safe v) (su_tests s') \<and> subseq (su_tests s') (su_tests s)
    \<and> distinct (map (\<lambda>t. toLower (ts_name t)) (su_tests s')) \<and> int (length (su_tests s')) \<le> max 1 (ai_maxGeneratedTests (va_config v))
    \<and> (vr_valid rp \<longleftrightarrow> su_tests s' \<noteq> [])"
  using validate_facts [OF assms] by blast

lemma registered_facts:
  assumes "registry_ok reg" "registerSpecSuite reg s cf = Some (Inr (reg', n))"
  shows "registry_ok reg' \<and> 0 < n \<and> int n \<le> max 1 (ai_maxGeneratedTests (cf_ai cf)) \<and>
    list_all (\<lambda>(k, e). (k, e) \<in> set reg \<and> md_suite (re_metadata e) \<noteq> su_suite s \<or>
      (\<exists>t \<in> set (su_tests s). spec_safe (spec_validator cf) t \<and> e = generated_entry s t
         \<and> ''generated'' \<in> set (md_tags (re_metadata e)) \<and> md_suite (re_metadata e) = su_suite s)) reg'"
proof -
  from assms(2) obtain s' report where v: "validate (spec_validator cf) s = Some (s', report)" and valid: "vr_valid report"
    and reg': "reg' = fold (register_spec s') (su_tests s') (fst (removeSuite reg (su_suite s')))" and n: "n = length (su_tests s')"
    by (auto simp: registerSpecSuite_def split: if_splits)
  note sound = validate_safe [OF v]
  have same: "su_suite s' = su_suite s" "su_source s' = su_source s" using validate_keeps [OF v] by simp_all
  have md: "generated_metadata s' t = generated_metadata s t" for t by (simp add: generated_metadata_def same)
  have entry: "generated_entry s' t = generated_entry s t" for t by (simp add: generated_entry_def md)
  have tags: "''generated'' \<in> set (md_tags (generated_metadata s t))" for t by (auto simp: generated_metadata_def add_tag_once_def)
  let ?r0 = "fst (removeSuite reg (su_suite s'))"
  have r0: "registry_ok ?r0" by (rule registry_ok_remove [OF assms(1)])
  have old: "(k, e) \<in> set ?r0 \<Longrightarrow> (k, e) \<in> set reg \<and> md_suite (re_metadata e) \<noteq> su_suite s" for k e
    by (auto simp: removeSuite_def remove_loop_eq same)
  from register_specs [OF r0, of s' "su_tests s'"] have ok: "registry_ok reg'" and
    x: "\<And>k e. (k, e) \<in> set reg' \<Longrightarrow> (k, e) \<in> set ?r0 \<or> (\<exists>t \<in> set (su_tests s'). e = generated_entry s' t)"
    unfolding reg' by fastforce+
  have sub: "set (su_tests s') \<subseteq> set (su_tests s)" using sound by (blast dest: list_emb_set)
  have each: "(k, e) \<in> set reg \<and> md_suite (re_metadata e) \<noteq> su_suite s \<or>
      (\<exists>t \<in> set (su_tests s). spec_safe (spec_validator cf) t \<and> e = generated_entry s t
         \<and> ''generated'' \<in> set (md_tags (re_metadata e)) \<and> md_suite (re_metadata e) = su_suite s)" if member: "(k, e) \<in> set reg'" for k e
  proof (cases "(k, e) \<in> set ?r0")
    case False
    with x [OF member] obtain t where t: "t \<in> set (su_tests s')" "e = generated_entry s t" by (auto simp: entry)
    then have "re_metadata e = generated_metadata s t" by (simp add: generated_entry_def)
    with t tags sub sound show ?thesis by (auto simp: list_all_iff generated_metadata_def)
  qed (use old in blast)
  have "ai_maxGeneratedTests (va_config (spec_validator cf)) = ai_maxGeneratedTests (cf_ai cf)" by (simp add: spec_validator_def)
  with each ok sound valid show ?thesis by (auto simp: n list_all_iff)
qed

text \<open>What the registry holds afterwards, name by name.\<close>

lemma fold_register_find:
  assumes "registry_ok reg" "distinct (map (\<lambda>t. qualifiedName (generated_metadata s t)) ts)"
  shows "omap_find k (fold (register_spec s) ts reg) =
    (case find (\<lambda>t. qualifiedName (generated_metadata s t) = k) ts of Some t \<Rightarrow> Some (generated_entry s t) | None \<Rightarrow> omap_find k reg)"
  using assms
proof (induction ts arbitrary: reg)
  case (Cons t ts)
  have ok: "registry_ok (register_spec s t reg)"
    using registry_ok_replace [OF Cons.prems(1)] by (simp add: register_spec_def Let_def)
  have "omap_ok reg" using Cons.prems(1) by (simp add: registry_ok_def)
  then have one: "omap_find k (register_spec s t reg) =
      (if k = qualifiedName (generated_metadata s t) then Some (generated_entry s t) else omap_find k reg)"
    by (simp add: register_spec_def registerOrReplace_def generated_entry_def ordered.lookup_store Let_def)
  have "find (\<lambda>u. qualifiedName (generated_metadata s u) = k) ts = None" if "k = qualifiedName (generated_metadata s t)"
    using Cons.prems(2) that by (auto simp: find_None_iff) (metis image_eqI)
  with Cons.IH [OF ok] Cons.prems(2) one show ?case by (auto split: option.split)
qed simp

lemma map_of_filter_values:
  "distinct (map fst xs) \<Longrightarrow> map_of (filter (\<lambda>(k, e). P e) xs) k =
    (case map_of xs k of Some e \<Rightarrow> if P e then Some e else None | None \<Rightarrow> None)"
  by (induction xs) (auto simp: map_of_eq_None_iff rev_image_eqI split: option.split dest: map_of_SomeD)

lemma remove_suite_find:
  assumes "registry_ok reg"
  shows "omap_find k (fst (removeSuite reg suite)) =
    (case omap_find k reg of Some e \<Rightarrow> if md_suite (re_metadata e) \<noteq> suite then Some e else None | None \<Rightarrow> None)"
  using map_of_filter_values [of reg "\<lambda>e. md_suite (re_metadata e) \<noteq> suite" k] omap_ok_distinct [of reg] assms
  by (simp add: removeSuite_def remove_loop_eq omap_find_map_of registry_ok_def)

lemma generated_names_distinct:
  assumes "distinct (map (\<lambda>t. toLower (ts_name t)) ts)"
  shows "distinct (map (\<lambda>t. qualifiedName (generated_metadata s t)) ts)"
proof -
  have "inj_on (\<lambda>t. qualifiedName (generated_metadata s t)) (set ts)"
  proof (rule inj_onI)
    fix x y
    assume "x \<in> set ts" "y \<in> set ts" "qualifiedName (generated_metadata s x) = qualifiedName (generated_metadata s y)"
    then have "ts_name x = ts_name y" by (auto simp: qualifiedName_def generated_metadata_def split: if_splits)
    then have "toLower (ts_name x) = toLower (ts_name y)" by simp
    with assms \<open>x \<in> set ts\<close> \<open>y \<in> set ts\<close> show "x = y" by (auto simp: distinct_map dest: inj_onD)
  qed
  with assms show ?thesis by (simp add: distinct_map)
qed

text \<open>
  C17. Registering a suite registers exactly the tests the validator accepts, at least one and at most as
  many as configured, each under its own name, marked as generated, and each of them meets every rule of
  the validator; under any other name the registry afterwards holds what it held before, less the
  tests of this suite.
\<close>

theorem registered_tests_safe:
  assumes "registry_ok reg" "registerSpecSuite reg s cf = Some (Inr (reg', n))"
  shows "\<exists>s' report. validate (spec_validator cf) s = Some (s', report) \<and> n = length (su_tests s') \<and>
    0 < n \<and> int n \<le> max 1 (ai_maxGeneratedTests (cf_ai cf)) \<and> registry_ok reg' \<and>
    (\<forall>t \<in> set (su_tests s'). t \<in> set (su_tests s) \<and> spec_safe (spec_validator cf) t \<and>
       omap_find (qualifiedName (generated_metadata s t)) reg' = Some (generated_entry s t) \<and>
       ''generated'' \<in> set (md_tags (generated_metadata s t))) \<and>
    (\<forall>k. k \<notin> (\<lambda>t. qualifiedName (generated_metadata s t)) ` set (su_tests s') \<longrightarrow> omap_find k reg' =
       (case omap_find k reg of Some e \<Rightarrow> if md_suite (re_metadata e) \<noteq> su_suite s then Some e else None | None \<Rightarrow> None))"
proof -
  from assms(2) obtain s' report where v: "validate (spec_validator cf) s = Some (s', report)" and valid: "vr_valid report"
    and reg': "reg' = fold (register_spec s') (su_tests s') (fst (removeSuite reg (su_suite s')))" and n: "n = length (su_tests s')"
    by (auto simp: registerSpecSuite_def split: if_splits)
  note sound = validate_safe [OF v] and facts = registered_facts [OF assms]
  have same: "su_suite s' = su_suite s" "su_source s' = su_source s" using validate_keeps [OF v] by simp_all
  have md: "generated_metadata s' = generated_metadata s" by (simp add: generated_metadata_def same fun_eq_iff)
  have entry: "generated_entry s' = generated_entry s" by (simp add: generated_entry_def md fun_eq_iff)
  have dist: "distinct (map (\<lambda>t. qualifiedName (generated_metadata s t)) (su_tests s'))"
    using sound by (blast intro: generated_names_distinct)
  have lookup: "omap_find k reg' =
      (case find (\<lambda>t. qualifiedName (generated_metadata s t) = k) (su_tests s') of Some t \<Rightarrow> Some (generated_entry s t)
       | None \<Rightarrow> omap_find k (fst (removeSuite reg (su_suite s))))" for k
    using fold_register_find [OF registry_ok_remove [OF assms(1), of "su_suite s"], of s' "su_tests s'" k] dist
    unfolding reg' md entry same by simp
  have new: "omap_find (qualifiedName (generated_metadata s t)) reg' = Some (generated_entry s t)" if t: "t \<in> set (su_tests s')" for t
  proof -
    obtain u where u: "find (\<lambda>u. qualifiedName (generated_metadata s u) = qualifiedName (generated_metadata s t)) (su_tests s') = Some u"
      using t by (metis (mono_tags, lifting) find_None_iff2 option.exhaust)
    then have "u \<in> set (su_tests s')" "qualifiedName (generated_metadata s u) = qualifiedName (generated_metadata s t)"
      by (auto simp: find_Some_iff)
    with dist t have "u = t" by (auto simp: distinct_map dest: inj_onD)
    with u show ?thesis by (simp add: lookup)
  qed
  have old: "omap_find k reg' =
       (case omap_find k reg of Some e \<Rightarrow> if md_suite (re_metadata e) \<noteq> su_suite s then Some e else None | None \<Rightarrow> None)"
    if "k \<notin> (\<lambda>t. qualifiedName (generated_metadata s t)) ` set (su_tests s')" for k
  proof -
    have "find (\<lambda>t. qualifiedName (generated_metadata s t) = k) (su_tests s') = None" using that by (auto simp: find_None_iff)
    then show ?thesis by (simp add: lookup remove_suite_find [OF assms(1)])
  qed
  have "set (su_tests s') \<subseteq> set (su_tests s)" using sound by (blast dest: list_emb_set)
  moreover have "list_all (spec_safe (spec_validator cf)) (su_tests s')" using sound by blast
  moreover have "''generated'' \<in> set (md_tags (generated_metadata s t))" for t by (auto simp: generated_metadata_def add_tag_once_def)
  ultimately show ?thesis using v n new old facts by (intro exI [of _ s'] exI [of _ report]) (auto simp: list_all_iff)
qed

theorem generated_requests_confined_witness:
  "list_all (\<lambda>(u, req, wire). u_scheme u = ''http'' \<and> equalsIgnoreCase ''h'' (u_host u))
      (sx_sent (spec_execute sample_config sample_spec lost_request no_location 0 new_engine new_context))"
proof -
  have "parseUrl (tc_baseUrl (cf_api sample_config)) =
      Some \<lparr>u_scheme = ''http'', u_host = ''h'', u_port = 80, u_path = ''/'', u_query = [], u_fragment = []\<rparr>"
    unfolding sample_config_def by (simp, code_simp)
  from generated_requests_confined [OF this] show ?thesis by simp
qed

lemma sample_validates: "\<exists>report. validate (spec_validator sample_config) sample_suite = Some (sample_suite, report) \<and> vr_valid report"
proof -
  have s: "unsafe_name ''users'' = None" by code_simp
  have p: "restrictedTo ''http://h'' = default_policy\<lparr>up_hosts := [''h'']\<rparr>"
    "reject_raw (default_policy\<lparr>up_hosts := [''h'']\<rparr>) ''http://h/users'' = []" "joinUrl ''http://h'' ''/users'' = Some ''http://h/users''"
    "unsafe_endpoint ''/users'' = None" "unsafe_name ''list'' = None" "\<not> hasControlCharacter ''ETag''" by code_simp+
  have "validateOne (spec_validator sample_config) sample_spec 0 = Some []"
    by (simp add: validateOne_def sample_spec_def Let_def assertion_issues_def body_issues_def status_out_of_range_def
        allowedMethods_def endpoint_issues_def spec_validator_def sample_config_def p)
  then show ?thesis using s
    by (simp add: validate_def sample_suite_def Let_def is_fatal_def spec_validator_def sample_config_def default_config_def
        default_ai_config_def)
qed

lemma sample_registers: "\<exists>reg n. registerSpecSuite [] sample_suite sample_config = Some (Inr (reg, n))"
  using sample_validates by (auto simp: registerSpecSuite_def)

theorem registered_tests_safe_witness:
  "\<exists>reg n. registerSpecSuite [] sample_suite sample_config = Some (Inr (reg, n)) \<and>
     omap_find (qualifiedName (generated_metadata sample_suite sample_spec)) reg = Some (generated_entry sample_suite sample_spec)"
proof -
  from sample_registers obtain reg n where r: "registerSpecSuite [] sample_suite sample_config = Some (Inr (reg, n))" by blast
  have e: "registry_ok ([] :: spec_registry)" by (simp add: registry_ok_def)
  from sample_validates registered_tests_safe [OF e r] have "\<forall>t \<in> set (su_tests sample_suite).
      omap_find (qualifiedName (generated_metadata sample_suite t)) reg = Some (generated_entry sample_suite t)" by auto
  with r show ?thesis by (auto simp: sample_suite_def)
qed

section \<open>What the registration does not protect\<close>

text \<open>
  Names may contain dots, so a test of the suite \<open>a\<close> named \<open>b.c\<close> replaces the test \<open>c\<close> of the suite \<open>a.b\<close>.
\<close>

lemma dotted_name_replaces:
  "qualifiedName (generated_metadata (sample_suite\<lparr>su_suite := ''a''\<rparr>) (sample_spec\<lparr>ts_name := ''b.c''\<rparr>))
     = qualifiedName (sample_metadata ''a.b'' ''c'')"
  "unsafe_name ''b.c'' = None"
  by (simp add: qualifiedName_def generated_metadata_def sample_suite_def sample_metadata_def auto_metadata_def Let_def, code_simp)

text \<open>
  An assertion on the body whose expected value is not a text asks for the empty text, and always holds.
\<close>

lemma number_in_body_holds:
  "assertion_holds r \<lparr>sa_kind = BodyContains, sa_target = [], sa_expected = JInt 7\<rparr>"
  by (simp add: assertion_holds_def)

text \<open>A forbidden header whose name ends in a space is read by the server without it.\<close>

lemma spaced_header_arrives: "read_header_lines [''Authorization : Bearer x''] [] = [(''Authorization'', ''Bearer x'')]"
  by code_simp

end
