(* ===== verification/Command_Line.thy ===== *)
theory Command_Line
  imports Selector Test_Result
begin

text \<open>
  The command line (\<open>src/cli/CommandLine.cpp\<close>): the options each command knows, the parser of the
  arguments, and the test filter they ask for. The arguments are those after the program's name.
\<close>

section \<open>The options\<close>

definition globalOptions :: "string list" where
  "globalOptions = [''config'', ''log-level'', ''log-file'', ''log-json'', ''no-color'', ''color'', ''db'', ''no-db'', ''help'', ''version'',
     ''quiet'', ''verbose'']"

definition selectionOptions :: "string list" where
  "selectionOptions = [''suite'', ''test'', ''tag'', ''exclude-tag'', ''exclude-suite'', ''shard'', ''shards'', ''shuffle'', ''seed'',
     ''include-disabled'']"

definition isFlagOption :: "string \<Rightarrow> bool" where
  "isFlagOption name \<longleftrightarrow> name \<in> set [''help'', ''version'', ''no-color'', ''color'', ''log-json'', ''quiet'', ''verbose'', ''shuffle'',
     ''fail-fast'', ''no-db'', ''include-disabled'', ''json'', ''no-report'', ''mock'', ''register'', ''watch'', ''open'', ''dry-run'',
     ''no-persist'', ''gpu'', ''full'', ''prune'', ''all'', ''execute'', ''flaky'']"

definition commands :: "string list" where
  "commands = [''list'', ''run'', ''report'', ''diagnose'', ''history'', ''stats'', ''serve'', ''ai'', ''spec'', ''db'', ''version'', ''help'']"

definition options_table :: "(string \<times> string list) list" where
  "options_table =
     [(''list'', selectionOptions @ [''json'', ''format'']),
      (''run'', selectionOptions @ [''workers'', ''timeout'', ''fail-fast'', ''retry-failed'', ''label'', ''report-dir'', ''no-report'',
         ''json'', ''no-persist'', ''dry-run'']),
      (''report'', [''run'', ''format'', ''output'', ''open'']),
      (''diagnose'', [''json'', ''gpu'', ''full'']),
      (''history'', [''limit'', ''test'', ''json'', ''prune'', ''days'']),
      (''stats'', [''runs'', ''json'', ''flaky'', ''limit'']),
      (''serve'', [''host'', ''port'', ''workers'', ''static'', ''open'']),
      (''ai'', [''requirement'', ''file'', ''suite'', ''max-tests'', ''register'', ''run'', ''test'', ''json'', ''mock'', ''limit'']),
      (''spec'', [''file'', ''register'', ''execute'', ''json'', ''workers'']),
      (''db'', [''json'', ''prune'', ''days'', ''all'']),
      (''version'', [''json'']),
      (''help'', [])]"

definition knownOptions :: "string \<Rightarrow> string list" where
  "knownOptions command = (case alist_find command options_table of Some known \<Rightarrow> known | None \<Rightarrow> [])"

section \<open>Parsing\<close>

record parsed_command =
  pc_command :: string
  pc_subcommand :: string
  pc_options :: "(string \<times> string list) list"
  pc_positionals :: "string list"
  pc_help :: bool
  pc_version :: bool
  pc_error :: "string option"

definition no_command :: parsed_command where
  "no_command = \<lparr>pc_command = [], pc_subcommand = [], pc_options = [], pc_positionals = [], pc_help = False, pc_version = False,
     pc_error = None\<rparr>"

definition values_of :: "string \<Rightarrow> (string \<times> string list) list \<Rightarrow> string list" where
  "values_of name options = case_option [] id (omap_find name options)"

definition push_option :: "string \<Rightarrow> string list \<Rightarrow> parsed_command \<Rightarrow> parsed_command" where
  "push_option name new p = p\<lparr>pc_options := omap_set name (values_of name (pc_options p) @ new) (pc_options p)\<rparr>"

text \<open>Flags before the command word.\<close>

fun leading_flags :: "string list \<Rightarrow> parsed_command \<Rightarrow> string list \<times> parsed_command" where
  "leading_flags [] p = ([], p)"
| "leading_flags (a # as) p =
     (if a = ''-h'' \<or> a = ''--help'' then leading_flags as (p\<lparr>pc_help := True\<rparr>)
      else if a = ''-V'' \<or> a = ''--version'' then leading_flags as (p\<lparr>pc_version := True\<rparr>)
      else (a # as, p))"

definition option_quote :: "string \<Rightarrow> string" where
  "option_quote t = CHR 0x27 # t @ [CHR 0x27]"

definition unknown_option :: "string \<Rightarrow> parsed_command \<Rightarrow> string" where
  "unknown_option name p =
     ''unknown option '' @ option_quote (''--'' @ name)
     @ (if pc_command p \<noteq> [] then '' for command '' @ option_quote (pc_command p) else [])
     @ CHR 0x0A # ''Run '' @ option_quote (''testforge '' @ pc_command p @ '' --help'') @ '' to see the options.''"

text \<open>The name of a long option and the value given with it.\<close>

definition split_option :: "string \<Rightarrow> string \<times> string option" where
  "split_option t = (case find_char CHR ''='' t of None \<Rightarrow> (t, None) | Some eq \<Rightarrow> (take eq t, Some (drop (eq + 1) t)))"

text \<open>The main loop: \<open>Inl\<close> is an early return with an error.\<close>

fun parse_loop :: "string list \<Rightarrow> string list \<Rightarrow> parsed_command \<Rightarrow> parsed_command + parsed_command" where
  "parse_loop known [] p = Inr p"
| "parse_loop known (a # as) p =
     (if a = ''--'' then Inr (p\<lparr>pc_positionals := pc_positionals p @ as\<rparr>)
      else if \<not> startsWith a ''-'' then parse_loop known as (p\<lparr>pc_positionals := pc_positionals p @ [a]\<rparr>)
      else if a = ''-h'' then parse_loop known as (p\<lparr>pc_help := True\<rparr>)
      else if a = ''-V'' then parse_loop known as (p\<lparr>pc_version := True\<rparr>)
      else if \<not> startsWith a ''--'' then Inl (p\<lparr>pc_error := Some (''unknown short option '' @ option_quote a
        @ '' (only -h and -V are supported; use the long form otherwise)'')\<rparr>)
      else (case split_option (drop 2 a) of (name, inlineValue) \<Rightarrow>
        if name = ''help'' then parse_loop known as (p\<lparr>pc_help := True\<rparr>)
        else if name = ''version'' then parse_loop known as (p\<lparr>pc_version := True\<rparr>)
        else if name \<notin> set known \<and> name \<notin> set globalOptions then Inl (p\<lparr>pc_error := Some (unknown_option name p)\<rparr>)
        else (case inlineValue of
            Some v \<Rightarrow> parse_loop known as (push_option name [v] p)
          | None \<Rightarrow>
              if isFlagOption name then parse_loop known as (push_option name [] p)
              else (case as of
                  [] \<Rightarrow> Inl (p\<lparr>pc_error := Some (''option '' @ option_quote (''--'' @ name) @ '' requires a value'')\<rparr>)
                | v # rest \<Rightarrow>
                    if startsWith v ''--''
                    then Inl (p\<lparr>pc_error := Some (''option '' @ option_quote (''--'' @ name) @ '' requires a value'')\<rparr>)
                    else parse_loop known rest (push_option name [v] p)))))"

definition take_command :: "string list \<Rightarrow> parsed_command \<Rightarrow> string list \<times> parsed_command" where
  "take_command args p =
     (case args of a # as \<Rightarrow> if startsWith a ''-'' then (args, p) else (as, p\<lparr>pc_command := toLower a\<rparr>) | [] \<Rightarrow> (args, p))"

definition take_subcommand :: "string list \<Rightarrow> parsed_command \<Rightarrow> string list \<times> parsed_command" where
  "take_subcommand args p =
     (if pc_command p = ''ai'' \<or> pc_command p = ''db'' then
        (case args of a # as \<Rightarrow> if startsWith a ''-'' then (args, p) else (as, p\<lparr>pc_subcommand := toLower a\<rparr>) | [] \<Rightarrow> (args, p))
      else (args, p))"

definition finish_parse :: "parsed_command \<Rightarrow> parsed_command" where
  "finish_parse p =
     (let p = (if pc_command p = [] \<and> \<not> pc_help p \<and> \<not> pc_version p then p\<lparr>pc_help := True\<rparr> else p)
      in if pc_command p \<noteq> [] \<and> \<not> pc_help p \<and> \<not> pc_version p \<and> pc_command p \<notin> set commands
         then p\<lparr>pc_error := Some (''unknown command '' @ option_quote (pc_command p) @ CHR 0x0A # ''Run '' @ option_quote ''testforge help'' @ ''.'')\<rparr>
         else p)"

definition parse_args :: "string list \<Rightarrow> parsed_command" where
  "parse_args args =
     (case leading_flags args no_command of (args, p) \<Rightarrow>
      case take_command args p of (args, p) \<Rightarrow>
      case take_subcommand args p of (args, p) \<Rightarrow>
      case parse_loop (knownOptions (pc_command p)) args p of Inl p \<Rightarrow> p | Inr p \<Rightarrow> finish_parse p)"

section \<open>Reading the options\<close>

definition pc_has :: "string \<Rightarrow> parsed_command \<Rightarrow> bool" where
  "pc_has name p \<longleftrightarrow> omap_find name (pc_options p) \<noteq> None"

definition pc_value :: "string \<Rightarrow> string \<Rightarrow> parsed_command \<Rightarrow> string" where
  "pc_value name fallback p =
     (case omap_find name (pc_options p) of Some vs \<Rightarrow> if vs = [] then fallback else last vs | None \<Rightarrow> fallback)"

definition pc_values :: "string \<Rightarrow> parsed_command \<Rightarrow> string list" where
  "pc_values name p = filter (\<lambda>t. t \<noteq> []) (map trim (concat (map (\<lambda>raw. split raw CHR '','' True) (values_of name (pc_options p)))))"

definition pc_int64 :: "string \<Rightarrow> i64 \<Rightarrow> parsed_command \<Rightarrow> i64" where
  "pc_int64 name fallback p =
     (let raw = pc_value name [] p in if raw = [] then fallback else case_option fallback id (parseInt raw))"

definition pc_int :: "string \<Rightarrow> int \<Rightarrow> parsed_command \<Rightarrow> int" where
  "pc_int name fallback p = to_int32 (pc_int64 name (word_of_int fallback) p)"

definition pc_flag :: "string \<Rightarrow> bool \<Rightarrow> parsed_command \<Rightarrow> bool" where
  "pc_flag name fallback p =
     (case omap_find name (pc_options p) of
        None \<Rightarrow> fallback
      | Some vs \<Rightarrow> if vs = [] then True else case_option True id (parseBool (last vs)))"

definition filterFrom :: "parsed_command \<Rightarrow> test_filter" where
  "filterFrom p = \<lparr>tf_suites = pc_values ''suite'' p, tf_names = pc_values ''test'' p @ pc_positionals p, tf_tags = pc_values ''tag'' p,
     tf_excludeTags = pc_values ''exclude-tag'' p, tf_excludeSuites = pc_values ''exclude-suite'' p,
     tf_includeDisabled = pc_flag ''include-disabled'' False p\<rparr>"

definition selectionFrom :: "parsed_command \<Rightarrow> selection_options" where
  "selectionFrom p = \<lparr>so_shuffle = pc_flag ''shuffle'' False p, so_seed = pc_int64 ''seed'' 0 p,
     so_shardCount = max 1 (pc_int ''shards'' 1 p), so_shardIndex = max 0 (pc_int ''shard'' 0 p)\<rparr>"

section \<open>Only known options\<close>

definition options_known :: "parsed_command \<Rightarrow> bool" where
  "options_known p \<longleftrightarrow> omap_ok (pc_options p)
     \<and> list_all (\<lambda>(name, vs). name \<in> set (knownOptions (pc_command p)) \<or> name \<in> set globalOptions) (pc_options p)"

lemma push_known:
  assumes "options_known p" "name \<in> set (knownOptions (pc_command p)) \<or> name \<in> set globalOptions"
  shows "options_known (push_option name new p)"
  using assms by (auto simp: options_known_def push_option_def list_all_iff dest!: omap_set_member)

definition outcome :: "parsed_command + parsed_command \<Rightarrow> parsed_command" where
  "outcome r = (case r of Inl p \<Rightarrow> p | Inr p \<Rightarrow> p)"

text \<open>What every update of the parser keeps, its result has.\<close>

lemma parse_loop_keeps:
  assumes "\<And>q x. P q \<Longrightarrow> P (q\<lparr>pc_help := x\<rparr>)" "\<And>q x. P q \<Longrightarrow> P (q\<lparr>pc_version := x\<rparr>)" "\<And>q x. P q \<Longrightarrow> P (q\<lparr>pc_error := x\<rparr>)"
    "\<And>q x. P q \<Longrightarrow> P (q\<lparr>pc_positionals := x\<rparr>)"
    "\<And>q name new. P q \<Longrightarrow> name \<in> set known \<or> name \<in> set globalOptions \<Longrightarrow> P (push_option name new q)"
  shows "P p \<Longrightarrow> P (outcome (parse_loop known args p))"
proof (induction args arbitrary: p rule: length_induct)
  case (1 args)
  then have IH: "P (outcome (parse_loop known as' q))" if "length as' < length args" "P q" for as' q
    using that by blast
  show ?case
  proof (cases args)
    case (Cons a as)
    obtain name inlineValue where s: "split_option (drop 2 a) = (name, inlineValue)" by fastforce
    have IH1: "P q \<Longrightarrow> P (outcome (parse_loop known as q))" for q by (rule IH) (simp_all add: Cons)
    have IH2: "as = v # rest \<Longrightarrow> P q \<Longrightarrow> P (outcome (parse_loop known rest q))" for v rest q by (rule IH) (simp_all add: Cons)
    have stop: "P q \<Longrightarrow> P (outcome (Inl q))" "P q \<Longrightarrow> P (outcome (Inr q))" for q by (simp_all add: outcome_def)
    show ?thesis
      unfolding Cons parse_loop.simps s prod.case
      by (intro impI conjI allI IH1 IH2 stop assms \<open>P p\<close> | assumption | blast
        | (simp only: split: if_split option.split list.split))+
  qed (use 1(2) in \<open>simp add: outcome_def\<close>)
qed

lemma leading_flags_options: "pc_options (snd (leading_flags args p)) = pc_options p"
  by (induction args p rule: leading_flags.induct) simp_all

text \<open>
  Whatever the arguments, every option of the parsed command is one the command knows: an option
  that is misspelt never reaches a command.
\<close>

theorem only_known_options:
  "list_all (\<lambda>(name, vs). name \<in> set (knownOptions (pc_command (parse_args args))) \<or> name \<in> set globalOptions)
     (pc_options (parse_args args))"
proof -
  obtain as1 p1 where 1: "leading_flags args no_command = (as1, p1)" by fastforce
  obtain as2 p2 where 2: "take_command as1 p1 = (as2, p2)" by fastforce
  obtain as3 p3 where 3: "take_subcommand as2 p2 = (as3, p3)" by fastforce
  let ?known = "knownOptions (pc_command p3)" and ?r = "parse_loop (knownOptions (pc_command p3)) as3 p3"
  have "pc_options p1 = []" using leading_flags_options [of args no_command] 1 by (simp add: no_command_def)
  then have empty: "pc_options p3 = []"
    using 2 3 by (auto simp: take_command_def take_subcommand_def split: list.splits if_splits)
  define P where "P q \<longleftrightarrow> pc_command q = pc_command p3 \<and> options_known q" for q
  have "P (outcome ?r)"
  proof (rule parse_loop_keeps)
    show "P p3" using empty by (simp add: P_def options_known_def)
    show "P (push_option name new q)" if "P q" "name \<in> set ?known \<or> name \<in> set globalOptions" for q name new
      using that push_known [of q name new] by (simp add: P_def push_option_def)
  qed (auto simp: P_def options_known_def)
  moreover have "pc_options (finish_parse q) = pc_options q \<and> pc_command (finish_parse q) = pc_command q" for q
    by (simp add: finish_parse_def Let_def)
  ultimately show ?thesis
    by (cases ?r) (auto simp: parse_args_def 1 2 3 outcome_def P_def options_known_def)
qed

section \<open>Arguments read back\<close>

definition option_argument :: "string \<times> string \<Rightarrow> string" where
  "option_argument nv = ''--'' @ fst nv @ ''='' @ snd nv"

definition command_arguments :: "string \<Rightarrow> (string \<times> string) list \<Rightarrow> string list \<Rightarrow> string list" where
  "command_arguments command opts positionals = command # map option_argument opts @ ''--'' # positionals"

definition option_ok :: "string \<Rightarrow> string \<times> string \<Rightarrow> bool" where
  "option_ok command nv \<longleftrightarrow> CHR ''='' \<notin> set (fst nv) \<and> fst nv \<noteq> ''help'' \<and> fst nv \<noteq> ''version''
     \<and> fst nv \<in> set (knownOptions command) \<union> set globalOptions"

lemma option_argument_facts:
  assumes "CHR ''='' \<notin> set n"
  shows "option_argument (n, v) \<noteq> ''--''" "startsWith (option_argument (n, v)) ''-''" "startsWith (option_argument (n, v)) ''--''"
    "option_argument (n, v) \<noteq> ''-h''" "option_argument (n, v) \<noteq> ''-V''" "split_option (drop 2 (option_argument (n, v))) = (n, Some v)"
  using find_char_append [OF assms, of v] by (simp_all add: option_argument_def startsWith_prefix split_option_def)

lemma parse_rendered:
  "list_all (option_ok command) opts \<Longrightarrow>
    parse_loop (knownOptions command) (map option_argument opts @ ''--'' # positionals) p =
      Inr ((fold (\<lambda>(n, v). push_option n [v]) opts p)\<lparr>pc_positionals := pc_positionals p @ positionals\<rparr>)"
proof (induction opts arbitrary: p)
  case (Cons nv opts)
  obtain n v where nv: "nv = (n, v)" by fastforce
  with Cons.prems have n: "CHR ''='' \<notin> set n" "n \<noteq> ''help''" "n \<noteq> ''version''" "n \<in> set (knownOptions command) \<or> n \<in> set globalOptions"
    by (auto simp: option_ok_def)
  have "parse_loop (knownOptions command) (option_argument (n, v) # as) p = parse_loop (knownOptions command) as (push_option n [v] p)" for as
    using option_argument_facts [OF n(1)] n(2-4) by auto
  moreover have "pc_positionals (push_option n [v] p) = pc_positionals p" by (simp add: push_option_def)
  ultimately show ?case using Cons by (simp add: nv)
qed simp

lemma pushed_options:
  "omap_ok (pc_options p) \<Longrightarrow> (let q = fold (\<lambda>(n, v). push_option n [v]) opts p in
     omap_ok (pc_options q) \<and> q = p\<lparr>pc_options := pc_options q\<rparr> \<and>
     values_of name (pc_options q) = values_of name (pc_options p) @ map snd (filter (\<lambda>nv. fst nv = name) opts))"
proof (induction opts arbitrary: p)
  case (Cons nv opts)
  obtain n v where nv: "nv = (n, v)" by fastforce
  have "omap_ok (pc_options (push_option n [v] p))" using Cons.prems by (simp add: push_option_def omap_ok_set)
  from Cons.IH [OF this] show ?case using Cons.prems
    by (auto simp: nv Let_def push_option_def values_of_def)
qed simp

lemma command_facts:
  "command \<in> set commands \<Longrightarrow> command \<noteq> [] \<and> toLower command = command \<and> \<not> startsWith command ''-'' \<and> command \<noteq> ''-h''
     \<and> command \<noteq> ''--help'' \<and> command \<noteq> ''-V'' \<and> command \<noteq> ''--version''"
  by (auto simp: commands_def toLower_def byte_simps startsWith_prefix)

text \<open>
  A command is read back from its arguments: the command word, every value of every option in
  the order given, and after the two dashes every positional as it is, even one that looks like an
  option.
\<close>

theorem arguments_read_back:
  assumes "command \<in> set commands - {''ai'', ''db''}" "list_all (option_ok command) opts"
  shows "let p = parse_args (command_arguments command opts positionals) in
    pc_error p = None \<and> pc_command p = command \<and> pc_positionals p = positionals \<and> \<not> pc_help p
    \<and> values_of name (pc_options p) = map snd (filter (\<lambda>nv. fst nv = name) opts)"
proof -
  have c: "command \<in> set commands" "command \<noteq> ''ai''" "command \<noteq> ''db''" using assms(1) by auto
  let ?args = "map option_argument opts @ ''--'' # positionals"
  let ?p = "no_command\<lparr>pc_command := command\<rparr>"
  have "leading_flags (command # ?args) no_command = (command # ?args, no_command)"
    "take_command (command # ?args) no_command = (?args, ?p)" "take_subcommand ?args ?p = (?args, ?p)"
    using command_facts [OF c(1)] c by (simp_all add: take_command_def take_subcommand_def)
  then have p: "parse_args (command_arguments command opts positionals) =
      finish_parse ((fold (\<lambda>(n, v). push_option n [v]) opts ?p)\<lparr>pc_positionals := positionals\<rparr>)"
    using parse_rendered [OF assms(2), of positionals ?p] by (simp add: parse_args_def command_arguments_def no_command_def)
  obtain os where q: "fold (\<lambda>(n, v). push_option n [v]) opts ?p = ?p\<lparr>pc_options := os\<rparr>"
    "values_of name os = map snd (filter (\<lambda>nv. fst nv = name) opts)"
    using pushed_options [of ?p opts name] by (auto simp: Let_def no_command_def values_of_def)
  have "finish_parse (?p\<lparr>pc_options := os, pc_positionals := positionals\<rparr>) = ?p\<lparr>pc_options := os, pc_positionals := positionals\<rparr>"
    using command_facts [OF c(1)] c(1) by (simp add: finish_parse_def no_command_def)
  with q show ?thesis by (simp only: p Let_def) (simp add: no_command_def)
qed

theorem arguments_read_back_witness:
  "values_of ''tag'' (pc_options (parse_args (command_arguments ''run'' [(''tag'', ''a''), (''suite'', ''s''), (''tag'', ''-b'')] [''--x'']))) = [''a'', ''-b'']"
proof -
  have "list_all (option_ok ''run'') [(''tag'', ''a''), (''suite'', ''s''), (''tag'', ''-b'')]" "''run'' \<in> set commands - {''ai'', ''db''}"
    by (simp_all add: option_ok_def commands_def knownOptions_def options_table_def selectionOptions_def)
  from arguments_read_back [OF this(2,1), of "[''--x'']" "''tag''"] show ?thesis by (simp add: Let_def)
qed

end
