(* ===== verification/F64_Order.thy ===== *)
theory F64_Order
  imports F64_Arith
begin

text \<open>
  The order of doubles and their sums (IEEE 754), on the patterns of \<open>F64\<close>.
\<close>

text \<open>A number that orders all patterns but the NaNs; both zeros have the key 0.\<close>

definition f64_key :: "f64 \<Rightarrow> int" where
  "f64_key w = (if f64_neg w then - int (f64_raw w) else int (f64_raw w))"

definition f64_less :: "f64 \<Rightarrow> f64 \<Rightarrow> bool" where
  "f64_less a b \<longleftrightarrow> \<not> f64_nan a \<and> \<not> f64_nan b \<and> f64_key a < f64_key b"

definition f64_le :: "f64 \<Rightarrow> f64 \<Rightarrow> bool" where
  "f64_le a b \<longleftrightarrow> \<not> f64_nan a \<and> \<not> f64_nan b \<and> f64_key a \<le> f64_key b"

definition f64_abs :: "f64 \<Rightarrow> f64" where
  "f64_abs w = f64_make False (f64_raw w)"

definition f64_minus :: "f64 \<Rightarrow> f64" where
  "f64_minus w = f64_make (\<not> f64_neg w) (f64_raw w)"

definition f64_add :: "f64 \<Rightarrow> f64 \<Rightarrow> f64" where
  "f64_add a b =
     (let ra = f64_raw a; rb = f64_raw b
      in if f64_nan a \<or> f64_nan b then nan_bits
         else if f64_inf a then (if f64_inf b \<and> f64_neg a \<noteq> f64_neg b then nan_bits else a)
         else if f64_inf b then b
         else let signed = (\<lambda>w n. if f64_neg w then - int n else int n);
                  s = signed a (raw_num ra * raw_den rb) + signed b (raw_num rb * raw_den ra)
              in if s = 0 then f64_make (f64_neg a \<and> f64_neg b) 0
                 else f64_make (s < 0) (raw_of_frac (nat \<bar>s\<bar>) (raw_den ra * raw_den rb)))"

definition f64_sub :: "f64 \<Rightarrow> f64 \<Rightarrow> f64" where
  "f64_sub a b = f64_add a (f64_minus b)"

lemma f64_less_irrefl [simp]: "\<not> f64_less a a"
  by (simp add: f64_less_def)

lemma f64_less_trans: "f64_less a b \<Longrightarrow> f64_less b c \<Longrightarrow> f64_less a c"
  by (simp add: f64_less_def)

lemma f64_le_iff: "f64_le a b \<longleftrightarrow> f64_less a b \<or> f64_eq a b"
proof -
  have "f64_key a = f64_key b \<longleftrightarrow> a = b \<or> f64_raw a = 0 \<and> f64_raw b = 0"
  proof
    assume k: "f64_key a = f64_key b"
    then have r: "f64_raw a = f64_raw b" and "f64_raw a \<noteq> 0 \<Longrightarrow> f64_neg a = f64_neg b"
      by (auto simp: f64_key_def split: if_splits)
    moreover have "unat w = (if f64_neg w then 2 ^ 63 else 0) + f64_raw w" for w :: f64
    proof -
      have "unat w < 2 ^ 64" using unsigned_less [of w] by simp
      then show ?thesis by (cases "2 ^ 63 \<le> unat w") (auto simp: f64_neg_def f64_raw_def le_mod_geq)
    qed
    ultimately show "a = b \<or> f64_raw a = 0 \<and> f64_raw b = 0"
      by (metis word_unat_eq_iff)
  qed (auto simp: f64_key_def)
  then show ?thesis by (auto simp: f64_le_def f64_less_def f64_eq_def le_less)
qed

section \<open>Larger patterns, larger values\<close>

lemma raw_val_mono:
  assumes "s \<le> r"
  shows "raw_val s \<le> raw_val r"
proof -
  have expo: "raw_expo s \<le> raw_expo r"
  proof (cases "r < 2 ^ 52")
    case False
    then have "1 \<le> r div 2 ^ 52" by (simp add: Suc_leI div_greater_zero_iff)
    then show ?thesis using div_le_mono [OF assms, of "2 ^ 52"] False by (simp add: raw_expo_def)
  qed (use assms in \<open>simp add: raw_expo_def\<close>)
  show ?thesis
  proof (cases "raw_expo s = raw_expo r")
    case True
    with raw_split [of s] raw_split [of r] assms have "raw_mant s \<le> raw_mant r" by simp
    then show ?thesis using True by (simp add: raw_val_def mult_right_mono)
  next
    case False
    with expo have less: "raw_expo s + 1 \<le> raw_expo r" by simp
    then have big: "2 ^ 52 \<le> raw_mant r" using raw_mant_normal [of r] raw_expo_bound [of s] by simp
    have "real (raw_mant s) \<le> real (2 ^ 53)" using raw_mant_bound [of s] by (simp only: of_nat_le_iff less_imp_le)
    then have "raw_val s \<le> 2 ^ 53 * 2 powi raw_expo s" by (simp add: raw_val_def mult_right_mono)
    also have "\<dots> = 2 ^ 52 * 2 powi (raw_expo s + 1)" by (simp add: power_int_add)
    also have "\<dots> \<le> 2 ^ 52 * 2 powi raw_expo r" using less by (intro mult_left_mono power_int_increasing) simp_all
    also have "\<dots> \<le> real (raw_mant r) * 2 powi raw_expo r"
    proof (rule mult_right_mono)
      have "real (2 ^ 52) \<le> real (raw_mant r)" using big by (simp only: of_nat_le_iff)
      then show "2 ^ 52 \<le> real (raw_mant r)" by simp
    qed simp
    finally show ?thesis by (simp add: raw_val_def)
  qed
qed

lemma f64_le_make: "r < inf_raw \<Longrightarrow> s < inf_raw \<Longrightarrow> f64_le (f64_make False r) (f64_make False s) \<longleftrightarrow> r \<le> s"
  by (simp add: f64_le_def f64_nan_def f64_key_def f64_raw_make inf_raw_def)

text \<open>What evaluates the arithmetic on given patterns.\<close>

lemmas f64_eval = f64_of_int_def f64_mul_def f64_div_def f64_nan_def f64_inf_def f64_neg_def f64_finite_def f64_raw_def f64_make_def
  raw_num_def raw_den_def raw_mant_def raw_expo_def raw_of_frac_def frac_log_def compute_floorlog scale_num_def scale_den_def
  div_rne_def inf_raw_def Let_def

end
