(* ===== verification/Failure_Context.thy ===== *)
theory Failure_Context
  imports Test_Result Classifier Redact Json_Text F64_Order
begin

text \<open>
  The evidence sent to a language model (\<open>src/ai/FailureContext.cpp\<close>): what of a result goes in,
  through which redaction and up to which length, and the final guard on the size.

  An error (\<open>Inl\<close>) is the exception of a result whose metadata is no object.
\<close>

record context_limits =
  cl_maxLogLines :: nat
  cl_maxLogLineLength :: nat
  cl_maxErrorDetail :: nat
  cl_maxResponseExcerpt :: nat
  cl_maxTotalBytes :: nat

definition default_context_limits :: context_limits where
  "default_context_limits = \<lparr>cl_maxLogLines = 40, cl_maxLogLineLength = 300, cl_maxErrorDetail = 4000, cl_maxResponseExcerpt = 1500,
     cl_maxTotalBytes = 24 * 1024\<rparr>"

definition kAllowedMetadataKeys :: "string list" where
  "kAllowedMetadataKeys = [''http_method'', ''http_url'', ''http_status'', ''http_status_text'', ''response_time_ms'', ''content_type'',
     ''response_bytes'', ''transport_error'', ''response_excerpt'', ''timeout_ms'', ''attempt'', ''missing_dependency'']"

section \<open>Diagnostics\<close>

text \<open>The members of an object under the given keys, as far as they are there.\<close>

definition pick :: "string list \<Rightarrow> json \<Rightarrow> json" where
  "pick keys v = obj_of (concat (map (\<lambda>key. case json_find v key of Some x \<Rightarrow> [(key, x)] | None \<Rightarrow> []) keys))"

text \<open>The threshold \<open>85.0\<close>.\<close>

definition f64_85 :: f64 where "f64_85 = 0x4055400000000000"

definition under_pressure :: "json \<Rightarrow> bool" where
  "under_pressure disk = (case json_find disk ''used_percent'' of Some used \<Rightarrow> f64_le f64_85 (doubleOr used 0) | None \<Rightarrow> False)"

definition distillDiagnostics :: "json \<Rightarrow> json" where
  "distillDiagnostics d =
     (if json_size d = 0 then JObject []
      else obj_of
       ((case json_path d ''system.os'' of
           Some os \<Rightarrow> [(''os'', pick [''distribution'', ''kernel_version'', ''architecture'', ''inside_container''] os)] | None \<Rightarrow> [])
        @ (case json_path d ''system.cpu'' of
           Some cpu \<Rightarrow> [(''cpu'', pick [''logical_cores'', ''load_average_1m'', ''utilization_percent''] cpu)] | None \<Rightarrow> [])
        @ (case json_path d ''system.memory'' of
           Some memory \<Rightarrow> [(''memory'', pick [''total_kb'', ''available_kb'', ''used_percent''] memory)] | None \<Rightarrow> [])
        @ (case json_path d ''system.disks'' of
           Some (JArray disks) \<Rightarrow>
             (let tight = filter under_pressure disks in if tight \<noteq> [] then [(''disks_under_pressure'', JArray tight)] else []) | _ \<Rightarrow> [])
        @ (case json_find d ''gpu'' of
           Some gpu \<Rightarrow> [(''gpu'', pick [''available'', ''is_mock_data'', ''summary'', ''unavailable_reason'', ''driver_version''] gpu)] | None \<Rightarrow> [])
        @ (case json_find d ''system_logs'' of
           Some (JArray lines) \<Rightarrow> [(''recent_system_logs'', JArray (drop (length lines - 10) lines))] | _ \<Rightarrow> [])))"

section \<open>The document\<close>

definition shown :: "nat \<Rightarrow> string \<Rightarrow> string" where
  "shown limit t = String_Utils.truncate (redactSecrets t) limit"

definition context_metadata :: "context_limits \<Rightarrow> (string \<times> json) list \<Rightarrow> json" where
  "context_metadata limits ms = obj_of (concat (map (\<lambda>(key, v).
     if key \<notin> set kAllowedMetadataKeys then []
     else (case v of
         JString t \<Rightarrow> [(key, JString (shown (if key = ''response_excerpt'' then cl_maxResponseExcerpt limits else 500) t))]
       | _ \<Rightarrow> [(key, v)])) ms))"

definition context_logs :: "context_limits \<Rightarrow> string list \<Rightarrow> json" where
  "context_logs limits logs =
     JArray (map (\<lambda>l. JString (shown (cl_maxLogLineLength limits) l)) (drop (length logs - cl_maxLogLines limits) logs))"

definition context_test :: "test_result \<Rightarrow> json" where
  "context_test r = obj_of [(''name'', JString (result_name r)), (''suite'', JString (r_suiteName r)), (''tags'', strings_json (r_tags r))]"

definition context_outcome :: "context_limits \<Rightarrow> test_result \<Rightarrow> (string \<times> json) list \<Rightarrow> json" where
  "context_outcome limits r ms = obj_of
     [(''status'', JString (status_str (r_status r))), (''failure_category'', JString (category_str (r_category r))),
      (''category_meaning'', JString (explain (r_category r))), (''duration_ms'', JInt (r_duration r)),
      (''attempt'', JInt (word_of_int (r_attempt r))), (''error_message'', JString (shown 1000 (r_errorMessage r))),
      (''error_detail'', JString (shown (cl_maxErrorDetail limits) (r_errorDetail r))), (''metadata'', context_metadata limits ms),
      (''log_tail'', context_logs limits (r_logs r))]"

definition truncation_note :: string where
  "truncation_note = ''The log tail and error detail were removed because the context exceeded the configured size budget.''"

text \<open>\<open>context.set(key, v)\<close> on an object.\<close>

definition with_member :: "string \<Rightarrow> json \<Rightarrow> json \<Rightarrow> json" where
  "with_member key v doc = (case json_set doc key v of Inr d \<Rightarrow> d | Inl _ \<Rightarrow> doc)"

definition trimmed_outcome :: "test_result \<Rightarrow> json \<Rightarrow> json" where
  "trimmed_outcome r outcome =
     with_member ''error_detail'' (JString (String_Utils.truncate (r_errorMessage r) 500)) (with_member ''log_tail'' (JArray []) outcome)"

definition context_document :: "context_limits \<Rightarrow> test_result \<Rightarrow> (string \<times> json) list \<Rightarrow> json" where
  "context_document limits r ms = obj_of
     [(''content_type'', JString ''testforge.failure_context''), (''trust_level'', JString ''untrusted_data''),
      (''test'', context_test r), (''result'', context_outcome limits r ms), (''diagnostics'', distillDiagnostics (r_diagnostics r))]"

definition context_build :: "context_limits \<Rightarrow> test_result \<Rightarrow> json_error + json" where
  "context_build limits r =
     (case asObject (r_metadata r) of
        Inl e \<Rightarrow> Inl e
      | Inr ms \<Rightarrow>
          (let doc = context_document limits r ms
           in Inr (if cl_maxTotalBytes limits < length (json_dump doc)
              then with_member ''truncation_note'' (JString truncation_note) (with_member ''truncated'' (JBool True)
                (with_member ''result'' (trimmed_outcome r (context_outcome limits r ms)) doc))
              else doc)))"

definition withRunContext :: "json \<Rightarrow> test_run \<Rightarrow> json option" where
  "withRunContext doc run =
     map_option (\<lambda>st. with_member ''run'' (obj_of
       ([(''run_id'', JString (run_id run)), (''started_at'', JString (toIso8601 (run_startedAt run))),
         (''workers'', JInt (word_of_int (run_workers run))), (''hostname'', JString (run_hostname run))]
        @ (if run_gitCommit run \<noteq> [] then [(''git_commit'', JString (run_gitCommit run))] else [])
        @ [(''run_totals'', obj_of [(''total'', JInt (word_of_int (st_total st))), (''passed'', JInt (word_of_int (st_passed st))),
             (''failed'', JInt (word_of_int (st_failed st))), (''errors'', JInt (word_of_int (st_errors st))),
             (''timeouts'', JInt (word_of_int (st_timeouts st)))])])) doc)
       (compute_statistics (run_results run) (run_duration run))"

definition withHistory :: "json \<Rightarrow> json \<Rightarrow> json" where
  "withHistory doc history = with_member ''history'' history doc"

section \<open>What the document shows\<close>

lemma with_member_find:
  "isObject doc \<Longrightarrow> json_find (with_member key v doc) k = (if k = key then Some v else json_find doc k)"
  "isObject doc \<Longrightarrow> isObject (with_member key v doc)"
  by (cases doc; simp add: with_member_def)+

lemma isObject_context_outcome [simp]: "isObject (context_outcome limits r ms)"
  by (simp add: context_outcome_def)

lemma isObject_trimmed [simp]: "isObject outcome \<Longrightarrow> isObject (trimmed_outcome r outcome)"
  by (simp add: trimmed_outcome_def with_member_find)

lemma shown_length: "length (shown limit t) \<le> limit"
  by (simp add: shown_def length_truncate)

text \<open>What is shown of a metadata value: a text is redacted and cut, any other value is passed on as it is.\<close>

definition shown_value :: "context_limits \<Rightarrow> string \<Rightarrow> json \<Rightarrow> json" where
  "shown_value limits key v =
     (case v of
        JString t \<Rightarrow> JString (shown (if key = ''response_excerpt'' then cl_maxResponseExcerpt limits else 500) t)
      | _ \<Rightarrow> v)"

lemma map_of_concat_fresh:
  "map_of (concat (map (\<lambda>(k, v). if P k then [(k, f k v)] else []) ms)) key = (if P key then map_option (f key) (map_of ms key) else None)"
  by (induction ms) auto

lemma rev_concat_single:
  "rev (concat (map (\<lambda>(k, v). if P k then [(k, f k v)] else []) ms)) = concat (map (\<lambda>(k, v). if P k then [(k, f k v)] else []) (rev ms))"
  by (induction ms) auto

lemma context_metadata_find:
  "json_find (context_metadata limits ms) key =
     (if key \<in> set kAllowedMetadataKeys then map_option (shown_value limits key) (map_of (rev ms) key) else None)"
proof -
  have "context_metadata limits ms =
      obj_of (concat (map (\<lambda>(k, v). if k \<in> set kAllowedMetadataKeys then [(k, shown_value limits k v)] else []) ms))"
    unfolding context_metadata_def
    by (intro arg_cong [where f = obj_of] arg_cong [where f = concat] map_cong refl) (auto simp: shown_value_def split: json.splits)
  then show ?thesis by (simp only: json_find_obj_of rev_concat_single map_of_concat_fresh)
qed

lemma context_document_find:
  "isObject (context_document limits r ms)"
  "json_find (context_document limits r ms) ''result'' = Some (context_outcome limits r ms)"
  "json_find (context_document limits r ms) ''truncated'' = None"
  by (simp_all add: context_document_def json_find_obj_of)

lemma context_outcome_find:
  "json_find (context_outcome limits r ms) ''error_message'' = Some (JString (shown 1000 (r_errorMessage r)))"
  "json_find (context_outcome limits r ms) ''error_detail'' = Some (JString (shown (cl_maxErrorDetail limits) (r_errorDetail r)))"
  "json_find (context_outcome limits r ms) ''metadata'' = Some (context_metadata limits ms)"
  "json_find (context_outcome limits r ms) ''log_tail'' = Some (context_logs limits (r_logs r))"
  by (simp_all add: context_outcome_def json_find_obj_of)

text \<open>The two forms of the document: whole, or cut at the budget.\<close>

lemma context_build_cases:
  assumes "context_build limits r = Inr doc"
  obtains (whole) ms where "asObject (r_metadata r) = Inr ms" "doc = context_document limits r ms" "json_find doc ''truncated'' = None"
  | (cut) ms where "asObject (r_metadata r) = Inr ms" "json_find doc ''truncated'' = Some (JBool True)"
      "json_find doc ''result'' = Some (trimmed_outcome r (context_outcome limits r ms))"
proof -
  from assms obtain ms where ms: "asObject (r_metadata r) = Inr ms" by (auto simp: context_build_def split: sum.splits)
  note doc = assms [unfolded context_build_def ms, simplified Let_def sum.case]
  show ?thesis
  proof (cases "cl_maxTotalBytes limits < length (json_dump (context_document limits r ms))")
    case True
    with doc have "doc = with_member ''truncation_note'' (JString truncation_note) (with_member ''truncated'' (JBool True)
                (with_member ''result'' (trimmed_outcome r (context_outcome limits r ms)) (context_document limits r ms)))" by simp
    then show ?thesis using cut [OF ms] by (simp add: with_member_find context_document_find(1))
  next
    case False
    with doc have "doc = context_document limits r ms" by simp
    then show ?thesis using whole [OF ms] by (simp add: context_document_find)
  qed
qed

text \<open>
  C31. Of the result of a test, a failure context that was not cut shows the messages only redacted
  and up to their budgets; of the metadata exactly the members under the keys of the allow-list, where
  a value that is itself a text is redacted and cut (an array or an object is passed on as it is);
  and of the log exactly the last lines, as many as configured, each redacted and cut. Names, tags
  and diagnostics, which the context shows beside the result, are not redacted.
\<close>

theorem context_redacted:
  assumes "context_build limits r = Inr doc" "json_find doc ''truncated'' = None"
  shows "\<exists>ms outcome metadata. asObject (r_metadata r) = Inr ms \<and> json_find doc ''result'' = Some outcome
    \<and> json_find outcome ''error_message'' = Some (JString (shown 1000 (r_errorMessage r)))
    \<and> json_find outcome ''error_detail'' = Some (JString (shown (cl_maxErrorDetail limits) (r_errorDetail r)))
    \<and> json_find outcome ''metadata'' = Some metadata
    \<and> (\<forall>key. json_find metadata key =
        (if key \<in> set kAllowedMetadataKeys then map_option (shown_value limits key) (map_of (rev ms) key) else None))
    \<and> json_find outcome ''log_tail'' = Some (JArray (map (\<lambda>l. JString (shown (cl_maxLogLineLength limits) l))
        (drop (length (r_logs r) - cl_maxLogLines limits) (r_logs r))))"
  using assms(1)
proof (cases rule: context_build_cases)
  case (whole ms)
  show ?thesis
    unfolding whole(2) context_document_find(2)
    by (intro exI [of _ ms] exI [of _ "context_outcome limits r ms"] exI [of _ "context_metadata limits ms"] conjI allI
        whole(1) context_metadata_find refl)
      (simp_all only: context_outcome_find context_logs_def)
qed (use assms(2) in simp)

text \<open>A text inside an array is passed on as it is.\<close>

lemma nested_text_unredacted:
  "shown_value limits ''http_url'' (JArray [JString ''password=hunter2'']) = JArray [JString ''password=hunter2'']"
  by (simp add: shown_value_def)

definition leaked_result :: test_result where
  "leaked_result = default_result\<lparr>r_suiteName := ''users'', r_testName := ''list'', r_errorMessage := ''boom'', r_logs := [''one'', ''two''],
     r_metadata := JObject [(''http_method'', JString ''GET''), (''note'', JString ''private'')]\<rparr>"

definition leaked_limits :: context_limits where
  "leaked_limits = default_context_limits\<lparr>cl_maxTotalBytes := length (json_dump (context_document default_context_limits leaked_result
     [(''http_method'', JString ''GET''), (''note'', JString ''private'')]))\<rparr>"

lemma context_document_total [simp]: "context_document (limits\<lparr>cl_maxTotalBytes := n\<rparr>) r ms = context_document limits r ms"
  by (simp add: context_document_def context_outcome_def context_metadata_def context_logs_def cong: if_cong json.case_cong)

lemma leaked_builds: "\<exists>doc. context_build leaked_limits leaked_result = Inr doc \<and> json_find doc ''truncated'' = None"
  by (simp add: context_build_def leaked_limits_def Let_def leaked_result_def context_document_find)

theorem context_redacted_witness:
  "\<exists>doc outcome metadata. context_build leaked_limits leaked_result = Inr doc \<and> json_find doc ''result'' = Some outcome
    \<and> json_find outcome ''error_message'' = Some (JString (shown 1000 ''boom''))
    \<and> json_find outcome ''metadata'' = Some metadata \<and> json_find metadata ''http_method'' = Some (JString (shown 500 ''GET''))
    \<and> json_find metadata ''note'' = None"
proof -
  obtain doc where d: "context_build leaked_limits leaked_result = Inr doc" "json_find doc ''truncated'' = None"
    using leaked_builds by blast
  from context_redacted [OF d] d(1) show ?thesis
    by (fastforce simp: leaked_result_def kAllowedMetadataKeys_def shown_value_def)
qed

section \<open>A document over its budget\<close>

text \<open>
  A document over the budget is cut by the text of the message, which does not pass through the
  redaction again: the first 500 bytes of the message as the test gave it.
\<close>

lemma oversized_context_unredacted:
  assumes "context_build limits r = Inr doc" "json_find doc ''truncated'' \<noteq> None"
  shows "\<exists>outcome. json_find doc ''result'' = Some outcome
    \<and> json_find outcome ''error_detail'' = Some (JString (String_Utils.truncate (r_errorMessage r) 500))
    \<and> json_find outcome ''log_tail'' = Some (JArray [])"
  using assms(1)
proof (cases rule: context_build_cases)
  case (cut ms)
  then show ?thesis by (simp add: with_member_find trimmed_outcome_def)
qed (use assms(2) in simp)

end
