(* ===== verification/Repository.thy ===== *)
theory Repository
  imports Test_Result Json_Text
begin

text \<open>
  The results database (\<open>src/persistence/SqliteResultRepository.cpp\<close>, the tables of
  \<open>src/persistence/Schema.cpp\<close>): a table is the list of its rows, a statement of the source what its SQL
  says of these lists, and a value that passes through a column is written and read as the code does.

  SQLite itself is not modelled. \<open>test_runs\<close> has \<open>run_id\<close> as its primary key and the other tables a
  foreign key on it that cascades, which the connection enforces. Rows with equal keys have no order
  that SQL promises, so every \<open>ORDER BY\<close> is a function given to the definitions. A statement refused by
  a foreign key is \<open>None\<close> where the source throws \<open>PersistenceError\<close>; a reader is \<open>None\<close> where a time
  stamp is beyond the clock's range.
\<close>

section \<open>Tables\<close>

record run_row =
  rr_id :: string
  rr_label :: string
  rr_started :: int
  rr_finished :: "int option"
  rr_duration :: int
  rr_workers :: int
  rr_filter :: string
  rr_gitCommit :: string
  rr_hostname :: string
  rr_environment :: string
  rr_total :: int
  rr_passed :: int
  rr_failed :: int
  rr_skipped :: int
  rr_errors :: int
  rr_timeouts :: int
  rr_completed :: int

record result_row =
  tr_runId :: string
  tr_testId :: string
  tr_testName :: string
  tr_suiteName :: string
  tr_qualifiedName :: string
  tr_status :: string
  tr_category :: string
  tr_start :: int
  tr_end :: int
  tr_duration :: int
  tr_errorMessage :: string
  tr_errorDetail :: string
  tr_logs :: string
  tr_tags :: string
  tr_metadata :: string
  tr_diagnostics :: string
  tr_attempt :: int
  tr_flaky :: int
  tr_worker :: string

record event_row =
  ev_runId :: string
  ev_created :: int
  ev_type :: string
  ev_payload :: string

record database =
  db_runs :: "run_row list"
  db_results :: "result_row list"
  db_events :: "event_row list"
  db_versions :: "int list"

section \<open>Columns\<close>

definition capped :: "string \<Rightarrow> nat \<Rightarrow> string" where
  "capped t limit = (if length t \<le> limit then t else String_Utils.truncate t limit)"

definition parseJsonColumn :: "string \<Rightarrow> json \<Rightarrow> json" where
  "parseJsonColumn t fallback =
     (if t = [] then fallback else (case tryParse default_limits t of Inr v \<Rightarrow> v | Inl _ \<Rightarrow> fallback))"

definition parseStringArray :: "string \<Rightarrow> string list" where
  "parseStringArray t =
     (case parseJsonColumn t (JArray []) of
        JArray xs \<Rightarrow> concat (map (\<lambda>x. case x of JString s \<Rightarrow> [s] | _ \<Rightarrow> []) xs)
      | _ \<Rightarrow> [])"

definition dumpStringArray :: "string list \<Rightarrow> string" where
  "dumpStringArray items = json_dump (strings_json items)"

text \<open>\<open>static_cast<int>\<close> of an \<open>INTEGER\<close> cell.\<close>

definition cell_int32 :: "int \<Rightarrow> int" where
  "cell_int32 n = to_int32 (word_of_int n)"

definition result_cells :: "test_result \<Rightarrow> result_row" where
  "result_cells r =
     \<lparr>tr_runId = r_runId r, tr_testId = r_testId r, tr_testName = r_testName r, tr_suiteName = r_suiteName r,
      tr_qualifiedName = result_name r, tr_status = status_str (r_status r), tr_category = category_str (r_category r),
      tr_start = toEpochMillis (r_startTime r), tr_end = toEpochMillis (r_endTime r), tr_duration = sint (r_duration r),
      tr_errorMessage = capped (r_errorMessage r) 4000, tr_errorDetail = capped (r_errorDetail r) 16000,
      tr_logs = capped (dumpStringArray (r_logs r)) 64000, tr_tags = dumpStringArray (r_tags r),
      tr_metadata = capped (json_dump (r_metadata r)) 64000, tr_diagnostics = capped (json_dump (r_diagnostics r)) 128000,
      tr_attempt = r_attempt r, tr_flaky = (if r_flaky r then 1 else 0), tr_worker = r_worker r\<rparr>"

definition readResultRow :: "result_row \<Rightarrow> test_result option" where
  "readResultRow row =
     (case (fromEpochMillis (tr_start row), fromEpochMillis (tr_end row)) of
        (Some start, Some finish) \<Rightarrow> Some
          \<lparr>r_testId = tr_testId row, r_testName = tr_testName row, r_suiteName = tr_suiteName row, r_runId = tr_runId row,
           r_status = (case testStatusFromString (tr_status row) of Some s \<Rightarrow> s | None \<Rightarrow> r_status default_result),
           r_category = (case failureCategoryFromString (tr_category row) of Some c \<Rightarrow> c | None \<Rightarrow> r_category default_result),
           r_startTime = start, r_endTime = finish, r_duration = word_of_int (tr_duration row),
           r_errorMessage = tr_errorMessage row, r_errorDetail = tr_errorDetail row, r_logs = parseStringArray (tr_logs row),
           r_tags = parseStringArray (tr_tags row), r_metadata = parseJsonColumn (tr_metadata row) (JObject []),
           r_diagnostics = parseJsonColumn (tr_diagnostics row) (JObject []), r_attempt = cell_int32 (tr_attempt row),
           r_flaky = (tr_flaky row \<noteq> 0), r_worker = tr_worker row\<rparr>
      | _ \<Rightarrow> None)"

text \<open>\<open>getInt\<close> of a cell that is \<open>NULL\<close> is 0.\<close>

definition readRunRow :: "run_row \<Rightarrow> test_run option" where
  "readRunRow row =
     (case (fromEpochMillis (rr_started row), fromEpochMillis (case rr_finished row of Some t \<Rightarrow> t | None \<Rightarrow> 0)) of
        (Some start, Some finish) \<Rightarrow> Some
          \<lparr>run_id = rr_id row, run_label = rr_label row, run_startedAt = start, run_finishedAt = finish,
           run_duration = word_of_int (rr_duration row), run_workers = cell_int32 (rr_workers row), run_filter = rr_filter row,
           run_gitCommit = rr_gitCommit row, run_hostname = rr_hostname row,
           run_environment = parseJsonColumn (rr_environment row) (JObject []), run_results = [], run_cancellationReason = []\<rparr>
      | _ \<Rightarrow> None)"

section \<open>Statements that change the tables\<close>

definition run_known :: "string \<Rightarrow> database \<Rightarrow> bool" where
  "run_known i db = list_ex (\<lambda>row. rr_id row = i) (db_runs db)"

text \<open>A deletion of runs takes their results and events along (\<open>ON DELETE CASCADE\<close>).\<close>

definition delete_runs :: "(run_row \<Rightarrow> bool) \<Rightarrow> database \<Rightarrow> database" where
  "delete_runs gone db =
     (let ids = map rr_id (filter gone (db_runs db))
      in db\<lparr>db_runs := filter (\<lambda>row. \<not> gone row) (db_runs db),
            db_results := filter (\<lambda>row. tr_runId row \<notin> set ids) (db_results db),
            db_events := filter (\<lambda>row. ev_runId row \<notin> set ids) (db_events db)\<rparr>)"

definition fresh_run_row :: "test_run \<Rightarrow> run_row" where
  "fresh_run_row run =
     \<lparr>rr_id = run_id run, rr_label = run_label run, rr_started = toEpochMillis (run_startedAt run), rr_finished = None,
      rr_duration = 0, rr_workers = run_workers run, rr_filter = run_filter run, rr_gitCommit = run_gitCommit run,
      rr_hostname = run_hostname run, rr_environment = json_dump (run_environment run), rr_total = 0, rr_passed = 0, rr_failed = 0,
      rr_skipped = 0, rr_errors = 0, rr_timeouts = 0, rr_completed = 0\<rparr>"

text \<open>\<open>INSERT OR REPLACE\<close>: a row of the same key is deleted first.\<close>

definition beginRun :: "test_run \<Rightarrow> database \<Rightarrow> database" where
  "beginRun run db =
     (let db = delete_runs (\<lambda>row. rr_id row = run_id run) db in db\<lparr>db_runs := db_runs db @ [fresh_run_row run]\<rparr>)"

definition saveResult :: "test_result \<Rightarrow> database \<Rightarrow> database option" where
  "saveResult r db =
     (if run_known (r_runId r) db then Some (db\<lparr>db_results := db_results db @ [result_cells r]\<rparr>) else None)"

definition finished_row :: "test_run \<Rightarrow> run_statistics \<Rightarrow> run_row \<Rightarrow> run_row" where
  "finished_row run st row =
     row\<lparr>rr_finished := Some (toEpochMillis (run_finishedAt run)), rr_duration := sint (run_duration run), rr_total := st_total st,
         rr_passed := st_passed st, rr_failed := st_failed st, rr_skipped := st_skipped st, rr_errors := st_errors st,
         rr_timeouts := st_timeouts st, rr_completed := 1\<rparr>"

text \<open>\<open>None\<close> is the undefined sum of durations in the statistics.\<close>

definition completeRun :: "test_run \<Rightarrow> database \<Rightarrow> database option" where
  "completeRun run db =
     map_option (\<lambda>st. db\<lparr>db_runs := map (\<lambda>row. if rr_id row = run_id run then finished_row run st row else row) (db_runs db)\<rparr>)
       (compute_statistics (run_results run) (run_duration run))"

definition recordEvent :: "int \<Rightarrow> string \<Rightarrow> string \<Rightarrow> json \<Rightarrow> database \<Rightarrow> database option" where
  "recordEvent now i event payload db =
     (if run_known i db then
        Some (db\<lparr>db_events := db_events db @ [\<lparr>ev_runId = i, ev_created = toEpochMillis now, ev_type = event,
                  ev_payload = capped (json_dump payload) 128000\<rparr>]\<rparr>)
      else None)"

text \<open>The deletion of old runs: the tables afterwards and how many runs went.\<close>

definition pruneOlderThan :: "int \<Rightarrow> int \<Rightarrow> database \<Rightarrow> database \<times> int" where
  "pruneOlderThan now days db =
     (if days \<le> 0 then (db, 0)
      else (let old = (\<lambda>row. rr_started row < toEpochMillis now - days * 86400000)
            in (delete_runs old db, int (length (filter old (db_runs db))))))"

text \<open>The migrations newer than what the table of versions records are applied and recorded, in order.\<close>

definition migration_versions :: "int list" where
  "migration_versions = [1]"

definition applied_version :: "database \<Rightarrow> int" where
  "applied_version db = (if db_versions db = [] then 0 else Max (set (db_versions db)))"

definition migrate :: "database \<Rightarrow> database" where
  "migrate db = db\<lparr>db_versions := db_versions db @ filter (\<lambda>v. applied_version db < v) migration_versions\<rparr>"

section \<open>Queries\<close>

fun read_rows :: "('r \<Rightarrow> 'a option) \<Rightarrow> 'r list \<Rightarrow> 'a list option" where
  "read_rows f [] = Some []"
| "read_rows f (row # rows) = (case f row of None \<Rightarrow> None | Some a \<Rightarrow> map_option ((#) a) (read_rows f rows))"

definition loadResults :: "(result_row list \<Rightarrow> result_row list) \<Rightarrow> string \<Rightarrow> database \<Rightarrow> test_result list option" where
  "loadResults order i db = read_rows readResultRow (order (filter (\<lambda>row. tr_runId row = i) (db_results db)))"

text \<open>A run that is not there is \<open>Some None\<close>.\<close>

definition loadRun :: "(result_row list \<Rightarrow> result_row list) \<Rightarrow> string \<Rightarrow> database \<Rightarrow> test_run option option" where
  "loadRun order i db =
     (case find (\<lambda>row. rr_id row = i) (db_runs db) of
        None \<Rightarrow> Some None
      | Some row \<Rightarrow>
          (case (readRunRow row, loadResults order i db) of
             (Some run, Some results) \<Rightarrow> Some (Some (run\<lparr>run_results := results\<rparr>))
           | _ \<Rightarrow> None))"

record run_query =
  rq_label :: "string option"
  rq_since :: "int option"
  rq_until :: "int option"
  rq_limit :: int
  rq_offset :: int

definition default_run_query :: run_query where
  "default_run_query = \<lparr>rq_label = None, rq_since = None, rq_until = None, rq_limit = 50, rq_offset = 0\<rparr>"

text \<open>The \<open>WHERE\<close> clause; \<open>LIKE\<close> of SQL is a parameter.\<close>

definition query_selects :: "(string \<Rightarrow> string \<Rightarrow> bool) \<Rightarrow> run_query \<Rightarrow> run_row \<Rightarrow> bool" where
  "query_selects like q row \<longleftrightarrow>
     (case rq_label q of Some t \<Rightarrow> like (rr_label row) (''%'' @ t @ ''%'') | None \<Rightarrow> True)
     \<and> (case rq_since q of Some t \<Rightarrow> toEpochMillis t \<le> rr_started row | None \<Rightarrow> True)
     \<and> (case rq_until q of Some t \<Rightarrow> rr_started row \<le> toEpochMillis t | None \<Rightarrow> True)"

definition placeholders :: "string \<Rightarrow> test_status \<Rightarrow> int \<Rightarrow> test_result list" where
  "placeholders i status n = replicate (nat n) (default_result\<lparr>r_status := status, r_runId := i\<rparr>)"

definition read_listed :: "run_row \<Rightarrow> test_run option" where
  "read_listed row =
     map_option (\<lambda>run.
       (let total = cell_int32 (rr_total row); passed = cell_int32 (rr_passed row); failed = cell_int32 (rr_failed row);
            skipped = cell_int32 (rr_skipped row); errors = cell_int32 (rr_errors row); timeouts = cell_int32 (rr_timeouts row);
            accounted = passed + failed + skipped + errors + timeouts; i = run_id run
        in run\<lparr>run_results := placeholders i Passed passed @ placeholders i Failed failed @ placeholders i Skipped skipped
             @ placeholders i Error errors @ placeholders i TimedOut timeouts @ placeholders i Error (max 0 (total - accounted))\<rparr>))
       (readRunRow row)"

definition listRuns :: "(string \<Rightarrow> string \<Rightarrow> bool) \<Rightarrow> (run_row list \<Rightarrow> run_row list) \<Rightarrow> run_query \<Rightarrow> database \<Rightarrow> test_run list option" where
  "listRuns like order q db =
     read_rows read_listed (take (nat (max 1 (rq_limit q))) (drop (nat (max 0 (rq_offset q)))
       (order (filter (query_selects like q) (db_runs db)))))"

end
