(* ===== verification/Run_History.thy ===== *)
theory Run_History
  imports Repository F64_Order
begin

text \<open>
  What the results database knows of a test over time (the history queries of
  \<open>src/persistence/SqliteResultRepository.cpp\<close>): entries, summaries with the rate of changing outcomes,
  the rule for flaky candidates, and the statistics over recent runs.

  \<open>AVG\<close> of SQL and the order of rows are parameters. \<open>None\<close> is the undefined conversion of a time
  stamp or a double.
\<close>

section \<open>Entries\<close>

record history_entry =
  he_runId :: string
  he_status :: test_status
  he_category :: failure_category
  he_startTime :: int
  he_duration :: i64
  he_errorMessage :: string

definition entry_json :: "history_entry \<Rightarrow> json" where
  "entry_json e = obj_of
     [(''run_id'', JString (he_runId e)), (''status'', JString (status_str (he_status e))),
      (''failure_category'', JString (category_str (he_category e))), (''start_time'', JString (toIso8601 (he_startTime e))),
      (''duration_ms'', JInt (he_duration e)), (''error_message'', JString (he_errorMessage e))]"

definition read_entry :: "result_row \<Rightarrow> history_entry option" where
  "read_entry row =
     map_option (\<lambda>start. \<lparr>he_runId = tr_runId row,
       he_status = (case testStatusFromString (tr_status row) of Some s \<Rightarrow> s | None \<Rightarrow> Error),
       he_category = (case failureCategoryFromString (tr_category row) of Some c \<Rightarrow> c | None \<Rightarrow> NoFailure),
       he_startTime = start, he_duration = word_of_int (tr_duration row), he_errorMessage = tr_errorMessage row\<rparr>)
     (fromEpochMillis (tr_start row))"

definition testHistory :: "(result_row list \<Rightarrow> result_row list) \<Rightarrow> string \<Rightarrow> int \<Rightarrow> database \<Rightarrow> history_entry list option" where
  "testHistory newest i limit db =
     read_rows read_entry (take (nat (max 1 limit)) (newest (filter (\<lambda>row. tr_testId row = i) (db_results db))))"

section \<open>Summaries\<close>

record history_summary =
  hs_testId :: string
  hs_qualifiedName :: string
  hs_totalRuns :: int
  hs_passes :: int
  hs_failures :: int
  hs_skips :: int
  hs_average :: i64
  hs_p95 :: int
  hs_lastRun :: int
  hs_lastStatus :: test_status
  hs_flipRate :: f64

text \<open>The default threshold \<open>0.2\<close>.\<close>

definition f64_02 :: f64 where "f64_02 = 0x3FC999999999999A"

definition looksFlaky :: "int \<Rightarrow> f64 \<Rightarrow> history_summary \<Rightarrow> bool" where
  "looksFlaky minimumRuns threshold s \<longleftrightarrow>
     minimumRuns \<le> hs_totalRuns s \<and> 0 < hs_passes s \<and> 0 < hs_failures s \<and> f64_le threshold (hs_flipRate s)"

definition summary_json :: "history_summary \<Rightarrow> json" where
  "summary_json s = obj_of
     [(''test_id'', JString (hs_testId s)), (''test'', JString (hs_qualifiedName s)), (''total_runs'', JInt (word_of_int (hs_totalRuns s))),
      (''passes'', JInt (word_of_int (hs_passes s))), (''failures'', JInt (word_of_int (hs_failures s))),
      (''skips'', JInt (word_of_int (hs_skips s))), (''average_duration_ms'', JInt (hs_average s)),
      (''p95_duration_ms'', JInt (word_of_int (hs_p95 s))), (''last_run'', JString (toIso8601 (hs_lastRun s))),
      (''last_status'', JString (status_str (hs_lastStatus s))), (''flip_rate'', JDouble (hs_flipRate s)),
      (''flaky_candidate'', JBool (looksFlaky 5 f64_02 s))]"

text \<open>The first query: the rows of a group are those with its test id and name.\<close>

definition group_key :: "result_row \<Rightarrow> string \<times> string" where
  "group_key row = (tr_testId row, tr_qualifiedName row)"

definition row_has :: "string list \<Rightarrow> result_row \<Rightarrow> bool" where
  "row_has statuses row \<longleftrightarrow> tr_status row \<in> set statuses"

definition summary_row :: "(int list \<Rightarrow> f64) \<Rightarrow> result_row list \<Rightarrow> string \<times> string \<Rightarrow> history_summary option" where
  "summary_row avg rows key =
     (let own = filter (\<lambda>row. group_key row = key) rows
      in case (f64_trunc (avg (map tr_duration own)), fromEpochMillis (Max (set (map tr_start own)))) of
         (Some average, Some lastRun) \<Rightarrow> Some
           \<lparr>hs_testId = fst key, hs_qualifiedName = snd key, hs_totalRuns = int (length own),
            hs_passes = count_of (row_has [''PASSED'']) own, hs_failures = count_of (row_has [''FAILED'', ''ERROR'', ''TIMEOUT'']) own,
            hs_skips = count_of (row_has [''SKIPPED'']) own, hs_average = average, hs_p95 = 0, hs_lastRun = lastRun,
            hs_lastStatus = Error, hs_flipRate = 0\<rparr>
       | _ \<Rightarrow> None)"

text \<open>The outcomes of the rows of one test, newest first; a skip is no evidence.\<close>

fun outcomes :: "result_row list \<Rightarrow> (test_status \<times> int) list" where
  "outcomes [] = []"
| "outcomes (row # rows) =
     (case testStatusFromString (tr_status row) of
        Some s \<Rightarrow> if s = Skipped then outcomes rows else (s, tr_duration row) # outcomes rows
      | None \<Rightarrow> outcomes rows)"

fun flips :: "bool list \<Rightarrow> nat" where
  "flips (a # b # xs) = (if b \<noteq> a then 1 else 0) + flips (b # xs)"
| "flips _ = 0"

definition flip_rate :: "bool list \<Rightarrow> f64" where
  "flip_rate passes =
     (if 2 \<le> length passes then f64_div (f64_of_int (int (flips passes))) (f64_of_int (int (length passes - 1))) else 0)"

definition history_p95 :: "int list \<Rightarrow> int option" where
  "history_p95 durations =
     (if durations = [] then Some 0
      else map_option (\<lambda>i. sort durations ! min (length durations - 1) (nat (sint i)))
        (f64_trunc (f64_mul f64_095 (f64_of_int (int (length durations))))))"

definition with_sequence :: "(result_row list \<Rightarrow> result_row list) \<Rightarrow> result_row list \<Rightarrow> history_summary \<Rightarrow> history_summary option" where
  "with_sequence newest rows s =
     (let seen = outcomes (take 50 (newest (filter (\<lambda>row. tr_testId row = hs_testId s) rows)))
      in map_option (\<lambda>p95. s\<lparr>hs_lastStatus := (if seen = [] then hs_lastStatus s else fst (hd seen)),
                              hs_flipRate := flip_rate (map (\<lambda>(status, _). status = Passed) seen), hs_p95 := p95\<rparr>)
           (history_p95 (map snd seen)))"

definition historySummaries ::
  "(int list \<Rightarrow> f64) \<Rightarrow> (history_summary list \<Rightarrow> history_summary list) \<Rightarrow> (result_row list \<Rightarrow> result_row list) \<Rightarrow> int \<Rightarrow> database
     \<Rightarrow> history_summary list option" where
  "historySummaries avg latest newest limit db =
     (case read_rows (summary_row avg (db_results db)) (remdups (map group_key (db_results db))) of
        None \<Rightarrow> None
      | Some groups \<Rightarrow> read_rows (with_sequence newest (db_results db)) (take (nat (max 1 limit)) (latest groups)))"

section \<open>Statistics over recent runs\<close>

definition group_counts :: "('r \<Rightarrow> string) \<Rightarrow> 'r list \<Rightarrow> (string \<times> int) list" where
  "group_counts key rows = map (\<lambda>k. (k, count_of (\<lambda>row. key row = k) rows)) (remdups (map key rows))"

definition runs_totals :: "(int list \<Rightarrow> f64) \<Rightarrow> run_row list \<Rightarrow> (string \<times> json) list option" where
  "runs_totals avg recent =
     (let sum = (\<lambda>f. \<Sum>row \<leftarrow> recent. f row); count = (\<lambda>n. JInt (word_of_int n)); considered = sum rr_total - sum rr_skipped
      in map_option (\<lambda>average.
         [(''runs'', count (int (length recent))), (''total_tests'', count (sum rr_total)), (''passed'', count (sum rr_passed)),
          (''failed'', count (sum rr_failed)), (''skipped'', count (sum rr_skipped)), (''errors'', count (sum rr_errors)),
          (''timeouts'', count (sum rr_timeouts)), (''average_run_duration_ms'', JInt average),
          (''success_rate'', JDouble (if 0 < considered
             then f64_div (f64_mul f64_100 (f64_of_int (sum rr_passed))) (f64_of_int considered) else 0))])
        (if recent = [] then Some 0 else f64_trunc (avg (map rr_duration recent))))"

definition trend_json :: "run_row \<Rightarrow> json option" where
  "trend_json row =
     map_option (\<lambda>start. obj_of
       [(''run_id'', JString (rr_id row)), (''started_at'', JString (toIso8601 start)), (''total'', JInt (word_of_int (rr_total row))),
        (''passed'', JInt (word_of_int (rr_passed row))), (''failed'', JInt (word_of_int (rr_failed row))),
        (''skipped'', JInt (word_of_int (rr_skipped row))), (''errors'', JInt (word_of_int (rr_errors row))),
        (''timeouts'', JInt (word_of_int (rr_timeouts row))), (''duration_ms'', JInt (word_of_int (rr_duration row)))])
     (fromEpochMillis (rr_started row))"

definition averages :: "(int list \<Rightarrow> f64) \<Rightarrow> result_row list \<Rightarrow> (string \<times> f64) list" where
  "averages avg rows = map (\<lambda>k. (k, avg (map tr_duration (filter (\<lambda>row. tr_qualifiedName row = k) rows))))
     (remdups (map tr_qualifiedName rows))"

text \<open>The orders: of the runs, of counts and of averages.\<close>

definition aggregateStatistics ::
  "(int list \<Rightarrow> f64) \<Rightarrow> (run_row list \<Rightarrow> run_row list) \<Rightarrow> ((string \<times> int) list \<Rightarrow> (string \<times> int) list)
     \<Rightarrow> ((string \<times> f64) list \<Rightarrow> (string \<times> f64) list) \<Rightarrow> int \<Rightarrow> database \<Rightarrow> json option" where
  "aggregateStatistics avg newest most slowest runLimit db =
     (let recent = take (nat (max 1 runLimit)) (newest (db_runs db));
          categories = most (group_counts tr_category (filter (\<lambda>row. tr_category row \<noteq> ''NONE'') (db_results db)));
          failing = take 10 (most (group_counts tr_qualifiedName (filter (row_has [''FAILED'', ''ERROR'', ''TIMEOUT'']) (db_results db))));
          slow = take 10 (slowest (averages avg (db_results db)))
      in case (runs_totals avg recent, read_rows trend_json recent,
               read_rows (\<lambda>(name, mean). map_option (\<lambda>ms. obj_of [(''test'', JString name), (''average_duration_ms'', JInt ms)]) (f64_trunc mean)) slow) of
         (Some totals, Some trend, Some slowest_tests) \<Rightarrow> Some (obj_of (totals
           @ [(''failure_categories'', JArray (map (\<lambda>(c, n). obj_of [(''category'', JString c), (''count'', JInt (word_of_int n))]) categories)),
              (''top_failing_tests'', JArray (map (\<lambda>(t, n). obj_of [(''test'', JString t), (''failures'', JInt (word_of_int n))]) failing)),
              (''slowest_tests'', JArray slowest_tests), (''recent_runs'', JArray trend)]))
       | _ \<Rightarrow> None)"

definition storage_json :: "string \<Rightarrow> string \<Rightarrow> string \<Rightarrow> int option \<Rightarrow> database \<Rightarrow> json" where
  "storage_json path version journal bytes db = obj_of
     ([(''path'', JString path), (''sqlite_version'', JString version), (''journal_mode'', JString journal),
       (''run_count'', JInt (of_nat (length (db_runs db)))), (''result_count'', JInt (of_nat (length (db_results db)))),
       (''event_count'', JInt (of_nat (length (db_events db))))]
      @ (case bytes of Some n \<Rightarrow> [(''size_bytes'', JInt (word_of_int n))] | None \<Rightarrow> []))"

end
