(* ===== verification/Repository_Facts.thy ===== *)
theory Repository_Facts
  imports Repository Json_Roundtrip "HOL-Library.Product_Lexorder"
begin

text \<open>
  The database as a map from run ids to runs: the invariant of its tables, the statements as updates of
  that map, and a run that is recorded and loaded again.
\<close>

section \<open>The invariant of the tables\<close>

definition db_ok :: "database \<Rightarrow> bool" where
  "db_ok db \<longleftrightarrow> distinct (map rr_id (db_runs db)) \<and> list_all (\<lambda>row. run_known (tr_runId row) db) (db_results db)
     \<and> list_all (\<lambda>row. run_known (ev_runId row) db) (db_events db)"

abbreviation row_of :: "string \<Rightarrow> database \<Rightarrow> run_row option" where
  "row_of i db \<equiv> find (\<lambda>row. rr_id row = i) (db_runs db)"

lemma run_known_iff: "run_known i db \<longleftrightarrow> i \<in> set (map rr_id (db_runs db))"
  by (auto simp: run_known_def list_ex_iff)

lemma row_of_None: "row_of i db = None \<longleftrightarrow> \<not> run_known i db"
  by (auto simp: find_None_iff run_known_def list_ex_iff)

lemma row_of_id: "row_of i db = Some row \<Longrightarrow> rr_id row = i \<and> row \<in> set (db_runs db)"
  by (auto simp: find_Some_iff)

lemma find_app: "find P (xs @ ys) = (case find P xs of Some x \<Rightarrow> Some x | None \<Rightarrow> find P ys)"
  by (induction xs) auto

lemma find_key_None: "i \<notin> f ` set xs \<Longrightarrow> find (\<lambda>x. f x = i) xs = None"
  by (induction xs) auto

lemma find_key_filter:
  "distinct (map f xs) \<Longrightarrow> find (\<lambda>x. f x = i) (filter P xs) = (case find (\<lambda>x. f x = i) xs of Some x \<Rightarrow> if P x then Some x else None | None \<Rightarrow> None)"
  by (induction xs) (auto simp: find_key_None)

lemma find_key_map: "(\<And>x. f (g x) = f x) \<Longrightarrow> find (\<lambda>x. f x = i) (map g xs) = map_option g (find (\<lambda>x. f x = i) xs)"
  by (induction xs) auto

lemma distinct_map_filter': "distinct (map f xs) \<Longrightarrow> distinct (map f (filter P xs))"
  by (induction xs) auto

text \<open>Which runs are left, under the invariant: those not deleted, each with all its rows.\<close>

lemma deleted_ids:
  assumes "distinct (map rr_id runs)"
  shows "i \<in> rr_id ` set (filter gone runs) \<longleftrightarrow> (\<exists>row. find (\<lambda>row. rr_id row = i) runs = Some row \<and> gone row)"
  using assms by (induction runs) (auto simp: find_None_iff)

lemma db_ok_delete:
  assumes "db_ok db"
  shows "db_ok (delete_runs gone db)"
proof -
  have d: "distinct (map rr_id (db_runs db))" using assms by (simp add: db_ok_def)
  have left: "run_known i (delete_runs gone db)" if "run_known i db" "i \<notin> rr_id ` set (filter gone (db_runs db))" for i
    using that by (auto simp: delete_runs_def run_known_iff Let_def)
  have "run_known (tr_runId row) (delete_runs gone db)" if "row \<in> set (db_results (delete_runs gone db))" for row
    using that assms by (intro left) (auto simp: delete_runs_def Let_def db_ok_def list_all_iff)
  moreover have "run_known (ev_runId row) (delete_runs gone db)" if "row \<in> set (db_events (delete_runs gone db))" for row
    using that assms by (intro left) (auto simp: delete_runs_def Let_def db_ok_def list_all_iff)
  ultimately show ?thesis
    using d by (simp add: db_ok_def list_all_iff) (simp add: delete_runs_def Let_def distinct_map_filter')
qed

section \<open>The abstract repository\<close>

text \<open>What is stored of a run: its row, and its results and events as they were written, in no order.\<close>

type_synonym stored = "run_row \<times> result_row multiset \<times> event_row multiset"

definition repo_abs :: "database \<Rightarrow> string \<Rightarrow> stored option" where
  "repo_abs db i = map_option (\<lambda>row. (row, mset (filter (\<lambda>r. tr_runId r = i) (db_results db)),
     mset (filter (\<lambda>e. ev_runId e = i) (db_events db)))) (row_of i db)"

datatype repo_op =
    BeginRun test_run | SaveResult test_result | CompleteRun test_run
  | RecordEvent int string string json | Prune int int

fun repo_step :: "repo_op \<Rightarrow> database \<Rightarrow> database option" where
  "repo_step (BeginRun run) db = Some (beginRun run db)"
| "repo_step (SaveResult r) db = saveResult r db"
| "repo_step (CompleteRun run) db = completeRun run db"
| "repo_step (RecordEvent now i event payload) db = recordEvent now i event payload db"
| "repo_step (Prune now days) db = Some (fst (pruneOlderThan now days db))"

definition event_cells :: "int \<Rightarrow> string \<Rightarrow> string \<Rightarrow> json \<Rightarrow> event_row" where
  "event_cells now i event payload =
     \<lparr>ev_runId = i, ev_created = toEpochMillis now, ev_type = event, ev_payload = capped (json_dump payload) 128000\<rparr>"

fun spec_step :: "repo_op \<Rightarrow> (string \<Rightarrow> stored option) \<Rightarrow> (string \<Rightarrow> stored option) option" where
  "spec_step (BeginRun run) m = Some (m(run_id run \<mapsto> (fresh_run_row run, {#}, {#})))"
| "spec_step (SaveResult r) m =
     map_option (\<lambda>(row, rs, es). m(r_runId r \<mapsto> (row, add_mset (result_cells r) rs, es))) (m (r_runId r))"
| "spec_step (CompleteRun run) m =
     map_option (\<lambda>st. m(run_id run := map_option (apfst (finished_row run st)) (m (run_id run))))
       (compute_statistics (run_results run) (run_duration run))"
| "spec_step (RecordEvent now i event payload) m =
     map_option (\<lambda>(row, rs, es). m(i \<mapsto> (row, rs, add_mset (event_cells now i event payload) es))) (m i)"
| "spec_step (Prune now days) m =
     Some (\<lambda>i. case m i of None \<Rightarrow> None
       | Some s \<Rightarrow> if 0 < days \<and> rr_started (fst s) < toEpochMillis now - days * 86400000 then None else Some s)"

lemma repo_abs_id: "repo_abs db i = Some s \<Longrightarrow> rr_id (fst s) = i"
  by (auto simp: repo_abs_def dest: row_of_id)

lemma repo_abs_delete:
  assumes "db_ok db"
  shows "repo_abs (delete_runs gone db) i = (case repo_abs db i of None \<Rightarrow> None | Some s \<Rightarrow> if gone (fst s) then None else Some s)"
proof -
  have d: "distinct (map rr_id (db_runs db))" using assms by (simp add: db_ok_def)
  have row: "row_of i (delete_runs gone db) = (case row_of i db of Some row \<Rightarrow> if \<not> gone row then Some row else None | None \<Rightarrow> None)"
    using find_key_filter [OF d, of i "\<lambda>row. \<not> gone row"] by (simp add: delete_runs_def Let_def)
  show ?thesis
  proof (cases "row_of i db")
    case (Some row)
    show ?thesis
    proof (cases "gone row")
      case False
      with Some have kept: "i \<notin> rr_id ` set (filter gone (db_runs db))" using deleted_ids [OF d, of i gone] by simp
      have "filter (\<lambda>r. tr_runId r = i) (db_results (delete_runs gone db)) = filter (\<lambda>r. tr_runId r = i) (db_results db)"
        "filter (\<lambda>e. ev_runId e = i) (db_events (delete_runs gone db)) = filter (\<lambda>e. ev_runId e = i) (db_events db)"
        using kept by (auto simp: delete_runs_def Let_def intro!: filter_cong)
      with row Some False show ?thesis by (simp add: repo_abs_def)
    qed (use row Some in \<open>simp add: repo_abs_def\<close>)
  qed (use row in \<open>simp add: repo_abs_def\<close>)
qed

lemma unknown_rows:
  assumes "db_ok db" "row_of i db = None"
  shows "filter (\<lambda>r. tr_runId r = i) (db_results db) = []" "filter (\<lambda>e. ev_runId e = i) (db_events db) = []"
proof -
  have unknown: "\<not> run_known i db" using assms(2) by (simp only: row_of_None simp_thms)
  with assms(1) show "filter (\<lambda>r. tr_runId r = i) (db_results db) = []" "filter (\<lambda>e. ev_runId e = i) (db_events db) = []"
    by (auto simp: db_ok_def list_all_iff filter_empty_conv)
qed

lemma repo_step_keeps:
  assumes "db_ok db" "repo_step op db = Some db'"
  shows "db_ok db'"
proof (cases op)
  case (BeginRun run)
  define d where "d = delete_runs (\<lambda>row. rr_id row = run_id run) db"
  have ok: "db_ok d" unfolding d_def by (rule db_ok_delete [OF assms(1)])
  have "\<not> run_known (run_id run) d" by (auto simp: run_known_iff d_def delete_runs_def Let_def)
  with assms(2) ok show ?thesis
    by (auto simp: BeginRun beginRun_def Let_def d_def [symmetric] db_ok_def run_known_iff list_all_iff fresh_run_row_def)
next
  case (SaveResult r)
  with assms show ?thesis
    by (auto simp: saveResult_def db_ok_def run_known_iff list_all_iff result_cells_def split: if_splits)
next
  case (CompleteRun run)
  have "map rr_id (map (\<lambda>row. if rr_id row = i then finished_row run st row else row) rows) = map rr_id rows" for i st rows
    by (simp add: finished_row_def)
  with CompleteRun assms show ?thesis
    by (auto simp: completeRun_def db_ok_def run_known_iff list_all_iff simp del: set_map map_map)
next
  case (RecordEvent now i event payload)
  with assms show ?thesis
    by (auto simp: recordEvent_def db_ok_def run_known_iff list_all_iff split: if_splits)
next
  case (Prune now days)
  with assms show ?thesis
    by (auto simp: pruneOlderThan_def Let_def intro: db_ok_delete split: if_splits)
qed

lemma repo_step_refines:
  assumes "db_ok db"
  shows "map_option repo_abs (repo_step op db) = spec_step op (repo_abs db)"
proof (cases op)
  case (BeginRun run)
  define d where "d = delete_runs (\<lambda>row. rr_id row = run_id run) db"
  have gone: "row_of (run_id run) d = None"
    by (auto simp: find_None_iff d_def delete_runs_def Let_def)
  have ok: "db_ok d" unfolding d_def by (rule db_ok_delete [OF assms])
  have "repo_abs (beginRun run db) i = ((repo_abs db)(run_id run \<mapsto> (fresh_run_row run, {#}, {#}))) i" for i
  proof (cases "i = run_id run")
    case True
    with gone unknown_rows [OF ok gone] show ?thesis
      by (simp add: repo_abs_def beginRun_def Let_def d_def [symmetric] find_app fresh_run_row_def)
  next
    case False
    have "repo_abs (beginRun run db) i = repo_abs d i"
      using False by (simp add: repo_abs_def beginRun_def Let_def d_def [symmetric] find_app fresh_run_row_def split: option.split)
    also have "\<dots> = repo_abs db i"
      unfolding d_def repo_abs_delete [OF assms] using False repo_abs_id [of db i] by (cases "repo_abs db i") auto
    finally show ?thesis using False by simp
  qed
  then have "repo_abs (beginRun run db) = (repo_abs db)(run_id run \<mapsto> (fresh_run_row run, {#}, {#}))" by (rule ext)
  then show ?thesis by (simp only: BeginRun repo_step.simps spec_step.simps option.map)
next
  case (SaveResult r)
  show ?thesis
  proof (cases "row_of (r_runId r) db")
    case None
    then show ?thesis by (simp add: SaveResult saveResult_def repo_abs_def) (simp add: row_of_None)
  next
    case (Some row)
    then have "run_known (r_runId r) db" using row_of_None by force
    with Some show ?thesis
      by (simp add: SaveResult saveResult_def repo_abs_def fun_eq_iff result_cells_def) 
  qed
next
  case (CompleteRun run)
  have "repo_abs (db\<lparr>db_runs := map (\<lambda>row. if rr_id row = run_id run then finished_row run st row else row) (db_runs db)\<rparr>) i
    = ((repo_abs db)(run_id run := map_option (apfst (finished_row run st)) (repo_abs db (run_id run)))) i" for st i
  proof -
    have "row_of i (db\<lparr>db_runs := map (\<lambda>row. if rr_id row = run_id run then finished_row run st row else row) (db_runs db)\<rparr>)
      = map_option (\<lambda>row. if rr_id row = run_id run then finished_row run st row else row) (row_of i db)"
      by (simp add: find_key_map finished_row_def)
    then show ?thesis by (cases "row_of i db") (auto simp: repo_abs_def dest: row_of_id)
  qed
  then have "repo_abs (db\<lparr>db_runs := map (\<lambda>row. if rr_id row = run_id run then finished_row run st row else row) (db_runs db)\<rparr>)
    = (repo_abs db)(run_id run := map_option (apfst (finished_row run st)) (repo_abs db (run_id run)))" for st by (rule ext)
  then show ?thesis
    by (cases "compute_statistics (run_results run) (run_duration run)")
      (simp_all only: CompleteRun repo_step.simps spec_step.simps option.map completeRun_def)
next
  case (RecordEvent now i event payload)
  show ?thesis
  proof (cases "row_of i db")
    case None
    then show ?thesis by (simp add: RecordEvent recordEvent_def repo_abs_def) (simp add: row_of_None)
  next
    case (Some row)
    then have "run_known i db" using row_of_None by force
    with Some show ?thesis
      by (simp add: RecordEvent recordEvent_def repo_abs_def fun_eq_iff event_cells_def)
  qed
next
  case (Prune now days)
  show ?thesis
    using repo_abs_delete [OF assms] by (auto simp: Prune pruneOlderThan_def Let_def fun_eq_iff split: option.split)
qed

fun repo_run :: "repo_op list \<Rightarrow> database \<Rightarrow> database option" where
  "repo_run [] db = Some db"
| "repo_run (op # ops) db = (case repo_step op db of None \<Rightarrow> None | Some db \<Rightarrow> repo_run ops db)"

fun spec_run :: "repo_op list \<Rightarrow> (string \<Rightarrow> stored option) \<Rightarrow> (string \<Rightarrow> stored option) option" where
  "spec_run [] m = Some m"
| "spec_run (op # ops) m = (case spec_step op m of None \<Rightarrow> None | Some m \<Rightarrow> spec_run ops m)"

lemma repo_run_keeps: "db_ok db \<Longrightarrow> repo_run ops db = Some db' \<Longrightarrow> db_ok db'"
  by (induction ops arbitrary: db) (auto split: option.splits dest: repo_step_keeps)

text \<open>
  C28. Against any database whose tables are consistent, the statements of the repository, in any
  sequence, are updates of a map from run ids to what is stored of the run: recording a run replaces
  whatever was stored under its id, a result or an event of a run that is not there is refused, and
  pruning removes old runs whole.
\<close>

theorem repository_refines_map:
  assumes "db_ok db"
  shows "map_option repo_abs (repo_run ops db) = spec_run ops (repo_abs db)"
  using assms
proof (induction ops arbitrary: db)
  case (Cons op ops)
  note step = repo_step_refines [OF Cons.prems, of op]
  show ?case
  proof (cases "repo_step op db")
    case None
    with step show ?thesis by simp
  next
    case (Some db')
    with step have "spec_step op (repo_abs db) = Some (repo_abs db')" by simp
    with Some Cons.IH [OF repo_step_keeps [OF Cons.prems Some]] show ?thesis by simp
  qed
qed simp

definition empty_database :: database where
  "empty_database = \<lparr>db_runs = [], db_results = [], db_events = [], db_versions = [1]\<rparr>"

lemma db_ok_empty: "db_ok empty_database"
  by (simp add: db_ok_def empty_database_def)

theorem repository_refines_map_witness:
  "map_option repo_abs (repo_run [BeginRun sample_run, Prune 0 1] empty_database)
    = spec_run [BeginRun sample_run, Prune 0 1] (repo_abs empty_database)"
  by (rule repository_refines_map [OF db_ok_empty])

section \<open>A run recorded and loaded\<close>

text \<open>A value its column gives back: well formed, not nested too deep for the parser, and within the cap.\<close>

definition column_ok :: "nat \<Rightarrow> json \<Rightarrow> bool" where
  "column_ok limit v \<longleftrightarrow> json_wf v \<and> json_height v \<le> 64 \<and> length (json_dump v) \<le> limit"

definition storable :: "string \<Rightarrow> test_result \<Rightarrow> bool" where
  "storable i r \<longleftrightarrow> r_runId r = i \<and> stamp_ok (r_startTime r) \<and> stamp_ok (r_endTime r) \<and> in_int32 (r_attempt r)
     \<and> length (r_errorMessage r) \<le> 4000 \<and> length (r_errorDetail r) \<le> 16000 \<and> column_ok 64000 (strings_json (r_logs r))
     \<and> column_ok (16 * 1024 * 1024) (strings_json (r_tags r)) \<and> column_ok 64000 (r_metadata r) \<and> column_ok 128000 (r_diagnostics r)"

lemma dump_not_empty: "json_wf v \<Longrightarrow> json_dump v \<noteq> []"
  using dump_into_start [of v] by (metis json_dump_def list.distinct(1))

lemma column_back:
  assumes "column_ok limit v" "limit \<le> 16 * 1024 * 1024"
  shows "parseJsonColumn (json_dump v) fallback = v" "parseJsonColumn (capped (json_dump v) limit) fallback = v"
proof -
  have "parse_document 64 (json_dump v) = Inr v"
    unfolding json_dump_def by (rule parse_document_dump) (use assms in \<open>simp_all add: column_ok_def\<close>)
  then show "parseJsonColumn (json_dump v) fallback = v"
    using assms dump_not_empty [of v]
    by (simp add: parseJsonColumn_def tryParse_def json_parse_def default_limits_def column_ok_def not_less)
  then show "parseJsonColumn (capped (json_dump v) limit) fallback = v"
    using assms by (simp add: capped_def column_ok_def)
qed

lemma string_column_back:
  assumes "column_ok limit (strings_json xs)" "limit \<le> 16 * 1024 * 1024"
  shows "parseStringArray (dumpStringArray xs) = xs" "parseStringArray (capped (dumpStringArray xs) limit) = xs"
  using column_back [OF assms] strings_of_strings_json [of xs]
  by (simp_all add: parseStringArray_def dumpStringArray_def strings_of_json_def strings_json_def)

lemma stamp_back: "stamp_ok tp \<Longrightarrow> fromEpochMillis (toEpochMillis tp) = Some tp"
  by (auto simp: stamp_ok_def fromEpochMillis_def toEpochMillis_def tdiv_def in_i64_def)

lemma int32_back: "in_int32 n \<Longrightarrow> cell_int32 n = n"
  by (simp add: cell_int32_def)

lemma result_cells_back:
  assumes "storable i r"
  shows "readResultRow (result_cells r) = Some r"
proof -
  have "parseStringArray (capped (dumpStringArray (r_logs r)) 64000) = r_logs r" "parseStringArray (dumpStringArray (r_tags r)) = r_tags r"
    "parseJsonColumn (capped (json_dump (r_metadata r)) 64000) (JObject []) = r_metadata r"
    "parseJsonColumn (capped (json_dump (r_diagnostics r)) 128000) (JObject []) = r_diagnostics r"
    using assms by (auto simp: storable_def intro: column_back string_column_back)
  moreover have "capped (r_errorMessage r) 4000 = r_errorMessage r" "capped (r_errorDetail r) 16000 = r_errorDetail r"
    using assms by (simp_all add: storable_def capped_def)
  ultimately show ?thesis
    using assms by (simp add: readResultRow_def result_cells_def storable_def stamp_back int32_back)
qed

text \<open>\<open>ORDER BY\<close> the key: the same rows, sorted.\<close>

definition orders_by :: "('r \<Rightarrow> 'k :: linorder) \<Rightarrow> ('r list \<Rightarrow> 'r list) \<Rightarrow> bool" where
  "orders_by key order \<longleftrightarrow> (\<forall>rows. mset (order rows) = mset rows \<and> sorted (map key (order rows)))"

lemma orders_by_sort_key: "orders_by key (sort_key key)"
  by (simp add: orders_by_def)

lemma read_rows_back: "list_all (\<lambda>row. f row \<noteq> None) rows \<Longrightarrow> read_rows f rows = Some (map (the \<circ> f) rows)"
  by (induction rows) auto

lemma rows_back:
  assumes "list_all (storable i) rs" "mset rows = mset (map result_cells rs)"
  shows "\<exists>rs'. read_rows readResultRow rows = Some rs' \<and> mset rs' = mset rs
    \<and> map (\<lambda>r. (result_name r, r_attempt r)) rs' = map (\<lambda>row. (tr_qualifiedName row, tr_attempt row)) rows"
proof -
  have "set rows = result_cells ` set rs" using arg_cong [OF assms(2), of set_mset] by simp
  with assms(1) have rows: "\<forall>row \<in> set rows. \<exists>r. row = result_cells r \<and> readResultRow row = Some r"
    using result_cells_back by (fastforce simp: list_all_iff)
  have "mset (map (the \<circ> readResultRow) rows) = mset (map (the \<circ> readResultRow) (map result_cells rs))"
    using assms(2) by (simp only: mset_map)
  also have "map (the \<circ> readResultRow) (map result_cells rs) = rs"
    using assms(1) result_cells_back by (induction rs) auto
  finally have "mset (map (the \<circ> readResultRow) rows) = mset rs" .
  moreover have "map (\<lambda>r. (result_name r, r_attempt r)) (map (the \<circ> readResultRow) rows)
      = map (\<lambda>row. (tr_qualifiedName row, tr_attempt row)) rows"
    using rows by (auto simp: result_cells_def)
  moreover have "read_rows readResultRow rows = Some (map (the \<circ> readResultRow) rows)"
    using rows by (intro read_rows_back) (auto simp: list_all_iff)
  ultimately show ?thesis by blast
qed

lemma save_all:
  "run_known i db \<Longrightarrow> list_all (storable i) rs \<Longrightarrow>
    repo_run (map SaveResult rs @ ops) db = repo_run ops (db\<lparr>db_results := db_results db @ map result_cells rs\<rparr>)"
  by (induction rs arbitrary: db) (simp_all add: saveResult_def run_known_def storable_def)

text \<open>A run that is begun, the results that are saved under its id, and its completion.\<close>

definition record_results :: "test_run \<Rightarrow> test_result list \<Rightarrow> repo_op list" where
  "record_results run saved = BeginRun run # map SaveResult saved @ [CompleteRun run]"

definition record_run :: "test_run \<Rightarrow> repo_op list" where
  "record_run run = record_results run (run_results run)"

lemma recorded_results:
  assumes "db_ok db" "list_all (storable (run_id run)) saved" "compute_statistics (run_results run) (run_duration run) = Some st"
  shows "\<exists>db'. repo_run (record_results run saved) db = Some db' \<and> row_of (run_id run) db' = Some (finished_row run st (fresh_run_row run))
    \<and> filter (\<lambda>row. tr_runId row = run_id run) (db_results db') = map result_cells saved"
proof -
  define d where "d = delete_runs (\<lambda>row. rr_id row = run_id run) db"
  have gone: "row_of (run_id run) d = None"
    by (auto simp: find_None_iff d_def delete_runs_def Let_def)
  have ok: "db_ok d" unfolding d_def by (rule db_ok_delete [OF assms(1)])
  have begun: "beginRun run db = d\<lparr>db_runs := db_runs d @ [fresh_run_row run]\<rparr>"
    by (simp add: beginRun_def Let_def d_def)
  have "run_known (run_id run) (beginRun run db)" by (simp add: begun run_known_def fresh_run_row_def)
  note saved = save_all [OF this assms(2), unfolded begun]
  have own: "filter (\<lambda>row. tr_runId row = run_id run) (map result_cells saved) = map result_cells saved"
    using assms(2) by (auto simp: filter_id_conv list_all_iff storable_def result_cells_def)
  show ?thesis
    by (simp add: record_results_def saved completeRun_def assms(3) begun own unknown_rows [OF ok gone])
      (simp add: find_app gone find_key_map finished_row_def fresh_run_row_def)
qed

text \<open>What a run is loaded as: the results that were saved under its id.\<close>

lemma recorded_results_load:
  assumes "db_ok db" "list_all (storable (run_id run)) saved"
    and "stamp_ok (run_startedAt run)" "stamp_ok (run_finishedAt run)" "in_int32 (run_workers run)"
    and "column_ok (16 * 1024 * 1024) (run_environment run)" "compute_statistics (run_results run) (run_duration run) = Some st"
    and "orders_by (\<lambda>row. (tr_qualifiedName row, tr_attempt row)) order"
  shows "\<exists>db' rs. repo_run (record_results run saved) db = Some db'
    \<and> loadRun order (run_id run) db' = Some (Some (run\<lparr>run_results := rs, run_cancellationReason := []\<rparr>))
    \<and> mset rs = mset saved \<and> sorted (map (\<lambda>r. (result_name r, r_attempt r)) rs)"
proof -
  obtain db' where db': "repo_run (record_results run saved) db = Some db'" "row_of (run_id run) db' = Some (finished_row run st (fresh_run_row run))"
    "filter (\<lambda>row. tr_runId row = run_id run) (db_results db') = map result_cells saved"
    using recorded_results [OF assms(1,2,7)] by blast
  let ?rows = "order (map result_cells saved)"
  have rows: "mset ?rows = mset (map result_cells saved)" "sorted (map (\<lambda>row. (tr_qualifiedName row, tr_attempt row)) ?rows)"
    using assms(8) by (simp_all add: orders_by_def)
  obtain rs where rs: "read_rows readResultRow ?rows = Some rs" "mset rs = mset saved"
    "map (\<lambda>r. (result_name r, r_attempt r)) rs = map (\<lambda>row. (tr_qualifiedName row, tr_attempt row)) ?rows"
    using rows_back [OF assms(2) rows(1)] by blast
  have "readRunRow (finished_row run st (fresh_run_row run)) = Some (run\<lparr>run_results := [], run_cancellationReason := []\<rparr>)"
    using assms(3-6) by (simp add: readRunRow_def finished_row_def fresh_run_row_def stamp_back int32_back column_back(1) [OF assms(6)])
  then have "loadRun order (run_id run) db' = Some (Some (run\<lparr>run_results := rs, run_cancellationReason := []\<rparr>))"
    by (simp add: loadRun_def loadResults_def db'(2,3) rs(1))
  with db'(1) rs(2,3) rows(2) show ?thesis by auto
qed

text \<open>
  C29. A run that was recorded result by result is loaded as it was, with every result once, in the order
  of the test names and attempts, and whatever was stored under its id before is gone. Times are whole
  milliseconds, attempts and workers fit 32 bits, every text and document is within the cap of its column,
  a document is nested at most 64 deep and holds finite numbers only, and the statistics of the run do not
  overflow; the reason of a cancellation is not stored.
\<close>

theorem recorded_run_loads:
  assumes "db_ok db" "list_all (storable (run_id run)) (run_results run)"
    and "stamp_ok (run_startedAt run)" "stamp_ok (run_finishedAt run)" "in_int32 (run_workers run)"
    and "column_ok (16 * 1024 * 1024) (run_environment run)" "compute_statistics (run_results run) (run_duration run) \<noteq> None"
    and "orders_by (\<lambda>row. (tr_qualifiedName row, tr_attempt row)) order"
  shows "\<exists>db' rs. repo_run (record_run run) db = Some db'
    \<and> loadRun order (run_id run) db' = Some (Some (run\<lparr>run_results := rs, run_cancellationReason := []\<rparr>))
    \<and> mset rs = mset (run_results run) \<and> sorted (map (\<lambda>r. (result_name r, r_attempt r)) rs)"
proof -
  from assms(7) obtain st where "compute_statistics (run_results run) (run_duration run) = Some st" by blast
  from recorded_results_load [OF assms(1-6) this assms(8)] show ?thesis by (simp add: record_run_def)
qed

definition stored_run :: test_run where
  "stored_run = sample_run\<lparr>run_results := [make_result 1757658692417000000 ''api'' ''health'' Passed\<lparr>r_runId := ''f00d''\<rparr>]\<rparr>"

lemma stored_run_ok:
  "list_all (storable (run_id stored_run)) (run_results stored_run)" "column_ok (16 * 1024 * 1024) (run_environment stored_run)"
  "compute_statistics (run_results stored_run) (run_duration stored_run) \<noteq> None"
proof -
  have "column_ok n (JObject [])" "column_ok n (strings_json [])" if "2 \<le> n" for n
    using that by (simp_all add: column_ok_def json_dump_def strings_json_def)
  then show "list_all (storable (run_id stored_run)) (run_results stored_run)" "column_ok (16 * 1024 * 1024) (run_environment stored_run)"
    by (simp_all add: stored_run_def sample_run_def make_result_def default_result_def storable_def stamp_ok_def in_int32_def)
  have "\<exists>st. compute_statistics (run_results stored_run) (run_duration stored_run) = Some st"
    by (rule statistics_defined) (simp_all add: stored_run_def make_result_def default_result_def)
  then show "compute_statistics (run_results stored_run) (run_duration stored_run) \<noteq> None" by blast
qed

theorem recorded_run_loads_witness:
  "\<exists>db' rs. repo_run (record_run stored_run) empty_database = Some db'
    \<and> loadRun (sort_key (\<lambda>row. (tr_qualifiedName row, tr_attempt row))) (run_id stored_run) db'
        = Some (Some (stored_run\<lparr>run_results := rs, run_cancellationReason := []\<rparr>))
    \<and> mset rs = mset (run_results stored_run) \<and> sorted (map (\<lambda>r. (result_name r, r_attempt r)) rs)"
  by (rule recorded_run_loads [OF db_ok_empty stored_run_ok(1) _ _ _ stored_run_ok(2,3) orders_by_sort_key])
    (simp_all add: stored_run_def sample_run_def stamp_ok_def in_int32_def)

section \<open>Runs as they are listed\<close>

lemma count_of_append: "count_of P (xs @ ys) = count_of P xs + count_of P ys"
  by (simp add: count_of_def)

lemma count_of_placeholders: "count_of (\<lambda>r. r_status r = s) (placeholders i s' n) = (if s = s' then max 0 n else 0)"
  by (simp add: count_of_def placeholders_def)

lemma counts_bounded: "0 \<le> count_of P xs" "count_of P xs \<le> int (length xs)"
  by (simp_all add: count_of_def)

lemma statistics_counts:
  assumes "compute_statistics rs wall = Some st"
  shows "st_passed st = count_of (\<lambda>r. r_status r = Passed) rs" "st_failed st = count_of (\<lambda>r. r_status r = Failed) rs"
    "st_skipped st = count_of (\<lambda>r. r_status r = Skipped) rs" "st_errors st = count_of (\<lambda>r. r_status r = Error) rs"
    "st_timeouts st = count_of (\<lambda>r. r_status r = TimedOut) rs" "st_total st = int (length rs)"
proof -
  obtain st' ds s where "compute_loop rs (empty_statistics\<lparr>st_wallDuration := wall, st_total := int (length rs)\<rparr>) [] 0 = Some (st', ds, s)"
    using assms by (auto simp: compute_statistics_def split: option.splits)
  note counts = compute_loop_counts(1-6) [OF this] and loop = this
  have "st_passed st = st_passed st'" "st_failed st = st_failed st'" "st_skipped st = st_skipped st'" "st_errors st = st_errors st'"
    "st_timeouts st = st_timeouts st'" "st_total st = st_total st'"
    using assms by (auto simp: compute_statistics_def loop split: if_splits)
  with counts show "st_passed st = count_of (\<lambda>r. r_status r = Passed) rs" "st_failed st = count_of (\<lambda>r. r_status r = Failed) rs"
    "st_skipped st = count_of (\<lambda>r. r_status r = Skipped) rs" "st_errors st = count_of (\<lambda>r. r_status r = Error) rs"
    "st_timeouts st = count_of (\<lambda>r. r_status r = TimedOut) rs" "st_total st = int (length rs)"
    by (simp_all add: empty_statistics_def)
qed

lemma status_total:
  "count_of (\<lambda>r. r_status r = Passed) rs + count_of (\<lambda>r. r_status r = Failed) rs + count_of (\<lambda>r. r_status r = Skipped) rs
     + count_of (\<lambda>r. r_status r = Error) rs + count_of (\<lambda>r. r_status r = TimedOut) rs = int (length rs)"
proof (induction rs)
  case (Cons r rs)
  then show ?case by (cases "r_status r") simp_all
qed simp

text \<open>
  A run that was finished is listed with as many results of each status as it had, although none of
  its results is read, so the aggregate numbers of a listing are those of the run.
\<close>

theorem listed_run_counts:
  assumes "compute_statistics (run_results run) (run_duration run) = Some st" "length (run_results run) < 2 ^ 31"
    and "read_listed (finished_row run st row) = Some listed"
  shows "count_of (\<lambda>r. r_status r = s) (run_results listed) = count_of (\<lambda>r. r_status r = s) (run_results run)"
proof -
  let ?n = "\<lambda>s. count_of (\<lambda>r. r_status r = s) (run_results run)"
  have cell: "cell_int32 (?n s) = ?n s" for s
    using counts_bounded [of "\<lambda>r. r_status r = s" "run_results run"] assms(2) by (intro int32_back) (simp add: in_int32_def)
  have total: "cell_int32 (int (length (run_results run))) = int (length (run_results run))"
    using assms(2) by (intro int32_back) (simp add: in_int32_def)
  note stats = statistics_counts [OF assms(1)]
  obtain i where "run_results listed = placeholders i Passed (?n Passed) @ placeholders i Failed (?n Failed) @ placeholders i Skipped (?n Skipped)
      @ placeholders i Error (?n Error) @ placeholders i TimedOut (?n TimedOut) @ placeholders i Error 0"
    using assms(3) status_total [of "run_results run"]
    by (auto simp: read_listed_def finished_row_def stats cell total Let_def)
  then show ?thesis
    by (cases s) (simp_all add: count_of_append count_of_placeholders counts_bounded)
qed

theorem listed_run_counts_witness:
  "count_of (\<lambda>r. r_status r = Passed) (run_results (the (read_listed (finished_row stored_run
     (the (compute_statistics (run_results stored_run) (run_duration stored_run))) (fresh_run_row stored_run))))) = 1"
proof -
  obtain st where st: "compute_statistics (run_results stored_run) (run_duration stored_run) = Some st" using stored_run_ok(3) by blast
  have "stamp_ok (run_startedAt stored_run)" "stamp_ok (run_finishedAt stored_run)"
    by (simp_all add: stored_run_def sample_run_def stamp_ok_def)
  then obtain listed where listed: "read_listed (finished_row stored_run st (fresh_run_row stored_run)) = Some listed"
    by (auto simp: read_listed_def readRunRow_def finished_row_def fresh_run_row_def stamp_back)
  show ?thesis
    using listed_run_counts [OF st _ listed, of Passed] by (simp add: st listed) (simp add: stored_run_def make_result_def default_result_def)
qed

end
