(* ===== verification/History_Facts.thy ===== *)
theory History_Facts
  imports Run_History Repository_Facts
begin

text \<open>
  The rule for flaky candidates in exact arithmetic, and what the summary of a test is computed from.
\<close>

section \<open>One change in five\<close>

lemma fifth_rounded: "raw_of_frac 1 5 = 0x3FC999999999999A"
proof -
  have L: "2 powi frac_log 2 1 5 \<le> 1 / (5::real)" "1 / (5::real) < 2 powi (frac_log 2 1 5 + 1)"
    using frac_log_bounds [of 2 1 5] by simp_all
  have "(2::real) powi (- 3) < 2 powi (frac_log 2 1 5 + 1)" "(2::real) powi frac_log 2 1 5 < 2 powi (- 2)"
    using L by (simp_all add: power_int_minus)
  from this [THEN powi_less_mono] have log: "frac_log 2 1 5 = - 3" by simp
  have "raw_of_frac 1 5 = min inf_raw (nat (- 55 + 1074) * 2 ^ 52 + 7205759403792794)"
    by (rule raw_of_frac_exponent) (simp_all add: log [simplified])
  then show ?thesis by (simp add: inf_raw_def)
qed

lemma flip_threshold:
  assumes "0 < b" "b < 50" "a \<le> b"
  shows "f64_le f64_02 (f64_div (f64_of_int (int a)) (f64_of_int (int b))) \<longleftrightarrow> b \<le> 5 * a"
proof (cases "a = 0")
  case True
  have "f64_02 = f64_make False 0x3FC999999999999A" by (simp add: f64_02_def f64_make_def)
  moreover have "\<not> f64_le (f64_make False 0x3FC999999999999A) (f64_make False 0)"
    by (simp add: f64_le_make inf_raw_def)
  ultimately have "\<not> f64_le f64_02 (f64_make False 0)" by argo
  with True assms show ?thesis by (simp add: f64_quotient_zero)
next
  case False
  have kb: "0 < a" "a < 2 ^ 53" "0 < b" "b < 2 ^ 53" using False assms by simp_all
  note q = f64_quotient [OF kb]
  have "f64_02 = f64_make False (raw_of_frac 1 5)"
    by (simp add: f64_02_def f64_make_def fifth_rounded [simplified])
  note thr = this
  have "raw_of_frac 1 5 < inf_raw" by (simp add: fifth_rounded [simplified] inf_raw_def)
  then have le: "f64_le f64_02 (f64_div (f64_of_int (int a)) (f64_of_int (int b))) \<longleftrightarrow> raw_of_frac 1 5 \<le> raw_of_frac a b"
    unfolding thr q(1) by (rule f64_le_make [OF _ q(2)])
  have "\<bar>raw_val (raw_of_frac 1 5) - real 1 / real 5\<bar> \<le> real 1 / real 5 / 2 ^ 53" by (rule f64_quotient(3)) simp_all
  also have "\<dots> \<le> 1 / 1000" by simp
  finally have fifth: "\<bar>raw_val (raw_of_frac 1 5) - 1 / 5\<bar> \<le> 1 / 1000" by (simp only: of_nat_1 of_nat_numeral)
  have err: "\<bar>raw_val (raw_of_frac a b) - real a / real b\<bar> \<le> 1 / 1000"
  proof -
    have "real a / real b \<le> 1" using assms by simp
    then have "real a / real b / 2 ^ 53 \<le> 1 / 2 ^ 53" by (rule divide_right_mono) simp
    also have "\<dots> \<le> (1::real) / 1000" by simp
    finally have "real a / real b / 2 ^ 53 \<le> 1 / 1000" .
    with q(3) show ?thesis by (rule order_trans)
  qed
  have gap: "1 / 250 \<le> \<bar>real a / real b - 1 / 5\<bar>" if "b \<noteq> 5 * a"
  proof -
    have "1 \<le> \<bar>5 * int a - int b\<bar>" using that by linarith
    then have "1 \<le> \<bar>5 * real a - real b\<bar>" by linarith
    then have "1 / (5 * real b) \<le> \<bar>5 * real a - real b\<bar> / (5 * real b)" using kb by (simp add: divide_right_mono)
    also have "\<dots> = \<bar>real a / real b - 1 / 5\<bar>" using kb by (simp add: field_simps abs_if)
    finally have "1 / (5 * real b) \<le> \<bar>real a / real b - 1 / 5\<bar>" .
    moreover have "1 / 250 \<le> 1 / (5 * real b)" using assms by (simp add: field_simps)
    ultimately show ?thesis by linarith
  qed
  consider "b = 5 * a" | "b < 5 * a" | "5 * a < b" by linarith
  then show ?thesis
  proof cases
    case 1
    then have "raw_of_frac a b = raw_of_frac 1 5" using kb by (intro raw_of_frac_cong) simp_all
    with 1 le show ?thesis by simp
  next
    case 2
    then have "real b < 5 * real a" by linarith
    then have "1 / 5 < real a / real b" using kb by (simp add: field_simps)
    with gap 2 have "1 / 5 + 1 / 250 \<le> real a / real b" by linarith
    with err fifth have "\<not> raw_val (raw_of_frac a b) \<le> raw_val (raw_of_frac 1 5)" by linarith
    then have "\<not> raw_of_frac a b \<le> raw_of_frac 1 5" using raw_val_mono by blast
    with 2 le show ?thesis by simp
  next
    case 3
    then have "5 * real a < real b" by linarith
    then have "real a / real b < 1 / 5" using kb by (simp add: field_simps)
    with gap 3 have "real a / real b \<le> 1 / 5 - 1 / 250" by linarith
    with err fifth have "\<not> raw_val (raw_of_frac 1 5) \<le> raw_val (raw_of_frac a b)" by linarith
    then have "\<not> raw_of_frac 1 5 \<le> raw_of_frac a b" using raw_val_mono by blast
    with 3 le show ?thesis by simp
  qed
qed

lemma flips_bound: "flips xs \<le> length xs - 1"
  by (induction xs rule: flips.induct) auto

lemma flip_rate_threshold:
  assumes "length xs \<le> 50"
  shows "f64_le f64_02 (flip_rate xs) \<longleftrightarrow> 2 \<le> length xs \<and> length xs - 1 \<le> 5 * flips xs"
proof (cases "2 \<le> length xs")
  case True
  then show ?thesis
    using flip_threshold [of "length xs - 1" "flips xs"] flips_bound [of xs] assms by (simp add: flip_rate_def)
next
  case False
  have "\<not> f64_le f64_02 0"
    by (simp add: f64_le_def f64_key_def f64_02_def f64_neg_def f64_raw_def)
  with False show ?thesis by (simp add: flip_rate_def)
qed

section \<open>Summaries\<close>

lemma read_rows_member:
  "read_rows f rows = Some xs \<Longrightarrow> x \<in> set xs \<Longrightarrow> \<exists>row \<in> set rows. f row = Some x"
  by (induction rows arbitrary: xs) (auto split: option.splits)

lemma outcomes_length: "length (outcomes rows) \<le> length rows"
  by (induction rows) (auto split: option.splits)

definition recent_outcomes :: "(result_row list \<Rightarrow> result_row list) \<Rightarrow> string \<Rightarrow> database \<Rightarrow> bool list" where
  "recent_outcomes newest i db =
     map (\<lambda>(status, _). status = Passed) (outcomes (take 50 (newest (filter (\<lambda>row. tr_testId row = i) (db_results db)))))"

lemma count_of_positive: "0 < count_of P xs \<longleftrightarrow> (\<exists>x \<in> set xs. P x)"
  by (auto simp: count_of_def filter_empty_conv)

text \<open>
  C30. A summary flags its test exactly when the test has at least five recorded results, skips
  included, has passed and has failed, and at least one in five of the transitions between its last
  outcomes changed: the rule decides in doubles as it would in exact arithmetic.
\<close>

theorem flaky_rule_exact:
  assumes "historySummaries avg latest newest limit db = Some summaries" "s \<in> set summaries"
    and "\<And>xs. set (latest xs) = set xs"
  shows "looksFlaky 5 f64_02 s \<longleftrightarrow>
    (let own = filter (\<lambda>row. group_key row = (hs_testId s, hs_qualifiedName s)) (db_results db);
         seen = recent_outcomes newest (hs_testId s) db
     in 5 \<le> length own \<and> (\<exists>row \<in> set own. tr_status row = ''PASSED'')
        \<and> (\<exists>row \<in> set own. tr_status row \<in> {''FAILED'', ''ERROR'', ''TIMEOUT''})
        \<and> 2 \<le> length seen \<and> length seen - 1 \<le> 5 * flips seen)"
proof -
  from assms(1) obtain groups where
    groups: "read_rows (summary_row avg (db_results db)) (remdups (map group_key (db_results db))) = Some groups"
    and read: "read_rows (with_sequence newest (db_results db)) (take (nat (max 1 limit)) (latest groups)) = Some summaries"
    by (auto simp: historySummaries_def split: option.splits)
  from read_rows_member [OF read assms(2)] obtain s' where s': "s' \<in> set groups" "with_sequence newest (db_results db) s' = Some s"
    using assms(3) in_set_takeD by fastforce
  from read_rows_member [OF groups s'(1)] obtain key where key: "summary_row avg (db_results db) key = Some s'" by blast
  define own where "own = filter (\<lambda>row. group_key row = key) (db_results db)"
  have names: "(hs_testId s, hs_qualifiedName s) = key" and base: "hs_totalRuns s = int (length own)"
    "hs_passes s = count_of (row_has [''PASSED'']) own" "hs_failures s = count_of (row_has [''FAILED'', ''ERROR'', ''TIMEOUT'']) own"
    using key s'(2) by (auto simp: summary_row_def with_sequence_def Let_def own_def split: option.splits)
  have "hs_flipRate s = flip_rate (recent_outcomes newest (hs_testId s) db)"
    using s'(2) by (auto simp: with_sequence_def Let_def recent_outcomes_def)
  moreover have "length (recent_outcomes newest (hs_testId s) db) \<le> 50"
    unfolding recent_outcomes_def length_map by (rule le_trans [OF outcomes_length]) simp
  ultimately show ?thesis
    unfolding names Let_def own_def [symmetric]
    by (auto simp: looksFlaky_def base count_of_positive row_has_def flip_rate_threshold)
qed

text \<open>A test that passed once and failed once among five results, the other three skipped.\<close>

definition history_row :: "test_status \<Rightarrow> int \<Rightarrow> result_row" where
  "history_row status start = result_cells (make_result (start * 1000000) ''api'' ''health'' status)"

definition flaky_database :: database where
  "flaky_database = empty_database\<lparr>db_results := [history_row Passed 5, history_row Failed 4, history_row Skipped 3,
     history_row Skipped 2, history_row Skipped 1]\<rparr>"

lemma history_row_fields:
  "tr_status (history_row status start) = status_str status" "group_key (history_row status start) = (testId ''api'' ''health'', ''api.health'')"
  "tr_testId (history_row status start) = testId ''api'' ''health''" "tr_duration (history_row status start) = 0"
  "tr_start (history_row status start) = toEpochMillis (start * 1000000)"
  by (simp_all add: history_row_def result_cells_def make_result_def default_result_def group_key_def result_name_def)

lemma flaky_rows:
  "remdups (map group_key (db_results flaky_database)) = [(testId ''api'' ''health'', ''api.health'')]"
  "filter (\<lambda>row. tr_testId row = testId ''api'' ''health'') (db_results flaky_database) = db_results flaky_database"
  "filter (\<lambda>row. group_key row = (testId ''api'' ''health'', ''api.health'')) (db_results flaky_database) = db_results flaky_database"
  "length (db_results flaky_database) = 5" "set (map tr_start (db_results flaky_database)) = {1, 2, 3, 4, 5}"
  by (simp_all add: flaky_database_def empty_database_def history_row_fields toEpochMillis_def tdiv_def) auto

lemma flaky_outcomes: "outcomes (db_results flaky_database) = [(Passed, 0), (Failed, 0)]"
  by (simp add: flaky_database_def empty_database_def history_row_fields del: status_str.simps)

lemma flaky_summaries:
  "\<exists>s. historySummaries (\<lambda>_. 0) id id 10 flaky_database = Some [s] \<and> hs_testId s = testId ''api'' ''health'' \<and> hs_qualifiedName s = ''api.health''"
proof -
  let ?rows = "db_results flaky_database" and ?key = "(testId ''api'' ''health'', ''api.health'')"
  have zero: "f64_trunc 0 = Some 0" by (simp add: f64_eval f64_trunc_def)
  have last: "fromEpochMillis (Max (set (map tr_start ?rows))) = Some 5000000"
    unfolding flaky_rows by (simp add: fromEpochMillis_def in_i64_def)
  have "f64_of_int 2 = 0x4000000000000000" "f64_mul f64_095 0x4000000000000000 = 0x3FFE666666666666"
    "f64_trunc 0x3FFE666666666666 = Some 1"
    by (simp_all add: f64_eval f64_095_def f64_trunc_def)
  then have p95: "history_p95 (map snd (outcomes ?rows)) = Some 0"
    by (simp add: flaky_outcomes history_p95_def)
  obtain s where s: "summary_row (\<lambda>_. 0) ?rows ?key = Some s" "hs_testId s = fst ?key" "hs_qualifiedName s = snd ?key"
    by (simp add: summary_row_def Let_def flaky_rows(3) zero last del: set_map)
  have take: "take 50 ?rows = ?rows" by (simp add: flaky_rows)
  obtain s' where "with_sequence id ?rows s = Some s'" "hs_testId s' = fst ?key" "hs_qualifiedName s' = snd ?key"
    using s(2,3) by (simp add: with_sequence_def Let_def flaky_rows(2) take p95)
  then show ?thesis using s by (simp add: historySummaries_def flaky_rows(1))
qed

theorem flaky_rule_exact_witness:
  "\<exists>s. historySummaries (\<lambda>_. 0) id id 10 flaky_database = Some [s] \<and> looksFlaky 5 f64_02 s"
proof -
  obtain s where s: "historySummaries (\<lambda>_. 0) id id 10 flaky_database = Some [s]" "hs_testId s = testId ''api'' ''health''"
    "hs_qualifiedName s = ''api.health''"
    using flaky_summaries by blast
  have "looksFlaky 5 f64_02 s"
    by (subst flaky_rule_exact [OF s(1)])
      (simp_all add: s(2,3) Let_def recent_outcomes_def flaky_rows flaky_outcomes,
       simp add: flaky_database_def empty_database_def history_row_fields)
  with s(1) show ?thesis by blast
qed

text \<open>
  The 95th percentile of a history is not the one of a run: of twenty durations the run takes the
  nineteenth, the history the largest.
\<close>

lemma p95_differ:
  assumes "length ds = 20"
  shows "history_p95 ds = Some (sort ds ! 19)" "percentile (sort ds) f64_095 = sort ds ! 18"
proof -
  have "f64_of_int 20 = 0x4034000000000000" "f64_mul f64_095 0x4034000000000000 = 0x4033000000000000"
    "f64_trunc 0x4033000000000000 = Some 19" "f64_ceil 0x4033000000000000 = 19"
    by (simp_all add: f64_eval f64_095_def f64_trunc_def f64_ceil_def)
  moreover have "length (sort ds) = 20" "ds \<noteq> []" "sort ds \<noteq> []" using assms by (simp, (metis length_0_conv length_sort zero_neq_numeral)+)
  ultimately show "history_p95 ds = Some (sort ds ! 19)" "percentile (sort ds) f64_095 = sort ds ! 18"
    by (simp_all add: history_p95_def percentile_def Let_def)
qed

end
