(* ===== verification/Junit.thy ===== *)
theory Junit
  imports Failure_Context
begin

text \<open>
  The JUnit report (\<open>src/reporting/JUnitReporter.cpp\<close>) and the JSON report
  (\<open>src/reporting/JsonReporter.cpp\<close>): the text of each as a function of the run. \<open>None\<close> is a sum of
  durations that no \<open>std::int64_t\<close> holds, which is undefined.
\<close>

section \<open>Elements\<close>

definition xml_attr :: "string \<times> string \<Rightarrow> string" where
  "xml_attr a = '' '' @ fst a @ ''='' @ [CHR 0x22] @ snd a @ [CHR 0x22]"

definition xml_open :: "string \<Rightarrow> (string \<times> string) list \<Rightarrow> string" where
  "xml_open name attrs = ''<'' @ name @ concat (map xml_attr attrs) @ ''>''"

definition xml_empty :: "string \<Rightarrow> (string \<times> string) list \<Rightarrow> string" where
  "xml_empty name attrs = ''<'' @ name @ concat (map xml_attr attrs) @ ''/>''"

definition xml_close :: "string \<Rightarrow> string" where
  "xml_close name = ''</'' @ name @ ''>''"

definition newline :: string where "newline = [CHR 0x0A]"

definition spaces :: "nat \<Rightarrow> string" where "spaces n = replicate n CHR '' ''"

section \<open>One test\<close>

text \<open>\<open>seconds\<close>: a fixed-point number of three digits.\<close>

definition seconds_text :: "int \<Rightarrow> string" where
  "seconds_text millis = print_fixed 3 (seconds_of millis)"

definition result_detail :: "test_result \<Rightarrow> string" where
  "result_detail r = (if r_errorDetail r = [] then r_errorMessage r else r_errorDetail r)"

definition junit_problem :: "string \<Rightarrow> test_result \<Rightarrow> string" where
  "junit_problem element r =
     spaces 6 @ xml_open element [(''type'', escapeXml (category_str (r_category r))), (''message'', escapeXml (r_errorMessage r))]
     @ escapeXml (result_detail r) @ xml_close element @ newline"

definition junit_outcome :: "test_result \<Rightarrow> string" where
  "junit_outcome r =
     (case r_status r of
        Failed \<Rightarrow> junit_problem ''failure'' r
      | Error \<Rightarrow> junit_problem ''error'' r
      | TimedOut \<Rightarrow> junit_problem ''error'' r
      | Skipped \<Rightarrow> spaces 6 @ xml_empty ''skipped'' [(''message'', escapeXml (r_errorMessage r))] @ newline
      | Passed \<Rightarrow> [])"

definition junit_logs :: "string list \<Rightarrow> string" where
  "junit_logs logs =
     (if logs = [] then []
      else spaces 6 @ xml_open ''system-out'' [] @ concat (map (\<lambda>t. escapeXml t @ newline) logs) @ xml_close ''system-out'' @ newline)"

definition junit_testcase :: "string \<Rightarrow> test_result \<Rightarrow> string" where
  "junit_testcase suite r =
     spaces 4 @ xml_open ''testcase'' [(''name'', escapeXml (r_testName r)), (''classname'', escapeXml suite),
       (''time'', seconds_text (sint (r_duration r)))] @ newline
     @ junit_outcome r @ junit_logs (r_logs r) @ spaces 4 @ xml_close ''testcase'' @ newline"

section \<open>Suites\<close>

definition suite_key :: "test_result \<Rightarrow> string" where
  "suite_key r = (if r_suiteName r = [] then ''default'' else r_suiteName r)"

text \<open>The results in the buckets of a \<open>std::map\<close>.\<close>

definition add_to_suite :: "test_result \<Rightarrow> (string \<times> test_result list) list \<Rightarrow> (string \<times> test_result list) list" where
  "add_to_suite r m = omap_set (suite_key r) ((case omap_find (suite_key r) m of Some rs \<Rightarrow> rs | None \<Rightarrow> []) @ [r]) m"

definition by_suite :: "test_result list \<Rightarrow> (string \<times> test_result list) list" where
  "by_suite results = fold add_to_suite results []"

record suite_counts =
  sn_failures :: int
  sn_errors :: int
  sn_skipped :: int
  sn_totalMs :: int

definition suite_count :: "test_status \<Rightarrow> suite_counts \<Rightarrow> suite_counts" where
  "suite_count s n =
     (case s of
        Failed \<Rightarrow> n\<lparr>sn_failures := sn_failures n + 1\<rparr>
      | Error \<Rightarrow> n\<lparr>sn_errors := sn_errors n + 1\<rparr>
      | TimedOut \<Rightarrow> n\<lparr>sn_errors := sn_errors n + 1\<rparr>
      | Skipped \<Rightarrow> n\<lparr>sn_skipped := sn_skipped n + 1\<rparr>
      | Passed \<Rightarrow> n)"

fun suite_loop :: "test_result list \<Rightarrow> suite_counts \<Rightarrow> suite_counts option" where
  "suite_loop [] n = Some n"
| "suite_loop (r # rs) n =
     (let ms = sn_totalMs n + sint (r_duration r)
      in if in_i64 ms then suite_loop rs ((suite_count (r_status r) n)\<lparr>sn_totalMs := ms\<rparr>) else None)"

definition no_counts :: suite_counts where
  "no_counts = \<lparr>sn_failures = 0, sn_errors = 0, sn_skipped = 0, sn_totalMs = 0\<rparr>"

definition junit_suite :: "test_run \<Rightarrow> string \<times> test_result list \<Rightarrow> string option" where
  "junit_suite run entry =
     map_option (\<lambda>n. spaces 2 @ xml_open ''testsuite''
         [(''name'', escapeXml (fst entry)), (''tests'', show_nat (length (snd entry))), (''failures'', show_int (sn_failures n)),
          (''errors'', show_int (sn_errors n)), (''skipped'', show_int (sn_skipped n)), (''time'', seconds_text (sn_totalMs n)),
          (''timestamp'', escapeXml (toIso8601 (run_startedAt run))), (''hostname'', escapeXml (run_hostname run))] @ newline
       @ concat (map (junit_testcase (fst entry)) (snd entry)) @ spaces 2 @ xml_close ''testsuite'' @ newline)
     (suite_loop (snd entry) no_counts)"

fun junit_suites :: "test_run \<Rightarrow> (string \<times> test_result list) list \<Rightarrow> string option" where
  "junit_suites run [] = Some []"
| "junit_suites run (e # es) =
     (case (junit_suite run e, junit_suites run es) of (Some t, Some u) \<Rightarrow> Some (t @ u) | _ \<Rightarrow> None)"

definition junit_render :: "test_run \<Rightarrow> string option" where
  "junit_render run =
     (case compute_statistics (run_results run) (run_duration run) of
        None \<Rightarrow> None
      | Some st \<Rightarrow>
          map_option (\<lambda>suites. ''<?xml'' @ xml_attr (''version'', ''1.0'') @ xml_attr (''encoding'', ''UTF-8'') @ ''?>'' @ newline
            @ xml_open ''testsuites'' [(''name'', ''TestForge''), (''tests'', show_int (st_total st)), (''failures'', show_int (st_failed st)),
                (''errors'', show_int (st_errors st + st_timeouts st)), (''skipped'', show_int (st_skipped st)),
                (''time'', seconds_text (sint (run_duration run)))] @ newline
            @ suites @ xml_close ''testsuites'' @ newline)
          (junit_suites run (by_suite (run_results run))))"

section \<open>The JSON report\<close>

definition json_report :: "bool \<Rightarrow> test_run \<Rightarrow> string option" where
  "json_report pretty run =
     map_option (\<lambda>v. (let v = with_member ''report_version'' (JInt 1) (with_member ''report_format'' (JString ''testforge.run'') v)
         in if pretty then json_dump_indent 2 v else json_dump v))
       (run_json run)"

end
