(* ===== verification/Junit_Facts.thy ===== *)
theory Junit_Facts
  imports Junit
begin

text \<open>
  What a reader of XML finds in a JUnit report: the run, its suites in order, and every result with its
  own texts, whatever they contain.

  The reader \<open>xml_read\<close> is the reference: it cuts the text into tags and character data and resolves the
  entities of both. Character data of blanks is layout and is dropped.
\<close>

section \<open>A reader\<close>

datatype xml_token = Declaration "(string \<times> string) list" | Start string "(string \<times> string) list" | Empty string "(string \<times> string) list"
  | End string | Chars string

text \<open>The attributes of a tag, up to what is no blank.\<close>

function read_attrs :: "string \<Rightarrow> (string \<times> string) list \<times> string" where
  "read_attrs t =
     (if t \<noteq> [] \<and> hd t = CHR '' '' then
        (let name = takeWhile (\<lambda>c. c \<noteq> CHR ''='') (tl t);
             rest = tl (tl (dropWhile (\<lambda>c. c \<noteq> CHR ''='') (tl t)));
             v = takeWhile (\<lambda>c. c \<noteq> CHR 0x22) rest;
             (attrs, u) = read_attrs (tl (dropWhile (\<lambda>c. c \<noteq> CHR 0x22) rest))
         in ((name, xml_unescape v) # attrs, u))
      else ([], t))"
  by pat_completeness auto
termination
proof (relation "measure length")
  fix t name rest v :: string
  assume t: "t \<noteq> [] \<and> hd t = CHR '' ''" and rest: "rest = tl (tl (dropWhile (\<lambda>c. c \<noteq> CHR ''='') (tl t)))"
  have "length (tl (dropWhile (\<lambda>c. c \<noteq> CHR 0x22) rest)) \<le> length rest"
    using length_dropWhile_le [of "\<lambda>c. c \<noteq> CHR 0x22" rest] by simp
  also have "length rest \<le> length (tl t)"
    using length_dropWhile_le [of "\<lambda>c. c \<noteq> CHR ''=''" "tl t"] by (simp add: rest)
  finally show "(tl (dropWhile (\<lambda>c. c \<noteq> CHR 0x22) rest), t) \<in> measure length" using t by (cases t) simp_all
qed simp

declare read_attrs.simps [simp del]

definition read_tag :: "string \<Rightarrow> xml_token" where
  "read_tag body =
     (if body \<noteq> [] \<and> hd body = CHR ''/'' then End (tl body)
      else let name = takeWhile (\<lambda>c. c \<noteq> CHR '' '' \<and> c \<noteq> CHR ''/'') body;
               (attrs, u) = read_attrs (drop (length name) body)
           in if u = ''?'' then Declaration attrs else if u = ''/'' then Empty name attrs else Start name attrs)"

definition read_chars :: "string \<Rightarrow> xml_token list" where
  "read_chars t = (if list_all is_space t then [] else [Chars t])"

function xml_read :: "string \<Rightarrow> xml_token list" where
  "xml_read t =
     (if t = [] then []
      else if hd t = CHR ''<'' then
        read_tag (takeWhile (\<lambda>c. c \<noteq> CHR ''>'') (tl t)) # xml_read (tl (dropWhile (\<lambda>c. c \<noteq> CHR ''>'') (tl t)))
      else read_chars (xml_unescape (takeWhile (\<lambda>c. c \<noteq> CHR ''<'') t)) @ xml_read (dropWhile (\<lambda>c. c \<noteq> CHR ''<'') t))"
  by pat_completeness auto
termination
proof (relation "measure length")
  fix t :: string
  assume t: "t \<noteq> []"
  then obtain c s where s: "t = c # s" by (cases t) auto
  show "(tl (dropWhile (\<lambda>c. c \<noteq> CHR ''>'') (tl t)), t) \<in> measure length"
    using length_dropWhile_le [of "\<lambda>c. c \<noteq> CHR ''>''" s] by (simp add: s)
  assume "hd t \<noteq> CHR ''<''"
  then show "(dropWhile (\<lambda>c. c \<noteq> CHR ''<'') t, t) \<in> measure length"
    using length_dropWhile_le [of "\<lambda>c. c \<noteq> CHR ''<''" s] by (simp add: s)
qed simp

declare xml_read.simps [simp del]

section \<open>Reading what was written\<close>

text \<open>A value written between quotes: its own text is what the reader makes of it.\<close>

definition attr_value :: "string \<Rightarrow> bool" where
  "attr_value v \<longleftrightarrow> set v \<inter> {CHR 0x22, CHR ''<'', CHR ''>''} = {}"

definition attr_name :: "string \<Rightarrow> bool" where
  "attr_name n \<longleftrightarrow> n \<noteq> [] \<and> set n \<inter> {CHR '' '', CHR ''/'', CHR ''='', CHR ''<'', CHR ''>''} = {}"

definition attr_ok :: "string \<times> string \<Rightarrow> bool" where
  "attr_ok a \<longleftrightarrow> attr_name (fst a) \<and> attr_value (snd a)"

definition unescaped :: "string \<times> string \<Rightarrow> string \<times> string" where
  "unescaped a = (fst a, xml_unescape (snd a))"

lemma span_until:
  "d \<notin> set x \<Longrightarrow> takeWhile (\<lambda>c. c \<noteq> d) (x @ d # r) = x" "d \<notin> set x \<Longrightarrow> dropWhile (\<lambda>c. c \<noteq> d) (x @ d # r) = d # r"
  by (induction x) auto

lemma read_attrs_written:
  assumes "list_all attr_ok attrs" "u = [] \<or> hd u \<noteq> CHR '' ''"
  shows "read_attrs (concat (map xml_attr attrs) @ u) = (map unescaped attrs, u)"
  using assms(1)
proof (induction attrs)
  case Nil
  with assms(2) show ?case by (subst read_attrs.simps) auto
next
  case (Cons a attrs)
  obtain n v where a: "a = (n, v)" by (cases a)
  from Cons.prems a have "CHR ''='' \<notin> set n" "CHR 0x22 \<notin> set v" by (auto simp: attr_ok_def attr_name_def attr_value_def)
  moreover from Cons have "read_attrs (concat (map xml_attr attrs) @ u) = (map unescaped attrs, u)" by simp
  moreover have "concat (map xml_attr (a # attrs)) @ u = CHR '' '' # n @ CHR ''='' # CHR 0x22 # v @ CHR 0x22 # concat (map xml_attr attrs) @ u"
    by (simp add: a xml_attr_def)
  ultimately show ?case by (subst read_attrs.simps) (simp add: a span_until unescaped_def)
qed

lemma xml_read_tag:
  "CHR ''>'' \<notin> set body \<Longrightarrow> xml_read (CHR ''<'' # body @ CHR ''>'' # t) = read_tag body # xml_read t"
  by (subst xml_read.simps) (simp add: span_until)

lemma xml_read_chars:
  assumes "CHR ''<'' \<notin> set t"
  shows "xml_read (t @ CHR ''<'' # u) = read_chars (xml_unescape t) @ xml_read (CHR ''<'' # u)"
proof (cases "t = []")
  case False
  then have "hd (t @ CHR ''<'' # u) \<noteq> CHR ''<''" using assms by (cases t) auto
  then show ?thesis using assms by (subst xml_read.simps) (simp add: span_until)
qed (simp add: read_chars_def)

lemma unescape_plain: "CHR ''&'' \<notin> set t \<Longrightarrow> xml_unescape t = t"
  by (induction t) auto

lemma xml_read_blank: "list_all is_space t \<Longrightarrow> xml_read (t @ CHR ''<'' # u) = xml_read (CHR ''<'' # u)"
proof -
  assume t: "list_all is_space t"
  then have "CHR ''<'' \<notin> set t" "CHR ''&'' \<notin> set t" by (auto simp: list_all_iff is_space_def)
  with t show ?thesis by (simp add: xml_read_chars unescape_plain read_chars_def)
qed

lemma tag_written:
  assumes "attr_name name" "list_all attr_ok attrs"
  shows "CHR ''>'' \<notin> set (name @ concat (map xml_attr attrs))"
    "takeWhile (\<lambda>c. c \<noteq> CHR '' '' \<and> c \<noteq> CHR ''/'') (name @ concat (map xml_attr attrs)) = name"
    "takeWhile (\<lambda>c. c \<noteq> CHR '' '' \<and> c \<noteq> CHR ''/'') (name @ concat (map xml_attr attrs) @ CHR ''/'' # u) = name"
    "hd (name @ concat (map xml_attr attrs) @ u) \<noteq> CHR ''/''"
proof -
  show "CHR ''>'' \<notin> set (name @ concat (map xml_attr attrs))"
    using assms by (auto simp: attr_name_def attr_value_def attr_ok_def xml_attr_def list_all_iff)
  have n: "\<forall>c \<in> set name. c \<noteq> CHR '' '' \<and> c \<noteq> CHR ''/''" using assms by (auto simp: attr_name_def)
  show "takeWhile (\<lambda>c. c \<noteq> CHR '' '' \<and> c \<noteq> CHR ''/'') (name @ concat (map xml_attr attrs)) = name"
    using n by (cases attrs) (auto simp: takeWhile_append xml_attr_def)
  show "takeWhile (\<lambda>c. c \<noteq> CHR '' '' \<and> c \<noteq> CHR ''/'') (name @ concat (map xml_attr attrs) @ CHR ''/'' # u) = name"
    using n by (cases attrs) (auto simp: takeWhile_append xml_attr_def)
  show "hd (name @ concat (map xml_attr attrs) @ u) \<noteq> CHR ''/''"
    using assms by (cases name) (auto simp: attr_name_def)
qed

lemma read_open:
  assumes "attr_name name" "list_all attr_ok attrs"
  shows "xml_read (xml_open name attrs @ t) = Start name (map unescaped attrs) # xml_read t"
proof -
  have "read_tag (name @ concat (map xml_attr attrs)) = Start name (map unescaped attrs)"
    using tag_written [OF assms] tag_written(4) [OF assms, of "[]"] read_attrs_written [OF assms(2), of "[]"]
    by (simp add: read_tag_def Let_def)
  then show ?thesis using xml_read_tag [OF tag_written(1) [OF assms], of t] by (simp add: xml_open_def)
qed

lemma read_empty:
  assumes "attr_name name" "list_all attr_ok attrs"
  shows "xml_read (xml_empty name attrs @ t) = Empty name (map unescaped attrs) # xml_read t"
proof -
  have "read_tag (name @ concat (map xml_attr attrs) @ ''/'') = Empty name (map unescaped attrs)"
    using tag_written [OF assms] tag_written(4) [OF assms, of "''/''"] read_attrs_written [OF assms(2), of "''/''"]
    by (simp add: read_tag_def Let_def)
  then show ?thesis using xml_read_tag [of "name @ concat (map xml_attr attrs) @ ''/''" t] tag_written(1) [OF assms]
    by (simp add: xml_empty_def)
qed

lemma read_close: "attr_name name \<Longrightarrow> xml_read (xml_close name @ t) = End name # xml_read t"
  using xml_read_tag [of "CHR ''/'' # name" t] by (auto simp: xml_close_def read_tag_def attr_name_def)


section \<open>The tokens of a report\<close>

text \<open>What the report says of a text: control characters are blanks.\<close>

abbreviation shown_chars :: "string \<Rightarrow> string" where
  "shown_chars \<equiv> map xml_printable"

definition problem_tokens :: "string \<Rightarrow> test_result \<Rightarrow> xml_token list" where
  "problem_tokens element r =
     Start element [(''type'', category_str (r_category r)), (''message'', shown_chars (r_errorMessage r))]
     # read_chars (shown_chars (result_detail r)) @ [End element]"

definition outcome_tokens :: "test_result \<Rightarrow> xml_token list" where
  "outcome_tokens r =
     (case r_status r of
        Failed \<Rightarrow> problem_tokens ''failure'' r
      | Skipped \<Rightarrow> [Empty ''skipped'' [(''message'', shown_chars (r_errorMessage r))]]
      | Passed \<Rightarrow> []
      | _ \<Rightarrow> problem_tokens ''error'' r)"

definition log_tokens :: "string list \<Rightarrow> xml_token list" where
  "log_tokens logs =
     (if logs = [] then []
      else Start ''system-out'' [] # read_chars (concat (map (\<lambda>t. shown_chars t @ newline) logs)) @ [End ''system-out''])"

definition case_tokens :: "string \<Rightarrow> test_result \<Rightarrow> xml_token list" where
  "case_tokens suite r =
     Start ''testcase'' [(''name'', shown_chars (r_testName r)), (''classname'', shown_chars suite), (''time'', seconds_text (sint (r_duration r)))]
     # outcome_tokens r @ log_tokens (r_logs r) @ [End ''testcase'']"

text \<open>A suite with its own numbers.\<close>

definition in_trouble :: "test_result \<Rightarrow> bool" where
  "in_trouble r \<longleftrightarrow> r_status r = Error \<or> r_status r = TimedOut"

definition suite_tokens :: "test_run \<Rightarrow> string \<Rightarrow> test_result list \<Rightarrow> xml_token list" where
  "suite_tokens run suite rs =
     Start ''testsuite'' [(''name'', shown_chars suite), (''tests'', show_nat (length rs)),
       (''failures'', show_int (count_of (\<lambda>r. r_status r = Failed) rs)), (''errors'', show_int (count_of in_trouble rs)),
       (''skipped'', show_int (count_of (\<lambda>r. r_status r = Skipped) rs)), (''time'', seconds_text (sum_list (map (\<lambda>r. sint (r_duration r)) rs))),
       (''timestamp'', shown_chars (toIso8601 (run_startedAt run))), (''hostname'', shown_chars (run_hostname run))]
     # concat (map (case_tokens suite) rs) @ [End ''testsuite'']"

definition suites_of :: "test_result list \<Rightarrow> string list" where
  "suites_of results = sort (remdups (map suite_key results))"

definition junit_tokens :: "test_run \<Rightarrow> xml_token list" where
  "junit_tokens run = (let rs = run_results run in
     [Declaration [(''version'', ''1.0''), (''encoding'', ''UTF-8'')],
      Start ''testsuites'' [(''name'', ''TestForge''), (''tests'', show_int (int (length rs))),
        (''failures'', show_int (count_of (\<lambda>r. r_status r = Failed) rs)), (''errors'', show_int (count_of in_trouble rs)),
        (''skipped'', show_int (count_of (\<lambda>r. r_status r = Skipped) rs)), (''time'', seconds_text (sint (run_duration run)))]]
     @ concat (map (\<lambda>suite. suite_tokens run suite (filter (\<lambda>r. suite_key r = suite) rs)) (suites_of rs)) @ [End ''testsuites''])"

section \<open>The buckets\<close>

lemma by_suite_find:
  "omap_ok (by_suite rs) \<and> fst ` set (by_suite rs) = suite_key ` set rs \<and>
    (\<forall>k. omap_find k (by_suite rs) = (if k \<in> suite_key ` set rs then Some (filter (\<lambda>r. suite_key r = k) rs) else None))"
proof (induction rs rule: rev_induct)
  case Nil
  show ?case by (simp add: by_suite_def)
next
  case (snoc r rs)
  have "by_suite (rs @ [r]) = add_to_suite r (by_suite rs)" by (simp add: by_suite_def)
  with snoc show ?case by (auto simp: add_to_suite_def filter_empty_conv image_iff split: option.splits)
qed

lemma by_suite_spec: "by_suite rs = map (\<lambda>suite. (suite, filter (\<lambda>r. suite_key r = suite) rs)) (suites_of rs)"
proof -
  note facts = by_suite_find [of rs]
  have keys: "map fst (by_suite rs) = suites_of rs"
    using facts by (intro sorted_distinct_set_unique) (simp_all add: suites_of_def omap_ok_sorted omap_ok_distinct)
  have "e = (fst e, filter (\<lambda>r. suite_key r = fst e) rs)" if "e \<in> set (by_suite rs)" for e
  proof -
    have "map_of (by_suite rs) (fst e) = Some (snd e)" using that facts omap_ok_distinct by (intro map_of_is_SomeI) auto
    with facts that show ?thesis by (cases e) (auto simp: omap_find_map_of split: if_splits)
  qed
  then have "by_suite rs = map (\<lambda>e. (fst e, filter (\<lambda>r. suite_key r = fst e) rs)) (by_suite rs)" by (intro map_idI [symmetric]) simp
  then show ?thesis by (simp add: keys [symmetric] comp_def)
qed

lemma suite_loop_counts:
  "suite_loop rs n = Some n' \<Longrightarrow> sn_failures n' = sn_failures n + count_of (\<lambda>r. r_status r = Failed) rs
    \<and> sn_errors n' = sn_errors n + count_of in_trouble rs \<and> sn_skipped n' = sn_skipped n + count_of (\<lambda>r. r_status r = Skipped) rs
    \<and> sn_totalMs n' = sn_totalMs n + sum_list (map (\<lambda>r. sint (r_duration r)) rs)"
  by (induction rs n rule: suite_loop.induct)
    (auto simp: Let_def count_of_def in_trouble_def suite_count_def split: if_splits test_status.splits)


section \<open>The report is what its tokens say\<close>

lemma attr_value_escaped: "attr_value (escapeXml t)"
  using escapeXml_safe [of t] by (auto simp: attr_value_def)

lemma attr_value_plain: "list_all (\<lambda>c. is_digit c \<or> c \<in> {CHR ''-'', CHR ''.''}) t \<Longrightarrow> attr_value t \<and> xml_unescape t = t"
  by (auto simp: attr_value_def list_all_iff is_digit_def intro!: unescape_plain)

lemma plain_numbers:
  "list_all (\<lambda>c. is_digit c \<or> c \<in> {CHR ''-'', CHR ''.''}) (show_nat n)"
  "list_all (\<lambda>c. is_digit c \<or> c \<in> {CHR ''-'', CHR ''.''}) (show_int i)"
  "list_all (\<lambda>c. is_digit c \<or> c \<in> {CHR ''-'', CHR ''.''}) (seconds_text ms)"
proof -
  have z: "is_digit CHR ''0''" by (simp add: is_digit_def)
  show "list_all (\<lambda>c. is_digit c \<or> c \<in> {CHR ''-'', CHR ''.''}) (show_nat n)" for n
    using show_nat_digits [of n] by (simp add: list_all_iff)
  then show "list_all (\<lambda>c. is_digit c \<or> c \<in> {CHR ''-'', CHR ''.''}) (show_int i)"
    "list_all (\<lambda>c. is_digit c \<or> c \<in> {CHR ''-'', CHR ''.''}) (seconds_text ms)"
    using z by (auto simp: show_int_def seconds_text_def print_fixed_def Let_def list_all_iff)
qed

lemmas written_values = attr_value_escaped attr_value_plain [OF plain_numbers(1), THEN conjunct1]
  attr_value_plain [OF plain_numbers(2), THEN conjunct1] attr_value_plain [OF plain_numbers(3), THEN conjunct1]

lemmas read_values = xml_unescape_escapeXml attr_value_plain [OF plain_numbers(1), THEN conjunct2]
  attr_value_plain [OF plain_numbers(2), THEN conjunct2] attr_value_plain [OF plain_numbers(3), THEN conjunct2]

lemma junit_names:
  "attr_name ''name''" "attr_name ''type''" "attr_name ''message''" "attr_name ''classname''" "attr_name ''time''" "attr_name ''tests''"
  "attr_name ''failures''" "attr_name ''errors''" "attr_name ''skipped''" "attr_name ''timestamp''" "attr_name ''hostname''"
  "attr_name ''failure''" "attr_name ''error''" "attr_name ''system-out''" "attr_name ''testcase''" "attr_name ''testsuite''"
  "attr_name ''testsuites''"
  by code_simp+

lemma category_shown: "shown_chars (category_str c) = category_str c"
  by (cases c) (simp_all, code_simp+)

lemma xml_chars_escaped:
  assumes "CHR ''<'' \<notin> set t" shows "xml_read (t @ xml_close name @ u) = read_chars (xml_unescape t) @ xml_read (xml_close name @ u)"
  using xml_read_chars [OF assms] by (simp add: xml_close_def)


text \<open>A text that goes on with layout up to the next tag.\<close>

definition laid :: "string \<Rightarrow> bool" where
  "laid t \<longleftrightarrow> (let u = dropWhile is_space t in u = [] \<or> hd u = CHR ''<'')"

lemma laid_simps [simp]:
  "laid []" "laid (newline @ t) = laid t" "laid (spaces n @ t) = laid t" "laid (xml_open name attrs @ t)" "laid (xml_close name @ t)"
  "laid (xml_empty name attrs @ t)"
proof -
  have lt: "\<not> is_space CHR ''<''" by (simp add: is_space_def)
  have "dropWhile is_space (spaces n @ t) = dropWhile is_space t"
    by (induction n) (simp_all add: spaces_def is_space_def)
  then show "laid (spaces n @ t) = laid t" by (simp add: laid_def)
  show "laid []" "laid (newline @ t) = laid t" by (simp_all add: laid_def newline_def is_space_def)
  show "laid (xml_open name attrs @ t)" "laid (xml_close name @ t)" "laid (xml_empty name attrs @ t)"
    using lt by (simp_all add: laid_def xml_open_def xml_close_def xml_empty_def)
qed

lemma xml_read_blanks: "list_all is_space t \<Longrightarrow> xml_read t = []"
proof (cases "t = []")
  case False
  assume t: "list_all is_space t"
  then have "CHR ''<'' \<notin> set t" "CHR ''&'' \<notin> set t" by (auto simp: list_all_iff is_space_def)
  then have "takeWhile (\<lambda>c. c \<noteq> CHR ''<'') t = t" "dropWhile (\<lambda>c. c \<noteq> CHR ''<'') t = []" "xml_unescape t = t" "hd t \<noteq> CHR ''<''"
    using False by (auto simp: takeWhile_eq_all_conv dropWhile_eq_Nil_conv unescape_plain) (metis hd_in_set)
  note span = this
  have "xml_read t = xml_read []" by (subst xml_read.simps) (simp only: span False t read_chars_def if_False if_True append_Nil)
  then show ?thesis by (subst (asm) (2) xml_read.simps) simp
qed (subst xml_read.simps, simp)

lemma xml_read_newline [simp]: "xml_read newline = []"
  by (rule xml_read_blanks) (simp add: newline_def is_space_def)

lemma xml_read_laid:
  assumes "laid t" "list_all is_space l" shows "xml_read (l @ t) = xml_read t"
proof -
  define b where "b = takeWhile is_space t"
  define u where "u = dropWhile is_space t"
  have t: "t = b @ u" by (simp add: b_def u_def)
  have b: "list_all is_space b" by (auto simp: b_def list_all_iff dest: set_takeWhileD)
  from assms(1) have "u = [] \<or> hd u = CHR ''<''" by (simp add: laid_def u_def)
  then consider "u = []" | v where "u = CHR ''<'' # v" by (cases u) auto
  then show ?thesis
  proof cases
    case 1
    with assms(2) b show ?thesis by (simp add: t xml_read_blanks)
  next
    case 2
    with assms(2) b xml_read_blank [of "l @ b" v] xml_read_blank [of b v] show ?thesis by (simp add: t)
  qed
qed

lemma read_layout [simp]: "laid t \<Longrightarrow> xml_read (newline @ t) = xml_read t" "laid t \<Longrightarrow> xml_read (spaces n @ t) = xml_read t"
  by (rule xml_read_laid, assumption, simp add: newline_def spaces_def is_space_def list_all_iff)+

lemma no_tag_escaped: "CHR ''<'' \<notin> set (escapeXml t)"
  using escapeXml_safe [of t] by auto

lemmas read_tags = read_open read_close read_empty attr_ok_def unescaped_def junit_names written_values read_values

lemma read_problem:
  "attr_name e \<Longrightarrow> laid t \<Longrightarrow> xml_read (junit_problem e r @ t) = problem_tokens e r @ xml_read t"
  by (simp add: junit_problem_def problem_tokens_def read_tags category_shown xml_chars_escaped no_tag_escaped)

lemma read_outcome: "laid t \<Longrightarrow> xml_read (junit_outcome r @ t) = outcome_tokens r @ xml_read t"
  by (cases "r_status r") (simp_all add: junit_outcome_def outcome_tokens_def read_problem read_tags)

lemma unescape_lines: "xml_unescape (concat (map (\<lambda>t. escapeXml t @ newline) logs)) = concat (map (\<lambda>t. shown_chars t @ newline) logs)"
proof -
  have "xml_unescape (escapeXml t @ u) = shown_chars t @ xml_unescape u" for t u
    by (induction t) (simp_all add: escapeXml_def xml_unescape_char)
  then show ?thesis by (induction logs) (simp_all add: newline_def)
qed

lemma read_logs: "laid t \<Longrightarrow> xml_read (junit_logs logs @ t) = log_tokens logs @ xml_read t"
proof -
  assume "laid t"
  moreover have "CHR ''<'' \<notin> set (concat (map (\<lambda>t. escapeXml t @ newline) logs))"
    using no_tag_escaped by (auto simp: newline_def)
  ultimately show ?thesis
    using xml_chars_escaped [of "concat (map (\<lambda>t. escapeXml t @ newline) logs)" "''system-out''" "newline @ t"]
    by (simp add: junit_logs_def log_tokens_def read_tags unescape_lines)
qed

lemma laid_parts: "laid t \<Longrightarrow> laid (junit_logs logs @ t)" "laid t \<Longrightarrow> laid (junit_outcome r @ t)"
  by (simp_all add: junit_logs_def junit_outcome_def junit_problem_def split: test_status.splits)

lemma read_testcase: "laid t \<Longrightarrow> xml_read (junit_testcase suite r @ t) = case_tokens suite r @ xml_read t"
  by (simp add: junit_testcase_def case_tokens_def read_tags read_outcome read_logs laid_parts)

lemma read_testcases: "laid t \<Longrightarrow> laid (concat (map (junit_testcase suite) rs) @ t)
    \<and> xml_read (concat (map (junit_testcase suite) rs) @ t) = concat (map (case_tokens suite) rs) @ xml_read t"
proof (induction rs)
  case (Cons r rs)
  then show ?case by (simp add: read_testcase) (simp add: junit_testcase_def)
qed simp


lemma read_suite:
  assumes "junit_suite run (suite, rs) = Some t" "laid u"
  shows "laid (t @ u) \<and> xml_read (t @ u) = suite_tokens run suite rs @ xml_read u"
proof -
  from assms(1) obtain n where n: "suite_loop rs no_counts = Some n" by (auto simp: junit_suite_def)
  have "sn_failures n = count_of (\<lambda>r. r_status r = Failed) rs" "sn_errors n = count_of in_trouble rs"
    "sn_skipped n = count_of (\<lambda>r. r_status r = Skipped) rs" "sn_totalMs n = sum_list (map (\<lambda>r. sint (r_duration r)) rs)"
    using suite_loop_counts [OF n] by (simp_all add: no_counts_def)
  with assms read_testcases [of "spaces 2 @ xml_close ''testsuite'' @ newline @ u" suite rs] show ?thesis
    by (auto simp: junit_suite_def n suite_tokens_def read_tags)
qed

lemma read_suites:
  "junit_suites run es = Some t \<Longrightarrow> laid u \<Longrightarrow>
    laid (t @ u) \<and> xml_read (t @ u) = concat (map (\<lambda>(suite, rs). suite_tokens run suite rs) es) @ xml_read u"
proof (induction run es arbitrary: t rule: junit_suites.induct)
  case (2 run e es)
  obtain suite rs where e: "e = (suite, rs)" by (cases e)
  from 2 obtain a b where ab: "junit_suite run e = Some a" "junit_suites run es = Some b" "t = a @ b" by (auto split: option.splits)
  from 2 ab have "laid (b @ u) \<and> xml_read (b @ u) = concat (map (\<lambda>(suite, rs). suite_tokens run suite rs) es) @ xml_read u" by blast
  with ab e read_suite [of run suite rs a "b @ u"] show ?case by simp
qed simp


lemma statistics_counted:
  assumes "compute_statistics rs wall = Some st"
  shows "st_total st = int (length rs)" "st_failed st = count_of (\<lambda>r. r_status r = Failed) rs"
    "st_skipped st = count_of (\<lambda>r. r_status r = Skipped) rs" "st_errors st + st_timeouts st = count_of in_trouble rs"
proof -
  obtain st' ds s where l: "compute_loop rs (empty_statistics\<lparr>st_wallDuration := wall, st_total := int (length rs)\<rparr>) [] 0 = Some (st', ds, s)"
    using assms by (auto simp: compute_statistics_def split: option.splits)
  have "count_of in_trouble rs = count_of (\<lambda>r. r_status r = Error) rs + count_of (\<lambda>r. r_status r = TimedOut) rs"
    by (induction rs) (auto simp: count_of_def in_trouble_def)
  moreover have "st_total st = st_total st' \<and> st_failed st = st_failed st' \<and> st_skipped st = st_skipped st' \<and> st_errors st = st_errors st'
      \<and> st_timeouts st = st_timeouts st'"
    using assms by (auto simp: compute_statistics_def l)
  moreover note compute_loop_counts [OF l]
  ultimately show "st_total st = int (length rs)" "st_failed st = count_of (\<lambda>r. r_status r = Failed) rs"
    "st_skipped st = count_of (\<lambda>r. r_status r = Skipped) rs" "st_errors st + st_timeouts st = count_of in_trouble rs"
    by (simp_all add: empty_statistics_def)
qed

lemma junit_read:
  assumes "junit_render run = Some t" shows "xml_read t = junit_tokens run"
proof -
  from assms obtain st suites where st: "compute_statistics (run_results run) (run_duration run) = Some st"
    and suites: "junit_suites run (by_suite (run_results run)) = Some suites" by (auto simp: junit_render_def split: option.splits)
  let ?closing = "xml_close ''testsuites'' @ newline"
  have "xml_read (CHR ''<'' # ''?xml'' @ xml_attr (''version'', ''1.0'') @ xml_attr (''encoding'', ''UTF-8'') @ CHR ''?'' # CHR ''>'' # u)
      = Declaration [(''version'', ''1.0''), (''encoding'', ''UTF-8'')] # xml_read u" for u
  proof -
    have "read_tag (''?xml'' @ xml_attr (''version'', ''1.0'') @ xml_attr (''encoding'', ''UTF-8'') @ ''?'')
        = Declaration [(''version'', ''1.0''), (''encoding'', ''UTF-8'')]"
      "CHR ''>'' \<notin> set (''?xml'' @ xml_attr (''version'', ''1.0'') @ xml_attr (''encoding'', ''UTF-8'') @ ''?'')" by code_simp+
    with xml_read_tag [OF this(2), of u] show ?thesis by simp
  qed
  moreover have "laid (suites @ ?closing) \<and> xml_read (suites @ ?closing) = concat (map (\<lambda>(suite, rs). suite_tokens run suite rs) (by_suite (run_results run)))
      @ [End ''testsuites'']"
    using read_suites [OF suites, of ?closing] by (simp add: read_tags)
  moreover have "t = ''<?xml'' @ xml_attr (''version'', ''1.0'') @ xml_attr (''encoding'', ''UTF-8'') @ ''?>'' @ newline
      @ xml_open ''testsuites'' [(''name'', ''TestForge''), (''tests'', show_int (st_total st)), (''failures'', show_int (st_failed st)),
          (''errors'', show_int (st_errors st + st_timeouts st)), (''skipped'', show_int (st_skipped st)),
          (''time'', seconds_text (sint (run_duration run)))] @ newline @ suites @ ?closing"
    using assms by (simp add: junit_render_def st suites)
  moreover have "attr_value ''TestForge''" "xml_unescape ''TestForge'' = ''TestForge''" by (code_simp, simp)
  ultimately show ?thesis
    by (simp add: statistics_counted [OF st] junit_tokens_def read_tags Let_def by_suite_spec comp_def)
qed


text \<open>
  C38. A JUnit report reads back as the run it is of: the totals, the suites in order with their own
  counts, and every result once, under its suite, with its name, outcome, messages and logs whatever
  markup they contain.
\<close>

theorem junit_report_reads_back:
  assumes "junit_render run = Some t" shows "xml_read t = junit_tokens run"
  by (rule junit_read [OF assms])

text \<open>A run with a failure whose message looks like markup.\<close>

definition hostile_run :: test_run where
  "hostile_run = sample_run\<lparr>run_results := [default_result\<lparr>r_testName := ''t'', r_status := Failed, r_errorMessage := ''</failure><x a=''\<rparr>]\<rparr>"

lemma hostile_renders: "\<exists>t. junit_render hostile_run = Some t"
  by (simp add: junit_render_def hostile_run_def sample_run_def compute_statistics_def by_suite_def add_to_suite_def junit_suite_def
      no_counts_def default_result_def in_i64_def Let_def)

theorem junit_report_reads_back_witness:
  "\<exists>t. junit_render hostile_run = Some t \<and> xml_read t = junit_tokens hostile_run"
  using junit_report_reads_back hostile_renders by blast

end
