(* ===== verification/Html_Report.thy ===== *)
theory Html_Report
  imports Junit_Facts Classifier
begin

text \<open>
  The HTML report (\<open>src/reporting/HtmlReporter.cpp\<close>). Every insertion into the stream is a piece: markup
  of the template, or a text shown through \<open>escapeHtml\<close>. The text of the report is their
  concatenation. The time of writing and the order \<open>std::sort\<close> gives to equal counts are parameters.
\<close>

datatype html_piece = Markup string | Shown string

fun piece_text :: "html_piece \<Rightarrow> string" where
  "piece_text (Markup m) = m"
| "piece_text (Shown t) = escapeHtml t"

section \<open>The style\<close>

definition kStyle_lines :: "string list" where
  "kStyle_lines =
    ['':root{--bg:#0f1116;--panel:#171a21;--line:#262b36;--fg:#e6e8ee;--muted:#9aa3b2;'',
     ''--pass:#3fb950;--fail:#f85149;--skip:#8b949e;--err:#bc8cff;--time:#d29922;--accent:#58a6ff}'',
     ''@media (prefers-color-scheme: light){'',
     '':root{--bg:#f6f8fa;--panel:#fff;--line:#d8dee4;--fg:#1f2328;--muted:#59636e;'',
     ''--pass:#1a7f37;--fail:#cf222e;--skip:#6e7781;--err:#8250df;--time:#9a6700;--accent:#0969da}}'',
     ''*{box-sizing:border-box}'',
     ''body{margin:0;background:var(--bg);color:var(--fg);'',
     ''font:14px/1.55 ui-sans-serif,-apple-system,\"Segoe UI\",Roboto,Helvetica,Arial,sans-serif}'',
     ''.wrap{max-width:1100px;margin:0 auto;padding:32px 20px 80px}'',
     ''h1{font-size:24px;margin:0 0 4px}'',
     ''h2{font-size:17px;margin:36px 0 12px;padding-bottom:6px;border-bottom:1px solid var(--line)}'',
     ''.sub{color:var(--muted);font-size:13px;margin-bottom:24px}'',
     ''.cards{display:grid;grid-template-columns:repeat(auto-fit,minmax(120px,1fr));gap:12px}'',
     ''.card{background:var(--panel);border:1px solid var(--line);border-radius:8px;padding:14px 16px}'',
     ''.card .n{font-size:26px;font-weight:650;line-height:1.1}'',
     ''.card .l{color:var(--muted);font-size:12px;text-transform:uppercase;letter-spacing:.04em;'',
     ''margin-top:4px}'',
     ''.pass{color:var(--pass)}.fail{color:var(--fail)}.skip{color:var(--skip)}'',
     ''.err{color:var(--err)}.time{color:var(--time)}'',
     ''.bar{height:10px;border-radius:5px;background:var(--line);overflow:hidden;margin:14px 0 6px;'',
     ''display:flex}'',
     ''.bar>span{display:block;height:100%}'',
     ''table{width:100%;border-collapse:collapse;font-size:13px}'',
     ''th,td{text-align:left;padding:7px 10px;border-bottom:1px solid var(--line);vertical-align:top}'',
     ''th{color:var(--muted);font-weight:600;font-size:12px;text-transform:uppercase;'',
     ''letter-spacing:.04em}'',
     ''td.num{text-align:right;font-variant-numeric:tabular-nums;white-space:nowrap}'',
     ''.badge{display:inline-block;padding:1px 8px;border-radius:11px;font-size:11px;font-weight:650;'',
     ''border:1px solid currentColor}'',
     ''details{background:var(--panel);border:1px solid var(--line);border-radius:8px;padding:10px 14px;'',
     ''margin-bottom:10px}'',
     ''details>summary{cursor:pointer;font-weight:600}'',
     ''pre{background:var(--bg);border:1px solid var(--line);border-radius:6px;padding:10px;'',
     ''overflow-x:auto;font:12px/1.5 ui-monospace,SFMono-Regular,Menlo,Consolas,monospace;'',
     ''white-space:pre-wrap;word-break:break-word}'',
     ''.kv{display:grid;grid-template-columns:130px 1fr;gap:2px 12px;margin:10px 0;font-size:13px}'',
     ''.kv dt{color:var(--muted)}'',
     ''.kv dd{margin:0}'',
     ''.note{color:var(--muted);font-size:12px;font-style:italic}'',
     ''footer{margin-top:48px;color:var(--muted);font-size:12px;border-top:1px solid var(--line);'',
     ''padding-top:14px}'']"

definition kStyle :: string where
  "kStyle = newline @ concat (map (\<lambda>l. l @ newline) kStyle_lines)"

section \<open>Small parts\<close>

fun statusClass :: "test_status \<Rightarrow> string" where
  "statusClass Passed = ''pass''"
| "statusClass Failed = ''fail''"
| "statusClass Skipped = ''skip''"
| "statusClass Error = ''err''"
| "statusClass TimedOut = ''time''"

definition percentText :: "f64 \<Rightarrow> nat \<Rightarrow> string" where
  "percentText v precision = print_fixed precision v @ ''%''"

definition writeCard :: "int \<Rightarrow> string \<Rightarrow> string \<Rightarrow> html_piece list" where
  "writeCard v label cssClass =
     [Markup (''<div class=\"card\"><div class=\"n '' @ cssClass @ ''\">'' @ show_int v @ ''</div><div class=\"l\">'' @ label @ ''</div></div>'')]"

definition status_slice :: "run_statistics \<Rightarrow> int \<Rightarrow> string \<Rightarrow> html_piece list" where
  "status_slice st n color =
     (if n \<le> 0 then []
      else [Markup (''<span style=\"width:'' @ percentText (f64_div (f64_mul f64_100 (f64_of_int n)) (f64_of_int (st_total st))) 2
        @ '';background:var(--'' @ color @ '')\"></span>'')])"

definition writeStatusBar :: "run_statistics \<Rightarrow> html_piece list" where
  "writeStatusBar st =
     (if st_total st = 0 then []
      else Markup ''<div class=\"bar\">'' # status_slice st (st_passed st) ''pass'' @ status_slice st (st_failed st) ''fail''
        @ status_slice st (st_timeouts st) ''time'' @ status_slice st (st_errors st) ''err'' @ status_slice st (st_skipped st) ''skip''
        @ [Markup ''</div>''])"

definition line_end :: html_piece where "line_end = Markup newline"

section \<open>Sections\<close>

record html_options =
  ho_title :: string
  ho_includeLogs :: bool
  ho_includeDiagnostics :: bool
  ho_maxLogLines :: int

definition default_html_options :: html_options where
  "default_html_options = \<lparr>ho_title = ''TestForge Report'', ho_includeLogs = True, ho_includeDiagnostics = True, ho_maxLogLines = 60\<rparr>"

definition html_head :: "html_options \<Rightarrow> test_run \<Rightarrow> html_piece list" where
  "html_head ho run =
     [Markup ''<!doctype html>'', line_end, Markup ''<html lang=\"en\">'', line_end, Markup ''<head>'', line_end,
      Markup ''<meta charset=\"utf-8\">'', line_end,
      Markup ''<meta name=\"viewport\" content=\"width=device-width,initial-scale=1\">'', line_end,
      Markup ''<title>'', Shown (ho_title ho), Markup '' - '', Shown (run_id run), Markup ''</title>'', line_end,
      Markup ''<style>'', Markup kStyle, Markup ''</style>'', line_end, Markup ''</head>'', line_end, Markup ''<body>'', line_end,
      Markup ''<div class=\"wrap\">'', line_end,
      Markup ''<h1>'', Shown (ho_title ho), Markup ''</h1>'', line_end,
      Markup ''<div class=\"sub\">run <code>'', Shown (run_id run), Markup ''</code>'']
     @ (if run_label run \<noteq> [] then [Markup '' &middot; '', Shown (run_label run)] else [])
     @ [Markup '' &middot; '', Shown (toIso8601 (run_startedAt run)), Markup '' &middot; '', Shown (formatDuration (run_duration run)),
        Markup ('' on '' @ show_int (run_workers run) @ '' worker'' @ (if run_workers run = 1 then [] else ''s'')), Markup ''</div>'', line_end]"

definition html_summary :: "run_statistics \<Rightarrow> html_piece list" where
  "html_summary st =
     [Markup ''<div class=\"cards\">''] @ writeCard (st_total st) ''Total'' [] @ writeCard (st_passed st) ''Passed'' ''pass''
     @ writeCard (st_failed st) ''Failed'' ''fail'' @ writeCard (st_timeouts st) ''Timeouts'' ''time''
     @ writeCard (st_errors st) ''Errors'' ''err'' @ writeCard (st_skipped st) ''Skipped'' ''skip'' @ [Markup ''</div>'', line_end]
     @ writeStatusBar st
     @ [Markup ''<div class=\"sub\">success rate <strong>'', Markup (percentText (successRate st) 1), Markup ''</strong>'']
     @ (if 0 < st_skipped st then [Markup '' <span class=\"note\">(skipped tests excluded)</span>''] else [])
     @ [Markup ''</div>'', line_end]"

definition html_entry :: "string \<Rightarrow> html_piece list \<Rightarrow> html_piece list" where
  "html_entry term ps = Markup (''<dt>'' @ term @ ''</dt><dd>'') # ps @ [Markup ''</dd>'']"

definition html_context :: "test_run \<Rightarrow> run_statistics \<Rightarrow> html_piece list" where
  "html_context run st =
     [Markup ''<h2>Run context</h2>'', line_end, Markup ''<dl class=\"kv\">'']
     @ html_entry ''Filter'' [Markup ''<code>'', Shown (run_filter run), Markup ''</code>'']
     @ html_entry ''Host'' [Shown (run_hostname run)]
     @ (if run_gitCommit run \<noteq> [] then html_entry ''Commit'' [Markup ''<code>'', Shown (run_gitCommit run), Markup ''</code>''] else [])
     @ html_entry ''Started'' [Shown (toIso8601 (run_startedAt run))] @ html_entry ''Finished'' [Shown (toIso8601 (run_finishedAt run))]
     @ html_entry ''Average'' [Shown (formatDuration (word_of_int (st_averageDuration st)))]
     @ html_entry ''Median / p95'' [Shown (formatDuration (word_of_int (st_medianDuration st))), Markup '' / '',
         Shown (formatDuration (word_of_int (st_p95Duration st)))]
     @ (if st_slowestTest st \<noteq> []
        then html_entry ''Slowest'' [Shown (st_slowestTest st), Markup '' ('', Shown (formatDuration (word_of_int (st_maxDuration st))), Markup '')'']
        else [])
     @ (if 1 < run_workers run \<and> 0 < sint (st_wallDuration st)
        then html_entry ''Parallel gain'' [Markup (print_fixed 2 (parallelEfficiency st) @ ''x''),
          Markup '' <span class=\"note\">sum of test durations divided by wall clock</span>'']
        else [])
     @ [Markup ''</dl>'', line_end]"

text \<open>The categories with the most failures first; \<open>rank\<close> is the order of \<open>std::sort\<close>.\<close>

definition html_categories :: "((failure_category \<times> int) list \<Rightarrow> (failure_category \<times> int) list) \<Rightarrow> run_statistics \<Rightarrow> html_piece list" where
  "html_categories rank st =
     (if st_categories st = [] then []
      else [Markup ''<h2>Failure categories</h2>'', line_end, Markup ''<table><thead><tr><th>Category</th>'',
            Markup ''<th class=\"num\">Count</th><th>What it means</th></tr></thead><tbody>'']
        @ concat (map (\<lambda>(category, n). [Markup ''<tr><td><span class=\"badge fail\">'', Shown (category_str category),
            Markup (''</span></td><td class=\"num\">'' @ show_int n @ ''</td><td class=\"note\">''), Shown (explain category),
            Markup ''</td></tr>'']) (rank (st_categories st)))
        @ [Markup ''</tbody></table>'', line_end])"

definition html_message :: "test_result \<Rightarrow> html_piece list" where
  "html_message r =
     (if r_errorMessage r = [] then []
      else [Markup ''<pre>'', Shown (r_errorMessage r)]
        @ (if r_errorDetail r \<noteq> [] then [line_end, Shown (r_errorDetail r)] else []) @ [Markup ''</pre>''])"

definition html_facts :: "test_result \<Rightarrow> html_piece list" where
  "html_facts r =
     (if json_size (r_metadata r) = 0 then []
      else [Markup ''<details><summary>Recorded facts</summary><pre>'', Shown (json_dump_indent 2 (r_metadata r)), Markup ''</pre></details>''])"

definition log_tail :: "int \<Rightarrow> string list \<Rightarrow> string list" where
  "log_tail limit logs = (let n = unat (word_of_int limit :: u64) in drop (if n < length logs then length logs - n else 0) logs)"

definition html_logs :: "html_options \<Rightarrow> test_result \<Rightarrow> html_piece list" where
  "html_logs ho r =
     (if \<not> ho_includeLogs ho \<or> r_logs r = [] then []
      else [Markup (''<details><summary>Log tail ('' @ show_nat (length (r_logs r)) @ '' lines)</summary><pre>'')]
        @ concat (map (\<lambda>t. [Shown t, line_end]) (log_tail (ho_maxLogLines ho) (r_logs r))) @ [Markup ''</pre></details>''])"

definition html_diagnostics :: "html_options \<Rightarrow> test_result \<Rightarrow> html_piece list" where
  "html_diagnostics ho r =
     (if \<not> ho_includeDiagnostics ho \<or> json_size (r_diagnostics r) = 0 then []
      else [Markup ''<details><summary>System diagnostics at failure time</summary>'']
        @ (case json_path (r_diagnostics r) ''gpu.is_mock_data'' of
             Some v \<Rightarrow> if boolOr v False
               then [Markup ''<p class=\"note\"><strong>Note:</strong> the GPU section below is MOCK TEST DATA, not a reading from real hardware.</p>'']
               else []
           | None \<Rightarrow> [])
        @ [Markup ''<pre>'', Shown (json_dump_indent 2 (r_diagnostics r)), Markup ''</pre></details>''])"

definition html_badge :: "test_result \<Rightarrow> html_piece list" where
  "html_badge r = [Markup (''<span class=\"badge '' @ statusClass (r_status r) @ ''\">''), Shown (status_str (r_status r)), Markup ''</span>'']"

definition html_failure :: "html_options \<Rightarrow> test_result \<Rightarrow> html_piece list" where
  "html_failure ho r =
     [Markup ''<details open><summary>''] @ html_badge r @ [Markup '' '', Shown (result_name r), Markup ''</summary>'', line_end,
      Markup ''<dl class=\"kv\">'']
     @ html_entry ''Category'' [Shown (category_str (r_category r))]
     @ [Markup ''<dt>Meaning</dt><dd class=\"note\">'', Shown (explain (r_category r)), Markup ''</dd>'']
     @ html_entry ''Duration'' [Shown (formatDuration (r_duration r))] @ html_entry ''Worker'' [Shown (r_worker r)]
     @ (if 1 < r_attempt r then html_entry ''Attempt'' [Markup (show_int (r_attempt r))] else []) @ [Markup ''</dl>'']
     @ html_message r @ html_facts r @ html_logs ho r @ html_diagnostics ho r @ [Markup ''</details>'', line_end]"

definition html_failures :: "html_options \<Rightarrow> test_run \<Rightarrow> html_piece list" where
  "html_failures ho run =
     (let failures = filter (\<lambda>r. isFailure (r_status r)) (run_results run)
      in if failures = [] then []
         else [Markup (''<h2>Failures ('' @ show_nat (length failures) @ '')</h2>''), line_end] @ concat (map (html_failure ho) failures))"

definition html_row :: "test_result \<Rightarrow> html_piece list" where
  "html_row r =
     [Markup ''<tr><td>''] @ html_badge r @ [Markup ''</td>'', Markup ''<td>'', Shown (result_name r), Markup ''</td>'', Markup ''<td>'',
      if r_category r = NoFailure then Markup ''&mdash;'' else Shown (category_str (r_category r)),
      Markup ''</td>'', Markup ''<td class=\"num\">'', Shown (formatDuration (r_duration r)), Markup ''</td>'',
      Markup ''<td>'', Shown (String_Utils.truncate (r_errorMessage r) 160), Markup ''</td></tr>'']"

definition html_results :: "test_run \<Rightarrow> html_piece list" where
  "html_results run =
     [Markup ''<h2>All results</h2>'', line_end, Markup ''<table><thead><tr><th>Status</th><th>Test</th>'',
      Markup ''<th>Category</th><th class=\"num\">Duration</th><th>Message</th></tr></thead><tbody>'']
     @ concat (map html_row (run_results run)) @ [Markup ''</tbody></table>'', line_end]"

definition html_footer :: "int \<Rightarrow> html_piece list" where
  "html_footer now =
     [Markup ''<footer>Generated by TestForge &middot; '', Shown (toIso8601 now),
      Markup ''<br>Failure categories and flaky-test flags are heuristics; see docs/limitations.md.</footer>'', line_end,
      Markup ''</div>'', line_end, Markup ''</body>'', line_end, Markup ''</html>'', line_end]"

definition html_pieces :: "html_options \<Rightarrow> ((failure_category \<times> int) list \<Rightarrow> (failure_category \<times> int) list) \<Rightarrow> int \<Rightarrow> test_run \<Rightarrow>
    html_piece list option" where
  "html_pieces ho rank now run =
     map_option (\<lambda>st. html_head ho run @ html_summary st @ html_context run st @ html_categories rank st @ html_failures ho run
         @ html_results run @ html_footer now)
       (compute_statistics (run_results run) (run_duration run))"

definition html_render :: "html_options \<Rightarrow> ((failure_category \<times> int) list \<Rightarrow> (failure_category \<times> int) list) \<Rightarrow> int \<Rightarrow> test_run \<Rightarrow> string option" where
  "html_render ho rank now run = map_option (\<lambda>ps. concat (map piece_text ps)) (html_pieces ho rank now run)"

section \<open>What a run says never becomes markup\<close>

text \<open>Whether a reader is inside of a tag after a text, and the characters that belong to tags.\<close>

fun in_tag :: "bool \<Rightarrow> string \<Rightarrow> bool" where
  "in_tag b [] = b"
| "in_tag b (c # t) = in_tag (if b then c \<noteq> CHR ''>'' else c = CHR ''<'') t"

fun tags_in :: "bool \<Rightarrow> string \<Rightarrow> string" where
  "tags_in b [] = []"
| "tags_in b (c # t) =
     (if b then c # tags_in (c \<noteq> CHR ''>'') t else if c = CHR ''<'' then c # tags_in True t else tags_in False t)"

lemma in_tag_append [simp]: "in_tag b (s @ t) = in_tag (in_tag b s) t"
  by (induction s arbitrary: b) auto

lemma tags_in_append: "tags_in b (s @ t) = tags_in b s @ tags_in (in_tag b s) t"
  by (induction s arbitrary: b) auto

lemma no_tags: "CHR ''<'' \<notin> set t \<Longrightarrow> \<not> in_tag False t \<and> tags_in False t = []"
  by (induction t) auto

lemma stays_in_tag: "CHR ''>'' \<notin> set t \<Longrightarrow> in_tag True t"
  by (induction t) auto

text \<open>A piece of markup that closes every tag it opens.\<close>

fun piece_closed :: "html_piece \<Rightarrow> bool" where
  "piece_closed (Markup m) = (\<not> in_tag False m)"
| "piece_closed (Shown t) = True"

fun template :: "html_piece \<Rightarrow> string" where
  "template (Markup m) = tags_in False m"
| "template (Shown t) = []"

lemma closed_pieces:
  "list_all piece_closed ps \<Longrightarrow> tags_in False (concat (map piece_text ps)) = concat (map template ps) \<and> \<not> in_tag False (concat (map piece_text ps))"
proof (induction ps)
  case (Cons p ps)
  have "\<not> in_tag False (piece_text p) \<and> tags_in False (piece_text p) = template p"
    using Cons.prems no_tags [of "escapeHtml t" for t] escapeHtml_safe by (cases p) auto
  with Cons show ?case by (simp add: tags_in_append)
qed simp


lemma no_brackets: "CHR ''<'' \<notin> set t \<Longrightarrow> CHR ''>'' \<notin> set t \<Longrightarrow> in_tag b t = b"
  by (induction t arbitrary: b) auto

lemma number_no_tags:
  "in_tag b (show_int i) = b" "in_tag b (show_nat n) = b" "in_tag b (percentText v n) = b" "in_tag b (print_fixed n v) = b"
proof -
  have n: "in_tag b (show_nat n) = b" for b n
    using show_nat_digits [of n] by (intro no_brackets) (auto simp: is_digit_def)
  have z: "in_tag b (replicate k CHR ''0'') = b" for b k by (intro no_brackets) simp_all
  show "in_tag b (show_int i) = b" "in_tag b (show_nat n) = b" "in_tag b (print_fixed n v) = b" "in_tag b (percentText v n) = b"
    by (simp_all add: show_int_def print_fixed_def percentText_def Let_def n z)
qed

lemma style_no_tags: "\<not> in_tag False kStyle"
proof -
  have "list_all (\<lambda>l. list_all (\<lambda>c. c \<noteq> CHR ''<'') l) kStyle_lines" by code_simp
  then have "CHR ''<'' \<notin> set kStyle" by (auto simp: kStyle_def newline_def list_all_iff)
  then show ?thesis using no_tags by blast
qed

lemma line_end_closed [simp]: "piece_closed line_end"
  by (simp add: line_end_def newline_def)

lemma entry_closed: "\<not> in_tag False term \<Longrightarrow> list_all piece_closed ps \<Longrightarrow> list_all piece_closed (html_entry term ps)"
  by (simp add: html_entry_def)

lemma badge_closed [simp]: "list_all piece_closed (html_badge r)"
  by (cases "r_status r") (simp_all add: html_badge_def)

lemma message_closed [simp]: "list_all piece_closed (html_message r)" "list_all piece_closed (html_facts r)"
  by (simp_all add: html_message_def html_facts_def)

lemma diagnostics_closed [simp]: "list_all piece_closed (html_diagnostics ho r)"
  by (simp add: html_diagnostics_def split: option.splits)

lemma footer_closed [simp]: "list_all piece_closed (html_footer now)"
  by (simp add: html_footer_def)

lemma head_closed [simp]: "list_all piece_closed (html_head ho run)"
  by (simp add: html_head_def style_no_tags number_no_tags)


lemma bar_closed [simp]: "list_all piece_closed (status_slice st n ''pass'')" "list_all piece_closed (status_slice st n ''fail'')"
  "list_all piece_closed (status_slice st n ''time'')" "list_all piece_closed (status_slice st n ''err'')" "list_all piece_closed (status_slice st n ''skip'')"
  by (simp_all add: status_slice_def number_no_tags)

lemma summary_closed [simp]: "list_all piece_closed (html_summary st)"
  by (simp add: html_summary_def writeCard_def writeStatusBar_def number_no_tags)

lemma context_closed [simp]: "list_all piece_closed (html_context run st)"
  by (simp add: html_context_def entry_closed number_no_tags)

lemma categories_closed [simp]: "list_all piece_closed (html_categories rank st)"
  by (auto simp: html_categories_def number_no_tags list_all_iff)

lemma logs_closed [simp]: "list_all piece_closed (html_logs ho r)"
  by (auto simp: html_logs_def number_no_tags list_all_iff)

lemma failure_closed [simp]: "list_all piece_closed (html_failure ho r)"
  by (simp add: html_failure_def entry_closed number_no_tags)

lemma failures_closed [simp]: "list_all piece_closed (html_failures ho run)"
  using failure_closed [unfolded list_all_iff] by (simp add: html_failures_def number_no_tags Let_def) (simp add: list_all_iff)

lemma row_closed: "list_all piece_closed (html_row r)"
  by (simp add: html_row_def)

lemma results_closed [simp]: "list_all piece_closed (html_results run)"
  using row_closed [unfolded list_all_iff] by (simp add: html_results_def) (simp add: list_all_iff)

lemma pieces_closed: "html_pieces ho rank now run = Some ps \<Longrightarrow> list_all piece_closed ps"
  by (auto simp: html_pieces_def)

text \<open>The same pieces with other texts.\<close>

fun reword :: "(string \<Rightarrow> string) \<Rightarrow> html_piece \<Rightarrow> html_piece" where
  "reword f (Markup m) = Markup m"
| "reword f (Shown t) = Shown (f t)"

lemma reword_closed: "list_all piece_closed (map (reword f) ps) = list_all piece_closed ps" "map template (map (reword f) ps) = map template ps"
proof -
  have "piece_closed (reword f p) = piece_closed p" "template (reword f p) = template p" for p by (cases p; simp)+
  then show "list_all piece_closed (map (reword f) ps) = list_all piece_closed ps" "map template (map (reword f) ps) = map template ps"
    by (simp_all add: list_all_iff)
qed

text \<open>
  C39. Nothing a run says becomes markup of its HTML report: the tags of the report are those of its
  template, every one is closed, and they stay what they are whatever other texts are shown instead.
\<close>

theorem html_tags_fixed:
  assumes "html_render ho rank now run = Some t"
  shows "\<exists>ps. html_pieces ho rank now run = Some ps \<and> tags_in False t = concat (map template ps) \<and> \<not> in_tag False t
    \<and> (\<forall>f. tags_in False (concat (map piece_text (map (reword f) ps))) = tags_in False t)"
proof -
  from assms obtain ps where ps: "html_pieces ho rank now run = Some ps" and t: "t = concat (map piece_text ps)"
    by (auto simp: html_render_def)
  note c = pieces_closed [OF ps]
  have "tags_in False (concat (map piece_text (map (reword f) ps))) = concat (map template ps)" for f
    using closed_pieces [of "map (reword f) ps"] c unfolding reword_closed by simp
  with closed_pieces [OF c] ps show ?thesis unfolding t by (intro exI [of _ ps] conjI allI; metis)
qed

theorem html_tags_fixed_witness:
  "\<exists>t. html_render default_html_options (sort_key (\<lambda>c. - snd c)) 0 hostile_run = Some t \<and> \<not> in_tag False t"
proof -
  have "compute_statistics (run_results hostile_run) (run_duration hostile_run) \<noteq> None"
    by (simp add: hostile_run_def sample_run_def compute_statistics_def default_result_def in_i64_def Let_def)
  then obtain t where t: "html_render default_html_options (sort_key (\<lambda>c. - snd c)) 0 hostile_run = Some t"
    by (auto simp: html_render_def html_pieces_def)
  from html_tags_fixed [OF t] t show ?thesis by blast
qed

end
