(* ===== verification/Report_Writer.thy ===== *)
theory Report_Writer
  imports Html_Report Configuration Spec_Validator
begin

text \<open>
  The reports of a run (\<open>src/reporting/ReportWriter.cpp\<close>). Whether the directory can be created, whether
  a file takes its content, and what the directory holds after the writing are parameters: the
  answers of the file system. A reporter that throws is one whose text is \<open>None\<close>.
\<close>

record reporter =
  rp_name :: string
  rp_extension :: string
  rp_render :: "test_run \<Rightarrow> string option"

section \<open>Names\<close>

definition filenameTimestamp :: "int \<Rightarrow> string" where
  "filenameTimestamp when = replaceAll (replaceAll (replaceAll (toIso8601 when) '':'' []) ''-'' []) ''.'' []"

text \<open>\<open>std::filesystem::path::operator/=\<close> with a relative path.\<close>

definition path_append :: "string \<Rightarrow> string \<Rightarrow> string" where
  "path_append directory name = (if directory = [] \<or> last directory = CHR ''/'' then directory @ name else directory @ ''/'' @ name)"

definition report_name :: "test_run \<Rightarrow> string \<Rightarrow> string" where
  "report_name run extension = ''run-'' @ take 8 (run_id run) @ ''-'' @ filenameTimestamp (run_startedAt run) @ ''.'' @ extension"

definition pathFor :: "reporting_config \<Rightarrow> test_run \<Rightarrow> string \<Rightarrow> string" where
  "pathFor rc run extension = path_append (rc_outputDirectory rc) (report_name run extension)"

definition latest_alias :: "reporting_config \<Rightarrow> string \<Rightarrow> string" where
  "latest_alias rc extension = path_append (rc_outputDirectory rc) (''latest.'' @ extension)"

section \<open>Writing\<close>

definition prepareDirectory :: "reporting_config \<Rightarrow> bool \<Rightarrow> bool" where
  "prepareDirectory rc created \<longleftrightarrow> rc_outputDirectory rc \<noteq> [] \<and> created"

definition html_title :: "test_run \<Rightarrow> string" where
  "html_title run = (if run_label run = [] then ''TestForge Report'' else ''TestForge '' @ dash @ '' '' @ run_label run)"

definition json_reporter :: reporter where
  "json_reporter = \<lparr>rp_name = ''json'', rp_extension = ''json'', rp_render = json_report True\<rparr>"

definition html_reporter :: "((failure_category \<times> int) list \<Rightarrow> (failure_category \<times> int) list) \<Rightarrow> int \<Rightarrow> test_run \<Rightarrow> reporter" where
  "html_reporter rank now run = \<lparr>rp_name = ''html'', rp_extension = ''html'',
     rp_render = html_render (default_html_options\<lparr>ho_title := html_title run\<rparr>) rank now\<rparr>"

definition junit_reporter :: reporter where
  "junit_reporter = \<lparr>rp_name = ''junit'', rp_extension = ''xml'', rp_render = junit_render\<rparr>"

definition enabled_reporters :: "reporting_config \<Rightarrow> ((failure_category \<times> int) list \<Rightarrow> (failure_category \<times> int) list) \<Rightarrow> int \<Rightarrow>
    reporter list \<Rightarrow> test_run \<Rightarrow> reporter list" where
  "enabled_reporters rc rank now extra run =
     (if rc_json rc then [json_reporter] else []) @ (if rc_html rc then [html_reporter rank now run] else [])
     @ (if rc_junit rc then [junit_reporter] else []) @ extra"

text \<open>The files by path; a file that is opened is emptied, even when the writing then fails.\<close>

record disk =
  dk_files :: "string \<Rightarrow> string option"
  dk_opens :: "string \<Rightarrow> bool"
  dk_takes :: "string \<Rightarrow> bool"

definition write_one :: "reporting_config \<Rightarrow> test_run \<Rightarrow> reporter \<Rightarrow> disk \<times> string list \<Rightarrow> disk \<times> string list" where
  "write_one rc run rp st =
     (let path = pathFor rc run (rp_extension rp); (dk, written) = st
      in case rp_render rp run of
           None \<Rightarrow> st
         | Some content \<Rightarrow>
             if \<not> dk_opens dk path then st
             else if \<not> dk_takes dk path then (dk\<lparr>dk_files := (dk_files dk)(path \<mapsto> [])\<rparr>, written)
             else (dk\<lparr>dk_files := (dk_files dk)(path \<mapsto> content)\<rparr>, written @ [path]))"

definition copy_latest :: "reporting_config \<Rightarrow> test_run \<Rightarrow> reporter \<Rightarrow> disk \<Rightarrow> disk" where
  "copy_latest rc run rp dk =
     (let alias = latest_alias rc (rp_extension rp)
      in case dk_files dk (pathFor rc run (rp_extension rp)) of
           None \<Rightarrow> dk
         | Some content \<Rightarrow> if dk_opens dk alias \<and> dk_takes dk alias then dk\<lparr>dk_files := (dk_files dk)(alias \<mapsto> content)\<rparr> else dk)"

definition write_reports :: "reporting_config \<Rightarrow> bool \<Rightarrow> reporter list \<Rightarrow> test_run \<Rightarrow> disk \<Rightarrow> disk \<times> string list" where
  "write_reports rc created reporters run dk =
     (if reporters = [] \<or> \<not> prepareDirectory rc created then (dk, [])
      else let (dk', written) = fold (write_one rc run) reporters (dk, [])
           in (if written \<noteq> [] then fold (copy_latest rc run) reporters dk' else dk', written))"


section \<open>What is on disk afterwards\<close>

lemma path_append_inject [simp]: "path_append d m = path_append d n \<longleftrightarrow> m = n"
  by (simp add: path_append_def)

lemma pathFor_inject [simp]: "pathFor rc run e = pathFor rc run e' \<longleftrightarrow> e = e'"
  by (simp add: pathFor_def report_name_def)

lemma alias_not_report [simp]: "latest_alias rc e \<noteq> pathFor rc run e'"
  by (simp add: latest_alias_def pathFor_def report_name_def)

text \<open>The content a reporter leaves, if it leaves one.\<close>

definition leaves :: "reporting_config \<Rightarrow> test_run \<Rightarrow> disk \<Rightarrow> reporter \<Rightarrow> string option" where
  "leaves rc run dk rp =
     (let path = pathFor rc run (rp_extension rp) in if dk_opens dk path \<and> dk_takes dk path then rp_render rp run else None)"

lemma write_one_keeps:
  "dk_opens (fst (write_one rc run rp st)) = dk_opens (fst st)" "dk_takes (fst (write_one rc run rp st)) = dk_takes (fst st)"
  by (auto simp: write_one_def Let_def split: prod.splits option.splits)

lemma leaves_keeps: "leaves rc run (fst (write_one rc run rp st)) = leaves rc run (fst st)"
  by (rule ext) (simp add: leaves_def write_one_keeps Let_def)

lemma write_one_other:
  "e \<noteq> rp_extension rp \<Longrightarrow> dk_files (fst (write_one rc run rp st)) (pathFor rc run e) = dk_files (fst st) (pathFor rc run e)"
  by (auto simp: write_one_def Let_def split: prod.splits option.splits)

lemma write_one_leaves:
  "leaves rc run (fst st) rp = Some t \<Longrightarrow> dk_files (fst (write_one rc run rp st)) (pathFor rc run (rp_extension rp)) = Some t"
  "snd (write_one rc run rp st) = snd st @ (if leaves rc run (fst st) rp \<noteq> None then [pathFor rc run (rp_extension rp)] else [])"
  by (auto simp: write_one_def leaves_def Let_def split: prod.splits option.splits if_splits)

lemma fold_write:
  assumes "distinct (map rp_extension rps)"
  shows "snd (fold (write_one rc run) rps st)
      = snd st @ map (\<lambda>rp. pathFor rc run (rp_extension rp)) (filter (\<lambda>rp. leaves rc run (fst st) rp \<noteq> None) rps)
    \<and> (\<forall>rp \<in> set rps. \<forall>t. leaves rc run (fst st) rp = Some t \<longrightarrow>
        dk_files (fst (fold (write_one rc run) rps st)) (pathFor rc run (rp_extension rp)) = Some t)
    \<and> (\<forall>e. e \<notin> rp_extension ` set rps \<longrightarrow>
        dk_files (fst (fold (write_one rc run) rps st)) (pathFor rc run e) = dk_files (fst st) (pathFor rc run e))"
  using assms
proof (induction rps arbitrary: st)
  case (Cons rp rps)
  let ?st = "write_one rc run rp st"
  from Cons.prems have "distinct (map rp_extension rps)" "rp_extension rp \<notin> rp_extension ` set rps" by auto
  with Cons.IH [of ?st] show ?case
    by (auto simp: leaves_keeps write_one_leaves write_one_other)
qed simp

lemma copy_latest_keeps: "dk_files (fold (copy_latest rc run) rps dk) (pathFor rc run e) = dk_files dk (pathFor rc run e)"
  by (induction rps arbitrary: dk)
    (auto simp: copy_latest_def Let_def fun_upd_def alias_not_report [symmetric] split: option.splits)

text \<open>
  The reports that are listed as written are those whose text was rendered and whose file took it,
  in the order of the reporters, and each of their files holds exactly that text.
\<close>

theorem written_reports:
  assumes "prepareDirectory rc created" "distinct (map rp_extension rps)" "write_reports rc created rps run dk = (dk', written)"
  shows "written = map (\<lambda>rp. pathFor rc run (rp_extension rp)) (filter (\<lambda>rp. leaves rc run dk rp \<noteq> None) rps)
    \<and> (\<forall>rp \<in> set rps. \<forall>t. leaves rc run dk rp = Some t \<longrightarrow> dk_files dk' (pathFor rc run (rp_extension rp)) = Some t)"
proof (cases "rps = []")
  case False
  with assms fold_write [OF assms(2), of rc run "(dk, [])"] show ?thesis
    by (auto simp: write_reports_def copy_latest_keeps split: prod.splits if_splits)
qed (use assms in \<open>auto simp: write_reports_def\<close>)

definition empty_disk :: disk where
  "empty_disk = \<lparr>dk_files = (\<lambda>_. None), dk_opens = (\<lambda>_. True), dk_takes = (\<lambda>_. True)\<rparr>"

theorem written_reports_witness:
  "\<exists>dk' t. write_reports default_reporting_config True [junit_reporter] hostile_run empty_disk
      = (dk', [pathFor default_reporting_config hostile_run ''xml''])
    \<and> junit_render hostile_run = Some t \<and> dk_files dk' (pathFor default_reporting_config hostile_run ''xml'') = Some t"
proof -
  obtain dk' written where w: "write_reports default_reporting_config True [junit_reporter] hostile_run empty_disk = (dk', written)" by fastforce
  obtain t where t: "junit_render hostile_run = Some t" using hostile_renders by blast
  have "prepareDirectory default_reporting_config True" by (simp add: prepareDirectory_def default_reporting_config_def)
  from written_reports [OF this _ w] w t show ?thesis by (simp add: leaves_def empty_disk_def junit_reporter_def)
qed

end
