(* ===== verification/Number_Text.thy ===== *)
theory Number_Text
  imports F64_Order
begin

text \<open>
  The floating-point parsers of \<open>src/core/StringUtils.cpp\<close>, \<open>parseDouble\<close> and
  \<open>parseDurationMillis\<close>, over the whole of \<open>std::strtod\<close>: decimal and hexadecimal literals, infinities,
  NaNs, and the range errors of glibc.
\<close>

section \<open>strtod\<close>

text \<open>What a conversion gives: whether \<open>errno\<close> is \<open>ERANGE\<close>, the value, and the text that is left.\<close>

type_synonym strtod_result = "bool \<times> f64 \<times> string"

text \<open>
  The magnitude \<open>n / d\<close> rounded. An overflow is a range error, and so is a value below the normal
  doubles (before the exponent is bounded) that the result does not hold exactly.
\<close>

definition range_error :: "nat \<Rightarrow> nat \<Rightarrow> bool" where
  "range_error n d \<longleftrightarrow> (let r = raw_of_frac n d in
     r = inf_raw \<or> 0 < n \<and> n * 2 ^ 1076 < (2 ^ 54 - 1) * d \<and> raw_num r * d \<noteq> n * raw_den r)"

definition rounded :: "bool \<Rightarrow> nat \<Rightarrow> nat \<Rightarrow> string \<Rightarrow> strtod_result" where
  "rounded neg n d rest = (range_error n d, f64_make neg (raw_of_frac n d), rest)"

text \<open>An exponent after its letter, if it has a digit.\<close>

definition exponent_of :: "string \<Rightarrow> (int \<times> string) option" where
  "exponent_of s =
     (let signed = s \<noteq> [] \<and> (hd s = CHR ''-'' \<or> hd s = CHR ''+''); t = if signed then tl s else s; ds = takeWhile is_digit t
      in if ds = [] then None
         else Some (if signed \<and> hd s = CHR ''-'' then - int (digits_val ds) else int (digits_val ds), dropWhile is_digit t))"

definition take_exponent :: "char list \<Rightarrow> string \<Rightarrow> int \<times> string" where
  "take_exponent letters s =
     (if s \<noteq> [] \<and> hd s \<in> set letters then (case exponent_of (tl s) of Some r \<Rightarrow> r | None \<Rightarrow> (0, s)) else (0, s))"

text \<open>Digits, a point and more digits, of which one is there.\<close>

definition take_mantissa :: "(char \<Rightarrow> bool) \<Rightarrow> string \<Rightarrow> (string \<times> string \<times> string) option" where
  "take_mantissa digit s =
     (let ip = takeWhile digit s; r = dropWhile digit s;
          fp = (if r \<noteq> [] \<and> hd r = CHR ''.'' then takeWhile digit (tl r) else []);
          rest = (if r \<noteq> [] \<and> hd r = CHR ''.'' \<and> (ip \<noteq> [] \<or> fp \<noteq> []) then dropWhile digit (tl r) else r)
      in if ip = [] \<and> fp = [] then None else Some (ip, fp, rest))"

definition decimal_value :: "bool \<Rightarrow> string \<Rightarrow> strtod_result option" where
  "decimal_value neg s =
     (case take_mantissa is_digit s of
        None \<Rightarrow> None
      | Some (ip, fp, r) \<Rightarrow>
          (case take_exponent ''eE'' r of
             (e, rest) \<Rightarrow> (let n = digits_val (ip @ fp); k = e - int (length fp)
                in Some (rounded neg (scale_num 10 n k) (scale_den 10 1 k) rest))))"

definition hex_char_val :: "char \<Rightarrow> nat" where
  "hex_char_val c = (if is_digit c then byte c - 48 else byte (to_lower_char c) - 87)"

definition is_hex_digit :: "char \<Rightarrow> bool" where
  "is_hex_digit c \<longleftrightarrow> is_digit c \<or> 97 \<le> byte (to_lower_char c) \<and> byte (to_lower_char c) \<le> 102"

definition hex_digits_val :: "string \<Rightarrow> nat" where
  "hex_digits_val s = foldl (\<lambda>a c. 16 * a + hex_char_val c) 0 s"

definition hex_value :: "bool \<Rightarrow> string \<Rightarrow> strtod_result option" where
  "hex_value neg s =
     (case take_mantissa is_hex_digit s of
        None \<Rightarrow> None
      | Some (ip, fp, r) \<Rightarrow>
          (case take_exponent ''pP'' r of
             (e, rest) \<Rightarrow> (let n = hex_digits_val (ip @ fp); k = e - 4 * int (length fp)
                in Some (rounded neg (scale_num 2 n k) (scale_den 2 1 k) rest))))"

text \<open>The part in brackets a NaN may have.\<close>

definition after_nan :: "string \<Rightarrow> string" where
  "after_nan s =
     (if s \<noteq> [] \<and> hd s = CHR ''('' then
        (let r = dropWhile (\<lambda>c. is_alnum c \<or> c = CHR ''_'') (tl s) in if r \<noteq> [] \<and> hd r = CHR '')'' then tl r else s)
      else s)"

definition strtod_unsigned :: "bool \<Rightarrow> string \<Rightarrow> strtod_result option" where
  "strtod_unsigned neg s =
     (let low = toLower s
      in if prefix ''infinity'' low then Some (False, f64_make neg inf_raw, drop 8 s)
         else if prefix ''inf'' low then Some (False, f64_make neg inf_raw, drop 3 s)
         else if prefix ''nan'' low then Some (False, f64_make neg (f64_raw nan_bits), after_nan (drop 3 s))
         else if prefix ''0x'' low then
           (case hex_value neg (drop 2 s) of Some r \<Rightarrow> Some r | None \<Rightarrow> Some (False, f64_make neg 0, drop 1 s))
         else decimal_value neg s)"

text \<open>White space and a sign first; without a number nothing is consumed.\<close>

definition strtod_full :: "string \<Rightarrow> strtod_result" where
  "strtod_full s =
     (let t = dropWhile is_space s; signed = t \<noteq> [] \<and> (hd t = CHR ''-'' \<or> hd t = CHR ''+'')
      in case strtod_unsigned (signed \<and> hd t = CHR ''-'') (if signed then tl t else t) of
           Some r \<Rightarrow> r
         | None \<Rightarrow> (False, 0, s))"

section \<open>The parsers\<close>

definition parseDouble :: "string \<Rightarrow> f64 option" where
  "parseDouble t =
     (let trimmed = trim t
      in if trimmed = [] then None
         else case strtod_full (c_str trimmed) of (erange, parsed, rest) \<Rightarrow> if erange \<or> rest \<noteq> [] then None else Some parsed)"

definition duration_unit :: "string \<Rightarrow> int option" where
  "duration_unit u =
     (if u = [] \<or> u = ''ms'' then Some 1
      else if u = ''s'' \<or> u = ''sec'' then Some 1000
      else if u = ''m'' \<or> u = ''min'' then Some 60000
      else if u = ''h'' then Some 3600000
      else None)"

text \<open>The number and its unit; the conversion to \<open>std::int64_t\<close> is undefined out of range (the inner \<open>None\<close>).\<close>

definition parseDurationMillis :: "string \<Rightarrow> i64 option option" where
  "parseDurationMillis t =
     (let trimmed = trim t; unit = rev (takeWhile is_alpha (rev trimmed)); number = take (length trimmed - length unit) trimmed
      in if trimmed = [] then None
         else case parseDouble number of
           None \<Rightarrow> None
         | Some v \<Rightarrow>
             if f64_less v 0 then None
             else map_option (\<lambda>m. f64_trunc (f64_mul v (f64_of_int m))) (duration_unit (toLower unit)))"

section \<open>What they read\<close>

text \<open>A whole number below \<open>2 ^ 53\<close> is a double.\<close>

lemma whole_raw:
  assumes "0 < n" "n < 2 ^ 53" shows "raw_val (raw_of_frac n 1) = real n \<and> raw_of_frac n 1 < inf_raw"
proof -
  define l where "l = floorlog 2 n - 1"
  have b: "2 ^ l \<le> n" "n < 2 ^ floorlog 2 n" using floorlog_bounds [of n 2] assms by (simp_all add: l_def)
  have "floorlog 2 n \<noteq> 0" using b(2) assms(1) by (intro notI) simp
  then have l: "2 ^ l \<le> n" "n < 2 ^ (l + 1)" using b by (simp_all add: l_def)
  have "l < 53" using l(1) assms(2) power_strict_increasing_iff [of 2 l 53] by (metis le_less_trans one_less_numeral_iff semiring_norm(76))
  then have l53: "l \<le> 52" by simp
  have fl: "frac_log 2 n 1 = int l"
  proof (rule frac_log_eqI)
    have "real (2 ^ l) \<le> real n" "real n < real (2 ^ (l + 1))" using l by (simp_all only: of_nat_le_iff of_nat_less_iff)
    then show "real 2 powi int l \<le> real n / real 1" "real n / real 1 < real 2 powi (int l + 1)"
      by (simp_all add: power_int_def nat_add_distrib)
  qed (use assms in simp_all)
  let ?q = "n * 2 ^ (52 - l)" and ?e = "int l - 52"
  have q: "2 ^ 52 \<le> ?q" "?q \<le> 2 ^ 53"
  proof -
    have "(2 :: nat) ^ 52 = 2 ^ l * 2 ^ (52 - l)" "(2 :: nat) ^ 53 = 2 ^ (l + 1) * 2 ^ (52 - l)"
      using l53 by (simp_all flip: power_add)
    with l mult_le_mono1 [of "2 ^ l" n "2 ^ (52 - l)"] mult_le_mono1 [of n "2 ^ (l + 1)" "2 ^ (52 - l)"]
    show "2 ^ 52 \<le> ?q" "?q \<le> 2 ^ 53" by linarith+
  qed
  have r: "raw_of_frac n 1 = min inf_raw (nat (?e + 1074) * 2 ^ 52 + ?q)"
  proof -
    have "max (- 1074) (int l - 52) = int l - 52" "nat (52 - int l) = 52 - l" "nat (int l - 52) = 0" using l53 by simp_all
    then show ?thesis using assms by (simp add: raw_of_frac_def fl scale_num_def scale_den_def div_rne_def Let_def del: One_nat_def)
  qed
  have b: "nat (?e + 1074) * 2 ^ 52 + ?q < inf_raw"
  proof -
    have "nat (?e + 1074) \<le> 1074" using l53 by simp
    then have "nat (?e + 1074) * 2 ^ 52 \<le> 1074 * 2 ^ 52" by simp
    with q show ?thesis by (simp add: inf_raw_def)
  qed
  have "raw_val (nat (?e + 1074) * 2 ^ 52 + ?q) = real ?q * 2 powi ?e" by (rule raw_val_compose) (use q in simp_all)
  also have "\<dots> = real n" using l53 by (simp add: power_int_def nat_diff_distrib power_mult_distrib [symmetric])
  finally show ?thesis using r b by simp
qed


lemma whole_frac: "0 < n \<Longrightarrow> n < 2 ^ 53 \<Longrightarrow> raw_num (raw_of_frac n 1) = n * raw_den (raw_of_frac n 1)"
proof -
  assume "0 < n" "n < 2 ^ 53"
  then have "real (raw_num (raw_of_frac n 1)) = real n * real (raw_den (raw_of_frac n 1))"
    using whole_raw [of n] raw_frac [of "raw_of_frac n 1"] by (simp add: field_simps)
  then show ?thesis by (simp flip: of_nat_mult)
qed

lemma den_nonzero: "raw_den r = 0 \<longleftrightarrow> False"
  using raw_den_pos [of r] by (metis less_irrefl)

lemma whole_product:
  assumes "0 < a" "0 < b" "a * b < 2 ^ 53"
  shows "f64_mul (f64_make False (raw_of_frac a 1)) (f64_of_int (int b)) = f64_make False (raw_of_frac (a * b) 1)"
proof -
  have ab: "a < 2 ^ 53" "b < 2 ^ 53"
  proof -
    have "a * 1 \<le> a * b" "1 * b \<le> a * b" using assms by (intro mult_le_mono; simp)+
    then show "a < 2 ^ 53" "b < 2 ^ 53" using assms(3) unfolding mult_1 mult_1_right by linarith+
  qed
  have w: "raw_of_frac a 1 < inf_raw" "raw_of_frac b 1 < inf_raw" using whole_raw assms ab by simp_all
  then have raw: "f64_raw (f64_make False (raw_of_frac a 1)) = raw_of_frac a 1" "f64_raw (f64_make False (raw_of_frac b 1)) = raw_of_frac b 1"
    by (simp_all add: f64_raw_make inf_raw_def)
  have neg: "\<not> f64_neg (f64_make False (raw_of_frac a 1))" "\<not> f64_neg (f64_make False (raw_of_frac b 1))"
    using w by (simp_all add: f64_raw_make inf_raw_def)
  have "raw_of_frac (raw_num (raw_of_frac a 1) * raw_num (raw_of_frac b 1)) (raw_den (raw_of_frac a 1) * raw_den (raw_of_frac b 1))
      = raw_of_frac (a * b) 1"
  proof (rule raw_of_frac_cong)
    define A where "A = raw_of_frac a 1"
    define B where "B = raw_of_frac b 1"
    have "raw_num A = a * raw_den A" "raw_num B = b * raw_den B" using whole_frac assms ab by (simp_all add: A_def B_def)
    then show "real (raw_num (raw_of_frac a 1) * raw_num (raw_of_frac b 1)) / real (raw_den (raw_of_frac a 1) * raw_den (raw_of_frac b 1))
        = real (a * b) / real 1"
      unfolding A_def [symmetric] B_def [symmetric] by (simp add: den_nonzero)
  qed simp_all
  with w raw neg show ?thesis
    by (simp add: f64_mul_def f64_of_int_def f64_nan_def f64_inf_def Let_def)
qed

lemma whole_trunc: "0 < n \<Longrightarrow> n < 2 ^ 53 \<Longrightarrow> f64_trunc (f64_make False (raw_of_frac n 1)) = Some (word_of_nat n)"
  using whole_raw [of n] whole_frac [of n]
  by (simp add: f64_trunc_def f64_finite_def f64_raw_make inf_raw_def Let_def)


lemma digits_text:
  "c \<in> set (show_nat n) \<Longrightarrow> is_digit c" "takeWhile is_digit (show_nat n) = show_nat n" "dropWhile is_digit (show_nat n) = []"
  using show_nat_digits [of n] by (auto simp: takeWhile_eq_all_conv)

lemma no_word: "\<not> is_digit c \<Longrightarrow> to_lower_char c = c \<Longrightarrow> \<not> is_upper c \<Longrightarrow> c \<notin> set (toLower (show_nat n))"
proof
  assume c: "\<not> is_digit c" and "c \<in> set (toLower (show_nat n))"
  then obtain d where d: "is_digit d" "c = to_lower_char d" using digits_text(1) [of _ n] by (auto simp: toLower_def)
  then have "to_lower_char d = d" by (auto simp: to_lower_char_def is_digit_def is_upper_def)
  with c d show False by simp
qed

lemma strtod_whole:
  assumes "0 < n" "n < 2 ^ 53" shows "strtod_full (show_nat n) = (False, f64_make False (raw_of_frac n 1), [])"
proof -
  obtain c s where cs: "show_nat n = c # s" by (cases "show_nat n") auto
  then have c: "is_digit c" using digits_text(1) [of c n] by simp
  then have "\<not> is_space c" "c \<noteq> CHR ''-''" "c \<noteq> CHR ''+''" by (auto simp: is_digit_def is_space_def)
  moreover have "\<not> prefix ''infinity'' (toLower (show_nat n))" "\<not> prefix ''inf'' (toLower (show_nat n))"
      "\<not> prefix ''nan'' (toLower (show_nat n))" "\<not> prefix ''0x'' (toLower (show_nat n))"
    using no_word [of "CHR ''n''" n] no_word [of "CHR ''x''" n]
    by (auto simp: prefix_def is_digit_def to_lower_char_def is_upper_def)
  moreover have "decimal_value False (show_nat n) = Some (False, f64_make False (raw_of_frac n 1), [])"
    using whole_raw [OF assms] whole_frac [OF assms] assms
    by (simp add: decimal_value_def take_mantissa_def digits_text take_exponent_def rounded_def range_error_def scale_num_def scale_den_def Let_def)
  ultimately show ?thesis by (simp add: strtod_full_def strtod_unsigned_def cs Let_def)
qed


lemma unit_of: "list_all is_digit d \<Longrightarrow> list_all is_alpha u \<Longrightarrow> d \<noteq> [] \<Longrightarrow> takeWhile is_alpha (rev (d @ u)) = rev u"
proof -
  assume d: "list_all is_digit d" "d \<noteq> []" and u: "list_all is_alpha u"
  then have "is_digit (last d)" by (simp add: list_all_iff)
  then have "\<not> is_alpha (hd (rev d))" by (auto simp: hd_rev is_digit_def is_alpha_def is_upper_def is_lower_def)
  with d u show ?thesis by (cases "rev d") (auto simp: takeWhile_append list_all_iff)
qed

text \<open>
  A duration written as a whole number with a unit is read exactly, up to \<open>2 ^ 53\<close> milliseconds: the
  way through a double and its conversion back loses nothing.
\<close>

theorem duration_exact:
  assumes "duration_unit (toLower u) = Some m" "list_all is_alpha u" "0 < n" "int n * m < 2 ^ 53"
  shows "parseDurationMillis (show_nat n @ u) = Some (Some (word_of_int (int n * m)))"
proof -
  have m: "0 < m" using assms(1) by (auto simp: duration_unit_def split: if_splits)
  then have k: "0 < nat m" "int n * m = int (n * nat m)" by simp_all
  have "int (n * nat m) < int (2 ^ 53)" using assms(4) k(2) by simp
  then have small: "n * nat m < 2 ^ 53" by (simp only: of_nat_less_iff)
  moreover have "n * 1 \<le> n * nat m" using k(1) by (intro mult_le_mono) simp_all
  ultimately have n: "n < 2 ^ 53" unfolding mult_1_right by linarith
  have digit_space: "\<not> is_space c" if "is_digit c \<or> is_alpha c" for c
    using that by (auto simp: is_space_def is_digit_def is_alpha_def is_upper_def is_lower_def)
  have chars: "is_digit c \<or> is_alpha c" if "c \<in> set (show_nat n @ u)" for c
    using that assms(2) digits_text(1) by (auto simp: list_all_iff)
  have t: "trim (show_nat n @ u) = show_nat n @ u" "trim (show_nat n) = show_nat n"
  proof -
    have "trim x = x" if "x \<noteq> []" "\<And>c. c \<in> set x \<Longrightarrow> is_digit c \<or> is_alpha c" for x
      using that digit_space by (intro trim_id) (meson hd_in_set last_in_set)+
    from this [of "show_nat n @ u"] this [of "show_nat n"] chars digits_text(1)
    show "trim (show_nat n @ u) = show_nat n @ u" "trim (show_nat n) = show_nat n" by simp_all
  qed
  have c: "c_str (show_nat n) = show_nat n"
    using show_nat_digits [of n] by (auto simp: c_str_def takeWhile_eq_all_conv is_digit_def)
  have "list_all is_digit (show_nat n)" using digits_text(1) by (simp add: list_all_iff)
  from unit_of [OF this assms(2)] have r: "takeWhile is_alpha (rev (show_nat n @ u)) = rev u" by simp
  have p: "parseDouble (show_nat n) = Some (f64_make False (raw_of_frac n 1))"
    by (simp add: parseDouble_def t c strtod_whole [OF assms(3) n])
  have l: "\<not> f64_less (f64_make False (raw_of_frac n 1)) 0"
    using whole_raw [OF assms(3) n] by (simp add: f64_less_def f64_key_def f64_raw_make inf_raw_def) (simp add: f64_neg_def f64_raw_def)
  from p l t r assms(1) show ?thesis
    using whole_product [OF assms(3) k(1) small] whole_trunc [OF _ small] k m assms(3)
    by (simp add: parseDurationMillis_def Let_def)
qed


theorem duration_exact_witness: "parseDurationMillis ''90s'' = Some (Some 90000)"
proof -
  have s: "show_nat 90 = ''90''" by code_simp
  have "duration_unit (toLower ''s'') = Some 1000" "list_all is_alpha ''s''" by code_simp+
  from duration_exact [OF this, of 90] show ?thesis by (simp add: s)
qed

end
