(* ===== verification/System_Info.thy ===== *)
theory System_Info
  imports Number_Text Failure_Context
begin

text \<open>
  What diagnostics say of a machine and of its GPUs (\<open>src/diagnostics/SystemInfo.cpp\<close>): the records and
  their JSON. A number below zero is one that could not be read, and is left out.
\<close>

definition f64_unknown :: f64 where "f64_unknown = 0xBFF0000000000000"

definition known_int :: "string \<Rightarrow> i64 \<Rightarrow> (string \<times> json) list" where
  "known_int key v = (if 0 \<le> sint v then [(key, JInt v)] else [])"

definition known_double :: "string \<Rightarrow> f64 \<Rightarrow> (string \<times> json) list" where
  "known_double key v = (if f64_le 0 v then [(key, JDouble v)] else [])"

definition known_text :: "string \<Rightarrow> string \<Rightarrow> (string \<times> json) list" where
  "known_text key v = (if v \<noteq> [] then [(key, JString v)] else [])"

section \<open>The machine\<close>

record os_info =
  oi_name :: string
  oi_distribution :: string
  oi_kernelVersion :: string
  oi_kernelBuild :: string
  oi_hostname :: string
  oi_architecture :: string
  oi_uptimeSeconds :: i64
  oi_insideContainer :: bool
  oi_containerHint :: string

definition os_json :: "os_info \<Rightarrow> json" where
  "os_json v = obj_of
     (known_text ''name'' (oi_name v) @ known_text ''distribution'' (oi_distribution v) @ known_text ''kernel_version'' (oi_kernelVersion v)
      @ known_text ''kernel_build'' (oi_kernelBuild v) @ known_text ''hostname'' (oi_hostname v)
      @ known_text ''architecture'' (oi_architecture v) @ known_int ''uptime_seconds'' (oi_uptimeSeconds v)
      @ [(''inside_container'', JBool (oi_insideContainer v))] @ known_text ''container_hint'' (oi_containerHint v))"

record cpu_info =
  ci_model :: string
  ci_physicalCores :: int
  ci_logicalCores :: int
  ci_mhz :: f64
  ci_loadAverage1 :: f64
  ci_loadAverage5 :: f64
  ci_loadAverage15 :: f64
  ci_utilizationPercent :: f64

definition cpu_json :: "cpu_info \<Rightarrow> json" where
  "cpu_json v = obj_of
     (known_text ''model'' (ci_model v)
      @ (if 0 < ci_physicalCores v then [(''physical_cores'', JInt (word_of_int (ci_physicalCores v)))] else [])
      @ (if 0 < ci_logicalCores v then [(''logical_cores'', JInt (word_of_int (ci_logicalCores v)))] else [])
      @ known_double ''mhz'' (ci_mhz v) @ known_double ''load_average_1m'' (ci_loadAverage1 v)
      @ known_double ''load_average_5m'' (ci_loadAverage5 v) @ known_double ''load_average_15m'' (ci_loadAverage15 v)
      @ known_double ''utilization_percent'' (ci_utilizationPercent v))"

text \<open>The share of a total that is not available, in double arithmetic.\<close>

definition used_percent :: "i64 \<Rightarrow> i64 \<Rightarrow> f64" where
  "used_percent amount available =
     (if sint amount \<le> 0 \<or> sint available < 0 then f64_unknown
      else f64_div (f64_mul f64_100 (f64_of_int (sint amount - sint available))) (f64_of_int (sint amount)))"

record memory_info =
  mi_totalKb :: i64
  mi_availableKb :: i64
  mi_freeKb :: i64
  mi_buffersKb :: i64
  mi_cachedKb :: i64
  mi_swapTotalKb :: i64
  mi_swapFreeKb :: i64
  mi_processRssKb :: i64

definition memory_usedPercent :: "memory_info \<Rightarrow> f64" where
  "memory_usedPercent v = used_percent (mi_totalKb v) (mi_availableKb v)"

definition memory_json :: "memory_info \<Rightarrow> json" where
  "memory_json v = obj_of
     (known_int ''total_kb'' (mi_totalKb v) @ known_int ''available_kb'' (mi_availableKb v) @ known_int ''free_kb'' (mi_freeKb v)
      @ known_int ''buffers_kb'' (mi_buffersKb v) @ known_int ''cached_kb'' (mi_cachedKb v)
      @ known_int ''swap_total_kb'' (mi_swapTotalKb v) @ known_int ''swap_free_kb'' (mi_swapFreeKb v)
      @ known_int ''process_rss_kb'' (mi_processRssKb v) @ known_double ''used_percent'' (memory_usedPercent v))"

record disk_usage =
  du_mountPoint :: string
  du_filesystem :: string
  du_totalBytes :: i64
  du_availableBytes :: i64

definition disk_usedPercent :: "disk_usage \<Rightarrow> f64" where
  "disk_usedPercent v = used_percent (du_totalBytes v) (du_availableBytes v)"

definition disk_json :: "disk_usage \<Rightarrow> json" where
  "disk_json v = obj_of
     ([(''mount_point'', JString (du_mountPoint v))] @ known_text ''filesystem'' (du_filesystem v)
      @ known_int ''total_bytes'' (du_totalBytes v) @ known_int ''available_bytes'' (du_availableBytes v)
      @ known_double ''used_percent'' (disk_usedPercent v))"

record network_interface =
  ni_name :: string
  ni_addresses :: "string list"
  ni_up :: bool
  ni_loopback :: bool
  ni_rxBytes :: i64
  ni_txBytes :: i64

definition interface_json :: "network_interface \<Rightarrow> json" where
  "interface_json v = obj_of
     ([(''name'', JString (ni_name v)), (''up'', JBool (ni_up v)), (''loopback'', JBool (ni_loopback v)),
       (''addresses'', strings_json (ni_addresses v))]
      @ known_int ''rx_bytes'' (ni_rxBytes v) @ known_int ''tx_bytes'' (ni_txBytes v))"

record process_info =
  pi_pid :: int
  pi_name :: string
  pi_state :: string
  pi_rssKb :: i64
  pi_cpuTimeSeconds :: f64

definition process_json :: "process_info \<Rightarrow> json" where
  "process_json v = obj_of
     ([(''pid'', JInt (word_of_int (pi_pid v))), (''name'', JString (pi_name v))] @ known_text ''state'' (pi_state v)
      @ known_int ''rss_kb'' (pi_rssKb v) @ known_double ''cpu_time_seconds'' (pi_cpuTimeSeconds v))"

record system_snapshot =
  sy_os :: os_info
  sy_cpu :: cpu_info
  sy_memory :: memory_info
  sy_disks :: "disk_usage list"
  sy_interfaces :: "network_interface list"
  sy_topProcesses :: "process_info list"
  sy_environment :: "(string \<times> string) list"
  sy_executablePath :: string
  sy_workingDirectory :: string
  sy_processId :: int
  sy_unavailable :: "string list"

definition listed_unless_empty :: "string \<Rightarrow> json list \<Rightarrow> (string \<times> json) list" where
  "listed_unless_empty key items = (if items = [] then [] else [(key, JArray items)])"

definition snapshot_json :: "system_snapshot \<Rightarrow> json" where
  "snapshot_json v = obj_of
     ([(''os'', os_json (sy_os v)), (''cpu'', cpu_json (sy_cpu v)), (''memory'', memory_json (sy_memory v)),
       (''disks'', JArray (map disk_json (sy_disks v))), (''network_interfaces'', JArray (map interface_json (sy_interfaces v)))]
      @ listed_unless_empty ''top_processes'' (map process_json (sy_topProcesses v))
      @ [(''environment'', obj_of (map (\<lambda>(key, value). (key, JString value)) (sy_environment v)))]
      @ known_text ''executable_path'' (sy_executablePath v) @ known_text ''working_directory'' (sy_workingDirectory v)
      @ [(''process_id'', JInt (word_of_int (sy_processId v)))] @ listed_unless_empty ''unavailable'' (map JString (sy_unavailable v)))"

section \<open>GPUs\<close>

record gpu_process =
  gp_pid :: int
  gp_name :: string
  gp_usedMemoryMb :: i64

definition gpu_process_json :: "gpu_process \<Rightarrow> json" where
  "gpu_process_json v = obj_of ([(''pid'', JInt (word_of_int (gp_pid v))), (''name'', JString (gp_name v))]
     @ known_int ''used_memory_mb'' (gp_usedMemoryMb v))"

record gpu_device =
  gd_index :: int
  gd_name :: string
  gd_uuid :: string
  gd_driverVersion :: string
  gd_cudaVersion :: string
  gd_memoryTotalMb :: i64
  gd_memoryUsedMb :: i64
  gd_memoryFreeMb :: i64
  gd_utilizationPercent :: f64
  gd_memoryUtilizationPercent :: f64
  gd_temperatureCelsius :: f64
  gd_powerDrawWatts :: f64
  gd_processes :: "gpu_process list"

definition gpu_device_json :: "gpu_device \<Rightarrow> json" where
  "gpu_device_json v = obj_of
     ([(''index'', JInt (word_of_int (gd_index v))), (''name'', JString (gd_name v))] @ known_text ''uuid'' (gd_uuid v)
      @ known_text ''driver_version'' (gd_driverVersion v) @ known_text ''cuda_version'' (gd_cudaVersion v)
      @ known_int ''memory_total_mb'' (gd_memoryTotalMb v) @ known_int ''memory_used_mb'' (gd_memoryUsedMb v)
      @ known_int ''memory_free_mb'' (gd_memoryFreeMb v) @ known_double ''utilization_percent'' (gd_utilizationPercent v)
      @ known_double ''memory_utilization_percent'' (gd_memoryUtilizationPercent v)
      @ known_double ''temperature_celsius'' (gd_temperatureCelsius v) @ known_double ''power_draw_watts'' (gd_powerDrawWatts v)
      @ listed_unless_empty ''processes'' (map gpu_process_json (gd_processes v)))"

record gpu_snapshot =
  gs_available :: bool
  gs_isMockData :: bool
  gs_source :: string
  gs_unavailableReason :: string
  gs_driverVersion :: string
  gs_cudaVersion :: string
  gs_devices :: "gpu_device list"

definition empty_gpu_snapshot :: gpu_snapshot where
  "empty_gpu_snapshot = \<lparr>gs_available = False, gs_isMockData = False, gs_source = [], gs_unavailableReason = [],
     gs_driverVersion = [], gs_cudaVersion = [], gs_devices = []\<rparr>"

definition gpu_summary :: "gpu_snapshot \<Rightarrow> string" where
  "gpu_summary v =
     (if \<not> gs_available v then ''GPU diagnostics unavailable: ''
        @ (if gs_unavailableReason v = [] then ''no NVIDIA GPU detected.'' else gs_unavailableReason v)
      else (if gs_isMockData v then ''[MOCK TEST DATA] '' else [])
        @ (case gs_devices v of
             [] \<Rightarrow> ''GPU driver present but no devices reported''
           | device # _ \<Rightarrow> show_nat (length (gs_devices v)) @ ''x '' @ gd_name device
               @ (if gs_driverVersion v = [] then []
                  else '' (driver '' @ gs_driverVersion v @ (if gs_cudaVersion v = [] then [] else '', CUDA '' @ gs_cudaVersion v) @ '')'')))"

definition gpu_snapshot_json :: "gpu_snapshot \<Rightarrow> json" where
  "gpu_snapshot_json v = obj_of
     ([(''available'', JBool (gs_available v)), (''source'', JString (gs_source v)), (''is_mock_data'', JBool (gs_isMockData v))]
      @ (if gs_available v then [] else [(''unavailable_reason'', JString (gs_unavailableReason v))])
      @ known_text ''driver_version'' (gs_driverVersion v) @ known_text ''cuda_version'' (gs_cudaVersion v)
      @ [(''device_count'', JInt (of_nat (length (gs_devices v)))), (''devices'', JArray (map gpu_device_json (gs_devices v))),
         (''summary'', JString (gpu_summary v))])"


section \<open>What is in the JSON\<close>

text \<open>A member that may be left out, looked up.\<close>

lemma find_known [simp]:
  "map_of (rev (known_int key v)) k = (if k = key \<and> 0 \<le> sint v then Some (JInt v) else None)"
  "map_of (rev (known_double key w)) k = (if k = key \<and> f64_le 0 w then Some (JDouble w) else None)"
  "map_of (rev (known_text key t)) k = (if k = key \<and> t \<noteq> [] then Some (JString t) else None)"
  "map_of (rev (listed_unless_empty key items)) k = (if k = key \<and> items \<noteq> [] then Some (JArray items) else None)"
  by (simp_all add: known_int_def known_double_def known_text_def listed_unless_empty_def)

end
