(* ===== verification/Console_Report.thy ===== *)
theory Console_Report
  imports Report_Writer System_Info F64_Order
begin

text \<open>
  The console reporter (\<open>src/reporting/ConsoleReporter.cpp\<close>): the report of a finished run, and the
  lines that are printed while a run goes on. What is written to the stream is the result of every
  operation; \<open>rank\<close> is the order of \<open>std::sort\<close>.
\<close>

section \<open>Numbers and colours\<close>

definition kAnsiReset :: string where "kAnsiReset = CHR 0x1B # ''[0m''"
definition kAnsiBold :: string where "kAnsiBold = CHR 0x1B # ''[1m''"
definition kAnsiDim :: string where "kAnsiDim = CHR 0x1B # ''[2m''"
definition ansiYellow :: string where "ansiYellow = CHR 0x1B # ''[33m''"

definition colorize :: "string \<Rightarrow> string \<Rightarrow> bool \<Rightarrow> string" where
  "colorize t color enabled = (if \<not> enabled \<or> color = [] then t else color @ t @ kAnsiReset)"

text \<open>A double written to a stream, in fixed notation and in the default one.\<close>

definition special_text :: "f64 \<Rightarrow> string" where
  "special_text v = (if f64_neg v then ''-'' else []) @ (if f64_nan v then ''nan'' else ''inf'')"

definition stream_fixed :: "nat \<Rightarrow> f64 \<Rightarrow> string" where
  "stream_fixed precision v = (if f64_finite v then print_fixed precision v else special_text v)"

definition stream_default :: "f64 \<Rightarrow> string" where
  "stream_default v = (if f64_finite v then print_g 6 v else special_text v)"

definition rule :: "char \<Rightarrow> string" where
  "rule c = replicate 72 c @ newline"

fun statusGlyph :: "test_status \<Rightarrow> string" where
  "statusGlyph Passed = ''PASS''"
| "statusGlyph Failed = ''FAIL''"
| "statusGlyph Skipped = ''SKIP''"
| "statusGlyph Error = ''ERR ''"
| "statusGlyph TimedOut = ''TIME''"

text \<open>The cast to \<open>int\<close> is undefined out of range.\<close>

definition progressBar :: "f64 \<Rightarrow> nat \<Rightarrow> string option" where
  "progressBar fraction width =
     (case f64_trunc (f64_mul fraction (f64_of_int (int width))) of
        None \<Rightarrow> None
      | Some v \<Rightarrow>
          if sint v < - (2 ^ 31) \<or> 2 ^ 31 \<le> sint v then None
          else let filled = nat (min (int width) (max 0 (sint v)))
               in Some (''['' @ replicate filled CHR ''#'' @ replicate (width - filled) CHR ''-'' @ '']''))"

section \<open>The report\<close>

record console_options =
  co_color :: bool
  co_verboseFailures :: bool
  co_showSkipReasons :: bool
  co_live :: bool
  co_showDiagnostics :: bool
  co_maxFailuresShown :: int

definition default_console_options :: console_options where
  "default_console_options = \<lparr>co_color = True, co_verboseFailures = True, co_showSkipReasons = True, co_live = True,
     co_showDiagnostics = True, co_maxFailuresShown = 25\<rparr>"

definition console_head :: "bool \<Rightarrow> test_run \<Rightarrow> string" where
  "console_head color run =
     newline @ rule CHR ''='' @ colorize ''TestForge Test Report'' kAnsiBold color @ newline @ rule CHR ''=''
     @ ''Run       '' @ run_id run @ newline
     @ (if run_label run \<noteq> [] then ''Label     '' @ run_label run @ newline else [])
     @ ''Started   '' @ toIso8601 (run_startedAt run) @ newline
     @ ''Duration  '' @ formatDuration (run_duration run) @ ''  ('' @ show_int (run_workers run) @ '' worker''
     @ (if run_workers run = 1 then [] else ''s'') @ '')'' @ newline
     @ ''Filter    '' @ run_filter run @ newline
     @ (if run_hostname run \<noteq> []
        then ''Host      '' @ run_hostname run @ (if run_gitCommit run \<noteq> [] then ''   commit '' @ run_gitCommit run else []) @ newline
        else [])"

definition console_counts :: "bool \<Rightarrow> run_statistics \<Rightarrow> string" where
  "console_counts color st =
     newline @ ''Total     '' @ show_int (st_total st) @ newline
     @ colorize ''Passed    '' (ansiColor Passed) color @ show_int (st_passed st) @ newline
     @ colorize ''Failed    '' (ansiColor Failed) color @ show_int (st_failed st) @ newline
     @ colorize ''Skipped   '' (ansiColor Skipped) color @ show_int (st_skipped st) @ newline
     @ colorize ''Errors    '' (ansiColor Error) color @ show_int (st_errors st) @ newline
     @ colorize ''Timeouts  '' (ansiColor TimedOut) color @ show_int (st_timeouts st) @ newline"

definition f64_995 :: f64 where "f64_995 = 0x4058E00000000000"
definition f64_90 :: f64 where "f64_90 = 0x4056800000000000"

definition rate_color :: "f64 \<Rightarrow> string" where
  "rate_color rate = (if f64_le f64_995 rate then ansiColor Passed else if f64_le f64_90 rate then ansiYellow else ansiColor Failed)"

definition console_rate :: "bool \<Rightarrow> run_statistics \<Rightarrow> string option" where
  "console_rate color st =
     map_option (\<lambda>bar. newline @ ''Success   '' @ bar @ '' ''
         @ colorize (stream_fixed 1 (successRate st) @ ''%'') (rate_color (successRate st)) color
         @ (if 0 < st_skipped st then ''   ('' @ show_int (st_skipped st) @ '' skipped, excluded from the rate)'' else []) @ newline)
       (progressBar (f64_div (successRate st) f64_100) 24)"

definition console_timing :: "test_run \<Rightarrow> run_statistics \<Rightarrow> string" where
  "console_timing run st =
     newline @ ''Timing    average '' @ formatDuration (word_of_int (st_averageDuration st))
     @ ''   median '' @ formatDuration (word_of_int (st_medianDuration st))
     @ ''   p95 '' @ formatDuration (word_of_int (st_p95Duration st)) @ newline
     @ (if st_slowestTest st \<noteq> []
        then ''          slowest '' @ st_slowestTest st @ '' ('' @ formatDuration (word_of_int (st_maxDuration st)) @ '')'' @ newline else [])
     @ (if 0 < sint (st_wallDuration st) \<and> 1 < run_workers run
        then ''          test-time / wall-time '' @ stream_fixed 2 (parallelEfficiency st) @ ''x across '' @ show_int (run_workers run)
          @ '' workers'' @ newline
        else [])"

definition console_categories :: "bool \<Rightarrow> ((failure_category \<times> int) list \<Rightarrow> (failure_category \<times> int) list) \<Rightarrow> run_statistics \<Rightarrow> string" where
  "console_categories color rank st =
     (if st_categories st = [] then []
      else newline @ colorize ''Failure categories'' kAnsiBold color @ newline
        @ concat (map (\<lambda>(i, category, n). ''  '' @ show_nat (i + 1) @ ''. '' @ padRight (category_str category) 24 @ show_int n @ newline)
            (enumerate 0 (rank (st_categories st)))))"

text \<open>The HTTP exchange a failure recorded, its logs and its diagnostics.\<close>

definition console_exchange :: "json \<Rightarrow> string option" where
  "console_exchange v =
     (if \<not> json_contains v ''http_status'' then Some []
      else map_option (\<lambda>code. ''  request    '' @ stringAt v ''http_method'' ''?'' @ '' '' @ stringAt v ''http_url'' ''?'' @ '' -> ''
          @ show_int (sint code) @ newline
          @ (let excerpt = stringAt v ''response_excerpt'' []
             in if excerpt \<noteq> [] then ''  response   '' @ String_Utils.truncate excerpt 300 @ newline else []))
        (intAt v ''http_status'' 0))"

definition console_logs :: "string list \<Rightarrow> string" where
  "console_logs logs =
     (if logs = [] then []
      else ''  logs'' @ newline @ concat (map (\<lambda>t. ''    '' @ t @ newline) (drop (if 12 < length logs then length logs - 12 else 0) logs)))"

definition console_diagnostics :: "json \<Rightarrow> string" where
  "console_diagnostics v =
     (let gpu = stringAt v ''gpu.summary'' []; memoryUsed = doubleAt v ''system.memory.used_percent'' f64_unknown;
          load = doubleAt v ''system.cpu.load_average_1m'' f64_unknown
      in (if gpu \<noteq> [] then ''  gpu        '' @ gpu @ newline else [])
         @ (if f64_le 0 memoryUsed then ''  memory     '' @ stream_fixed 1 memoryUsed @ ''% used at failure time'' @ newline else [])
         @ (if f64_le 0 load then ''  load       '' @ stream_default load @ '' (1m)'' @ newline else []))"

definition console_failure :: "console_options \<Rightarrow> test_result \<Rightarrow> string option" where
  "console_failure opts r =
     map_option (\<lambda>exchange.
         newline @ colorize (status_str (r_status r)) (ansiColor (r_status r)) (co_color opts) @ ''  ''
         @ colorize (result_name r) kAnsiBold (co_color opts) @ newline
         @ ''  category   '' @ category_str (r_category r) @ newline
         @ ''  meaning    '' @ explain (r_category r) @ newline
         @ ''  duration   '' @ formatDuration (r_duration r)
         @ (if 1 < r_attempt r then ''   (attempt '' @ show_int (r_attempt r) @ '')'' else []) @ newline
         @ (if r_errorMessage r \<noteq> [] then ''  message    '' @ r_errorMessage r @ newline else [])
         @ (if r_errorDetail r \<noteq> [] then concat (map (\<lambda>t. ''  '' @ t @ newline) (splitLines (r_errorDetail r))) else [])
         @ exchange @ console_logs (r_logs r)
         @ (if co_showDiagnostics opts \<and> json_size (r_diagnostics r) \<noteq> 0 then console_diagnostics (r_diagnostics r) else []))
       (console_exchange (r_metadata r))"

text \<open>The failures up to the limit, and how many are left; the count of what is left is unsigned.\<close>

definition left_out :: "nat \<Rightarrow> int \<Rightarrow> nat" where
  "left_out amount seen = unat (of_nat amount - word_of_int (seen + 1) + 1 :: u64)"

definition more_note :: "nat \<Rightarrow> string" where
  "more_note n = newline @ ''  ... and '' @ show_nat n @ '' more (see the JSON or HTML report)'' @ newline"

fun console_failure_loop :: "console_options \<Rightarrow> nat \<Rightarrow> int \<Rightarrow> test_result list \<Rightarrow> string option" where
  "console_failure_loop opts amount seen [] = Some []"
| "console_failure_loop opts amount seen (r # rs) =
     (if co_maxFailuresShown opts \<le> seen
      then Some (more_note (left_out amount seen))
      else (case (console_failure opts r, console_failure_loop opts amount (seen + 1) rs) of
          (Some t, Some u) \<Rightarrow> Some (t @ u)
        | _ \<Rightarrow> None))"

definition console_failures :: "console_options \<Rightarrow> test_run \<Rightarrow> string option" where
  "console_failures opts run =
     (let failures = filter (\<lambda>r. isFailure (r_status r)) (run_results run)
      in if failures = [] \<or> \<not> co_verboseFailures opts then Some []
         else map_option (\<lambda>t. newline @ rule CHR ''-'' @ colorize ''Failures'' kAnsiBold (co_color opts) @ newline @ t)
           (console_failure_loop opts (length failures) 0 failures))"

definition console_flaky :: "bool \<Rightarrow> test_run \<Rightarrow> string" where
  "console_flaky color run =
     (let flaky = map result_name (filter r_flaky (run_results run))
      in if flaky = [] then []
         else newline @ colorize ''Flaky candidates'' kAnsiBold color @ '' (passed only after a retry '' @ dash @ '' heuristic)'' @ newline
           @ concat (map (\<lambda>name. ''  - '' @ name @ newline) flaky))"

definition console_verdict :: "bool \<Rightarrow> test_run \<Rightarrow> run_statistics \<Rightarrow> string" where
  "console_verdict color run st =
     newline @ rule CHR ''=''
     @ (if exitCode run = 4
        then colorize ''RESULT: INCOMPLETE'' (ansiColor Skipped) color @ '' '' @ dash @ '' '' @ run_cancellationReason run @ ''; ''
          @ show_int (st_skipped st) @ '' test(s) were never run'' @ newline
        else if exitCode run = 0 then colorize ''RESULT: PASS'' (ansiColor Passed) color @ newline
        else if exitCode run = 1
        then colorize ''RESULT: FAIL'' (ansiColor Failed) color @ '' '' @ dash @ '' '' @ show_int (st_failed st + st_errors st + st_timeouts st)
          @ '' test(s) need attention'' @ newline
        else colorize ''RESULT: ERROR'' (ansiColor Error) color @ '' '' @ dash @ '' the framework or its configuration is at fault'' @ newline)
     @ rule CHR ''='' @ newline"

definition console_render :: "console_options \<Rightarrow> ((failure_category \<times> int) list \<Rightarrow> (failure_category \<times> int) list) \<Rightarrow> test_run \<Rightarrow> string option" where
  "console_render opts rank run =
     (case compute_statistics (run_results run) (run_duration run) of
        None \<Rightarrow> None
      | Some st \<Rightarrow>
          (case (console_rate (co_color opts) st, console_failures opts run) of
             (Some rate, Some failures) \<Rightarrow>
               Some (console_head (co_color opts) run @ console_counts (co_color opts) st @ rate @ console_timing run st
                 @ console_categories (co_color opts) rank st @ failures @ console_flaky (co_color opts) run
                 @ console_verdict (co_color opts) run st)
           | _ \<Rightarrow> None))"

section \<open>While a run goes on\<close>

record console =
  cn_options :: console_options
  cn_completed :: int
  cn_selected :: int

definition onRunStarted :: "test_run \<Rightarrow> test_metadata list \<Rightarrow> console \<Rightarrow> console \<times> string" where
  "onRunStarted run selected c =
     (c\<lparr>cn_selected := to_int32 (of_nat (length selected)), cn_completed := 0\<rparr>,
      if \<not> co_live (cn_options c) then []
      else colorize ''TestForge'' kAnsiBold (co_color (cn_options c)) @ ''  run '' @ run_id run @ newline
        @ ''  tests    '' @ show_int (to_int32 (of_nat (length selected))) @ newline
        @ ''  workers  '' @ show_int (run_workers run) @ newline
        @ ''  filter   '' @ run_filter run @ newline @ rule CHR ''-'')"

text \<open>The line of a test; its number is taken before the lock, its text written under it.\<close>

definition test_line :: "console_options \<Rightarrow> int \<Rightarrow> int \<Rightarrow> test_result \<Rightarrow> string" where
  "test_line opts index selected r =
     ''['' @ padLeft (show_int index) 4 @ ''/'' @ padLeft (show_int selected) 4 @ ''] ''
     @ colorize (statusGlyph (r_status r)) (ansiColor (r_status r)) (co_color opts) @ ''  ''
     @ padRight (result_name r) 44 @ '' '' @ padLeft (formatDuration (r_duration r)) 9
     @ (if r_status r = Skipped \<and> co_showSkipReasons opts \<and> r_errorMessage r \<noteq> []
        then ''  '' @ colorize (r_errorMessage r) kAnsiDim (co_color opts)
        else if isFailure (r_status r) \<and> r_errorMessage r \<noteq> [] then ''  '' @ String_Utils.truncate (r_errorMessage r) 120
        else [])
     @ newline"

definition onTestFinished :: "test_result \<Rightarrow> console \<Rightarrow> console \<times> string" where
  "onTestFinished r c =
     (if \<not> co_live (cn_options c) then (c, [])
      else let index = cn_completed c + 1
           in (c\<lparr>cn_completed := index\<rparr>, test_line (cn_options c) index (cn_selected c) r))"

definition onRunFinished :: "((failure_category \<times> int) list \<Rightarrow> (failure_category \<times> int) list) \<Rightarrow> test_run \<Rightarrow> console \<Rightarrow> string option" where
  "onRunFinished rank run c = (if \<not> co_live (cn_options c) then Some [] else console_render (cn_options c) rank run)"

section \<open>The failures that are shown\<close>

lemma left_out_exact: "n < length rs \<Longrightarrow> length rs < 2 ^ 62 \<Longrightarrow> left_out (length rs) (int n) = length rs - n"
proof -
  assume n: "n < length rs" and l: "length rs < 2 ^ 62"
  have "(of_nat (length rs) - word_of_int (int n + 1) + 1 :: u64) = of_nat (length rs - n)"
    using n by (simp add: of_nat_diff)
  with l show ?thesis by (simp add: left_out_def unat_of_nat take_bit_nat_eq_self)
qed

lemma console_loop_cut:
  assumes "console_failure_loop opts (length rs) (int n) (drop n rs) = Some t" "n \<le> nat (co_maxFailuresShown opts)" "0 \<le> co_maxFailuresShown opts"
    "length rs < 2 ^ 62"
  shows "\<exists>seen. those (map (console_failure opts) (drop n (take (nat (co_maxFailuresShown opts)) rs))) = Some seen
    \<and> t = concat seen @ (if nat (co_maxFailuresShown opts) < length rs
        then more_note (length rs - nat (co_maxFailuresShown opts))
        else [])"
  using assms
proof (induction "length rs - n" arbitrary: n t)
  case 0
  then show ?case by (auto simp: drop_take)
next
  case (Suc k)
  then have n: "n < length rs" by simp
  then have d: "drop n rs = rs ! n # drop (Suc n) rs" by (simp add: Cons_nth_drop_Suc)
  show ?case
  proof (cases "n = nat (co_maxFailuresShown opts)")
    case True
    with Suc.prems(1,3) d have "t = more_note (left_out (length rs) (int n))" by (auto split: if_splits)
    with True n left_out_exact [OF n Suc.prems(4)] show ?thesis by (simp add: drop_take)
  next
    case False
    with Suc.prems(2) have m: "Suc n \<le> nat (co_maxFailuresShown opts)" by simp
    with Suc.prems(1) d obtain u v where u: "console_failure opts (rs ! n) = Some u"
      and v: "console_failure_loop opts (length rs) (int (Suc n)) (drop (Suc n) rs) = Some v" and t: "t = u @ v"
      by (auto simp: add.commute split: option.splits if_splits)
    from Suc.hyps(2) have "k = length rs - Suc n" by simp
    from Suc.hyps(1) [OF this v m Suc.prems(3,4)] obtain ts where
      ts: "those (map (console_failure opts) (drop (Suc n) (take (nat (co_maxFailuresShown opts)) rs))) = Some ts"
      "v = concat ts @ (if nat (co_maxFailuresShown opts) < length rs then more_note (length rs - nat (co_maxFailuresShown opts)) else [])"
      by blast
    have "drop n (take (nat (co_maxFailuresShown opts)) rs) = rs ! n # drop (Suc n) (take (nat (co_maxFailuresShown opts)) rs)"
      using m n by (subst Cons_nth_drop_Suc [symmetric]) simp_all
    with ts u t show ?thesis by (intro exI [of _ "u # ts"]) simp
  qed
qed

text \<open>
  The report shows the failures of the run in order, up to the limit, and says exactly how many it left out.
\<close>

theorem failures_shown:
  assumes "console_failures opts run = Some t" "co_verboseFailures opts" "0 \<le> co_maxFailuresShown opts"
    "failures = filter (\<lambda>r. isFailure (r_status r)) (run_results run)" "failures \<noteq> []" "length failures < 2 ^ 62"
  shows "\<exists>seen. those (map (console_failure opts) (take (nat (co_maxFailuresShown opts)) failures)) = Some seen
    \<and> t = newline @ rule CHR ''-'' @ colorize ''Failures'' kAnsiBold (co_color opts) @ newline @ concat seen
      @ (if nat (co_maxFailuresShown opts) < length failures
         then more_note (length failures - nat (co_maxFailuresShown opts))
         else [])"
proof -
  from assms obtain u where u: "console_failure_loop opts (length failures) (int 0) (drop 0 failures) = Some u"
    and t: "t = newline @ rule CHR ''-'' @ colorize ''Failures'' kAnsiBold (co_color opts) @ newline @ u"
    by (auto simp: console_failures_def Let_def)
  from console_loop_cut [OF u] assms t show ?thesis by auto
qed

end
