(* ===== verification/Cli_Output.thy ===== *)
theory Cli_Output
  imports Console_Report
begin

text \<open>
  What the commands print with (\<open>src/cli/CliOutput.cpp\<close>) and the flag a signal sets
  (\<open>src/core/Interrupt.cpp\<close>). Whether colours are on is a parameter of every operation; an operation
  gives the text it writes.
\<close>

section \<open>Text\<close>

definition ansi_wrap :: "bool \<Rightarrow> string \<Rightarrow> string \<Rightarrow> string" where
  "ansi_wrap color code t = (if \<not> color then t else code @ t @ kAnsiReset)"

definition bold :: "bool \<Rightarrow> string \<Rightarrow> string" where "bold color = ansi_wrap color (CHR 0x1B # ''[1m'')"
definition dim :: "bool \<Rightarrow> string \<Rightarrow> string" where "dim color = ansi_wrap color (CHR 0x1B # ''[2m'')"
definition green :: "bool \<Rightarrow> string \<Rightarrow> string" where "green color = ansi_wrap color (CHR 0x1B # ''[32m'')"
definition red :: "bool \<Rightarrow> string \<Rightarrow> string" where "red color = ansi_wrap color (CHR 0x1B # ''[31m'')"
definition yellow :: "bool \<Rightarrow> string \<Rightarrow> string" where "yellow color = ansi_wrap color (CHR 0x1B # ''[33m'')"
definition cyan :: "bool \<Rightarrow> string \<Rightarrow> string" where "cyan color = ansi_wrap color (CHR 0x1B # ''[36m'')"

section \<open>Tables\<close>

text \<open>The widths of the columns; a cell beyond the headers does not count.\<close>

fun widen :: "nat list \<Rightarrow> string list \<Rightarrow> nat list" where
  "widen (w # ws) (cell # cells) = max w (length cell) # widen ws cells"
| "widen ws _ = ws"

definition column_widths :: "string list \<Rightarrow> string list list \<Rightarrow> nat list" where
  "column_widths headers rows = fold (\<lambda>row ws. widen ws row) rows (map length headers)"

definition right_aligned :: "bool list \<Rightarrow> nat \<Rightarrow> bool" where
  "right_aligned alignRight column \<longleftrightarrow> column < length alignRight \<and> alignRight ! column"

definition pad_cell :: "bool list \<Rightarrow> nat list \<Rightarrow> nat \<Rightarrow> string \<Rightarrow> string" where
  "pad_cell alignRight widths i cell = (if right_aligned alignRight i then padLeft cell (widths ! i) else padRight cell (widths ! i))"

definition table_header :: "bool \<Rightarrow> bool list \<Rightarrow> nat list \<Rightarrow> string list \<Rightarrow> string" where
  "table_header color alignRight widths headers =
     join (map (\<lambda>i. bold color (pad_cell alignRight widths i (headers ! i))) [0..<length headers]) ''  '' @ newline"

definition table_rule :: "bool \<Rightarrow> nat list \<Rightarrow> string" where
  "table_rule color widths = join (map (\<lambda>w. dim color (replicate w CHR ''-'')) widths) ''  '' @ newline"

text \<open>The last column is not padded on its right.\<close>

definition table_cell :: "bool list \<Rightarrow> nat list \<Rightarrow> string list \<Rightarrow> nat \<Rightarrow> string" where
  "table_cell alignRight widths row i =
     (let v = (if i < length row then row ! i else [])
      in if i + 1 = length widths then (if right_aligned alignRight i then padLeft v (widths ! i) else v)
         else pad_cell alignRight widths i v @ ''  '')"

definition table_row :: "bool list \<Rightarrow> nat list \<Rightarrow> string list \<Rightarrow> string" where
  "table_row alignRight widths row = concat (map (table_cell alignRight widths row) [0..<length widths]) @ newline"

definition table :: "bool \<Rightarrow> string list \<Rightarrow> string list list \<Rightarrow> bool list \<Rightarrow> string" where
  "table color headers rows alignRight =
     (if headers = [] then []
      else let widths = column_widths headers rows
           in table_header color alignRight widths headers @ table_rule color widths @ concat (map (table_row alignRight widths) rows))"

section \<open>Headings, pairs, errors\<close>

definition heading :: "bool \<Rightarrow> string \<Rightarrow> string" where
  "heading color t = newline @ bold color t @ newline @ dim color (replicate (min (length t) 72) CHR ''-'') @ newline"

definition keyValue :: "bool \<Rightarrow> nat \<Rightarrow> string \<Rightarrow> string \<Rightarrow> string" where
  "keyValue color keyWidth key v = ''  '' @ dim color (padRight key keyWidth) @ v @ newline"

definition cli_error :: "bool \<Rightarrow> string \<Rightarrow> string \<Rightarrow> string" where
  "cli_error color message hint =
     red color ''error: '' @ message @ newline @ (if hint \<noteq> [] then dim color ''hint:  '' @ hint @ newline else [])"

definition cli_warning :: "bool \<Rightarrow> string \<Rightarrow> string" where
  "cli_warning color message = yellow color ''warning: '' @ message @ newline"

definition cli_json :: "json \<Rightarrow> string" where
  "cli_json v = json_dump_indent 2 v @ newline"

section \<open>Signals\<close>

text \<open>The flag keeps the first signal until it is reset.\<close>

definition handleInterrupt :: "int \<Rightarrow> int \<Rightarrow> int" where
  "handleInterrupt signal flag = (if flag = 0 then signal else flag)"

definition interrupt_requested :: "int \<Rightarrow> bool" where
  "interrupt_requested flag \<longleftrightarrow> flag \<noteq> 0"

definition interrupt_signalNumber :: "int \<Rightarrow> int" where
  "interrupt_signalNumber flag = flag"

definition interrupt_reset :: "int \<Rightarrow> int" where
  "interrupt_reset flag = 0"

lemma first_signal_kept: "flag \<noteq> 0 \<Longrightarrow> fold handleInterrupt signals flag = flag"
  by (induction signals) (simp_all add: handleInterrupt_def)

section \<open>Columns line up\<close>

lemma length_widen [simp]: "length (widen ws cells) = length ws"
  by (induction ws cells rule: widen.induct) auto

lemma length_column_widths [simp]: "length (column_widths headers rows) = length headers"
proof -
  have "length (fold (\<lambda>row ws. widen ws row) rows ws) = length ws" for ws by (induction rows arbitrary: ws) auto
  then show ?thesis by (simp add: column_widths_def)
qed

lemma widen_grows: "i < length ws \<Longrightarrow> ws ! i \<le> widen ws cells ! i"
  by (induction ws cells arbitrary: i rule: widen.induct) (auto simp: nth_Cons split: nat.splits)

lemma widen_fits: "i < length ws \<Longrightarrow> i < length cells \<Longrightarrow> length (cells ! i) \<le> widen ws cells ! i"
  by (induction ws cells arbitrary: i rule: widen.induct) (auto simp: nth_Cons split: nat.splits)

lemma fold_widen_grows: "i < length ws \<Longrightarrow> ws ! i \<le> fold (\<lambda>row ws. widen ws row) rows ws ! i"
proof (induction rows arbitrary: ws)
  case (Cons row rows)
  from Cons.IH [of "widen ws row"] widen_grows [of i ws row] Cons.prems show ?case by auto
qed simp

lemma fold_widen_fits:
  "row \<in> set rows \<Longrightarrow> i < length ws \<Longrightarrow> i < length row \<Longrightarrow> length (row ! i) \<le> fold (\<lambda>row ws. widen ws row) rows ws ! i"
proof (induction rows arbitrary: ws)
  case (Cons r rows)
  show ?case
  proof (cases "row = r")
    case True
    with widen_fits [of i ws row] fold_widen_grows [of i "widen ws row" rows] Cons.prems show ?thesis by auto
  next
    case False
    with Cons.IH [of "widen ws r"] Cons.prems show ?thesis by auto
  qed
qed simp

lemma row_fits:
  assumes "row \<in> set rows" "i < length headers"
  shows "length (if i < length row then row ! i else []) \<le> column_widths headers rows ! i"
  using fold_widen_fits [OF assms(1), of i "map length headers"] assms(2) by (simp add: column_widths_def)

text \<open>
  Every row of a table starts each of its columns at the same place: a cell before the last takes the
  width of its column and two blanks, whatever it holds.
\<close>

theorem table_columns_line_up:
  assumes "row \<in> set rows" "i + 1 < length headers"
  shows "length (table_cell alignRight (column_widths headers rows) row i) = column_widths headers rows ! i + 2"
proof -
  have "i < length headers" using assms(2) by simp
  from row_fits [OF assms(1) this] assms(2) show ?thesis
    by (auto simp: table_cell_def pad_cell_def Let_def)
qed

end
