(* ===== verification/Ai_Provider.thy ===== *)
theory Ai_Provider
  imports Spec_Facts F64_Order Environment
begin

text \<open>
  The boundary to a language model (\<open>src/ai/AiProvider.cpp\<close>, \<open>src/ai/MockAiProvider.cpp\<close>,
  \<open>src/ai/HttpAiProvider.cpp\<close>): what is asked and answered, the provider that is switched off, the
  deterministic stand-in, and the client of the sidecar.

  A provider is what its interface offers. An operation is undefined (\<open>None\<close>) where the exchange has
  not returned, or a double of the answer is converted that no 64-bit integer can hold.
\<close>

section \<open>Requests and results\<close>

record generation_request =
  gq_requirement :: string
  gq_suiteName :: string
  gq_baseUrl :: string
  gq_maxTests :: int
  gq_context :: json

definition default_generation :: generation_request where
  "default_generation = \<lparr>gq_requirement = [], gq_suiteName = ''generated'', gq_baseUrl = [], gq_maxTests = 10, gq_context = JObject []\<rparr>"

record generation_result =
  gr_ok :: bool
  gr_error :: string
  gr_suite :: test_suite
  gr_raw :: json
  gr_model :: string
  gr_provider :: string
  gr_elapsed :: i64
  gr_promptTokens :: i64
  gr_completionTokens :: i64

definition no_generation :: generation_result where
  "no_generation = \<lparr>gr_ok = False, gr_error = [],
     gr_suite = \<lparr>su_suite = [], su_requirement = [], su_source = [], su_model = [], su_tests = []\<rparr>, gr_raw = JObject [],
     gr_model = [], gr_provider = [], gr_elapsed = 0, gr_promptTokens = 0, gr_completionTokens = 0\<rparr>"

definition generation_json :: "generation_result \<Rightarrow> json" where
  "generation_json r = obj_of
     ([(''ok'', JBool (gr_ok r))] @ (if \<not> gr_ok r then [(''error'', JString (gr_error r))] else [])
      @ [(''provider'', JString (gr_provider r)), (''model'', JString (gr_model r)), (''elapsed_ms'', JInt (gr_elapsed r)),
         (''prompt_tokens'', JInt (gr_promptTokens r)), (''completion_tokens'', JInt (gr_completionTokens r)),
         (''suite'', suite_json (gr_suite r))])"

record analysis_request =
  aq_context :: json
  aq_testName :: string
  aq_failureCategory :: string

record analysis_result =
  ar_ok :: bool
  ar_error :: string
  ar_probableCause :: string
  ar_suggestedCategory :: string
  ar_evidence :: "string list"
  ar_investigation :: "string list"
  ar_confidence :: f64
  ar_model :: string
  ar_provider :: string
  ar_elapsed :: i64

definition no_analysis :: analysis_result where
  "no_analysis = \<lparr>ar_ok = False, ar_error = [], ar_probableCause = [], ar_suggestedCategory = [], ar_evidence = [],
     ar_investigation = [], ar_confidence = 0, ar_model = [], ar_provider = [], ar_elapsed = 0\<rparr>"

definition disclaimer :: string where
  "disclaimer = ''AI analysis is advisory. The pass/fail verdict was decided by the assertions in ''
     @ ''the C++ engine and is not affected by anything in this object.''"

definition analysis_json :: "analysis_result \<Rightarrow> json" where
  "analysis_json r = obj_of
     ([(''ok'', JBool (ar_ok r))] @ (if \<not> ar_ok r then [(''error'', JString (ar_error r))] else [])
      @ [(''provider'', JString (ar_provider r)), (''model'', JString (ar_model r)), (''elapsed_ms'', JInt (ar_elapsed r)),
         (''probable_cause'', JString (ar_probableCause r)), (''suggested_category'', JString (ar_suggestedCategory r)),
         (''confidence'', JDouble (ar_confidence r)), (''evidence'', strings_json (ar_evidence r)),
         (''suggested_investigation'', strings_json (ar_investigation r)), (''advisory_only'', JBool True),
         (''disclaimer'', JString disclaimer)])"

definition line :: "string \<Rightarrow> string" where
  "line t = t @ [CHR 0x0A]"

definition numbered :: "string list \<Rightarrow> string" where
  "numbered items = concat (map (\<lambda>(step, item). line (''    '' @ show_nat step @ ''. '' @ item)) (enumerate 1 items))"

definition analysis_render :: "analysis_result \<Rightarrow> string" where
  "analysis_render r =
     (if \<not> ar_ok r then line (''AI analysis unavailable: '' @ ar_error r)
      else line (''AI analysis (advisory '' @ dash @ '' the verdict above was decided by the test engine)'')
        @ line (''  probable cause    '' @ ar_probableCause r)
        @ (if ar_suggestedCategory r \<noteq> []
           then line (''  model'' @ [CHR 0x27] @ ''s category  '' @ ar_suggestedCategory r @ ''  (not applied to the result)'') else [])
        @ (if f64_less 0 (ar_confidence r)
           then line (''  self-reported confidence '' @ print_fixed 0 (f64_mul (ar_confidence r) f64_100) @ ''%'') else [])
        @ (if ar_evidence r \<noteq> [] then line ''  evidence'' @ concat (map (\<lambda>item. line (''    - '' @ item)) (ar_evidence r)) else [])
        @ (if ar_investigation r \<noteq> [] then line ''  suggested investigation'' @ numbered (ar_investigation r) else [])
        @ (if ar_model r \<noteq> [] then line (''  model             '' @ ar_model r @ '' via '' @ ar_provider r) else []))"

section \<open>A provider\<close>

record ai_provider =
  ap_enabled :: bool
  ap_generate :: "generation_request \<Rightarrow> generation_result option"
  ap_analyse :: "analysis_request \<Rightarrow> analysis_result option"
  ap_health :: "json option"

definition disabled_health :: "string \<Rightarrow> json" where
  "disabled_health reason = obj_of [(''provider'', JString ''disabled''), (''enabled'', JBool False), (''reason'', JString reason),
     (''hint'', JString (''Set ai.enabled=true (or TESTFORGE_AI_ENABLED=1) and start the Python AI ''
        @ ''sidecar: python -m uvicorn python.ai.service:app --port 8810''))]"

definition disabled_provider :: "string \<Rightarrow> ai_provider" where
  "disabled_provider reason = \<lparr>ap_enabled = False,
     ap_generate = (\<lambda>_. Some (no_generation\<lparr>gr_provider := ''disabled'', gr_error := reason\<rparr>)),
     ap_analyse = (\<lambda>_. Some (no_analysis\<lparr>ar_provider := ''disabled'', ar_error := reason\<rparr>)),
     ap_health = Some (disabled_health reason)\<rparr>"

section \<open>The stand-in\<close>

definition makeSpec :: "string \<Rightarrow> string \<Rightarrow> string \<Rightarrow> int \<Rightarrow> string \<Rightarrow> test_spec" where
  "makeSpec name meth endpoint status description =
     \<lparr>ts_name = name, ts_description = description, ts_method = meth, ts_endpoint = endpoint, ts_headers = [], ts_body = JNull,
      ts_expectedStatus = status, ts_acceptableStatuses = [], ts_maxResponseTimeMs = 0, ts_assertions = [],
      ts_tags = [''generated'', ''mock'']\<rparr>"

definition known_resources :: "string list" where
  "known_resources = [''users'', ''items'', ''orders'', ''products'', ''accounts'', ''sessions'']"

definition guessResource :: "string \<Rightarrow> string" where
  "guessResource requirement =
     (case find (\<lambda>candidate. containsIgnoreCase requirement candidate
         \<or> 1 < length candidate \<and> containsIgnoreCase requirement (butlast candidate)) known_resources of
        Some candidate \<Rightarrow> candidate | None \<Rightarrow> ''items'')"

definition mentions :: "string list \<Rightarrow> string \<Rightarrow> bool" where
  "mentions needles requirement = list_ex (containsIgnoreCase requirement) needles"

definition mock_list :: "string \<Rightarrow> test_spec" where
  "mock_list resource = (makeSpec (''list_'' @ resource) ''GET'' (CHR ''/'' # resource) 200
       ''MOCK: the collection endpoint responds successfully'')
     \<lparr>ts_assertions := [\<lparr>sa_kind = ResponseTimeUnder, sa_target = [], sa_expected = JInt 2000\<rparr>], ts_maxResponseTimeMs := 2000\<rparr>"

definition mock_missing :: "string \<Rightarrow> test_spec" where
  "mock_missing resource = makeSpec (''missing_'' @ resource @ ''_returns_404'') ''GET'' (CHR ''/'' # resource @ ''/999999'') 404
     ''MOCK: an unknown identifier produces a 404''"

definition mock_create :: "string \<Rightarrow> test_spec list" where
  "mock_create resource =
     [(makeSpec (''create_valid_'' @ resource) ''POST'' (CHR ''/'' # resource) 201 ''MOCK: a well-formed creation request succeeds'')
        \<lparr>ts_body := obj_of [(''name'', JString ''testforge-mock''), (''email'', JString ''mock@example.com''),
           (''password'', JString ''mock-password-1234'')],
         ts_assertions := [\<lparr>sa_kind = JsonFieldExists, sa_target = ''id'', sa_expected = JNull\<rparr>]\<rparr>,
      (makeSpec ''create_missing_required_field'' ''POST'' (CHR ''/'' # resource) 400
         ''MOCK: a request missing a required field is rejected'')\<lparr>ts_body := obj_of [(''name'', JString ''testforge-mock'')]\<rparr>]"

definition mock_reject :: "string \<Rightarrow> test_spec" where
  "mock_reject resource = (makeSpec ''reject_malformed_payload'' ''POST'' (CHR ''/'' # resource) 400
      ''MOCK: a payload that violates the stated rules is rejected'')
     \<lparr>ts_body := obj_of [(''email'', JString ''not-an-email''), (''password'', JString ''short'')]\<rparr>"

definition mock_duplicate :: "string \<Rightarrow> test_spec" where
  "mock_duplicate resource = (makeSpec ''duplicate_is_rejected'' ''POST'' (CHR ''/'' # resource) 409
      ''MOCK: creating a duplicate conflicts'')
     \<lparr>ts_body := obj_of [(''name'', JString ''testforge-mock-duplicate''), (''email'', JString ''duplicate@example.com''),
        (''password'', JString ''mock-password-1234'')]\<rparr>"

definition mock_tests :: "string \<Rightarrow> test_spec list" where
  "mock_tests requirement =
     (let resource = guessResource requirement
      in [mock_list resource, mock_missing resource]
         @ (if mentions [''creat'', ''regist'', ''post'', ''sign up''] requirement then mock_create resource else [])
         @ (if mentions [''valid'', ''requir'', ''must ''] requirement then [mock_reject resource] else [])
         @ (if mentions [''uniq''] requirement then [mock_duplicate resource] else []))"

definition mock_model :: string where
  "mock_model = ''mock-deterministic-v1''"

definition mock_generate :: "string \<Rightarrow> generation_request \<Rightarrow> generation_result" where
  "mock_generate forcedError rq =
     (let r = no_generation\<lparr>gr_provider := ''mock'', gr_model := mock_model\<rparr>
      in if forcedError \<noteq> [] then r\<lparr>gr_error := forcedError\<rparr>
         else (let tests = take (nat (max 1 (gq_maxTests rq))) (mock_tests (gq_requirement rq))
           in r\<lparr>gr_suite := \<lparr>su_suite = (if gq_suiteName rq = [] then ''generated'' else gq_suiteName rq),
                  su_requirement = gq_requirement rq, su_source = ''mock'', su_model = mock_model, su_tests = tests\<rparr>,
                gr_ok := True, gr_elapsed := 1, gr_promptTokens := of_nat (length (gq_requirement rq) div 4),
                gr_completionTokens := of_nat (length tests * 40)\<rparr>))"

text \<open>\<open>std::to_string\<close> of a double: six decimals.\<close>

definition string_of_double :: "f64 \<Rightarrow> string" where
  "string_of_double w = print_fixed 6 w"

definition path_text :: "json \<Rightarrow> string \<Rightarrow> string option" where
  "path_text v path = (case json_path v path of Some (JString t) \<Rightarrow> Some t | _ \<Rightarrow> None)"

definition mock_unreachable :: "string \<Rightarrow> analysis_result \<Rightarrow> analysis_result" where
  "mock_unreachable transport r = r
     \<lparr>ar_probableCause := ''MOCK ANALYSIS: the request never reached the service '' @ dash @ '' the transport layer reported ''
        @ quoted transport @ ''.'',
      ar_suggestedCategory := ''NETWORK_FAILURE'', ar_evidence := [''transport_error = '' @ transport],
      ar_investigation := [''Confirm the system under test is running and listening on the configured base URL.'',
        ''Check for a port mismatch between the service and api.base_url.''], ar_confidence := 0x3FE999999999999A\<rparr>"

definition mock_server_error :: "i64 \<Rightarrow> json \<Rightarrow> analysis_result \<Rightarrow> analysis_result" where
  "mock_server_error status context r = r
     \<lparr>ar_probableCause := ''MOCK ANALYSIS: the endpoint returned HTTP '' @ show_int (sint status)
        @ '' while the request itself looked well-formed, which points at a server-side fault.'',
      ar_suggestedCategory := ''APPLICATION_FAILURE'',
      ar_evidence := (''http_status = '' @ show_int (sint status))
        # (case path_text context ''result.metadata.response_excerpt'' of
             Some excerpt \<Rightarrow> [''response excerpt: '' @ String_Utils.truncate excerpt 200] | None \<Rightarrow> []),
      ar_investigation := [''Inspect the service'' @ [CHR 0x27] @ ''s exception log.'',
        ''Reproduce the request by hand and check whether it is input-dependent.''], ar_confidence := 0x3FE6666666666666\<rparr>"

definition mock_timeout :: "json \<Rightarrow> analysis_result \<Rightarrow> analysis_result" where
  "mock_timeout context r = r
     \<lparr>ar_probableCause := ''MOCK ANALYSIS: the test exceeded its deadline without producing a verdict.'',
      ar_suggestedCategory := ''TIMEOUT'',
      ar_evidence := ''failure_category = TIMEOUT''
        # (case json_path context ''diagnostics.system.cpu.load_average_1m'' of
             Some load \<Rightarrow> if isNumber load then [''1-minute load average = '' @ string_of_double (doubleOr load 0)] else []
           | None \<Rightarrow> []),
      ar_investigation := [''Check whether the machine was saturated when the test ran.'',
        ''Raise the timeout only after confirming the work genuinely takes that long.''], ar_confidence := 0x3FE3333333333333\<rparr>"

definition mock_assertion :: "string \<Rightarrow> json \<Rightarrow> analysis_result \<Rightarrow> analysis_result" where
  "mock_assertion category context r = r
     \<lparr>ar_probableCause := ''MOCK ANALYSIS: an assertion did not hold. The expected and actual values in the ''
        @ ''failure detail are the place to start.'',
      ar_suggestedCategory := (if category = [] then ''ASSERTION_FAILURE'' else category),
      ar_evidence := (case path_text context ''result.error_message'' of
         Some message \<Rightarrow> [String_Utils.truncate message 300] | None \<Rightarrow> []),
      ar_investigation := [''Decide whether the system changed behaviour or the expectation is stale.''],
      ar_confidence := 0x3FE0000000000000\<rparr>"

definition mock_analyse :: "string \<Rightarrow> analysis_request \<Rightarrow> analysis_result option" where
  "mock_analyse forcedError rq =
     (let r = no_analysis\<lparr>ar_provider := ''mock'', ar_model := mock_model\<rparr>;
          context = aq_context rq; done = (\<lambda>r. r\<lparr>ar_ok := True, ar_elapsed := 1\<rparr>)
      in if forcedError \<noteq> [] then Some (r\<lparr>ar_error := forcedError\<rparr>)
         else (case path_text context ''result.metadata.transport_error'' of
            Some transport \<Rightarrow> Some (done (mock_unreachable transport r))
          | None \<Rightarrow>
              map_option (\<lambda>status. done
                 (if 500 \<le> sint status then mock_server_error status context r
                  else if aq_failureCategory rq = ''TIMEOUT'' then mock_timeout context r
                  else mock_assertion (aq_failureCategory rq) context r))
                (case json_path context ''result.metadata.http_status'' of Some v \<Rightarrow> intOr v 0 | None \<Rightarrow> Some 0)))"

definition mock_health :: json where
  "mock_health = obj_of [(''provider'', JString ''mock''), (''enabled'', JBool True), (''reachable'', JBool True),
     (''model'', JString mock_model), (''is_mock'', JBool True),
     (''note'', JString (''Deterministic offline stand-in. No model is contacted and no output here reflects '' @ ''a real language model.''))]"

definition mock_provider :: "string \<Rightarrow> ai_provider" where
  "mock_provider forcedError = \<lparr>ap_enabled = True, ap_generate = (\<lambda>rq. Some (mock_generate forcedError rq)),
     ap_analyse = mock_analyse forcedError, ap_health = Some mock_health\<rparr>"

section \<open>The client of the sidecar\<close>

definition ai_client_options :: "ai_config \<Rightarrow> client_options" where
  "ai_client_options cf = default_client_options
     \<lparr>co_requestTimeout := ai_timeoutMs cf,
      co_connectTimeout := (if 5000 < sint (ai_timeoutMs cf) then 5000 else ai_timeoutMs cf),
      co_maxResponseBytes := unat (ai_maxResponseBytes cf), co_followRedirects := False,
      co_userAgent := ''TestForge/0.9 (ai-client)'', co_policy := restrictedTo (ai_endpoint cf)\<rparr>"

definition sidecar_enabled :: "ai_config \<Rightarrow> bool" where
  "sidecar_enabled cf \<longleftrightarrow> ai_enabled cf \<and> ai_endpoint cf \<noteq> []"

definition sidecar_endpoint :: "ai_config \<Rightarrow> string \<Rightarrow> string" where
  "sidecar_endpoint cf path = (case joinUrl (ai_endpoint cf) path of Some u \<Rightarrow> u | None \<Rightarrow> ai_endpoint cf)"

text \<open>Text of the model: bounded, and without what looks like a credential.\<close>

definition model_text :: "json \<Rightarrow> string \<Rightarrow> string" where
  "model_text v key = (case json_find v key of Some (JString t) \<Rightarrow> String_Utils.truncate (redactSecrets t) 2000 | _ \<Rightarrow> [])"

definition model_texts :: "json \<Rightarrow> string \<Rightarrow> string list" where
  "model_texts v key =
     (case json_find v key of
        Some (JArray items) \<Rightarrow> concat (map (\<lambda>item. case item of JString t \<Rightarrow> [String_Utils.truncate (redactSecrets t) 500] | _ \<Rightarrow> []) items)
      | _ \<Rightarrow> [])"

definition refused :: "json \<Rightarrow> bool" where
  "refused document \<longleftrightarrow> (case json_find document ''ok'' of Some v \<Rightarrow> \<not> boolOr v True | None \<Rightarrow> False)"

definition named_model :: "ai_config \<Rightarrow> json \<Rightarrow> string" where
  "named_model cf document = (case json_find document ''model'' of Some v \<Rightarrow> stringOr v (ai_model cf) | None \<Rightarrow> ai_model cf)"

text \<open>The document of a response, or what is wrong with it.\<close>

definition sidecar_document :: "ai_config \<Rightarrow> http_response \<Rightarrow> string + json" where
  "sidecar_document cf response =
     (if rs_transportError response
      then Inl (''cannot reach the AI sidecar at '' @ ai_endpoint cf @ '': '' @ rs_errorMessage response)
      else if \<not> response_ok response
      then Inl (''the AI sidecar returned HTTP '' @ show_int (rs_status response) @ '': '' @ String_Utils.truncate (rs_body response) 500)
      else (case tryParse default_limits (rs_body response) of
          Inl e \<Rightarrow> Inl (''the AI sidecar returned a body that is not valid JSON: '' @ e)
        | Inr document \<Rightarrow> Inr document))"

definition token_count :: "json \<Rightarrow> string \<Rightarrow> i64 option" where
  "token_count document key =
     (case json_find document ''usage'' of
        Some usage \<Rightarrow> (case json_find usage key of Some v \<Rightarrow> intOr v 0 | None \<Rightarrow> Some 0)
      | None \<Rightarrow> Some 0)"

definition read_suite :: "ai_config \<Rightarrow> generation_request \<Rightarrow> json \<Rightarrow> generation_result \<Rightarrow> generation_result option" where
  "read_suite cf rq document r =
     (case json_find document ''specification'' of
        None \<Rightarrow> Some (r\<lparr>gr_error := ''the AI response has no '' @ quoted ''specification'' @ '' object''\<rparr>)
      | Some specification \<Rightarrow>
          map_option (\<lambda>read. case read of
              Inl e \<Rightarrow> r\<lparr>gr_error := ''the AI response did not match the required schema: '' @ e\<rparr>
            | Inr suite \<Rightarrow> r\<lparr>gr_suite := suite\<lparr>su_source := ''ai:'' @ gr_model r, su_model := gr_model r,
                su_requirement := (if su_requirement suite = [] then gq_requirement rq else su_requirement suite)\<rparr>, gr_ok := True\<rparr>)
            (suite_of_json specification))"

definition read_generation :: "ai_config \<Rightarrow> generation_request \<Rightarrow> http_response \<Rightarrow> generation_result \<Rightarrow> generation_result option" where
  "read_generation cf rq response r =
     (case sidecar_document cf response of
        Inl e \<Rightarrow> Some (r\<lparr>gr_error := e\<rparr>)
      | Inr document \<Rightarrow>
          (let r = r\<lparr>gr_raw := document\<rparr>
           in if refused document then
                Some (r\<lparr>gr_error := (if model_text document ''error'' = [] then ''the AI sidecar reported a failure without a message''
                   else model_text document ''error'')\<rparr>)
              else (case (token_count document ''prompt_tokens'', token_count document ''completion_tokens'') of
                  (Some p, Some c) \<Rightarrow>
                    read_suite cf rq document (r\<lparr>gr_promptTokens := p, gr_completionTokens := c, gr_model := named_model cf document\<rparr>)
                | _ \<Rightarrow> None)))"

definition generation_payload :: "ai_config \<Rightarrow> generation_request \<Rightarrow> json" where
  "generation_payload cf rq = obj_of
     [(''requirement'', JString (gq_requirement rq)), (''suite'', JString (gq_suiteName rq)), (''base_url'', JString (gq_baseUrl rq)),
      (''max_tests'', json_int (min (gq_maxTests rq) (ai_maxGeneratedTests cf))), (''model'', JString (ai_model cf)),
      (''context'', gq_context rq)]"

text \<open>What the network did for a request, and how long the request took.\<close>

record sidecar_obs =
  so_hops :: "hop list"
  so_elapsed :: i64

definition sidecar_generate :: "ai_config \<Rightarrow> sidecar_obs \<Rightarrow> generation_request \<Rightarrow> generation_result option \<times> sent" where
  "sidecar_generate cf ob rq =
     (let r = no_generation\<lparr>gr_provider := ''http-sidecar'', gr_model := ai_model cf\<rparr>
      in if \<not> sidecar_enabled cf then (Some (r\<lparr>gr_error := ''the AI provider is not enabled''\<rparr>), [])
         else (case client_send (ai_client_options cf) (so_hops ob)
                 (post_json_request (sidecar_endpoint cf ''/generate-tests'') (generation_payload cf rq) []) of
             (None, sent) \<Rightarrow> (None, sent)
           | (Some response, sent) \<Rightarrow> (read_generation cf rq response (r\<lparr>gr_elapsed := so_elapsed ob\<rparr>), sent)))"

definition analysis_payload :: "ai_config \<Rightarrow> analysis_request \<Rightarrow> json" where
  "analysis_payload cf rq = obj_of
     [(''context'', aq_context rq), (''test'', JString (aq_testName rq)), (''failure_category'', JString (aq_failureCategory rq)),
      (''model'', JString (ai_model cf))]"

text \<open>\<open>std::clamp(value, 0.0, 1.0)\<close>.\<close>

definition clamp_unit :: "f64 \<Rightarrow> f64" where
  "clamp_unit w = (if f64_less w 0 then 0 else if f64_less 0x3FF0000000000000 w then 0x3FF0000000000000 else w)"

definition read_analysis :: "ai_config \<Rightarrow> http_response \<Rightarrow> analysis_result \<Rightarrow> analysis_result" where
  "read_analysis cf response r =
     (case sidecar_document cf response of
        Inl e \<Rightarrow> r\<lparr>ar_error := e\<rparr>
      | Inr document \<Rightarrow>
          if refused document then r\<lparr>ar_error := model_text document ''error''\<rparr>
          else (case json_find document ''analysis'' of
              Some (JObject ms) \<Rightarrow>
                (let analysis = JObject ms; cause = model_text analysis ''probable_cause'';
                     r = r\<lparr>ar_probableCause := cause, ar_suggestedCategory := model_text analysis ''category'',
                           ar_evidence := model_texts analysis ''evidence'',
                           ar_investigation := model_texts analysis ''suggested_investigation'',
                           ar_confidence := (case json_find analysis ''confidence'' of
                             Some v \<Rightarrow> if isNumber v then clamp_unit (doubleOr v 0) else ar_confidence r | None \<Rightarrow> ar_confidence r),
                           ar_model := (case json_find document ''model'' of Some v \<Rightarrow> stringOr v (ai_model cf) | None \<Rightarrow> ar_model r)\<rparr>
                 in if cause = [] then r\<lparr>ar_error := ''the AI response contained no probable cause''\<rparr> else r\<lparr>ar_ok := True\<rparr>)
            | _ \<Rightarrow> r\<lparr>ar_error := ''the AI response has no '' @ quoted ''analysis'' @ '' object''\<rparr>))"

definition sidecar_analyse :: "ai_config \<Rightarrow> sidecar_obs \<Rightarrow> analysis_request \<Rightarrow> analysis_result option \<times> sent" where
  "sidecar_analyse cf ob rq =
     (let r = no_analysis\<lparr>ar_provider := ''http-sidecar'', ar_model := ai_model cf\<rparr>
      in if \<not> sidecar_enabled cf then (Some (r\<lparr>ar_error := ''the AI provider is not enabled''\<rparr>), [])
         else (case client_send (ai_client_options cf) (so_hops ob)
                 (post_json_request (sidecar_endpoint cf ''/analyze-failure'') (analysis_payload cf rq) []) of
             (response, sent) \<Rightarrow> (map_option (\<lambda>response. read_analysis cf response (r\<lparr>ar_elapsed := so_elapsed ob\<rparr>)) response, sent)))"

definition health_members :: "http_response \<Rightarrow> (string \<times> json) list" where
  "health_members response =
     [(''reachable'', JBool (\<not> rs_transportError response \<and> response_ok response)), (''status_code'', json_int (rs_status response))]
     @ (if rs_transportError response then
          [(''error'', JString (rs_errorMessage response)),
           (''hint'', JString (''Start the sidecar with: uvicorn python.ai.service:app --port 8810 ''
              @ ''(and export OPENAI_API_KEY for live model calls)''))]
        else (case response_json response of Some body \<Rightarrow> [(''sidecar'', body)] | None \<Rightarrow> []))"

definition sidecar_health :: "ai_config \<Rightarrow> sidecar_obs \<Rightarrow> json option \<times> sent" where
  "sidecar_health cf ob =
     (let front = [(''provider'', JString ''http-sidecar''), (''enabled'', JBool (sidecar_enabled cf)), (''endpoint'', JString (ai_endpoint cf)),
            (''model'', JString (ai_model cf)), (''timeout_ms'', JInt (ai_timeoutMs cf))]
      in if \<not> sidecar_enabled cf then (Some (obj_of (front @ [(''reachable'', JBool False),
             (''reason'', JString ''AI features are disabled in the configuration'')])), [])
         else (case client_send (ai_client_options cf) (so_hops ob) (get_request (sidecar_endpoint cf ''/health'') []) of
             (response, sent) \<Rightarrow> (map_option (\<lambda>response. obj_of (front @ health_members response)) response, sent)))"

definition sidecar_provider :: "ai_config \<Rightarrow> sidecar_obs \<Rightarrow> ai_provider" where
  "sidecar_provider cf ob = \<lparr>ap_enabled = sidecar_enabled cf, ap_generate = (\<lambda>rq. fst (sidecar_generate cf ob rq)),
     ap_analyse = (\<lambda>rq. fst (sidecar_analyse cf ob rq)), ap_health = fst (sidecar_health cf ob)\<rparr>"

definition createProvider :: "ai_config \<Rightarrow> environ \<Rightarrow> sidecar_obs \<Rightarrow> ai_provider" where
  "createProvider cf env ob =
     (if \<not> ai_enabled cf
      then disabled_provider ''AI features are disabled (set ai.enabled=true or TESTFORGE_AI_ENABLED=1)''
      else if env_getBool ''TESTFORGE_AI_MOCK'' False env then mock_provider []
      else sidecar_provider cf ob)"

end
