(* ===== verification/Service.thy ===== *)
theory Service
  imports Ai_Provider Run_History Failure_Context Selector
begin

text \<open>
  The service behind the command line and the REST API (\<open>src/api/TestForgeService.cpp\<close>): the
  catalogue, what is done with a finished run, the history, and the two uses of a language model.

  The state is the service with its registry, database and provider; the registry holds the generated
  tests. What SQL leaves open, the clock and the texts of the build are an environment. An operation is
  undefined (\<open>None\<close>) where the source is, or where it throws.
\<close>

record service_env =
  se_now :: int
  se_banner :: string
  se_like :: "string \<Rightarrow> string \<Rightarrow> bool"
  se_avg :: "int list \<Rightarrow> f64"
  se_newestRuns :: "run_row list \<Rightarrow> run_row list"
  se_byName :: "result_row list \<Rightarrow> result_row list"
  se_newest :: "result_row list \<Rightarrow> result_row list"
  se_latest :: "history_summary list \<Rightarrow> history_summary list"
  se_most :: "(string \<times> int) list \<Rightarrow> (string \<times> int) list"
  se_slowest :: "(string \<times> f64) list \<Rightarrow> (string \<times> f64) list"
  se_sqlite :: string
  se_journal :: string
  se_bytes :: "int option"

record service =
  sv_config :: config
  sv_registry :: spec_registry
  sv_db :: "database option"
  sv_ai :: "ai_provider option"
  sv_diagnostics :: "json option"
  sv_gpu :: json
  sv_running :: bool

definition errorObject :: "string \<Rightarrow> string \<Rightarrow> json" where
  "errorObject message code = obj_of [(''ok'', JBool False), (''error'', JString message), (''code'', JString code)]"

section \<open>The catalogue\<close>

definition plain_selection :: selection_options where
  "plain_selection = \<lparr>so_shuffle = False, so_seed = 0, so_shardCount = 1, so_shardIndex = 0\<rparr>"

definition listTests :: "test_filter \<Rightarrow> service \<Rightarrow> test_metadata list" where
  "listTests f sv = select_registry (\<lambda>_. id) 0 (sv_registry sv) (f\<lparr>tf_includeDisabled := True\<rparr>) plain_selection"

definition listTestsJson :: "test_filter \<Rightarrow> service \<Rightarrow> json" where
  "listTestsJson f sv =
     (let tests = listTests f sv
      in obj_of [(''ok'', JBool True), (''count'', JInt (of_nat (length tests))), (''filter'', JString (describe f)),
           (''tests'', JArray (map metadata_json tests))])"

definition suitesJson :: "service \<Rightarrow> json" where
  "suitesJson sv =
     (let every = registry_all (sv_registry sv);
          entry = (\<lambda>suite. obj_of [(''suite'', JString suite), (''tests'', json_int (count_of (\<lambda>md. md_suite md = suite) every)),
            (''disabled'', json_int (count_of (\<lambda>md. md_suite md = suite \<and> \<not> md_enabled md) every))])
      in obj_of [(''ok'', JBool True), (''suites'', JArray (map entry (sort (remdups (map md_suite every))))),
           (''tags'', strings_json (registry_tags (sv_registry sv))), (''total_tests'', JInt (of_nat (length every)))])"

section \<open>A finished run\<close>

text \<open>The statements of the runner on the reportository; each failure is caught and logged.\<close>

definition or_same :: "('s \<Rightarrow> 's option) \<Rightarrow> 's \<Rightarrow> 's" where
  "or_same f s = (case f s of Some s' \<Rightarrow> s' | None \<Rightarrow> s)"

definition store_run :: "test_run \<Rightarrow> test_result list \<Rightarrow> database \<Rightarrow> database option" where
  "store_run run saved db = completeRun run (fold (\<lambda>r. or_same (saveResult r)) saved (beginRun run db))"

text \<open>
  \<open>run\<close>: one at a time. The result of the runner, the results it saved and the paths of the reports
  that were written are given.
\<close>

definition service_run :: "service_env \<Rightarrow> bool \<Rightarrow> test_run \<Rightarrow> test_result list \<Rightarrow> string list \<Rightarrow> service \<Rightarrow> service option" where
  "service_run se persist run saved reports sv =
     (case sv_db sv of
        None \<Rightarrow> Some sv
      | Some db \<Rightarrow>
          map_option (\<lambda>db. sv\<lparr>sv_db := Some (if reports \<noteq> []
              then or_same (recordEvent (se_now se) (run_id run) ''reports_written'' (obj_of [(''reports'', strings_json reports)])) db
              else db)\<rparr>)
            (if persist then store_run run saved db else Some db))"

section \<open>History and statistics\<close>

definition no_database :: json where
  "no_database = errorObject
     ''no results database is available (database.enabled is false, or the file could not be opened)'' ''NO_DATABASE''"

text \<open>\<open>requireRepository\<close>: the operation on the database, or the error.\<close>

definition requireRepository :: "service \<Rightarrow> (database \<Rightarrow> json option) \<Rightarrow> json option" where
  "requireRepository sv f = (case sv_db sv of None \<Rightarrow> Some no_database | Some db \<Rightarrow> f db)"

fun summaries_json :: "test_run list \<Rightarrow> json list option" where
  "summaries_json [] = Some []"
| "summaries_json (run # runs) =
     (case (run_summary_json run, summaries_json runs) of (Some v, Some vs) \<Rightarrow> Some (v # vs) | _ \<Rightarrow> None)"

definition historyJson :: "service_env \<Rightarrow> int \<Rightarrow> service \<Rightarrow> json option" where
  "historyJson se limit sv = requireRepository sv (\<lambda>db.
     case listRuns (se_like se) (se_newestRuns se) (default_run_query\<lparr>rq_limit := max 1 limit\<rparr>) db of
       None \<Rightarrow> None
     | Some runs \<Rightarrow> map_option (\<lambda>items. obj_of [(''ok'', JBool True), (''count'', JInt (of_nat (length runs))), (''runs'', JArray items)])
         (summaries_json runs))"

definition statsJson :: "service_env \<Rightarrow> int \<Rightarrow> service \<Rightarrow> json option" where
  "statsJson se runLimit sv = requireRepository sv (\<lambda>db.
     map_option (\<lambda>out. with_member ''storage'' (storage_json (dc_path (cf_database (sv_config sv))) (se_sqlite se) (se_journal se) (se_bytes se) db)
         (with_member ''ok'' (JBool True) out))
       (aggregateStatistics (se_avg se) (se_newestRuns se) (se_most se) (se_slowest se) (max 1 runLimit) db))"

definition runJson :: "service_env \<Rightarrow> string \<Rightarrow> service \<Rightarrow> json option" where
  "runJson se i sv = requireRepository sv (\<lambda>db.
     case loadRun (se_byName se) i db of
       None \<Rightarrow> None
     | Some None \<Rightarrow> Some (errorObject (''no run with id '' @ quoted i) ''NOT_FOUND'')
     | Some (Some run) \<Rightarrow> map_option (with_member ''ok'' (JBool True)) (run_json run))"

definition runResultsJson :: "service_env \<Rightarrow> string \<Rightarrow> service \<Rightarrow> json option" where
  "runResultsJson se i sv = requireRepository sv (\<lambda>db.
     map_option (\<lambda>results. obj_of [(''ok'', JBool True), (''run_id'', JString i), (''count'', JInt (of_nat (length results))),
         (''results'', JArray (map result_json results))])
       (loadResults (se_byName se) i db))"

text \<open>A test is asked for by its id or by its qualified name, which is cut at its first dot.\<close>

definition resolve_test :: "string \<Rightarrow> string" where
  "resolve_test t = (case find_char CHR ''.'' t of None \<Rightarrow> t | Some dot \<Rightarrow> testId (take dot t) (drop (dot + 1) t))"

definition testHistoryJson :: "service_env \<Rightarrow> string \<Rightarrow> int \<Rightarrow> service \<Rightarrow> json option" where
  "testHistoryJson se t limit sv = requireRepository sv (\<lambda>db.
     map_option (\<lambda>entries. obj_of [(''ok'', JBool True), (''test'', JString t), (''test_id'', JString (resolve_test t)),
         (''count'', JInt (of_nat (length entries))), (''history'', JArray (map entry_json entries))])
       (testHistory (se_newest se) (resolve_test t) (max 1 limit) db))"

definition flaky_method :: string where
  "flaky_method = ''A test is flagged when it has at least 5 non-skipped runs, has both passed and ''
     @ ''failed, and changed outcome on at least 20% of consecutive runs. This is a ''
     @ ''heuristic: an intermittently broken feature produces the same pattern.''"

definition flakyCandidatesJson :: "service_env \<Rightarrow> int \<Rightarrow> service \<Rightarrow> json option" where
  "flakyCandidatesJson se limit sv = requireRepository sv (\<lambda>db.
     map_option (\<lambda>summaries. (let candidates = map summary_json (filter (looksFlaky 5 f64_02) summaries)
         in obj_of [(''ok'', JBool True), (''count'', JInt (of_nat (length candidates))), (''candidates'', JArray candidates),
              (''method'', JString flaky_method)]))
       (historySummaries (se_avg se) (se_latest se) (se_newest se) (max 1 limit * 4) db))"

section \<open>Diagnostics and health\<close>

definition with_diagnostics :: "(string \<times> json) list \<Rightarrow> service \<Rightarrow> json" where
  "with_diagnostics members sv =
     (case sv_diagnostics sv of
        None \<Rightarrow> obj_of [(''ok'', JBool False), (''error'', JString ''diagnostics are not configured'')]
      | Some _ \<Rightarrow> obj_of ((''ok'', JBool True) # members))"

definition diagnosticsJson :: "service \<Rightarrow> json" where
  "diagnosticsJson sv = with_diagnostics (case sv_diagnostics sv of Some d \<Rightarrow> [(''diagnostics'', d)] | None \<Rightarrow> []) sv"

definition gpuJson :: "service \<Rightarrow> json" where
  "gpuJson sv = with_diagnostics [(''gpu'', sv_gpu sv)] sv"

definition ai_enabled_now :: "service \<Rightarrow> bool" where
  "ai_enabled_now sv \<longleftrightarrow> (case sv_ai sv of Some p \<Rightarrow> ap_enabled p | None \<Rightarrow> False)"

definition healthJson :: "service_env \<Rightarrow> service \<Rightarrow> json" where
  "healthJson se sv = obj_of
     [(''ok'', JBool True), (''service'', JString ''testforge''), (''version'', JString version_string), (''build'', JString (se_banner se)),
      (''time'', JString (toIso8601 (se_now se))), (''tests_registered'', JInt (of_nat (registry_size (sv_registry sv)))),
      (''run_in_progress'', JBool (sv_running sv)),
      (''components'', obj_of
        [(''database'', JString (if sv_db sv \<noteq> None then ''ready'' else ''disabled'')),
         (''diagnostics'', JString (if sv_diagnostics sv \<noteq> None then ''ready'' else ''disabled'')),
         (''ai'', JString (if ai_enabled_now sv then ''enabled'' else ''disabled''))])]"

section \<open>Generating tests\<close>

definition service_validator :: "config \<Rightarrow> ai_validator" where
  "service_validator cf = \<lparr>va_config = cf_ai cf,
     va_policy = (let policy = restrictedTo (tc_baseUrl (cf_api cf)) in policy\<lparr>up_hosts := up_hosts policy @ ai_allowedTargetHosts (cf_ai cf)\<rparr>),
     va_baseUrl = tc_baseUrl (cf_api cf)\<rparr>"

definition generation_answer :: "generation_result \<Rightarrow> test_suite \<Rightarrow> validation_report \<Rightarrow> (string \<times> json) list" where
  "generation_answer g s rep =
     [(''ok'', JBool (vr_valid rep)), (''provider'', JString (gr_provider g)), (''model'', JString (gr_model g)),
      (''elapsed_ms'', JInt (gr_elapsed g)), (''validation'', report_json rep), (''specification'', suite_json s),
      (''usage'', obj_of [(''prompt_tokens'', JInt (gr_promptTokens g)), (''completion_tokens'', JInt (gr_completionTokens g))])]"

text \<open>The registration of a suite that passed: what is added to the answer.\<close>

definition register_answer :: "test_suite \<Rightarrow> service \<Rightarrow> (service \<times> (string \<times> json) list) option" where
  "register_answer s sv =
     map_option (\<lambda>registered. case registered of
         Inr (reg, added) \<Rightarrow> (sv\<lparr>sv_registry := reg\<rparr>, [(''registered'', JInt (of_nat added)), (''suite'', JString (su_suite s))])
       | Inl e \<Rightarrow> (sv, [(''ok'', JBool False), (''error'', JString (''registration refused: '' @ exception_what e))]))
     (registerSpecSuite (sv_registry sv) s (sv_config sv))"

definition generation_request_of :: "string \<Rightarrow> string \<Rightarrow> int \<Rightarrow> config \<Rightarrow> generation_request" where
  "generation_request_of requirement suiteName maxTests cf = default_generation
     \<lparr>gq_requirement := requirement, gq_suiteName := (if suiteName = [] then ''generated'' else suiteName),
      gq_baseUrl := tc_baseUrl (cf_api cf), gq_maxTests := (if 0 < maxTests then maxTests else ai_maxGeneratedTests (cf_ai cf))\<rparr>"

definition failed_generation :: "ai_provider \<Rightarrow> generation_result \<Rightarrow> json option" where
  "failed_generation p g =
     (let out = with_member ''provider'' (JString (gr_provider g)) (errorObject (gr_error g) ''GENERATION_FAILED'')
      in if \<not> ap_enabled p then map_option (\<lambda>health. with_member ''hint'' health out) (ap_health p) else Some out)"

definition checked_suite :: "generation_result \<Rightarrow> bool \<Rightarrow> service \<Rightarrow> (service \<times> json) option" where
  "checked_suite g registerSuite sv =
     (case validate (service_validator (sv_config sv)) (gr_suite g) of
        None \<Rightarrow> None
      | Some (s, rep) \<Rightarrow>
          (let out = generation_answer g s rep
           in if \<not> vr_valid rep then
                Some (sv, obj_of (out @ [(''error'', JString ''every generated test was rejected by validation''),
                  (''code'', JString ''VALIDATION_REJECTED'')]))
              else if registerSuite then
                map_option (\<lambda>(sv', added). (sv', obj_of (out @ added
                   @ (if map_of added ''ok'' = Some (JBool False) then [(''code'', JString ''REGISTRATION_REFUSED'')] else []))))
                  (register_answer s sv)
              else Some (sv, obj_of (out @ [(''registered'', JInt 0)]))))"

definition generateTests :: "string \<Rightarrow> string \<Rightarrow> int \<Rightarrow> bool \<Rightarrow> service \<Rightarrow> (service \<times> json) option" where
  "generateTests requirement suiteName maxTests registerSuite sv =
     (case sv_ai sv of
        None \<Rightarrow> Some (sv, errorObject ''no AI provider is configured'' ''AI_UNAVAILABLE'')
      | Some p \<Rightarrow>
          if trim requirement = [] then Some (sv, errorObject ''the requirement text is empty'' ''INVALID_REQUEST'')
          else if 8000 < length requirement
          then Some (sv, errorObject ''the requirement text exceeds 8000 characters'' ''INVALID_REQUEST'')
          else (case ap_generate p (generation_request_of requirement suiteName maxTests (sv_config sv)) of
              None \<Rightarrow> None
            | Some g \<Rightarrow> if \<not> gr_ok g then map_option (\<lambda>out. (sv, out)) (failed_generation p g) else checked_suite g registerSuite sv))"

text \<open>A file gets the scrutiny of model output; its contents are given.\<close>

definition loadSpecFile :: "string \<Rightarrow> string option \<Rightarrow> bool \<Rightarrow> service \<Rightarrow> (service \<times> json) option" where
  "loadSpecFile path contents registerSuite sv =
     (case contents of
        None \<Rightarrow> Some (sv, errorObject (''cannot open specification file: '' @ path) ''NOT_FOUND'')
      | Some t \<Rightarrow>
          (case suite_parse t of
             None \<Rightarrow> None
           | Some (Inl e) \<Rightarrow> Some (sv, errorObject e ''INVALID_SPEC'')
           | Some (Inr s) \<Rightarrow>
               (case validate (service_validator (sv_config sv))
                   (if su_source s = [] then s\<lparr>su_source := ''file:'' @ path\<rparr> else s) of
                  None \<Rightarrow> None
                | Some (s, rep) \<Rightarrow>
                    (let out = [(''ok'', JBool (vr_valid rep)), (''path'', JString path), (''validation'', report_json rep),
                           (''specification'', suite_json s)]
                     in if vr_valid rep \<and> registerSuite then
                          map_option (\<lambda>(sv', added). (sv', obj_of (out @ added))) (register_answer s sv)
                        else Some (sv, obj_of out)))))"

section \<open>Analysing failures\<close>

definition analysis_answer_json :: "test_result \<Rightarrow> analysis_result \<Rightarrow> json" where
  "analysis_answer_json r a = obj_of
     ([(''ok'', JBool (ar_ok a)), (''test'', JString (result_name r)),
       (''verdict'', obj_of [(''status'', JString (status_str (r_status r))), (''failure_category'', JString (category_str (r_category r))),
          (''decided_by'', JString ''testforge-engine'')]),
       (''analysis'', analysis_json a)]
      @ (if \<not> ar_ok a then [(''error'', JString (ar_error a))] else []))"

text \<open>The evidence with the last results of the test, if there is a database.\<close>

definition analysis_context :: "service_env \<Rightarrow> test_result \<Rightarrow> service \<Rightarrow> json option" where
  "analysis_context se r sv =
     (case context_build default_context_limits r of
        Inl _ \<Rightarrow> None
      | Inr context \<Rightarrow>
          (case sv_db sv of
             None \<Rightarrow> Some context
           | Some db \<Rightarrow> map_option (\<lambda>history. withHistory context (JArray (map entry_json history)))
               (testHistory (se_newest se) (r_testId r) 10 db)))"

definition analyseResult :: "service_env \<Rightarrow> test_result \<Rightarrow> service \<Rightarrow> (service \<times> json) option" where
  "analyseResult se r sv =
     (case sv_ai sv of
        None \<Rightarrow> Some (sv, errorObject ''no AI provider is configured'' ''AI_UNAVAILABLE'')
      | Some p \<Rightarrow>
          if \<not> isFailure (r_status r) then Some (sv, errorObject ''only failing results can be analysed'' ''INVALID_REQUEST'')
          else (case analysis_context se r sv of
              None \<Rightarrow> None
            | Some context \<Rightarrow>
                map_option (\<lambda>a. (let out = analysis_answer_json r a
                   in (if ar_ok a \<and> r_runId r \<noteq> []
                       then sv\<lparr>sv_db := map_option (or_same (recordEvent (se_now se) (r_runId r) ''ai_analysis'' out)) (sv_db sv)\<rparr> else sv, out)))
                  (ap_analyse p \<lparr>aq_context = context, aq_testName = result_name r, aq_failureCategory = category_str (r_category r)\<rparr>)))"

definition wanted :: "string \<Rightarrow> test_result \<Rightarrow> bool" where
  "wanted testName r \<longleftrightarrow> (if testName \<noteq> [] then result_name r = testName \<or> r_testName r = testName else isFailure (r_status r))"

definition analyseFailure :: "service_env \<Rightarrow> string \<Rightarrow> string \<Rightarrow> service \<Rightarrow> (service \<times> json) option" where
  "analyseFailure se i testName sv =
     (case sv_db sv of
        None \<Rightarrow> Some (sv, no_database)
      | Some db \<Rightarrow>
          (case loadResults (se_byName se) i db of
             None \<Rightarrow> None
           | Some results \<Rightarrow>
               if results = [] then Some (sv, errorObject (''no results for run '' @ quoted i) ''NOT_FOUND'')
               else (case find (wanted testName) results of
                   None \<Rightarrow> Some (sv, errorObject (if testName = [] then ''run '' @ quoted i @ '' contains no failures to analyse''
                     else ''run '' @ quoted i @ '' has no test named '' @ quoted testName) ''NOT_FOUND'')
                 | Some r \<Rightarrow> analyseResult se r sv)))"

end
