(* ===== verification/Cli_Queries.thy ===== *)
theory Cli_Queries
  imports Cli_Output Command_Line Service "HOL-Library.Monad_Syntax"
begin

text \<open>
  The commands that show what is stored (\<open>src/cli/Commands.cpp\<close>): the catalogue, a stored run, the
  history, the statistics and the database, and the command that runs tests.

  A command gives its exit code and what it writes to the two streams; it has no result where the source
  is undefined or throws. Files, the run itself and what its observers print are parameters.
\<close>

type_synonym cli_answer = "int \<times> string \<times> string"

definition kSuccess :: int where "kSuccess = 0"
definition kTestsFailed :: int where "kTestsFailed = 1"
definition kUsageError :: int where "kUsageError = 2"
definition kFrameworkError :: int where "kFrameworkError = 3"

definition prints :: "string \<Rightarrow> cli_answer" where
  "prints out = (kSuccess, out, [])"

definition refuses :: "bool \<Rightarrow> string \<Rightarrow> string \<Rightarrow> cli_answer" where
  "refuses color message hint = (kUsageError, [], cli_error color message hint)"

definition wantsJson :: "parsed_command \<Rightarrow> bool" where
  "wantsJson p \<longleftrightarrow> pc_flag ''json'' False p"

definition emitJson :: "json \<Rightarrow> cli_answer" where
  "emitJson v =
     (case json_find v ''ok'' of
        Some ok \<Rightarrow> (if \<not> boolOr ok True then kUsageError else kSuccess, cli_json v, [])
      | None \<Rightarrow> (kSuccess, cli_json v, []))"

definition statusText :: "bool \<Rightarrow> test_status \<Rightarrow> string" where
  "statusText color s =
     (case s of
        Passed \<Rightarrow> green color (status_str s)
      | Failed \<Rightarrow> red color (status_str s)
      | Error \<Rightarrow> red color (status_str s)
      | TimedOut \<Rightarrow> yellow color (status_str s)
      | Skipped \<Rightarrow> dim color (status_str s))"

text \<open>\<open>asArray\<close> throws on anything but an array; \<open>intAt\<close> is undefined for a double out of range.\<close>

definition items_of :: "json \<Rightarrow> json list option" where
  "items_of v = (case v of JArray xs \<Rightarrow> Some xs | _ \<Rightarrow> None)"

definition number_at :: "json \<Rightarrow> string \<Rightarrow> string option" where
  "number_at v key = map_option (\<lambda>n. show_int (sint n)) (intAt v key 0)"

definition all_rows :: "('a \<Rightarrow> 'b option) \<Rightarrow> 'a list \<Rightarrow> 'b list option" where
  "all_rows f xs = those (map f xs)"

section \<open>list\<close>

definition list_row :: "bool \<Rightarrow> test_metadata \<Rightarrow> string list" where
  "list_row color md =
     [md_suite md, md_name md, join (filter (\<lambda>tag. tag \<noteq> md_suite md) (md_tags md)) '','',
      if 0 < sint (md_timeoutMs md) then show_int (sint (md_timeoutMs md)) @ ''ms'' else ''-'',
      if md_enabled md then [] else yellow color ''disabled'', String_Utils.truncate (md_description md) 60]"

definition list_command :: "bool \<Rightarrow> parsed_command \<Rightarrow> service \<Rightarrow> cli_answer" where
  "list_command color p sv =
     (let f = filterFrom p; tests = listTests f sv; amount = registry_size (sv_registry sv); suites = registry_suites (sv_registry sv)
      in if wantsJson p then emitJson (listTestsJson f sv)
         else if tests = [] then
           prints (''No tests match '' @ describe f @ ''.'' @ newline
             @ (if 0 < amount then dim color (''There are '' @ show_nat amount @ '' registered tests; check the filter.'' @ newline) else []))
         else prints (table color [''SUITE'', ''TEST'', ''TAGS'', ''TIMEOUT'', ''STATE'', ''DESCRIPTION''] (map (list_row color) tests) []
           @ newline @ show_nat (length tests) @ '' test(s) in '' @ show_nat (length suites) @ '' suite(s): '' @ join suites '', '' @ newline))"

section \<open>run\<close>

record cli_run =
  cr_filter :: test_filter
  cr_selection :: selection_options
  cr_workers :: int
  cr_failFast :: bool
  cr_retryFailed :: int
  cr_label :: string
  cr_persist :: bool

text \<open>Without a filter the suites that are opt-in are left out.\<close>

definition cli_run_of :: "parsed_command \<Rightarrow> config \<Rightarrow> cli_run" where
  "cli_run_of p cf =
     (let f = filterFrom p; ex = cf_execution cf
      in \<lparr>cr_filter = (if filter_empty f then f\<lparr>tf_excludeSuites := ex_excludeSuitesByDefault ex\<rparr> else f),
          cr_selection = selectionFrom p, cr_workers = pc_int ''workers'' 0 p, cr_failFast = pc_flag ''fail-fast'' (ex_failFast ex) p,
          cr_retryFailed = pc_int ''retry-failed'' (ex_retryFailed ex) p, cr_label = pc_value ''label'' [] p,
          cr_persist = \<not> pc_flag ''no-persist'' False p\<rparr>)"

text \<open>A run: its options and the console that watches it, if any; the run, what the console printed, and the service afterwards.\<close>

type_synonym cli_execution = "cli_run \<Rightarrow> console_options option \<Rightarrow> service \<Rightarrow> (test_run \<times> string \<times> service) option"

definition run_exit :: "int \<Rightarrow> int \<Rightarrow> int" where
  "run_exit code signal =
     (if code = 2 then kFrameworkError
      else if code = 4 then (if signal \<noteq> 0 then 128 + signal else kTestsFailed)
      else if code = 0 then kSuccess else kTestsFailed)"

definition run_console :: "bool \<Rightarrow> parsed_command \<Rightarrow> config \<Rightarrow> console_options option" where
  "run_console color p cf =
     (if rc_console (cf_reporting cf) \<and> \<not> wantsJson p
      then Some (default_console_options\<lparr>co_color := color, co_verboseFailures := rc_verboseFailures (cf_reporting cf), co_live := \<not> wantsJson p\<rparr>)
      else None)"

text \<open>\<open>shuffle\<close> and \<open>now\<close> are the permutation and the clock of the selection, \<open>signal\<close> the flag when the run is over.\<close>

definition run_command :: "bool \<Rightarrow> (u64 \<Rightarrow> test_metadata list \<Rightarrow> test_metadata list) \<Rightarrow> u64 \<Rightarrow> cli_execution \<Rightarrow> int \<Rightarrow> parsed_command \<Rightarrow> service \<Rightarrow>
    (cli_answer \<times> service) option" where
  "run_command color shuffle now execute signal p sv =
     (let options = cli_run_of p (sv_config sv); selected = select_registry shuffle now (sv_registry sv) (cr_filter options) (cr_selection options)
      in if pc_flag ''dry-run'' False p then
           Some (prints (''Would run '' @ show_nat (length selected) @ '' test(s):'' @ newline
             @ concat (map (\<lambda>md. ''  '' @ qualifiedName md @ newline) selected)), sv)
         else if selected = [] then
           Some (refuses color (''no tests match '' @ describe (cr_filter options))
             (''run '' @ quoted ''testforge list'' @ '' to see what is registered''), sv)
         else do {
           (run, printed, sv') \<leftarrow> execute options (run_console color p (sv_config sv)) sv;
           out \<leftarrow> (if wantsJson p then map_option (\<lambda>v. cli_json (with_member ''ok'' (JBool (exitCode run = 0)) v)) (run_json run) else Some []);
           Some ((run_exit (exitCode run) signal, printed @ out, []), sv') })"

section \<open>report\<close>

text \<open>The run that is asked for, by default the newest one that is stored.\<close>

definition asked_run :: "parsed_command \<Rightarrow> string" where
  "asked_run p = (let i = pc_value ''run'' [] p in if i = [] \<and> pc_positionals p \<noteq> [] then hd (pc_positionals p) else i)"

definition newest_run :: "service_env \<Rightarrow> service \<Rightarrow> string option option" where
  "newest_run se sv =
     map_option (\<lambda>history. case json_find history ''runs'' of
         Some (JArray (v # vs)) \<Rightarrow> Some (stringAt v ''run_id'' [])
       | _ \<Rightarrow> None)
     (historyJson se 1 sv)"

definition run_or_newest :: "service_env \<Rightarrow> parsed_command \<Rightarrow> service \<Rightarrow> string option option" where
  "run_or_newest se p sv =
     (let i = asked_run p in if i = [] \<or> i = ''latest'' then newest_run se sv else Some (Some i))"

definition report_text :: "bool \<Rightarrow> ((failure_category \<times> int) list \<Rightarrow> (failure_category \<times> int) list) \<Rightarrow> int \<Rightarrow> string \<Rightarrow> test_run \<Rightarrow>
    string option option" where
  "report_text color rank now format run =
     (if format = ''console'' \<or> format = ''text'' then
        Some (console_render (default_console_options\<lparr>co_color := color, co_live := False\<rparr>) rank run)
      else if format = ''json'' then Some (json_report True run)
      else if format = ''html'' then Some (html_render default_html_options rank now run)
      else if format = ''junit'' \<or> format = ''xml'' then Some (junit_render run)
      else None)"

text \<open>The file that was written is part of the result: its path and contents. \<open>opens\<close> tells which path can be written.\<close>

definition report_output :: "bool \<Rightarrow> (string \<Rightarrow> bool) \<Rightarrow> string \<Rightarrow> string \<Rightarrow> cli_answer \<times> (string \<times> string) option" where
  "report_output color opens output t =
     (if output = [] then (prints t, None)
      else if \<not> opens output then ((kFrameworkError, [], cli_error color (''cannot write to '' @ output) []), None)
      else (prints (''Report written to '' @ output @ newline), Some (output, t)))"

definition report_document :: "bool \<Rightarrow> ((failure_category \<times> int) list \<Rightarrow> (failure_category \<times> int) list) \<Rightarrow> int \<Rightarrow> (string \<Rightarrow> bool) \<Rightarrow>
    parsed_command \<Rightarrow> json \<Rightarrow> (cli_answer \<times> (string \<times> string) option) option" where
  "report_document color rank now opens p document =
     (if \<not> json_contains document ''ok'' \<or> \<not> boolAt document ''ok'' False then
        Some (refuses color (if json_contains document ''error'' then stringAt document ''error'' ''unknown error'' else ''could not load the run'') [], None)
      else (case run_of_json document of
          None \<Rightarrow> None
        | Some run \<Rightarrow>
            (let format = toLower (pc_value ''format'' ''console'' p)
             in case report_text color rank now format run of
                  None \<Rightarrow> Some (refuses color (''unknown report format '' @ quoted format) ''supported: console, json, html, junit'', None)
                | Some rendered \<Rightarrow> map_option (report_output color opens (pc_value ''output'' [] p)) rendered)))"

definition report_command :: "bool \<Rightarrow> service_env \<Rightarrow> ((failure_category \<times> int) list \<Rightarrow> (failure_category \<times> int) list) \<Rightarrow> (string \<Rightarrow> bool) \<Rightarrow>
    parsed_command \<Rightarrow> service \<Rightarrow> (cli_answer \<times> (string \<times> string) option) option" where
  "report_command color se rank opens p sv = do {
     asked \<leftarrow> run_or_newest se p sv;
     case asked of
       None \<Rightarrow> Some (refuses color ''no stored runs to report on'' ''run some tests first: testforge run'', None)
     | Some i \<Rightarrow> Option.bind (runJson se i sv) (report_document color rank (se_now se) opens p) }"

section \<open>db\<close>

definition member_text :: "json \<Rightarrow> string option" where
  "member_text v =
     (case v of
        JString t \<Rightarrow> Some t
      | JInt n \<Rightarrow> Some (show_int (sint n))
      | JDouble d \<Rightarrow> map_option (\<lambda>n. show_int (sint n)) (f64_trunc d)
      | _ \<Rightarrow> Some (json_dump v))"

definition shown_members :: "bool \<Rightarrow> (json \<Rightarrow> string option) \<Rightarrow> json \<Rightarrow> string option" where
  "shown_members color f v =
     (case v of
        JObject ms \<Rightarrow> map_option concat (all_rows (\<lambda>(key, w). map_option (keyValue color 22 key) (f w)) ms)
      | _ \<Rightarrow> None)"

definition db_subcommand :: "parsed_command \<Rightarrow> string" where
  "db_subcommand p = (if pc_subcommand p = [] then (if pc_flag ''prune'' False p then ''prune'' else ''info'') else pc_subcommand p)"

definition database_command :: "bool \<Rightarrow> service_env \<Rightarrow> parsed_command \<Rightarrow> service \<Rightarrow> (cli_answer \<times> service) option" where
  "database_command color se p sv =
     (case sv_db sv of
        None \<Rightarrow> Some (refuses color ''no results database is open'' ''check database.path in the configuration'', sv)
      | Some db \<Rightarrow>
          if db_subcommand p = ''prune'' then
            (let days = pc_int ''days'' (dc_retentionDays (cf_database (sv_config sv))) p; (db', removed) = pruneOlderThan (se_now se) days db
             in Some (prints (''Removed '' @ show_int removed @ '' run(s) older than '' @ show_int days @ '' days.'' @ newline), sv\<lparr>sv_db := Some db'\<rparr>))
          else (let info = storage_json (dc_path (cf_database (sv_config sv))) (se_sqlite se) (se_journal se) (se_bytes se) db
             in if wantsJson p then Some (emitJson info, sv)
                else map_option (\<lambda>t. (prints (heading color ''Results database'' @ t), sv)) (shown_members color member_text info)))"

section \<open>history\<close>

definition not_ok :: "bool \<Rightarrow> json \<Rightarrow> cli_answer option" where
  "not_ok color document =
     (if boolAt document ''ok'' False then None else Some (refuses color (stringAt document ''error'' ''unknown error'') []))"

definition entry_row :: "bool \<Rightarrow> json \<Rightarrow> string list option" where
  "entry_row color entry =
     map_option (\<lambda>ms. [stringAt entry ''start_time'' [],
         case testStatusFromString (stringAt entry ''status'' []) of Some s \<Rightarrow> statusText color s | None \<Rightarrow> ''?'',
         ms @ ''ms'', stringAt entry ''failure_category'' [], String_Utils.truncate (stringAt entry ''error_message'' []) 60])
       (number_at entry ''duration_ms'')"

definition rate_text :: "bool \<Rightarrow> f64 \<Rightarrow> string" where
  "rate_text color rate =
     (let t = stream_fixed 1 rate @ ''%''
      in if f64_le f64_995 rate then green color t else if f64_le f64_90 rate then yellow color t else red color t)"

definition run_row_cells :: "bool \<Rightarrow> json \<Rightarrow> string list option" where
  "run_row_cells color run = do {
     st \<leftarrow> json_find run ''statistics'';
     amount \<leftarrow> number_at st ''total''; passed \<leftarrow> number_at st ''passed''; failed \<leftarrow> number_at st ''failed''; skipped \<leftarrow> number_at st ''skipped'';
     ms \<leftarrow> intAt run ''duration_ms'' 0;
     Some [take 8 (stringAt run ''run_id'' []), stringAt run ''started_at'' [], amount, green color passed, red color failed, skipped,
       rate_text color (doubleAt st ''success_rate'' 0), formatDuration ms, String_Utils.truncate (stringAt run ''filter'' []) 30] }"

definition history_table :: "bool \<Rightarrow> json \<Rightarrow> cli_answer option" where
  "history_table color document = do {
     runs \<leftarrow> Option.bind (json_find document ''runs'') items_of;
     if runs = [] then Some (prints (''No runs recorded yet.'' @ newline))
     else map_option (\<lambda>rows. prints (table color [''RUN'', ''STARTED'', ''TOTAL'', ''PASS'', ''FAIL'', ''SKIP'', ''RATE'', ''TIME'', ''FILTER''] rows
         [False, False, True, True, True, True, True, True, False]))
       (all_rows (run_row_cells color) runs) }"

definition test_history_table :: "bool \<Rightarrow> string \<Rightarrow> json \<Rightarrow> cli_answer option" where
  "test_history_table color test document =
     map_option (\<lambda>rows. prints (heading color (''History for '' @ test)
         @ table color [''WHEN'', ''STATUS'', ''DURATION'', ''CATEGORY'', ''MESSAGE''] rows [False, False, True, False, False]))
       (all_rows (entry_row color) (arrayAt document ''history''))"

definition shown_document :: "bool \<Rightarrow> parsed_command \<Rightarrow> (json \<Rightarrow> cli_answer option) \<Rightarrow> json \<Rightarrow> cli_answer option" where
  "shown_document color p f document =
     (if wantsJson p then Some (emitJson document)
      else case not_ok color document of Some a \<Rightarrow> Some a | None \<Rightarrow> f document)"

definition history_command :: "bool \<Rightarrow> service_env \<Rightarrow> parsed_command \<Rightarrow> service \<Rightarrow> (cli_answer \<times> service) option" where
  "history_command color se p sv =
     (if pc_flag ''prune'' False p then database_command color se p sv
      else let limit = pc_int ''limit'' 20 p; test = pc_value ''test'' [] p
           in map_option (\<lambda>a. (a, sv))
             (if test \<noteq> [] then Option.bind (testHistoryJson se test limit sv) (shown_document color p (test_history_table color test))
              else Option.bind (historyJson se limit sv) (shown_document color p (history_table color))))"

section \<open>stats\<close>

definition flaky_row :: "json \<Rightarrow> string list option" where
  "flaky_row item = do {
     runs \<leftarrow> number_at item ''total_runs''; passes \<leftarrow> number_at item ''passes''; failures \<leftarrow> number_at item ''failures'';
     Some [stringAt item ''test'' [], runs, passes, failures, stream_fixed 2 (doubleAt item ''flip_rate'' 0)] }"

definition flaky_answer :: "bool \<Rightarrow> parsed_command \<Rightarrow> json \<Rightarrow> cli_answer option" where
  "flaky_answer color p document =
     (if wantsJson p then Some (emitJson document)
      else map_option (\<lambda>body. prints (heading color ''Flaky candidates (heuristic)'' @ body
          @ newline @ dim color (stringAt document ''method'' []) @ newline))
        (case json_find document ''candidates'' of
           None \<Rightarrow> Some (''  None identified.'' @ newline)
         | Some v \<Rightarrow> do {
             items \<leftarrow> items_of v;
             if items = [] then Some (''  None identified.'' @ newline)
             else map_option (\<lambda>rows. table color [''TEST'', ''RUNS'', ''PASS'', ''FAIL'', ''FLIP RATE''] rows [False, True, True, True, True])
               (all_rows flaky_row items) }))"

definition stats_number :: "json \<Rightarrow> string \<Rightarrow> string option" where
  "stats_number document key =
     (case json_find document key of None \<Rightarrow> Some ''0'' | Some v \<Rightarrow> map_option (\<lambda>n. show_int (sint n)) (intOr v 0))"

text \<open>A table of the items under a key, if there are any.\<close>

definition stats_table :: "bool \<Rightarrow> string \<Rightarrow> string \<Rightarrow> string list \<Rightarrow> bool list \<Rightarrow> (json \<Rightarrow> string list option) \<Rightarrow> json \<Rightarrow> string option" where
  "stats_table color key title headers alignRight f document =
     (case json_find document key of
        None \<Rightarrow> Some []
      | Some v \<Rightarrow> do {
          items \<leftarrow> items_of v;
          if items = [] then Some []
          else map_option (\<lambda>rows. heading color title @ table color headers rows alignRight) (all_rows f items) })"

definition category_row :: "json \<Rightarrow> string list option" where
  "category_row entry =
     (let name = stringAt entry ''category'' []
      in map_option (\<lambda>n. [name, n, case failureCategoryFromString name of Some c \<Rightarrow> explain c | None \<Rightarrow> []]) (number_at entry ''count''))"

definition failing_row :: "json \<Rightarrow> string list option" where
  "failing_row entry = map_option (\<lambda>n. [stringAt entry ''test'' [], n]) (number_at entry ''failures'')"

definition slow_row :: "json \<Rightarrow> string list option" where
  "slow_row entry = map_option (\<lambda>ms. [stringAt entry ''test'' [], formatDuration ms]) (intAt entry ''average_duration_ms'' 0)"

definition stats_pairs :: "(string \<times> string) list" where
  "stats_pairs = [(''runs analysed'', ''runs''), (''tests executed'', ''total_tests''), (''passed'', ''passed''), (''failed'', ''failed''),
     (''skipped'', ''skipped''), (''errors'', ''errors''), (''timeouts'', ''timeouts'')]"

definition stats_answer :: "bool \<Rightarrow> json \<Rightarrow> cli_answer option" where
  "stats_answer color document = do {
     numbers \<leftarrow> all_rows (\<lambda>(label, key). map_option (keyValue color 20 label) (stats_number document key)) stats_pairs;
     ms \<leftarrow> intAt document ''average_run_duration_ms'' 0;
     categories \<leftarrow> stats_table color ''failure_categories'' ''Failure categories'' [''CATEGORY'', ''COUNT'', ''MEANING''] [False, True, False] category_row document;
     failing \<leftarrow> stats_table color ''top_failing_tests'' ''Top failing tests'' [''TEST'', ''FAILURES''] [False, True] failing_row document;
     slow \<leftarrow> stats_table color ''slowest_tests'' ''Slowest tests'' [''TEST'', ''AVG DURATION''] [False, True] slow_row document;
     Some (prints (heading color ''Aggregate statistics'' @ concat numbers
       @ keyValue color 20 ''success rate'' (stream_fixed 2 (doubleAt document ''success_rate'' 0) @ ''%'')
       @ keyValue color 20 ''avg run duration'' (formatDuration ms) @ categories @ failing @ slow)) }"

definition stats_command :: "bool \<Rightarrow> service_env \<Rightarrow> parsed_command \<Rightarrow> service \<Rightarrow> cli_answer option" where
  "stats_command color se p sv =
     (if pc_flag ''flaky'' False p then Option.bind (flakyCandidatesJson se (pc_int ''limit'' 20 p) sv) (flaky_answer color p)
      else Option.bind (statsJson se (pc_int ''runs'' 50 p) sv) (shown_document color p (stats_answer color)))"

section \<open>version\<close>

definition version_command :: "string \<Rightarrow> parsed_command \<Rightarrow> cli_answer" where
  "version_command banner p =
     (if pc_flag ''json'' False p
      then prints (cli_json (obj_of [(''ok'', JBool True), (''version'', JString version_string), (''build'', JString banner)]))
      else prints (banner @ newline))"

end
