(* ===== verification/Gpu_Providers.thy ===== *)
theory Gpu_Providers
  imports System_Info Configuration
begin

text \<open>
  The GPU providers (\<open>src/diagnostics/GpuProviders.cpp\<close>): the readers of the output of \<open>nvidia-smi\<close>, and
  the provider over it, the mock and the one that has nothing to report. What the three invocations of
  \<open>nvidia-smi\<close> gave is an observation.
\<close>

text \<open>The outcome of an external program (\<open>ProcessResult\<close>).\<close>

record process_result =
  pr_exitCode :: int
  pr_timedOut :: bool
  pr_signalled :: bool
  pr_signalNumber :: int
  pr_started :: bool
  pr_stdout :: string
  pr_stderr :: string
  pr_duration :: int
  pr_launchError :: string

definition process_ok :: "process_result \<Rightarrow> bool" where
  "process_ok r \<longleftrightarrow> pr_started r \<and> \<not> pr_timedOut r \<and> \<not> pr_signalled r \<and> pr_exitCode r = 0"

section \<open>Reading the output\<close>

definition isNotApplicable :: "string \<Rightarrow> bool" where
  "isNotApplicable t = (let trimmed = toLower (trim t)
     in trimmed = [] \<or> trimmed = ''n/a'' \<or> trimmed = ''[n/a]'' \<or> trimmed = ''[not supported]'' \<or> trimmed = ''not supported''
        \<or> trimmed = ''[unknown error]'')"

text \<open>The first run of characters of a number.\<close>

fun number_run :: "(char \<Rightarrow> bool) \<Rightarrow> string \<Rightarrow> string \<Rightarrow> string" where
  "number_run digit acc [] = acc"
| "number_run digit acc (c # t) =
     (if digit c \<or> acc = [] \<and> c = CHR ''-'' then number_run digit (acc @ [c]) t
      else if acc \<noteq> [] then acc else number_run digit acc t)"

definition parseIntField :: "string \<Rightarrow> i64" where
  "parseIntField t =
     (if isNotApplicable t then - 1
      else let digits = number_run is_digit [] t
           in if digits = [] then - 1 else (case parseInt digits of Some v \<Rightarrow> v | None \<Rightarrow> - 1))"

definition parseDoubleField :: "string \<Rightarrow> f64" where
  "parseDoubleField t =
     (if isNotApplicable t then f64_unknown
      else let number = number_run (\<lambda>c. is_digit c \<or> c = CHR ''.'') [] t
           in if number = [] then f64_unknown else (case parseDouble number of Some v \<Rightarrow> v | None \<Rightarrow> f64_unknown))"

definition field_index :: "string \<Rightarrow> int" where
  "field_index t = to_int32 (word_of_int (max 0 (sint (parseIntField t))))"

definition kQueryFieldCount :: nat where "kQueryFieldCount = 11"

definition device_of :: "string list \<Rightarrow> gpu_device" where
  "device_of row = \<lparr>gd_index = field_index (row ! 0), gd_name = trim (row ! 1), gd_uuid = trim (row ! 2),
     gd_driverVersion = trim (row ! 3), gd_cudaVersion = [], gd_memoryTotalMb = parseIntField (row ! 4),
     gd_memoryUsedMb = parseIntField (row ! 5), gd_memoryFreeMb = parseIntField (row ! 6),
     gd_utilizationPercent = parseDoubleField (row ! 7), gd_memoryUtilizationPercent = parseDoubleField (row ! 8),
     gd_temperatureCelsius = parseDoubleField (row ! 9), gd_powerDrawWatts = parseDoubleField (row ! 10), gd_processes = []\<rparr>"

text \<open>The rows with enough row.\<close>

definition csv_rows :: "nat \<Rightarrow> string \<Rightarrow> string list list" where
  "csv_rows n csv = filter (\<lambda>row. n \<le> length row)
     (map (\<lambda>t. split t CHR '','' False) (filter (\<lambda>t. t \<noteq> []) (map trim (splitLines csv))))"

definition parseQueryCsv :: "string \<Rightarrow> gpu_device list" where
  "parseQueryCsv csv = map device_of (csv_rows kQueryFieldCount csv)"

definition parseComputeAppsCsv :: "string \<Rightarrow> gpu_process list" where
  "parseComputeAppsCsv csv = map (\<lambda>row. \<lparr>gp_pid = field_index (row ! 0), gp_name = trim (row ! 1),
     gp_usedMemoryMb = parseIntField (row ! 2)\<rparr>) (csv_rows 3 csv)"

text \<open>The CUDA version, in the first line that names it.\<close>

definition cuda_version :: "string \<Rightarrow> string" where
  "cuda_version out =
     (case find (\<lambda>line. containsIgnoreCase line ''CUDA Version'') (splitLines out) of
        None \<Rightarrow> []
      | Some line \<Rightarrow> (case find_char CHR '':'' line of None \<Rightarrow> [] | Some colon \<Rightarrow> trim (drop (colon + 1) line)))"

section \<open>The providers\<close>

record nvidia_obs =
  nv_onPath :: bool
  nv_query :: process_result
  nv_version :: process_result
  nv_apps :: process_result

definition unavailable :: "gpu_snapshot \<Rightarrow> string \<Rightarrow> gpu_snapshot" where
  "unavailable s reason = s\<lparr>gs_available := False, gs_unavailableReason := reason\<rparr>"

definition attach_processes :: "gpu_process list \<Rightarrow> gpu_device list \<Rightarrow> gpu_device list" where
  "attach_processes ps ds = (case ds of [] \<Rightarrow> [] | d # rest \<Rightarrow> d\<lparr>gd_processes := ps\<rparr> # rest)"

definition nvidia_failure :: "diagnostics_config \<Rightarrow> process_result \<Rightarrow> string option" where
  "nvidia_failure dc r =
     (if \<not> pr_started r then Some (''could not launch nvidia-smi: '' @ pr_launchError r)
      else if pr_timedOut r then Some (''nvidia-smi did not respond within '' @ show_int (sint (gc_commandTimeoutMs dc))
        @ ''ms; the driver may be wedged'')
      else if pr_exitCode r \<noteq> 0 then Some (''nvidia-smi exited with code '' @ show_int (pr_exitCode r) @ '': ''
        @ String_Utils.truncate (trim (if pr_stderr r = [] then pr_stdout r else pr_stderr r)) 300)
      else None)"

definition nvidia_query :: "nvidia_obs \<Rightarrow> diagnostics_config \<Rightarrow> gpu_snapshot" where
  "nvidia_query ob dc =
     (let s = empty_gpu_snapshot\<lparr>gs_source := ''nvidia-smi''\<rparr>
      in if \<not> nv_onPath ob then
           unavailable s ''nvidia-smi was not found on PATH, so no NVIDIA driver is installed on this machine.''
         else (case nvidia_failure dc (nv_query ob) of
             Some reason \<Rightarrow> unavailable s reason
           | None \<Rightarrow>
               (let devices = parseQueryCsv (pr_stdout (nv_query ob))
                in case devices of
                     [] \<Rightarrow> unavailable s (''nvidia-smi ran successfully but reported no devices (no NVIDIA GPU is visible to ''
                       @ ''this process; under WSL or in a container the device may not be passed through)'')
                   | first # _ \<Rightarrow>
                       (let cuda = (if process_ok (nv_version ob) then cuda_version (pr_stdout (nv_version ob)) else []);
                            devices = map (\<lambda>d. d\<lparr>gd_cudaVersion := cuda\<rparr>) devices
                        in s\<lparr>gs_available := True, gs_driverVersion := gd_driverVersion first, gs_cudaVersion := cuda,
                             gs_devices := (if process_ok (nv_apps ob) then attach_processes (parseComputeAppsCsv (pr_stdout (nv_apps ob))) devices
                               else devices)\<rparr>))))"

definition f64_12 :: f64 where "f64_12 = 0x4028000000000000"
definition f64_625 :: f64 where "f64_625 = 0x4019000000000000"
definition f64_42 :: f64 where "f64_42 = 0x4045000000000000"
definition f64_555 :: f64 where "f64_555 = 0x404BC00000000000"

record mock_gpu =
  mg_deviceCount :: int
  mg_deviceName :: string
  mg_unavailableReason :: string

definition mock_device :: "mock_gpu \<Rightarrow> int \<Rightarrow> gpu_device" where
  "mock_device m i = \<lparr>gd_index = i, gd_name = mg_deviceName m @ (if 1 < mg_deviceCount m then CHR ''-'' # show_int i else []),
     gd_uuid = ''GPU-MOCK-0000-0000-0000-00000000000'' @ show_int i, gd_driverVersion = ''000.00.00-mock'', gd_cudaVersion = ''0.0-mock'',
     gd_memoryTotalMb = 16384, gd_memoryUsedMb = 1024, gd_memoryFreeMb = 15360, gd_utilizationPercent = f64_12,
     gd_memoryUtilizationPercent = f64_625, gd_temperatureCelsius = f64_42, gd_powerDrawWatts = f64_555, gd_processes = []\<rparr>"

definition setUnavailable :: "string \<Rightarrow> mock_gpu \<Rightarrow> mock_gpu" where
  "setUnavailable reason m = m\<lparr>mg_unavailableReason := reason\<rparr>"

definition mock_query :: "mock_gpu \<Rightarrow> diagnostics_config \<Rightarrow> gpu_snapshot" where
  "mock_query m dc =
     (let s = empty_gpu_snapshot\<lparr>gs_source := ''mock'', gs_isMockData := True\<rparr>
      in if mg_unavailableReason m \<noteq> [] then unavailable s (mg_unavailableReason m)
         else if mg_deviceCount m \<le> 0 then unavailable s ''mock provider configured with zero devices''
         else s\<lparr>gs_available := True, gs_driverVersion := ''000.00.00-mock'', gs_cudaVersion := ''0.0-mock'',
                gs_devices := map (mock_device m) [0 .. mg_deviceCount m - 1]\<rparr>)"

definition null_query :: "string \<Rightarrow> diagnostics_config \<Rightarrow> gpu_snapshot" where
  "null_query reason dc = unavailable (empty_gpu_snapshot\<lparr>gs_source := ''none''\<rparr>) reason"

definition createDefaultGpuProvider :: "nvidia_obs \<Rightarrow> diagnostics_config \<Rightarrow> gpu_snapshot" where
  "createDefaultGpuProvider ob =
     (if nv_onPath ob then nvidia_query ob
      else null_query ''No NVIDIA GPU detected (nvidia-smi is not installed on this machine).'')"

section \<open>The contract of a provider\<close>

locale gpu_provider =
  fixes query :: "diagnostics_config \<Rightarrow> gpu_snapshot" and mock :: bool
  assumes marked: "gs_isMockData (query dc) = mock"
    and has_devices: "gs_available (query dc) = (gs_devices (query dc) \<noteq> [])"
    and has_reason: "\<not> gs_available (query dc) \<Longrightarrow> gs_unavailableReason (query dc) \<noteq> []"
begin

lemma json_marked: "json_find (gpu_snapshot_json (query dc)) ''is_mock_data'' = Some (JBool mock)"
  by (simp add: gpu_snapshot_json_def json_find_obj_of known_text_def marked)

lemma json_reason: "\<not> gs_available (query dc) \<Longrightarrow>
    json_find (gpu_snapshot_json (query dc)) ''devices'' = Some (JArray [])
    \<and> json_find (gpu_snapshot_json (query dc)) ''unavailable_reason'' = Some (JString (gs_unavailableReason (query dc)))"
  using has_devices by (simp add: gpu_snapshot_json_def json_find_obj_of known_text_def)

lemma summary_marked: "gs_available (query dc) \<Longrightarrow> prefix ''[MOCK TEST DATA] '' (gpu_summary (query dc)) \<or> \<not> mock"
  using marked by (auto simp: gpu_summary_def)

end

interpretation nvidia: gpu_provider "nvidia_query ob" False for ob
proof
  fix dc
  show "gs_isMockData (nvidia_query ob dc) = False" "gs_available (nvidia_query ob dc) = (gs_devices (nvidia_query ob dc) \<noteq> [])"
    by (auto simp: nvidia_query_def unavailable_def empty_gpu_snapshot_def attach_processes_def Let_def split: option.splits list.splits)
  show "gs_unavailableReason (nvidia_query ob dc) \<noteq> []" if "\<not> gs_available (nvidia_query ob dc)"
    using that by (auto simp: nvidia_query_def unavailable_def empty_gpu_snapshot_def nvidia_failure_def Let_def
        split: option.splits list.splits if_splits)
qed

interpretation mock: gpu_provider "mock_query m" True for m
  by standard (auto simp: mock_query_def unavailable_def empty_gpu_snapshot_def Let_def)

interpretation default_gpu: gpu_provider "createDefaultGpuProvider ob" False for ob
proof
  fix dc
  show "gs_isMockData (createDefaultGpuProvider ob dc) = False"
    "gs_available (createDefaultGpuProvider ob dc) = (gs_devices (createDefaultGpuProvider ob dc) \<noteq> [])"
    "\<not> gs_available (createDefaultGpuProvider ob dc) \<Longrightarrow> gs_unavailableReason (createDefaultGpuProvider ob dc) \<noteq> []"
    using nvidia.marked nvidia.has_devices nvidia.has_reason
    by (auto simp: createDefaultGpuProvider_def null_query_def unavailable_def empty_gpu_snapshot_def)
qed

text \<open>
  No GPU data is invented. The default provider never reports mock data, a mock always does, in its
  JSON too; and what is not available has no devices and says why.
\<close>

theorem gpu_data_honest:
  "json_find (gpu_snapshot_json (createDefaultGpuProvider ob dc)) ''is_mock_data'' = Some (JBool False)
   \<and> json_find (gpu_snapshot_json (mock_query m dc)) ''is_mock_data'' = Some (JBool True)
   \<and> (gs_available (createDefaultGpuProvider ob dc) \<or>
       json_find (gpu_snapshot_json (createDefaultGpuProvider ob dc)) ''devices'' = Some (JArray [])
       \<and> gs_unavailableReason (createDefaultGpuProvider ob dc) \<noteq> [])
   \<and> (prefix ''[MOCK TEST DATA] '' (gpu_summary (mock_query m dc)) = gs_available (mock_query m dc))"
  using default_gpu.json_marked mock.json_marked default_gpu.json_reason default_gpu.has_reason mock.summary_marked
  by (auto simp: gpu_summary_def)

section \<open>Unknown is not zero\<close>

lemma number_run_digits: "acc \<noteq> [] \<Longrightarrow> list_all is_digit ds \<Longrightarrow> number_run is_digit acc ds = acc @ ds"
  by (induction ds arbitrary: acc) auto

lemma parseIntField_show: "parseIntField (show_int (sint v)) = v"
proof -
  have digits: "list_all is_digit (show_nat n)" for n using show_nat_digits [of n] by (simp add: list_all_iff)
  obtain c s where cs: "show_int (sint v) = c # s" by (cases "show_int (sint v)") auto
  have c: "is_digit c \<or> c = CHR ''-''" using show_int_chars [of c "sint v"] cs by simp
  have "hd (toLower (show_int (sint v))) = c"
    using c by (auto simp: cs toLower_def to_lower_char_def is_upper_def is_digit_def)
  moreover have "c \<noteq> CHR ''n''" "c \<noteq> CHR ''[''" using c by (auto simp: is_digit_def)
  ultimately have "\<not> isNotApplicable (show_int (sint v))"
    by (auto simp: isNotApplicable_def Let_def toLower_def)
  moreover have "number_run is_digit [] (show_int (sint v)) = show_int (sint v)"
  proof (cases "sint v < 0")
    case True
    then show ?thesis using number_run_digits [of "''-''" "show_nat n" for n] digits by (simp add: show_int_def)
  next
    case False
    obtain d r where d: "show_nat (nat (sint v)) = d # r" by (cases "show_nat (nat (sint v))") auto
    with digits [of "nat (sint v)"] have "is_digit d" "list_all is_digit r" by simp_all
    with number_run_digits [of "[d]" r] False show ?thesis by (simp add: show_int_def d)
  qed
  ultimately show ?thesis by (simp add: parseIntField_def parseInt_show_int Let_def)
qed

text \<open>
  A number \<open>nvidia-smi\<close> does not have stays out of the JSON of its device, and a number it prints is
  the number that is shown: absent and zero are told apart.
\<close>

theorem gpu_number_shown:
  "json_find (gpu_device_json (device_of row\<lparr>gd_memoryUsedMb := parseIntField t\<rparr>)) ''memory_used_mb'' =
     (if 0 \<le> sint (parseIntField t) then Some (JInt (parseIntField t)) else None)
   \<and> (isNotApplicable t \<longrightarrow> parseIntField t = - 1 \<and> parseDoubleField t = f64_unknown)
   \<and> parseIntField (show_int (sint v)) = v"
proof (intro conjI impI)
  show "json_find (gpu_device_json (device_of row\<lparr>gd_memoryUsedMb := parseIntField t\<rparr>)) ''memory_used_mb'' =
      (if 0 \<le> sint (parseIntField t) then Some (JInt (parseIntField t)) else None)"
    by (simp add: gpu_device_json_def json_find_obj_of map_add_def)
  show "parseIntField (show_int (sint v)) = v" by (rule parseIntField_show)
qed (simp_all add: parseIntField_def parseDoubleField_def)

theorem gpu_number_shown_witness:
  "isNotApplicable '' [N/A]'' \<and> parseIntField '' [N/A]'' = - 1 \<and> parseIntField ''90'' = 90"
proof -
  have n: "isNotApplicable '' [N/A]''" "show_nat 90 = ''90''" by code_simp+
  then have "show_int 90 = ''90''" by (simp add: show_int_def)
  with gpu_number_shown [of "'' [N/A]''" "[]" "90"] n show ?thesis by simp
qed

end
