(* ===== verification/Linux_Diagnostics.thy ===== *)
theory Linux_Diagnostics
  imports Gpu_Providers Environment
begin

text \<open>
  The machine as Linux shows it (\<open>src/diagnostics/LinuxDiagnosticProvider.cpp\<close>): the readers of \<open>/proc\<close>
  and \<open>/etc\<close>, and the snapshot built from them.

  What the system answers is an observation: the content of every file that can be opened, and the
  results of the system calls. \<open>None\<close> as a result is an operation that is undefined.
\<close>

type_synonym files = "string \<Rightarrow> string option"

section \<open>Files\<close>

definition readFile :: "files \<Rightarrow> string \<Rightarrow> nat \<Rightarrow> string option" where
  "readFile fs path maxBytes = map_option (take maxBytes) (fs path)"

text \<open>\<open>std::getline\<close> on a fresh stream fails only on an empty file.\<close>

definition stream_line :: "string \<Rightarrow> string option" where
  "stream_line content = (if content = [] then None else Some (takeWhile (\<lambda>c. c \<noteq> CHR 0x0A) content))"

definition readFirstLine :: "files \<Rightarrow> string \<Rightarrow> string option" where
  "readFirstLine fs path = (case fs path of None \<Rightarrow> None | Some content \<Rightarrow> stream_line content)"

text \<open>The digits of a text up to the first other character after one.\<close>

fun digit_run :: "string \<Rightarrow> string \<Rightarrow> string" where
  "digit_run digits [] = digits"
| "digit_run digits (c # t) =
     (if is_digit c then digit_run (digits @ [c]) t else if digits \<noteq> [] then digits else digit_run digits t)"

definition mem_value :: "string \<Rightarrow> i64" where
  "mem_value t = (let digits = digit_run [] t in if digits = [] then - 1 else (case parseInt digits of Some v \<Rightarrow> v | None \<Rightarrow> - 1))"

text \<open>The lines of the rest of a file, up to the one of the key.\<close>

definition names_key :: "string \<Rightarrow> string \<Rightarrow> bool" where
  "names_key key line \<longleftrightarrow> startsWith line key \<and> length key < length line \<and> line ! length key = CHR '':''"

function mem_loop :: "string \<Rightarrow> string \<Rightarrow> i64" where
  "mem_loop key t =
     (if t = [] then - 1
      else let line = takeWhile (\<lambda>c. c \<noteq> CHR 0x0A) t
           in if names_key key line then mem_value (drop (length key + 1) line)
              else if length line = length t then - 1
              else mem_loop key (drop (length line + 1) t))"
  by pat_completeness auto
termination by (relation "measure (\<lambda>(key, t). length t)") auto

declare mem_loop.simps [simp del]

definition parseMemInfoValue :: "string \<Rightarrow> string \<Rightarrow> i64" where
  "parseMemInfoValue content key = mem_loop key content"

section \<open>The processor\<close>

text \<open>The sums over the fields: all, and those of idle and iowait.\<close>

fun jiffies_loop :: "nat \<Rightarrow> string list \<Rightarrow> int \<Rightarrow> int \<Rightarrow> (int \<times> int) option" where
  "jiffies_loop i [] s idle = Some (s, idle)"
| "jiffies_loop i (f # fs) s idle =
     (case parseInt f of
        None \<Rightarrow> jiffies_loop (i + 1) fs s idle
      | Some v \<Rightarrow>
          (let s = s + sint v; idle = (if i = 4 \<or> i = 5 then idle + sint v else idle)
           in if in_i64 s \<and> in_i64 idle then jiffies_loop (i + 1) fs s idle else None))"

text \<open>Busy and total, if the line is one of the processor and the total is positive.\<close>

definition readCpuJiffies :: "files \<Rightarrow> (int \<times> int) option option" where
  "readCpuJiffies fs =
     (case readFirstLine fs ''/proc/stat'' of
        None \<Rightarrow> Some None
      | Some line \<Rightarrow>
          if \<not> startsWith line ''cpu '' then Some None
          else let row = split line CHR '' '' True
               in if length row < 5 then Some None
                  else (case jiffies_loop 1 (tl row) 0 0 of
                      None \<Rightarrow> None
                    | Some (s, idle) \<Rightarrow> if \<not> in_i64 (s - idle) then None else Some (if 0 < s then Some (s - idle, s) else None)))"

definition empty_cpu :: cpu_info where
  "empty_cpu = \<lparr>ci_model = [], ci_physicalCores = 0, ci_logicalCores = 0, ci_mhz = 0, ci_loadAverage1 = f64_unknown,
     ci_loadAverage5 = f64_unknown, ci_loadAverage15 = f64_unknown, ci_utilizationPercent = f64_unknown\<rparr>"

definition or_kept :: "'a \<Rightarrow> 'a option \<Rightarrow> 'a" where
  "or_kept v x = (case x of Some w \<Rightarrow> w | None \<Rightarrow> v)"

text \<open>A line of \<open>/proc/cpuinfo\<close>: the model and frequency of the first processor, the ids of the cores.\<close>

definition cpuinfo_line :: "string \<Rightarrow> cpu_info \<times> string list \<Rightarrow> cpu_info \<times> string list" where
  "cpuinfo_line line st =
     (case (st, find_char CHR '':'' line) of
        (_, None) \<Rightarrow> st
      | ((info, coreIds), Some colon) \<Rightarrow>
          (let key = trim (take colon line); v = trim (drop (colon + 1) line)
           in if ci_model info = [] \<and> (key = ''model name'' \<or> key = ''Model'') then (info\<lparr>ci_model := v\<rparr>, coreIds)
              else if f64_le (ci_mhz info) 0 \<and> key = ''cpu MHz'' then (info\<lparr>ci_mhz := or_kept (ci_mhz info) (parseDouble v)\<rparr>, coreIds)
              else if key = ''core id'' then (info, if v \<in> set coreIds then coreIds else coreIds @ [v])
              else st))"

definition read_cpuinfo :: "files \<Rightarrow> cpu_info \<Rightarrow> cpu_info" where
  "read_cpuinfo fs info =
     (case readFile fs ''/proc/cpuinfo'' 1048576 of
        None \<Rightarrow> info
      | Some content \<Rightarrow>
          (case fold cpuinfo_line (splitLines content) (info, []) of
             (info, coreIds) \<Rightarrow> if coreIds = [] then info else info\<lparr>ci_physicalCores := int (length coreIds)\<rparr>))"

definition read_loadavg :: "files \<Rightarrow> cpu_info \<Rightarrow> cpu_info" where
  "read_loadavg fs info =
     (case readFirstLine fs ''/proc/loadavg'' of
        None \<Rightarrow> info
      | Some line \<Rightarrow>
          (let row = split line CHR '' '' True
           in if length row < 3 then info
              else info\<lparr>ci_loadAverage1 := or_kept (ci_loadAverage1 info) (parseDouble (row ! 0)),
                        ci_loadAverage5 := or_kept (ci_loadAverage5 info) (parseDouble (row ! 1)),
                        ci_loadAverage15 := or_kept (ci_loadAverage15 info) (parseDouble (row ! 2))\<rparr>))"

text \<open>The utilisation between two samples.\<close>

definition utilization :: "int \<times> int \<Rightarrow> int \<times> int \<Rightarrow> f64 \<Rightarrow> f64 option" where
  "utilization first second unknown =
     (if snd second \<le> snd first then Some unknown
      else if \<not> in_i64 (fst second - fst first) \<or> \<not> in_i64 (snd second - snd first) then None
      else Some (f64_div (f64_mul f64_100 (f64_of_int (fst second - fst first))) (f64_of_int (snd second - snd first))))"

text \<open>The files a moment later are the second argument.\<close>

definition readCpuInfo :: "files \<Rightarrow> files \<Rightarrow> int \<Rightarrow> cpu_info option" where
  "readCpuInfo fs later online =
     (let info = read_loadavg fs (read_cpuinfo fs (if 0 < online then empty_cpu\<lparr>ci_logicalCores := to_int32 (word_of_int online)\<rparr> else empty_cpu))
      in case readCpuJiffies fs of
           None \<Rightarrow> None
         | Some None \<Rightarrow> Some info
         | Some (Some first) \<Rightarrow>
             (case readCpuJiffies later of
                None \<Rightarrow> None
              | Some None \<Rightarrow> Some info
              | Some (Some second) \<Rightarrow>
                  map_option (\<lambda>u. info\<lparr>ci_utilizationPercent := u\<rparr>) (utilization first second (ci_utilizationPercent info))))"

section \<open>The operating system and its memory\<close>

definition unquote :: "string \<Rightarrow> string" where
  "unquote t = (let v = trim t in if 2 \<le> length v \<and> hd v = CHR 0x22 \<and> last v = CHR 0x22 then substr v 1 (length v - 2) else v)"

definition empty_os :: os_info where
  "empty_os = \<lparr>oi_name = [], oi_distribution = [], oi_kernelVersion = [], oi_kernelBuild = [], oi_hostname = [], oi_architecture = [],
     oi_uptimeSeconds = - 1, oi_insideContainer = False, oi_containerHint = []\<rparr>"

record uts_name =
  ut_sysname :: string
  ut_release :: string
  ut_version :: string
  ut_nodename :: string
  ut_machine :: string

definition read_uname :: "uts_name option \<Rightarrow> os_info \<Rightarrow> os_info" where
  "read_uname uts info =
     (case uts of
        None \<Rightarrow> info
      | Some u \<Rightarrow> info\<lparr>oi_name := ut_sysname u, oi_kernelVersion := ut_release u, oi_kernelBuild := ut_version u,
          oi_hostname := ut_nodename u, oi_architecture := ut_machine u\<rparr>)"

definition read_release :: "files \<Rightarrow> os_info \<Rightarrow> os_info" where
  "read_release fs info =
     (case readFile fs ''/etc/os-release'' 8192 of
        None \<Rightarrow> info
      | Some release \<Rightarrow>
          (case find (\<lambda>line. startsWith line ''PRETTY_NAME='') (splitLines release) of
             None \<Rightarrow> info
           | Some line \<Rightarrow> info\<lparr>oi_distribution := unquote (drop 12 line)\<rparr>))"

definition read_uptime :: "files \<Rightarrow> os_info \<Rightarrow> os_info option" where
  "read_uptime fs info =
     (case readFirstLine fs ''/proc/uptime'' of
        None \<Rightarrow> Some info
      | Some line \<Rightarrow>
          (case split line CHR '' '' True of
             [] \<Rightarrow> Some info
           | f # _ \<Rightarrow>
               (case parseDouble f of
                  None \<Rightarrow> Some info
                | Some seconds \<Rightarrow> map_option (\<lambda>s. info\<lparr>oi_uptimeSeconds := s\<rparr>) (f64_trunc seconds))))"

definition container_hint :: "files \<Rightarrow> bool \<Rightarrow> string option" where
  "container_hint fs marked =
     (if readFile fs ''/.dockerenv'' 1 \<noteq> None then Some ''/.dockerenv exists''
      else if (case readFile fs ''/proc/1/cgroup'' 65536 of
                 Some c \<Rightarrow> contains c ''docker'' \<or> contains c ''kubepods'' \<or> contains c ''containerd'' | None \<Rightarrow> False)
      then Some ''container runtime referenced in /proc/1/cgroup''
      else if marked then Some (''the '' @ CHR 0x27 # ''container'' @ CHR 0x27 # '' environment variable is set'')
      else None)"

definition read_container :: "files \<Rightarrow> bool \<Rightarrow> os_info \<Rightarrow> os_info" where
  "read_container fs marked info =
     (let info = (case container_hint fs marked of None \<Rightarrow> info | Some hint \<Rightarrow> info\<lparr>oi_insideContainer := True, oi_containerHint := hint\<rparr>)
      in if containsIgnoreCase (oi_kernelVersion info) ''microsoft'' \<or> containsIgnoreCase (oi_kernelBuild info) ''wsl''
         then info\<lparr>oi_containerHint := oi_containerHint info @ (if oi_containerHint info = [] then [] else ''; '') @ ''running under WSL''\<rparr>
         else info)"

definition readOsInfo :: "uts_name option \<Rightarrow> files \<Rightarrow> bool \<Rightarrow> os_info option" where
  "readOsInfo uts fs marked = map_option (read_container fs marked) (read_uptime fs (read_release fs (read_uname uts empty_os)))"

definition empty_memory :: memory_info where
  "empty_memory = \<lparr>mi_totalKb = - 1, mi_availableKb = - 1, mi_freeKb = - 1, mi_buffersKb = - 1, mi_cachedKb = - 1, mi_swapTotalKb = - 1,
     mi_swapFreeKb = - 1, mi_processRssKb = - 1\<rparr>"

definition meminfo_of :: "string \<Rightarrow> memory_info \<Rightarrow> memory_info" where
  "meminfo_of content info = info
     \<lparr>mi_totalKb := parseMemInfoValue content ''MemTotal'', mi_availableKb := parseMemInfoValue content ''MemAvailable'',
      mi_freeKb := parseMemInfoValue content ''MemFree'', mi_buffersKb := parseMemInfoValue content ''Buffers'',
      mi_cachedKb := parseMemInfoValue content ''Cached'', mi_swapTotalKb := parseMemInfoValue content ''SwapTotal'',
      mi_swapFreeKb := parseMemInfoValue content ''SwapFree''\<rparr>"

definition readMemoryInfo :: "files \<Rightarrow> memory_info" where
  "readMemoryInfo fs =
     (let info = (case readFile fs ''/proc/meminfo'' 65536 of Some content \<Rightarrow> meminfo_of content empty_memory | None \<Rightarrow> empty_memory)
      in case readFile fs ''/proc/self/status'' 65536 of
           Some status \<Rightarrow> info\<lparr>mi_processRssKb := parseMemInfoValue status ''VmRSS''\<rparr>
         | None \<Rightarrow> info)"


section \<open>Disks\<close>

definition kIgnoredTypes :: "string list" where
  "kIgnoredTypes = [''proc'', ''sysfs'', ''devtmpfs'', ''devpts'', ''cgroup'', ''cgroup2'', ''securityfs'', ''tracefs'']"

definition mount_of :: "string \<Rightarrow> (string \<times> string) list" where
  "mount_of line =
     (let row = split line CHR '' '' True
      in if length row < 3 then []
         else if row ! 2 \<in> set kIgnoredTypes then []
         else if startsWith (row ! 1) ''/sys'' \<or> startsWith (row ! 1) ''/proc'' then []
         else [(row ! 0, row ! 1)])"

definition mounts_of :: "files \<Rightarrow> (string \<times> string) list" where
  "mounts_of fs =
     (let mounts = (case readFile fs ''/proc/mounts'' 262144 of Some content \<Rightarrow> concat (map mount_of (splitLines content)) | None \<Rightarrow> [])
      in if mounts = [] then [([], ''/'')] else mounts)"

text \<open>What \<open>statvfs\<close> gives, if it succeeds.\<close>

record fs_stats =
  fv_blocks :: u64
  fv_available :: u64
  fv_fragment :: u64

text \<open>A product of two \<open>std::int64_t\<close>, undefined where it overflows.\<close>

definition byte_count :: "u64 \<Rightarrow> u64 \<Rightarrow> i64 option" where
  "byte_count n fragment = (let p = sint n * sint fragment in if in_i64 p then Some (word_of_int p) else None)"

fun disks_loop :: "(string \<Rightarrow> fs_stats option) \<Rightarrow> (string \<times> string) list \<Rightarrow> disk_usage list \<Rightarrow> disk_usage list option" where
  "disks_loop statvfs [] disks = Some disks"
| "disks_loop statvfs ((device, mountPoint) # mounts) disks =
     (case statvfs mountPoint of
        None \<Rightarrow> disks_loop statvfs mounts disks
      | Some st \<Rightarrow>
          if fv_blocks st = 0 then disks_loop statvfs mounts disks
          else (case (byte_count (fv_blocks st) (fv_fragment st), byte_count (fv_available st) (fv_fragment st)) of
              (Some amount, Some available) \<Rightarrow>
                (let disks = disks @ [\<lparr>du_mountPoint = mountPoint, du_filesystem = device, du_totalBytes = amount, du_availableBytes = available\<rparr>]
                 in if 12 \<le> length disks then Some disks else disks_loop statvfs mounts disks)
            | _ \<Rightarrow> None))"

definition readDiskUsage :: "files \<Rightarrow> (string \<Rightarrow> fs_stats option) \<Rightarrow> disk_usage list option" where
  "readDiskUsage fs statvfs = disks_loop statvfs (mounts_of fs) []"

section \<open>Network\<close>

text \<open>An entry of \<open>getifaddrs\<close>; the address as text, if it is of IPv4 or IPv6.\<close>

record if_entry =
  ie_name :: "string option"
  ie_up :: bool
  ie_loopback :: bool
  ie_address :: "string option"

definition counter_of :: "files \<Rightarrow> string \<Rightarrow> string \<Rightarrow> i64" where
  "counter_of fs name counter =
     (case readFirstLine fs (''/sys/class/net/'' @ name @ ''/statistics/'' @ counter) of None \<Rightarrow> - 1 | Some t \<Rightarrow> or_kept (- 1) (parseInt t))"

definition new_interface :: "files \<Rightarrow> string \<Rightarrow> if_entry \<Rightarrow> network_interface" where
  "new_interface fs name entry = \<lparr>ni_name = name, ni_addresses = [], ni_up = ie_up entry, ni_loopback = ie_loopback entry,
     ni_rxBytes = counter_of fs name ''rx_bytes'', ni_txBytes = counter_of fs name ''tx_bytes''\<rparr>"

fun add_address :: "string \<Rightarrow> string \<Rightarrow> network_interface list \<Rightarrow> network_interface list" where
  "add_address name address [] = []"
| "add_address name address (item # items) =
     (if ni_name item = name then item\<lparr>ni_addresses := ni_addresses item @ [address]\<rparr> # items else item # add_address name address items)"

definition interface_entry :: "files \<Rightarrow> if_entry \<Rightarrow> network_interface list \<Rightarrow> network_interface list" where
  "interface_entry fs entry items =
     (case ie_name entry of
        None \<Rightarrow> items
      | Some name \<Rightarrow>
          (let items = (if name \<in> set (map ni_name items) then items else items @ [new_interface fs name entry])
           in case ie_address entry of None \<Rightarrow> items | Some address \<Rightarrow> add_address name address items))"

definition readNetworkInterfaces :: "files \<Rightarrow> if_entry list option \<Rightarrow> network_interface list" where
  "readNetworkInterfaces fs entries = (case entries of None \<Rightarrow> [] | Some es \<Rightarrow> fold (interface_entry fs) es [])"

section \<open>Processes\<close>

definition status_line :: "string \<Rightarrow> process_info \<Rightarrow> process_info" where
  "status_line line info =
     (if startsWith line ''Name:'' then info\<lparr>pi_name := trim (drop 5 line)\<rparr>
      else if startsWith line ''State:'' then info\<lparr>pi_state := trim (drop 6 line)\<rparr>
      else info)"

text \<open>The times of a process, after the name in brackets; their sum is undefined where it overflows.\<close>

definition cpu_time :: "int \<Rightarrow> string \<Rightarrow> f64 \<Rightarrow> f64 option" where
  "cpu_time ticks line unknown =
     (case rfind_char CHR '')'' line of
        None \<Rightarrow> Some unknown
      | Some closeParen \<Rightarrow>
          (let row = split (drop (closeParen + 1) line) CHR '' '' True
           in if length row < 14 then Some unknown
              else let t = sint (or_kept 0 (parseInt (row ! 11))) + sint (or_kept 0 (parseInt (row ! 12)))
                   in if in_i64 t then Some (f64_div (f64_of_int t) (f64_of_int ticks)) else None))"

text \<open>A directory of \<open>/proc\<close>; what is no process, or is gone, gives nothing.\<close>

definition process_entry :: "files \<Rightarrow> int \<Rightarrow> string \<Rightarrow> process_info list option" where
  "process_entry fs ticks name =
     (if name = [] \<or> \<not> list_all is_digit name then Some []
      else case parseInt name of
        None \<Rightarrow> Some []
      | Some pid \<Rightarrow>
          (case readFile fs (''/proc/'' @ name @ ''/status'') 32768 of
             None \<Rightarrow> Some []
           | Some status \<Rightarrow>
               (let info = fold status_line (splitLines status)
                      \<lparr>pi_pid = to_int32 pid, pi_name = [], pi_state = [], pi_rssKb = - 1, pi_cpuTimeSeconds = f64_unknown\<rparr>;
                    info = info\<lparr>pi_rssKb := parseMemInfoValue status ''VmRSS''\<rparr>
                in case readFirstLine fs (''/proc/'' @ name @ ''/stat'') of
                     Some line \<Rightarrow>
                       if 0 < ticks then map_option (\<lambda>t. [info\<lparr>pi_cpuTimeSeconds := t\<rparr>]) (cpu_time ticks line (pi_cpuTimeSeconds info))
                       else Some [info]
                   | None \<Rightarrow> Some [info])))"

fun process_entries :: "files \<Rightarrow> int \<Rightarrow> string list \<Rightarrow> process_info list option" where
  "process_entries fs ticks [] = Some []"
| "process_entries fs ticks (name # names) =
     (case (process_entry fs ticks name, process_entries fs ticks names) of (Some a, Some b) \<Rightarrow> Some (a @ b) | _ \<Rightarrow> None)"

text \<open>The largest by resident memory, as \<open>std::sort\<close> ranks them.\<close>

definition readTopProcesses :: "(process_info list \<Rightarrow> process_info list) \<Rightarrow> files \<Rightarrow> int \<Rightarrow> string list option \<Rightarrow> int \<Rightarrow> process_info list option" where
  "readTopProcesses rank fs ticks names limit =
     (case names of
        None \<Rightarrow> Some []
      | Some names \<Rightarrow>
          map_option (\<lambda>processes. (let ranked = rank processes in
              if 0 < limit \<and> nat limit < length ranked then take (nat limit) ranked else ranked))
            (process_entries fs ticks names))"

section \<open>System logs\<close>

text \<open>The tools that are there, and what they gave.\<close>

record log_obs =
  lg_journalctl :: "process_result option"
  lg_dmesg :: "process_result option"

definition last_lines :: "int \<Rightarrow> string list \<Rightarrow> string list" where
  "last_lines n xs = (if 0 < n \<and> nat n < length xs then drop (length xs - nat n) xs else xs)"

definition readRecentSystemLogs :: "log_obs \<Rightarrow> int \<Rightarrow> string list" where
  "readRecentSystemLogs ob n =
     (let useful = (\<lambda>r. process_ok r \<and> pr_stdout r \<noteq> []);
          journal_note = (\<lambda>r. if process_ok r then []
            else [''journalctl unavailable ('' @ (if pr_launchError r = [] then ''exit '' @ show_int (pr_exitCode r) else pr_launchError r)
              @ '') - this normally means the current user is not in the systemd-journal group'']);
          notes = (case lg_journalctl ob of Some r \<Rightarrow> journal_note r | None \<Rightarrow> []);
          kernel = (case lg_dmesg ob of
              None \<Rightarrow> notes
            | Some r \<Rightarrow> if useful r then notes @ last_lines n (splitLines (pr_stdout r))
                else notes @ [''dmesg unavailable (kernel.dmesg_restrict is commonly set to 1)'']);
          fallback = (if kernel = [] \<and> (case lg_dmesg ob of Some r \<Rightarrow> \<not> useful r | None \<Rightarrow> True)
            then [''no readable system log source found''] else kernel)
      in case lg_journalctl ob of
           Some r \<Rightarrow> if useful r then splitLines (pr_stdout r) else fallback
         | None \<Rightarrow> fallback)"

section \<open>The snapshot\<close>

record machine_obs =
  mo_files :: files
  mo_later :: files
  mo_uname :: "uts_name option"
  mo_online :: int
  mo_statvfs :: "string \<Rightarrow> fs_stats option"
  mo_interfaces :: "if_entry list option"
  mo_environ :: environ
  mo_pid :: int
  mo_executable :: "string option"
  mo_directory :: "string option"
  mo_processes :: "string list option"
  mo_ticks :: int
  mo_logs :: log_obs

definition unavailable_notes :: "diagnostics_config \<Rightarrow> system_snapshot \<Rightarrow> bool \<Rightarrow> string list" where
  "unavailable_notes dc v found =
     (if found then [] else [''executable path (/proc/self/exe unreadable)''])
     @ (if gc_includeProcesses dc \<and> sy_topProcesses v = [] then [''process list (/proc not enumerable)''] else [])
     @ (if sint (mi_totalKb (sy_memory v)) < 0 then [''memory statistics (/proc/meminfo unreadable)''] else [])
     @ (if ci_logicalCores (sy_cpu v) = 0 then [''CPU topology''] else [])
     @ (if sy_disks v = [] then [''filesystem usage''] else [])"

definition system_snapshot_of :: "(process_info list \<Rightarrow> process_info list) \<Rightarrow> machine_obs \<Rightarrow> diagnostics_config \<Rightarrow> system_snapshot option" where
  "system_snapshot_of rank ob dc =
     (case (readOsInfo (mo_uname ob) (mo_files ob) (env_isSet ''container'' (mo_environ ob)),
            readCpuInfo (mo_files ob) (mo_later ob) (mo_online ob), readDiskUsage (mo_files ob) (mo_statvfs ob),
            if gc_includeProcesses dc
            then readTopProcesses rank (mo_files ob) (mo_ticks ob) (mo_processes ob) (gc_topProcessCount dc) else Some []) of
        (Some os, Some cpu, Some disks, Some processes) \<Rightarrow>
          (let v = \<lparr>sy_os = os, sy_cpu = cpu, sy_memory = readMemoryInfo (mo_files ob), sy_disks = disks,
                 sy_interfaces = readNetworkInterfaces (mo_files ob) (mo_interfaces ob), sy_topProcesses = processes,
                 sy_environment = diagnosticSubset (mo_environ ob),
                 sy_executablePath = (case mo_executable ob of Some p \<Rightarrow> p | None \<Rightarrow> []),
                 sy_workingDirectory = (case mo_directory ob of Some p \<Rightarrow> p | None \<Rightarrow> []), sy_processId = mo_pid ob, sy_unavailable = []\<rparr>
           in Some (v\<lparr>sy_unavailable := unavailable_notes dc v (mo_executable ob \<noteq> None)\<rparr>))
      | _ \<Rightarrow> None)"

definition system_collect :: "(process_info list \<Rightarrow> process_info list) \<Rightarrow> machine_obs \<Rightarrow> diagnostics_config \<Rightarrow> json option" where
  "system_collect rank ob dc =
     map_option (\<lambda>v. if gc_includeSystemLogs dc
         then with_member ''system_logs'' (strings_json (readRecentSystemLogs (mo_logs ob) 40)) (snapshot_json v) else snapshot_json v)
       (system_snapshot_of rank ob dc)"

end
