(* ===== verification/Rest_Api.thy ===== *)
theory Rest_Api
  imports Service Http_Server
begin

text \<open>
  The REST API (\<open>src/api/RestApiServer.cpp\<close>): what is read from a request and within which bounds, the
  handler of every route, and the table of the routes.

  A handler takes a request and the service to an answer and the service after it. The execution of a
  run is a parameter. \<open>None\<close> is an operation that is undefined or throws.
\<close>

section \<open>Reading requests\<close>

definition query_list :: "string \<Rightarrow> server_request \<Rightarrow> string list" where
  "query_list name r = (let raw = queryParameter name [] r in if raw = [] then [] else map trim (split raw CHR '','' True))"

definition filterFromQuery :: "server_request \<Rightarrow> test_filter" where
  "filterFromQuery r = \<lparr>tf_suites = query_list ''suite'' r, tf_names = query_list ''test'' r, tf_tags = query_list ''tag'' r,
     tf_excludeTags = query_list ''exclude_tag'' r, tf_excludeSuites = query_list ''exclude_suite'' r, tf_includeDisabled = False\<rparr>"

definition body_list :: "string \<Rightarrow> json \<Rightarrow> string list" where
  "body_list key body =
     (case json_find body key of
        Some (JString t) \<Rightarrow> map trim (split t CHR '','' True)
      | Some (JArray items) \<Rightarrow> concat (map (\<lambda>item. case item of JString t \<Rightarrow> [t] | _ \<Rightarrow> []) items)
      | _ \<Rightarrow> [])"

definition filterFromBody :: "json \<Rightarrow> test_filter" where
  "filterFromBody body = \<lparr>tf_suites = body_list ''suite'' body, tf_names = body_list ''test'' body, tf_tags = body_list ''tag'' body,
     tf_excludeTags = body_list ''exclude_tag'' body, tf_excludeSuites = body_list ''exclude_suite'' body, tf_includeDisabled = False\<rparr>"

definition clamp_int :: "int \<Rightarrow> int \<Rightarrow> int \<Rightarrow> int" where
  "clamp_int v minimum maximum = (if v < minimum then minimum else if maximum < v then maximum else v)"

definition boundedInt :: "server_request \<Rightarrow> string \<Rightarrow> int \<Rightarrow> int \<Rightarrow> int \<Rightarrow> int" where
  "boundedInt r name fallback minimum maximum = clamp_int (queryParameterInt name fallback r) minimum maximum"

record rest_run =
  rn_filter :: test_filter
  rn_label :: string
  rn_workers :: int
  rn_failFast :: bool
  rn_retryFailed :: int
  rn_shuffle :: bool

text \<open>A number of the body cut to its bounds; anything else leaves the default.\<close>

definition body_int :: "string \<Rightarrow> int \<Rightarrow> int \<Rightarrow> int \<Rightarrow> json \<Rightarrow> int option" where
  "body_int key fallback minimum maximum body =
     (case json_find body key of
        Some v \<Rightarrow> if isNumber v then map_option (\<lambda>n. clamp_int n minimum maximum) (number_int32 v) else Some fallback
      | None \<Rightarrow> Some fallback)"

definition body_flag :: "string \<Rightarrow> json \<Rightarrow> bool" where
  "body_flag key body = (case json_find body key of Some v \<Rightarrow> boolOr v False | None \<Rightarrow> False)"

definition body_text :: "string \<Rightarrow> string \<Rightarrow> json \<Rightarrow> string" where
  "body_text key fallback body = (if json_find body key \<noteq> None then stringAt body key fallback else fallback)"

definition rest_run_of :: "json \<Rightarrow> rest_run option" where
  "rest_run_of body =
     (case (body_int ''workers'' 0 1 128 body, body_int ''retry_failed'' 0 0 5 body) of
        (Some workers, Some retries) \<Rightarrow> Some
          \<lparr>rn_filter = filterFromBody body, rn_label = body_text ''label'' [] body, rn_workers = workers,
           rn_failFast = body_flag ''fail_fast'' body, rn_retryFailed = retries, rn_shuffle = body_flag ''shuffle'' body\<rparr>
      | _ \<Rightarrow> None)"

text \<open>The body of a request for a run: empty, or JSON.\<close>

definition run_body :: "server_request \<Rightarrow> json option" where
  "run_body r = (if sr_body r = [] then Some (JObject []) else server_request_json r)"

section \<open>Handlers\<close>

type_synonym rest_handler = "server_request \<Rightarrow> service \<Rightarrow> (server_response \<times> service) option"

type_synonym execution = "rest_run \<Rightarrow> service \<Rightarrow> (test_run \<times> service) option"

definition answers :: "(server_request \<Rightarrow> service \<Rightarrow> json option) \<Rightarrow> rest_handler" where
  "answers f r sv = map_option (\<lambda>out. (server_json 200 out, sv)) (f r sv)"

definition says_ok :: "json \<Rightarrow> bool" where
  "says_ok out \<longleftrightarrow> json_find out ''ok'' \<noteq> None \<and> boolAt out ''ok'' False"

definition post_run :: "execution \<Rightarrow> rest_handler" where
  "post_run execute r sv =
     (if sv_running sv then Some (server_error 409 ''a run is already in progress'' ''RUN_IN_PROGRESS'', sv)
      else (case run_body r of
          None \<Rightarrow> Some (server_error 400 ''the request body is not valid JSON'' ''INVALID_JSON'', sv)
        | Some body \<Rightarrow>
            (case rest_run_of body of
               None \<Rightarrow> None
             | Some options \<Rightarrow>
                 (case execute options sv of
                    None \<Rightarrow> None
                  | Some (run, sv') \<Rightarrow>
                      map_option (\<lambda>out. (server_json 200 (with_member ''tests_passed'' (JBool (exitCode run = 0))
                          (with_member ''ok'' (JBool True) out)), sv')) (run_json run)))))"

definition get_run :: "service_env \<Rightarrow> rest_handler" where
  "get_run se r sv = map_option (\<lambda>out. (server_json (if says_ok out then 200 else 404) out, sv)) (runJson se (pathParameter ''id'' r) sv)"

definition get_history :: "service_env \<Rightarrow> server_request \<Rightarrow> service \<Rightarrow> json option" where
  "get_history se r sv =
     (let test = queryParameter ''test'' [] r; limit = boundedInt r ''limit'' 25 1 500
      in if test = [] then historyJson se limit sv else testHistoryJson se test limit sv)"

definition ai_status :: "service \<Rightarrow> json option" where
  "ai_status sv =
     map_option (\<lambda>health. obj_of [(''ok'', JBool True), (''ai'', health)])
       (case sv_ai sv of Some p \<Rightarrow> ap_health p | None \<Rightarrow> Some (obj_of [(''enabled'', JBool False)]))"

definition not_an_object :: server_response where
  "not_an_object = server_error 400 ''the request body must be a JSON object'' ''INVALID_JSON''"

definition post_generate :: rest_handler where
  "post_generate r sv =
     (case server_request_json r of
        None \<Rightarrow> Some (not_an_object, sv)
      | Some body \<Rightarrow>
          (case (if json_find body ''max_tests'' \<noteq> None then map_option to_int32 (intAt body ''max_tests'' 10) else Some 10) of
             None \<Rightarrow> None
           | Some maxTests \<Rightarrow>
               map_option (\<lambda>(sv', out). (server_json (if says_ok out then 200 else 422) out, sv'))
                 (generateTests (body_text ''requirement'' [] body) (body_text ''suite'' ''generated'' body) maxTests
                   (json_find body ''register'' \<noteq> None \<and> boolAt body ''register'' False) sv)))"

definition post_analyse :: "service_env \<Rightarrow> rest_handler" where
  "post_analyse se r sv =
     (case server_request_json r of
        None \<Rightarrow> Some (not_an_object, sv)
      | Some body \<Rightarrow>
          if body_text ''run_id'' [] body = [] then Some (server_error 400 (quoted ''run_id'' @ '' is required'') ''INVALID_REQUEST'', sv)
          else map_option (\<lambda>(sv', out). (server_json (if says_ok out then 200 else 404) out, sv'))
            (analyseFailure se (body_text ''run_id'' [] body) (body_text ''test'' [] body) sv))"

definition listed_routes :: "string list" where
  "listed_routes = [''GET /api/health'', ''GET /api/tests'', ''GET /api/suites'', ''POST /api/runs'', ''GET /api/runs'', ''GET /api/runs/{id}'',
     ''GET /api/runs/{id}/results'', ''GET /api/stats'', ''GET /api/history'', ''GET /api/flaky'', ''GET /api/diagnostics'',
     ''GET /api/diagnostics/gpu'', ''GET /api/ai/status'', ''POST /api/ai/generate-tests'', ''POST /api/ai/analyze-failure'']"

section \<open>The table of routes\<close>

definition rest_routes :: "service_env \<Rightarrow> execution \<Rightarrow> (string \<times> string \<times> rest_handler) list" where
  "rest_routes se execute =
     [(''GET'', ''/api/health'', answers (\<lambda>r sv. Some (healthJson se sv))),
      (''GET'', ''/api/tests'', answers (\<lambda>r sv. Some (listTestsJson (filterFromQuery r) sv))),
      (''GET'', ''/api/suites'', answers (\<lambda>r sv. Some (suitesJson sv))),
      (''POST'', ''/api/runs'', post_run execute),
      (''GET'', ''/api/runs'', answers (\<lambda>r. historyJson se (boundedInt r ''limit'' 25 1 500))),
      (''GET'', ''/api/runs/:id'', get_run se),
      (''GET'', ''/api/runs/:id/results'', answers (\<lambda>r. runResultsJson se (pathParameter ''id'' r))),
      (''GET'', ''/api/stats'', answers (\<lambda>r. statsJson se (boundedInt r ''runs'' 50 1 1000))),
      (''GET'', ''/api/history'', answers (get_history se)),
      (''GET'', ''/api/flaky'', answers (\<lambda>r. flakyCandidatesJson se (boundedInt r ''limit'' 20 1 200))),
      (''GET'', ''/api/diagnostics'', answers (\<lambda>r sv. Some (diagnosticsJson sv))),
      (''GET'', ''/api/diagnostics/gpu'', answers (\<lambda>r sv. Some (gpuJson sv))),
      (''GET'', ''/api/ai/status'', answers (\<lambda>r. ai_status)),
      (''POST'', ''/api/ai/generate-tests'', post_generate),
      (''POST'', ''/api/ai/analyze-failure'', post_analyse se),
      (''GET'', ''/api'', answers (\<lambda>r sv. Some (obj_of [(''service'', JString ''testforge''), (''routes'', strings_json listed_routes)])))]"

definition registerRoutes :: "service_env \<Rightarrow> execution \<Rightarrow> service \<Rightarrow> route list" where
  "registerRoutes se execute sv =
     fold (\<lambda>(meth, path, handler). add_route meth path (\<lambda>r. map_option fst (handler r sv))) (rest_routes se execute) []"

definition names_route :: "route \<Rightarrow> string \<times> string \<times> rest_handler \<Rightarrow> bool" where
  "names_route rt entry \<longleftrightarrow> toUpper (fst entry) = rt_method rt \<and> splitPath (fst (snd entry)) = rt_segments rt"

text \<open>A request on the service: the handler of the route it matches.\<close>

definition rest_call :: "service_env \<Rightarrow> execution \<Rightarrow> server_request \<Rightarrow> service \<Rightarrow> (server_response \<times> service) option" where
  "rest_call se execute r sv =
     (case match_route (registerRoutes se execute sv) (sr_method r) (sr_path r) of
        Inl _ \<Rightarrow> None
      | Inr (rt, captured) \<Rightarrow>
          (case find (names_route rt) (rest_routes se execute) of
             None \<Rightarrow> None
           | Some (_, _, handler) \<Rightarrow> handler (r\<lparr>sr_pathParameters := captured\<rparr>) sv))"

end
