(* ===== verification/Cli_Actions.thy ===== *)
theory Cli_Actions
  imports Cli_Queries Linux_Diagnostics Rest_Api
begin

text \<open>
  The commands that act (\<open>src/cli/Commands.cpp\<close>): diagnostics, the server, the uses of a language
  model, the loading of a specification, and the texts of the help.
\<close>

section \<open>diagnose\<close>

text \<open>\<open>static_cast<int>\<close> of a double, undefined out of range.\<close>

definition double_int32 :: "f64 \<Rightarrow> int option" where
  "double_int32 v = Option.bind (f64_trunc v) (\<lambda>n. if - (2 ^ 31) \<le> sint n \<and> sint n < 2 ^ 31 then Some (sint n) else None)"

text \<open>A number that is there with its unit, or a dash.\<close>

definition measured :: "json \<Rightarrow> string \<Rightarrow> string \<Rightarrow> string option" where
  "measured v key unit =
     (if json_contains v key then map_option (\<lambda>n. show_int n @ unit) (double_int32 (doubleAt v key 0)) else Some ''-'')"

definition gpu_row :: "json \<Rightarrow> string list option" where
  "gpu_row device = do {
     index \<leftarrow> number_at device ''index'';
     memory \<leftarrow> (if json_contains device ''memory_used_mb'' then do {
         used \<leftarrow> number_at device ''memory_used_mb''; amount \<leftarrow> number_at device ''memory_total_mb'';
         Some (used @ '' / '' @ amount @ '' MB'') } else Some ''-'');
     load \<leftarrow> measured device ''utilization_percent'' ''%'';
     heat \<leftarrow> measured device ''temperature_celsius'' ''C'';
     Some [index, stringAt device ''name'' ''?'', memory, load, heat] }"

definition gpu_answer :: "bool \<Rightarrow> json \<Rightarrow> cli_answer option" where
  "gpu_answer color document =
     (case json_find document ''gpu'' of
        None \<Rightarrow> Some (kFrameworkError, [], cli_error color ''GPU diagnostics are unavailable'' [])
      | Some gpu \<Rightarrow>
          map_option (\<lambda>body. (kSuccess, heading color ''GPU'' @ ''  '' @ stringAt gpu ''summary'' [] @ newline @ body,
              if json_contains gpu ''is_mock_data'' \<and> boolAt gpu ''is_mock_data'' False
              then cli_warning color ''the values below are MOCK TEST DATA, not real hardware readings'' else []))
            (if boolAt gpu ''available'' False
             then do { devices \<leftarrow> Option.bind (json_find gpu ''devices'') items_of;
                 rows \<leftarrow> all_rows gpu_row devices;
                 Some (newline @ table color [''IDX'', ''NAME'', ''MEMORY'', ''UTIL'', ''TEMP''] rows [True, False, True, True, True]) }
             else Some []))"

text \<open>A value of the document under its label; what is no text, number or truth value is not shown.\<close>

definition shown_value :: "json \<Rightarrow> string option" where
  "shown_value v =
     (case v of
        JString t \<Rightarrow> Some t
      | JInt n \<Rightarrow> Some (show_int (sint n))
      | JDouble d \<Rightarrow> Some (stream_fixed 2 d)
      | JBool b \<Rightarrow> Some (if b then ''yes'' else ''no'')
      | _ \<Rightarrow> None)"

definition show_path :: "bool \<Rightarrow> json \<Rightarrow> string \<times> string \<Rightarrow> string" where
  "show_path color document entry =
     (case Option.bind (json_path document (fst entry)) shown_value of Some t \<Rightarrow> keyValue color 22 (snd entry) t | None \<Rightarrow> [])"

definition os_paths :: "(string \<times> string) list" where
  "os_paths = [(''system.os.distribution'', ''distribution''), (''system.os.kernel_version'', ''kernel''),
     (''system.os.architecture'', ''architecture''), (''system.os.hostname'', ''hostname''), (''system.os.uptime_seconds'', ''uptime (s)''),
     (''system.os.inside_container'', ''in container''), (''system.os.container_hint'', ''container hint'')]"

definition cpu_paths :: "(string \<times> string) list" where
  "cpu_paths = [(''system.cpu.model'', ''model''), (''system.cpu.logical_cores'', ''logical cores''),
     (''system.cpu.physical_cores'', ''physical cores''), (''system.cpu.load_average_1m'', ''load (1m)''),
     (''system.cpu.utilization_percent'', ''utilization %'')]"

definition memory_paths :: "(string \<times> string) list" where
  "memory_paths = [(''system.memory.total_kb'', ''total (kB)''), (''system.memory.available_kb'', ''available (kB)''),
     (''system.memory.used_percent'', ''used %''), (''system.memory.process_rss_kb'', ''testforge rss (kB)'')]"

text \<open>A division of signed numbers, which truncates.\<close>

definition gigabytes :: "i64 \<Rightarrow> string" where
  "gigabytes n = (let g = \<bar>sint n\<bar> div 2 ^ 30 in show_int (if sint n < 0 then - g else g) @ '' GB'')"

definition disk_row :: "json \<Rightarrow> string list option" where
  "disk_row disk = do {
     amount \<leftarrow> (if json_contains disk ''total_bytes'' then intAt disk ''total_bytes'' 0 else Some 0);
     available \<leftarrow> (if json_contains disk ''available_bytes'' then intAt disk ''available_bytes'' 0 else Some 0);
     used \<leftarrow> measured disk ''used_percent'' ''%'';
     Some [stringAt disk ''mount_point'' ''?'', gigabytes amount, gigabytes available, used] }"

definition disk_table :: "bool \<Rightarrow> json \<Rightarrow> string option" where
  "disk_table color document =
     (case json_path document ''system.disks'' of
        Some (JArray (d # ds)) \<Rightarrow>
          map_option (\<lambda>rows. heading color ''Filesystems'' @ table color [''MOUNT'', ''TOTAL'', ''FREE'', ''USED''] rows [False, True, True, True])
            (all_rows disk_row (d # ds))
      | _ \<Rightarrow> Some [])"

definition network_part :: "bool \<Rightarrow> json \<Rightarrow> string" where
  "network_part color document =
     (case json_path document ''system.network_interfaces'' of
        Some (JArray items) \<Rightarrow> heading color ''Network''
          @ concat (map (\<lambda>item. if boolAt item ''up'' False
              then keyValue color 22 (stringAt item ''name'' ''?'') (join (map (\<lambda>a. stringOr a []) (arrayAt item ''addresses'')) '', '') else []) items)
      | _ \<Rightarrow> [])"

definition diagnostics_answer :: "bool \<Rightarrow> json \<Rightarrow> cli_answer option" where
  "diagnostics_answer color document =
     (case json_find document ''diagnostics'' of
        None \<Rightarrow> Some (kFrameworkError, [], cli_error color ''diagnostics are unavailable'' [])
      | Some v \<Rightarrow>
          map_option (\<lambda>disks. prints
              (heading color ''Operating system'' @ concat (map (show_path color v) os_paths)
               @ heading color ''CPU'' @ concat (map (show_path color v) cpu_paths)
               @ heading color ''Memory'' @ concat (map (show_path color v) memory_paths)
               @ disks @ network_part color v @ heading color ''GPU''
               @ (case json_path v ''gpu.summary'' of Some (JString t) \<Rightarrow> ''  '' @ t @ newline
                    | _ \<Rightarrow> ''  GPU diagnostics were not collected.'' @ newline)
               @ newline @ dim color ''Use --full or --json for the complete document.'' @ newline))
            (disk_table color v))"

definition diagnose_command :: "bool \<Rightarrow> parsed_command \<Rightarrow> service \<Rightarrow> cli_answer option" where
  "diagnose_command color p sv =
     (if pc_flag ''gpu'' False p then (if wantsJson p then Some (emitJson (gpuJson sv)) else gpu_answer color (gpuJson sv))
      else if wantsJson p \<or> pc_flag ''full'' False p then Some (emitJson (diagnosticsJson sv))
      else diagnostics_answer color (diagnosticsJson sv))"

section \<open>serve\<close>

definition serve_config :: "parsed_command \<Rightarrow> server_config \<Rightarrow> server_config" where
  "serve_config p sc = sc\<lparr>sc_host := pc_value ''host'' (sc_host sc) p, sc_port := pc_int ''port'' (sc_port sc) p,
     sc_workers := pc_int ''workers'' (sc_workers sc) p, sc_staticDirectory := pc_value ''static'' (sc_staticDirectory sc) p\<rparr>"

text \<open>
  The polls of the flag of the signals and of the server: whether a signal is there, and whether the server
  was stopped within the wait. The result tells whether it is this loop that stops the server.
\<close>

fun serve_loop :: "(bool \<times> bool) list \<Rightarrow> bool option" where
  "serve_loop [] = None"
| "serve_loop ((requested, stopped) # polls) = (if requested then Some True else if stopped then Some False else serve_loop polls)"

text \<open>What the server says when it is started: its address, unless it could not start.\<close>

definition serve_command :: "bool \<Rightarrow> (server_config \<Rightarrow> string option) \<Rightarrow> (bool \<times> bool) list \<Rightarrow> parsed_command \<Rightarrow> service \<Rightarrow> cli_answer option" where
  "serve_command color start polls p sv =
     (let sc = serve_config p (cf_server (sv_config sv))
      in case start sc of
           None \<Rightarrow> Some (kFrameworkError, [], cli_error color (''could not start the server on '' @ sc_host sc @ '':'' @ show_int (sc_port sc))
             ''the port may already be in use; try --port 0 for any free port'')
         | Some address \<Rightarrow>
             map_option (\<lambda>stops. prints (bold color ''TestForge server'' @ newline @ keyValue color 20 ''api'' (address @ ''/api'')
                 @ keyValue color 20 ''dashboard'' (address @ ''/'') @ keyValue color 20 ''static files'' (sc_staticDirectory sc)
                 @ newline @ dim color ''Press Ctrl-C to stop.'' @ newline
                 @ (if stops then newline @ dim color ''stopping'' @ newline else [])))
               (serve_loop polls))"

section \<open>ai\<close>

definition health_text :: "json \<Rightarrow> string option" where
  "health_text v = (case v of JBool b \<Rightarrow> Some (if b then ''yes'' else ''no'') | _ \<Rightarrow> member_text v)"

definition ai_status_command :: "bool \<Rightarrow> parsed_command \<Rightarrow> service \<Rightarrow> cli_answer option" where
  "ai_status_command color p sv = do {
     out \<leftarrow> ai_status sv;
     if wantsJson p then Some (emitJson out)
     else do { health \<leftarrow> json_find out ''ai''; t \<leftarrow> shown_members color health_text health; Some (prints (heading color ''AI provider'' @ t)) } }"

definition issue_line :: "json \<Rightarrow> string" where
  "issue_line issue = stringAt issue ''where'' [] @ '': '' @ stringAt issue ''message'' [] @ newline"

definition judged_issue :: "bool \<Rightarrow> json \<Rightarrow> string" where
  "judged_issue color issue =
     ''  '' @ (if boolAt issue ''fatal'' True then red color ''rejected'' else yellow color ''warn'') @ ''  '' @ issue_line issue"

text \<open>The counts of a validation, and of what was registered.\<close>

definition verdict_pairs :: "bool \<Rightarrow> json \<Rightarrow> string option" where
  "verdict_pairs color validation = do {
     accepted \<leftarrow> number_at validation ''accepted''; rejected \<leftarrow> number_at validation ''rejected'';
     Some (keyValue color 22 ''accepted'' accepted @ keyValue color 22 ''rejected'' rejected) }"

definition registered_pair :: "bool \<Rightarrow> json \<Rightarrow> string option" where
  "registered_pair color out =
     (if json_contains out ''registered'' then map_option (keyValue color 22 ''registered'') (number_at out ''registered'') else Some [])"

definition test_row :: "json \<Rightarrow> string list option" where
  "test_row test =
     map_option (\<lambda>expect. [stringAt test ''name'' [], stringAt test ''method'' [], stringAt test ''endpoint'' [], expect,
         String_Utils.truncate (stringAt test ''description'' []) 50]) (number_at test ''expected_status'')"

definition generation_head :: "bool \<Rightarrow> json \<Rightarrow> string" where
  "generation_head color out = heading color ''AI test generation'' @ keyValue color 22 ''provider'' (stringAt out ''provider'' ''?'')
     @ keyValue color 22 ''model'' (stringAt out ''model'' ''?'')"

definition generation_failed :: "bool \<Rightarrow> json \<Rightarrow> cli_answer" where
  "generation_failed color out =
     (kUsageError, generation_head color out,
      cli_error color (stringAt out ''error'' ''generation failed'') []
      @ (case json_find out ''validation'' of
           Some v \<Rightarrow> concat (map (\<lambda>issue. ''  - '' @ issue_line issue) (arrayAt v ''issues''))
         | None \<Rightarrow> []))"

definition generation_done :: "bool \<Rightarrow> bool \<Rightarrow> json \<Rightarrow> cli_answer option" where
  "generation_done color registers out = do {
     validation \<leftarrow> json_find out ''validation'';
     counts \<leftarrow> verdict_pairs color validation;
     registered \<leftarrow> registered_pair color out;
     issues \<leftarrow> (case json_find validation ''issues'' of None \<Rightarrow> Some [] | Some v \<Rightarrow> items_of v);
     rows \<leftarrow> all_rows test_row (arrayAt out ''specification.tests'');
     Some (prints (generation_head color out @ counts @ registered
       @ (if issues \<noteq> [] then heading color ''Validation issues'' @ concat (map (judged_issue color) issues) else [])
       @ heading color ''Generated tests''
       @ table color [''NAME'', ''METHOD'', ''ENDPOINT'', ''EXPECT'', ''DESCRIPTION''] rows [False, False, False, True, False]
       @ newline @ (if registers then ''Run them with: testforge run --suite '' @ stringAt out ''specification.suite'' ''generated''
         else dim color ''Add --register to make these runnable in this process.'') @ newline)) }"

definition generation_answer_of :: "bool \<Rightarrow> parsed_command \<Rightarrow> json \<Rightarrow> cli_answer option" where
  "generation_answer_of color p out =
     (if wantsJson p then Some (emitJson out)
      else if \<not> boolAt out ''ok'' False then Some (generation_failed color out)
      else generation_done color (pc_flag ''register'' False p) out)"

text \<open>The requirement: the option, the positionals, or a file, which wins. The files are given.\<close>

definition requirement_of :: "files \<Rightarrow> parsed_command \<Rightarrow> string option" where
  "requirement_of fs p =
     (let t = pc_value ''requirement'' [] p; t = (if t = [] \<and> pc_positionals p \<noteq> [] then join (pc_positionals p) '' '' else t);
          file = pc_value ''file'' [] p
      in if file = [] then Some t else fs file)"

definition generate_command :: "bool \<Rightarrow> files \<Rightarrow> parsed_command \<Rightarrow> service \<Rightarrow> (cli_answer \<times> service) option" where
  "generate_command color fs p sv =
     (case requirement_of fs p of
        None \<Rightarrow> Some ((kUsageError, [], cli_error color (''cannot read '' @ pc_value ''file'' [] p) []), sv)
      | Some requirement \<Rightarrow>
          if trim requirement = [] then
            Some (refuses color ''no requirement supplied''
              (''testforge ai generate-tests '' @ [CHR 0x22] @ ''Create tests for the users API'' @ [CHR 0x22]), sv)
          else do {
            (sv', out) \<leftarrow> generateTests requirement (pc_value ''suite'' ''generated'' p) (pc_int ''max-tests'' 10 p) (pc_flag ''register'' False p) sv;
            a \<leftarrow> generation_answer_of color p out;
            Some (a, sv') })"

definition texts_at :: "json \<Rightarrow> string \<Rightarrow> string list" where
  "texts_at v key = map (\<lambda>item. stringOr item []) (arrayAt v key)"

definition analysis_of_json :: "json \<Rightarrow> analysis_result" where
  "analysis_of_json v = no_analysis
     \<lparr>ar_ok := boolAt v ''ok'' False, ar_probableCause := stringAt v ''probable_cause'' [],
      ar_suggestedCategory := stringAt v ''suggested_category'' [], ar_confidence := doubleAt v ''confidence'' 0,
      ar_model := stringAt v ''model'' [], ar_provider := stringAt v ''provider'' [],
      ar_evidence := texts_at v ''evidence'', ar_investigation := texts_at v ''suggested_investigation''\<rparr>"

definition analysis_done :: "bool \<Rightarrow> json \<Rightarrow> cli_answer option" where
  "analysis_done color out = do {
     verdict \<leftarrow> json_find out ''verdict'';
     payload \<leftarrow> json_find out ''analysis'';
     Some (prints (heading color ''Failure analysis'' @ keyValue color 22 ''test'' (stringAt out ''test'' [])
       @ keyValue color 22 ''engine verdict'' (stringAt verdict ''status'' [] @ '' / '' @ stringAt verdict ''failure_category'' [])
       @ newline @ analysis_render (analysis_of_json payload))) }"

definition analysis_shown :: "bool \<Rightarrow> parsed_command \<Rightarrow> json \<Rightarrow> cli_answer option" where
  "analysis_shown color p out =
     (if wantsJson p then Some (emitJson out)
      else if \<not> boolAt out ''ok'' False then
        Some (refuses color (if json_contains out ''error'' then stringAt out ''error'' ''analysis failed'' else ''analysis failed'') [])
      else analysis_done color out)"

definition analyse_command :: "bool \<Rightarrow> service_env \<Rightarrow> parsed_command \<Rightarrow> service \<Rightarrow> (cli_answer \<times> service) option" where
  "analyse_command color se p sv = do {
     asked \<leftarrow> run_or_newest se p sv;
     case asked of
       None \<Rightarrow> Some (refuses color ''no stored runs to analyse'' [], sv)
     | Some i \<Rightarrow> do {
         (sv', out) \<leftarrow> analyseFailure se i (pc_value ''test'' [] p) sv;
         a \<leftarrow> analysis_shown color p out;
         Some (a, sv') } }"

definition ai_command :: "bool \<Rightarrow> service_env \<Rightarrow> files \<Rightarrow> parsed_command \<Rightarrow> service \<Rightarrow> (cli_answer \<times> service) option" where
  "ai_command color se fs p sv =
     (let sv = (if pc_flag ''mock'' False p then sv\<lparr>sv_ai := Some (mock_provider [])\<rparr> else sv);
          sub = (if pc_subcommand p = [] then ''status'' else pc_subcommand p)
      in if sub = ''status'' then map_option (\<lambda>a. (a, sv)) (ai_status_command color p sv)
         else if sub = ''generate-tests'' \<or> sub = ''generate'' then generate_command color fs p sv
         else if sub = ''analyze-failure'' \<or> sub = ''analyse-failure'' \<or> sub = ''analyze'' then analyse_command color se p sv
         else Some (refuses color (''unknown ai subcommand '' @ quoted sub) ''supported: status, generate-tests, analyze-failure'', sv))"

section \<open>spec\<close>

text \<open>The file: the option, or the first positional after an optional \<open>load\<close>.\<close>

definition spec_file :: "parsed_command \<Rightarrow> string" where
  "spec_file p =
     (let file = pc_value ''file'' [] p;
          rest = (case pc_positionals p of t # ts \<Rightarrow> if equalsIgnoreCase t ''load'' then ts else t # ts | [] \<Rightarrow> [])
      in if file = [] then (case rest of t # _ \<Rightarrow> t | [] \<Rightarrow> []) else file)"

definition spec_run_of :: "parsed_command \<Rightarrow> string \<Rightarrow> json \<Rightarrow> cli_run" where
  "spec_run_of p file out =
     \<lparr>cr_filter = all_filter\<lparr>tf_suites := [if json_contains out ''suite'' then stringAt out ''suite'' ''generated'' else ''generated'']\<rparr>,
      cr_selection = plain_selection, cr_workers = pc_int ''workers'' 0 p, cr_failFast = False, cr_retryFailed = 0,
      cr_label = ''spec:'' @ file, cr_persist = True\<rparr>"

definition spec_executed :: "parsed_command \<Rightarrow> json \<Rightarrow> test_run \<Rightarrow> string \<Rightarrow> cli_answer option" where
  "spec_executed p out run printed =
     map_option (\<lambda>t. (if exitCode run = 0 then kSuccess else kTestsFailed, printed @ t, []))
       (if wantsJson p then map_option (\<lambda>v. cli_json (with_member ''specification'' out (with_member ''ok'' (JBool True) v))) (run_json run)
        else Some [])"

definition spec_shown :: "bool \<Rightarrow> string \<Rightarrow> json \<Rightarrow> cli_answer option" where
  "spec_shown color file out = do {
     counts \<leftarrow> (case json_find out ''validation'' of
         None \<Rightarrow> Some []
       | Some v \<Rightarrow> map_option (\<lambda>t. t @ concat (map (judged_issue color) (arrayAt v ''issues''))) (verdict_pairs color v));
     registered \<leftarrow> registered_pair color out;
     (let ok = boolAt out ''ok'' False
      in Some (if ok then kSuccess else kUsageError, heading color (''Specification '' @ file) @ counts @ registered,
           if ok then [] else cli_error color
             (if json_contains out ''error'' then stringAt out ''error'' ''the specification was rejected'' else ''the specification was rejected'') [])) }"

definition spec_command :: "bool \<Rightarrow> files \<Rightarrow> cli_execution \<Rightarrow> parsed_command \<Rightarrow> service \<Rightarrow> (cli_answer \<times> service) option" where
  "spec_command color fs execute p sv =
     (let file = spec_file p; executes = pc_flag ''execute'' False p
      in if file = [] then Some (refuses color ''no specification file given'' ''testforge spec path/to/spec.json --register --execute'', sv)
         else do {
           (sv', out) \<leftarrow> loadSpecFile file (fs file) (pc_flag ''register'' False p \<or> executes) sv;
           if executes \<and> says_ok out then do {
             (run, printed, sv'') \<leftarrow> execute (spec_run_of p file out)
               (if wantsJson p then None else Some (default_console_options\<lparr>co_color := color\<rparr>)) sv';
             a \<leftarrow> spec_executed p out run printed;
             Some (a, sv'') }
           else do {
             a \<leftarrow> (if wantsJson p then Some (emitJson out) else spec_shown color file out);
             Some (a, sv') } })"

section \<open>help\<close>

definition help_run :: "string list" where
  "help_run =
    [''testforge run '' @ dash @ '' execute tests'',
     [],
     ''USAGE'',
     ''  testforge run [selection] [options]'',
     [],
     ''SELECTION'',
     ''  --suite <glob>          run tests in matching suites (repeatable)'',
     ''  --test <glob>           run tests whose name matches (repeatable)'',
     ''  --tag <name>            run tests carrying the tag (repeatable)'',
     ''  --exclude-tag <name>    skip tests carrying the tag'',
     ''  --exclude-suite <glob>  skip matching suites'',
     ''  --include-disabled      include tests marked disabled'',
     ''  --shards N --shard I    run only shard I of N (stable, by test id)'',
     ''  --shuffle [--seed N]    randomise order; the seed is reported so a'',
     ''                          failing order can be reproduced exactly'',
     [],
     ''OPTIONS'',
     ''  --workers N             parallel workers (default: CPU count)'',
     ''  --timeout MS            per-test deadline override'',
     ''  --retry-failed N        re-run transient failures up to N times'',
     ''  --fail-fast             stop scheduling after the first failure'',
     ''  --label TEXT            label the run in history'',
     ''  --no-persist            do not write to the results database'',
     ''  --no-report             do not write report files'',
     ''  --dry-run               list what would run, then exit'',
     ''  --json                  emit the run as JSON instead of a report'',
     [],
     ''EXIT CODES'',
     ''  0  every test passed'',
     ''  1  the run completed and some tests failed'',
     ''  2  bad arguments or configuration'',
     ''  3  TestForge itself failed'',
     [],
     ''EXAMPLES'',
     ''  testforge run'',
     ''  testforge run --suite smoke --workers 8'',
     ''  testforge run --tag api --tag regression --retry-failed 1'',
     ''  testforge run api.health_check'']"

definition help_ai :: "string list" where
  "help_ai =
    [''testforge ai '' @ dash @ '' AI-assisted testing (advisory only)'',
     [],
     ''USAGE'',
     ''  testforge ai status'',
     ''  testforge ai generate-tests '' @ [CHR 0x22] @ ''<requirement>'' @ [CHR 0x22] @ '' [options]'',
     ''  testforge ai analyze-failure [<run-id>] [--test NAME]'',
     [],
     ''GENERATE-TESTS'',
     ''  --requirement TEXT      the requirement, in plain language'',
     ''  --file PATH             read the requirement from a file'',
     ''  --suite NAME            suite name for the generated tests'',
     ''  --max-tests N           cap on how many to generate'',
     ''  --register              register them so they can be run'',
     ''  --mock                  use the offline deterministic provider'',
     [],
     ''ANALYZE-FAILURE'',
     ''  --run ID                which run (default: the most recent)'',
     ''  --test NAME             which test (default: the first failure)'',
     [],
     ''NOTES'',
     ''  Generated specifications are validated before anything runs: methods,'',
     ''  endpoints and headers are checked against an allow-list, and a spec that'',
     ''  fails validation is rejected rather than repaired.'',
     [],
     ''  AI analysis never changes a verdict. Pass and fail are decided by the'',
     ''  assertions in the C++ engine; the model only suggests where to look.'',
     [],
     ''  A live model needs the Python sidecar and OPENAI_API_KEY:'',
     ''    uvicorn python.ai.service:app --port 8810'']"

definition help_serve :: "string list" where
  "help_serve =
    [''testforge serve '' @ dash @ '' REST API and dashboard'',
     [],
     ''USAGE'',
     ''  testforge serve [--host H] [--port P] [--workers N] [--static DIR]'',
     [],
     ''The server binds to 127.0.0.1 by default and has no authentication.'',
     ''POST /api/runs executes registered tests, so do not expose this port to an'',
     ''untrusted network. See docs/security.md.'']"

definition help_general :: "string list" where
  "help_general =
    [''TestForge '' @ dash @ '' intelligent C++ test automation and validation'',
     [],
     ''USAGE'',
     ''  testforge <command> [options]'',
     [],
     ''COMMANDS'',
     ''  list        show registered tests'',
     ''  run         execute tests'',
     ''  report      render a report for a stored run'',
     ''  diagnose    collect system and GPU diagnostics'',
     ''  history     list previous runs, or one test'' @ [CHR 0x27] @ ''s history'',
     ''  stats       aggregate analytics across runs'',
     ''  serve       start the REST API and dashboard'',
     ''  ai          generate tests, or analyse a failure (advisory)'',
     ''  spec        load and validate a test specification file'',
     ''  db          inspect or prune the results database'',
     ''  version     print the version'',
     ''  help        show this message'',
     [],
     ''GLOBAL OPTIONS  (these follow the command: '' @ [CHR 0x60] @ ''testforge run --no-db'' @ [CHR 0x60] @ '')'',
     ''  --config PATH       configuration file (JSON)'',
     ''  --log-level LEVEL   trace | debug | info | warn | error'',
     ''  --log-file PATH     also write JSON logs to a file'',
     ''  --log-json          machine-readable logs on stderr'',
     ''  --db PATH           results database path'',
     ''  --no-db             disable persistence for this invocation'',
     ''  --no-color          disable ANSI colour (also honours NO_COLOR)'',
     ''  -h, --help          help, optionally for one command'',
     ''  -V, --version       version'',
     [],
     ''EXAMPLES'',
     ''  testforge list --suite smoke'',
     ''  testforge run --suite regression --workers 8'',
     ''  testforge run --tag api --retry-failed 1'',
     ''  testforge diagnose --gpu'',
     ''  testforge history --limit 10'',
     ''  testforge stats --flaky'',
     ''  testforge ai generate-tests '' @ [CHR 0x22] @ ''Users must have a unique email'' @ [CHR 0x22] @ '' --mock --register'',
     ''  testforge serve --port 8080'',
     [],
     ''Run '' @ [CHR 0x27] @ ''testforge help <command>'' @ [CHR 0x27] @ '' or '' @ [CHR 0x27] @ ''testforge <command> --help'' @ [CHR 0x27] @ '' for detail.'']"

definition help_lines :: "string \<Rightarrow> string list" where
  "help_lines command =
     (if command = ''run'' then help_run else if command = ''ai'' then help_ai
      else if command = ''serve'' then help_serve else help_general)"

definition help_command :: "string \<Rightarrow> cli_answer" where
  "help_command command = prints (concat (map (\<lambda>t. t @ newline) (help_lines command)))"

end
