(* ===== verification/Cli_Main.thy ===== *)
theory Cli_Main
  imports Cli_Actions
begin

text \<open>
  The entry of the program (\<open>src/cli/main.cpp\<close>): the configuration from its four sources, the set-up of
  the logging, and the dispatch of the commands with their exit codes. The files, whether the output is a
  terminal, the start of the service and what a command throws are parameters.
\<close>

section \<open>The configuration\<close>

text \<open>The file: the option, the variable, or the default file where it exists.\<close>

definition config_path :: "environ \<Rightarrow> files \<Rightarrow> parsed_command \<Rightarrow> string" where
  "config_path env fs p =
     (let path = pc_value ''config'' [] p; path = (if path = [] then env_getOr ''TESTFORGE_CONFIG'' [] env else path)
      in if path = [] \<and> fs ''config/default.json'' \<noteq> None then ''config/default.json'' else path)"

definition base_config :: "environ \<Rightarrow> files \<Rightarrow> parsed_command \<Rightarrow> (test_exception + config) option" where
  "base_config env fs p =
     (let path = config_path env fs p in if path = [] then Some (Inr default_config) else loadFromFile path (fs path))"

definition flag_level :: "parsed_command \<Rightarrow> log_level \<Rightarrow> test_exception + log_level" where
  "flag_level p level =
     (let named = pc_value ''log-level'' [] p; above = (\<lambda>l. if pc_flag ''quiet'' False p then LevelError else if pc_flag ''verbose'' False p then LevelDebug else l)
      in if named = [] then Inr (above level)
         else (case logLevelFromString named of
             Some l \<Rightarrow> Inr (above l)
           | None \<Rightarrow> Inl (ConfigurationError (''unknown log level '' @ quoted named @ '' (trace, debug, info, warn, error, off)''))))"

definition flag_logging :: "parsed_command \<Rightarrow> log_level \<Rightarrow> logging_config \<Rightarrow> logging_config" where
  "flag_logging p level lc = lc
     \<lparr>lc_level := level, lc_file := (if pc_has ''log-file'' p then pc_value ''log-file'' [] p else lc_file lc),
      lc_json := (pc_flag ''log-json'' False p \<or> lc_json lc), lc_color := (\<not> pc_flag ''no-color'' False p \<and> lc_color lc)\<rparr>"

definition flag_database :: "parsed_command \<Rightarrow> database_config \<Rightarrow> database_config" where
  "flag_database p dc =
     (let dc = (if pc_has ''db'' p then dc\<lparr>dc_path := pc_value ''db'' [] p, dc_enabled := True\<rparr> else dc)
      in if pc_flag ''no-db'' False p \<or> pc_flag ''no-persist'' False p then dc\<lparr>dc_enabled := False\<rparr> else dc)"

definition flag_reporting :: "parsed_command \<Rightarrow> reporting_config \<Rightarrow> reporting_config" where
  "flag_reporting p rc =
     (let rc = (if pc_has ''report-dir'' p then rc\<lparr>rc_outputDirectory := pc_value ''report-dir'' [] p\<rparr> else rc)
      in if pc_flag ''no-report'' False p then rc\<lparr>rc_json := False, rc_html := False, rc_junit := False\<rparr> else rc)"

text \<open>The timeout; the conversion of the number may be undefined.\<close>

definition flag_timeout :: "parsed_command \<Rightarrow> i64 \<Rightarrow> (test_exception + i64) option" where
  "flag_timeout p millis =
     (if \<not> pc_has ''timeout'' p then Some (Inr millis)
      else (case parseDurationMillis (pc_value ''timeout'' [] p) of
          None \<Rightarrow> Some (Inl (ConfigurationError (''could not parse --timeout '' @ quoted (pc_value ''timeout'' [] p) @ '' (try 30s, 1500ms, 2m)'')))
        | Some millis' \<Rightarrow> map_option Inr millis'))"

definition with_flags :: "parsed_command \<Rightarrow> log_level \<Rightarrow> i64 \<Rightarrow> config \<Rightarrow> config" where
  "with_flags p level millis c = c
     \<lparr>cf_logging := flag_logging p level (cf_logging c), cf_database := flag_database p (cf_database c),
      cf_reporting := flag_reporting p (cf_reporting c), cf_execution := (cf_execution c)\<lparr>ex_defaultTimeoutMs := millis\<rparr>\<rparr>"

definition apply_flags :: "parsed_command \<Rightarrow> config \<Rightarrow> (test_exception + config) option" where
  "apply_flags p c =
     (case flag_level p (lc_level (cf_logging c)) of
        Inl e \<Rightarrow> Some (Inl e)
      | Inr level \<Rightarrow>
          map_option (\<lambda>r. case r of
              Inl e \<Rightarrow> Inl e
            | Inr millis \<Rightarrow> (let c = with_flags p level millis c in case config_validate c of Inl e \<Rightarrow> Inl e | Inr _ \<Rightarrow> Inr c))
            (flag_timeout p (ex_defaultTimeoutMs (cf_execution c))))"

text \<open>The environment after the \<open>.env\<close> file, and the configuration.\<close>

definition buildConfig :: "environ \<Rightarrow> files \<Rightarrow> parsed_command \<Rightarrow> environ \<times> (test_exception + config) option" where
  "buildConfig env fs p =
     (let env = fst (loadDotEnv (fs ''.env'') env)
      in (env, Option.bind (base_config env fs p) (\<lambda>r. case r of
           Inl e \<Rightarrow> Some (Inl e)
         | Inr c \<Rightarrow> apply_flags p (applyEnvironmentOverrides env c))))"

section \<open>The logging\<close>

text \<open>A file sink whose file cannot be opened stays without one. The second result is whether colours are on.\<close>

definition configureLogging :: "config \<Rightarrow> bool \<Rightarrow> (string \<Rightarrow> bool) \<Rightarrow> log_manager \<Rightarrow> log_manager \<times> bool" where
  "configureLogging cf terminal opens m =
     (let lc = cf_logging cf; color = (lc_color lc \<and> terminal);
          sinks = ConsoleSink (lc_json lc) color []
            # (if lc_file lc \<noteq> [] then [FileSink (if opens (lc_file lc) then Some [] else None)] else [])
      in (snd (replaceSinks sinks (setLevel (lc_level lc) m)), color))"

section \<open>The program\<close>

text \<open>What is printed for an exception; a \<open>SecurityError\<close> is a configuration failure of its own type.\<close>

definition answer_of_exception :: "bool \<Rightarrow> bool \<Rightarrow> test_exception \<Rightarrow> cli_answer" where
  "answer_of_exception color security e =
     (case e of
        ForgeError ConfigurationFailure message \<Rightarrow>
          refuses color message (if security then ''see docs/security.md'' else ''check your config file and TESTFORGE_* variables'')
      | StdException what _ _ \<Rightarrow>
          (kFrameworkError, [], cli_error color (''unexpected failure: '' @ what) ''this is a bug in TestForge; please report it'')
      | _ \<Rightarrow> (kFrameworkError, [], cli_error color (exception_what e) []))"

text \<open>What \<open>main\<close> answers when a command ends with an exception: the text printed before it stays.\<close>

definition answer_of_thrown :: "bool \<Rightarrow> string \<times> bool \<times> test_exception option \<Rightarrow> cli_answer" where
  "answer_of_thrown color thrown =
     (case thrown of (printed, security, e) \<Rightarrow>
        case (case e of
            Some e \<Rightarrow> answer_of_exception color security e
          | None \<Rightarrow> (kFrameworkError, [],
              cli_error color ''unexpected failure of unknown type'' ''this is a bug in TestForge; please report it''))
        of (code, out, err) \<Rightarrow> (code, printed @ out, err))"

definition help_topic :: "parsed_command \<Rightarrow> string" where
  "help_topic p =
     (let topic = (if pc_command p = ''help'' then pc_subcommand p else pc_command p); topic = (if topic = ''help'' then [] else topic)
      in if topic = [] \<and> pc_positionals p \<noteq> [] then hd (pc_positionals p) else topic)"

text \<open>
  What a command is given from outside. Where a command has no answer of its own because it throws,
  \<open>ce_thrown\<close> is what it printed before and the exception, if it is a \<open>std::exception\<close>.
\<close>

record cli_env =
  ce_service :: service_env
  ce_environ :: environ
  ce_files :: files
  ce_terminal :: bool
  ce_opens :: "string \<Rightarrow> bool"
  ce_log :: log_manager
  ce_start :: "config \<Rightarrow> bool \<times> test_exception + service"
  ce_execute :: cli_execution
  ce_signal :: int
  ce_shuffle :: "u64 \<Rightarrow> test_metadata list \<Rightarrow> test_metadata list"
  ce_seed :: u64
  ce_rank :: "(failure_category \<times> int) list \<Rightarrow> (failure_category \<times> int) list"
  ce_listen :: "server_config \<Rightarrow> string option"
  ce_polls :: "(bool \<times> bool) list"
  ce_thrown :: "(string \<times> bool \<times> test_exception option) option"

definition dispatch_command :: "cli_env \<Rightarrow> bool \<Rightarrow> parsed_command \<Rightarrow> service \<Rightarrow> cli_answer option" where
  "dispatch_command ce color p sv =
     (let se = ce_service ce; fs = ce_files ce; command = pc_command p
      in if command = ''list'' then Some (list_command color p sv)
         else if command = ''run'' then map_option fst (run_command color (ce_shuffle ce) (ce_seed ce) (ce_execute ce) (ce_signal ce) p sv)
         else if command = ''report'' then map_option fst (report_command color se (ce_rank ce) (ce_opens ce) p sv)
         else if command = ''diagnose'' then diagnose_command color p sv
         else if command = ''history'' then map_option fst (history_command color se p sv)
         else if command = ''stats'' then stats_command color se p sv
         else if command = ''serve'' then serve_command color (ce_listen ce) (ce_polls ce) p sv
         else if command = ''ai'' then map_option fst (ai_command color se fs p sv)
         else if command = ''spec'' then map_option fst (spec_command color fs (ce_execute ce) p sv)
         else if command = ''db'' then map_option fst (database_command color se p sv)
         else Some (refuses color (''unknown command '' @ quoted command) (''run '' @ quoted ''testforge help'')))"

text \<open>Until the configuration is read, colours are on.\<close>

definition program :: "cli_env \<Rightarrow> string list \<Rightarrow> cli_answer option" where
  "program ce args =
     (let p = parse_args args
      in case pc_error p of
           Some message \<Rightarrow> Some (refuses True message [])
         | None \<Rightarrow>
             if pc_version p \<and> pc_command p = [] then Some (prints (se_banner (ce_service ce) @ newline))
             else if pc_help p \<or> pc_command p = ''help'' then Some (help_command (help_topic p))
             else (case snd (buildConfig (ce_environ ce) (ce_files ce) p) of
                 None \<Rightarrow> None
               | Some (Inl e) \<Rightarrow> Some (answer_of_exception True False e)
               | Some (Inr cf) \<Rightarrow>
                   (let color = snd (configureLogging cf (ce_terminal ce) (ce_opens ce) (ce_log ce))
                    in if pc_command p = ''version'' then Some (version_command (se_banner (ce_service ce)) p)
                       else (case ce_start ce cf of
                           Inl (security, e) \<Rightarrow> Some (answer_of_exception color security e)
                         | Inr sv \<Rightarrow>
                             (case dispatch_command ce color p sv of
                                Some answer \<Rightarrow> Some answer
                              | None \<Rightarrow> map_option (answer_of_thrown color) (ce_thrown ce))))))"

end
