(* ===== verification/Cli_Facts.thy ===== *)
theory Cli_Facts
  imports Cli_Main
begin

text \<open>
  What a caller of the program may rely on: the exit codes, what they say of a run, and which source of
  the configuration wins.
\<close>

section \<open>Exit codes\<close>

named_theorems plain_codes

definition plain_code :: "cli_answer \<Rightarrow> bool" where
  "plain_code a \<longleftrightarrow> fst a \<in> {kSuccess, kTestsFailed, kUsageError, kFrameworkError}"

lemma plain_code_simps [simp]:
  "plain_code (prints t)" "plain_code (refuses color m h)" "plain_code (kUsageError, t, u)" "plain_code (kFrameworkError, t, u)"
  "plain_code (kSuccess, t, u)" "plain_code (kTestsFailed, t, u)"
  by (simp_all add: plain_code_def prints_def refuses_def)

lemma plain_emitJson [simp]: "plain_code (emitJson v)"
  by (auto simp: emitJson_def plain_code_def split: option.splits)

lemma plain_answers:
  "emitJson v = a \<Longrightarrow> plain_code a" "prints t = a \<Longrightarrow> plain_code a" "refuses color m h = a \<Longrightarrow> plain_code a"
  by (metis plain_emitJson, (metis plain_code_simps(1,2))+)

lemma plain_help [simp]: "plain_code (help_command t)"
  unfolding help_command_def by (rule plain_code_simps(1))

lemma plain_not_ok [plain_codes]: "not_ok color document = Some a \<Longrightarrow> plain_code a"
  by (auto simp: not_ok_def split: if_splits)

lemma plain_shown [plain_codes]:
  "shown_document color p f document = Some a \<Longrightarrow> (\<And>b. f document = Some b \<Longrightarrow> plain_code b) \<Longrightarrow> plain_code a"
  by (auto simp: shown_document_def dest: plain_not_ok split: if_splits option.splits)

lemma plain_list: "plain_code (list_command color p sv)"
  by (simp add: list_command_def Let_def)

lemma plain_report_document: "report_document color rank now opens p document = Some r \<Longrightarrow> plain_code (fst r)"
  by (auto simp: report_document_def report_output_def Let_def split: option.splits if_splits)

lemma plain_report: "report_command color se rank opens p sv = Some r \<Longrightarrow> plain_code (fst r)"
  by (auto simp: report_command_def bind_eq_Some_conv dest: plain_report_document split: option.splits)

lemma plain_diagnostics [plain_codes]:
  "gpu_answer color document = Some a \<Longrightarrow> plain_code a" "diagnostics_answer color document = Some a \<Longrightarrow> plain_code a"
  by (auto simp: gpu_answer_def diagnostics_answer_def split: option.splits if_splits)

lemma plain_diagnose: "diagnose_command color p sv = Some a \<Longrightarrow> plain_code a"
  by (auto simp: diagnose_command_def dest: plain_diagnostics split: if_splits)

lemma plain_database: "database_command color se p sv = Some r \<Longrightarrow> plain_code (fst r)"
  by (auto simp: database_command_def Let_def split: option.splits if_splits prod.splits)

lemma plain_tables [plain_codes]:
  "test_history_table color t document = Some a \<Longrightarrow> plain_code a" "history_table color document = Some a \<Longrightarrow> plain_code a"
  "stats_answer color document = Some a \<Longrightarrow> plain_code a" "flaky_answer color p document = Some a \<Longrightarrow> plain_code a"
  by (auto simp: test_history_table_def history_table_def stats_answer_def flaky_answer_def bind_eq_Some_conv split: option.splits if_splits)

lemma plain_history: "history_command color se p sv = Some r \<Longrightarrow> plain_code (fst r)"
  by (auto simp: history_command_def Let_def bind_eq_Some_conv dest: plain_database intro: plain_shown plain_tables split: if_splits)

lemma plain_stats: "stats_command color se p sv = Some a \<Longrightarrow> plain_code a"
  by (auto simp: stats_command_def bind_eq_Some_conv dest: plain_tables intro: plain_shown split: if_splits)

lemma plain_serve: "serve_command color start polls p sv = Some a \<Longrightarrow> plain_code a"
  by (auto simp: serve_command_def Let_def split: option.splits)

lemma plain_generation_failed [simp]: "plain_code (generation_failed color out)"
  by (simp add: generation_failed_def)

lemma plain_generation [plain_codes]:
  "generation_done color registers out = Some a \<Longrightarrow> plain_code a"
  by (auto simp: generation_done_def bind_eq_Some_conv)

lemma plain_action_answers [plain_codes]:
  "generation_answer_of color p out = Some a \<Longrightarrow> plain_code a" "analysis_shown color p out = Some a \<Longrightarrow> plain_code a"
  by (auto simp: generation_answer_of_def analysis_shown_def analysis_done_def bind_eq_Some_conv dest: plain_generation split: if_splits)

lemma plain_generate: "generate_command color fs p sv = Some r \<Longrightarrow> plain_code (fst r)"
  by (auto simp: generate_command_def bind_eq_Some_conv dest: plain_action_answers split: option.splits if_splits)

lemma plain_analyse: "analyse_command color se p sv = Some r \<Longrightarrow> plain_code (fst r)"
  using plain_action_answers(2) by (fastforce simp: analyse_command_def bind_eq_Some_conv split: option.splits)

lemma plain_ai_status: "ai_status_command color p sv = Some a \<Longrightarrow> plain_code a"
  by (auto simp: ai_status_command_def bind_eq_Some_conv dest: plain_answers split: if_splits)

lemma plain_ai: "ai_command color se fs p sv = Some r \<Longrightarrow> plain_code (fst r)"
  using plain_ai_status
  by (fastforce simp: ai_command_def Let_def dest: plain_generate plain_analyse split: if_splits)

lemma plain_spec_answer [plain_codes]:
  "spec_executed p out run printed = Some a \<Longrightarrow> plain_code a" "spec_shown color file out = Some a \<Longrightarrow> plain_code a"
  by (auto simp: spec_executed_def spec_shown_def Let_def bind_eq_Some_conv split: if_splits)

lemma plain_spec: "spec_command color fs execute p sv = Some r \<Longrightarrow> plain_code (fst r)"
  by (auto simp: spec_command_def Let_def bind_eq_Some_conv dest: plain_answers plain_spec_answer split: option.splits if_splits)

lemma plain_version [simp]: "plain_code (version_command banner p)"
  by (simp add: version_command_def)

lemma plain_exception [simp]: "plain_code (answer_of_exception color security e)"
  by (auto simp: answer_of_exception_def split: test_exception.splits failure_category.splits)

lemma plain_thrown [simp]: "plain_code (answer_of_thrown color thrown)"
proof -
  have "plain_code (case answer of (code, out, err) \<Rightarrow> (code, printed @ out, err)) = plain_code answer" for answer printed
    by (cases answer) (simp add: plain_code_def)
  then show ?thesis by (cases thrown) (auto simp: answer_of_thrown_def split: option.split)
qed

text \<open>The code of a run, for its results and the signal.\<close>

lemma run_command_code:
  assumes "run_command color shuffle now execute signal p sv = Some ((code, out, err), sv')"
  shows "plain_code (code, out, err) \<or> signal \<noteq> 0 \<and> code = 128 + signal"
  using assms by (auto simp: run_command_def run_exit_def Let_def bind_eq_Some_conv prints_def refuses_def plain_code_def split: if_splits)

lemmas plain_pairs =
  plain_report [where r = "((c, t, u), x)" for c t u x, unfolded fst_conv] plain_history [where r = "((c, t, u), x)" for c t u x, unfolded fst_conv]
  plain_ai [where r = "((c, t, u), x)" for c t u x, unfolded fst_conv] plain_spec [where r = "((c, t, u), x)" for c t u x, unfolded fst_conv]
  plain_database [where r = "((c, t, u), x)" for c t u x, unfolded fst_conv]

lemma plain_list_eq: "list_command color p sv = a \<Longrightarrow> plain_code a"
  using plain_list by auto

lemmas plain_single = plain_diagnose plain_stats plain_serve plain_list_eq

lemma dispatch_code:
  assumes "dispatch_command ce color p sv = Some (code, out, err)"
  shows "plain_code (code, out, err) \<or> pc_command p = ''run'' \<and> ce_signal ce \<noteq> 0 \<and> code = 128 + ce_signal ce"
proof (cases "pc_command p = ''run''")
  case True
  with assms obtain sv' where "run_command color (ce_shuffle ce) (ce_seed ce) (ce_execute ce) (ce_signal ce) p sv = Some ((code, out, err), sv')"
    by (auto simp: dispatch_command_def)
  from run_command_code [OF this] True show ?thesis by simp
next
  case False
  with assms have "plain_code (code, out, err)"
    by (auto simp: dispatch_command_def Let_def dest: plain_pairs plain_single plain_answers(3) split: if_splits)
  then show ?thesis by simp
qed

lemma plain_others: "answer_of_exception color security e = a \<Longrightarrow> plain_code a" "version_command banner p = a \<Longrightarrow> plain_code a"
  "help_command t = a \<Longrightarrow> plain_code a" "answer_of_thrown color thrown = a \<Longrightarrow> plain_code a"
  using plain_exception plain_version plain_help plain_thrown by auto

text \<open>An answer is a plain one, or comes from a command that was given a configuration.\<close>

lemma program_answer:
  assumes "program ce args = Some a"
  shows "plain_code a \<or> (\<exists>cf sv. snd (buildConfig (ce_environ ce) (ce_files ce) (parse_args args)) = Some (Inr cf) \<and> ce_start ce cf = Inr sv
    \<and> dispatch_command ce (snd (configureLogging cf (ce_terminal ce) (ce_opens ce) (ce_log ce))) (parse_args args) sv = Some a)"
proof (cases "pc_error (parse_args args) \<noteq> None \<or> pc_version (parse_args args) \<and> pc_command (parse_args args) = []
    \<or> pc_help (parse_args args) \<or> pc_command (parse_args args) = ''help''")
  case True
  with assms have "plain_code a"
    by (auto simp: program_def Let_def dest: plain_answers plain_others split: option.splits if_splits)
  then show ?thesis ..
next
  case False
  then have p: "program ce args = (case snd (buildConfig (ce_environ ce) (ce_files ce) (parse_args args)) of
      None \<Rightarrow> None
    | Some (Inl e) \<Rightarrow> Some (answer_of_exception True False e)
    | Some (Inr cf) \<Rightarrow>
        (let color = snd (configureLogging cf (ce_terminal ce) (ce_opens ce) (ce_log ce))
         in if pc_command (parse_args args) = ''version'' then Some (version_command (se_banner (ce_service ce)) (parse_args args))
            else (case ce_start ce cf of
                Inl (security, e) \<Rightarrow> Some (answer_of_exception color security e)
              | Inr sv \<Rightarrow> (case dispatch_command ce color (parse_args args) sv of
                  Some answer \<Rightarrow> Some answer
                | None \<Rightarrow> map_option (answer_of_thrown color) (ce_thrown ce)))))"
    by (auto simp: program_def Let_def)
  then show ?thesis
    using assms by (auto simp: Let_def dest: plain_others split: option.splits sum.splits if_splits)
qed

text \<open>
  C37. The exit code of the program is one of the four that are documented, whatever the arguments; only a run
  that was interrupted by a signal ends with 128 and the number of the signal.
\<close>

theorem exit_codes:
  assumes "program ce args = Some (code, out, err)"
  shows "code \<in> {kSuccess, kTestsFailed, kUsageError, kFrameworkError}
    \<or> pc_command (parse_args args) = ''run'' \<and> ce_signal ce \<noteq> 0 \<and> code = 128 + ce_signal ce"
  using program_answer [OF assms] dispatch_code by (fastforce simp: plain_code_def)

lemma unknown_command_refused: "pc_error (parse_args [''frobnicate'']) \<noteq> None" "pc_command (parse_args [''frobnicate'']) \<noteq> ''run''"
  by code_simp+

theorem exit_codes_witness:
  "\<forall>ce. \<exists>code out err. program ce [''frobnicate''] = Some (code, out, err) \<and> code \<in> {kSuccess, kTestsFailed, kUsageError, kFrameworkError}"
proof
  fix ce
  obtain message where "pc_error (parse_args [''frobnicate'']) = Some message" using unknown_command_refused(1) by blast
  then have p: "program ce [''frobnicate''] = Some (kUsageError, [], cli_error True message [])"
    by (simp add: program_def Let_def refuses_def)
  from exit_codes [OF this] unknown_command_refused(2) p
  show "\<exists>code out err. program ce [''frobnicate''] = Some (code, out, err) \<and> code \<in> {kSuccess, kTestsFailed, kUsageError, kFrameworkError}"
    by blast
qed

section \<open>What the exit code says of a run\<close>

lemma exitCode_zero:
  "exitCode run = 0 \<longleftrightarrow> (\<forall>r \<in> set (run_results run). \<not> isFailure (r_status r) \<and> r_category r \<noteq> FrameworkFailure) \<and> \<not> wasCancelled run"
  by (auto simp: exitCode_def list_ex_iff)

lemma exitCode_two: "exitCode run = 2 \<longleftrightarrow> (\<exists>r \<in> set (run_results run). r_category r = FrameworkFailure)"
  by (auto simp: exitCode_def list_ex_iff)

lemma run_exit_exact:
  assumes "0 \<le> signal"
  shows "run_exit code signal = kSuccess \<longleftrightarrow> code = 0" "run_exit code signal = kFrameworkError \<longleftrightarrow> code = 2"
  using assms by (auto simp: run_exit_def kSuccess_def kTestsFailed_def kFrameworkError_def)

text \<open>
  C9. The exit code of a run says what happened. It is 0 exactly when the tests ran, every result passed or was
  skipped, and nothing was cancelled; it is 3 exactly when a result is a fault of the framework; and when
  no test was selected nothing is run and it is 2. A JSON report agrees with it.
\<close>

theorem run_exit_truthful:
  assumes "run_command color shuffle now execute signal p sv = Some ((code, out, err), sv')" "\<not> pc_flag ''dry-run'' False p" "0 \<le> signal"
    "options = cli_run_of p (sv_config sv)" "selected = select_registry shuffle now (sv_registry sv) (cr_filter options) (cr_selection options)"
  shows "(if selected = [] then code = kUsageError \<and> sv' = sv
    else \<exists>run printed. execute options (run_console color p (sv_config sv)) sv = Some (run, printed, sv')
      \<and> (code = kSuccess) = ((\<forall>r \<in> set (run_results run). r_status r \<in> {Passed, Skipped} \<and> r_category r \<noteq> FrameworkFailure) \<and> \<not> wasCancelled run)
      \<and> (code = kFrameworkError) = (\<exists>r \<in> set (run_results run). r_category r = FrameworkFailure)
      \<and> (wantsJson p \<longrightarrow> (\<exists>v. run_json run = Some v \<and> out = printed @ cli_json (with_member ''ok'' (JBool (code = kSuccess)) v))))"
proof (cases "selected = []")
  case True
  with assms show ?thesis by (auto simp: run_command_def refuses_def Let_def)
next
  case False
  with assms obtain run printed t where run: "execute options (run_console color p (sv_config sv)) sv = Some (run, printed, sv')"
    and t: "(if wantsJson p then map_option (\<lambda>v. cli_json (with_member ''ok'' (JBool (exitCode run = 0)) v)) (run_json run) else Some []) = Some t"
    and code: "code = run_exit (exitCode run) signal" and out: "out = printed @ t"
    by (auto simp: run_command_def Let_def bind_eq_Some_conv)
  have status: "\<not> isFailure s \<longleftrightarrow> s \<in> {Passed, Skipped}" for s by (cases s) (simp_all add: isFailure_def)
  have zero: "code = kSuccess \<longleftrightarrow> exitCode run = 0" and two: "code = kFrameworkError \<longleftrightarrow> exitCode run = 2"
    unfolding code by (rule run_exit_exact [OF assms(3)])+
  have "wantsJson p \<longrightarrow> (\<exists>v. run_json run = Some v \<and> out = printed @ cli_json (with_member ''ok'' (JBool (code = kSuccess)) v))"
    using t out zero by (auto split: if_splits)
  with False run show ?thesis unfolding zero two exitCode_zero exitCode_two status by auto
qed

text \<open>A service with one test, and a run in which it fails.\<close>

definition one_test_service :: service where
  "one_test_service = \<lparr>sv_config = default_config, sv_registry = registerOrReplace [] (sample_metadata ''api'' ''h'') None, sv_db = None,
     sv_ai = None, sv_diagnostics = None, sv_gpu = JNull, sv_running = False\<rparr>"

definition failing_run :: test_run where
  "failing_run = sample_run\<lparr>run_results := [make_result 0 ''api'' ''h'' Failed]\<rparr>"

lemma one_test_selected:
  "select_registry (\<lambda>_ xs. xs) 0 (sv_registry one_test_service) (cr_filter (cli_run_of (parse_args [''run'']) default_config))
     (cr_selection (cli_run_of (parse_args [''run'']) default_config)) \<noteq> []"
  "\<not> pc_flag ''dry-run'' False (parse_args [''run''])" "\<not> wantsJson (parse_args [''run''])"
  by code_simp+

theorem run_exit_truthful_witness:
  "\<exists>code out err sv'. run_command False (\<lambda>_ xs. xs) 0 (\<lambda>_ _ sv. Some (failing_run, [], sv)) 0 (parse_args [''run'']) one_test_service
     = Some ((code, out, err), sv') \<and> code \<noteq> kSuccess"
proof -
  have cf: "sv_config one_test_service = default_config" by (simp add: one_test_service_def)
  obtain code out err sv' where r: "run_command False (\<lambda>_ xs. xs) 0 (\<lambda>_ _ sv. Some (failing_run, [], sv)) 0 (parse_args [''run'']) one_test_service
     = Some ((code, out, err), sv')"
    using one_test_selected by (auto simp: run_command_def cf Let_def)
  from run_exit_truthful [OF r one_test_selected(2) _ refl refl] one_test_selected(1) have "code \<noteq> kSuccess"
    by (auto simp: cf failing_run_def make_result_def)
  with r show ?thesis by blast
qed

section \<open>Where a setting comes from\<close>

text \<open>The flag, the environment, the \<open>.env\<close> file, and what is left.\<close>

definition setting :: "string \<Rightarrow> string \<Rightarrow> environ \<Rightarrow> files \<Rightarrow> parsed_command \<Rightarrow> string \<Rightarrow> string" where
  "setting flag variable env fs p fallback =
     (if pc_has flag p then pc_value flag [] p
      else (case env_get variable env of
          Some v \<Rightarrow> v
        | None \<Rightarrow> (case Option.bind (fs ''.env'') (\<lambda>t. map_of (assignments (getlines t)) variable) of Some v \<Rightarrow> v | None \<Rightarrow> fallback)))"

lemma loaded_variable:
  assumes "name \<noteq> []" "CHR ''='' \<notin> set name" "c_str name = name"
  shows "env_getOr name fallback (fst (loadDotEnv dotenv env)) =
    (case env_get name env of Some v \<Rightarrow> v
     | None \<Rightarrow> (case Option.bind dotenv (\<lambda>t. map_of (assignments (getlines t)) name) of Some v \<Rightarrow> v | None \<Rightarrow> fallback))"
proof (cases dotenv)
  case (Some t)
  have "getenv name (fst (dotenv_loop (getlines t) env 0)) =
    (case getenv name env of Some v \<Rightarrow> Some v | None \<Rightarrow> map_of (assignments (getlines t)) name)"
    by (rule dotenv_loop_get [OF assms(1,2)])
  with Some assms(3) show ?thesis
    by (cases "dotenv_loop (getlines t) env 0") (simp add: env_getOr_def env_get_def loadDotEnv_def split: option.splits)
qed (simp add: env_getOr_def loadDotEnv_def split: option.splits)

lemma setting_names:
  "CHR ''='' \<notin> set ''TESTFORGE_DB_PATH''" "c_str ''TESTFORGE_DB_PATH'' = ''TESTFORGE_DB_PATH''"
  "CHR ''='' \<notin> set ''TESTFORGE_REPORT_DIR''" "c_str ''TESTFORGE_REPORT_DIR'' = ''TESTFORGE_REPORT_DIR''"
  "CHR ''='' \<notin> set ''TESTFORGE_LOG_FILE''" "c_str ''TESTFORGE_LOG_FILE'' = ''TESTFORGE_LOG_FILE''"
  by code_simp+

lemma apply_flags_exact:
  assumes "apply_flags p c = Some (Inr cf)"
  obtains level millis where "flag_level p (lc_level (cf_logging c)) = Inr level"
    "flag_timeout p (ex_defaultTimeoutMs (cf_execution c)) = Some (Inr millis)" "cf = with_flags p level millis c" "config_problems cf = []"
proof -
  from assms obtain level where level: "flag_level p (lc_level (cf_logging c)) = Inr level" by (auto simp: apply_flags_def split: sum.splits)
  with assms obtain r where r: "flag_timeout p (ex_defaultTimeoutMs (cf_execution c)) = Some r" by (auto simp: apply_flags_def)
  with assms level obtain millis where m: "r = Inr millis" by (cases r) (auto simp: apply_flags_def)
  with assms level r have "cf = with_flags p level millis c" "config_problems cf = []"
    by (auto simp: apply_flags_def config_validate_def Let_def split: if_splits)
  with that level r m show ?thesis by simp
qed

lemma flag_settings:
  "dc_path (flag_database p dc) = (if pc_has ''db'' p then pc_value ''db'' [] p else dc_path dc)"
  "rc_outputDirectory (flag_reporting p rc) = (if pc_has ''report-dir'' p then pc_value ''report-dir'' [] p else rc_outputDirectory rc)"
  "lc_file (flag_logging p level lc) = (if pc_has ''log-file'' p then pc_value ''log-file'' [] p else lc_file lc)"
  "dc_enabled (flag_database p dc) \<longleftrightarrow> \<not> pc_flag ''no-db'' False p \<and> \<not> pc_flag ''no-persist'' False p \<and> (pc_has ''db'' p \<or> dc_enabled dc)"
  by (auto simp: flag_database_def flag_reporting_def flag_logging_def Let_def)

lemma flag_level_exact:
  assumes "flag_level p before = Inr level"
  shows "level = (if pc_flag ''quiet'' False p then LevelError else if pc_flag ''verbose'' False p then LevelDebug
     else if pc_value ''log-level'' [] p \<noteq> [] then the (logLevelFromString (pc_value ''log-level'' [] p)) else before)"
  using assms by (auto simp: flag_level_def Let_def split: if_splits option.splits)

lemma flag_timeout_exact:
  assumes "flag_timeout p before = Some (Inr millis)"
  shows "if pc_has ''timeout'' p then parseDurationMillis (pc_value ''timeout'' [] p) = Some (Some millis) else millis = before"
  using assms by (auto simp: flag_timeout_def split: if_splits option.splits)

text \<open>A variable of the environment the program goes on with: that of the process, else of the \<open>.env\<close> file.\<close>

definition sourced :: "string \<Rightarrow> environ \<Rightarrow> files \<Rightarrow> string option" where
  "sourced name env fs =
     (case env_get name env of Some v \<Rightarrow> Some v | None \<Rightarrow> Option.bind (fs ''.env'') (\<lambda>t. map_of (assignments (getlines t)) name))"

lemma loaded_get:
  assumes "name \<noteq> []" "CHR ''='' \<notin> set name" "c_str name = name"
  shows "env_get name (fst (loadDotEnv (fs ''.env'') env)) = sourced name env fs"
proof (cases "fs ''.env''")
  case None
  then show ?thesis by (simp add: loadDotEnv_def sourced_def split: option.splits)
next
  case (Some t)
  have "getenv name (fst (dotenv_loop (getlines t) env 0)) =
    (case getenv name env of Some v \<Rightarrow> Some v | None \<Rightarrow> map_of (assignments (getlines t)) name)"
    by (rule dotenv_loop_get [OF assms(1,2)])
  with Some assms(3) show ?thesis
    by (cases "dotenv_loop (getlines t) env 0") (simp add: env_get_def loadDotEnv_def sourced_def split: option.splits)
qed


definition sample_sources :: "environ \<times> files \<times> parsed_command" where
  "sample_sources = ([''TESTFORGE_DB_PATH=/e''], (\<lambda>path. if path = ''.env'' then Some ''TESTFORGE_REPORT_DIR=/r'' else None),
     parse_args [''list'', ''--log-file'', ''/l''])"

lemma sample_sources_read:
  "case sample_sources of (env, fs, p) \<Rightarrow> (case snd (buildConfig env fs p) of Some (Inr _) \<Rightarrow> True | _ \<Rightarrow> False)
     \<and> base_config (fst (buildConfig env fs p)) fs p = Some (Inr default_config)"
  by code_simp

lemma sample_settings:
  "case sample_sources of (env, fs, p) \<Rightarrow> setting ''db'' ''TESTFORGE_DB_PATH'' env fs p t = ''/e''
     \<and> setting ''report-dir'' ''TESTFORGE_REPORT_DIR'' env fs p t = ''/r'' \<and> setting ''log-file'' ''TESTFORGE_LOG_FILE'' env fs p t = ''/l''"
  by code_simp


section \<open>Help\<close>

text \<open>Every option a page of the help names is one the parser takes for that command.\<close>

definition option_word :: "string \<Rightarrow> string" where
  "option_word w = takeWhile (\<lambda>c. is_alnum c \<or> c = CHR ''-'') (drop 2 w)"

definition options_named :: "string list \<Rightarrow> string list" where
  "options_named ls = map option_word (filter (\<lambda>w. take 2 w = ''--'') (concat (map (\<lambda>l. split l CHR '' '' True) ls)))"

lemma help_names_known_options:
  "list_all (\<lambda>(command, page). list_all (\<lambda>v. v \<in> set (knownOptions command) \<or> v \<in> set globalOptions) (options_named page))
     [(''run'', help_run), (''serve'', help_serve)]"
  by code_simp

section \<open>Surprises\<close>

text \<open>A usage error is coloured, on a terminal or not, whatever \<open>--no-color\<close> and \<open>NO_COLOR\<close> say.\<close>

lemma usage_error_coloured:
  assumes "pc_error (parse_args args) = Some message" shows "\<exists>t. program ce args = Some (kUsageError, [], CHR 0x1B # t)"
  using assms by (simp add: program_def refuses_def cli_error_def red_def ansi_wrap_def Let_def)

text \<open>Without a database the list of flaky tests is empty and the command succeeds.\<close>

lemma flaky_without_database:
  assumes "sv_db sv = None" "pc_flag ''flaky'' False p" "\<not> wantsJson p"
  shows "\<exists>t. stats_command color se p sv = Some (prints (heading color ''Flaky candidates (heuristic)'' @ ''  None identified.'' @ newline @ t))"
proof -
  have "flakyCandidatesJson se (pc_int ''limit'' 20 p) sv = Some no_database" by (simp add: flakyCandidatesJson_def requireRepository_def assms(1))
  moreover have "json_find no_database ''candidates'' = None" by code_simp
  ultimately show ?thesis using assms(2,3)
    by (simp add: stats_command_def flaky_answer_def) (intro exI, rule refl)
qed

text \<open>The port of the server is not checked again.\<close>

lemma wide_port_served: "sc_port (serve_config (parse_args [''serve'', ''--port'', ''70000'']) sc) = 70000"
proof -
  have read: "pc_value ''port'' [] (parse_args [''serve'', ''--port'', ''70000'']) = ''70000''" by code_simp
  have "show_int 70000 = ''70000''" by (simp add: show_int_def show_nat.simps) code_simp
  with parseInt_show_int [of 70000] have "parseInt ''70000'' = Some 70000" by simp
  with read show ?thesis by (simp add: serve_config_def pc_int_def pc_int64_def to_int32_def)
qed

text \<open>The JSON of a specification that was executed says it is well, whatever its tests say.\<close>

lemma failed_spec_says_ok:
  assumes "wantsJson p" "run_json run = Some v" "exitCode run = 1"
  shows "spec_executed p out run printed = Some (kTestsFailed, printed @ cli_json (with_member ''specification'' out (with_member ''ok'' (JBool True) v)), [])"
  using assms by (simp add: spec_executed_def)

end
