(* ===== verification/Provider_Facts.thy ===== *)
theory Provider_Facts
  imports Ai_Provider
begin

text \<open>
  What a client of a provider may rely on, for each of the three providers; where the requests to the
  sidecar go and what of its answers is kept; and that the stand-in generates only tests the validator
  accepts.
\<close>

section \<open>The interface\<close>

locale ai_contract =
  fixes enabled :: bool
    and generate :: "generation_request \<Rightarrow> generation_result option"
    and analyse :: "analysis_request \<Rightarrow> analysis_result option"
  assumes off: "\<not> enabled \<Longrightarrow> generate rq = Some g \<Longrightarrow> \<not> gr_ok g"
    and off_analysis: "\<not> enabled \<Longrightarrow> analyse aq = Some a \<Longrightarrow> \<not> ar_ok a"
    and some_test: "generate rq = Some g \<Longrightarrow> gr_ok g \<Longrightarrow> su_tests (gr_suite g) \<noteq> []"
    and some_cause: "analyse aq = Some a \<Longrightarrow> ar_ok a \<Longrightarrow> ar_probableCause a \<noteq> []"
begin

lemma shown_cause: "analyse aq = Some a \<Longrightarrow> json_find (analysis_json a) ''ok'' = Some (JBool True) \<Longrightarrow>
    enabled \<and> (\<exists>t. t \<noteq> [] \<and> json_find (analysis_json a) ''probable_cause'' = Some (JString t))"
  using off_analysis some_cause by (cases enabled) (auto simp: analysis_json_def json_find_obj_of split: if_splits)

end

interpretation disabled: ai_contract "ap_enabled (disabled_provider reason)" "ap_generate (disabled_provider reason)"
    "ap_analyse (disabled_provider reason)" for reason
  by unfold_locales (auto simp: disabled_provider_def no_generation_def no_analysis_def)

lemma mock_generate_ok: "gr_ok (mock_generate e rq) \<longleftrightarrow> e = []"
  by (simp add: mock_generate_def Let_def no_generation_def)

lemma mock_suite:
  "gr_suite (mock_generate [] rq) = \<lparr>su_suite = (if gq_suiteName rq = [] then ''generated'' else gq_suiteName rq),
     su_requirement = gq_requirement rq, su_source = ''mock'', su_model = mock_model,
     su_tests = take (nat (max 1 (gq_maxTests rq))) (mock_tests (gq_requirement rq))\<rparr>"
  by (simp add: mock_generate_def Let_def)

lemma mock_cause [simp]:
  "ar_probableCause (mock_unreachable t r) \<noteq> []" "ar_probableCause (mock_server_error st c r) \<noteq> []"
  "ar_probableCause (mock_timeout c r) \<noteq> []" "ar_probableCause (mock_assertion k c r) \<noteq> []"
  by (simp_all add: mock_unreachable_def mock_server_error_def mock_timeout_def mock_assertion_def)

interpretation mock: ai_contract "ap_enabled (mock_provider e)" "ap_generate (mock_provider e)" "ap_analyse (mock_provider e)" for e
proof
  fix rq g assume "ap_generate (mock_provider e) rq = Some g" "gr_ok g"
  then have "e = []" "g = mock_generate [] rq" by (auto simp: mock_provider_def mock_generate_ok)
  then show "su_tests (gr_suite g) \<noteq> []" by (simp add: mock_suite mock_tests_def Let_def)
next
  fix aq a assume "ap_analyse (mock_provider e) aq = Some a" "ar_ok a"
  then show "ar_probableCause a \<noteq> []"
    by (auto simp: mock_provider_def mock_analyse_def Let_def no_analysis_def split: if_splits option.splits)
qed (simp_all add: mock_provider_def)

lemma map_sum_Inr_iff: "map_sum f g z = Inr y \<longleftrightarrow> (\<exists>x. z = Inr x \<and> y = g x)"
  by (cases z) auto

lemma suite_of_json_tests: "suite_of_json v = Some (Inr s) \<Longrightarrow> su_tests s \<noteq> []"
proof -
  assume s: "suite_of_json v = Some (Inr s)"
  have read: "read_tests vs = Some (Inr ts) \<Longrightarrow> vs \<noteq> [] \<Longrightarrow> ts \<noteq> []" for vs ts
    by (cases vs) (auto simp: map_sum_Inr_iff split: option.splits sum.splits)
  show ?thesis using s read
    by (auto simp: suite_of_json_def Let_def map_sum_Inr_iff split: if_splits option.splits json.splits sum.splits)
qed

lemma read_suite_ok:
  assumes g: "read_suite cf rq document r = Some g" "gr_ok g" "\<not> gr_ok r"
  shows "su_tests (gr_suite g) \<noteq> []"
proof (cases "json_find document ''specification''")
  case (Some v)
  obtain suite where s: "suite_of_json v = Some suite" using g(1) Some by (auto simp: read_suite_def)
  show ?thesis
  proof (cases suite)
    case (Inl e)
    with g Some s show ?thesis by (auto simp: read_suite_def)
  next
    case (Inr x)
    with g Some s suite_of_json_tests [of v x] show ?thesis by (auto simp: read_suite_def)
  qed
qed (use g in \<open>auto simp: read_suite_def\<close>)

lemma read_generation_ok:
  assumes g: "read_generation cf rq response r = Some g" "gr_ok g" "\<not> gr_ok r"
  shows "su_tests (gr_suite g) \<noteq> []"
proof -
  from g obtain document p c where
    "read_suite cf rq document (r\<lparr>gr_raw := document, gr_promptTokens := p, gr_completionTokens := c, gr_model := named_model cf document\<rparr>) = Some g"
    by (auto simp: read_generation_def Let_def split: sum.splits if_splits option.splits)
  then show ?thesis by (rule read_suite_ok) (use g in simp_all)
qed

lemma read_analysis_ok: "ar_ok (read_analysis cf response r) \<Longrightarrow> \<not> ar_ok r \<Longrightarrow> ar_probableCause (read_analysis cf response r) \<noteq> []"
  by (auto simp: read_analysis_def Let_def split: sum.splits if_splits option.splits json.splits)

interpretation sidecar: ai_contract "ap_enabled (sidecar_provider cf ob)" "ap_generate (sidecar_provider cf ob)"
    "ap_analyse (sidecar_provider cf ob)" for cf ob
proof
  fix rq g assume "ap_generate (sidecar_provider cf ob) rq = Some g" "gr_ok g"
  then show "su_tests (gr_suite g) \<noteq> []"
    by (auto simp: sidecar_provider_def sidecar_generate_def Let_def no_generation_def split: if_splits option.splits prod.splits
        dest: read_generation_ok)
next
  fix aq a assume "ap_analyse (sidecar_provider cf ob) aq = Some a" "ar_ok a"
  then show "ar_probableCause a \<noteq> []"
    by (auto simp: sidecar_provider_def sidecar_analyse_def Let_def no_analysis_def split: if_splits prod.splits
        dest: read_analysis_ok)
qed (auto simp: sidecar_provider_def sidecar_generate_def sidecar_analyse_def no_generation_def no_analysis_def Let_def)

lemma provider_cases:
  "createProvider cf env ob = disabled_provider ''AI features are disabled (set ai.enabled=true or TESTFORGE_AI_ENABLED=1)''
    \<or> createProvider cf env ob = mock_provider [] \<or> createProvider cf env ob = sidecar_provider cf ob"
  by (simp add: createProvider_def)

interpretation chosen: ai_contract "ap_enabled (createProvider cf env ob)" "ap_generate (createProvider cf env ob)"
    "ap_analyse (createProvider cf env ob)" for cf env ob
  using provider_cases [of cf env ob] disabled.ai_contract_axioms mock.ai_contract_axioms sidecar.ai_contract_axioms
  by (elim disjE) simp_all

text \<open>
  Whatever provider the configuration selects, an answer that reports an analysis comes from an
  enabled provider and names a cause, and says of itself that it is advisory.
\<close>

theorem analysis_answer:
  assumes "ap_analyse (createProvider cf env ob) aq = Some a" "json_find (analysis_json a) ''ok'' = Some (JBool True)"
  shows "ap_enabled (createProvider cf env ob) \<and> (\<exists>t. t \<noteq> [] \<and> json_find (analysis_json a) ''probable_cause'' = Some (JString t))
    \<and> json_find (analysis_json a) ''advisory_only'' = Some (JBool True)"
  using chosen.shown_cause [OF assms] by (auto simp: analysis_json_def json_find_obj_of)

theorem analysis_answer_witness:
  "\<exists>t. t \<noteq> [] \<and> json_find (analysis_json (the (ap_analyse (createProvider (default_ai_config\<lparr>ai_enabled := True\<rparr>)
      [''TESTFORGE_AI_MOCK=1''] \<lparr>so_hops = [], so_elapsed = 0\<rparr>) \<lparr>aq_context = JObject [], aq_testName = [], aq_failureCategory = []\<rparr>)))
      ''probable_cause'' = Some (JString t)"
proof -
  have "env_getBool ''TESTFORGE_AI_MOCK'' False [''TESTFORGE_AI_MOCK=1'']" by code_simp
  then have p: "createProvider (default_ai_config\<lparr>ai_enabled := True\<rparr>) [''TESTFORGE_AI_MOCK=1''] ob = mock_provider []" for ob
    by (simp add: createProvider_def)
  have none: "json_path (JObject []) ''result.metadata.transport_error'' = None" "json_path (JObject []) ''result.metadata.http_status'' = None"
    by code_simp+
  then obtain a where a: "ap_analyse (mock_provider []) \<lparr>aq_context = JObject [], aq_testName = [], aq_failureCategory = []\<rparr> = Some a" "ar_ok a"
    by (simp add: mock_provider_def mock_analyse_def Let_def path_text_def)
  have "json_find (analysis_json a) ''ok'' = Some (JBool True)"
    using a(2) by (simp add: analysis_json_def json_find_obj_of)
  with analysis_answer [of "default_ai_config\<lparr>ai_enabled := True\<rparr>" "[''TESTFORGE_AI_MOCK=1'']" "\<lparr>so_hops = [], so_elapsed = 0\<rparr>"] a(1)
  show ?thesis by (auto simp: p)
qed

section \<open>Where the requests to the sidecar go\<close>

lemma no_redirect: "\<not> co_followRedirects opts \<Longrightarrow> length (snd (perform opts hs request remaining)) \<le> 1"
  by (cases "(opts, hs, request, remaining)" rule: perform.cases)
    (auto simp: next_request_def Let_def split: sum.splits option.splits prod.splits)

lemma sidecar_sends:
  assumes "parseUrl (ai_endpoint cf) = Some b"
  shows "length (snd (client_send (ai_client_options cf) hs rq)) \<le> 1
    \<and> list_all (\<lambda>(u, req, wire). u_scheme u = ''http'' \<and> equalsIgnoreCase (u_host b) (u_host u)) (snd (client_send (ai_client_options cf) hs rq))"
proof -
  have opts: "co_policy (ai_client_options cf) = restrictedTo (ai_endpoint cf)" "\<not> co_followRedirects (ai_client_options cf)"
    by (simp_all add: ai_client_options_def)
  have "u_scheme u = ''http'' \<and> equalsIgnoreCase (u_host b) (u_host u)" if "(u, req, wire) \<in> set (snd (client_send (ai_client_options cf) hs rq))"
    for u req wire
    using perform_sent [OF that [unfolded client_send_def]] admit_sound [of "ai_client_options cf" req u] restricted_host [OF assms, of u] opts
    by auto
  then show ?thesis using no_redirect [OF opts(2)] by (auto simp: client_send_def list_all_iff)
qed

text \<open>
  C32. A question to the sidecar is at most one request, in clear HTTP and to the host of the configured
  endpoint: what is sent to a language model goes nowhere else, whatever the sidecar answers.
\<close>

theorem sidecar_confined:
  assumes "parseUrl (ai_endpoint cf) = Some b"
    and "sent \<in> {snd (sidecar_generate cf ob rq), snd (sidecar_analyse cf ob aq), snd (sidecar_health cf ob)}"
  shows "length sent \<le> 1 \<and> list_all (\<lambda>(u, req, wire). u_scheme u = ''http'' \<and> equalsIgnoreCase (u_host b) (u_host u)) sent"
proof -
  from assms(2) have "sent = [] \<or> (\<exists>hs rq. sent = snd (client_send (ai_client_options cf) hs rq))"
    by (auto simp: sidecar_generate_def sidecar_analyse_def sidecar_health_def Let_def split: prod.splits option.splits)
      (metis snd_conv)+
  then show ?thesis using sidecar_sends [OF assms(1)] by auto
qed

text \<open>The configured sidecar \<open>http://h\<close>, asked for its health.\<close>

definition sample_sidecar :: ai_config where
  "sample_sidecar = default_ai_config\<lparr>ai_enabled := True, ai_endpoint := ''http://h''\<rparr>"

theorem sidecar_confined_witness:
  "\<forall>ob. length (snd (sidecar_health sample_sidecar ob)) \<le> 1
    \<and> list_all (\<lambda>(u, req, wire). u_scheme u = ''http'' \<and> equalsIgnoreCase ''h'' (u_host u)) (snd (sidecar_health sample_sidecar ob))"
proof
  fix ob
  have "parseUrl (ai_endpoint sample_sidecar) =
      Some \<lparr>u_scheme = ''http'', u_host = ''h'', u_port = 80, u_path = ''/'', u_query = [], u_fragment = []\<rparr>"
    unfolding sample_sidecar_def by (simp, code_simp)
  from sidecar_confined [OF this, of "snd (sidecar_health sample_sidecar ob)" ob]
  show "length (snd (sidecar_health sample_sidecar ob)) \<le> 1
    \<and> list_all (\<lambda>(u, req, wire). u_scheme u = ''http'' \<and> equalsIgnoreCase ''h'' (u_host u)) (snd (sidecar_health sample_sidecar ob))"
    by simp
qed

section \<open>The tests of the stand-in\<close>

text \<open>
  The tests the stand-in for a language model generates (\<open>src/ai/MockAiProvider.cpp\<close>) are tests the
  validator accepts.
\<close>

lemma guessed: "guessResource requirement \<in> set known_resources"
  using find_Some_iff [of "\<lambda>candidate. containsIgnoreCase requirement candidate
         \<or> 1 < length candidate \<and> containsIgnoreCase requirement (butlast candidate)" known_resources]
  by (auto simp: guessResource_def known_resources_def split: option.splits)

lemma validate_accepts:
  "list_all (\<lambda>t. \<forall>i. validateOne v t i = Some []) ts \<Longrightarrow> distinct (map (\<lambda>t. toLower (ts_name t)) ts) \<Longrightarrow>
    set (map (\<lambda>t. toLower (ts_name t)) ts) \<inter> seen = {} \<Longrightarrow>
    validate_loop v ts i seen accepted rep = Some (accepted @ ts, rep\<lparr>vr_accepted := vr_accepted rep + int (length ts)\<rparr>)"
  by (induction ts arbitrary: i seen accepted rep) (auto simp: Let_def is_fatal_def)

definition mock_names_ok :: "string \<Rightarrow> bool" where
  "mock_names_ok r \<longleftrightarrow> unsafe_name (''list_'' @ r) = None \<and> unsafe_name (''missing_'' @ r @ ''_returns_404'') = None
     \<and> unsafe_name (''create_valid_'' @ r) = None \<and> toLower (''list_'' @ r) = ''list_'' @ r
     \<and> toLower (''missing_'' @ r @ ''_returns_404'') = ''missing_'' @ r @ ''_returns_404''
     \<and> toLower (''create_valid_'' @ r) = ''create_valid_'' @ r
     \<and> unsafe_endpoint (CHR ''/'' # r) = None \<and> unsafe_endpoint (CHR ''/'' # r @ ''/999999'') = None"

lemma known_names_ok: "list_all mock_names_ok known_resources"
  by code_simp

lemma mock_names:
  assumes "resource \<in> set known_resources"
  shows "unsafe_name (''list_'' @ resource) = None" "unsafe_name (''missing_'' @ resource @ ''_returns_404'') = None"
    "unsafe_name (''create_valid_'' @ resource) = None"
    "toLower (''list_'' @ resource) = ''list_'' @ resource"
    "toLower (''missing_'' @ resource @ ''_returns_404'') = ''missing_'' @ resource @ ''_returns_404''"
    "toLower (''create_valid_'' @ resource) = ''create_valid_'' @ resource"
    "unsafe_endpoint (CHR ''/'' # resource) = None" "unsafe_endpoint (CHR ''/'' # resource @ ''/999999'') = None"
  using known_names_ok assms unfolding list_all_iff mock_names_ok_def by blast+

lemma mock_fixed_names:
  "unsafe_name ''create_missing_required_field'' = None" "unsafe_name ''reject_malformed_payload'' = None"
  "unsafe_name ''duplicate_is_rejected'' = None"
  "toLower ''create_missing_required_field'' = ''create_missing_required_field''"
  "toLower ''reject_malformed_payload'' = ''reject_malformed_payload''" "toLower ''duplicate_is_rejected'' = ''duplicate_is_rejected''"
  by code_simp+

lemma mock_bodies:
  "length (json_dump (obj_of [(''name'', JString ''testforge-mock''), (''email'', JString ''mock@example.com''), (''password'', JString ''mock-password-1234'')])) = 84"
  "length (json_dump (obj_of [(''name'', JString ''testforge-mock'')])) = 25"
  "length (json_dump (obj_of [(''email'', JString ''not-an-email''), (''password'', JString ''short'')])) = 43"
  "length (json_dump (obj_of [(''name'', JString ''testforge-mock-duplicate''), (''email'', JString ''duplicate@example.com''),
     (''password'', JString ''mock-password-1234'')])) = 99"
  by code_simp+

definition endpoint_served :: "ai_validator \<Rightarrow> string \<Rightarrow> bool" where
  "endpoint_served v e \<longleftrightarrow> (\<exists>r. joinUrl (va_baseUrl v) e = Some r \<and> reject_raw (va_policy v) r = [])"

lemma served_no_issue: "unsafe_endpoint e = None \<Longrightarrow> endpoint_served v e \<Longrightarrow> endpoint_issues v w e = []"
  by (auto simp: endpoint_issues_def endpoint_served_def)

lemmas plain_test = validateOne_def Let_def makeSpec_def allowedMethods_def status_out_of_range_def body_issues_def

lemma mock_tests_valid:
  assumes "resource \<in> set known_resources" "endpoint_served v (CHR ''/'' # resource)" "endpoint_served v (CHR ''/'' # resource @ ''/999999'')"
  shows "validateOne v (mock_list resource) i = Some []" "validateOne v (mock_missing resource) i = Some []"
    "list_all (\<lambda>t. \<forall>i. validateOne v t i = Some []) (mock_create resource)" "validateOne v (mock_reject resource) i = Some []"
    "validateOne v (mock_duplicate resource) i = Some []"
proof -
  note e = served_no_issue [OF mock_names(7) [OF assms(1)] assms(2)] served_no_issue [OF mock_names(8) [OF assms(1)] assms(3)]
  have id: "\<not> hasControlCharacter ''id''" by code_simp
  note simps = plain_test mock_names [OF assms(1), simplified] mock_fixed_names e mock_bodies
  show "validateOne v (mock_list resource) i = Some []"
    by (simp add: simps mock_list_def assertion_issues_def isNumber_def hasControlCharacter_def)
  show "validateOne v (mock_missing resource) i = Some []" by (simp add: simps mock_missing_def)
  show "list_all (\<lambda>t. \<forall>i. validateOne v t i = Some []) (mock_create resource)"
    by (simp add: simps mock_create_def assertion_issues_def id)
  show "validateOne v (mock_reject resource) i = Some []" by (simp add: simps mock_reject_def)
  show "validateOne v (mock_duplicate resource) i = Some []" by (simp add: simps mock_duplicate_def)
qed

lemma mock_test_names:
  "ts_name (mock_list resource) = ''list_'' @ resource" "ts_name (mock_missing resource) = ''missing_'' @ resource @ ''_returns_404''"
  "map (\<lambda>t. f (ts_name t)) (mock_create resource) = [f (''create_valid_'' @ resource), f ''create_missing_required_field'']"
  "map ts_name (mock_create resource) = [''create_valid_'' @ resource, ''create_missing_required_field'']"
  "ts_name ` set (mock_create resource) = {''create_valid_'' @ resource, ''create_missing_required_field''}"
  "ts_name (mock_reject resource) = ''reject_malformed_payload''" "ts_name (mock_duplicate resource) = ''duplicate_is_rejected''"
  by (simp_all add: mock_list_def mock_missing_def mock_create_def mock_reject_def mock_duplicate_def makeSpec_def)

lemma mock_suite_valid:
  assumes "endpoint_served v (CHR ''/'' # guessResource requirement)" "endpoint_served v (CHR ''/'' # guessResource requirement @ ''/999999'')"
  shows "list_all (\<lambda>t. \<forall>i. validateOne v t i = Some []) (mock_tests requirement)"
    "distinct (map (\<lambda>t. toLower (ts_name t)) (mock_tests requirement))"
proof -
  note known = guessed [of requirement]
  note valid = mock_tests_valid [OF known assms]
  show "list_all (\<lambda>t. \<forall>i. validateOne v t i = Some []) (mock_tests requirement)"
    by (simp add: mock_tests_def Let_def valid)
  have "map (\<lambda>t. toLower (ts_name t)) (mock_tests requirement) = map ts_name (mock_tests requirement)"
    by (simp add: mock_tests_def Let_def mock_test_names mock_names [OF known, simplified] mock_fixed_names del: map_eq_conv)
  moreover have "distinct (map ts_name (mock_tests requirement))"
    by (simp add: mock_tests_def Let_def mock_test_names)
  ultimately show "distinct (map (\<lambda>t. toLower (ts_name t)) (mock_tests requirement))" by (simp only:)
qed

text \<open>
  The tests the stand-in generates pass the validator, all of them and without an issue, for every
  requirement, as long as the collection it guesses may be contacted: what the demonstration shows is
  what a suite goes through.
\<close>

theorem mock_suite_accepted:
  assumes "endpoint_served v (CHR ''/'' # guessResource (gq_requirement rq))" "endpoint_served v (CHR ''/'' # guessResource (gq_requirement rq) @ ''/999999'')"
    and "gq_suiteName rq = [] \<or> unsafe_name (gq_suiteName rq) = None" "max 1 (gq_maxTests rq) \<le> max 1 (ai_maxGeneratedTests (va_config v))"
  defines "s \<equiv> gr_suite (mock_generate [] rq)"
  shows "validate v s = Some (s, \<lparr>vr_valid = True, vr_accepted = int (length (su_tests s)), vr_rejected = 0, vr_issues = []\<rparr>)"
proof -
  let ?n = "nat (max 1 (gq_maxTests rq))" and ?all = "mock_tests (gq_requirement rq)"
  have tests: "su_tests s = take ?n ?all" by (simp add: s_def mock_suite)
  have "unsafe_name ''generated'' = None" by code_simp
  then have name: "unsafe_name (su_suite s) = None" using assms(3) by (auto simp: s_def mock_suite)
  have few: "length (su_tests s) \<le> nat (max 1 (ai_maxGeneratedTests (va_config v)))" using assms(4) by (auto simp: tests min_le_iff_disj)
  have "list_all (\<lambda>t. \<forall>i. validateOne v t i = Some []) (su_tests s)" "distinct (map (\<lambda>t. toLower (ts_name t)) (su_tests s))"
    using mock_suite_valid [OF assms(1,2)] unfolding tests take_map [symmetric] by (auto simp: list_all_iff dest: in_set_takeD)
  note loop = validate_accepts [OF this, of "{}" 0 "[]", simplified]
  have "su_tests s \<noteq> []" by (simp add: tests mock_tests_def Let_def)
  with few show ?thesis by (simp add: validate_def name Let_def loop not_less)
qed

definition mock_request :: generation_request where
  "mock_request = default_generation\<lparr>gq_requirement := ''Users must register with a unique email''\<rparr>"

theorem mock_suite_accepted_witness:
  "\<exists>report. validate sample_validator (gr_suite (mock_generate [] mock_request)) = Some (gr_suite (mock_generate [] mock_request), report)"
proof -
  have guess: "guessResource ''Users must register with a unique email'' = ''users''" by code_simp
  have "joinUrl ''http://h'' ''/users'' = Some ''http://h/users''" "reject_raw default_policy ''http://h/users'' = []"
    "joinUrl ''http://h'' ''/users/999999'' = Some ''http://h/users/999999''" "reject_raw default_policy ''http://h/users/999999'' = []"
    by code_simp+
  then have served: "endpoint_served sample_validator ''/users''" "endpoint_served sample_validator ''/users/999999''"
    by (simp_all add: endpoint_served_def sample_validator_def)
  have "unsafe_name ''generated'' = None" by code_simp
  then show ?thesis
    using mock_suite_accepted [of sample_validator mock_request] served
    by (simp add: mock_request_def default_generation_def guess sample_validator_def default_ai_config_def)
qed

end
