(* ===== verification/Rest_Facts.thy ===== *)
theory Rest_Facts
  imports Rest_Api Provider_Facts Http_Connection Json_Roundtrip Repository_Facts
begin

text \<open>
  What a client of the REST API can do to the service: which tests it can bring in, that an analysis
  changes no verdict, and which handler a request reaches.
\<close>

section \<open>Generated tests\<close>

text \<open>What a registry may become: tests that were there, and generated tests that are safe.\<close>

definition registry_grows :: "config \<Rightarrow> spec_registry \<Rightarrow> spec_registry \<Rightarrow> bool" where
  "registry_grows cf reg reg' \<longleftrightarrow> registry_ok reg' \<and> list_all (\<lambda>(k, e). (k, e) \<in> set reg \<or>
     (\<exists>s t. spec_safe (spec_validator cf) t \<and> e = generated_entry s t)) reg'"

lemma registry_grows_refl: "registry_ok reg \<Longrightarrow> registry_grows cf reg reg"
  by (auto simp: registry_grows_def list_all_iff)

lemma register_answer_grows:
  assumes "registry_ok (sv_registry sv)" "register_answer s sv = Some (sv', added)"
  shows "registry_grows (sv_config sv) (sv_registry sv) (sv_registry sv') \<and> sv' = sv\<lparr>sv_registry := sv_registry sv'\<rparr>"
proof -
  from assms(2) obtain registered where r: "registerSpecSuite (sv_registry sv) s (sv_config sv) = Some registered"
    by (auto simp: register_answer_def)
  show ?thesis
  proof (cases registered)
    case (Inl e)
    with r assms show ?thesis by (auto simp: register_answer_def registry_grows_refl)
  next
    case (Inr x)
    obtain reg n where x: "x = (reg, n)" by fastforce
    from registered_facts [OF assms(1) r [unfolded Inr x]] have "registry_grows (sv_config sv) (sv_registry sv) reg"
      by (fastforce simp: registry_grows_def list_all_iff)
    with r assms Inr x show ?thesis by (auto simp: register_answer_def)
  qed
qed

lemma checked_suite_grows:
  assumes "registry_ok (sv_registry sv)" "checked_suite g b sv = Some (sv', out)"
  shows "registry_grows (sv_config sv) (sv_registry sv) (sv_registry sv') \<and> sv' = sv\<lparr>sv_registry := sv_registry sv'\<rparr>"
  using assms register_answer_grows [OF assms(1)]
  by (auto simp: checked_suite_def Let_def registry_grows_refl split: option.splits if_splits)

lemma generateTests_grows:
  assumes "registry_ok (sv_registry sv)" "generateTests requirement suite n b sv = Some (sv', out)"
  shows "registry_grows (sv_config sv) (sv_registry sv) (sv_registry sv') \<and> sv' = sv\<lparr>sv_registry := sv_registry sv'\<rparr>"
  using assms checked_suite_grows [OF assms(1)]
  by (auto simp: generateTests_def registry_grows_refl split: option.splits if_splits)

lemma loadSpecFile_grows:
  assumes "registry_ok (sv_registry sv)" "loadSpecFile path contents b sv = Some (sv', out)"
  shows "registry_grows (sv_config sv) (sv_registry sv) (sv_registry sv') \<and> sv' = sv\<lparr>sv_registry := sv_registry sv'\<rparr>"
  using assms register_answer_grows [OF assms(1)]
  by (auto simp: loadSpecFile_def Let_def registry_grows_refl split: option.splits sum.splits if_splits)

section \<open>Analyses\<close>

text \<open>What an analysis may do to the service: append one event to those of the database.\<close>

definition event_added :: "database \<Rightarrow> database \<Rightarrow> bool" where
  "event_added db db' \<longleftrightarrow> db' = db \<or> (\<exists>e. db' = db\<lparr>db_events := db_events db @ [e]\<rparr>)"

definition only_events :: "service \<Rightarrow> service \<Rightarrow> bool" where
  "only_events sv sv' \<longleftrightarrow> sv' = sv\<lparr>sv_db := sv_db sv'\<rparr> \<and> rel_option event_added (sv_db sv) (sv_db sv')"

lemma only_events_refl: "only_events sv sv"
  by (auto simp: only_events_def event_added_def intro: option.rel_refl)

lemma recordEvent_adds: "event_added db (or_same (recordEvent now i event payload) db)"
  by (auto simp: or_same_def recordEvent_def event_added_def)

lemma analyseResult_events:
  assumes "analyseResult se r sv = Some (sv', out)"
  shows "only_events sv sv'"
proof -
  from assms have "sv' = sv \<or> sv' = sv\<lparr>sv_db := map_option (or_same (recordEvent (se_now se) (r_runId r) ''ai_analysis'' out)) (sv_db sv)\<rparr>"
    by (auto simp: analyseResult_def Let_def split: option.splits if_splits)
  moreover have "rel_option event_added d (map_option (or_same (recordEvent (se_now se) (r_runId r) ''ai_analysis'' out)) d)" for d
    by (cases d) (simp_all add: recordEvent_adds)
  ultimately show ?thesis using only_events_refl by (auto simp: only_events_def)
qed

lemma analyseResult_verdict:
  assumes "analyseResult se r sv = Some (sv', out)" "json_find out ''verdict'' = Some v"
  shows "isFailure (r_status r) \<and> json_find v ''status'' = Some (JString (status_str (r_status r)))
    \<and> json_find v ''failure_category'' = Some (JString (category_str (r_category r)))"
  using assms
  by (auto simp: analyseResult_def Let_def errorObject_def analysis_answer_json_def json_find_obj_of split: option.splits if_splits)

lemma analysis_facts:
  assumes "analyseFailure se i testName sv = Some (sv', out)"
  shows "only_events sv sv' \<and> (\<forall>v. json_find out ''verdict'' = Some v \<longrightarrow>
    (\<exists>db results r. sv_db sv = Some db \<and> loadResults (se_byName se) i db = Some results \<and> r \<in> set results \<and> isFailure (r_status r)
       \<and> json_find v ''status'' = Some (JString (status_str (r_status r)))
       \<and> json_find v ''failure_category'' = Some (JString (category_str (r_category r)))))"
proof (cases "\<exists>r. analyseResult se r sv = Some (sv', out) \<and> (\<exists>db results. sv_db sv = Some db \<and> loadResults (se_byName se) i db = Some results \<and> r \<in> set results)")
  case True
  then show ?thesis using analyseResult_events analyseResult_verdict by metis
next
  case False
  with assms have "sv' = sv \<and> json_find out ''verdict'' = None"
    by (auto simp: analyseFailure_def no_database_def errorObject_def json_find_obj_of find_Some_iff split: option.splits if_splits)
  then show ?thesis by (simp add: only_events_refl)
qed

text \<open>
  C34. An analysis by a language model leaves the service and everything stored as they were, but for at
  most one event that is appended to those of the database; and the verdict it is shown with is that
  of a failing result of the run as it was stored.
\<close>

theorem analysis_keeps_verdict:
  assumes "analyseFailure se i testName sv = Some (sv', out)"
  shows "only_events sv sv' \<and> (\<forall>v. json_find out ''verdict'' = Some v \<longrightarrow>
    (\<exists>db results r. sv_db sv = Some db \<and> loadResults (se_byName se) i db = Some results \<and> r \<in> set results \<and> isFailure (r_status r)
       \<and> json_find v ''status'' = Some (JString (status_str (r_status r)))
       \<and> json_find v ''failure_category'' = Some (JString (category_str (r_category r)))))"
  by (rule analysis_facts [OF assms])


section \<open>What a client can do to the registry\<close>

lemma registry_grows_trans: "registry_grows cf a b \<Longrightarrow> registry_grows cf b c \<Longrightarrow> registry_grows cf a c"
  unfolding registry_grows_def list_all_iff by fast

definition service_grows :: "service \<Rightarrow> service \<Rightarrow> bool" where
  "service_grows sv sv' \<longleftrightarrow> registry_grows (sv_config sv) (sv_registry sv) (sv_registry sv') \<and> sv_config sv' = sv_config sv"

lemma service_grows_refl: "registry_ok (sv_registry sv) \<Longrightarrow> service_grows sv sv"
  by (simp add: service_grows_def registry_grows_refl)

lemma service_grows_trans: "service_grows a b \<Longrightarrow> service_grows b c \<Longrightarrow> service_grows a c"
  by (auto simp: service_grows_def intro: registry_grows_trans)

text \<open>The execution of a run leaves the registry and the configuration alone.\<close>

definition run_keeps :: "execution \<Rightarrow> bool" where
  "run_keeps execute \<longleftrightarrow> (\<forall>options sv run sv'. execute options sv = Some (run, sv') \<longrightarrow>
     sv_registry sv' = sv_registry sv \<and> sv_config sv' = sv_config sv)"

definition handler_grows :: "rest_handler \<Rightarrow> bool" where
  "handler_grows h \<longleftrightarrow> (\<forall>r sv a sv'. registry_ok (sv_registry sv) \<longrightarrow> h r sv = Some (a, sv') \<longrightarrow> service_grows sv sv')"

lemma answers_grows: "handler_grows (answers f)"
  by (auto simp: handler_grows_def answers_def service_grows_refl)

lemma get_run_grows: "handler_grows (get_run se)"
  by (auto simp: handler_grows_def get_run_def service_grows_refl)

lemma post_run_grows: "run_keeps execute \<Longrightarrow> handler_grows (post_run execute)"
  by (fastforce simp: handler_grows_def post_run_def run_keeps_def service_grows_def registry_grows_refl
      split: if_splits option.splits prod.splits)

lemma post_generate_grows: "handler_grows post_generate"
proof -
  have "service_grows sv sv'" if "registry_ok (sv_registry sv)" "generateTests q s n b sv = Some (sv', out)" for q s n b sv sv' out
  proof -
    from generateTests_grows [OF that] have g: "registry_grows (sv_config sv) (sv_registry sv) (sv_registry sv')"
      and "sv' = sv\<lparr>sv_registry := sv_registry sv'\<rparr>" by blast+
    from this(2) have "sv_config sv' = sv_config sv" by (metis service.ext_inject service.surjective service.update_convs(2))
    with g show ?thesis by (simp add: service_grows_def)
  qed
  then show ?thesis
    by (fastforce simp: handler_grows_def post_generate_def service_grows_refl split: option.splits if_splits)
qed

lemma post_analyse_grows: "handler_grows (post_analyse se)"
proof -
  have "service_grows sv sv'" if "registry_ok (sv_registry sv)" "analyseFailure se i t sv = Some (sv', out)" for i t sv sv' out
  proof -
    from analysis_facts [OF that(2)] have "sv' = sv\<lparr>sv_db := sv_db sv'\<rparr>" by (simp add: only_events_def)
    then have "sv_config sv' = sv_config sv" "sv_registry sv' = sv_registry sv"
      by (metis service.ext_inject service.surjective service.update_convs(3))+
    with that(1) show ?thesis by (simp add: service_grows_def registry_grows_refl)
  qed
  then show ?thesis by (fastforce simp: handler_grows_def post_analyse_def service_grows_refl split: option.splits if_splits)
qed

lemma routes_grow: "run_keeps execute \<Longrightarrow> (meth, path, h) \<in> set (rest_routes se execute) \<Longrightarrow> handler_grows h"
  by (auto simp: rest_routes_def answers_grows get_run_grows post_run_grows post_generate_grows post_analyse_grows)

lemma rest_call_handler:
  assumes "rest_call se execute r sv = Some answer"
  obtains meth path h r' where "(meth, path, h) \<in> set (rest_routes se execute)" "h r' sv = Some answer"
proof -
  from assms obtain rt captured meth path h where
    "find (names_route rt) (rest_routes se execute) = Some (meth, path, h)"
    "h (r\<lparr>sr_pathParameters := captured\<rparr>) sv = Some answer"
    by (auto simp: rest_call_def split: sum.splits option.splits prod.splits)
  with that show thesis by (metis find_Some_iff nth_mem)
qed

lemma rest_call_grows:
  assumes "run_keeps execute" "registry_ok (sv_registry sv)" "rest_call se execute r sv = Some (a, sv')"
  shows "service_grows sv sv'"
  using assms(2) routes_grow [OF assms(1)] by (rule_tac rest_call_handler [OF assms(3)]) (auto simp: handler_grows_def)

section \<open>Dispatch\<close>

definition fits :: "string \<Rightarrow> string list \<Rightarrow> bool" where
  "fits pattern segments \<longleftrightarrow> list_all2 (\<lambda>p s. is_capture p \<or> p = s) (splitPath pattern) segments"

definition rest_keys :: "(string \<times> string) list" where
  "rest_keys = map (\<lambda>p. (''GET'', ''/api'' @ p)) [''/health'', ''/tests'', ''/suites''] @ [(''POST'', ''/api/runs'')]
     @ map (\<lambda>p. (''GET'', ''/api'' @ p)) [''/runs'', ''/runs/:id'', ''/runs/:id/results'', ''/stats'', ''/history'', ''/flaky'',
       ''/diagnostics'', ''/diagnostics/gpu'', ''/ai/status'']
     @ [(''POST'', ''/api/ai/generate-tests''), (''POST'', ''/api/ai/analyze-failure''), (''GET'', ''/api'')]"

lemma rest_routes_keys: "map (\<lambda>(m, p, h). (m, p)) (rest_routes se execute) = rest_keys"
  by (simp add: rest_routes_def rest_keys_def)


text \<open>Two patterns that no path fits both.\<close>

definition apart :: "string list \<Rightarrow> string list \<Rightarrow> bool" where
  "apart p q \<longleftrightarrow> length p \<noteq> length q \<or> list_ex (\<lambda>(a, b). \<not> is_capture a \<and> \<not> is_capture b \<and> a \<noteq> b) (zip p q)"

lemma apart_lists:
  "list_all2 (\<lambda>p s. is_capture p \<or> p = s) ps ss \<Longrightarrow> list_all2 (\<lambda>p s. is_capture p \<or> p = s) qs ss \<Longrightarrow>
    \<not> list_ex (\<lambda>(a, b). \<not> is_capture a \<and> \<not> is_capture b \<and> a \<noteq> b) (zip ps qs)"
  by (induction ps ss arbitrary: qs rule: list_all2_induct) (auto simp: list_all2_Cons2)

lemma fits_length: "fits p segments \<Longrightarrow> length (splitPath p) = length segments"
  by (simp add: fits_def list_all2_lengthD)

lemma apart_sound: "apart (splitPath p) (splitPath q) \<Longrightarrow> fits p segments \<Longrightarrow> \<not> fits q segments"
  using apart_lists [of "splitPath p" segments "splitPath q"] fits_length [of p segments] fits_length [of q segments]
  unfolding apart_def fits_def by fastforce

lemma rest_keys_facts:
  "list_all (\<lambda>(m, p). toUpper m = m) rest_keys" "distinct (map (\<lambda>(m, p). (m, splitPath p)) rest_keys)"
  "sorted_wrt (\<lambda>(m, p) (m', p'). m \<noteq> m' \<or> apart (splitPath p) (splitPath p')) rest_keys"
  by code_simp+


definition route_of :: "service \<Rightarrow> string \<times> string \<times> rest_handler \<Rightarrow> route" where
  "route_of sv entry = \<lparr>rt_method = fst entry, rt_segments = splitPath (fst (snd entry)),
     rt_handler = (\<lambda>r. map_option fst (snd (snd entry) r sv))\<rparr>"

definition route_key :: "string \<times> string \<times> rest_handler \<Rightarrow> string \<times> string list" where
  "route_key entry = (fst entry, splitPath (fst (snd entry)))"

lemma routes_facts:
  "list_all (\<lambda>x. toUpper (fst x) = fst x) (rest_routes se execute)" "distinct (map route_key (rest_routes se execute))"
  "sorted_wrt (\<lambda>x y. fst x \<noteq> fst y \<or> apart (splitPath (fst (snd x))) (splitPath (fst (snd y)))) (rest_routes se execute)"
proof -
  have k: "map (\<lambda>x. (fst x, fst (snd x))) (rest_routes se execute) = rest_keys"
    using rest_routes_keys [of se execute] by (simp add: case_prod_beta')
  show "list_all (\<lambda>x. toUpper (fst x) = fst x) (rest_routes se execute)"
    using rest_keys_facts(1) by (simp add: k [symmetric] list_all_iff)
  show "distinct (map route_key (rest_routes se execute))"
    using rest_keys_facts(2) by (simp add: k [symmetric] comp_def route_key_def [abs_def])
  show "sorted_wrt (\<lambda>x y. fst x \<noteq> fst y \<or> apart (splitPath (fst (snd x))) (splitPath (fst (snd y)))) (rest_routes se execute)"
    using rest_keys_facts(3) by (simp add: k [symmetric] sorted_wrt_map)
qed

lemma add_new_route:
  assumes "(toUpper meth, splitPath pattern) \<notin> set (map (\<lambda>r. (rt_method r, rt_segments r)) routes)"
  shows "add_route meth pattern h routes = routes @ [\<lparr>rt_method = toUpper meth, rt_segments = splitPath pattern, rt_handler = h\<rparr>]"
proof -
  have "replace_route \<lparr>rt_method = toUpper meth, rt_segments = splitPath pattern, rt_handler = h\<rparr> routes = None"
    using assms by (induction routes) auto
  then show ?thesis by (simp add: add_route_def)
qed

lemma registerRoutes_all: "registerRoutes se execute sv = map (route_of sv) (rest_routes se execute)"
proof -
  have "fold (\<lambda>(meth, path, handler). add_route meth path (\<lambda>r. map_option fst (handler r sv))) xs (map (route_of sv) ys)
      = map (route_of sv) (ys @ xs)"
    if "list_all (\<lambda>x. toUpper (fst x) = fst x) xs" "distinct (map route_key (ys @ xs))" for xs ys
    using that
  proof (induction xs arbitrary: ys)
    case (Cons x xs)
    obtain m p h where x: "x = (m, p, h)" by (cases x)
    from Cons.prems(2) x have "(m, splitPath p) \<notin> route_key ` set ys" by (auto simp: route_key_def)
    then have "add_route m p (\<lambda>r. map_option fst (h r sv)) (map (route_of sv) ys) = map (route_of sv) (ys @ [x])"
      using Cons.prems(1) x by (subst add_new_route) (auto simp: route_of_def route_key_def image_iff)
    with Cons.IH [of "ys @ [x]"] Cons.prems x show ?case by simp
  qed simp
  from this [of "rest_routes se execute" "[]"] routes_facts show ?thesis by (simp add: registerRoutes_def)
qed


lemma match_loop_find:
  "match_loop meth segments mismatch (map (route_of sv) xs) =
     (case find (\<lambda>x. fst x = meth \<and> fits (fst (snd x)) segments) xs of
        Some x \<Rightarrow> Inr (route_of sv x, the (route_captures segments (route_of sv x)))
      | None \<Rightarrow> Inl (projl (match_loop meth segments mismatch (map (route_of sv) xs))))"
proof (induction xs arbitrary: mismatch)
  case (Cons x xs)
  have "(route_captures segments (route_of sv x) \<noteq> None) = fits (fst (snd x)) segments"
    using route_captures_iff [of segments "route_of sv x"] by (simp add: fits_def route_of_def)
  then show ?case using Cons.IH by (auto simp: route_of_def split: option.splits)
qed simp

lemma find_named:
  assumes "x \<in> set (rest_routes se execute)" shows "find (names_route (route_of sv x)) (rest_routes se execute) = Some x"
proof -
  have "find (\<lambda>y. f y = f x) xs = Some x" if "distinct (map f xs)" "x \<in> set xs" for xs and f :: "string \<times> string \<times> rest_handler \<Rightarrow> string \<times> string list"
    using that by (induction xs) (auto simp: image_iff)
  from this [OF routes_facts(2) assms]
  have "find (\<lambda>y. route_key y = route_key x) (rest_routes se execute) = Some x" .
  moreover have "names_route (route_of sv x) y = (route_key y = route_key x)" if "y \<in> set (rest_routes se execute)" for y
    using routes_facts(1) [of se execute] that by (auto simp: names_route_def route_of_def route_key_def list_all_iff)
  ultimately show ?thesis by (simp cong: find_cong)
qed

lemma filter_find_apart:
  "sorted_wrt (\<lambda>x y. \<not> (P x \<and> P y)) xs \<Longrightarrow> filter P xs = (case find P xs of Some x \<Rightarrow> [x] | None \<Rightarrow> [])"
  by (induction xs) (auto simp: filter_empty_conv split: option.splits)

lemma rest_matches:
  "filter (\<lambda>x. fst x = sr_method r \<and> fits (fst (snd x)) (splitPath (sr_path r))) (rest_routes se execute) =
     (case find (\<lambda>x. fst x = sr_method r \<and> fits (fst (snd x)) (splitPath (sr_path r))) (rest_routes se execute) of Some x \<Rightarrow> [x] | None \<Rightarrow> [])"
  by (rule filter_find_apart, rule sorted_wrt_mono_rel [OF _ routes_facts(3)]) (metis apart_sound)

lemma rest_call_fits:
  assumes "x \<in> set (rest_routes se execute)" "fst x = sr_method r" "fits (fst (snd x)) (splitPath (sr_path r))"
  shows "rest_call se execute r sv =
    snd (snd x) (r\<lparr>sr_pathParameters := the (capture_loop (splitPath (fst (snd x))) (splitPath (sr_path r)) [])\<rparr>) sv"
proof -
  let ?P = "\<lambda>x :: string \<times> string \<times> rest_handler. fst x = sr_method r \<and> fits (fst (snd x)) (splitPath (sr_path r))"
  from assms have "x \<in> set (filter ?P (rest_routes se execute))" by simp
  then have f: "find ?P (rest_routes se execute) = Some x" unfolding rest_matches by (auto split: option.splits)
  have c: "the (route_captures (splitPath (sr_path r)) (route_of sv x)) = the (capture_loop (splitPath (fst (snd x))) (splitPath (sr_path r)) [])"
    using assms(3) by (simp add: route_captures_def route_of_def fits_length)
  from match_loop_find [of "sr_method r" "splitPath (sr_path r)" None sv "rest_routes se execute"] f find_named [OF assms(1), of sv] c
  show ?thesis by (cases x) (simp add: rest_call_def match_route_def registerRoutes_all)
qed

text \<open>
  A request to the API is answered by the handler of the one route of its method whose pattern fits
  its path, with the captured parameters; the patterns never compete, so their order is immaterial.
\<close>

theorem rest_dispatch_exact:
  "rest_call se execute r sv =
     (case filter (\<lambda>(meth, path, h). meth = sr_method r \<and> fits path (splitPath (sr_path r))) (rest_routes se execute) of
        [(meth, path, h)] \<Rightarrow> h (r\<lparr>sr_pathParameters := the (capture_loop (splitPath path) (splitPath (sr_path r)) [])\<rparr>) sv
      | _ \<Rightarrow> None)"
proof -
  let ?P = "\<lambda>x :: string \<times> string \<times> rest_handler. fst x = sr_method r \<and> fits (fst (snd x)) (splitPath (sr_path r))"
  show ?thesis
  proof (cases "find ?P (rest_routes se execute)")
    case None
    then obtain e where "match_loop (sr_method r) (splitPath (sr_path r)) None (map (route_of sv) (rest_routes se execute)) = Inl e"
      using match_loop_find [of "sr_method r" "splitPath (sr_path r)" None sv "rest_routes se execute"] by auto
    with None rest_matches [of r se execute] show ?thesis by (simp add: rest_call_def match_route_def registerRoutes_all case_prod_beta')
  next
    case (Some x)
    then have "x \<in> set (rest_routes se execute)" "?P x" by (auto simp: find_Some_iff)
    with Some rest_matches [of r se execute] rest_call_fits [of x se execute r sv] show ?thesis by (cases x) (simp add: case_prod_beta')
  qed
qed

section \<open>A service\<close>

text \<open>A provider that answers with one test, and a request to register it.\<close>

definition sample_service :: service where
  "sample_service = \<lparr>sv_config = sample_config, sv_registry = [], sv_db = None,
     sv_ai = Some \<lparr>ap_enabled = True, ap_generate = (\<lambda>_. Some (no_generation\<lparr>gr_ok := True, gr_suite := sample_suite\<rparr>)),
       ap_analyse = (\<lambda>_. None), ap_health = None\<rparr>,
     sv_diagnostics = None, sv_gpu = JNull, sv_running = False\<rparr>"

definition generate_call :: server_request where
  "generate_call = \<lparr>sr_method = ''POST'', sr_path = ''/api/ai/generate-tests'', sr_query = [], sr_headers = [],
     sr_body = json_dump (JObject [(''requirement'', JString ''list''), (''register'', JBool True)]), sr_clientAddress = [],
     sr_pathParameters = []\<rparr>"

lemma request_json_short:
  "sr_body r \<noteq> [] \<Longrightarrow> length (sr_body r) \<le> 16777216 \<Longrightarrow> parse_document 64 (sr_body r) = Inr v \<Longrightarrow> server_request_json r = Some v"
  by (simp add: server_request_json_def tryParse_def json_parse_def default_limits_def)

lemma sample_call:
  "\<exists>a sv'. rest_call se execute generate_call sample_service = Some (a, sv') \<and> sv_registry sv' \<noteq> []"
proof -
  let ?body = "JObject [(''requirement'', JString ''list''), (''register'', JBool True)]"
  have r: "rest_call se execute generate_call sample_service = post_generate (generate_call\<lparr>sr_pathParameters :=
      the (capture_loop (splitPath ''/api/ai/generate-tests'') (splitPath (sr_path generate_call)) [])\<rparr>) sample_service"
  proof -
    have "fits ''/api/ai/generate-tests'' (splitPath ''/api/ai/generate-tests'')" by code_simp
    then show ?thesis using rest_call_fits [of "(''POST'', ''/api/ai/generate-tests'', post_generate)" se execute generate_call sample_service]
      by (simp add: rest_routes_def generate_call_def)
  qed
  have "length (json_dump ?body) = 38" "json_dump ?body \<noteq> []" "json_wf ?body" by code_simp+
  moreover from this have "parse_document 64 (json_dump ?body) = Inr ?body" unfolding json_dump_def by (intro parse_document_dump) simp_all
  ultimately have b: "server_request_json (generate_call\<lparr>sr_pathParameters := ps\<rparr>) = Some ?body" for ps by (intro request_json_short) (simp_all add: generate_call_def)
  have parsed: "body_text ''requirement'' [] ?body = ''list''" "body_text ''suite'' ''generated'' ?body = ''generated''"
    "json_find ?body ''max_tests'' = None" "json_find ?body ''register'' \<noteq> None \<and> boolAt ?body ''register'' False" "trim ''list'' = ''list''"
    by code_simp+
  obtain report where v: "validate (spec_validator sample_config) sample_suite = Some (sample_suite, report)" "vr_valid report"
    using sample_validates by blast
  have sv: "service_validator sample_config = spec_validator sample_config"
    by (simp add: service_validator_def spec_validator_def sample_config_def default_config_def default_ai_config_def Let_def)
  obtain reg n where reg: "registerSpecSuite [] sample_suite sample_config = Some (Inr (reg, n))" using sample_registers by blast
  have "su_tests sample_suite = [sample_spec]" by (simp add: sample_suite_def)
  with reg have "reg \<noteq> []"
    by (auto simp: registerSpecSuite_def v register_spec_def registerOrReplace_def Let_def removeSuite_def)
  then show ?thesis unfolding r
    by (simp add: post_generate_def b parsed generateTests_def sample_service_def checked_suite_def sv v register_answer_def reg Let_def)
qed

text \<open>A database with a failing result, and a provider that has an answer for it.\<close>

definition failed_result :: test_result where
  "failed_result = make_result 1757658692417000000 ''api'' ''health'' Failed\<lparr>r_runId := ''f00d''\<rparr>"

definition failed_database :: database where
  "failed_database = empty_database\<lparr>db_runs := [fresh_run_row stored_run], db_results := [result_cells failed_result]\<rparr>"

definition analysing_service :: service where
  "analysing_service = sample_service\<lparr>sv_db := Some failed_database,
     sv_ai := Some \<lparr>ap_enabled = True, ap_generate = (\<lambda>_. None),
       ap_analyse = (\<lambda>_. Some (no_analysis\<lparr>ar_ok := True, ar_suggestedCategory := ''environment''\<rparr>)), ap_health = None\<rparr>\<rparr>"

definition plain_env :: service_env where
  "plain_env = \<lparr>se_now = 0, se_banner = [], se_like = (=), se_avg = (\<lambda>_. 0), se_newestRuns = id, se_byName = id, se_newest = id,
     se_latest = id, se_most = id, se_slowest = id, se_sqlite = [], se_journal = [], se_bytes = None\<rparr>"

lemma failed_result_read: "loadResults (se_byName plain_env) ''f00d'' failed_database = Some [failed_result]"
proof -
  have "column_ok n (JObject [])" "column_ok n (strings_json [])" if "2 \<le> n" for n
    using that by (simp_all add: column_ok_def json_dump_def strings_json_def)
  then have "storable ''f00d'' failed_result"
    by (simp add: failed_result_def make_result_def default_result_def storable_def stamp_ok_def in_int32_def)
  moreover have "tr_runId (result_cells failed_result) = ''f00d''" by (simp add: result_cells_def failed_result_def)
  ultimately show ?thesis by (simp add: loadResults_def failed_database_def plain_env_def result_cells_back)
qed

lemma failed_result_context: "\<exists>evidence. analysis_context plain_env failed_result analysing_service = Some evidence"
proof -
  have "\<exists>doc. context_build default_context_limits failed_result = Inr doc"
    by (simp add: context_build_def failed_result_def make_result_def default_result_def Let_def)
  moreover have "\<exists>hs. testHistory (se_newest plain_env) (r_testId failed_result) 10 failed_database = Some hs"
    by (simp add: testHistory_def failed_database_def plain_env_def result_cells_def read_entry_def failed_result_def
        make_result_def default_result_def stamp_back stamp_ok_def)
  ultimately show ?thesis by (auto simp: analysis_context_def analysing_service_def split: sum.splits)
qed

theorem analysis_keeps_verdict_witness:
  "\<exists>sv' out v db'. analyseFailure plain_env ''f00d'' [] analysing_service = Some (sv', out) \<and> sv_db sv' = Some db' \<and>
     event_added failed_database db' \<and> json_find out ''verdict'' = Some v \<and> json_find v ''status'' = Some (JString ''FAILED'')"
proof -
  obtain evidence where c: "analysis_context plain_env failed_result analysing_service = Some evidence" using failed_result_context by blast
  have fails: "isFailure (r_status failed_result)" "wanted [] failed_result" "r_runId failed_result \<noteq> []" "r_status failed_result = Failed"
    by (simp_all add: failed_result_def make_result_def isFailure_def wanted_def)
  define a where "a = no_analysis\<lparr>ar_ok := True, ar_suggestedCategory := ''environment''\<rparr>"
  define out where "out = analysis_answer_json failed_result a"
  have p: "sv_ai analysing_service = Some \<lparr>ap_enabled = True, ap_generate = (\<lambda>_. None), ap_analyse = (\<lambda>_. Some a), ap_health = None\<rparr>"
    "sv_db analysing_service = Some failed_database" by (simp_all add: analysing_service_def a_def)
  have "\<exists>sv'. analyseResult plain_env failed_result analysing_service = Some (sv', out)"
    using fails(1) by (simp add: analyseResult_def p(1) c Let_def out_def)
  then obtain sv' where sv': "analyseFailure plain_env ''f00d'' [] analysing_service = Some (sv', out)"
    by (auto simp: analyseFailure_def p(2) failed_result_read fails(2))
  have "\<exists>v. json_find out ''verdict'' = Some v" by (simp add: out_def analysis_answer_json_def json_find_obj_of)
  then obtain v where v: "json_find out ''verdict'' = Some v" by blast
  from analysis_keeps_verdict [OF sv'] v obtain db results r where "only_events analysing_service sv'"
    "sv_db analysing_service = Some db" "loadResults (se_byName plain_env) ''f00d'' db = Some results" "r \<in> set results"
    "json_find v ''status'' = Some (JString (status_str (r_status r)))" by blast
  moreover from this p(2) failed_result_read have "r = failed_result" by auto
  moreover have "status_str Failed = ''FAILED''" by simp
  ultimately have "only_events analysing_service sv'" "json_find v ''status'' = Some (JString ''FAILED'')" using fails(4) by simp_all
  then show ?thesis using sv' v p(2) by (auto simp: only_events_def option_rel_Some1)
qed

text \<open>A test of the suite \<open>a.b\<close> asked for by its qualified name is looked up in the suite \<open>a\<close>.\<close>

lemma dotted_history: "resolve_test ''a.b.c'' = testId ''a'' ''b.c''"
  by (simp add: resolve_test_def)

end
