(* ===== verification/Child_Process.thy ===== *)
theory Child_Process
  imports Gpu_Providers Execution
begin

text \<open>
  External programs (\<open>src/core/Process.cpp\<close>, the POSIX part).

  What the file system says of a path, what the system calls return on every pass of the loop of the
  parent, and the clock (in nanoseconds) are observations. The signals that are sent, the argument
  vector and the environment of the child are part of the result.
\<close>

section \<open>Arguments and the search for the program\<close>

definition isSafeArgument :: "string \<Rightarrow> bool" where
  "isSafeArgument argument \<longleftrightarrow> CHR 0x00 \<notin> set argument \<and> CHR 0x0A \<notin> set argument"

text \<open>What \<open>stat\<close> and \<open>access\<close> say of a path: whether it is a regular file, and one we may execute.\<close>

type_synonym path_stat = "string \<Rightarrow> (bool \<times> bool) option"

definition isExecutableFile :: "path_stat \<Rightarrow> string \<Rightarrow> bool" where
  "isExecutableFile fs path \<longleftrightarrow> fs (c_str path) = Some (True, True)"

definition path_candidate :: "string \<Rightarrow> string \<Rightarrow> string" where
  "path_candidate executable dir = (if dir \<noteq> [] \<and> last dir \<noteq> CHR ''/'' then dir @ ''/'' else dir) @ executable"

definition which :: "path_stat \<Rightarrow> environ \<Rightarrow> string \<Rightarrow> string" where
  "which fs env executable =
     (if executable = [] then []
      else if CHR ''/'' \<in> set executable then (if isExecutableFile fs executable then executable else [])
      else (case find (isExecutableFile fs) (map (path_candidate executable)
              (split (env_getOr ''PATH'' ''/usr/local/bin:/usr/bin:/bin'' env) CHR '':'' True)) of
          Some candidate \<Rightarrow> candidate
        | None \<Rightarrow> []))"

definition process_isAvailable :: "path_stat \<Rightarrow> environ \<Rightarrow> string \<Rightarrow> bool" where
  "process_isAvailable fs env executable \<longleftrightarrow> which fs env executable \<noteq> []"

section \<open>Reading a pipe\<close>

datatype pipe_read = Bytes string | PipeEnd | ReadInterrupted | WouldBlock | PipeError

text \<open>\<open>drain_pipe\<close>: whether the pipe stays open, what has been read, and whether the cap was hit.\<close>

fun drain_pipe :: "nat \<Rightarrow> pipe_read list \<Rightarrow> string \<Rightarrow> bool \<Rightarrow> (bool \<times> string \<times> bool) option" where
  "drain_pipe maxBytes [] sink capped = None"
| "drain_pipe maxBytes (Bytes t # rs) sink capped =
     (if maxBytes < length sink + length t then Some (False, sink @ take (maxBytes - length sink) t, True)
      else drain_pipe maxBytes rs (sink @ t) capped)"
| "drain_pipe maxBytes (PipeEnd # rs) sink capped = Some (False, sink, capped)"
| "drain_pipe maxBytes (ReadInterrupted # rs) sink capped = drain_pipe maxBytes rs sink capped"
| "drain_pipe maxBytes (WouldBlock # rs) sink capped = Some (True, sink, capped)"
| "drain_pipe maxBytes (PipeError # rs) sink capped = Some (False, sink, capped)"

section \<open>The loop of the parent\<close>

record process_options =
  px_timeout :: i64
  px_killGrace :: i64
  px_maxOutputBytes :: nat
  px_captureStandardError :: bool
  px_extraEnvironment :: "(string \<times> string) list"
  px_workingDirectory :: string

definition default_process_options :: process_options where
  "default_process_options = \<lparr>px_timeout = 5000, px_killGrace = 500, px_maxOutputBytes = 1024 * 1024, px_captureStandardError = True,
     px_extraEnvironment = [], px_workingDirectory = []\<rparr>"

datatype child_signal = SigTerm | SigKill

datatype wait_status = Exited int | KilledBy int | OtherStatus

text \<open>\<open>waitpid\<close> without waiting: the child runs on, the call was interrupted, it failed, or the child is reaped.\<close>

datatype wait_result = StillRunning | WaitInterrupted | WaitFailed | Reaped wait_status

text \<open>A pass: what is read from a pipe that is ready, and after the end of the child; then the clock.\<close>

record pass_obs =
  pa_out :: "pipe_read list option"
  pa_err :: "pipe_read list option"
  pa_wait :: wait_result
  pa_lastOut :: "pipe_read list"
  pa_lastErr :: "pipe_read list"
  pa_now :: int

record child_state =
  ch_out :: string
  ch_err :: string
  ch_outOpen :: bool
  ch_errOpen :: bool
  ch_capped :: bool
  ch_timedOut :: bool
  ch_killAt :: "int option"
  ch_hardKill :: bool
  ch_signals :: "child_signal list"

definition new_child :: "process_options \<Rightarrow> child_state" where
  "new_child opts = \<lparr>ch_out = [], ch_err = [], ch_outOpen = True, ch_errOpen = px_captureStandardError opts, ch_capped = False,
     ch_timedOut = False, ch_killAt = None, ch_hardKill = False, ch_signals = []\<rparr>"

definition drain_out :: "process_options \<Rightarrow> pipe_read list option \<Rightarrow> child_state \<Rightarrow> child_state option" where
  "drain_out opts reads c =
     (case reads of
        None \<Rightarrow> Some c
      | Some rs \<Rightarrow>
          if \<not> ch_outOpen c then Some c
          else map_option (\<lambda>(stays, sink, capped). c\<lparr>ch_outOpen := stays, ch_out := sink, ch_capped := capped\<rparr>)
            (drain_pipe (px_maxOutputBytes opts) rs (ch_out c) (ch_capped c)))"

definition drain_err :: "process_options \<Rightarrow> pipe_read list option \<Rightarrow> child_state \<Rightarrow> child_state option" where
  "drain_err opts reads c =
     (case reads of
        None \<Rightarrow> Some c
      | Some rs \<Rightarrow>
          if \<not> ch_errOpen c then Some c
          else map_option (\<lambda>(stays, sink, capped). c\<lparr>ch_errOpen := stays, ch_err := sink, ch_capped := capped\<rparr>)
            (drain_pipe (px_maxOutputBytes opts) rs (ch_err c) (ch_capped c)))"

definition drain_both :: "process_options \<Rightarrow> pipe_read list option \<Rightarrow> pipe_read list option \<Rightarrow> child_state \<Rightarrow> child_state option" where
  "drain_both opts out err c = Option.bind (drain_out opts out c) (drain_err opts err)"

text \<open>The deadline is looked at: SIGTERM first, SIGKILL when the grace has passed.\<close>

definition send_signals :: "process_options \<Rightarrow> int \<Rightarrow> int \<Rightarrow> child_state \<Rightarrow> child_state option" where
  "send_signals opts deadline now c =
     (let expired = 0 < sint (px_timeout opts) \<and> deadline \<le> now
      in case ch_killAt c of
           None \<Rightarrow>
             if expired \<or> ch_capped c
             then map_option (\<lambda>killAt. c\<lparr>ch_timedOut := expired, ch_killAt := Some killAt, ch_signals := ch_signals c @ [SigTerm]\<rparr>)
               (deadline_of now (px_killGrace opts))
             else Some c
         | Some killAt \<Rightarrow>
             if \<not> ch_hardKill c \<and> killAt \<le> now then Some (c\<lparr>ch_hardKill := True, ch_signals := ch_signals c @ [SigKill]\<rparr>)
             else Some c)"

text \<open>
  The passes until the child is reaped, or \<open>waitpid\<close> fails: the state and the status. No result means
  that the observations end first, or that a point in time is out of range.
\<close>

fun child_loop :: "process_options \<Rightarrow> int \<Rightarrow> pass_obs list \<Rightarrow> child_state \<Rightarrow> (child_state \<times> wait_status option) option" where
  "child_loop opts deadline [] c = None"
| "child_loop opts deadline (p # ps) c =
     (case drain_both opts (pa_out p) (pa_err p) c of
        None \<Rightarrow> None
      | Some c \<Rightarrow>
          (case pa_wait p of
             Reaped status \<Rightarrow> map_option (\<lambda>c. (c, Some status)) (drain_both opts (Some (pa_lastOut p)) (Some (pa_lastErr p)) c)
           | WaitFailed \<Rightarrow> Some (c, None)
           | _ \<Rightarrow> (case send_signals opts deadline (pa_now p) c of None \<Rightarrow> None | Some c \<Rightarrow> child_loop opts deadline ps c)))"

section \<open>A run\<close>

text \<open>What the child is started with; its environment is that of the parent unless variables are added.\<close>

definition child_argv :: "string \<Rightarrow> string list \<Rightarrow> string list" where
  "child_argv resolved arguments = map c_str (resolved # arguments)"

definition child_environment :: "environ \<Rightarrow> process_options \<Rightarrow> environ" where
  "child_environment env opts =
     (if px_extraEnvironment opts = [] then env
      else env @ map (\<lambda>(key, v). c_str (key @ ''='' @ v)) (px_extraEnvironment opts))"

record spawn_obs =
  sp_stat :: path_stat
  sp_pipeError :: "string option"
  sp_forkError :: "string option"
  sp_start :: int
  sp_passes :: "pass_obs list"
  sp_final :: "wait_status option"
  sp_duration :: int

record spawned =
  sw_argv :: "string list"
  sw_environment :: environ
  sw_signals :: "child_signal list"

definition not_started :: "string \<Rightarrow> process_result" where
  "not_started reason = \<lparr>pr_exitCode = - 1, pr_timedOut = False, pr_signalled = False, pr_signalNumber = 0, pr_started = False,
     pr_stdout = [], pr_stderr = [], pr_duration = 0, pr_launchError = reason\<rparr>"

text \<open>The status starts as 0, which reads as an exit with code 0, and stays so when no call of \<open>waitpid\<close> succeeds.\<close>

definition final_status :: "wait_status option \<Rightarrow> wait_status option \<Rightarrow> wait_status" where
  "final_status reaped final = (case reaped of Some s \<Rightarrow> s | None \<Rightarrow> (case final of Some s \<Rightarrow> s | None \<Rightarrow> Exited 0))"

definition with_status :: "wait_status \<Rightarrow> process_result \<Rightarrow> process_result" where
  "with_status s r =
     (case s of
        Exited code \<Rightarrow> r\<lparr>pr_exitCode := code\<rparr>
      | KilledBy n \<Rightarrow> r\<lparr>pr_signalled := True, pr_signalNumber := n, pr_exitCode := 128 + n\<rparr>
      | OtherStatus \<Rightarrow> r)"

definition truncated_note :: "process_options \<Rightarrow> string" where
  "truncated_note opts = CHR 0x0A # ''[testforge] output truncated at '' @ show_nat (px_maxOutputBytes opts) @ '' bytes''"

definition child_result :: "process_options \<Rightarrow> int \<Rightarrow> child_state \<Rightarrow> wait_status \<Rightarrow> process_result" where
  "child_result opts duration c status =
     with_status status
       ((not_started [])\<lparr>pr_started := True, pr_timedOut := ch_timedOut c, pr_stdout := ch_out c,
          pr_stderr := (if ch_capped c \<and> \<not> ch_timedOut c then ch_err c @ truncated_note opts else ch_err c), pr_duration := duration\<rparr>)"

definition process_run :: "spawn_obs \<Rightarrow> environ \<Rightarrow> string \<Rightarrow> string list \<Rightarrow> process_options \<Rightarrow> (process_result \<times> spawned option) option" where
  "process_run ob env executable arguments opts =
     (let resolved = which (sp_stat ob) env executable; refuse = (\<lambda>reason. Some (not_started reason, None))
      in if \<not> isSafeArgument executable then refuse ''executable name contains an illegal character''
         else if \<not> list_all isSafeArgument arguments then refuse ''argument contains an illegal character''
         else if resolved = [] then refuse (''executable not found on PATH: '' @ executable)
         else case (sp_pipeError ob, sp_forkError ob) of
           (Some e, _) \<Rightarrow> refuse (''pipe() failed: '' @ e)
         | (None, Some e) \<Rightarrow> refuse (''fork() failed: '' @ e)
         | (None, None) \<Rightarrow>
             (case deadline_of (sp_start ob) (px_timeout opts) of
                None \<Rightarrow> None
              | Some deadline \<Rightarrow>
                  map_option (\<lambda>(c, reaped).
                      (child_result opts (sp_duration ob) c (final_status reaped (sp_final ob)),
                       Some \<lparr>sw_argv = child_argv resolved arguments, sw_environment = child_environment env opts,
                         sw_signals = (if reaped = None then ch_signals c @ [SigKill] else ch_signals c)\<rparr>))
                    (child_loop opts deadline (sp_passes ob) (new_child opts))))"

section \<open>The cap on output and the signals\<close>

lemma drain_capped: "drain_pipe n rs sink capped = Some (stays, sink', capped') \<Longrightarrow> length sink \<le> n \<Longrightarrow> length sink' \<le> n \<and> (capped \<longrightarrow> capped')"
  by (induction n rs sink capped rule: drain_pipe.induct) (auto split: if_splits)

text \<open>What holds of the child after every pass.\<close>

definition signals_sent :: "child_state \<Rightarrow> child_signal list" where
  "signals_sent c = (if ch_killAt c = None then [] else if ch_hardKill c then [SigTerm, SigKill] else [SigTerm])"

definition child_ok :: "process_options \<Rightarrow> child_state \<Rightarrow> bool" where
  "child_ok opts c \<longleftrightarrow> length (ch_out c) \<le> px_maxOutputBytes opts \<and> length (ch_err c) \<le> px_maxOutputBytes opts
     \<and> ch_signals c = signals_sent c \<and> (ch_hardKill c \<longrightarrow> ch_killAt c \<noteq> None) \<and> (ch_timedOut c \<longrightarrow> ch_killAt c \<noteq> None)"

definition same_signals :: "child_state \<Rightarrow> child_state \<Rightarrow> bool" where
  "same_signals c c' \<longleftrightarrow> ch_killAt c' = ch_killAt c \<and> ch_hardKill c' = ch_hardKill c \<and> ch_signals c' = ch_signals c \<and> ch_timedOut c' = ch_timedOut c"

lemma drain_out_ok: "drain_out opts rs c = Some c' \<Longrightarrow> child_ok opts c \<Longrightarrow> child_ok opts c' \<and> same_signals c c'"
  by (auto simp: drain_out_def child_ok_def same_signals_def signals_sent_def dest: drain_capped split: option.splits if_splits)

lemma drain_err_ok: "drain_err opts rs c = Some c' \<Longrightarrow> child_ok opts c \<Longrightarrow> child_ok opts c' \<and> same_signals c c'"
  by (auto simp: drain_err_def child_ok_def same_signals_def signals_sent_def dest: drain_capped split: option.splits if_splits)

lemma drain_both_ok:
  assumes "drain_both opts out err c = Some c'" "child_ok opts c" shows "child_ok opts c' \<and> same_signals c c'"
proof -
  from assms(1) obtain d where d: "drain_out opts out c = Some d" "drain_err opts err d = Some c'"
    by (auto simp: drain_both_def bind_eq_Some_conv)
  from drain_out_ok [OF d(1) assms(2)] drain_err_ok [OF d(2)] show ?thesis by (auto simp: same_signals_def)
qed

lemma send_signals_ok: "send_signals opts deadline now c = Some c' \<Longrightarrow> child_ok opts c \<Longrightarrow> child_ok opts c'"
  by (auto simp: send_signals_def child_ok_def signals_sent_def Let_def split: option.splits if_splits)

text \<open>The passes after which the loop goes on.\<close>

definition goes_on :: "pass_obs \<Rightarrow> bool" where
  "goes_on p \<longleftrightarrow> pa_wait p = StillRunning \<or> pa_wait p = WaitInterrupted"

lemma child_loop_goes_on:
  "goes_on p \<Longrightarrow> child_loop opts deadline (p # ps) c =
     Option.bind (drain_both opts (pa_out p) (pa_err p) c)
       (\<lambda>c. Option.bind (send_signals opts deadline (pa_now p) c) (child_loop opts deadline ps))"
  by (auto simp: goes_on_def bind_def split: option.splits)

lemma child_loop_ends:
  assumes "\<not> goes_on p" "child_loop opts deadline (p # ps) c = Some (c', st)" "child_ok opts c"
  shows "child_ok opts c' \<and> same_signals c c'"
proof -
  from assms(2) obtain d where d: "drain_both opts (pa_out p) (pa_err p) c = Some d" by (auto split: option.splits)
  from drain_both_ok [OF this assms(3)] have ok: "child_ok opts d" "same_signals c d" by auto
  from assms d have "c' = d \<or> drain_both opts (Some (pa_lastOut p)) (Some (pa_lastErr p)) d = Some c'"
    by (cases "pa_wait p") (auto simp: goes_on_def)
  with ok drain_both_ok [OF _ ok(1)] show ?thesis by (auto simp: same_signals_def)
qed

text \<open>What is sent stays sent.\<close>

definition no_less :: "child_state \<Rightarrow> child_state \<Rightarrow> bool" where
  "no_less c c' \<longleftrightarrow> (\<forall>k. ch_killAt c = Some k \<longrightarrow> ch_killAt c' = Some k) \<and> (ch_hardKill c \<longrightarrow> ch_hardKill c')"

lemma send_signals_no_less: "send_signals opts deadline now c = Some c' \<Longrightarrow> no_less c c'"
  by (auto simp: send_signals_def no_less_def Let_def split: option.splits if_splits)

lemma child_loop_ok:
  "child_loop opts deadline ps c = Some (c', st) \<Longrightarrow> child_ok opts c \<Longrightarrow> child_ok opts c' \<and> no_less c c'"
proof (induction ps arbitrary: c)
  case (Cons p ps)
  show ?case
  proof (cases "goes_on p")
    case True
    with Cons.prems(1) obtain d e where d: "drain_both opts (pa_out p) (pa_err p) c = Some d"
      and e: "send_signals opts deadline (pa_now p) d = Some e" and loop: "child_loop opts deadline ps e = Some (c', st)"
      by (auto simp: child_loop_goes_on bind_eq_Some_conv simp del: child_loop.simps)
    from drain_both_ok [OF d Cons.prems(2)] have "child_ok opts d" "same_signals c d" by auto
    with Cons.IH [OF loop send_signals_ok [OF e]] send_signals_no_less [OF e] show ?thesis
      by (auto simp: same_signals_def no_less_def)
  next
    case False
    from child_loop_ends [OF this Cons.prems] show ?thesis by (auto simp: same_signals_def no_less_def)
  qed
qed simp

lemma send_signals_term:
  "send_signals opts deadline now c = Some c' \<Longrightarrow> 0 < sint (px_timeout opts) \<Longrightarrow> deadline \<le> now \<Longrightarrow> ch_killAt c' \<noteq> None"
  by (auto simp: send_signals_def Let_def split: option.splits if_splits)

lemma deadline_of_grace: "deadline_of now ms = Some k \<Longrightarrow> k = now + sint ms * 1000000"
  by (auto simp: deadline_of_def Let_def split: if_splits)

lemma send_signals_killAt:
  "send_signals opts deadline now c = Some c' \<Longrightarrow> ch_killAt c' = Some k \<Longrightarrow>
   ch_killAt c = Some k \<or> k = now + sint (px_killGrace opts) * 1000000"
  by (auto simp: send_signals_def Let_def dest: deadline_of_grace split: option.splits if_splits)

lemma send_signals_kill: "send_signals opts deadline now c = Some c' \<Longrightarrow> ch_killAt c = Some k \<Longrightarrow> k \<le> now \<Longrightarrow> ch_hardKill c'"
  by (auto simp: send_signals_def Let_def split: option.splits if_splits)

abbreviation grace :: "process_options \<Rightarrow> int" where
  "grace opts \<equiv> sint (px_killGrace opts) * 1000000"

definition kill_in_reach :: "process_options \<Rightarrow> pass_obs list \<Rightarrow> child_state \<Rightarrow> bool" where
  "kill_in_reach opts ps c \<longleftrightarrow> (\<forall>k. ch_killAt c = Some k \<longrightarrow> (\<forall>x \<in> set (takeWhile goes_on ps). k \<le> pa_now x + grace opts))"

text \<open>One pass that goes on.\<close>

lemma child_loop_pass:
  assumes "child_loop opts deadline (p # ps) c = Some (c', st)" "child_ok opts c" "goes_on p"
  obtains d e where "same_signals c d" "send_signals opts deadline (pa_now p) d = Some e" "child_ok opts e" "no_less c e"
    "child_loop opts deadline ps e = Some (c', st)"
proof -
  from assms(1,3) obtain d e where d: "drain_both opts (pa_out p) (pa_err p) c = Some d"
    and e: "send_signals opts deadline (pa_now p) d = Some e" and loop: "child_loop opts deadline ps e = Some (c', st)"
    by (auto simp: child_loop_goes_on bind_eq_Some_conv simp del: child_loop.simps)
  from drain_both_ok [OF d assms(2)] send_signals_ok [OF e] send_signals_no_less [OF e] show ?thesis
    by (intro that [OF _ e _ _ loop]) (auto simp: same_signals_def no_less_def)
qed

lemma hard_kill_sent:
  assumes "child_loop opts deadline ps c = Some (c', st)" "child_ok opts c" "ch_killAt c = Some k"
    "q \<in> set (takeWhile goes_on ps)" "k \<le> pa_now q"
  shows "ch_hardKill c'"
  using assms
proof (induction ps arbitrary: c)
  case (Cons p ps)
  from Cons.prems(4) have p: "goes_on p" by (auto split: if_splits)
  obtain d e where d: "same_signals c d" and e: "send_signals opts deadline (pa_now p) d = Some e" and ok: "child_ok opts e"
    and less: "no_less c e" and loop: "child_loop opts deadline ps e = Some (c', st)"
    by (rule child_loop_pass [OF Cons.prems(1,2) p])
  show ?case
  proof (cases "q = p")
    case True
    with d Cons.prems(3,5) send_signals_kill [OF e, of k] have "ch_hardKill e" by (simp add: same_signals_def)
    with child_loop_ok [OF loop ok] show ?thesis by (simp add: no_less_def)
  next
    case False
    with Cons.prems(3-5) p less show ?thesis by (intro Cons.IH [OF loop ok]) (auto simp: no_less_def)
  qed
qed simp

lemma term_sent:
  assumes "child_loop opts deadline ps c = Some (c', st)" "child_ok opts c" "0 < sint (px_timeout opts)"
    "takeWhile goes_on ps = as @ p # bs" "deadline \<le> pa_now p" "sorted (map pa_now (as @ p # bs))" "kill_in_reach opts ps c"
  shows "ch_killAt c' \<noteq> None \<and> ((\<exists>q \<in> set bs. pa_now p + grace opts \<le> pa_now q) \<longrightarrow> ch_hardKill c')"
  using assms
proof (induction as arbitrary: ps c)
  case Nil
  from Nil.prems(4) obtain rest where ps: "ps = p # rest" "goes_on p" "takeWhile goes_on rest = bs"
    by (cases ps) (auto split: if_splits)
  obtain d e where d: "same_signals c d" and e: "send_signals opts deadline (pa_now p) d = Some e" and ok: "child_ok opts e"
    and loop: "child_loop opts deadline rest e = Some (c', st)"
    by (rule child_loop_pass [OF Nil.prems(1) [unfolded ps(1)] Nil.prems(2) ps(2)])
  from send_signals_term [OF e Nil.prems(3,5)] obtain k where k: "ch_killAt e = Some k" by auto
  with send_signals_killAt [OF e k] d Nil.prems(7) ps have "k \<le> pa_now p + grace opts"
    by (auto simp: kill_in_reach_def same_signals_def)
  with hard_kill_sent [OF loop ok k] child_loop_ok [OF loop ok] k ps(3) show ?case
    by (auto simp: no_less_def)
next
  case (Cons a as)
  from Cons.prems(4) obtain rest where ps: "ps = a # rest" "goes_on a" "takeWhile goes_on rest = as @ p # bs"
    by (cases ps) (auto split: if_splits)
  obtain d e where d: "same_signals c d" and e: "send_signals opts deadline (pa_now a) d = Some e" and ok: "child_ok opts e"
    and loop: "child_loop opts deadline rest e = Some (c', st)"
    by (rule child_loop_pass [OF Cons.prems(1) [unfolded ps(1)] Cons.prems(2) ps(2)])
  have "kill_in_reach opts rest e"
    unfolding kill_in_reach_def
  proof (intro allI impI ballI)
    fix k x assume k: "ch_killAt e = Some k" and x: "x \<in> set (takeWhile goes_on rest)"
    from Cons.prems(6) x ps(3) have "pa_now a \<le> pa_now x" by auto
    with send_signals_killAt [OF e k] d Cons.prems(7) ps x show "k \<le> pa_now x + grace opts"
      by (auto simp: kill_in_reach_def same_signals_def)
  qed
  with Cons.prems ps(3) show ?case by (intro Cons.IH [OF loop ok]) auto
qed

lemma child_ok_new: "child_ok opts (new_child opts)"
  by (simp add: child_ok_def new_child_def signals_sent_def)

lemma process_run_started:
  assumes "process_run ob env executable arguments opts = Some (r, Some sw)"
  obtains deadline c reaped where "deadline_of (sp_start ob) (px_timeout opts) = Some deadline"
    "child_loop opts deadline (sp_passes ob) (new_child opts) = Some (c, reaped)"
    "r = child_result opts (sp_duration ob) c (final_status reaped (sp_final ob))"
    "sw = \<lparr>sw_argv = child_argv (which (sp_stat ob) env executable) arguments, sw_environment = child_environment env opts,
       sw_signals = (if reaped = None then ch_signals c @ [SigKill] else ch_signals c)\<rparr>"
    "isSafeArgument executable" "list_all isSafeArgument arguments" "which (sp_stat ob) env executable \<noteq> []"
  using assms by (auto simp: process_run_def Let_def split: if_splits option.splits)

text \<open>A child that ignores SIGTERM, writes more than it may, and dies of SIGKILL.\<close>

definition stubborn_options :: process_options where
  "stubborn_options = \<lparr>px_timeout = 5000, px_killGrace = 500, px_maxOutputBytes = 8, px_captureStandardError = True,
     px_extraEnvironment = [], px_workingDirectory = []\<rparr>"

definition quiet_pass :: "int \<Rightarrow> pass_obs" where
  "quiet_pass now = \<lparr>pa_out = None, pa_err = None, pa_wait = StillRunning, pa_lastOut = [], pa_lastErr = [], pa_now = now\<rparr>"

definition stubborn_run :: spawn_obs where
  "stubborn_run = \<lparr>sp_stat = (\<lambda>path. if path = ''/bin/yes'' then Some (True, True) else None), sp_pipeError = None, sp_forkError = None,
     sp_start = 0,
     sp_passes = [quiet_pass 5000000000, quiet_pass 5600000000,
       (quiet_pass 5700000000)\<lparr>pa_wait := Reaped (KilledBy 9), pa_lastOut := [Bytes ''yyyyyyyyyyyy''], pa_lastErr := [PipeEnd]\<rparr>],
     sp_final = None, sp_duration = 5700\<rparr>"

lemma stubborn_child:
  "process_run stubborn_run [''PATH=/usr/bin:/bin''] ''yes'' [''y''] stubborn_options =
     Some (\<lparr>pr_exitCode = 137, pr_timedOut = True, pr_signalled = True, pr_signalNumber = 9, pr_started = True, pr_stdout = ''yyyyyyyy'',
         pr_stderr = [], pr_duration = 5700, pr_launchError = []\<rparr>,
       Some \<lparr>sw_argv = [''/bin/yes'', ''y''], sw_environment = [''PATH=/usr/bin:/bin''], sw_signals = [SigTerm, SigKill]\<rparr>)"
  by code_simp

text \<open>
  C36. The output of a child is bounded, whatever it writes: neither stream exceeds the cap, apart from the
  note on the truncation at the end of the second.
\<close>

theorem child_output_capped:
  assumes "process_run ob env executable arguments opts = Some (r, sw)"
  shows "length (pr_stdout r) \<le> px_maxOutputBytes opts \<and>
    (length (pr_stderr r) \<le> px_maxOutputBytes opts
     \<or> (\<exists>t. length t \<le> px_maxOutputBytes opts \<and> pr_stderr r = t @ truncated_note opts))"
proof (cases sw)
  case None
  with assms have "\<exists>reason. r = not_started reason" by (auto simp: process_run_def Let_def split: if_splits option.splits)
  then show ?thesis by (auto simp: not_started_def)
next
  case (Some s)
  obtain deadline c reaped where loop: "child_loop opts deadline (sp_passes ob) (new_child opts) = Some (c, reaped)"
    and r: "r = child_result opts (sp_duration ob) c (final_status reaped (sp_final ob))"
    by (rule process_run_started [OF assms [unfolded Some]])
  from child_loop_ok [OF loop child_ok_new] have "child_ok opts c" by simp
  moreover have "pr_stdout r = ch_out c \<and> pr_stderr r = (if ch_capped c \<and> \<not> ch_timedOut c then ch_err c @ truncated_note opts else ch_err c)"
    by (auto simp: r child_result_def with_status_def split: wait_status.splits)
  ultimately show ?thesis by (auto simp: child_ok_def)
qed

theorem child_output_capped_witness:
  "\<exists>r sw. process_run stubborn_run [''PATH=/usr/bin:/bin''] ''yes'' [''y''] stubborn_options = Some (r, sw) \<and> length (pr_stdout r) \<le> 8"
  using child_output_capped [OF stubborn_child] stubborn_child by (fastforce simp: stubborn_options_def)

text \<open>The search for the program, and arguments as C strings.\<close>

lemma c_str_safe: "isSafeArgument a \<Longrightarrow> c_str a = a"
proof -
  assume "isSafeArgument a"
  then have "byte x \<noteq> 0" if "x \<in> set a" for x
    using that of_char_eq_iff [of x "CHR 0x00", where 'a = nat] by (auto simp: isSafeArgument_def byte_def)
  then show ?thesis by (auto simp: c_str_def takeWhile_eq_all_conv)
qed

lemma find_member: "find P xs = Some y \<Longrightarrow> y \<in> set xs \<and> P y"
  by (auto simp: find_Some_iff)

lemma which_executable: "which fs env executable \<noteq> [] \<Longrightarrow> isExecutableFile fs (which fs env executable)"
  by (auto simp: which_def dest: find_member split: if_splits option.splits)

lemma which_place:
  "which fs env executable \<noteq> [] \<Longrightarrow> which fs env executable = executable \<and> CHR ''/'' \<in> set executable
   \<or> CHR ''/'' \<notin> set executable \<and> (\<exists>dir \<in> set (split (env_getOr ''PATH'' ''/usr/local/bin:/usr/bin:/bin'' env) CHR '':'' True).
       which fs env executable = path_candidate executable dir)"
  by (auto simp: which_def dest!: find_member split: if_splits option.splits)

text \<open>
  C16. The arguments reach the child as they are: no shell sees them. A child is only started when no
  argument has a NUL or a line feed; its program is a regular file that may be executed, the path that was
  given or the name in a directory of \<open>PATH\<close>, and the rest of its argument vector is the list of arguments.
\<close>

theorem child_arguments_intact:
  assumes "process_run ob env executable arguments opts = Some (r, Some sw)"
  shows "sw_argv sw = c_str (which (sp_stat ob) env executable) # arguments \<and> list_all isSafeArgument (executable # arguments)
    \<and> isExecutableFile (sp_stat ob) (which (sp_stat ob) env executable)
    \<and> (which (sp_stat ob) env executable = executable \<and> CHR ''/'' \<in> set executable
       \<or> (\<exists>dir \<in> set (split (env_getOr ''PATH'' ''/usr/local/bin:/usr/bin:/bin'' env) CHR '':'' True).
            which (sp_stat ob) env executable = path_candidate executable dir))"
proof -
  from assms have sw: "sw_argv sw = child_argv (which (sp_stat ob) env executable) arguments" "isSafeArgument executable"
    "list_all isSafeArgument arguments" "which (sp_stat ob) env executable \<noteq> []"
    by (auto elim!: process_run_started)
  then have "map c_str arguments = arguments" by (simp add: map_idI c_str_safe list_all_iff)
  with sw which_executable [OF sw(4)] which_place [OF sw(4)] show ?thesis by (auto simp: child_argv_def)
qed

theorem child_arguments_intact_witness:
  "\<exists>r sw. process_run stubborn_run [''PATH=/usr/bin:/bin''] ''yes'' [''y''] stubborn_options = Some (r, Some sw)
     \<and> tl (sw_argv sw) = [''y'']"
  using child_arguments_intact [OF stubborn_child] stubborn_child by fastforce

text \<open>When SIGKILL is sent in the loop, the grace has passed since an earlier pass.\<close>

lemma send_signals_cases:
  assumes "send_signals opts deadline now c = Some c'" "\<not> ch_hardKill c"
  shows "(case ch_killAt c of
      Some k \<Rightarrow> if k \<le> now then ch_hardKill c' else ch_killAt c' = Some k \<and> \<not> ch_hardKill c'
    | None \<Rightarrow> \<not> ch_hardKill c' \<and> (ch_killAt c' = None \<or> ch_killAt c' = Some (now + grace opts)))"
  using assms by (auto simp: send_signals_def Let_def dest: deadline_of_grace split: option.splits if_splits)

lemma hard_kill_cause:
  assumes "child_loop opts deadline ps c = Some (c', st)" "child_ok opts c" "\<not> ch_hardKill c" "ch_hardKill c'"
  shows "case ch_killAt c of
      Some k \<Rightarrow> \<exists>q \<in> set (takeWhile goes_on ps). k \<le> pa_now q
    | None \<Rightarrow> \<exists>as p bs. takeWhile goes_on ps = as @ p # bs \<and> (\<exists>q \<in> set bs. pa_now p + grace opts \<le> pa_now q)"
  using assms
proof (induction ps arbitrary: c)
  case (Cons p ps)
  show ?case
  proof (cases "goes_on p")
    case False
    from child_loop_ends [OF this Cons.prems(1,2)] Cons.prems(3,4) show ?thesis by (simp add: same_signals_def)
  next
    case True
    obtain d e where d: "same_signals c d" and e: "send_signals opts deadline (pa_now p) d = Some e" and ok: "child_ok opts e"
      and loop: "child_loop opts deadline ps e = Some (c', st)"
      by (rule child_loop_pass [OF Cons.prems(1,2) True])
    have "\<not> ch_hardKill d" using d Cons.prems(3) by (simp add: same_signals_def)
    note one = send_signals_cases [OF e this] and IH = Cons.IH [OF loop ok _ Cons.prems(4)]
    show ?thesis
    proof (cases "ch_killAt c")
      case (Some k)
      with d have "ch_killAt d = Some k" by (simp add: same_signals_def)
      with one IH True Some show ?thesis by (cases "k \<le> pa_now p") auto
    next
      case unsent: None
      with d have dn: "ch_killAt d = None" by (simp add: same_signals_def)
      show ?thesis
      proof (cases "ch_killAt e")
        case None
        with one dn IH obtain as p' bs where "takeWhile goes_on ps = as @ p' # bs"
          "\<exists>q \<in> set bs. pa_now p' + grace opts \<le> pa_now q" by auto
        then have "takeWhile goes_on (p # ps) = (p # as) @ p' # bs \<and> (\<exists>q \<in> set bs. pa_now p' + grace opts \<le> pa_now q)"
          using True by simp
        then show ?thesis unfolding unsent option.case by blast
      next
        case (Some k)
        with one dn IH have "\<exists>q \<in> set (takeWhile goes_on ps). pa_now p + grace opts \<le> pa_now q" by auto
        then have "takeWhile goes_on (p # ps) = [] @ p # takeWhile goes_on ps \<and>
            (\<exists>q \<in> set (takeWhile goes_on ps). pa_now p + grace opts \<le> pa_now q)" using True by simp
        then show ?thesis unfolding unsent option.case by blast
      qed
    qed
  qed
qed simp

text \<open>The child is lost: the first call of \<open>waitpid\<close> that says anything fails.\<close>

definition wait_lost :: "pass_obs list \<Rightarrow> bool" where
  "wait_lost ps \<longleftrightarrow> (case dropWhile goes_on ps of [] \<Rightarrow> False | p # _ \<Rightarrow> pa_wait p = WaitFailed)"

lemma child_loop_lost: "child_loop opts deadline ps c = Some (c', reaped) \<Longrightarrow> reaped = None \<longleftrightarrow> wait_lost ps"
proof (induction ps arbitrary: c)
  case (Cons p ps)
  show ?case
  proof (cases "goes_on p")
    case True
    with Cons obtain e where "child_loop opts deadline ps e = Some (c', reaped)"
      by (auto simp: child_loop_goes_on bind_eq_Some_conv simp del: child_loop.simps)
    from Cons.IH [OF this] True show ?thesis by (simp add: wait_lost_def)
  next
    case False
    with Cons.prems show ?thesis by (cases "pa_wait p") (auto simp: wait_lost_def goes_on_def split: option.splits)
  qed
qed simp

text \<open>
  C15. A child with a time limit that outlives it is stopped. If the child still runs at a pass after the
  deadline it has been sent SIGTERM, once, and if it still runs at a pass when the grace has passed
  since, SIGKILL after it, once; SIGKILL comes no earlier than the grace after a pass at which the child
  still ran. Nothing else is sent, but one more SIGKILL at the end if \<open>waitpid\<close> fails.
\<close>

theorem child_stopped:
  assumes "process_run ob env executable arguments opts = Some (r, Some sw)" "0 < sint (px_timeout opts)"
    "deadline_of (sp_start ob) (px_timeout opts) = Some deadline"
    "takeWhile goes_on (sp_passes ob) = as @ p # bs" "deadline \<le> pa_now p" "sorted (map pa_now (as @ p # bs))"
  shows "\<exists>sent. sw_signals sw = sent @ (if wait_lost (sp_passes ob) then [SigKill] else []) \<and>
    (sent = [SigTerm] \<or> sent = [SigTerm, SigKill]) \<and>
    ((\<exists>q \<in> set bs. pa_now p + sint (px_killGrace opts) * 1000000 \<le> pa_now q) \<longrightarrow> sent = [SigTerm, SigKill]) \<and>
    (sent = [SigTerm, SigKill] \<longrightarrow> (\<exists>as' p' bs'. takeWhile goes_on (sp_passes ob) = as' @ p' # bs' \<and>
       (\<exists>q \<in> set bs'. pa_now p' + sint (px_killGrace opts) * 1000000 \<le> pa_now q)))"
proof -
  obtain c reaped where loop: "child_loop opts deadline (sp_passes ob) (new_child opts) = Some (c, reaped)"
    and sw: "sw_signals sw = (if reaped = None then ch_signals c @ [SigKill] else ch_signals c)"
    using assms(3) by (auto intro: process_run_started [OF assms(1)])
  have "kill_in_reach opts (sp_passes ob) (new_child opts)" by (simp add: kill_in_reach_def new_child_def)
  note sent = term_sent [OF loop child_ok_new assms(2,4,5,6) this]
  have "ch_signals c = signals_sent c" using child_loop_ok [OF loop child_ok_new] by (simp add: child_ok_def)
  then have "ch_signals c = (if ch_hardKill c then [SigTerm, SigKill] else [SigTerm])" using sent by (simp add: signals_sent_def)
  moreover have "\<exists>as' p' bs'. takeWhile goes_on (sp_passes ob) = as' @ p' # bs' \<and> (\<exists>q \<in> set bs'. pa_now p' + grace opts \<le> pa_now q)"
    if "ch_hardKill c"
    using hard_kill_cause [OF loop child_ok_new _ that] by (simp add: new_child_def)
  ultimately show ?thesis using sent sw child_loop_lost [OF loop] by (intro exI [of _ "ch_signals c"]) auto
qed

theorem child_stopped_witness:
  "\<exists>r sw. process_run stubborn_run [''PATH=/usr/bin:/bin''] ''yes'' [''y''] stubborn_options = Some (r, Some sw)
     \<and> sw_signals sw = [SigTerm, SigKill]"
proof -
  have deadline: "deadline_of (sp_start stubborn_run) (px_timeout stubborn_options) = Some 5000000000" by code_simp
  have passes: "takeWhile goes_on (sp_passes stubborn_run) = [] @ quiet_pass 5000000000 # [quiet_pass 5600000000]"
    by (simp add: stubborn_run_def goes_on_def quiet_pass_def)
  have found: "\<not> wait_lost (sp_passes stubborn_run)" by (simp add: stubborn_run_def wait_lost_def goes_on_def quiet_pass_def)
  have "0 < sint (px_timeout stubborn_options)" by code_simp
  from child_stopped [OF stubborn_child this deadline passes] found obtain sent where
    sent: "sw_signals \<lparr>sw_argv = [''/bin/yes'', ''y''], sw_environment = [''PATH=/usr/bin:/bin''], sw_signals = [SigTerm, SigKill]\<rparr> = sent"
      "sent = [SigTerm, SigKill]"
    by (auto simp: quiet_pass_def stubborn_options_def)
  from stubborn_child sent [unfolded sent(2)] show ?thesis by (intro exI conjI)
qed

section \<open>Two surprises\<close>

text \<open>A variable the parent has is not replaced: the child finds the entry of the parent first.\<close>

lemma find_append_left: "find P xs = Some y \<Longrightarrow> find P (xs @ ys) = Some y"
  by (induction xs) auto

lemma extra_variable_ignored:
  "getenv name env = Some old \<Longrightarrow> getenv name (child_environment env opts) = Some old"
  by (auto simp: getenv_def child_environment_def find_append_left split: if_splits)

text \<open>A child no call of \<open>waitpid\<close> could reap, as where SIGCHLD is ignored, counts as one that ended with code 0.\<close>

lemma lost_child_ok:
  "process_run (stubborn_run\<lparr>sp_passes := [(quiet_pass 1)\<lparr>pa_wait := WaitFailed\<rparr>]\<rparr>) [''PATH=/bin''] ''yes'' [] stubborn_options = Some (r, sw)
   \<Longrightarrow> process_ok r"
proof -
  have "map_option (\<lambda>(r, sw). process_ok r)
      (process_run (stubborn_run\<lparr>sp_passes := [(quiet_pass 1)\<lparr>pa_wait := WaitFailed\<rparr>]\<rparr>) [''PATH=/bin''] ''yes'' [] stubborn_options) = Some True"
    by code_simp
  then show "process_run (stubborn_run\<lparr>sp_passes := [(quiet_pass 1)\<lparr>pa_wait := WaitFailed\<rparr>]\<rparr>) [''PATH=/bin''] ''yes'' [] stubborn_options = Some (r, sw)
    \<Longrightarrow> process_ok r" by simp
qed

end
