(* ===== verification/Run_Service.thy ===== *)
theory Run_Service
  imports Cli_Facts Rest_Facts Schedule Child_Process
begin

text \<open>
  A run from the request to what is left of it: \<open>TestRunner::run\<close> around the tests
  (\<open>src/execution/TestRunner.cpp\<close>), \<open>TestForgeService::run\<close> and \<open>initialise\<close>
  (\<open>src/api/TestForgeService.cpp\<close>). What the tests do is the state the runner is in when the last of them
  is over; here the console, the database and the reports get their share of it.

  The execution of the tests is a parameter, \<open>tests\<close>: its value is the state of the runner when the tests
  are over, or why there is none. \<open>tests_run\<close> says what it may be: on one worker what \<open>Runner\<close> computes
  from the observations, on several what \<open>Schedule\<close> reaches.
\<close>

section \<open>Before the first test\<close>

text \<open>What the machine says: the results of \<open>uname -n\<close> and \<open>git rev-parse\<close>, the clock, the id that was drawn.\<close>

record run_setup =
  rb_id :: string
  rb_started :: int
  rb_uname :: process_result
  rb_git :: process_result
  rb_hardware :: nat
  rb_environ :: environ

definition readHostname :: "process_result \<Rightarrow> environ \<Rightarrow> string" where
  "readHostname uname env = (if process_ok uname then trim (pr_stdout uname) else env_getOr ''HOSTNAME'' ''unknown'' env)"

definition readGitCommit :: "process_result \<Rightarrow> string" where
  "readGitCommit git = (if process_ok git then trim (pr_stdout git) else [])"

definition runner_options :: "cli_run \<Rightarrow> config \<Rightarrow> bool \<Rightarrow> run_options" where
  "runner_options cr cf stored = \<lparr>ro_failFast = cr_failFast cr, ro_retryFailed = cr_retryFailed cr, ro_persist = (cr_persist cr \<and> stored),
     ro_collect = gc_collectOnFailure (cf_diagnostics cf), ro_workers = cr_workers cr\<rparr>"

definition run_environment_json :: "run_setup \<Rightarrow> config \<Rightarrow> int \<Rightarrow> json" where
  "run_environment_json rb cf workers = obj_of
     [(''hostname'', JString (readHostname (rb_uname rb) (rb_environ rb))), (''workers'', json_int workers),
      (''config'', config_json (rb_hardware rb) cf),
      (''variables'', obj_of (map (\<lambda>(key, v). (key, JString v)) (diagnosticSubset (rb_environ rb))))]"

definition start_run :: "run_setup \<Rightarrow> config \<Rightarrow> cli_run \<Rightarrow> run_options \<Rightarrow> test_run" where
  "start_run rb cf cr opts =
     (let workers = run_workers_of opts (effectiveWorkers (rb_hardware rb) cf)
      in \<lparr>run_id = rb_id rb, run_label = cr_label cr, run_startedAt = rb_started rb, run_finishedAt = 0, run_duration = 0,
          run_workers = workers, run_filter = describe (cr_filter cr), run_gitCommit = readGitCommit (rb_git rb),
          run_hostname = readHostname (rb_uname rb) (rb_environ rb), run_environment = run_environment_json rb cf workers,
          run_results = [], run_cancellationReason = []\<rparr>)"

section \<open>What is seen and stored\<close>

text \<open>The tests: from the options, the run as it starts and what was selected to the state of the runner.\<close>

type_synonym test_execution = "run_options \<Rightarrow> test_run \<Rightarrow> test_metadata list \<Rightarrow> stuck + run_state"

definition saved_results :: "run_effect list \<Rightarrow> test_result list" where
  "saved_results es = concat (map (\<lambda>e. case e of SavedResult r \<Rightarrow> [r] | _ \<Rightarrow> []) es)"

definition finished_results :: "run_effect list \<Rightarrow> test_result list" where
  "finished_results es = concat (map (\<lambda>e. case e of TestFinished r \<Rightarrow> [r] | _ \<Rightarrow> []) es)"

fun finished_lines :: "test_result list \<Rightarrow> console \<Rightarrow> console \<times> string" where
  "finished_lines [] c = (c, [])"
| "finished_lines (r # rs) c = (case onTestFinished r c of (c, t) \<Rightarrow> case finished_lines rs c of (c, u) \<Rightarrow> (c, t @ u))"

text \<open>The console, if it observes the run: the start, every test that ends, and the end.\<close>

definition observed_text :: "((failure_category \<times> int) list \<Rightarrow> (failure_category \<times> int) list) \<Rightarrow> console_options option \<Rightarrow>
    test_run \<Rightarrow> test_metadata list \<Rightarrow> run_effect list \<Rightarrow> test_run \<Rightarrow> string option" where
  "observed_text rank observer begun selected es tr =
     (case observer of
        None \<Rightarrow> Some []
      | Some opts \<Rightarrow>
          (case onRunStarted begun selected \<lparr>cn_options = opts, cn_completed = 0, cn_selected = 0\<rparr> of (c, t) \<Rightarrow>
           case finished_lines (finished_results es) c of (c, u) \<Rightarrow> map_option (\<lambda>v. t @ u @ v) (onRunFinished rank tr c)))"

section \<open>A run of the service\<close>

text \<open>The end of a run: the clock, the time it took; and what the disk does with the reports.\<close>

record run_close =
  rf_finished :: int
  rf_wall :: i64
  rf_shuffle :: "u64 \<Rightarrow> test_metadata list \<Rightarrow> test_metadata list"
  rf_seed :: u64
  rf_rank :: "(failure_category \<times> int) list \<Rightarrow> (failure_category \<times> int) list"
  rf_created :: bool
  rf_disk :: disk

definition service_selected :: "run_close \<Rightarrow> cli_run \<Rightarrow> service \<Rightarrow> test_metadata list" where
  "service_selected rf cr sv = select_registry (rf_shuffle rf) (rf_seed rf) (sv_registry sv) (cr_filter cr) (cr_selection cr)"

definition service_execute :: "service_env \<Rightarrow> run_setup \<Rightarrow> run_close \<Rightarrow> test_execution \<Rightarrow> cli_run \<Rightarrow> console_options option \<Rightarrow> service \<Rightarrow>
    (test_run \<times> string \<times> service \<times> disk) option" where
  "service_execute se rb rf tests cr observer sv =
     (let cf = sv_config sv; opts = runner_options cr cf (sv_db sv \<noteq> None); begun = start_run rb cf cr opts; selected = service_selected rf cr sv
      in case tests opts begun selected of
           Inl _ \<Rightarrow> None
         | Inr st \<Rightarrow>
             (let tr = finish_run begun (rf_finished rf) (rf_wall rf) st;
                  (dk, reports) = write_reports (cf_reporting cf) (rf_created rf)
                    (enabled_reporters (cf_reporting cf) (rf_rank rf) (se_now se) [] tr) tr (rf_disk rf)
              in do {
                compute_statistics (run_results tr) (run_duration tr);
                printed \<leftarrow> observed_text (rf_rank rf) observer begun selected (rs_effects st) tr;
                sv' \<leftarrow> service_run se (cr_persist cr) tr (saved_results (rs_effects st)) reports sv;
                Some (tr, printed, sv', dk) }))"

text \<open>What the commands are given as the execution of a run.\<close>

definition executor :: "service_env \<Rightarrow> run_setup \<Rightarrow> run_close \<Rightarrow> test_execution \<Rightarrow> cli_execution" where
  "executor se rb rf tests cr observer sv =
     map_option (\<lambda>(tr, printed, sv', dk). (tr, printed, sv')) (service_execute se rb rf tests cr observer sv)"

text \<open>The tests in order on one worker, which is also the way when at most one test was selected.\<close>

definition on_one_worker :: "i64 \<Rightarrow> 'c registry \<Rightarrow> run_obs \<Rightarrow> test_execution" where
  "on_one_worker dt reg obs opts begun selected =
     (if run_workers begun = 1 \<or> length selected \<le> 1
      then run_tests dt reg opts (run_id begun) obs selected (new_run_state new_source []) else Inl StillWaiting)"

text \<open>What the runner may do with the tests.\<close>

definition tests_run :: "i64 \<Rightarrow> 'c registry \<Rightarrow> run_options \<Rightarrow> test_run \<Rightarrow> test_metadata list \<Rightarrow> run_state \<Rightarrow> bool" where
  "tests_run dt reg opts begun selected st \<longleftrightarrow>
     (if run_workers begun = 1 \<or> length selected \<le> 1
      then \<exists>obs. run_tests dt reg opts (run_id begun) obs selected (new_run_state new_source []) = Inr st
      else \<exists>es s. run (sched_step opts (run_workers begun) (attempt_gives dt reg (run_id begun))) (new_sched selected new_source) es s
        \<and> all_done s \<and> \<not> list_ex (\<lambda>(md, e). e = None) (sc_thrown s) \<and> st = sc_state s)"

text \<open>An execution that is one of those for the registry and the configuration of a service.\<close>

definition runs_tests :: "service \<Rightarrow> test_execution \<Rightarrow> bool" where
  "runs_tests sv tests \<longleftrightarrow> (\<forall>opts begun selected st. tests opts begun selected = Inr st \<longrightarrow>
     tests_run (ex_defaultTimeoutMs (cf_execution (sv_config sv))) (sv_registry sv) opts begun selected st)"

lemma on_one_worker_runs:
  "runs_tests sv (on_one_worker (ex_defaultTimeoutMs (cf_execution (sv_config sv))) (sv_registry sv) obs)"
  by (auto simp: runs_tests_def tests_run_def on_one_worker_def split: if_splits)

section \<open>A request for a run\<close>

text \<open>\<open>POST /api/runs\<close>: the options it sets on the defaults of the runner.\<close>

definition rest_options :: "rest_run \<Rightarrow> cli_run" where
  "rest_options asked = \<lparr>cr_filter = rn_filter asked, cr_selection = plain_selection\<lparr>so_shuffle := rn_shuffle asked\<rparr>, cr_workers = rn_workers asked,
     cr_failFast = rn_failFast asked, cr_retryFailed = rn_retryFailed asked, cr_label = rn_label asked, cr_persist = True\<rparr>"

definition rest_execution :: "service_env \<Rightarrow> run_setup \<Rightarrow> run_close \<Rightarrow> test_execution \<Rightarrow> execution" where
  "rest_execution se rb rf tests options sv =
     map_option (\<lambda>(tr, printed, sv', dk). (tr, sv')) (service_execute se rb rf tests (rest_options options) None sv)"

section \<open>The start of the service\<close>

text \<open>A database that cannot be opened is left out; \<open>opened\<close> is the database that was found, or its error.\<close>

definition initialise :: "environ \<Rightarrow> sidecar_obs \<Rightarrow> json \<Rightarrow> (string \<Rightarrow> string + database) \<Rightarrow> service \<Rightarrow> test_exception + service" where
  "initialise env ob collected opened sv =
     (let cf = sv_config sv
      in case config_validate cf of
           Inl e \<Rightarrow> Inl e
         | Inr _ \<Rightarrow> Inr (sv
             \<lparr>sv_db := (if \<not> dc_enabled (cf_database cf) then sv_db sv
                 else (case opened (dc_path (cf_database cf)) of Inl _ \<Rightarrow> None | Inr db \<Rightarrow> Some (migrate db))),
              sv_diagnostics := (case sv_diagnostics sv of Some d \<Rightarrow> Some d | None \<Rightarrow> Some collected),
              sv_ai := (case sv_ai sv of Some p \<Rightarrow> Some p | None \<Rightarrow> Some (createProvider (cf_ai cf) env ob))\<rparr>))"

section \<open>The registry under requests\<close>

lemma service_execute_parts:
  assumes "service_execute se rb rf tests cr observer sv = Some (tr, printed, sv', dk)"
  obtains opts begun st reports where "opts = runner_options cr (sv_config sv) (sv_db sv \<noteq> None)"
    "begun = start_run rb (sv_config sv) cr opts" "tests opts begun (service_selected rf cr sv) = Inr st"
    "tr = finish_run begun (rf_finished rf) (rf_wall rf) st"
    "service_run se (cr_persist cr) tr (saved_results (rs_effects st)) reports sv = Some sv'"
  using assms by (auto simp: service_execute_def Let_def bind_eq_Some_conv split: sum.splits prod.splits)

lemma service_run_keeps:
  "service_run se persist tr stored reports sv = Some sv' \<Longrightarrow> sv_registry sv' = sv_registry sv \<and> sv_config sv' = sv_config sv"
  by (auto simp: service_run_def split: option.splits if_splits)

lemma rest_execution_keeps: "run_keeps (rest_execution se rb rf tests)"
proof -
  have "sv_registry sv' = sv_registry sv \<and> sv_config sv' = sv_config sv"
    if "service_execute se rb rf tests cr observer sv = Some (tr, printed, sv', dk)" for cr observer sv tr printed sv' dk
    using that by (rule service_execute_parts) (rule service_run_keeps)
  then show ?thesis by (auto simp: run_keeps_def rest_execution_def)
qed

text \<open>The services that requests to the API lead to, one after the other; a run does with the tests what it will.\<close>

inductive api_reaches :: "service \<Rightarrow> service \<Rightarrow> bool" for sv where
  api_here: "api_reaches sv sv"
| api_step: "api_reaches sv sv' \<Longrightarrow> rest_call se (rest_execution se rb rf tests) r sv' = Some (a, sv'') \<Longrightarrow> api_reaches sv sv''"

lemma api_reaches_grows: "api_reaches sv sv' \<Longrightarrow> registry_ok (sv_registry sv) \<Longrightarrow> service_grows sv sv'"
proof (induction rule: api_reaches.induct)
  case api_here
  then show ?case by (rule service_grows_refl)
next
  case (api_step sv' se rb rf tests r a sv'')
  then have "registry_ok (sv_registry sv')" by (simp add: service_grows_def registry_grows_def)
  with api_step rest_execution_keeps show ?case by (blast intro: service_grows_trans rest_call_grows)
qed

text \<open>
  C33. Whatever requests a client sends to the API, in whatever order, whatever the language model behind
  answers and whatever becomes of the runs they ask for, the tests of the service are the ones it
  started with and generated tests that meet every rule of the validator for the configured target,
  under the names of their own metadata; and its configuration does not change.
\<close>

theorem rest_registry_safe:
  assumes "registry_ok (sv_registry sv)" "api_reaches sv sv'"
  shows "registry_ok (sv_registry sv') \<and> sv_config sv' = sv_config sv \<and> list_all (\<lambda>(k, e). (k, e) \<in> set (sv_registry sv) \<or>
    (\<exists>s t. spec_safe (spec_validator (sv_config sv)) t \<and> e = generated_entry s t)) (sv_registry sv')"
  using api_reaches_grows [OF assms(2,1)] by (simp add: service_grows_def registry_grows_def)

theorem rest_registry_safe_witness:
  "\<forall>se rb rf tests. \<exists>a sv'. rest_call se (rest_execution se rb rf tests) generate_call sample_service = Some (a, sv')
     \<and> sv_registry sv' \<noteq> [] \<and> registry_ok (sv_registry sv')"
proof (intro allI)
  fix se rb rf tests
  have ok: "registry_ok (sv_registry sample_service)" by (simp add: sample_service_def registry_ok_def)
  obtain a sv' where c: "rest_call se (rest_execution se rb rf tests) generate_call sample_service = Some (a, sv')" "sv_registry sv' \<noteq> []"
    using sample_call by blast
  from rest_registry_safe [OF ok api_step [OF api_here c(1)]] c
  show "\<exists>a sv'. rest_call se (rest_execution se rb rf tests) generate_call sample_service = Some (a, sv')
     \<and> sv_registry sv' \<noteq> [] \<and> registry_ok (sv_registry sv')" by blast
qed

section \<open>What is stored of a run\<close>

lemma saved_results_simps [simp]:
  "saved_results [] = []" "saved_results (es @ fs) = saved_results es @ saved_results fs"
  "saved_results (TestStarted md # es) = saved_results es" "saved_results (TestFinished r # es) = saved_results es"
  "saved_results (SavedResult r # es) = r # saved_results es"
  by (simp_all add: saved_results_def)

lemma saved_results_saved [simp]: "saved_results (saved opts rs) = (if ro_persist opts then rs else [])"
  by (induction rs) (auto simp: saved_def saved_results_def)

text \<open>Where results are kept, those of the report are, and beside them only attempts that failed and were repeated.\<close>

definition saved_ok :: "run_options \<Rightarrow> run_state \<Rightarrow> bool" where
  "saved_ok opts st \<longleftrightarrow> (ro_persist opts \<longrightarrow>
     (\<exists>failed. mset (saved_results (rs_effects st)) = mset (rs_results st) + mset failed \<and> list_all worth_retrying failed))"

lemma saved_ok_new: "saved_ok opts (new_run_state source orphans)"
  by (auto simp: saved_ok_def new_run_state_def intro: exI [of _ "[]"])

lemma saved_ok_retries:
  assumes "saved_ok opts st" "rs_effects st' = rs_effects st @ saved opts failed" "rs_results st' = rs_results st" "list_all worth_retrying failed"
  shows "saved_ok opts st'"
  using assms unfolding saved_ok_def by (auto simp: union_assoc intro: exI [of _ "_ @ failed"])

lemma saved_ok_handle: "saved_ok opts st \<Longrightarrow> saved_ok opts (handleResult opts c r st)"
  by (auto simp: saved_ok_def handleResult_def Let_def saved_def emit_def save_result_def split: option.splits)

lemma saved_ok_started: "saved_ok opts st \<Longrightarrow> saved_ok opts (emit (TestStarted md) st)"
  by (simp add: saved_ok_def)

lemma saved_ok_source [simp]: "saved_ok opts (st\<lparr>rs_source := source\<rparr>) = saved_ok opts st"
  by (simp add: saved_ok_def)

lemma run_tests_saved:
  assumes "run_tests dt reg opts rid obs mds st = Inr st'" "saved_ok opts st"
  shows "saved_ok opts st'"
  using assms
proof (induction mds arbitrary: st)
  case (Cons md mds)
  obtain attempts c where o: "obs (qualifiedName md) = (attempts, c)" by fastforce
  from Cons.prems o obtain st1 where one: "executeWithRetries dt reg opts rid attempts c md st = Inr st1"
    and rest: "run_tests dt reg opts rid obs mds st1 = Inr st'" by (auto split: sum.splits)
  have "saved_ok opts st1"
  proof (cases "rs_stop st")
    case False
    with one obtain r st2 where retry: "retry_loop dt reg opts md rid attempts 1 (nat (max 0 (ro_retryFailed opts))) (emit (TestStarted md) st) = Inr (r, st2)"
      and st1: "st1 = handleResult opts c r st2" by (auto simp: executeWithRetries_def split: sum.splits)
    from retry_loop_chain [OF retry] have "saved_ok opts st2"
      using saved_ok_retries [OF saved_ok_started [OF Cons.prems(2)]] by auto
    then show ?thesis unfolding st1 by (rule saved_ok_handle)
  qed (use one Cons.prems(2) in \<open>simp add: executeWithRetries_def\<close>)
  with Cons.IH rest show ?case by blast
qed simp

lemma sched_step_saved:
  assumes "sched_step opts workers gives s e s'" "saved_ok opts (sc_state s)"
  shows "saved_ok opts (sc_state s')"
  using assms
proof cases
  case (sched_repeated md n r)
  then have "worth_retrying r" "sc_state s' = save_result opts r (sc_state s)"
    by (auto simp: attempt_repeated_def may_repeat_def split: if_splits)
  then show ?thesis using saved_ok_retries [OF assms(2), of "sc_state s'" "[r]"] by simp
qed (use assms(2) in \<open>auto simp: task_begins_def task_dropped_def task_ends_def task_throws_def run_cancelled_def saved_ok_handle
    saved_ok_started split: list.splits if_splits\<close>)

lemma schedule_saved: "run (sched_step opts workers gives) s es s' \<Longrightarrow> saved_ok opts (sc_state s) \<Longrightarrow> saved_ok opts (sc_state s')"
  by (induction rule: run.induct) (blast dest: sched_step_saved)+

lemma tests_run_saved: "tests_run dt reg opts begun selected st \<Longrightarrow> saved_ok opts st"
  using saved_ok_new run_tests_saved schedule_saved
  by (fastforce simp: tests_run_def new_sched_def split: if_splits)

text \<open>The statements of a run on the database, where no result is refused.\<close>

lemma fold_save:
  "run_known i db \<Longrightarrow> list_all (storable i) rs \<Longrightarrow>
    fold (\<lambda>r. or_same (saveResult r)) rs db = db\<lparr>db_results := db_results db @ map result_cells rs\<rparr>"
  by (induction rs arbitrary: db) (simp_all add: saveResult_def run_known_def storable_def or_same_def)

lemma begun_known: "run_known (run_id tr) (beginRun tr db)"
  by (simp add: beginRun_def run_known_def fresh_run_row_def Let_def)

lemma store_run_records:
  assumes "list_all (storable (run_id tr)) rs"
  shows "store_run tr rs db = repo_run (record_results tr rs) db"
  using save_all [OF begun_known assms] fold_save [OF begun_known assms]
  by (simp add: store_run_def record_results_def split: option.split)

lemma loadRun_event: "event_added db db' \<Longrightarrow> loadRun order i db' = loadRun order i db"
  by (auto simp: event_added_def loadRun_def loadResults_def split: option.splits)

text \<open>A run is loaded with the results that were saved, and with its environment as the column gives it back.\<close>

lemma stored_results_load:
  assumes "db_ok db" "list_all (storable (run_id tr)) rs"
    and "stamp_ok (run_startedAt tr)" "stamp_ok (run_finishedAt tr)" "in_int32 (run_workers tr)"
    and "store_run tr rs db = Some db'" "orders_by (\<lambda>row. (tr_qualifiedName row, tr_attempt row)) order"
  shows "\<exists>loaded. loadRun order (run_id tr) db' = Some (Some (tr\<lparr>run_results := loaded, run_cancellationReason := [],
      run_environment := parseJsonColumn (json_dump (run_environment tr)) (JObject [])\<rparr>))
    \<and> mset loaded = mset rs \<and> sorted (map (\<lambda>r. (result_name r, r_attempt r)) loaded)"
proof -
  from assms(6) obtain st where st: "compute_statistics (run_results tr) (run_duration tr) = Some st"
    by (auto simp: store_run_def completeRun_def)
  have db': "row_of (run_id tr) db' = Some (finished_row tr st (fresh_run_row tr))"
    "filter (\<lambda>row. tr_runId row = run_id tr) (db_results db') = map result_cells rs"
    using recorded_results [OF assms(1,2) st] assms(6) by (auto simp: store_run_records [OF assms(2)])
  let ?rows = "order (map result_cells rs)"
  have rows: "mset ?rows = mset (map result_cells rs)" "sorted (map (\<lambda>row. (tr_qualifiedName row, tr_attempt row)) ?rows)"
    using assms(7) by (simp_all add: orders_by_def)
  obtain loaded where loaded: "read_rows readResultRow ?rows = Some loaded" "mset loaded = mset rs"
    "map (\<lambda>r. (result_name r, r_attempt r)) loaded = map (\<lambda>row. (tr_qualifiedName row, tr_attempt row)) ?rows"
    using rows_back [OF assms(2) rows(1)] by blast
  have "readRunRow (finished_row tr st (fresh_run_row tr)) = Some (tr\<lparr>run_results := [], run_cancellationReason := [],
      run_environment := parseJsonColumn (json_dump (run_environment tr)) (JObject [])\<rparr>)"
    using assms(3-5) by (simp add: readRunRow_def finished_row_def fresh_run_row_def stamp_back int32_back)
  then have "loadRun order (run_id tr) db' = Some (Some (tr\<lparr>run_results := loaded, run_cancellationReason := [],
      run_environment := parseJsonColumn (json_dump (run_environment tr)) (JObject [])\<rparr>))"
    by (simp add: loadRun_def loadResults_def db' loaded(1))
  with loaded(2,3) rows(2) show ?thesis by auto
qed

lemma service_run_stores:
  assumes "service_run se True tr stored reports sv = Some sv'" "sv_db sv = Some db"
  shows "\<exists>db1 db2. store_run tr stored db = Some db1 \<and> sv_db sv' = Some db2 \<and> event_added db1 db2"
  using assms recordEvent_adds
  by (auto simp: service_run_def event_added_def split: if_splits)

text \<open>The results that the tests of a run leave to be stored can be stored as they are.\<close>

definition leaves_storable :: "run_setup \<Rightarrow> run_close \<Rightarrow> test_execution \<Rightarrow> cli_run \<Rightarrow> service \<Rightarrow> bool" where
  "leaves_storable rb rf tests cr sv \<longleftrightarrow>
     (let opts = runner_options cr (sv_config sv) (sv_db sv \<noteq> None)
      in case tests opts (start_run rb (sv_config sv) cr opts) (service_selected rf cr sv) of
           Inl _ \<Rightarrow> True
         | Inr st \<Rightarrow> list_all (storable (rb_id rb)) (saved_results (rs_effects st)))"

lemma start_run_fields:
  "run_id (start_run rb cf cr opts) = rb_id rb" "run_startedAt (start_run rb cf cr opts) = rb_started rb"
  by (simp_all add: start_run_def Let_def)

lemma finish_run_fields:
  "run_id (finish_run begun now wall st) = run_id begun" "run_startedAt (finish_run begun now wall st) = run_startedAt begun"
  "run_finishedAt (finish_run begun now wall st) = now" "mset (run_results (finish_run begun now wall st)) = mset (rs_results st)"
  "run_workers (finish_run begun now wall st) = run_workers begun"
  by (simp_all add: finish_run_def)


text \<open>So a run that passed, a test of it on a retry, is one that failed when it is loaded.\<close>

lemma repeated_failure_counts:
  assumes "mset loaded = mset (run_results tr) + mset repeated" "repeated \<noteq> []" "list_all worth_retrying repeated"
  shows "exitCode (tr\<lparr>run_results := loaded, run_cancellationReason := []\<rparr>) \<noteq> 0"
proof -
  have "hd repeated \<in> set repeated" using assms(2) by simp
  then have "hd repeated \<in> set loaded" using arg_cong [OF assms(1), of set_mset] by auto
  moreover have "isFailure (r_status (hd repeated))" using assms(2,3) by (cases repeated) (auto simp: worth_retrying_def)
  ultimately show ?thesis by (auto simp: exitCode_def list_ex_iff)
qed

section \<open>What success means\<close>

text \<open>What the report says of the tests that were selected.\<close>

lemma tests_run_reports:
  assumes "tests_run dt reg opts begun selected st" "0 \<le> run_workers begun"
  shows "\<exists>lost dropped. mset (map qualifiedName selected) = lost + dropped + mset (map result_name (rs_results st)) \<and>
    (\<forall>q \<in># lost. \<exists>md \<in> set selected. q = qualifiedName md \<and> unmakeable reg md) \<and>
    (run_workers begun = 1 \<longrightarrow> lost = {#}) \<and> (dropped \<noteq> {#} \<longrightarrow> exitCode (finish_run begun now wall st) \<noteq> 0)"
proof (cases "run_workers begun = 1 \<or> length selected \<le> 1")
  case True
  with assms obtain obs where "run_tests dt reg opts (run_id begun) obs selected (new_run_state new_source []) = Inr st"
    by (auto simp: tests_run_def)
  from sequence_end [OF this, of begun now wall]
  have names: "map result_name (rs_results st) = map qualifiedName (take (length (rs_results st)) selected)"
    and left: "length (rs_results st) < length selected \<longrightarrow> exitCode (finish_run begun now wall st) \<noteq> 0" by simp_all
  have "mset (map qualifiedName selected) =
      mset (map qualifiedName (take (length (rs_results st)) selected)) + mset (map qualifiedName (drop (length (rs_results st)) selected))"
    by (metis append_take_drop_id map_append mset_append)
  with names left show ?thesis
    by (intro exI [of _ "{#}"] exI [of _ "mset (map qualifiedName (drop (length (rs_results st)) selected))"]) (auto simp: add.commute)
next
  case False
  with assms(1) obtain es s where run: "run (sched_step opts (run_workers begun) (attempt_gives dt reg (run_id begun))) (new_sched selected new_source) es s"
    and over: "all_done s" and std: "\<not> list_ex (\<lambda>(md, e). e = None) (sc_thrown s)" and st: "st = sc_state s"
    by (auto simp: tests_run_def)
  have report: "finish_schedule begun now wall s = Some (finish_run begun now wall st)" using std by (simp add: finish_schedule_def st)
  note result = schedule_end [OF run over assms(2), of begun now wall, unfolded report option.case]
  let ?lost = "mset (map (\<lambda>(md, e). qualifiedName md) (sc_thrown s))" and ?dropped = "mset (map qualifiedName (sc_dropped s))"
  have "\<forall>q \<in># ?lost. \<exists>md \<in> set selected. q = qualifiedName md \<and> unmakeable reg md"
    using result by (fastforce simp: list_all_iff unmakeable_def)
  then show ?thesis using result False
    by (intro exI [of _ ?lost] exI [of _ ?dropped]) (auto simp: st add.commute)
qed

lemma workers_positive: "1 \<le> run_workers (start_run rb cf cr opts)"
  by (simp add: start_run_def run_workers_of_def Let_def)

text \<open>
  C35. What an exit code of 0 of the command \<open>run\<close> means, whatever the tests do and on any number of workers:
  every selected test has exactly one result in the report, each of them passed or was skipped and is no
  failure of the framework, and the run was not cancelled. The exception are tests whose factory throws,
  which on several workers may be missing from the report; on one worker nothing is missing. The run is
  no dry run and it returned.
\<close>

theorem success_means_passed:
  assumes "run_command color shuffle now (executor se rb rf tests) signal p sv = Some ((kSuccess, out, err), sv')"
    and "\<not> pc_flag ''dry-run'' False p" "0 \<le> signal" "runs_tests sv tests"
    and "selected = service_selected rf (cli_run_of p (sv_config sv)) sv"
  shows "\<exists>tr printed lost. executor se rb rf tests (cli_run_of p (sv_config sv)) (run_console color p (sv_config sv)) sv = Some (tr, printed, sv') \<and>
    mset (map qualifiedName selected) = lost + mset (map result_name (run_results tr)) \<and>
    (\<forall>q \<in># lost. \<exists>md \<in> set selected. q = qualifiedName md \<and> unmakeable (sv_registry sv) md) \<and>
    (run_workers tr = 1 \<longrightarrow> lost = {#}) \<and>
    (\<forall>r \<in> set (run_results tr). r_status r \<in> {Passed, Skipped} \<and> r_category r \<noteq> FrameworkFailure) \<and> \<not> wasCancelled tr"
proof -
  let ?cr = "cli_run_of p (sv_config sv)"
  from assms(1,2) obtain tr printed where ex: "executor se rb rf tests ?cr (run_console color p (sv_config sv)) sv = Some (tr, printed, sv')"
    and code: "run_exit (exitCode tr) signal = kSuccess"
    by (auto simp: run_command_def Let_def bind_eq_Some_conv refuses_def kSuccess_def kUsageError_def split: if_splits)
  from code have zero: "exitCode tr = 0" using run_exit_exact(1) [OF assms(3)] by simp
  from ex obtain dk where "service_execute se rb rf tests ?cr (run_console color p (sv_config sv)) sv = Some (tr, printed, sv', dk)"
    by (auto simp: executor_def)
  then obtain opts begun st where begun: "begun = start_run rb (sv_config sv) ?cr opts" and st: "tests opts begun selected = Inr st"
    and tr: "tr = finish_run begun (rf_finished rf) (rf_wall rf) st"
    unfolding assms(5) by (rule service_execute_parts)
  note fields = finish_run_fields [of begun "rf_finished rf" "rf_wall rf" st, folded tr]
  have "0 \<le> run_workers begun" using workers_positive unfolding begun by (rule order_trans [rotated]) simp
  moreover have "tests_run (ex_defaultTimeoutMs (cf_execution (sv_config sv))) (sv_registry sv) opts begun selected st"
    using assms(4) st by (simp add: runs_tests_def)
  ultimately obtain lost dropped where "mset (map qualifiedName selected) = lost + dropped + mset (map result_name (rs_results st))"
    "\<forall>q \<in># lost. \<exists>md \<in> set selected. q = qualifiedName md \<and> unmakeable (sv_registry sv) md"
    "run_workers begun = 1 \<longrightarrow> lost = {#}" "dropped \<noteq> {#} \<longrightarrow> exitCode tr \<noteq> 0"
    using tests_run_reports [of _ _ opts begun selected st "rf_finished rf" "rf_wall rf", folded tr] by blast
  moreover have "mset (map result_name (rs_results st)) = mset (map result_name (run_results tr))" using fields(4) by simp
  moreover have "\<not> isFailure s \<longleftrightarrow> s \<in> {Passed, Skipped}" for s by (cases s) (simp_all add: isFailure_def)
  ultimately show ?thesis using ex zero fields(5) unfolding exitCode_zero
    by (intro exI [of _ tr] exI [of _ printed] exI [of _ lost]) auto
qed

section \<open>A run of one disabled test\<close>

definition quiet_config :: config where
  "quiet_config = default_config\<lparr>cf_reporting := (cf_reporting default_config)
     \<lparr>rc_console := False, rc_json := False, rc_html := False, rc_junit := False\<rparr>\<rparr>"

definition skip_service :: service where
  "skip_service = one_test_service\<lparr>sv_config := quiet_config, sv_registry := registerOrReplace [] disabled_sample None,
     sv_db := Some empty_database\<rparr>"

definition skip_command :: parsed_command where
  "skip_command = parse_args [''run'', ''--include-disabled'', ''--workers'', ''1'']"

definition skip_request :: cli_run where
  "skip_request = cli_run_of skip_command quiet_config"

definition no_process :: process_result where
  "no_process = \<lparr>pr_exitCode = -1, pr_timedOut = False, pr_signalled = False, pr_signalNumber = 0, pr_started = False, pr_stdout = [],
     pr_stderr = [], pr_duration = 0, pr_launchError = []\<rparr>"

definition skip_setup :: run_setup where
  "skip_setup = \<lparr>rb_id = ''f00d'', rb_started = 0, rb_uname = no_process, rb_git = no_process, rb_hardware = 1, rb_environ = []\<rparr>"

definition skip_close :: run_close where
  "skip_close = \<lparr>rf_finished = 0, rf_wall = 0, rf_shuffle = (\<lambda>_ mds. mds), rf_seed = 0, rf_rank = id, rf_created = True,
     rf_disk = \<lparr>dk_files = (\<lambda>_. None), dk_opens = (\<lambda>_. True), dk_takes = (\<lambda>_. True)\<rparr>\<rparr>"

definition skip_tests :: test_execution where
  "skip_tests = on_one_worker (ex_defaultTimeoutMs (cf_execution quiet_config)) (sv_registry skip_service) (\<lambda>q. (\<lambda>n. sample_attempt 0 True, None))"

lemma skip_service_parts [simp]:
  "sv_config skip_service = quiet_config" "sv_db skip_service = Some empty_database" "cf_execution quiet_config = cf_execution default_config"
  "rc_json (cf_reporting quiet_config) = False" "rc_html (cf_reporting quiet_config) = False" "rc_junit (cf_reporting quiet_config) = False"
  "rc_console (cf_reporting quiet_config) = False"
  by (simp_all add: skip_service_def quiet_config_def)

lemma skip_runs: "runs_tests skip_service skip_tests"
  using on_one_worker_runs [of skip_service "\<lambda>q. (\<lambda>n. sample_attempt 0 True, None)"] by (simp add: skip_tests_def)

lemma skip_selected: "service_selected skip_close skip_request skip_service = [disabled_sample]"
  by code_simp

lemma skip_asked: "cr_persist skip_request" "cr_workers skip_request = 1" "\<not> pc_flag ''dry-run'' False skip_command" "\<not> wantsJson skip_command"
  by code_simp+

lemma skip_result_fields [simp]:
  "r_status sample_skip = Skipped" "r_category sample_skip = NoFailure" "result_name sample_skip = qualifiedName disabled_sample"
  "sint (r_duration sample_skip) = 100"
  by (simp_all add: sample_skip_def finish_def disabled_result_def blank_result_def make_result_def default_result_def result_name_def
      qualifiedName_def disabled_sample_def sample_metadata_def auto_metadata_def sample_attempt_def Let_def)

lemma skip_leaves:
  assumes "run_workers begun = 1" "run_id begun = ''f00d''"
  shows "\<exists>st. skip_tests opts begun [disabled_sample] = Inr st \<and> rs_results st = [sample_skip] \<and> rs_source st = new_source \<and>
    saved_results (rs_effects st) = (if ro_persist opts then [sample_skip] else [])"
  using assms by (auto simp: skip_tests_def on_one_worker_def executeWithRetries_def disabled_retry [unfolded One_nat_def] new_run_state_def
      sample_skip_def handleResult_def emit_def save_result_def isFailure_def disabled_result_def finish_def Let_def)

lemma skip_storable: "storable ''f00d'' sample_skip"
proof -
  have "column_ok n (JObject [])" "column_ok n (strings_json [])" if "2 \<le> n" for n
    using that by (simp_all add: column_ok_def json_dump_def strings_json_def)
  moreover have "length (json_dump (strings_json [''api''])) = 7" by code_simp
  then have "column_ok (16 * 1024 * 1024) (strings_json [''api''])"
    by (simp add: column_ok_def strings_json_def)
  ultimately show ?thesis
    by (simp add: sample_skip_def finish_def disabled_result_def blank_result_def make_result_def default_result_def
        disabled_sample_def sample_metadata_def auto_metadata_def sample_attempt_def hasTag_def storable_def stamp_ok_def in_int32_def Let_def)
qed

lemma skip_statistics: "\<exists>stats. compute_statistics [sample_skip] wall = Some stats"
  by (rule statistics_defined) simp_all

text \<open>The whole run, with the state the tests leave.\<close>

lemma skip_start:
  "run_workers (start_run skip_setup cf skip_request opts) = 1 \<longleftrightarrow> run_workers_of opts (effectiveWorkers 1 cf) = 1"
  "run_id (start_run skip_setup cf skip_request opts) = ''f00d''"
  by (simp_all add: start_run_def skip_setup_def Let_def)

lemma skip_executes:
  "\<exists>tr sv' dk. service_execute plain_env skip_setup skip_close skip_tests skip_request None skip_service = Some (tr, [], sv', dk) \<and>
     run_results tr = [sample_skip] \<and> run_workers tr = 1 \<and> run_cancellationReason tr = []"
proof -
  define opts where "opts = runner_options skip_request quiet_config True"
  define begun where "begun = start_run skip_setup quiet_config skip_request opts"
  have begun: "run_workers begun = 1" "run_id begun = ''f00d''" "run_cancellationReason begun = []"
    using skip_asked(2) by (simp_all add: begun_def skip_start opts_def runner_options_def run_workers_of_def)
      (simp add: start_run_def Let_def)
  obtain st where st: "skip_tests opts begun [disabled_sample] = Inr st" "rs_results st = [sample_skip]" "rs_source st = new_source"
    using skip_leaves [OF begun(1,2), of opts] by blast
  define tr where "tr = finish_run begun 0 0 st"
  have tr: "run_results tr = [sample_skip]" "run_workers tr = 1" "run_cancellationReason tr = []"
    using begun st by (simp_all add: tr_def finish_run_def token_isCancelled_def new_source_def)
  obtain stats where stats: "compute_statistics (run_results tr) (run_duration tr) = Some stats"
    using skip_statistics tr(1) by metis
  have reporters: "enabled_reporters (cf_reporting quiet_config) (rf_rank skip_close) (se_now plain_env) [] tr = []"
    by (simp add: enabled_reporters_def)
  have "\<exists>sv'. service_run plain_env (cr_persist skip_request) tr (saved_results (rs_effects st)) [] skip_service = Some sv'"
    using stats by (simp add: service_run_def store_run_def completeRun_def)
  then have "\<exists>sv' dk. service_execute plain_env skip_setup skip_close skip_tests skip_request None skip_service = Some (tr, [], sv', dk)"
    using st(1) stats reporters unfolding service_execute_def Let_def skip_selected skip_service_parts
    by (auto simp: opts_def begun_def tr_def observed_text_def write_reports_def skip_close_def)
  with tr show ?thesis by blast
qed


theorem success_means_passed_witness:
  "\<exists>out err sv' tr. run_command False (\<lambda>_ mds. mds) 0 (executor plain_env skip_setup skip_close skip_tests) 0 skip_command skip_service
     = Some ((kSuccess, out, err), sv') \<and>
     executor plain_env skip_setup skip_close skip_tests (cli_run_of skip_command (sv_config skip_service))
       (run_console False skip_command (sv_config skip_service)) skip_service = Some (tr, [], sv') \<and>
     map qualifiedName [disabled_sample] = map result_name (run_results tr)"
proof -
  have request: "cli_run_of skip_command quiet_config = skip_request" by (simp add: skip_request_def)
  have console: "run_console False skip_command quiet_config = None" by (simp add: run_console_def)
  obtain tr sv' dk where ex: "service_execute plain_env skip_setup skip_close skip_tests skip_request None skip_service = Some (tr, [], sv', dk)"
    and tr: "run_results tr = [sample_skip]" "run_workers tr = 1" "run_cancellationReason tr = []"
    using skip_executes by blast
  then have "executor plain_env skip_setup skip_close skip_tests skip_request None skip_service = Some (tr, [], sv')"
    by (simp add: executor_def)
  moreover have "exitCode tr = 0" using tr by (simp add: exitCode_def isFailure_def wasCancelled_def)
  moreover have selected: "select_registry (\<lambda>_ mds. mds) 0 (sv_registry skip_service) (cr_filter skip_request) (cr_selection skip_request) = [disabled_sample]"
    using skip_selected by (simp add: service_selected_def skip_close_def)
  ultimately obtain out err where run: "run_command False (\<lambda>_ mds. mds) 0 (executor plain_env skip_setup skip_close skip_tests) 0 skip_command skip_service
     = Some ((kSuccess, out, err), sv')"
    using skip_asked(3,4) unfolding run_command_def Let_def skip_service_parts request console
    by (auto simp: run_exit_def kSuccess_def)
  from success_means_passed [OF run skip_asked(3) _ skip_runs refl] obtain tr' printed lost where
    same: "executor plain_env skip_setup skip_close skip_tests skip_request None skip_service = Some (tr', printed, sv')"
    and names: "mset (map qualifiedName [disabled_sample]) = lost + mset (map result_name (run_results tr'))" "run_workers tr' = 1 \<longrightarrow> lost = {#}"
    unfolding skip_service_parts request console skip_selected by auto
  have "tr' = tr" using same ex by (simp add: executor_def)
  with names tr run ex show ?thesis unfolding skip_service_parts request console
    by (intro exI [of _ out] exI [of _ err] exI [of _ sv'] exI [of _ tr]) (simp add: executor_def)
qed

end
