(* ===== verification/Diagnostic_Collector.thy ===== *)
theory Diagnostic_Collector
  imports Linux_Diagnostics
begin

text \<open>
  The collector of diagnostics (\<open>src/diagnostics/DiagnosticCollector.cpp\<close>) and what the readers of
  \<open>/proc\<close> give.

  A provider is its name, its identity (the pointer) and what it answers: JSON, or the text of what it
  throws. \<open>collect\<close> is declared \<open>noexcept\<close>, so that its error is the branch the code keeps for a provider that
  breaks its contract; a query and a snapshot may throw.
\<close>

record diagnostic_provider =
  dp_id :: nat
  dp_name :: string
  dp_collect :: "diagnostics_config \<Rightarrow> string + json"

record collector =
  dg_config :: diagnostics_config
  dg_providers :: "diagnostic_provider list"
  dg_gpu :: "(diagnostic_provider \<times> (diagnostics_config \<Rightarrow> string + gpu_snapshot)) option"
  dg_system :: "(diagnostics_config \<Rightarrow> string + system_snapshot) option"

definition new_collector :: "diagnostics_config \<Rightarrow> collector" where
  "new_collector dc = \<lparr>dg_config = dc, dg_providers = [], dg_gpu = None, dg_system = None\<rparr>"

definition createDefault :: "diagnostic_provider \<Rightarrow> (diagnostics_config \<Rightarrow> string + system_snapshot) \<Rightarrow>
    diagnostic_provider \<times> (diagnostics_config \<Rightarrow> string + gpu_snapshot) \<Rightarrow> diagnostics_config \<Rightarrow> collector" where
  "createDefault system snapshot gpu dc =
     (let c = (new_collector dc)\<lparr>dg_system := Some snapshot, dg_providers := [system]\<rparr>
      in if gc_includeGpu dc then c\<lparr>dg_gpu := Some gpu, dg_providers := dg_providers c @ [fst gpu]\<rparr> else c)"

definition addProvider :: "diagnostic_provider \<Rightarrow> collector \<Rightarrow> collector" where
  "addProvider p c = c\<lparr>dg_providers := dg_providers c @ [p]\<rparr>"

definition setGpuProvider :: "(diagnostic_provider \<times> (diagnostics_config \<Rightarrow> string + gpu_snapshot)) option \<Rightarrow> collector \<Rightarrow> collector" where
  "setGpuProvider gpu c =
     (let kept = (case dg_gpu c of None \<Rightarrow> dg_providers c
            | Some (old, _) \<Rightarrow> filter (\<lambda>item. dp_id item \<noteq> dp_id old) (dg_providers c))
      in c\<lparr>dg_gpu := gpu, dg_providers := (case gpu of None \<Rightarrow> kept | Some (p, _) \<Rightarrow> kept @ [p])\<rparr>)"

definition providerNames :: "collector \<Rightarrow> string list" where
  "providerNames c = map dp_name (dg_providers c)"

definition provider_answer :: "diagnostics_config \<Rightarrow> diagnostic_provider \<Rightarrow> json" where
  "provider_answer dc p = (case dp_collect p dc of Inr v \<Rightarrow> v | Inl what \<Rightarrow> obj_of [(''error'', JString what)])"

definition collectAll :: "int \<Rightarrow> collector \<Rightarrow> json" where
  "collectAll now c = obj_of ((''collected_at'', JString (toIso8601 now))
     # map (\<lambda>p. (dp_name p, provider_answer (dg_config c) p)) (dg_providers c))"

text \<open>The constants \<open>85.0\<close> and the parts of a snapshot a failure is given.\<close>

definition f64_eighty_five :: f64 where "f64_eighty_five = 0x4055400000000000"

definition disk_pressure :: "disk_usage \<Rightarrow> bool" where
  "disk_pressure d \<longleftrightarrow> f64_le f64_eighty_five (disk_usedPercent d) \<or> du_mountPoint d = ''/'' \<or> du_mountPoint d = ''/tmp''"

definition failure_system :: "diagnostics_config \<Rightarrow> system_snapshot \<Rightarrow> json" where
  "failure_system dc v = obj_of
     ([(''os'', os_json (sy_os v)), (''cpu'', cpu_json (sy_cpu v)), (''memory'', memory_json (sy_memory v)),
       (''disks'', JArray (map disk_json (filter disk_pressure (sy_disks v)))),
       (''network_interfaces'', JArray (map interface_json (filter ni_up (sy_interfaces v))))]
      @ (if gc_includeProcesses dc then listed_unless_empty ''top_processes'' (map process_json (sy_topProcesses v)) else [])
      @ [(''working_directory'', JString (sy_workingDirectory v)), (''process_id'', JInt (word_of_int (sy_processId v)))]
      @ listed_unless_empty ''unavailable'' (map JString (sy_unavailable v)))"

text \<open>The members up to the first part that throws, and what it threw.\<close>

definition failure_members :: "log_obs \<Rightarrow> collector \<Rightarrow> (string \<times> json) list" where
  "failure_members logs c =
     (let dc = dg_config c; failed = (\<lambda>what. [(''error'', JString (''diagnostic collection failed: '' @ what))]);
          log_part = (if gc_includeSystemLogs dc then [(''system_logs'', strings_json (readRecentSystemLogs logs 25))] else []);
          gpu_part = (case dg_gpu c of
              Some (_, query) \<Rightarrow>
                if gc_includeGpu dc
                then (case query dc of Inl what \<Rightarrow> failed what | Inr v \<Rightarrow> (''gpu'', gpu_snapshot_json v) # log_part) else log_part
            | None \<Rightarrow> log_part)
      in case dg_system c of
           Some snapshot \<Rightarrow> (case snapshot dc of Inl what \<Rightarrow> failed what | Inr v \<Rightarrow> (''system'', failure_system dc v) # gpu_part)
         | None \<Rightarrow> gpu_part)"

definition collectForFailure :: "int \<Rightarrow> log_obs \<Rightarrow> collector \<Rightarrow> json" where
  "collectForFailure now logs c = obj_of ((''collected_at'', JString (toIso8601 now)) # failure_members logs c)"

definition collector_gpu :: "collector \<Rightarrow> gpu_snapshot" where
  "collector_gpu c =
     (case dg_gpu c of
        None \<Rightarrow> unavailable (empty_gpu_snapshot\<lparr>gs_source := ''none''\<rparr>) ''GPU diagnostics are disabled in the configuration.''
      | Some (_, query) \<Rightarrow>
          (case query (dg_config c) of
             Inr v \<Rightarrow> v
           | Inl what \<Rightarrow> unavailable (empty_gpu_snapshot\<lparr>gs_source := ''none''\<rparr>) (''GPU query failed: '' @ what)))"

definition empty_snapshot :: system_snapshot where
  "empty_snapshot = \<lparr>sy_os = empty_os, sy_cpu = empty_cpu, sy_memory = empty_memory, sy_disks = [], sy_interfaces = [],
     sy_topProcesses = [], sy_environment = [], sy_executablePath = [], sy_workingDirectory = [], sy_processId = 0, sy_unavailable = []\<rparr>"

definition collector_system :: "collector \<Rightarrow> system_snapshot" where
  "collector_system c =
     (case dg_system c of
        None \<Rightarrow> empty_snapshot\<lparr>sy_unavailable := [''no system diagnostic provider is registered'']\<rparr>
      | Some snapshot \<Rightarrow>
          (case snapshot (dg_config c) of
             Inr v \<Rightarrow> v
           | Inl what \<Rightarrow> empty_snapshot\<lparr>sy_unavailable := [''system snapshot failed: '' @ what]\<rparr>))"

section \<open>One GPU provider at a time\<close>

text \<open>What the collector keeps: its GPU provider is among its providers, and no other has its identity.\<close>

definition collector_ok :: "collector \<Rightarrow> bool" where
  "collector_ok c \<longleftrightarrow> distinct (map dp_id (dg_providers c)) \<and> (case dg_gpu c of None \<Rightarrow> True | Some (p, _) \<Rightarrow> p \<in> set (dg_providers c))"

lemma drop_provider:
  "distinct (map dp_id ps) \<Longrightarrow> old \<in> set ps \<Longrightarrow> filter (\<lambda>item. dp_id item \<noteq> dp_id old) ps = remove1 old ps"
proof (induction ps)
  case (Cons a ps)
  show ?case
  proof (cases "a = old")
    case True
    with Cons.prems(1) have "\<forall>item\<in>set ps. dp_id item \<noteq> dp_id old" by (auto simp: image_iff)
    then have "filter (\<lambda>item. dp_id item \<noteq> dp_id old) ps = ps" by (simp only: filter_id_conv)
    with True show ?thesis by simp
  next
    case False
    with Cons.prems have "old \<in> set ps" "dp_id a \<noteq> dp_id old" by (auto simp: image_iff)
    with Cons False show ?thesis by simp
  qed
qed simp

definition without_gpu :: "collector \<Rightarrow> diagnostic_provider list" where
  "without_gpu c = (case dg_gpu c of None \<Rightarrow> dg_providers c | Some (old, _) \<Rightarrow> remove1 old (dg_providers c))"

lemma setGpuProvider_exact:
  assumes "collector_ok c"
  shows "setGpuProvider gpu c = c\<lparr>dg_gpu := gpu, dg_providers := without_gpu c @ (case gpu of None \<Rightarrow> [] | Some (p, _) \<Rightarrow> [p])\<rparr>"
proof (cases "dg_gpu c")
  case None
  then show ?thesis by (simp add: setGpuProvider_def without_gpu_def split: option.splits prod.splits)
next
  case (Some g)
  obtain old q where g: "g = (old, q)" by (cases g)
  have "filter (\<lambda>item. dp_id item \<noteq> dp_id old) (dg_providers c) = remove1 old (dg_providers c)"
    by (rule drop_provider) (use assms Some g in \<open>simp_all add: collector_ok_def\<close>)
  with Some g show ?thesis by (simp add: setGpuProvider_def without_gpu_def split: option.splits prod.splits)
qed

lemma without_gpu_distinct: "collector_ok c \<Longrightarrow> distinct (map dp_id (without_gpu c)) \<and> set (without_gpu c) \<subseteq> set (dg_providers c)"
proof -
  assume "collector_ok c"
  then have d: "distinct (map dp_id (dg_providers c))" by (simp add: collector_ok_def)
  then have "distinct (map dp_id (remove1 p (dg_providers c)))" for p
    by (auto simp: distinct_map intro: inj_on_diff)
  with d show ?thesis using set_remove1_subset by (fastforce simp: without_gpu_def split: option.splits prod.splits)
qed

lemma collector_ok_new: "collector_ok (new_collector dc)"
  by (simp add: collector_ok_def new_collector_def)

lemma collector_ok_add: "collector_ok c \<Longrightarrow> dp_id p \<notin> dp_id ` set (dg_providers c) \<Longrightarrow> collector_ok (addProvider p c)"
  by (auto simp: collector_ok_def addProvider_def split: option.splits)

lemma collector_ok_set:
  assumes "collector_ok c" "\<And>p q. gpu = Some (p, q) \<Longrightarrow> dp_id p \<notin> dp_id ` set (dg_providers c)"
  shows "collector_ok (setGpuProvider gpu c)"
proof (cases gpu)
  case None
  with without_gpu_distinct [OF assms(1)] show ?thesis by (simp add: setGpuProvider_exact [OF assms(1)] collector_ok_def)
next
  case (Some g)
  obtain p q where g: "g = (p, q)" by (cases g)
  have "dp_id p \<notin> dp_id ` set (without_gpu c)" using assms(2) Some g without_gpu_distinct [OF assms(1)] by blast
  with without_gpu_distinct [OF assms(1)] Some g show ?thesis
    by (simp add: setGpuProvider_exact [OF assms(1)] collector_ok_def)
qed

text \<open>
  Replacing the GPU provider leaves the other providers as they are and in their order, removes the
  old one from everything that is collected, and keeps the collector well formed.
\<close>

theorem gpu_provider_replaced:
  assumes "collector_ok c" "dp_id p \<notin> dp_id ` set (dg_providers c)"
  shows "collector_ok (setGpuProvider (Some (p, q)) c) \<and>
    setGpuProvider (Some (p, q)) c = c\<lparr>dg_gpu := Some (p, q), dg_providers := without_gpu c @ [p]\<rparr>"
  using collector_ok_set [OF assms(1), of "Some (p, q)"] assms(2) by (simp add: setGpuProvider_exact [OF assms(1)])

section \<open>Memory figures\<close>

text \<open>A file as the kernel writes it: a key, blanks, a number and its unit on every line.\<close>

definition figure_line :: "string \<times> nat \<times> nat \<Rightarrow> string" where
  "figure_line f = (case f of (key, blanks, n) \<Rightarrow> key @ '':'' @ replicate blanks CHR '' '' @ show_nat n @ '' kB'' @ [CHR 0x0A])"

definition figure_key :: "string \<Rightarrow> bool" where
  "figure_key key \<longleftrightarrow> CHR '':'' \<notin> set key \<and> CHR 0x0A \<notin> set key"

lemma digit_run_digits: "list_all is_digit ds \<Longrightarrow> ds \<noteq> [] \<or> acc \<noteq> [] \<Longrightarrow> digit_run acc (ds @ CHR '' '' # t) = acc @ ds"
  by (induction ds arbitrary: acc) (auto simp: is_digit_def)

lemma mem_value_figure: "n < 2 ^ 63 \<Longrightarrow> mem_value (replicate blanks CHR '' '' @ show_nat n @ '' kB'') = word_of_nat n"
proof -
  assume n: "n < 2 ^ 63"
  have digits: "list_all is_digit (show_nat n)" using show_nat_digits [of n] by (simp add: list_all_iff)
  have "digit_run [] (replicate blanks CHR '' '' @ show_nat n @ '' kB'') = digit_run [] (show_nat n @ '' kB'')"
    by (induction blanks) (auto simp: is_digit_def)
  also have "\<dots> = show_nat n" using digit_run_digits [OF digits, of "[]" "''kB''"] by simp
  finally have d: "digit_run [] (replicate blanks CHR '' '' @ show_nat n @ '' kB'') = show_nat n" .
  have "sint (word_of_nat n :: i64) = int n" using n by (simp add: signed_of_nat signed_take_bit_int_eq_self)
  with parseInt_show_int [of "word_of_nat n"] have "parseInt (show_nat n) = Some (word_of_nat n)" by (simp add: show_int_def)
  with d show ?thesis by (simp add: mem_value_def)
qed

lemma names_key_figure:
  assumes "figure_key key" "figure_key k" shows "names_key key (k @ CHR '':'' # t) \<longleftrightarrow> k = key"
proof
  assume n: "names_key key (k @ CHR '':'' # t)"
  then have p: "take (length key) (k @ CHR '':'' # t) = key" "(k @ CHR '':'' # t) ! length key = CHR '':''"
    by (auto simp: names_key_def startsWith_def)
  have "\<not> length key < length k"
  proof
    assume "length key < length k"
    with p(2) have "k ! length key = CHR '':''" by (simp add: nth_append)
    with \<open>length key < length k\<close> assms(2) show False by (metis figure_key_def nth_mem)
  qed
  moreover have "\<not> length k < length key"
  proof
    assume l: "length k < length key"
    with p(1) have "key ! length k = (k @ CHR '':'' # t) ! length k" by (metis nth_take)
    with l assms(1) show False by (metis figure_key_def nth_append_length nth_mem)
  qed
  ultimately show "k = key" using p(1) by (simp add: linorder_neq_iff)
qed (simp add: names_key_def startsWith_def)

lemma mem_loop_line:
  assumes "CHR 0x0A \<notin> set line"
  shows "mem_loop key (line @ CHR 0x0A # u) = (if names_key key line then mem_value (drop (length key + 1) line) else mem_loop key u)"
proof -
  have "takeWhile (\<lambda>c. c \<noteq> CHR 0x0A) (line @ CHR 0x0A # u) = line"
    using assms by (subst takeWhile_append2) auto
  then show ?thesis by (subst mem_loop.simps) (simp add: Let_def)
qed

lemma mem_loop_figures:
  assumes "figure_key key" "list_all (\<lambda>(k, b, n). figure_key k \<and> n < 2 ^ 63) figs"
  shows "mem_loop key (concat (map figure_line figs)) = (case map_of (map (\<lambda>(k, b, n). (k, n)) figs) key of Some n \<Rightarrow> word_of_nat n | None \<Rightarrow> - 1)"
  using assms(2)
proof (induction figs)
  case Nil
  show ?case by (subst mem_loop.simps) simp
next
  case (Cons f figs)
  obtain k b n where f: "f = (k, b, n)" by (cases f)
  define rest where "rest = replicate b CHR '' '' @ show_nat n @ '' kB''"
  define line where "line = k @ CHR '':'' # rest"
  from Cons.prems f have k: "figure_key k" and n: "n < 2 ^ 63" by simp_all
  have nl: "CHR 0x0A \<notin> set line"
    using k show_nat_digits [of n] by (auto simp: figure_key_def is_digit_def line_def rest_def)
  have split: "concat (map figure_line (f # figs)) = line @ CHR 0x0A # concat (map figure_line figs)"
    by (simp add: figure_line_def f line_def rest_def)
  have key: "names_key key line \<longleftrightarrow> k = key" unfolding line_def by (rule names_key_figure [OF assms(1) k])
  have figure: "k = key \<Longrightarrow> mem_value (drop (length key + 1) line) = word_of_nat n"
    using mem_value_figure [OF n, of b] by (simp add: line_def rest_def)
  show ?case unfolding split mem_loop_line [OF nl] using Cons key figure by (simp add: f)
qed

text \<open>
  The figures of \<open>/proc/meminfo\<close> are read back exactly: every key of a file as the kernel writes it
  gives the number of its own line, whatever the other lines are, and a key that is missing gives -1.
\<close>

theorem memory_figure_read:
  assumes "figure_key key" "list_all (\<lambda>(k, b, n). figure_key k \<and> n < 2 ^ 63) figs"
  shows "parseMemInfoValue (concat (map figure_line figs)) key =
    (case map_of (map (\<lambda>(k, b, n). (k, n)) figs) key of Some n \<Rightarrow> word_of_nat n | None \<Rightarrow> - 1)"
  unfolding parseMemInfoValue_def by (rule mem_loop_figures [OF assms])

theorem memory_figure_read_witness:
  "parseMemInfoValue (concat (map figure_line [(''MemTotal'', 8, 16384), (''MemFree'', 9, 17)])) ''MemFree'' = 17"
  by (subst memory_figure_read) (simp_all add: figure_key_def)

section \<open>Disks\<close>

text \<open>What the filter of mount points keeps and drops beyond the intent of its comments.\<close>

lemma mount_sysroot_dropped: "mount_of ''/dev/sda1 /sysroot ext4 rw 0 0'' = []"
  by code_simp

lemma mount_tmpfs_kept: "mount_of ''tmpfs /run tmpfs rw 0 0'' = [(''tmpfs'', ''/run'')]"
  by code_simp

lemma mount_escape_kept:
  "mount_of (''/dev/sdb1 /mnt/my'' @ [CHR 0x5C] @ ''040disk ext4 rw 0 0'') = [(''/dev/sdb1'', ''/mnt/my'' @ [CHR 0x5C] @ ''040disk'')]"
  by code_simp

lemma disks_loop_bound: "disks_loop statvfs ms acc = Some ds \<Longrightarrow> length acc < 12 \<Longrightarrow> length ds \<le> 12"
  by (induction statvfs ms acc rule: disks_loop.induct) (auto simp: Let_def split: option.splits if_splits)

lemma disks_bounded: "readDiskUsage fs statvfs = Some ds \<Longrightarrow> length ds \<le> 12"
  unfolding readDiskUsage_def by (rule disks_loop_bound) auto

end
