(* ===== verification/Spec2Isabelle.thy ===== *)
theory Spec2Isabelle
  imports Glob Json_Safety Logger Selector Classifier Test_Result Cancel_Token Thread_Pool Schedule
    Url_Facts Http_Acceptor Client_Facts Wire_Facts Spec_Facts Configuration Command_Line Failure_Context
    History_Facts Report_Writer Junit_Facts Run_Service Diagnostic_Collector
begin

text \<open>
  TestForge runs tests against a service and reports on them. It is one C++ program: a registry of tests,
  a runner with a thread pool, an HTTP client and an HTTP server of its own, a results database, reports,
  diagnostics of the machine, a command line and a REST API, and a boundary to a language model that
  proposes tests and explains failures. This library models the program under \<open>src/\<close> and
  \<open>include/testforge/\<close> and proves what makes its parts correct. All definitions are shallow: a function
  of the source is a function here, on records with the fields of its classes. A definition has the name
  of what it models, in the spelling of the source where HOL has no constant of that name.

  \<^bold>\<open>Conventions.\<close> A \<open>std::string\<close> is a list of bytes, a 64-bit integer a word, an \<open>int\<close> an integer with its
  conversions written out, a \<open>double\<close> its bit pattern (\<open>F64\<close>, with correct rounding). An exception is the
  left side of a sum. \<open>None\<close> is an operation that C++ leaves undefined (a conversion out of range, an
  overflow of a clock) or a computation that has not returned. What the program only observes is an
  argument: the clock, what a system call returned, what a file holds, what a test body did, which worker
  moves next. A theorem therefore holds of every behaviour of the world around the program.

  \<^bold>\<open>Foundations.\<close> \<open>Prelude\<close>, \<open>Transition\<close> (runs of a step relation; the locales \<open>invariant_system\<close> and
  \<open>terminating_system\<close>), \<open>Ordered_Map\<close> (\<open>std::map\<close>; the locale \<open>keyed_store\<close>), \<open>String_Utils\<close>, \<open>Glob\<close>,
  \<open>Redact\<close> and \<open>Number_Text\<close> (\<open>core/StringUtils.cpp\<close>), \<open>F64\<close>, \<open>F64_Facts\<close>, \<open>F64_Roundtrip\<close>, \<open>F64_Arith\<close>
  and \<open>F64_Order\<close> (binary64: rounding, printing, reading, arithmetic, order), \<open>Ids\<close>, \<open>Clock\<close>.

  \<^bold>\<open>Documents.\<close> \<open>Json\<close> and \<open>Json_Text\<close> (\<open>core/Json.cpp\<close>): the value, the writer and the parser.
  \<open>Json_Roundtrip\<close> shows that the parser reads what the writer wrote, numbers included (the locale
  \<open>double_format\<close> is what the writer relies on), \<open>Json_Safety\<close> what the parser guarantees of any text.

  \<^bold>\<open>Tests and results.\<close> \<open>Status\<close>, \<open>Core_Types\<close>, \<open>Test_Case\<close>, \<open>Registry\<close>, \<open>Selector\<close>, \<open>Classifier\<close>,
  \<open>Test_Result\<close>, \<open>Assertions\<close>: the data of a test, the registry, filters and shards, the categories of
  failures, results with their statistics and exit code, and the assertions with their scopes. A factory of
  the registry is foreign code: it makes a test or nothing, or throws.

  \<^bold>\<open>Execution\<close> (\<open>execution/\<close>). \<open>Cancel_Token\<close> and \<open>Thread_Pool\<close> are the synchronisation, the pool as a
  step relation. \<open>Execution\<close> has one body and the bounded wait, \<open>Runner\<close> one attempt (\<open>runOne\<close>), the
  retries and the run on one worker, \<open>Schedule\<close> the run on several as a step relation over the tasks, their
  attempts, the tasks that throw, and the cancellation from outside. \<open>Runner_Facts\<close> shows the verdict of
  an attempt on every way through it and that the deadline decides; \<open>Run_Facts\<close> that an attempt has a
  result, the retry policy, and the run on one worker; \<open>Schedule\<close> that no interleaving loses or repeats a
  test, that a schedule ends, and that no request to cancel is lost. \<open>Run_Service\<close> puts the run together:
  host name, commit and environment, the observers, the database and the reports, as the command line and
  the API ask for it; there are the theorems on what success means, on what is stored of a run, and on the
  registry under any sequence of requests.

  \<^bold>\<open>Network\<close> (\<open>net/\<close>). \<open>Url\<close>, \<open>Http_Types\<close>, \<open>Http_Wire\<close>; the client in \<open>Http_Client\<close> (its loops over the
  socket) and \<open>Http_Exchange\<close> (\<open>perform\<close> with redirects); the server in \<open>Http_Server\<close>, \<open>Http_Connection\<close>
  and \<open>Http_Acceptor\<close>. \<open>Url_Facts\<close> has the URL policy, \<open>Client_Facts\<close> the policy on every hop, the
  credentials and the deadlines, \<open>Wire_Facts\<close> that client and server of the program understand each other.

  \<^bold>\<open>Generated tests\<close> (\<open>ai/\<close>, \<open>testing/\<close>). \<open>Test_Spec\<close> and \<open>Spec_Validator\<close> with \<open>Validator_Facts\<close>:
  \<open>spec_safe\<close> states every rule of the validator, and the validator accepts exactly the tests that meet
  them. \<open>Spec_Case\<close> with \<open>Spec_Facts\<close>: their execution, registration and the requests they can make.
  \<open>Failure_Context\<close> is the evidence of a failure that leaves the program, \<open>Ai_Provider\<close> the providers,
  \<open>Provider_Facts\<close> their contract (the locale \<open>ai_contract\<close>, interpreted on each of them).

  \<^bold>\<open>Persistence\<close> (\<open>persistence/\<close>). \<open>Repository\<close> and \<open>Run_History\<close> take a table as the list of its rows and a
  statement as what its SQL says of them. \<open>Repository_Facts\<close> relates them to a map from ids to runs and
  shows that a recorded run loads; \<open>History_Facts\<close> has the rule for flaky tests in exact arithmetic.

  \<^bold>\<open>Output.\<close> \<open>Logger\<close>; \<open>Junit\<close>, \<open>Junit_Facts\<close>, \<open>Html_Report\<close>, \<open>Console_Report\<close>, \<open>Report_Writer\<close>
  (\<open>reporting/\<close>); \<open>System_Info\<close>, \<open>Gpu_Providers\<close> (the locale \<open>gpu_provider\<close>), \<open>Linux_Diagnostics\<close>,
  \<open>Diagnostic_Collector\<close> (\<open>diagnostics/\<close>); \<open>Child_Process\<close> (\<open>core/Process.cpp\<close>).

  \<^bold>\<open>Front ends.\<close> \<open>Environment\<close>, \<open>Configuration\<close>, \<open>Command_Line\<close>; \<open>Cli_Output\<close>, \<open>Cli_Queries\<close>,
  \<open>Cli_Actions\<close> and \<open>Cli_Main\<close> (\<open>cli/\<close>) with \<open>Cli_Facts\<close>; \<open>Service\<close> and \<open>Rest_Api\<close> (\<open>api/\<close>) with
  \<open>Rest_Facts\<close>. A command or a handler is a function of its arguments and the service to its answer and
  the service after it.

  \<^bold>\<open>Loops.\<close> A loop over text is a \<open>function\<close> with a measure, so it ends. A loop over a system call recurses
  over the list of its observations and gives \<open>None\<close> when they run out before it is left; that the
  observations it needs are few is a theorem where the loop has a deadline (\<open>Client_Facts\<close>,
  \<open>Run_Facts\<close>, \<open>Child_Process\<close>). The decoder of chunked bodies can loop for ever, and there is a lemma that
  it does. The only fuel is the depth of a JSON document (64, the limit of the parser), the number of
  redirects (the limit of the client) and the number of attempts of a test (one and the retries allowed).

  \<^bold>\<open>Abstractions.\<close> A critical section under a mutex is one step. The wait of the grace period after a
  deadline is one call of the library, whose outcome is observed. Taking a connection and refusing it is one
  step of the acceptor, so the descriptor of a refused connection is not counted while it is being closed.
  The order of rows that \<open>ORDER BY\<close> gives is a parameter, constrained only where a theorem says so
  (\<open>orders_by\<close>); so are \<open>AVG\<close>, \<open>LIKE\<close>, the shuffle of the standard library and the order \<open>std::sort\<close> gives
  to equal elements. Tests and factories do not change the registry while a run lasts. An exception that
  leaves a command after the dispatch is an observation of \<open>main\<close>.

  \<^bold>\<open>Not modelled.\<close> SQLite and its wrapper (\<open>persistence/Database.cpp\<close>), opening and closing of the listening
  socket, the RAII wrappers of descriptors, what a child does between \<open>fork\<close> and \<open>exec\<close>, opening the streams
  of the log, \<open>isNear\<close> and the printing of floating-point numbers and pointers in assertions, the values a
  test reads from the configuration, the banner of the version, threads that cannot be created, the sample
  tests under \<open>examples/\<close> and the benchmarks.
\<close>

end
